(* ===== verification/Prelude.thy ===== *)
theory Prelude
  imports Main "HOL-Library.Word"
begin

text \<open>
  Shared vocabulary of the development: the machine types of the Rust sources, the model of
  panics and of the \<^verbatim>\<open>?\<close> operator, the checked, saturating and wrapping operations of
  the Rust integer types, and big-endian byte strings with their round trips.

  Conventions used by every theory:
  \<^item> \<open>uN\<close> is the \<open>N\<close>-bit word type; \<open>usize\<close> values that are lengths or indices are \<open>nat\<close>.
  \<^item> A computation that may panic has type \<open>'a eval\<close>: \<open>Panic\<close> or \<open>Val x\<close>. Rust's unchecked
    \<^verbatim>\<open>+\<close>, \<^verbatim>\<open>-\<close> and \<^verbatim>\<open>*\<close> panic on overflow when overflow checks are on; the model uses
    that reading, so a theorem that a computation is \<open>Val\<close> holds with and without the checks.
  \<^item> \<^verbatim>\<open>Result<T, E>\<close> is \<open>'e + 'a\<close> with \<open>Inl\<close> the error, and \<^verbatim>\<open>Option<T>\<close> is \<open>'a option\<close>.
  \<^item> A method on \<^verbatim>\<open>&mut self\<close> takes the state and returns the new state beside its result;
    an \<open>Err\<close> keeps the state as mutated so far, as the code does.
\<close>

named_theorems evals \<open>how panicking computations compose\<close>
named_theorems checked \<open>the checked, saturating and wrapping integer operations\<close>

section \<open>Machine types\<close>

type_synonym u8 = "8 word"
type_synonym u16 = "16 word"
type_synonym u32 = "32 word"
type_synonym u64 = "64 word"
type_synonym u128 = "128 word"
type_synonym u256 = "256 word"
type_synonym b256 = "256 word"
type_synonym address = "160 word"
type_synonym bytes = "u8 list"

section \<open>Panics and the question mark operator\<close>

datatype 'a eval = Panic | Val 'a

text \<open>Sequencing of computations that may panic.\<close>

fun bindE :: "'a eval \<Rightarrow> ('a \<Rightarrow> 'b eval) \<Rightarrow> 'b eval" where
  "bindE Panic f = Panic"
| "bindE (Val x) f = f x"

text \<open>
  The \<^verbatim>\<open>?\<close> operator on a stateful \<open>Result\<close>: an error is returned with the state reached,
  a value is passed on with the state.
\<close>

fun tryE :: "(('e + 'a) \<times> 's) eval \<Rightarrow> ('a \<Rightarrow> 's \<Rightarrow> (('e + 'b) \<times> 's) eval) \<Rightarrow> (('e + 'b) \<times> 's) eval"
where
  "tryE Panic f = Panic"
| "tryE (Val (Inl e, s)) f = Val (Inl e, s)"
| "tryE (Val (Inr x, s)) f = f x s"

text \<open>The same operator on a \<open>Result\<close> without state.\<close>

fun tryR :: "('e + 'a) eval \<Rightarrow> ('a \<Rightarrow> ('e + 'b) eval) \<Rightarrow> ('e + 'b) eval" where
  "tryR Panic f = Panic"
| "tryR (Val (Inl e)) f = Val (Inl e)"
| "tryR (Val (Inr x)) f = f x"

text \<open>\<^verbatim>\<open>unwrap\<close> on an \<^verbatim>\<open>Option\<close>.\<close>

fun unwrap :: "'a option \<Rightarrow> 'a eval" where
  "unwrap None = Panic"
| "unwrap (Some x) = Val x"

lemma bindE_Val_iff [evals]: "bindE m f = Val y \<longleftrightarrow> (\<exists>x. m = Val x \<and> f x = Val y)"
  by (cases m) auto

lemma bindE_Panic_iff [evals]: "bindE m f = Panic \<longleftrightarrow> m = Panic \<or> (\<exists>x. m = Val x \<and> f x = Panic)"
  by (cases m) auto

lemma bindE_assoc: "bindE (bindE m f) g = bindE m (\<lambda>x. bindE (f x) g)"
  by (cases m) auto

lemma unwrap_Val_iff [simp]: "unwrap m = Val x \<longleftrightarrow> m = Some x"
  by (cases m) auto

lemma unwrap_Panic_iff [simp]: "unwrap m = Panic \<longleftrightarrow> m = None"
  by (cases m) auto

lemma tryE_Val_Inr_iff [evals]:
  "tryE m f = Val (Inr y, s') \<longleftrightarrow> (\<exists>x s. m = Val (Inr x, s) \<and> f x s = Val (Inr y, s'))"
  by (induction m f rule: tryE.induct) auto

lemma tryE_Val_Inl_iff [evals]:
  "tryE m f = Val (Inl e, s') \<longleftrightarrow>
     m = Val (Inl e, s') \<or> (\<exists>x s. m = Val (Inr x, s) \<and> f x s = Val (Inl e, s'))"
  by (induction m f rule: tryE.induct) auto

lemma tryE_Panic_iff [evals]:
  "tryE m f = Panic \<longleftrightarrow> m = Panic \<or> (\<exists>x s. m = Val (Inr x, s) \<and> f x s = Panic)"
  by (induction m f rule: tryE.induct) auto

lemma tryE_assoc: "tryE (tryE m f) g = tryE m (\<lambda>x s. tryE (f x s) g)"
  by (induction m f rule: tryE.induct) auto

lemma tryR_Val_Inr_iff [evals]:
  "tryR m f = Val (Inr y) \<longleftrightarrow> (\<exists>x. m = Val (Inr x) \<and> f x = Val (Inr y))"
  by (induction m f rule: tryR.induct) auto

lemma tryR_Panic_iff [evals]:
  "tryR m f = Panic \<longleftrightarrow> m = Panic \<or> (\<exists>x. m = Val (Inr x) \<and> f x = Panic)"
  by (induction m f rule: tryR.induct) auto

text \<open>Case analysis of a stateful \<open>Result\<close>.\<close>

lemma result_cases [case_names panic err ok]:
  fixes m :: "(('e + 'a) \<times> 's) eval"
  obtains "m = Panic" | e s where "m = Val (Inl e, s)" | x s where "m = Val (Inr x, s)"
proof (cases m)
  case (Val p)
  obtain r s where p: "p = (r, s)" by (cases p)
  show ?thesis using that(2,3) Val p by (cases r) auto
qed (use that(1) in simp)

section \<open>Rust integer operations\<close>

definition checked_add :: "'a::len word \<Rightarrow> 'a word \<Rightarrow> 'a word option" where
  "checked_add x y = (if unat x + unat y < 2 ^ LENGTH('a) then Some (x + y) else None)"

definition checked_sub :: "'a::len word \<Rightarrow> 'a word \<Rightarrow> 'a word option" where
  "checked_sub x y = (if y \<le> x then Some (x - y) else None)"

definition checked_mul :: "'a::len word \<Rightarrow> 'a word \<Rightarrow> 'a word option" where
  "checked_mul x y = (if unat x * unat y < 2 ^ LENGTH('a) then Some (x * y) else None)"

definition saturating_add :: "'a::len word \<Rightarrow> 'a word \<Rightarrow> 'a word" where
  "saturating_add x y = (if unat x + unat y < 2 ^ LENGTH('a) then x + y else - 1)"

definition saturating_sub :: "'a::len word \<Rightarrow> 'a word \<Rightarrow> 'a word" where
  "saturating_sub x y = (if y \<le> x then x - y else 0)"

definition saturating_mul :: "'a::len word \<Rightarrow> 'a word \<Rightarrow> 'a word" where
  "saturating_mul x y = (if unat x * unat y < 2 ^ LENGTH('a) then x * y else - 1)"

text \<open>Rust's plain \<^verbatim>\<open>+\<close>, \<^verbatim>\<open>-\<close> and \<^verbatim>\<open>*\<close>: a panic on overflow.\<close>

definition plus_or_panic :: "'a::len word \<Rightarrow> 'a word \<Rightarrow> 'a word eval" where
  "plus_or_panic x y = unwrap (checked_add x y)"

definition minus_or_panic :: "'a::len word \<Rightarrow> 'a word \<Rightarrow> 'a word eval" where
  "minus_or_panic x y = unwrap (checked_sub x y)"

definition times_or_panic :: "'a::len word \<Rightarrow> 'a word \<Rightarrow> 'a word eval" where
  "times_or_panic x y = unwrap (checked_mul x y)"

lemma unat_plus_if_small:
  fixes x y :: "'a::len word"
  assumes "unat x + unat y < 2 ^ LENGTH('a)"
  shows "unat (x + y) = unat x + unat y"
  using assms by (simp add: unat_word_ariths)

lemma unat_mult_if_small:
  fixes x y :: "'a::len word"
  assumes "unat x * unat y < 2 ^ LENGTH('a)"
  shows "unat (x * y) = unat x * unat y"
  using assms by (simp add: unat_word_ariths)

lemma unat_minus_if_le:
  fixes x y :: "'a::len word"
  assumes "y \<le> x"
  shows "unat (x - y) = unat x - unat y"
  using assms by (simp add: unat_sub)

lemma unat_max_word [simp]: "unat (- 1 :: 'a::len word) = 2 ^ LENGTH('a) - 1"
  by (simp add: unsigned_minus_1_eq_mask mask_eq_exp_minus_1)

lemma unat_lt_length [simp]: "unat (x :: 'a::len word) < 2 ^ LENGTH('a)"
  by (rule unsigned_less)

lemma unat_of_nat_small: "n < 2 ^ LENGTH('a) \<Longrightarrow> unat (of_nat n :: 'a::len word) = n"
  by (simp add: unat_of_nat take_bit_nat_eq_self)

lemma unat_inc:
  fixes n :: "'a::len word"
  assumes "n \<noteq> - 1"
  shows "unat (n + 1) = unat n + 1"
proof -
  have "unat n \<noteq> unat (- 1 :: 'a word)" using assms by (simp only: word_unat_eq_iff not_False_eq_True)
  moreover have "unat n < 2 ^ LENGTH('a)" by simp
  ultimately have "unat n + unat (1 :: 'a word) < 2 ^ LENGTH('a)" by (simp only: unat_max_word unsigned_1)
  from unat_plus_if_small [OF this] show ?thesis by simp
qed

lemma one_le_inc: "n \<noteq> - 1 \<Longrightarrow> 1 \<le> n + 1" for n :: "'a::len word"
  by (simp add: word_le_nat_alt unat_inc)

lemma checked_add_Some_iff [checked]:
  "checked_add x y = Some z \<longleftrightarrow> unat x + unat y < 2 ^ LENGTH('a) \<and> z = x + y"
  for x y z :: "'a::len word"
  by (auto simp: checked_add_def)

lemma checked_add_None_iff [checked]:
  "checked_add x y = None \<longleftrightarrow> 2 ^ LENGTH('a) \<le> unat x + unat y" for x y :: "'a::len word"
  by (auto simp: checked_add_def)

lemma checked_sub_Some_iff [checked]: "checked_sub x y = Some z \<longleftrightarrow> y \<le> x \<and> z = x - y"
  by (auto simp: checked_sub_def)

lemma checked_sub_None_iff [checked]: "checked_sub x y = None \<longleftrightarrow> x < y"
  by (auto simp: checked_sub_def)

lemma checked_mul_Some_iff [checked]:
  "checked_mul x y = Some z \<longleftrightarrow> unat x * unat y < 2 ^ LENGTH('a) \<and> z = x * y"
  for x y z :: "'a::len word"
  by (auto simp: checked_mul_def)

lemma unat_saturating_add [checked]:
  "unat (saturating_add x y) = min (unat x + unat y) (2 ^ LENGTH('a) - 1)"
  for x y :: "'a::len word"
  by (auto simp: saturating_add_def unat_plus_if_small)

lemma unat_saturating_sub [checked]: "unat (saturating_sub x y) = unat x - unat y"
  for x y :: "'a::len word"
  by (auto simp: saturating_sub_def unat_minus_if_le word_le_nat_alt)

lemma unat_saturating_mul [checked]:
  "unat (saturating_mul x y) = min (unat x * unat y) (2 ^ LENGTH('a) - 1)"
  for x y :: "'a::len word"
  by (auto simp: saturating_mul_def unat_mult_if_small)

section \<open>Big-endian byte strings\<close>

text \<open>The value of a byte string read most significant byte first, and its inverse.\<close>

definition be_nat :: "bytes \<Rightarrow> nat" where
  "be_nat bs = foldl (\<lambda>acc b. acc * 256 + unat b) 0 bs"

fun nat_be :: "nat \<Rightarrow> nat \<Rightarrow> bytes" where
  "nat_be 0 v = []"
| "nat_be (Suc n) v = nat_be n (v div 256) @ [of_nat v]"

text \<open>\<^verbatim>\<open>to_be_bytes\<close> and \<^verbatim>\<open>from_be_bytes\<close> of the unsigned integer types.\<close>

definition to_be_bytes :: "'a::len word \<Rightarrow> bytes" where
  "to_be_bytes w = nat_be (LENGTH('a) div 8) (unat w)"

definition from_be_bytes :: "bytes \<Rightarrow> 'a::len word" where
  "from_be_bytes bs = of_nat (be_nat bs)"

lemma length_nat_be [simp]: "length (nat_be n v) = n"
  by (induction n arbitrary: v) auto

lemma be_nat_snoc [simp]: "be_nat (bs @ [b]) = be_nat bs * 256 + unat b"
  by (simp add: be_nat_def)

lemma be_nat_Nil [simp]: "be_nat [] = 0"
  by (simp add: be_nat_def)

lemma be_nat_less: "be_nat bs < 256 ^ length bs"
proof (induction bs rule: rev_induct)
  case (snoc b bs)
  have "unat b < 256" using unat_lt_length [of b] by simp
  with snoc have "be_nat bs * 256 + unat b < (be_nat bs + 1) * 256" by simp
  also have "\<dots> \<le> 256 ^ length bs * 256"
    using snoc by (intro mult_right_mono) auto
  finally show ?case by (simp add: mult.commute)
qed simp

lemma be_nat_nat_be: "be_nat (nat_be n v) = v mod 256 ^ n"
proof (induction n arbitrary: v)
  case (Suc n)
  have "be_nat (nat_be (Suc n) v) = (v div 256) mod 256 ^ n * 256 + v mod 256"
    using Suc by (simp add: unat_of_nat take_bit_eq_mod)
  also have "\<dots> = v mod (256 * 256 ^ n)"
    by (simp add: mod_mult2_eq)
  finally show ?case by simp
qed simp

lemma nat_be_be_nat: "nat_be (length bs) (be_nat bs) = bs"
proof (induction bs rule: rev_induct)
  case (snoc b bs)
  have lt: "unat b < 256" using unat_lt_length [of b] by simp
  have "(be_nat bs * 256 + unat b) div 256 = be_nat bs"
    using lt by simp
  moreover have "(of_nat (be_nat bs * 256 + unat b) :: u8) = b"
  proof -
    have "(of_nat (be_nat bs * 256 + unat b) :: u8) = of_nat (be_nat bs) * of_nat 256 + of_nat (unat b)"
      by simp
    also have "(of_nat 256 :: u8) = 0" by simp
    finally show ?thesis by simp
  qed
  ultimately show ?case using snoc by simp
qed simp

lemma length_to_be_bytes [simp]: "length (to_be_bytes (w :: 'a::len word)) = LENGTH('a) div 8"
  by (simp add: to_be_bytes_def)

lemma from_to_be_bytes:
  fixes w :: "'a::len word"
  assumes "8 dvd LENGTH('a)"
  shows "from_be_bytes (to_be_bytes w) = w"
proof -
  have "(256::nat) ^ (LENGTH('a) div 8) = 2 ^ (8 * (LENGTH('a) div 8))"
    by (simp add: power_mult)
  also have "8 * (LENGTH('a) div 8) = LENGTH('a)"
    using assms by simp
  finally show ?thesis
    by (simp add: to_be_bytes_def from_be_bytes_def be_nat_nat_be)
qed

lemma to_from_be_bytes:
  fixes bs :: bytes
  assumes "8 * length bs = LENGTH('a)"
  shows "to_be_bytes (from_be_bytes bs :: 'a::len word) = bs"
proof -
  have n: "LENGTH('a) div 8 = length bs" using assms by simp
  have "(256::nat) ^ length bs = 2 ^ LENGTH('a)"
    using assms by (simp add: power_mult flip: assms)
  then have "be_nat bs < 2 ^ LENGTH('a)"
    using be_nat_less [of bs] by simp
  then have "unat (of_nat (be_nat bs) :: 'a word) = be_nat bs"
    by (simp add: unat_of_nat take_bit_nat_eq_self)
  then show ?thesis
    by (simp add: to_be_bytes_def from_be_bytes_def n nat_be_be_nat)
qed

section \<open>Shared list and map facts\<close>

text \<open>\<^verbatim>\<open>Vec::push\<close> on the last vector of a vector of vectors.\<close>

definition push_last :: "'a \<Rightarrow> 'a list list \<Rightarrow> 'a list list" where
  "push_last x xss = butlast xss @ [last xss @ [x]]"

lemma concat_push_last [simp]: "xss \<noteq> [] \<Longrightarrow> concat (push_last x xss) = concat xss @ [x]"
  by (cases xss rule: rev_cases) (auto simp: push_last_def)

lemma length_push_last [simp]: "xss \<noteq> [] \<Longrightarrow> length (push_last x xss) = length xss"
  by (cases xss rule: rev_cases) (auto simp: push_last_def)

lemma push_last_not_Nil [simp]: "push_last x xss \<noteq> []"
  by (simp add: push_last_def)

lemma take_push_last [simp]: "n < length xss \<Longrightarrow> take n (push_last x xss) = take n xss"
  by (cases xss rule: rev_cases) (auto simp: push_last_def)

lemma concat_drop_push_last [simp]:
  "n < length xss \<Longrightarrow> concat (drop n (push_last x xss)) = concat (drop n xss) @ [x]"
  by (cases xss rule: rev_cases) (auto simp: push_last_def)

end
