(* ===== verification/Eof.thy ===== *)
theory Eof
  imports Prelude
begin

text \<open>
  The Ethereum Object Format container of \<^verbatim>\<open>crates/primitives/src/bytecode/eof\<close>: header,
  types section, body, their encoders and decoders. Reads and slices that Rust bounds-checks
  are \<open>Panic\<close> out of range; the 16-bit product \<^verbatim>\<open>num_sections * 2\<close> is checked.
\<close>

section \<open>Data\<close>

record types_section =
  ts_inputs :: u8
  ts_outputs :: u8
  max_stack_size :: u16

record eof_header =
  types_size :: u16
  code_sizes :: "u16 list"
  container_sizes :: "u16 list"
  data_size :: u16
  sum_code_sizes :: nat
  sum_container_sizes :: nat

record eof_body =
  types_sections :: "types_section list"
  code_section :: "bytes list"
  container_section :: "bytes list"
  data_section :: bytes
  is_data_filled :: bool

record eof =
  eof_header :: eof_header
  eof_body :: eof_body
  eof_raw :: bytes

datatype eof_decode_error =
    MissingInput | MissingBodyWithoutData | DanglingData | InvalidTypesSection
  | InvalidTypesSectionSize | InvalidEOFMagicNumber | InvalidEOFVersion | InvalidTypesKind
  | InvalidCodeKind | InvalidTerminalByte | InvalidDataKind | InvalidKindAfterCode
  | MismatchCodeAndTypesSize | NonSizes | ShortInputForSizes | ZeroSize | TooManyCodeSections
  | ZeroCodeSections | TooManyContainerSections

definition KIND_TERMINAL :: u8 where "KIND_TERMINAL = 0"
definition KIND_TYPES :: u8 where "KIND_TYPES = 1"
definition KIND_CODE :: u8 where "KIND_CODE = 2"
definition KIND_CONTAINER :: u8 where "KIND_CONTAINER = 3"
definition KIND_DATA :: u8 where "KIND_DATA = 4"

lemmas kind_defs = KIND_TERMINAL_def KIND_TYPES_def KIND_CODE_def KIND_CONTAINER_def KIND_DATA_def

section \<open>Readers\<close>

fun consume_u8 :: "bytes \<Rightarrow> eof_decode_error + (bytes \<times> u8)" where
  "consume_u8 [] = Inl MissingInput"
| "consume_u8 (b # rest) = Inr (rest, b)"

fun consume_u16 :: "bytes \<Rightarrow> eof_decode_error + (bytes \<times> u16)" where
  "consume_u16 (a # b # rest) = Inr (rest, from_be_bytes [a, b])"
| "consume_u16 _ = Inl MissingInput"

text \<open>The loop of \<^verbatim>\<open>consume_header_section_size\<close>: the sizes and their sum.\<close>

fun read_sizes :: "nat \<Rightarrow> bytes \<Rightarrow> (eof_decode_error + (u16 list \<times> nat)) eval" where
  "read_sizes 0 input = Val (Inr ([], 0))"
| "read_sizes (Suc n) (a # b # rest) =
     (let code_size = from_be_bytes [a, b]
      in if code_size = 0 then Val (Inl ZeroSize)
         else tryR (read_sizes n rest)
                (\<lambda>(sizes, total). Val (Inr (code_size # sizes, unat code_size + total))))"
| "read_sizes (Suc n) _ = Panic"

definition consume_header_section_size ::
  "bytes \<Rightarrow> (eof_decode_error + (bytes \<times> u16 list \<times> nat)) eval" where
  "consume_header_section_size input =
     tryR (Val (consume_u16 input)) (\<lambda>(input, num_sections).
       if num_sections = 0 then Val (Inl NonSizes)
       else bindE (unwrap (checked_mul num_sections 2)) (\<lambda>product.
         let byte_size = unat product
         in if length input < byte_size then Val (Inl ShortInputForSizes)
            else tryR (read_sizes (unat num_sections) input) (\<lambda>(sizes, total).
              Val (Inr (drop byte_size input, sizes, total)))))"

section \<open>Header\<close>

definition header_size :: "eof_header \<Rightarrow> nat" where
  "header_size h =
     13 + length (code_sizes h) * 2
        + (if container_sizes h = [] then 0 else 3 + length (container_sizes h) * 2)"

definition types_count :: "eof_header \<Rightarrow> nat" where
  "types_count h = unat (types_size h) div 4"

definition body_size :: "eof_header \<Rightarrow> nat" where
  "body_size h = sum_code_sizes h + sum_container_sizes h + unat (data_size h)"

definition eof_size :: "eof_header \<Rightarrow> nat" where
  "eof_size h = header_size h + body_size h"

definition encode_sizes :: "u16 list \<Rightarrow> bytes" where
  "encode_sizes sizes = to_be_bytes (of_nat (length sizes) :: u16) @ concat (map to_be_bytes sizes)"

definition header_encode :: "eof_header \<Rightarrow> bytes" where
  "header_encode h =
     to_be_bytes (0xEF00 :: u16) @ [0x01] @ [KIND_TYPES] @ to_be_bytes (types_size h) @
     [KIND_CODE] @ encode_sizes (code_sizes h) @
     (if container_sizes h = [] then [KIND_DATA]
      else [KIND_CONTAINER] @ encode_sizes (container_sizes h) @ [KIND_DATA]) @
     to_be_bytes (data_size h) @ [KIND_TERMINAL]"

text \<open>The tail of \<^verbatim>\<open>EofHeader::decode\<close>: data size and terminator.\<close>

definition header_decode_tail ::
  "eof_header \<Rightarrow> bytes \<Rightarrow> (eof_decode_error + (eof_header \<times> bytes)) eval" where
  "header_decode_tail h input =
     tryR (Val (consume_u16 input)) (\<lambda>(input, data_size).
     tryR (Val (consume_u8 input)) (\<lambda>(input, terminator).
       if terminator \<noteq> KIND_TERMINAL then Val (Inl InvalidTerminalByte)
       else Val (Inr (h\<lparr>data_size := data_size\<rparr>, input))))"

text \<open>The middle of \<^verbatim>\<open>EofHeader::decode\<close>: the optional container sizes.\<close>

definition header_decode_containers ::
  "eof_header \<Rightarrow> bytes \<Rightarrow> (eof_decode_error + (eof_header \<times> bytes)) eval" where
  "header_decode_containers h input =
     tryR (Val (consume_u8 input)) (\<lambda>(input, kind_container_or_data).
       if kind_container_or_data = KIND_CONTAINER then
         tryR (consume_header_section_size input) (\<lambda>(input, sizes, total).
           if 256 < length sizes then Val (Inl TooManyContainerSections)
           else tryR (Val (consume_u8 input)) (\<lambda>(input, kind_data).
             if kind_data \<noteq> KIND_DATA then Val (Inl InvalidDataKind)
             else header_decode_tail
                    (h\<lparr>container_sizes := sizes, sum_container_sizes := total\<rparr>) input))
       else if kind_container_or_data = KIND_DATA then header_decode_tail h input
       else Val (Inl InvalidKindAfterCode))"

definition default_header :: eof_header where
  "default_header = \<lparr>types_size = 0, code_sizes = [], container_sizes = [], data_size = 0,
     sum_code_sizes = 0, sum_container_sizes = 0\<rparr>"

definition header_decode :: "bytes \<Rightarrow> (eof_decode_error + (eof_header \<times> bytes)) eval" where
  "header_decode input =
     tryR (Val (consume_u16 input)) (\<lambda>(input, kind).
     if kind \<noteq> 0xEF00 then Val (Inl InvalidEOFMagicNumber) else
     tryR (Val (consume_u8 input)) (\<lambda>(input, version).
     if version \<noteq> 0x01 then Val (Inl InvalidEOFVersion) else
     tryR (Val (consume_u8 input)) (\<lambda>(input, kind_types).
     if kind_types \<noteq> KIND_TYPES then Val (Inl InvalidTypesKind) else
     tryR (Val (consume_u16 input)) (\<lambda>(input, types_size).
     if types_size mod 4 \<noteq> 0 then Val (Inl InvalidTypesSection) else
     tryR (Val (consume_u8 input)) (\<lambda>(input, kind_types).
     if kind_types \<noteq> KIND_CODE then Val (Inl InvalidCodeKind) else
     tryR (consume_header_section_size input) (\<lambda>(input, sizes, total).
     if 1024 < length sizes then Val (Inl TooManyCodeSections)
     else if sizes = [] then Val (Inl ZeroCodeSections)
     else if length sizes \<noteq> unat (types_size div 4) then Val (Inl MismatchCodeAndTypesSize)
     else header_decode_containers
            (default_header\<lparr>types_size := types_size, code_sizes := sizes, sum_code_sizes := total\<rparr>)
            input))))))"

section \<open>Types section\<close>

definition types_validate :: "types_section \<Rightarrow> eof_decode_error + unit" where
  "types_validate t =
     (if 0x7f < ts_inputs t \<or> 0x80 < ts_outputs t \<or> 0x03FF < max_stack_size t
      then Inl InvalidTypesSection
      else if max_stack_size t < ucast (ts_inputs t) then Inl InvalidTypesSection
      else Inr ())"

definition types_encode :: "types_section \<Rightarrow> bytes" where
  "types_encode t = [ts_inputs t, ts_outputs t] @ to_be_bytes (max_stack_size t)"

definition types_decode :: "bytes \<Rightarrow> (eof_decode_error + (types_section \<times> bytes)) eval" where
  "types_decode input =
     tryR (Val (consume_u8 input)) (\<lambda>(input, inputs).
     tryR (Val (consume_u8 input)) (\<lambda>(input, outputs).
     tryR (Val (consume_u16 input)) (\<lambda>(input, mss).
       let section = \<lparr>ts_inputs = inputs, ts_outputs = outputs, max_stack_size = mss\<rparr>
       in tryR (Val (types_validate section)) (\<lambda>_. Val (Inr (section, input))))))"

text \<open>\<^verbatim>\<open>TypesSection::io_diff\<close>.\<close>

definition io_diff :: "types_section \<Rightarrow> int" where
  "io_diff t = uint (ts_outputs t) - uint (ts_inputs t)"

section \<open>Body\<close>

definition body_code :: "eof_body \<Rightarrow> nat \<Rightarrow> bytes option" where
  "body_code b i = (if i < length (code_section b) then Some (code_section b ! i) else None)"

definition body_encode :: "eof_body \<Rightarrow> bytes" where
  "body_encode b =
     concat (map types_encode (types_sections b)) @ concat (code_section b) @
     concat (container_section b) @ data_section b"

text \<open>The loop that decodes the types sections.\<close>

fun decode_types :: "nat \<Rightarrow> bytes \<Rightarrow> (eof_decode_error + (types_section list \<times> bytes)) eval" where
  "decode_types 0 input = Val (Inr ([], input))"
| "decode_types (Suc n) input =
     tryR (types_decode input) (\<lambda>(t, input).
     tryR (decode_types n input) (\<lambda>(ts, input). Val (Inr (t # ts, input))))"

text \<open>\<^verbatim>\<open>Bytes::slice(start..end)\<close> and the loops that cut the sections out of the input.\<close>

definition slice_bytes :: "bytes \<Rightarrow> nat \<Rightarrow> nat \<Rightarrow> bytes eval" where
  "slice_bytes input start stop =
     (if start \<le> stop \<and> stop \<le> length input then Val (take (stop - start) (drop start input))
      else Panic)"

fun cut_sections :: "bytes \<Rightarrow> nat \<Rightarrow> nat list \<Rightarrow> (bytes list \<times> nat) eval" where
  "cut_sections input start [] = Val ([], start)"
| "cut_sections input start (sz # sizes) =
     bindE (slice_bytes input start (start + sz)) (\<lambda>section.
     bindE (cut_sections input (start + sz) sizes) (\<lambda>(sections, stop).
       Val (section # sections, stop)))"

definition body_decode :: "bytes \<Rightarrow> eof_header \<Rightarrow> (eof_decode_error + eof_body) eval" where
  "body_decode input h =
     (let header_len = header_size h;
          partial_body_len = sum_code_sizes h + sum_container_sizes h + unat (types_size h);
          full_body_len = partial_body_len + unat (data_size h)
      in if length input < header_len + partial_body_len then Val (Inl MissingBodyWithoutData)
         else if header_len + full_body_len < length input then Val (Inl DanglingData)
         else bindE (slice_bytes input header_len (length input)) (\<lambda>types_input.
           tryR (decode_types (types_count h) types_input) (\<lambda>(types, _).
           bindE (cut_sections input (header_len + unat (types_size h)) (map unat (code_sizes h)))
             (\<lambda>(codes, start).
           bindE (cut_sections input start (map unat (container_sizes h)))
             (\<lambda>(containers, start).
           bindE (slice_bytes input start (length input)) (\<lambda>data.
             Val (Inr \<lparr>types_sections = types, code_section = codes,
               container_section = containers, data_section = data,
               is_data_filled = (length data = unat (data_size h))\<rparr>)))))))"

text \<open>The casts \<^verbatim>\<open>as u16\<close> of the sizes wrap; the multiplication of the number of types by four panics on overflow.\<close>

definition body_into_header :: "eof_body \<Rightarrow> eof_header eval" where
  "body_into_header b =
     bindE (times_or_panic (of_nat (length (types_sections b))) 4) (\<lambda>types.
     Val \<lparr>types_size = types,
      code_sizes = map (\<lambda>x. of_nat (length x)) (code_section b),
      container_sizes = map (\<lambda>x. of_nat (length x)) (container_section b),
      data_size = of_nat (length (data_section b)),
      sum_code_sizes = sum_list (map length (code_section b)),
      sum_container_sizes = sum_list (map length (container_section b))\<rparr>)"

definition body_into_eof :: "eof_body \<Rightarrow> eof eval" where
  "body_into_eof b =
     bindE (body_into_header b) (\<lambda>h.
     Val \<lparr>eof_header = h, eof_body = b, eof_raw = header_encode h @ body_encode b\<rparr>)"

section \<open>Container\<close>

definition size_of_eof :: "eof \<Rightarrow> nat" where
  "size_of_eof e = header_size (eof_header e) + body_size (eof_header e)"

definition encode_slow :: "eof \<Rightarrow> bytes" where
  "encode_slow e = header_encode (eof_header e) @ body_encode (eof_body e)"

definition eof_decode :: "bytes \<Rightarrow> (eof_decode_error + eof) eval" where
  "eof_decode raw =
     tryR (header_decode raw) (\<lambda>(h, _).
     tryR (body_decode raw h) (\<lambda>b.
       Val (Inr \<lparr>eof_header = h, eof_body = b, eof_raw = raw\<rparr>)))"

text \<open>\<^verbatim>\<open>Eof::data_slice\<close>: the data section from an offset, clipped.\<close>

definition data_slice :: "eof \<Rightarrow> nat \<Rightarrow> nat \<Rightarrow> bytes" where
  "data_slice e offset len = take len (drop offset (data_section (eof_body e)))"

definition default_eof :: "eof eval" where
  "default_eof = body_into_eof
     \<lparr>types_sections = [\<lparr>ts_inputs = 0, ts_outputs = 0, max_stack_size = 0\<rparr>],
      code_section = [[0]], container_section = [], data_section = [], is_data_filled = True\<rparr>"

end
