(* ===== verification/Bytecode.thy ===== *)
theory Bytecode
  imports Eof
begin

text \<open>
  Contract code: the enumeration \<^verbatim>\<open>Bytecode\<close> of \<^verbatim>\<open>crates/primitives/src/bytecode.rs\<close> and the
  analysed legacy code of \<^verbatim>\<open>bytecode/legacy.rs\<close>. The hash function \<^verbatim>\<open>keccak256\<close> comes from
  the crate \<^verbatim>\<open>alloy_primitives\<close> and is a parameter of the definitions that use it.
\<close>

type_synonym keccak = "bytes \<Rightarrow> b256"

text \<open>\<^verbatim>\<open>KECCAK_EMPTY\<close> of \<^verbatim>\<open>utilities.rs\<close>.\<close>

definition KECCAK_EMPTY :: b256 where
  "KECCAK_EMPTY = 0xc5d2460186f7233c927e7db2dcc703c0e500b653ca82273b7bfad8045d85a470"

text \<open>The jump table is a bit vector; bits past its end are not jump destinations.\<close>

type_synonym jump_table = "bool list"

definition jump_is_valid :: "jump_table \<Rightarrow> nat \<Rightarrow> bool" where
  "jump_is_valid t pc \<longleftrightarrow> pc < length t \<and> t ! pc"

record legacy_analyzed =
  la_bytecode :: bytes
  la_original_len :: nat
  la_jump_table :: jump_table

datatype bytecode =
    LegacyRaw bytes
  | LegacyAnalyzed legacy_analyzed
  | Eof eof

definition default_legacy_analyzed :: legacy_analyzed where
  "default_legacy_analyzed = \<lparr>la_bytecode = [0], la_original_len = 0, la_jump_table = []\<rparr>"

text \<open>\<^verbatim>\<open>Bytecode::new\<close>, also the default: analysed code with one \<^verbatim>\<open>STOP\<close>.\<close>

definition bytecode_new :: bytecode where
  "bytecode_new = LegacyAnalyzed default_legacy_analyzed"

definition bytecode_new_raw :: "bytes \<Rightarrow> bytecode" where
  "bytecode_new_raw bs = LegacyRaw bs"

fun legacy_jump_table :: "bytecode \<Rightarrow> jump_table option" where
  "legacy_jump_table (LegacyAnalyzed a) = Some (la_jump_table a)"
| "legacy_jump_table _ = None"

fun is_eof :: "bytecode \<Rightarrow> bool" where
  "is_eof (Eof _) = True"
| "is_eof _ = False"

fun is_execution_ready :: "bytecode \<Rightarrow> bool" where
  "is_execution_ready (LegacyRaw _) = False"
| "is_execution_ready _ = True"

text \<open>
  \<^verbatim>\<open>original_byte_slice\<close>: the slice \<^verbatim>\<open>bytecode[..original_len]\<close> of analysed code panics when
  the recorded length exceeds the padded code.
\<close>

fun original_byte_slice :: "bytecode \<Rightarrow> bytes eval" where
  "original_byte_slice (LegacyRaw bs) = Val bs"
| "original_byte_slice (LegacyAnalyzed a) =
     (if la_original_len a \<le> length (la_bytecode a)
      then Val (take (la_original_len a) (la_bytecode a)) else Panic)"
| "original_byte_slice (Eof e) = Val (eof_raw e)"

fun bytecode_len :: "bytecode \<Rightarrow> nat" where
  "bytecode_len (LegacyRaw bs) = length bs"
| "bytecode_len (LegacyAnalyzed a) = la_original_len a"
| "bytecode_len (Eof e) = size_of_eof e"

definition bytecode_is_empty :: "bytecode \<Rightarrow> bool" where
  "bytecode_is_empty c \<longleftrightarrow> bytecode_len c = 0"

text \<open>\<^verbatim>\<open>hash_slow\<close>: the hash of the original bytes, with the empty code special-cased.\<close>

definition hash_slow :: "keccak \<Rightarrow> bytecode \<Rightarrow> b256 eval" where
  "hash_slow keccak256 c =
     (if bytecode_is_empty c then Val KECCAK_EMPTY
      else bindE (original_byte_slice c) (\<lambda>bs. Val (keccak256 bs)))"

text \<open>Analysed code whose recorded length fits the padded code, as the analysis builds it.\<close>

fun bytecode_wf :: "bytecode \<Rightarrow> bool" where
  "bytecode_wf (LegacyAnalyzed a) \<longleftrightarrow> la_original_len a \<le> length (la_bytecode a)"
| "bytecode_wf _ \<longleftrightarrow> True"

lemma bytecode_new_is_empty [simp]: "bytecode_is_empty bytecode_new"
  by (simp add: bytecode_is_empty_def bytecode_new_def default_legacy_analyzed_def)

lemma hash_slow_total: "bytecode_wf c \<Longrightarrow> \<exists>h. hash_slow keccak256 c = Val h"
  by (cases c) (auto simp: hash_slow_def)

lemma eof_never_empty: "\<not> bytecode_is_empty (Eof e)"
  by (simp add: bytecode_is_empty_def size_of_eof_def header_size_def)

end
