(* ===== verification/Account.thy ===== *)
theory Account
  imports Bytecode
begin

unbundle bit_operations_syntax

text \<open>
  Accounts and the EVM state of \<^verbatim>\<open>crates/primitives/src/state.rs\<close>: token balances keyed by
  token id, status flags, storage slots, and the account and state records. A hash map is a
  partial function with finite domain; its length is the size of the domain.
\<close>

section \<open>Constants\<close>

definition BASE_TOKEN_ID :: u256 where "BASE_TOKEN_ID = 0"
definition PRECOMPILE3 :: address where "PRECOMPILE3 = 3"

section \<open>Account information\<close>

type_synonym token_balances = "u256 \<rightharpoonup> u256"

record account_info =
  balances :: token_balances
  nonce :: u64
  code_hash :: b256
  code :: "bytecode option"

definition default_account_info :: account_info where
  "default_account_info =
     \<lparr>balances = Map.empty, nonce = 0, code_hash = KECCAK_EMPTY, code = Some bytecode_new\<rparr>"

text \<open>\<^verbatim>\<open>From<TokenBalances> for AccountInfo\<close> and \<^verbatim>\<open>utilities::init_balances\<close>.\<close>

definition info_of_balances :: "token_balances \<Rightarrow> account_info" where
  "info_of_balances bs = default_account_info\<lparr>balances := bs\<rparr>"

definition init_balances :: "u256 \<Rightarrow> token_balances" where
  "init_balances base_balance = [BASE_TOKEN_ID \<mapsto> base_balance]"

definition map_len :: "('k \<rightharpoonup> 'v) \<Rightarrow> nat" where
  "map_len m = card (dom m)"

definition get_balance :: "account_info \<Rightarrow> u256 \<Rightarrow> u256" where
  "get_balance i token_id = (case balances i token_id of None \<Rightarrow> 0 | Some b \<Rightarrow> b)"

definition get_base_balance :: "account_info \<Rightarrow> u256" where
  "get_base_balance i = get_balance i BASE_TOKEN_ID"

text \<open>
  The setters return the map entry they replace; every caller drops it, so the model returns
  the updated information only.
\<close>

definition set_balance :: "account_info \<Rightarrow> u256 \<Rightarrow> u256 \<Rightarrow> account_info" where
  "set_balance i token_id b = i\<lparr>balances := (balances i)(token_id \<mapsto> b)\<rparr>"

definition set_base_balance :: "account_info \<Rightarrow> u256 \<Rightarrow> account_info" where
  "set_base_balance i b = set_balance i BASE_TOKEN_ID b"

text \<open>The wrapping and the saturating updates.\<close>

definition decrease_balance :: "account_info \<Rightarrow> u256 \<Rightarrow> u256 \<Rightarrow> account_info" where
  "decrease_balance i token_id b = set_balance i token_id (get_balance i token_id - b)"

definition decrease_balance_saturating :: "account_info \<Rightarrow> u256 \<Rightarrow> u256 \<Rightarrow> account_info" where
  "decrease_balance_saturating i token_id b =
     set_balance i token_id (saturating_sub (get_balance i token_id) b)"

definition decrease_base_balance :: "account_info \<Rightarrow> u256 \<Rightarrow> account_info" where
  "decrease_base_balance i b = decrease_balance i BASE_TOKEN_ID b"

definition decrease_base_balance_saturating :: "account_info \<Rightarrow> u256 \<Rightarrow> account_info" where
  "decrease_base_balance_saturating i b = decrease_balance_saturating i BASE_TOKEN_ID b"

definition increase_balance :: "account_info \<Rightarrow> u256 \<Rightarrow> u256 \<Rightarrow> account_info" where
  "increase_balance i token_id v = set_balance i token_id (get_balance i token_id + v)"

definition increase_balance_saturating :: "account_info \<Rightarrow> u256 \<Rightarrow> u256 \<Rightarrow> account_info" where
  "increase_balance_saturating i token_id v =
     set_balance i token_id (saturating_add (get_balance i token_id) v)"

definition increase_base_balance :: "account_info \<Rightarrow> u256 \<Rightarrow> account_info" where
  "increase_base_balance i v = increase_balance i BASE_TOKEN_ID v"

definition increase_base_balance_saturating :: "account_info \<Rightarrow> u256 \<Rightarrow> account_info" where
  "increase_base_balance_saturating i v = increase_balance_saturating i BASE_TOKEN_ID v"

definition is_empty_code_hash :: "account_info \<Rightarrow> bool" where
  "is_empty_code_hash i \<longleftrightarrow> code_hash i = KECCAK_EMPTY"

definition only_has_base_balance :: "account_info \<Rightarrow> bool" where
  "only_has_base_balance i \<longleftrightarrow> map_len (balances i) = 1 \<and> BASE_TOKEN_ID \<in> dom (balances i)"

definition is_base_balance_zero :: "account_info \<Rightarrow> bool" where
  "is_base_balance_zero i \<longleftrightarrow> get_base_balance i = 0"

definition info_is_empty :: "account_info \<Rightarrow> bool" where
  "info_is_empty i \<longleftrightarrow>
     (is_empty_code_hash i \<or> code_hash i = 0) \<and>
     (map_len (balances i) = 0 \<or> only_has_base_balance i \<and> is_base_balance_zero i) \<and>
     nonce i = 0"

definition info_exists :: "account_info \<Rightarrow> bool" where
  "info_exists i \<longleftrightarrow> \<not> info_is_empty i"

definition has_no_code_and_nonce :: "account_info \<Rightarrow> bool" where
  "has_no_code_and_nonce i \<longleftrightarrow> is_empty_code_hash i \<and> nonce i = 0"

definition without_code :: "account_info \<Rightarrow> account_info" where
  "without_code i = i\<lparr>code := None\<rparr>"

text \<open>\<^verbatim>\<open>AccountInfo::new\<close> and \<^verbatim>\<open>take_bytecode\<close>, which leaves \<open>None\<close> in place of the code.\<close>

definition info_new :: "token_balances \<Rightarrow> u64 \<Rightarrow> b256 \<Rightarrow> bytecode \<Rightarrow> account_info" where
  "info_new bs n h c = \<lparr>balances = bs, nonce = n, code_hash = h, code = Some c\<rparr>"

definition take_bytecode :: "account_info \<Rightarrow> bytecode option \<times> account_info" where
  "take_bytecode i = (code i, i\<lparr>code := None\<rparr>)"

text \<open>\<^verbatim>\<open>PartialEq for AccountInfo\<close>: the code is not compared.\<close>

definition info_eq :: "account_info \<Rightarrow> account_info \<Rightarrow> bool" where
  "info_eq a b \<longleftrightarrow>
     \<not> (nonce a \<noteq> nonce b \<or> code_hash a \<noteq> code_hash b \<or>
        map_len (balances a) \<noteq> map_len (balances b)) \<and>
     balances a = balances b"

section \<open>Storage slots\<close>

record evm_storage_slot =
  original_value :: u256
  present_value :: u256

definition slot_default :: evm_storage_slot where
  "slot_default = \<lparr>original_value = 0, present_value = 0\<rparr>"

definition slot_new :: "u256 \<Rightarrow> evm_storage_slot" where
  "slot_new v = \<lparr>original_value = v, present_value = v\<rparr>"

definition slot_new_changed :: "u256 \<Rightarrow> u256 \<Rightarrow> evm_storage_slot" where
  "slot_new_changed original present = \<lparr>original_value = original, present_value = present\<rparr>"

definition slot_is_changed :: "evm_storage_slot \<Rightarrow> bool" where
  "slot_is_changed s \<longleftrightarrow> original_value s \<noteq> present_value s"

section \<open>Status flags\<close>

type_synonym account_status = u8

definition Loaded :: account_status where "Loaded = 0"
definition Created :: account_status where "Created = 1"
definition SelfDestructed :: account_status where "SelfDestructed = 2"
definition Touched :: account_status where "Touched = 4"
definition LoadedAsNotExisting :: account_status where "LoadedAsNotExisting = 8"

text \<open>\<^verbatim>\<open>contains\<close>, \<^verbatim>\<open>|=\<close> and \<^verbatim>\<open>-=\<close> of the \<^verbatim>\<open>bitflags\<close> type.\<close>

definition flag_contains :: "account_status \<Rightarrow> account_status \<Rightarrow> bool" where
  "flag_contains s f \<longleftrightarrow> s AND f = f"

definition flag_insert :: "account_status \<Rightarrow> account_status \<Rightarrow> account_status" where
  "flag_insert s f = s OR f"

definition flag_remove :: "account_status \<Rightarrow> account_status \<Rightarrow> account_status" where
  "flag_remove s f = s AND NOT f"

section \<open>Accounts\<close>

record account =
  info :: account_info
  storage :: "u256 \<rightharpoonup> evm_storage_slot"
  status :: account_status

record evm_state =
  accounts :: "address \<rightharpoonup> account"
  token_ids :: "u256 list"

type_synonym transient_storage = "(address \<times> u256) \<rightharpoonup> u256"

definition default_evm_state :: evm_state where
  "default_evm_state = \<lparr>accounts = Map.empty, token_ids = []\<rparr>"

definition new_not_existing :: account where
  "new_not_existing =
     \<lparr>info = default_account_info, storage = Map.empty, status = LoadedAsNotExisting\<rparr>"

text \<open>\<^verbatim>\<open>From<AccountInfo> for Account\<close>.\<close>

definition account_of_info :: "account_info \<Rightarrow> account" where
  "account_of_info i = \<lparr>info = i, storage = Map.empty, status = Loaded\<rparr>"

definition mark_selfdestruct :: "account \<Rightarrow> account" where
  "mark_selfdestruct a = a\<lparr>status := flag_insert (status a) SelfDestructed\<rparr>"

definition unmark_selfdestruct :: "account \<Rightarrow> account" where
  "unmark_selfdestruct a = a\<lparr>status := flag_remove (status a) SelfDestructed\<rparr>"

definition is_selfdestructed :: "account \<Rightarrow> bool" where
  "is_selfdestructed a \<longleftrightarrow> flag_contains (status a) SelfDestructed"

definition mark_touch :: "account \<Rightarrow> account" where
  "mark_touch a = a\<lparr>status := flag_insert (status a) Touched\<rparr>"

definition unmark_touch :: "account \<Rightarrow> account" where
  "unmark_touch a = a\<lparr>status := flag_remove (status a) Touched\<rparr>"

definition is_touched :: "account \<Rightarrow> bool" where
  "is_touched a \<longleftrightarrow> flag_contains (status a) Touched"

definition mark_created :: "account \<Rightarrow> account" where
  "mark_created a = a\<lparr>status := flag_insert (status a) Created\<rparr>"

definition unmark_created :: "account \<Rightarrow> account" where
  "unmark_created a = a\<lparr>status := flag_remove (status a) Created\<rparr>"

definition is_loaded_as_not_existing :: "account \<Rightarrow> bool" where
  "is_loaded_as_not_existing a \<longleftrightarrow> flag_contains (status a) LoadedAsNotExisting"

definition is_created :: "account \<Rightarrow> bool" where
  "is_created a \<longleftrightarrow> flag_contains (status a) Created"

definition account_is_empty :: "account \<Rightarrow> bool" where
  "account_is_empty a \<longleftrightarrow> info_is_empty (info a)"

text \<open>\<^verbatim>\<open>changed_storage_slots\<close>: the changed slots, as a map.\<close>

definition changed_storage_slots :: "account \<Rightarrow> (u256 \<rightharpoonup> evm_storage_slot)" where
  "changed_storage_slots a k =
     (case storage a k of
        None \<Rightarrow> None
      | Some s \<Rightarrow> if slot_is_changed s then Some s else None)"

section \<open>Balances as a ledger\<close>

text \<open>
  The law every balance operation relies on: a read after a write. Clients of the balances
  (transfers, minting, reverting) use only the facts of this locale.
\<close>

locale ledger =
  fixes get :: "'i \<Rightarrow> 'k \<Rightarrow> 'v::ab_group_add"
    and set :: "'i \<Rightarrow> 'k \<Rightarrow> 'v \<Rightarrow> 'i"
  assumes get_set: "get (set i k v) k' = (if k' = k then v else get i k')"
begin

lemma credit_debit:
  "get (set (set i k (get i k - v)) k (get (set i k (get i k - v)) k + v)) = get i"
  by (rule ext) (simp add: get_set)

lemma debit_credit:
  "get (set (set i k (get i k + v)) k (get (set i k (get i k + v)) k - v)) = get i"
  by (rule ext) (simp add: get_set)

lemma get_set_fun: "get (set i k v) = (get i)(k := v)"
  by (rule ext) (simp add: get_set)

end

interpretation token_ledger: ledger get_balance set_balance
  by unfold_locales (simp add: get_balance_def set_balance_def)

lemma set_balance_frame [simp]:
  "nonce (set_balance i t b) = nonce i"
  "code_hash (set_balance i t b) = code_hash i"
  "code (set_balance i t b) = code i"
  by (simp_all add: set_balance_def)

lemma get_balance_frame [simp]:
  "get_balance (i\<lparr>nonce := n\<rparr>) = get_balance i"
  "get_balance (i\<lparr>code_hash := h\<rparr>) = get_balance i"
  "get_balance (i\<lparr>code := c\<rparr>) = get_balance i"
  by (simp_all add: get_balance_def fun_eq_iff)

lemmas balance_ops =
  decrease_balance_def increase_balance_def decrease_base_balance_def increase_base_balance_def
  set_base_balance_def get_base_balance_def

lemmas saturating_balance_ops =
  decrease_balance_saturating_def increase_balance_saturating_def
  decrease_base_balance_saturating_def increase_base_balance_saturating_def

section \<open>Status flags as single bits\<close>

text \<open>
  The laws of the flag operations, for a flag that is one bit of the status byte. Each flag of
  the enumeration is an instance.
\<close>

locale status_flag =
  fixes flag :: account_status and n :: nat
  assumes flag_bit: "bit flag m \<longleftrightarrow> m = n"
begin

lemma contains_iff: "flag_contains s flag \<longleftrightarrow> bit s n"
proof
  assume "flag_contains s flag"
  then have "bit (s AND flag) n = bit flag n" by (simp add: flag_contains_def)
  then show "bit s n" by (simp add: bit_and_iff flag_bit)
next
  assume "bit s n"
  then have "s AND flag = flag" by (intro bit_eqI) (auto simp: bit_and_iff flag_bit)
  then show "flag_contains s flag" by (simp add: flag_contains_def)
qed

lemma remove_insert: "\<not> flag_contains s flag \<Longrightarrow> flag_remove (flag_insert s flag) flag = s"
  by (rule bit_eqI) (auto simp: contains_iff flag_insert_def flag_remove_def bit_simps flag_bit)

lemma insert_same: "flag_contains s flag \<Longrightarrow> flag_insert s flag = s"
  by (rule bit_eqI) (auto simp: contains_iff flag_insert_def bit_simps flag_bit)

lemma remove_same: "\<not> flag_contains s flag \<Longrightarrow> flag_remove s flag = s"
  by (rule bit_eqI) (auto simp: contains_iff flag_remove_def bit_simps flag_bit)

lemma contains_insert: "flag_contains (flag_insert s flag) flag"
proof -
  have "bit flag n" by (simp add: flag_bit)
  then show ?thesis by (simp add: contains_iff flag_insert_def bit_simps)
qed

lemma remove_insert_any: "flag_remove (flag_insert s flag) flag = flag_remove s flag"
  by (rule bit_eqI) (auto simp: flag_insert_def flag_remove_def bit_simps flag_bit)

lemma bit_insert: "bit (flag_insert s flag) m \<longleftrightarrow> bit s m \<or> m = n"
  by (simp add: flag_insert_def bit_simps flag_bit)

lemma bit_remove: "bit (flag_remove s flag) m \<longleftrightarrow> bit s m \<and> m \<noteq> n"
proof -
  have "bit s m \<Longrightarrow> m < LENGTH(8)" by (rule bit_imp_le_length)
  then show ?thesis by (auto simp: flag_remove_def bit_simps flag_bit)
qed

end

lemma bit_of_power: "bit (2 ^ n :: 8 word) m \<longleftrightarrow> m = n \<and> n < 8"
  by (auto simp: bit_simps)

interpretation created: status_flag Created 0
  using bit_of_power [of 0] by unfold_locales (simp add: Created_def)

interpretation destroyed: status_flag SelfDestructed 1
  using bit_of_power [of 1] by unfold_locales (simp add: SelfDestructed_def)

interpretation touched: status_flag Touched 2
  using bit_of_power [of 2] by unfold_locales (simp add: Touched_def)

interpretation not_existing: status_flag LoadedAsNotExisting 3
  using bit_of_power [of 3] by unfold_locales (simp add: LoadedAsNotExisting_def)

lemmas flag_ops =
  mark_selfdestruct_def unmark_selfdestruct_def is_selfdestructed_def mark_touch_def
  unmark_touch_def is_touched_def mark_created_def unmark_created_def is_created_def
  is_loaded_as_not_existing_def

text \<open>Marking one flag leaves the others alone.\<close>

lemma flags_independent:
  "is_touched (mark_created a) = is_touched a"
  "is_touched (mark_selfdestruct a) = is_touched a"
  "is_created (mark_touch a) = is_created a"
  "is_selfdestructed (mark_touch a) = is_selfdestructed a"
  "is_created (mark_selfdestruct a) = is_created a"
  by (simp_all add: flag_ops touched.contains_iff created.contains_iff destroyed.contains_iff
        touched.bit_insert created.bit_insert destroyed.bit_insert)

section \<open>Emptiness\<close>

text \<open>What \<^verbatim>\<open>is_empty\<close> says of the balances: no entry at all, or only the base token at zero.\<close>

lemma info_is_empty_iff:
  assumes "finite (dom (balances i))"
  shows "info_is_empty i \<longleftrightarrow>
     (code_hash i = KECCAK_EMPTY \<or> code_hash i = 0) \<and> nonce i = 0 \<and>
     (balances i = Map.empty \<or> balances i = [BASE_TOKEN_ID \<mapsto> 0])"
proof -
  have "map_len (balances i) = 0 \<longleftrightarrow> balances i = Map.empty"
    using assms by (simp add: map_len_def)
  moreover have "only_has_base_balance i \<and> is_base_balance_zero i \<longleftrightarrow>
      balances i = [BASE_TOKEN_ID \<mapsto> 0]"
  proof
    assume *: "only_has_base_balance i \<and> is_base_balance_zero i"
    then have "card (dom (balances i)) = 1" and mem: "BASE_TOKEN_ID \<in> dom (balances i)"
      by (simp_all add: only_has_base_balance_def map_len_def)
    then obtain x where x: "dom (balances i) = {x}" by (auto simp: card_1_singleton_iff)
    have "BASE_TOKEN_ID = x" using mem unfolding x by simp
    with x have "dom (balances i) = {BASE_TOKEN_ID}" by simp
    moreover from this * have "balances i BASE_TOKEN_ID = Some 0"
      by (auto simp: is_base_balance_zero_def get_base_balance_def get_balance_def
            split: option.splits)
    ultimately show "balances i = [BASE_TOKEN_ID \<mapsto> 0]"
      by (metis dom_eq_singleton_conv option.sel fun_upd_same)
  qed (simp add: only_has_base_balance_def map_len_def is_base_balance_zero_def
        get_base_balance_def get_balance_def)
  ultimately show ?thesis
    by (auto simp: info_is_empty_def is_empty_code_hash_def)
qed

lemma info_eq_iff:
  "info_eq a b \<longleftrightarrow> nonce a = nonce b \<and> code_hash a = code_hash b \<and> balances a = balances b"
  by (auto simp: info_eq_def)

end
