(* ===== verification/Spec_Id.thy ===== *)
theory Spec_Id
  imports Prelude
begin

text \<open>
  Hard forks: the enumeration \<^verbatim>\<open>SpecId\<close> of \<^verbatim>\<open>crates/primitives/src/specification.rs\<close>
  (built without the \<^verbatim>\<open>optimism\<close> feature), its discriminants, the activation test
  \<^verbatim>\<open>enabled\<close> and the two name conversions. The derived \<^verbatim>\<open>Ord\<close> is an instance of
  \<open>linorder\<close>, so activation is an order comparison.
\<close>

datatype spec_id =
    FRONTIER | FRONTIER_THAWING | HOMESTEAD | DAO_FORK | TANGERINE | SPURIOUS_DRAGON
  | BYZANTIUM | CONSTANTINOPLE | PETERSBURG | ISTANBUL | MUIR_GLACIER | BERLIN | LONDON
  | ARROW_GLACIER | GRAY_GLACIER | MERGE | SHANGHAI | CANCUN | PRAGUE | LATEST

text \<open>\<^verbatim>\<open>spec_id as u8\<close>.\<close>

fun spec_u8 :: "spec_id \<Rightarrow> u8" where
  "spec_u8 FRONTIER = 0"
| "spec_u8 FRONTIER_THAWING = 1"
| "spec_u8 HOMESTEAD = 2"
| "spec_u8 DAO_FORK = 3"
| "spec_u8 TANGERINE = 4"
| "spec_u8 SPURIOUS_DRAGON = 5"
| "spec_u8 BYZANTIUM = 6"
| "spec_u8 CONSTANTINOPLE = 7"
| "spec_u8 PETERSBURG = 8"
| "spec_u8 ISTANBUL = 9"
| "spec_u8 MUIR_GLACIER = 10"
| "spec_u8 BERLIN = 11"
| "spec_u8 LONDON = 12"
| "spec_u8 ARROW_GLACIER = 13"
| "spec_u8 GRAY_GLACIER = 14"
| "spec_u8 MERGE = 15"
| "spec_u8 SHANGHAI = 16"
| "spec_u8 CANCUN = 17"
| "spec_u8 PRAGUE = 18"
| "spec_u8 LATEST = 255"

definition all_specs :: "spec_id list" where
  "all_specs =
     [FRONTIER, FRONTIER_THAWING, HOMESTEAD, DAO_FORK, TANGERINE, SPURIOUS_DRAGON, BYZANTIUM,
      CONSTANTINOPLE, PETERSBURG, ISTANBUL, MUIR_GLACIER, BERLIN, LONDON, ARROW_GLACIER,
      GRAY_GLACIER, MERGE, SHANGHAI, CANCUN, PRAGUE, LATEST]"

text \<open>\<^verbatim>\<open>SpecId::try_from_u8\<close>: the specification with the given discriminant, if any.\<close>

definition try_from_u8 :: "u8 \<Rightarrow> spec_id option" where
  "try_from_u8 n = List.find (\<lambda>s. spec_u8 s = n) all_specs"

text \<open>\<^verbatim>\<open>SpecId::enabled\<close> and \<^verbatim>\<open>is_enabled_in\<close>: is the second fork active in the first?\<close>

definition enabled :: "spec_id \<Rightarrow> spec_id \<Rightarrow> bool" where
  "enabled our other \<longleftrightarrow> spec_u8 other \<le> spec_u8 our"

text \<open>\<^verbatim>\<open>From<&str> for SpecId\<close>.\<close>

definition spec_of_str :: "string \<Rightarrow> spec_id" where
  "spec_of_str name =
     (if name = ''Frontier'' then FRONTIER
      else if name = ''Homestead'' then HOMESTEAD
      else if name = ''Tangerine'' then TANGERINE
      else if name = ''Spurious'' then SPURIOUS_DRAGON
      else if name = ''Byzantium'' then BYZANTIUM
      else if name = ''Constantinople'' then CONSTANTINOPLE
      else if name = ''Petersburg'' then PETERSBURG
      else if name = ''Istanbul'' then ISTANBUL
      else if name = ''MuirGlacier'' then MUIR_GLACIER
      else if name = ''Berlin'' then BERLIN
      else if name = ''London'' then LONDON
      else if name = ''Merge'' then MERGE
      else if name = ''Shanghai'' then SHANGHAI
      else if name = ''Cancun'' then CANCUN
      else if name = ''Prague'' then PRAGUE
      else LATEST)"

text \<open>\<^verbatim>\<open>From<SpecId> for &'static str\<close>.\<close>

fun str_of_spec :: "spec_id \<Rightarrow> string" where
  "str_of_spec FRONTIER = ''Frontier''"
| "str_of_spec FRONTIER_THAWING = ''Frontier Thawing''"
| "str_of_spec HOMESTEAD = ''Homestead''"
| "str_of_spec DAO_FORK = ''DAO Fork''"
| "str_of_spec TANGERINE = ''Tangerine''"
| "str_of_spec SPURIOUS_DRAGON = ''Spurious''"
| "str_of_spec BYZANTIUM = ''Byzantium''"
| "str_of_spec CONSTANTINOPLE = ''Constantinople''"
| "str_of_spec PETERSBURG = ''Petersburg''"
| "str_of_spec ISTANBUL = ''Istanbul''"
| "str_of_spec MUIR_GLACIER = ''MuirGlacier''"
| "str_of_spec BERLIN = ''Berlin''"
| "str_of_spec LONDON = ''London''"
| "str_of_spec ARROW_GLACIER = ''Arrow Glacier''"
| "str_of_spec GRAY_GLACIER = ''Gray Glacier''"
| "str_of_spec MERGE = ''Merge''"
| "str_of_spec SHANGHAI = ''Shanghai''"
| "str_of_spec CANCUN = ''Cancun''"
| "str_of_spec PRAGUE = ''Prague''"
| "str_of_spec LATEST = ''Latest''"

lemma spec_u8_inject: "spec_u8 a = spec_u8 b \<Longrightarrow> a = b"
  by (cases a; cases b; simp)

instantiation spec_id :: linorder
begin

definition less_eq_spec_id :: "spec_id \<Rightarrow> spec_id \<Rightarrow> bool" where
  "less_eq_spec_id a b \<longleftrightarrow> spec_u8 a \<le> spec_u8 b"

definition less_spec_id :: "spec_id \<Rightarrow> spec_id \<Rightarrow> bool" where
  "less_spec_id a b \<longleftrightarrow> spec_u8 a < spec_u8 b"

instance
  by standard (auto simp: less_eq_spec_id_def less_spec_id_def intro: spec_u8_inject)

end

text \<open>Activation is the derived order, so it is reflexive, transitive and total.\<close>

lemma enabled_iff_le: "enabled our other \<longleftrightarrow> other \<le> our"
  by (simp add: enabled_def less_eq_spec_id_def)

lemma enabled_trans: "enabled a b \<Longrightarrow> enabled b c \<Longrightarrow> enabled a c"
  by (simp add: enabled_iff_le)

lemma enabled_LATEST [simp]: "enabled LATEST s"
  by (cases s) (simp_all add: enabled_def)

lemma enabled_FRONTIER [simp]: "enabled s FRONTIER"
  by (simp add: enabled_def)

lemma try_from_u8_spec_u8: "try_from_u8 (spec_u8 s) = Some s"
  by (cases s) (simp_all add: try_from_u8_def all_specs_def)

lemma try_from_u8_Some: "try_from_u8 n = Some s \<longleftrightarrow> n = spec_u8 s"
proof
  assume "try_from_u8 n = Some s"
  then show "n = spec_u8 s" by (auto simp: try_from_u8_def find_Some_iff)
qed (simp add: try_from_u8_spec_u8)

text \<open>The forks whose printed name reads back as the same fork.\<close>

lemma spec_of_str_str_of_spec:
  "spec_of_str (str_of_spec s) = s \<longleftrightarrow>
     s \<notin> {FRONTIER_THAWING, DAO_FORK, ARROW_GLACIER, GRAY_GLACIER}"
  by (cases s) (simp_all add: spec_of_str_def)

end
