(* ===== verification/Instruction_Result.thy ===== *)
theory Instruction_Result
  imports Prelude
begin

text \<open>
  Outcomes of execution: \<^verbatim>\<open>InstructionResult\<close> with its three classes
  (\<^verbatim>\<open>crates/interpreter/src/instruction_result.rs\<close>), and the results and errors of
  \<^verbatim>\<open>crates/primitives/src/result.rs\<close> it is converted from and to. Constructors that Rust
  keeps apart by the name of their enum carry a prefix here.
\<close>

datatype instruction_result =
    Continue | Stop | Return | SelfDestruct | ReturnContract
  | Revert | CallTooDeep | OutOfFunds
  | CallOrCreate
  | OutOfGas | MemoryOOG | MemoryLimitOOG | PrecompileOOG | InvalidOperandOOG
  | OpcodeNotFound | CallNotAllowedInsideStatic | StateChangeDuringStaticCall
  | InvalidFEOpcode | InvalidJump | NotActivated | StackUnderflow | StackOverflow
  | OutOfOffset | CreateCollision | OverflowPayment | PrecompileError | NonceOverflow
  | CreateContractSizeLimit | CreateContractStartingWithEF | CreateInitCodeSizeLimit
  | FatalExternalError | ReturnContractInNotInitEOF | EOFOpcodeDisabledInLegacy
  | EOFFunctionStackOverflow | UnauthorizedCaller

datatype success_reason = SR_Stop | SR_Return | SR_SelfDestruct

datatype out_of_gas_error = Basic | MemoryLimit | Memory | Precompile | InvalidOperand

datatype halt_reason =
    HR_OutOfGas out_of_gas_error
  | HR_OpcodeNotFound | HR_InvalidFEOpcode | HR_InvalidJump | HR_NotActivated
  | HR_StackUnderflow | HR_StackOverflow | HR_OutOfOffset | HR_CreateCollision
  | HR_PrecompileError | HR_NonceOverflow | HR_CreateContractSizeLimit
  | HR_CreateContractStartingWithEF | HR_CreateInitCodeSizeLimit | HR_OverflowPayment
  | HR_StateChangeDuringStaticCall | HR_CallNotAllowedInsideStatic | HR_OutOfFunds
  | HR_CallTooDeep | HR_UnauthorizedCaller

datatype success_or_halt =
    SH_Success success_reason
  | SH_Revert
  | SH_Halt halt_reason
  | SH_FatalExternalError
  | SH_InternalContinue
  | SH_InternalCallOrCreate

datatype invalid_header = PrevrandaoNotSet | ExcessBlobGasNotSet

datatype invalid_transaction =
    PriorityFeeGreaterThanMaxFee | GasPriceLessThanBasefee | CallerGasLimitMoreThanBlock
  | CallGasCostMoreThanGasLimit | RejectCallerWithCode
  | LackOfFundForMaxFee u256 u256
  | OverflowPaymentInTransaction | NonceOverflowInTransaction
  | NonceTooHigh u64 u64 | NonceTooLow u64 u64
  | IT_CreateInitCodeSizeLimit | InvalidChainId | AccessListNotSupported
  | MaxFeePerBlobGasNotSupported | BlobVersionedHashesNotSupported
  | BlobGasPriceGreaterThanMax | EmptyBlobs | BlobCreateTransaction
  | TooManyBlobs nat nat | BlobVersionNotSupported | EofCrateShouldHaveToAddress
  | InvalidTokenId u256
  | NotEnoughTokenBalanceForTransfer u256 u256 u256
  | TokenIdsNotUnique

datatype 'e evm_error =
    Transaction invalid_transaction
  | Header invalid_header
  | Database 'e
  | Custom string

section \<open>Classification\<close>

text \<open>The patterns of the macros \<^verbatim>\<open>return_ok!\<close>, \<^verbatim>\<open>return_revert!\<close> and \<^verbatim>\<open>return_error!\<close>.\<close>

fun is_ok :: "instruction_result \<Rightarrow> bool" where
  "is_ok Continue = True"
| "is_ok Stop = True"
| "is_ok Return = True"
| "is_ok SelfDestruct = True"
| "is_ok ReturnContract = True"
| "is_ok _ = False"

fun is_revert :: "instruction_result \<Rightarrow> bool" where
  "is_revert Revert = True"
| "is_revert CallTooDeep = True"
| "is_revert OutOfFunds = True"
| "is_revert _ = False"

definition is_error :: "instruction_result \<Rightarrow> bool" where
  "is_error r \<longleftrightarrow>
     r \<in> {OutOfGas, MemoryOOG, MemoryLimitOOG, PrecompileOOG, InvalidOperandOOG, OpcodeNotFound,
          CallNotAllowedInsideStatic, StateChangeDuringStaticCall, InvalidFEOpcode, InvalidJump,
          NotActivated, StackUnderflow, StackOverflow, OutOfOffset, CreateCollision,
          OverflowPayment, PrecompileError, NonceOverflow, CreateContractSizeLimit,
          CreateContractStartingWithEF, CreateInitCodeSizeLimit, FatalExternalError,
          ReturnContractInNotInitEOF, EOFOpcodeDisabledInLegacy, EOFFunctionStackOverflow}"

section \<open>Conversions\<close>

text \<open>\<^verbatim>\<open>From<SuccessReason> for InstructionResult\<close>.\<close>

fun instr_of_success :: "success_reason \<Rightarrow> instruction_result" where
  "instr_of_success SR_Return = Return"
| "instr_of_success SR_Stop = Stop"
| "instr_of_success SR_SelfDestruct = SelfDestruct"

text \<open>\<^verbatim>\<open>From<HaltReason> for InstructionResult\<close>.\<close>

fun instr_of_halt :: "halt_reason \<Rightarrow> instruction_result" where
  "instr_of_halt (HR_OutOfGas Basic) = OutOfGas"
| "instr_of_halt (HR_OutOfGas InvalidOperand) = InvalidOperandOOG"
| "instr_of_halt (HR_OutOfGas Memory) = MemoryOOG"
| "instr_of_halt (HR_OutOfGas MemoryLimit) = MemoryLimitOOG"
| "instr_of_halt (HR_OutOfGas Precompile) = PrecompileOOG"
| "instr_of_halt HR_OpcodeNotFound = OpcodeNotFound"
| "instr_of_halt HR_InvalidFEOpcode = InvalidFEOpcode"
| "instr_of_halt HR_InvalidJump = InvalidJump"
| "instr_of_halt HR_NotActivated = NotActivated"
| "instr_of_halt HR_StackOverflow = StackOverflow"
| "instr_of_halt HR_StackUnderflow = StackUnderflow"
| "instr_of_halt HR_OutOfOffset = OutOfOffset"
| "instr_of_halt HR_CreateCollision = CreateCollision"
| "instr_of_halt HR_PrecompileError = PrecompileError"
| "instr_of_halt HR_NonceOverflow = NonceOverflow"
| "instr_of_halt HR_CreateContractSizeLimit = CreateContractSizeLimit"
| "instr_of_halt HR_CreateContractStartingWithEF = CreateContractStartingWithEF"
| "instr_of_halt HR_CreateInitCodeSizeLimit = CreateInitCodeSizeLimit"
| "instr_of_halt HR_OverflowPayment = OverflowPayment"
| "instr_of_halt HR_StateChangeDuringStaticCall = StateChangeDuringStaticCall"
| "instr_of_halt HR_CallNotAllowedInsideStatic = CallNotAllowedInsideStatic"
| "instr_of_halt HR_OutOfFunds = OutOfFunds"
| "instr_of_halt HR_CallTooDeep = CallTooDeep"
| "instr_of_halt HR_UnauthorizedCaller = UnauthorizedCaller"

text \<open>
  \<^verbatim>\<open>From<InstructionResult> for SuccessOrHalt\<close>; \<^verbatim>\<open>ReturnContract\<close> is internal and panics.
\<close>

fun success_or_halt_of :: "instruction_result \<Rightarrow> success_or_halt eval" where
  "success_or_halt_of Continue = Val SH_InternalContinue"
| "success_or_halt_of Stop = Val (SH_Success SR_Stop)"
| "success_or_halt_of Return = Val (SH_Success SR_Return)"
| "success_or_halt_of SelfDestruct = Val (SH_Success SR_SelfDestruct)"
| "success_or_halt_of Revert = Val SH_Revert"
| "success_or_halt_of CallOrCreate = Val SH_InternalCallOrCreate"
| "success_or_halt_of CallTooDeep = Val (SH_Halt HR_CallTooDeep)"
| "success_or_halt_of OutOfFunds = Val (SH_Halt HR_OutOfFunds)"
| "success_or_halt_of OutOfGas = Val (SH_Halt (HR_OutOfGas Basic))"
| "success_or_halt_of MemoryLimitOOG = Val (SH_Halt (HR_OutOfGas MemoryLimit))"
| "success_or_halt_of MemoryOOG = Val (SH_Halt (HR_OutOfGas Memory))"
| "success_or_halt_of PrecompileOOG = Val (SH_Halt (HR_OutOfGas Precompile))"
| "success_or_halt_of InvalidOperandOOG = Val (SH_Halt (HR_OutOfGas InvalidOperand))"
| "success_or_halt_of OpcodeNotFound = Val (SH_Halt HR_OpcodeNotFound)"
| "success_or_halt_of ReturnContractInNotInitEOF = Val (SH_Halt HR_OpcodeNotFound)"
| "success_or_halt_of CallNotAllowedInsideStatic = Val (SH_Halt HR_CallNotAllowedInsideStatic)"
| "success_or_halt_of StateChangeDuringStaticCall = Val (SH_Halt HR_StateChangeDuringStaticCall)"
| "success_or_halt_of InvalidFEOpcode = Val (SH_Halt HR_InvalidFEOpcode)"
| "success_or_halt_of InvalidJump = Val (SH_Halt HR_InvalidJump)"
| "success_or_halt_of NotActivated = Val (SH_Halt HR_NotActivated)"
| "success_or_halt_of StackUnderflow = Val (SH_Halt HR_StackUnderflow)"
| "success_or_halt_of StackOverflow = Val (SH_Halt HR_StackOverflow)"
| "success_or_halt_of OutOfOffset = Val (SH_Halt HR_OutOfOffset)"
| "success_or_halt_of CreateCollision = Val (SH_Halt HR_CreateCollision)"
| "success_or_halt_of OverflowPayment = Val (SH_Halt HR_OverflowPayment)"
| "success_or_halt_of PrecompileError = Val (SH_Halt HR_PrecompileError)"
| "success_or_halt_of NonceOverflow = Val (SH_Halt HR_NonceOverflow)"
| "success_or_halt_of CreateContractSizeLimit = Val (SH_Halt HR_CreateContractSizeLimit)"
| "success_or_halt_of CreateContractStartingWithEF = Val (SH_Halt HR_CreateContractSizeLimit)"
| "success_or_halt_of CreateInitCodeSizeLimit = Val (SH_Halt HR_CreateInitCodeSizeLimit)"
| "success_or_halt_of FatalExternalError = Val SH_FatalExternalError"
| "success_or_halt_of EOFOpcodeDisabledInLegacy = Val (SH_Halt HR_OpcodeNotFound)"
| "success_or_halt_of EOFFunctionStackOverflow = Val SH_FatalExternalError"
| "success_or_halt_of ReturnContract = Panic"
| "success_or_halt_of UnauthorizedCaller = Val (SH_Halt HR_UnauthorizedCaller)"

section \<open>Properties\<close>

lemma classes_disjoint:
  "\<not> (is_ok r \<and> is_revert r)" "\<not> (is_ok r \<and> is_error r)" "\<not> (is_revert r \<and> is_error r)"
  by (cases r; simp add: is_error_def)+

lemma unclassified_iff:
  "\<not> is_ok r \<and> \<not> is_revert r \<and> \<not> is_error r \<longleftrightarrow> r \<in> {CallOrCreate, UnauthorizedCaller}"
  by (cases r) (simp_all add: is_error_def)

lemma success_round_trip: "success_or_halt_of (instr_of_success r) = Val (SH_Success r)"
  by (cases r) simp_all

lemma halt_round_trip:
  "success_or_halt_of (instr_of_halt h) = Val (SH_Halt h) \<longleftrightarrow> h \<noteq> HR_CreateContractStartingWithEF"
proof (cases h)
  case (HR_OutOfGas e)
  then show ?thesis by (cases e) simp_all
qed simp_all

lemma success_or_halt_of_total: "success_or_halt_of r = Panic \<longleftrightarrow> r = ReturnContract"
  by (cases r) simp_all

end
