(* ===== verification/Journal.thy ===== *)
theory Journal
  imports Account Spec_Id Instruction_Result
begin

text \<open>
  The journaled state of \<^verbatim>\<open>crates/revm/src/journaled_state.rs\<close>: the EVM state with an undo log.
  Every method is one definition named \<open>js_\<close> and the method's name, on the record
  \<open>journaled_state\<close>. The database (trait \<^verbatim>\<open>Database\<close> of \<^verbatim>\<open>primitives/src/db.rs\<close>) is a
  parameter: a record of query functions. Methods that call it return a \<open>Result\<close> beside the
  state; \<open>unwrap\<close> on a missing account, slot or journal level is a \<open>Panic\<close>.
\<close>

section \<open>Database\<close>

record 'e database =
  basic :: "address \<Rightarrow> 'e + account_info option"
  code_by_hash :: "b256 \<Rightarrow> 'e + bytecode"
  db_storage :: "address \<Rightarrow> u256 \<Rightarrow> 'e + u256"
  block_hash :: "u256 \<Rightarrow> 'e + b256"
  get_token_ids :: "'e + u256 list"
  is_token_id_valid :: "u256 \<Rightarrow> 'e + bool"

text \<open>
  \<^verbatim>\<open>EmptyDB\<close> of \<^verbatim>\<open>crates/revm/src/db/emptydb.rs\<close>: no account, no token; a block hash is the hash
  of the decimal block number.
\<close>

fun decimal_bytes :: "nat \<Rightarrow> bytes" where
  "decimal_bytes n =
     (if n < 10 then [of_nat (48 + n)] else decimal_bytes (n div 10) @ [of_nat (48 + n mod 10)])"

definition empty_db :: "keccak \<Rightarrow> 'e database" where
  "empty_db keccak256 =
     \<lparr>basic = (\<lambda>_. Inr None), code_by_hash = (\<lambda>_. Inr bytecode_new),
      db_storage = (\<lambda>_ _. Inr 0), block_hash = (\<lambda>n. Inr (keccak256 (decimal_bytes (unat n)))),
      get_token_ids = Inr [], is_token_id_valid = (\<lambda>_. Inr False)\<rparr>"

declare decimal_bytes.simps [simp del]

text \<open>\<^verbatim>\<open>.map_err(EVMError::Database)?\<close> on a query, in a given state.\<close>

fun query :: "'e + 'a \<Rightarrow> 's \<Rightarrow> (('e evm_error + 'a) \<times> 's) eval" where
  "query (Inl e) s = Val (Inl (Database e), s)"
| "query (Inr x) s = Val (Inr x, s)"

section \<open>State\<close>

datatype journal_entry =
    AccountLoaded address
  | AccountDestroyed address address bool u256
  | AccountTouched address
  | BalanceTransfer address address u256 u256
  | NonceChange address
  | AccountCreated address
  | StorageChange address u256 "u256 option"
  | TransientStorageChange address u256 u256
  | CodeChange address
  | TokensBurned address u256 u256
  | TokenIdsLoaded "u256 list"
  | TokensMinted address address u256 u256

record journal_checkpoint =
  log_i :: nat
  journal_i :: nat

text \<open>A log record of \<^verbatim>\<open>alloy_primitives\<close>: address, topics and data.\<close>

type_synonym log = "address \<times> b256 list \<times> bytes"

record journaled_state =
  state :: evm_state
  transient_storage :: transient_storage
  logs :: "log list"
  depth :: nat
  journal :: "journal_entry list list"
  spec :: spec_id
  warm_preloaded_addresses :: "address set"

record token_transfer =
  tt_id :: u256
  tt_amount :: u256

record sstore_result =
  sr_original_value :: u256
  sr_present_value :: u256
  sr_new_value :: u256
  sr_is_cold :: bool

record load_account_result =
  lar_is_cold :: bool
  lar_is_empty :: bool

record self_destruct_result =
  sd_had_value :: bool
  sd_target_exists :: bool
  sd_is_cold :: bool
  sd_previously_destroyed :: bool

definition js_new :: "spec_id \<Rightarrow> address set \<Rightarrow> journaled_state" where
  "js_new sp warm =
     \<lparr>state = default_evm_state, transient_storage = Map.empty, logs = [], depth = 0,
      journal = [[]], spec = sp, warm_preloaded_addresses = warm\<rparr>"

definition js_set_spec_id :: "journaled_state \<Rightarrow> spec_id \<Rightarrow> journaled_state" where
  "js_set_spec_id j sp = j\<lparr>spec := sp\<rparr>"

definition js_clear :: "journaled_state \<Rightarrow> journaled_state" where
  "js_clear j = js_new (spec j) {}"

text \<open>\<^verbatim>\<open>finalize\<close>: hands out state and logs and resets all but fork and warm set.\<close>

definition js_finalize :: "journaled_state \<Rightarrow> (evm_state \<times> log list) \<times> journaled_state" where
  "js_finalize j =
     ((state j, logs j),
      j\<lparr>transient_storage := Map.empty, journal := [[]], depth := 0,
        state := default_evm_state, logs := []\<rparr>)"

text \<open>Access paths: \<^verbatim>\<open>accounts.get(..)\<close>, \<^verbatim>\<open>get_mut(..).unwrap()\<close>, \<^verbatim>\<open>journal.last_mut().unwrap().push\<close>.\<close>

definition acct :: "journaled_state \<Rightarrow> address \<Rightarrow> account option" where
  "acct j a = accounts (state j) a"

definition put_account :: "address \<Rightarrow> account \<Rightarrow> journaled_state \<Rightarrow> journaled_state" where
  "put_account a acc j = j\<lparr>state := (state j)\<lparr>accounts := (accounts (state j))(a \<mapsto> acc)\<rparr>\<rparr>"

definition push_journal :: "journal_entry \<Rightarrow> journaled_state \<Rightarrow> journaled_state eval" where
  "push_journal e j =
     (if journal j = [] then Panic else Val (j\<lparr>journal := push_last e (journal j)\<rparr>))"

definition js_account :: "journaled_state \<Rightarrow> address \<Rightarrow> account eval" where
  "js_account j a = unwrap (acct j a)"

definition js_log :: "log \<Rightarrow> journaled_state \<Rightarrow> journaled_state" where
  "js_log l j = j\<lparr>logs := logs j @ [l]\<rparr>"

section \<open>Touching, code and nonce\<close>

text \<open>\<^verbatim>\<open>touch_account\<close>, with the account already looked up; the caller writes it back.\<close>

definition touch_account ::
  "address \<Rightarrow> account \<Rightarrow> journaled_state \<Rightarrow> (account \<times> journaled_state) eval" where
  "touch_account a acc j =
     (if journal j = [] then Panic
      else if \<not> is_touched acc then
        bindE (push_journal (AccountTouched a) j) (\<lambda>j. Val (mark_touch acc, j))
      else Val (acc, j))"

definition js_touch :: "address \<Rightarrow> journaled_state \<Rightarrow> journaled_state eval" where
  "js_touch a j =
     (case acct j a of
        None \<Rightarrow> Val j
      | Some acc \<Rightarrow>
          bindE (touch_account a acc j) (\<lambda>(acc, j). Val (put_account a acc j)))"

definition js_set_code ::
  "keccak \<Rightarrow> address \<Rightarrow> bytecode \<Rightarrow> journaled_state \<Rightarrow> journaled_state eval" where
  "js_set_code keccak256 a c j =
     bindE (js_account j a) (\<lambda>acc.
     bindE (touch_account a acc j) (\<lambda>(acc, j).
     bindE (push_journal (CodeChange a) j) (\<lambda>j.
     bindE (hash_slow keccak256 c) (\<lambda>h.
       Val (put_account a (acc\<lparr>info := (info acc)\<lparr>code_hash := h, code := Some c\<rparr>\<rparr>) j)))))"

definition js_inc_nonce :: "address \<Rightarrow> journaled_state \<Rightarrow> (u64 option \<times> journaled_state) eval" where
  "js_inc_nonce a j =
     bindE (js_account j a) (\<lambda>acc.
     if nonce (info acc) = - 1 then Val (None, j)
     else
       bindE (touch_account a acc j) (\<lambda>(acc, j).
       bindE (push_journal (NonceChange a) j) (\<lambda>j.
         let n = nonce (info acc) + 1
         in Val (Some n, put_account a (acc\<lparr>info := (info acc)\<lparr>nonce := n\<rparr>\<rparr>) j))))"

section \<open>Loading\<close>

text \<open>\<^verbatim>\<open>load_native_token_ids\<close>: the token ids are fetched while the list is empty.\<close>

definition js_load_native_token_ids ::
  "'e database \<Rightarrow> journaled_state \<Rightarrow> (('e evm_error + bool) \<times> journaled_state) eval" where
  "js_load_native_token_ids db j =
     (if token_ids (state j) \<noteq> [] then Val (Inr False, j)
      else tryE (query (get_token_ids db) j) (\<lambda>ids j.
        let j = j\<lparr>state := (state j)\<lparr>token_ids := ids\<rparr>\<rparr>
        in bindE (push_journal (TokenIdsLoaded ids) j) (\<lambda>j. Val (Inr True, j))))"

text \<open>\<^verbatim>\<open>load_account\<close>: the account and whether the access was cold.\<close>

definition js_load_account ::
  "'e database \<Rightarrow> address \<Rightarrow> journaled_state \<Rightarrow>
     (('e evm_error + (account \<times> bool)) \<times> journaled_state) eval" where
  "js_load_account db a j =
     (case acct j a of
        Some acc \<Rightarrow> Val (Inr (acc, False), j)
      | None \<Rightarrow>
          tryE (query (basic db a) j) (\<lambda>i j.
            let acc = (case i of Some i \<Rightarrow> account_of_info i | None \<Rightarrow> new_not_existing)
            in bindE (push_journal (AccountLoaded a) j) (\<lambda>j.
              Val (Inr (acc, a \<notin> warm_preloaded_addresses j), put_account a acc j))))"

definition js_load_account_exist ::
  "'e database \<Rightarrow> address \<Rightarrow> journaled_state \<Rightarrow>
     (('e evm_error + load_account_result) \<times> journaled_state) eval" where
  "js_load_account_exist db a j =
     tryE (js_load_account db a j) (\<lambda>(acc, is_cold) j'.
       let is_empty =
         (if enabled (spec j) SPURIOUS_DRAGON then account_is_empty acc
          else is_loaded_as_not_existing acc \<and> \<not> is_touched acc)
       in Val (Inr \<lparr>lar_is_cold = is_cold, lar_is_empty = is_empty\<rparr>, j'))"

text \<open>\<^verbatim>\<open>load_code\<close>: fills the code cache of the account.\<close>

definition js_load_code ::
  "'e database \<Rightarrow> address \<Rightarrow> journaled_state \<Rightarrow>
     (('e evm_error + (account \<times> bool)) \<times> journaled_state) eval" where
  "js_load_code db a j =
     tryE (js_load_account db a j) (\<lambda>(acc, is_cold) j.
       if code (info acc) = None then
         if code_hash (info acc) = KECCAK_EMPTY then
           let acc = acc\<lparr>info := (info acc)\<lparr>code := Some bytecode_new\<rparr>\<rparr>
           in Val (Inr (acc, is_cold), put_account a acc j)
         else
           tryE (query (code_by_hash db (code_hash (info acc))) j) (\<lambda>c j.
             let acc = acc\<lparr>info := (info acc)\<lparr>code := Some c\<rparr>\<rparr>
             in Val (Inr (acc, is_cold), put_account a acc j))
       else Val (Inr (acc, is_cold), j))"

text \<open>The loop of \<^verbatim>\<open>initial_account_load\<close> over the slots of an access list entry.\<close>

fun preload_slots ::
  "'e database \<Rightarrow> address \<Rightarrow> u256 list \<Rightarrow> journaled_state \<Rightarrow>
     (('e evm_error + unit) \<times> journaled_state) eval" where
  "preload_slots db a [] j = Val (Inr (), j)"
| "preload_slots db a (slot # slots) j =
     bindE (js_account j a) (\<lambda>acc.
       if storage acc slot = None then
         tryE (query (db_storage db a slot) j) (\<lambda>v j.
           preload_slots db a slots
             (put_account a (acc\<lparr>storage := (storage acc)(slot \<mapsto> slot_new v)\<rparr>) j))
       else preload_slots db a slots j)"

definition js_initial_account_load ::
  "'e database \<Rightarrow> address \<Rightarrow> u256 list \<Rightarrow> journaled_state \<Rightarrow>
     (('e evm_error + unit) \<times> journaled_state) eval" where
  "js_initial_account_load db a slots j =
     (case acct j a of
        Some acc \<Rightarrow> preload_slots db a slots j
      | None \<Rightarrow>
          tryE (query (basic db a) j) (\<lambda>i j.
            let acc = (case i of Some i \<Rightarrow> account_of_info i | None \<Rightarrow> new_not_existing)
            in preload_slots db a slots (put_account a acc j)))"

section \<open>Storage\<close>

definition js_sload ::
  "'e database \<Rightarrow> address \<Rightarrow> u256 \<Rightarrow> journaled_state \<Rightarrow>
     (('e evm_error + (u256 \<times> bool)) \<times> journaled_state) eval" where
  "js_sload db a key j =
     bindE (js_account j a) (\<lambda>acc.
       case storage acc key of
         Some slot \<Rightarrow> Val (Inr (present_value slot, False), j)
       | None \<Rightarrow>
           tryE (if is_created acc then Val (Inr 0, j) else query (db_storage db a key) j) (\<lambda>v j.
           bindE (push_journal (StorageChange a key None) j) (\<lambda>j.
             Val (Inr (v, True),
               put_account a (acc\<lparr>storage := (storage acc)(key \<mapsto> slot_new v)\<rparr>) j))))"

definition js_sstore ::
  "'e database \<Rightarrow> address \<Rightarrow> u256 \<Rightarrow> u256 \<Rightarrow> journaled_state \<Rightarrow>
     (('e evm_error + sstore_result) \<times> journaled_state) eval" where
  "js_sstore db a key new j =
     tryE (js_sload db a key j) (\<lambda>(present, is_cold) j.
     bindE (js_account j a) (\<lambda>acc.
     bindE (unwrap (storage acc key)) (\<lambda>slot.
       let res = \<lparr>sr_original_value = original_value slot, sr_present_value = present,
                  sr_new_value = new, sr_is_cold = is_cold\<rparr>
       in if present = new then Val (Inr res, j)
          else
            bindE (push_journal (StorageChange a key (Some present)) j) (\<lambda>j.
              Val (Inr res,
                put_account a
                  (acc\<lparr>storage := (storage acc)(key \<mapsto> slot\<lparr>present_value := new\<rparr>)\<rparr>) j)))))"

definition js_tload :: "address \<Rightarrow> u256 \<Rightarrow> journaled_state \<Rightarrow> u256" where
  "js_tload a key j = (case transient_storage j (a, key) of None \<Rightarrow> 0 | Some v \<Rightarrow> v)"

definition js_tstore :: "address \<Rightarrow> u256 \<Rightarrow> u256 \<Rightarrow> journaled_state \<Rightarrow> journaled_state eval" where
  "js_tstore a key new j =
     (let ts = transient_storage j;
          (had_value, ts') =
            (if new = 0 then (ts (a, key), ts((a, key) := None))
             else
               let previous_value = (case ts (a, key) of None \<Rightarrow> 0 | Some v \<Rightarrow> v)
               in (if previous_value \<noteq> new then Some previous_value else None,
                   ts((a, key) \<mapsto> new)));
          j = j\<lparr>transient_storage := ts'\<rparr>
      in case had_value of
           None \<Rightarrow> Val j
         | Some v \<Rightarrow> push_journal (TransientStorageChange a key v) j)"

section \<open>Transfers\<close>

text \<open>One iteration of the loop of \<^verbatim>\<open>transfer\<close>: \<open>Some\<close> is the early return.\<close>

definition transfer_one ::
  "address \<Rightarrow> address \<Rightarrow> token_transfer \<Rightarrow> journaled_state \<Rightarrow>
     (instruction_result option \<times> journaled_state) eval" where
  "transfer_one from to t j =
     bindE (js_account j from) (\<lambda>from_account.
     bindE (touch_account from from_account j) (\<lambda>(from_account, j).
     case checked_sub (get_balance (info from_account) (tt_id t)) (tt_amount t) of
       None \<Rightarrow> Val (Some OutOfFunds, put_account from from_account j)
     | Some from_balance_decr \<Rightarrow>
         let j = put_account from
               (from_account\<lparr>info := set_balance (info from_account) (tt_id t) from_balance_decr\<rparr>) j
         in
         bindE (js_account j to) (\<lambda>to_account.
         bindE (touch_account to to_account j) (\<lambda>(to_account, j).
         case checked_add (get_balance (info to_account) (tt_id t)) (tt_amount t) of
           None \<Rightarrow> Val (Some OverflowPayment, put_account to to_account j)
         | Some to_balance_incr \<Rightarrow>
             let j = put_account to
                   (to_account\<lparr>info := set_balance (info to_account) (tt_id t) to_balance_incr\<rparr>) j
             in
             bindE (push_journal (BalanceTransfer from to (tt_id t) (tt_amount t)) j) (\<lambda>j.
               Val (None, j))))))"

fun transfer_loop ::
  "address \<Rightarrow> address \<Rightarrow> token_transfer list \<Rightarrow> journaled_state \<Rightarrow>
     (instruction_result option \<times> journaled_state) eval" where
  "transfer_loop from to [] j = Val (None, j)"
| "transfer_loop from to (t # ts) j =
     bindE (transfer_one from to t j) (\<lambda>(r, j).
       case r of Some e \<Rightarrow> Val (Some e, j) | None \<Rightarrow> transfer_loop from to ts j)"

definition js_transfer ::
  "'e database \<Rightarrow> address \<Rightarrow> address \<Rightarrow> token_transfer list \<Rightarrow> journaled_state \<Rightarrow>
     (('e evm_error + instruction_result option) \<times> journaled_state) eval" where
  "js_transfer db from to transfers j =
     tryE (js_load_native_token_ids db j) (\<lambda>_ j.
     tryE (js_load_account db from j) (\<lambda>_ j.
     tryE (js_load_account db to j) (\<lambda>_ j.
     bindE (transfer_loop from to transfers j) (\<lambda>(r, j). Val (Inr r, j)))))"

section \<open>Checkpoints and reverting\<close>

definition js_checkpoint :: "journaled_state \<Rightarrow> journal_checkpoint \<times> journaled_state" where
  "js_checkpoint j =
     (\<lparr>log_i = length (logs j), journal_i = length (journal j)\<rparr>,
      j\<lparr>depth := depth j + 1, journal := journal j @ [[]]\<rparr>)"

definition js_checkpoint_commit :: "journaled_state \<Rightarrow> journaled_state eval" where
  "js_checkpoint_commit j = (if depth j = 0 then Panic else Val (j\<lparr>depth := depth j - 1\<rparr>))"

text \<open>One arm of the match in \<^verbatim>\<open>journal_revert\<close>, on state and transient storage.\<close>

definition modify_account ::
  "address \<Rightarrow> (account \<Rightarrow> account eval) \<Rightarrow> evm_state \<Rightarrow> evm_state eval" where
  "modify_account a f s =
     bindE (unwrap (accounts s a)) (\<lambda>acc.
     bindE (f acc) (\<lambda>acc. Val (s\<lparr>accounts := (accounts s)(a \<mapsto> acc)\<rparr>)))"

fun revert_entry ::
  "bool \<Rightarrow> journal_entry \<Rightarrow> evm_state \<times> transient_storage \<Rightarrow>
     (evm_state \<times> transient_storage) eval" where
  "revert_entry sd (AccountLoaded a) (s, ts) =
     Val (s\<lparr>accounts := (accounts s)(a := None)\<rparr>, ts)"
| "revert_entry sd (AccountTouched a) (s, ts) =
     (if sd \<and> a = PRECOMPILE3 then Val (s, ts)
      else bindE (modify_account a (\<lambda>acc. Val (unmark_touch acc)) s) (\<lambda>s. Val (s, ts)))"
| "revert_entry sd (AccountDestroyed a target was_destroyed had_balance) (s, ts) =
     bindE (modify_account a (\<lambda>acc.
         let acc = (if was_destroyed then mark_selfdestruct acc else unmark_selfdestruct acc)
         in Val (acc\<lparr>info := increase_base_balance (info acc) had_balance\<rparr>)) s) (\<lambda>s.
       if a \<noteq> target then
         bindE (modify_account target (\<lambda>acc.
           Val (acc\<lparr>info := decrease_base_balance (info acc) had_balance\<rparr>)) s) (\<lambda>s. Val (s, ts))
       else Val (s, ts))"
| "revert_entry sd (BalanceTransfer from to token_id amount) (s, ts) =
     bindE (modify_account from (\<lambda>acc.
         Val (acc\<lparr>info := increase_balance (info acc) token_id amount\<rparr>)) s) (\<lambda>s.
     bindE (modify_account to (\<lambda>acc.
         Val (acc\<lparr>info := decrease_balance (info acc) token_id amount\<rparr>)) s) (\<lambda>s. Val (s, ts)))"
| "revert_entry sd (NonceChange a) (s, ts) =
     bindE (modify_account a (\<lambda>acc.
         bindE (minus_or_panic (nonce (info acc)) 1) (\<lambda>n.
           Val (acc\<lparr>info := (info acc)\<lparr>nonce := n\<rparr>\<rparr>))) s) (\<lambda>s. Val (s, ts))"
| "revert_entry sd (AccountCreated a) (s, ts) =
     bindE (modify_account a (\<lambda>acc.
         let acc = unmark_created acc in Val (acc\<lparr>info := (info acc)\<lparr>nonce := 0\<rparr>\<rparr>)) s)
       (\<lambda>s. Val (s, ts))"
| "revert_entry sd (StorageChange a key (Some had_value)) (s, ts) =
     bindE (modify_account a (\<lambda>acc.
         bindE (unwrap (storage acc key)) (\<lambda>slot.
           Val (acc\<lparr>storage := (storage acc)(key \<mapsto> slot\<lparr>present_value := had_value\<rparr>)\<rparr>))) s)
       (\<lambda>s. Val (s, ts))"
| "revert_entry sd (StorageChange a key None) (s, ts) =
     bindE (modify_account a (\<lambda>acc. Val (acc\<lparr>storage := (storage acc)(key := None)\<rparr>)) s)
       (\<lambda>s. Val (s, ts))"
| "revert_entry sd (TransientStorageChange a key had_value) (s, ts) =
     (if had_value = 0 then Val (s, ts((a, key) := None))
      else Val (s, ts((a, key) \<mapsto> had_value)))"
| "revert_entry sd (CodeChange a) (s, ts) =
     bindE (modify_account a (\<lambda>acc.
         Val (acc\<lparr>info := (info acc)\<lparr>code_hash := KECCAK_EMPTY, code := None\<rparr>\<rparr>)) s)
       (\<lambda>s. Val (s, ts))"
| "revert_entry sd (TokensBurned token_holder token_id burned_amount) (s, ts) =
     bindE (modify_account token_holder (\<lambda>acc.
         Val (acc\<lparr>info := increase_balance (info acc) token_id burned_amount\<rparr>)) s)
       (\<lambda>s. Val (s, ts))"
| "revert_entry sd (TokenIdsLoaded _) (s, ts) = Val (s\<lparr>token_ids := []\<rparr>, ts)"
| "revert_entry sd (TokensMinted _ recipient token_id minted_amount) (s, ts) =
     bindE (modify_account recipient (\<lambda>acc.
         Val (acc\<lparr>info := decrease_balance (info acc) token_id minted_amount\<rparr>)) s)
       (\<lambda>s. Val (s, ts))"

text \<open>\<^verbatim>\<open>journal_revert\<close>: the entries, the last one first.\<close>

fun revert_entries ::
  "bool \<Rightarrow> journal_entry list \<Rightarrow> evm_state \<times> transient_storage \<Rightarrow>
     (evm_state \<times> transient_storage) eval" where
  "revert_entries sd [] st = Val st"
| "revert_entries sd (e # es) st = bindE (revert_entry sd e st) (revert_entries sd es)"

definition journal_revert ::
  "bool \<Rightarrow> journal_entry list \<Rightarrow> evm_state \<times> transient_storage \<Rightarrow>
     (evm_state \<times> transient_storage) eval" where
  "journal_revert sd entries st = revert_entries sd (rev entries) st"

text \<open>The levels of the journal above the checkpoint, the last one first.\<close>

fun revert_levels ::
  "bool \<Rightarrow> journal_entry list list \<Rightarrow> evm_state \<times> transient_storage \<Rightarrow>
     (evm_state \<times> transient_storage) eval" where
  "revert_levels sd [] st = Val st"
| "revert_levels sd (cs # css) st = bindE (journal_revert sd cs st) (revert_levels sd css)"

definition js_checkpoint_revert ::
  "journal_checkpoint \<Rightarrow> journaled_state \<Rightarrow> journaled_state eval" where
  "js_checkpoint_revert cp j =
     (if depth j = 0 \<or> length (journal j) < journal_i cp then Panic
      else
        bindE (revert_levels (enabled (spec j) SPURIOUS_DRAGON)
                 (take (length (journal j) - journal_i cp) (rev (journal j)))
                 (state j, transient_storage j)) (\<lambda>(s, ts).
          Val (j\<lparr>state := s, transient_storage := ts, depth := depth j - 1,
                 logs := take (log_i cp) (logs j), journal := take (journal_i cp) (journal j)\<rparr>)))"

section \<open>Creating and destroying accounts\<close>

definition js_create_account_checkpoint ::
  "address \<Rightarrow> address \<Rightarrow> u256 \<Rightarrow> spec_id \<Rightarrow> journaled_state \<Rightarrow>
     ((instruction_result + journal_checkpoint) \<times> journaled_state) eval" where
  "js_create_account_checkpoint caller a balance spec_id j =
     (let (cp, j) = js_checkpoint j in
      bindE (js_account j a) (\<lambda>acc.
      if code_hash (info acc) \<noteq> KECCAK_EMPTY \<or> nonce (info acc) \<noteq> 0
         \<or> a \<in> warm_preloaded_addresses j then
        bindE (js_checkpoint_revert cp j) (\<lambda>j. Val (Inl CreateCollision, j))
      else
        let acc = mark_created acc in
        bindE (push_journal (AccountCreated a) j) (\<lambda>j.
        let acc = acc\<lparr>info := (info acc)\<lparr>code := None\<rparr>,
                     storage := (\<lambda>k. map_option (\<lambda>_. slot_default) (storage acc k))\<rparr> in
        bindE (touch_account a acc j) (\<lambda>(acc, j).
        case checked_add (get_base_balance (info acc)) balance of
          None \<Rightarrow>
            bindE (js_checkpoint_revert cp (put_account a acc j)) (\<lambda>j. Val (Inl OverflowPayment, j))
        | Some new_base_balance \<Rightarrow>
            let acc = acc\<lparr>info := set_base_balance (info acc) new_base_balance\<rparr>;
                acc = (if enabled spec_id SPURIOUS_DRAGON
                       then acc\<lparr>info := (info acc)\<lparr>nonce := 1\<rparr>\<rparr> else acc);
                j = put_account a acc j in
            bindE (js_account j caller) (\<lambda>caller_account.
            let j = put_account caller
                  (caller_account\<lparr>info := decrease_base_balance (info caller_account) balance\<rparr>) j in
            bindE (push_journal (BalanceTransfer caller a BASE_TOKEN_ID balance) j) (\<lambda>j.
              Val (Inr cp, j)))))))"

definition js_selfdestruct ::
  "'e database \<Rightarrow> address \<Rightarrow> address \<Rightarrow> journaled_state \<Rightarrow>
     (('e evm_error + self_destruct_result) \<times> journaled_state) eval" where
  "js_selfdestruct db a target j =
     tryE (js_load_account_exist db target j) (\<lambda>load_result j.
     bindE (if a \<noteq> target then
              bindE (js_account j a) (\<lambda>acc.
              bindE (js_account j target) (\<lambda>target_account.
              bindE (touch_account target target_account j) (\<lambda>(target_account, j).
                Val (put_account target
                  (target_account\<lparr>info := increase_base_balance (info target_account)
                                           (get_base_balance (info acc))\<rparr>) j))))
            else Val j) (\<lambda>j.
     bindE (js_account j a) (\<lambda>acc.
     let balance = get_base_balance (info acc);
         was_destroyed = is_selfdestructed acc;
         res = \<lparr>sd_had_value = (balance \<noteq> 0), sd_target_exists = \<not> lar_is_empty load_result,
                sd_is_cold = lar_is_cold load_result, sd_previously_destroyed = was_destroyed\<rparr> in
     if is_created acc \<or> \<not> enabled (spec j) CANCUN then
       let acc = mark_selfdestruct acc;
           j = put_account a (acc\<lparr>info := set_base_balance (info acc) 0\<rparr>) j in
       bindE (push_journal (AccountDestroyed a target was_destroyed balance) j) (\<lambda>j.
         Val (Inr res, j))
     else if a \<noteq> target then
       let j = put_account a (acc\<lparr>info := set_base_balance (info acc) 0\<rparr>) j in
       bindE (push_journal (BalanceTransfer a target BASE_TOKEN_ID balance) j) (\<lambda>j.
         Val (Inr res, j))
     else Val (Inr res, j))))"

section \<open>Native tokens\<close>

text \<open>\<^verbatim>\<open>utilities::token_id_address\<close>: the id of a token is the hash of its minter and sub id.\<close>

definition token_id_address :: "keccak \<Rightarrow> address \<Rightarrow> u256 \<Rightarrow> u256" where
  "token_id_address keccak256 a sub_id = keccak256 (to_be_bytes a @ to_be_bytes sub_id)"

definition js_burn ::
  "keccak \<Rightarrow> 'e database \<Rightarrow> address \<Rightarrow> u256 \<Rightarrow> address \<Rightarrow> u256 \<Rightarrow> journaled_state \<Rightarrow>
     (bool \<times> journaled_state) eval" where
  "js_burn keccak256 db burner sub_id token_holder amount j =
     (if amount = 0 then Val (False, j)
      else bindE (js_load_native_token_ids db j) (\<lambda>(r, j).
        case r of Inl _ \<Rightarrow> Val (False, j) | Inr _ \<Rightarrow>
        bindE (js_load_account db token_holder j) (\<lambda>(r, j).
        case r of Inl _ \<Rightarrow> Val (False, j) | Inr _ \<Rightarrow>
        let token_id = token_id_address keccak256 burner sub_id in
        case is_token_id_valid db token_id of Inl _ \<Rightarrow> Val (False, j) | Inr valid \<Rightarrow>
        if \<not> valid then Val (False, j)
        else bindE (js_account j token_holder) (\<lambda>acc.
          case checked_sub (get_balance (info acc) token_id) amount of
            None \<Rightarrow> Val (False, j)
          | Some new_balance \<Rightarrow>
              let j = put_account token_holder
                    (acc\<lparr>info := set_balance (info acc) token_id new_balance\<rparr>) j in
              bindE (push_journal (TokensBurned token_holder token_id amount) j) (\<lambda>j.
                Val (True, j))))))"

definition js_mint ::
  "keccak \<Rightarrow> 'e database \<Rightarrow> address \<Rightarrow> address \<Rightarrow> u256 \<Rightarrow> u256 \<Rightarrow> journaled_state \<Rightarrow>
     (bool \<times> journaled_state) eval" where
  "js_mint keccak256 db minter recipient sub_id amount j =
     bindE (js_load_native_token_ids db j) (\<lambda>(r, j).
     case r of Inl _ \<Rightarrow> Val (False, j) | Inr _ \<Rightarrow>
     bindE (js_load_account db minter j) (\<lambda>(r, j).
     case r of Inl _ \<Rightarrow> Val (False, j) | Inr _ \<Rightarrow>
     let token_id = token_id_address keccak256 minter sub_id in
     bindE (js_account j recipient) (\<lambda>acc.
       case checked_add (get_balance (info acc) token_id) amount of
         None \<Rightarrow> Val (False, j)
       | Some new_balance \<Rightarrow>
           let j = put_account recipient
                 (acc\<lparr>info := set_balance (info acc) token_id new_balance\<rparr>) j;
               ids = token_ids (state j);
               j = (if token_id \<notin> set ids
                    then j\<lparr>state := (state j)\<lparr>token_ids := ids @ [token_id]\<rparr>\<rparr> else j) in
           bindE (push_journal (TokensMinted minter recipient token_id amount) j) (\<lambda>j.
             Val (True, j)))))"

end
