(* ===== verification/Journal_Revert.thy ===== *)
theory Journal_Revert
  imports Journal
begin

text \<open>
  Reverting: the journal entries written between a checkpoint and its revert undo everything
  the operations of the journaled state did. The observation is what the interpreter can see:
  which accounts and slots are loaded, balances, nonce, code hash, storage, status flags and
  transient storage. Not observed are the cache of decoded code and the list of known token
  ids. Under \<^verbatim>\<open>SPURIOUS_DRAGON\<close> the touch of precompile 3 survives a revert on purpose, so that
  one flag of that one account is not observed either.
\<close>

section \<open>Undo logs\<close>

text \<open>
  The contract of an undo log: undoing an entry respects the observation \<open>sim\<close>. The client
  facts are about lists of entries, newest first.
\<close>

locale undo_log =
  fixes sim :: "'s \<Rightarrow> 's \<Rightarrow> bool"
    and undo :: "'e \<Rightarrow> 's \<Rightarrow> 's eval"
    and undo_all :: "'e list \<Rightarrow> 's \<Rightarrow> 's eval"
  assumes sim_refl: "sim s s"
    and sim_sym: "sim s t \<Longrightarrow> sim t s"
    and sim_trans: "sim s t \<Longrightarrow> sim t u \<Longrightarrow> sim s u"
    and undo_sim: "sim s t \<Longrightarrow> undo e s = Val s' \<Longrightarrow> \<exists>t'. undo e t = Val t' \<and> sim s' t'"
    and undo_all_Nil: "undo_all [] s = Val s"
    and undo_all_Cons: "undo_all (e # es) s = bindE (undo e s) (undo_all es)"
begin

lemma undo_all_append: "undo_all (es @ fs) s = bindE (undo_all es s) (undo_all fs)"
proof (induction es arbitrary: s)
  case (Cons e es)
  then show ?case by (cases "undo e s") (simp_all add: undo_all_Cons)
qed (simp add: undo_all_Nil)

lemma undo_all_sim:
  assumes "sim s t" and "undo_all es s = Val s'"
  shows "\<exists>t'. undo_all es t = Val t' \<and> sim s' t'"
  using assms
proof (induction es arbitrary: s t)
  case (Cons e es)
  then obtain s1 where "undo e s = Val s1" "undo_all es s1 = Val s'"
    by (auto simp: undo_all_Cons bindE_Val_iff)
  with Cons.prems(1) Cons.IH show ?case
    by (metis undo_sim undo_all_Cons bindE.simps(2))
qed (simp add: undo_all_Nil)

text \<open>Two runs of entries compose, up to the observation in between.\<close>

lemma undo_all_compose:
  assumes "undo_all es s2 = Val s1'" and "sim s1' s1"
    and "undo_all fs s1 = Val s0'" and "sim s0' s0"
  shows "\<exists>s. undo_all (es @ fs) s2 = Val s \<and> sim s s0"
proof -
  from undo_all_sim [OF sim_sym [OF assms(2)] assms(3)] obtain t
    where "undo_all fs s1' = Val t" "sim s0' t" by blast
  then have "undo_all (es @ fs) s2 = Val t" and "sim t s0"
    using assms(1) sim_trans [OF sim_sym assms(4)] by (simp_all add: undo_all_append)
  then show ?thesis by blast
qed

end

section \<open>Observation\<close>

definition acc_sim :: "bool \<Rightarrow> address \<Rightarrow> account \<Rightarrow> account \<Rightarrow> bool" where
  "acc_sim sd a x y \<longleftrightarrow>
     get_balance (info x) = get_balance (info y) \<and> nonce (info x) = nonce (info y) \<and>
     code_hash (info x) = code_hash (info y) \<and> storage x = storage y \<and>
     (if sd \<and> a = PRECOMPILE3 then flag_remove (status x) Touched = flag_remove (status y) Touched
      else status x = status y)"

definition transient_value :: "transient_storage \<Rightarrow> address \<times> u256 \<Rightarrow> u256" where
  "transient_value ts k = (case ts k of None \<Rightarrow> 0 | Some v \<Rightarrow> v)"

fun st_sim :: "bool \<Rightarrow> evm_state \<times> transient_storage \<Rightarrow> evm_state \<times> transient_storage \<Rightarrow> bool" where
  "st_sim sd (s, ts) (s', ts') \<longleftrightarrow>
     (\<forall>a. rel_option (acc_sim sd a) (accounts s a) (accounts s' a)) \<and>
     transient_value ts = transient_value ts'"

lemma acc_sim_refl [simp]: "acc_sim sd a x x"
  by (simp add: acc_sim_def)

lemma acc_sim_option_refl [simp]: "rel_option (acc_sim sd a) m m"
  by (cases m) simp_all

lemma acc_sim_sym: "acc_sim sd a x y \<Longrightarrow> acc_sim sd a y x"
  by (auto simp: acc_sim_def split: if_splits)

lemma acc_sim_trans: "acc_sim sd a x y \<Longrightarrow> acc_sim sd a y z \<Longrightarrow> acc_sim sd a x z"
  by (auto simp: acc_sim_def split: if_splits)

lemma st_sim_accounts:
  "st_sim sd (s, ts) (t, tt) \<Longrightarrow> rel_option (acc_sim sd a) (accounts s a) (accounts t a)"
  by simp

lemma st_sim_refl: "st_sim sd p p"
  by (cases p) (auto intro: option.rel_refl)

lemma st_sim_sym: "st_sim sd p q \<Longrightarrow> st_sim sd q p"
  by (cases p, cases q) (auto intro: option.rel_symp [THEN sympD] sympI acc_sim_sym)

lemma st_sim_trans: "st_sim sd p q \<Longrightarrow> st_sim sd q r \<Longrightarrow> st_sim sd p r"
  by (cases p, cases q, cases r)
    (auto intro: option.rel_transp [THEN transpD] transpI acc_sim_trans)

text \<open>Updating an account the same way on both sides keeps the observation.\<close>

definition obs_cong :: "bool \<Rightarrow> address \<Rightarrow> (account \<Rightarrow> account eval) \<Rightarrow> bool" where
  "obs_cong sd a f \<longleftrightarrow>
     (\<forall>x y x'. acc_sim sd a x y \<longrightarrow> f x = Val x' \<longrightarrow> (\<exists>y'. f y = Val y' \<and> acc_sim sd a x' y'))"

lemma obs_cong_Val:
  "(\<And>x y. acc_sim sd a x y \<Longrightarrow> acc_sim sd a (g x) (g y)) \<Longrightarrow> obs_cong sd a (\<lambda>x. Val (g x))"
  by (auto simp: obs_cong_def)

lemma modify_account_sim:
  assumes "st_sim sd (s, ts) (t, tt)" and "modify_account a f s = Val s'" and "obs_cong sd a f"
  shows "\<exists>t'. modify_account a f t = Val t' \<and> st_sim sd (s', ts) (t', tt)"
proof -
  from assms(2) obtain x x' where x: "accounts s a = Some x" "f x = Val x'"
    and s': "s' = s\<lparr>accounts := (accounts s)(a \<mapsto> x')\<rparr>"
    by (auto simp: modify_account_def evals)
  from st_sim_accounts [OF assms(1), of a] x obtain y where y: "accounts t a = Some y" "acc_sim sd a x y"
    by (auto simp: option_rel_Some1)
  from assms(3) y(2) x(2) obtain y' where "f y = Val y'" "acc_sim sd a x' y'"
    unfolding obs_cong_def by blast
  with assms(1) y s' show ?thesis
    by (auto simp: modify_account_def)
qed

lemma flag_remove_insert_touched:
  "flag_remove (flag_insert s f) Touched = flag_insert (flag_remove s Touched) (flag_remove f Touched)"
  by (simp add: flag_remove_def flag_insert_def bit.conj_disj_distrib2)

lemma flag_remove_remove: "flag_remove (flag_remove s f) g = flag_remove (flag_remove s g) f"
  by (simp add: flag_remove_def ac_simps)

text \<open>The account updates that reverting makes respect the observation.\<close>

lemma acc_sim_updates:
  assumes "acc_sim sd a x y"
  shows "acc_sim sd a (x\<lparr>status := flag_insert (status x) f\<rparr>) (y\<lparr>status := flag_insert (status y) f\<rparr>)"
    and "acc_sim sd a (x\<lparr>status := flag_remove (status x) f\<rparr>) (y\<lparr>status := flag_remove (status y) f\<rparr>)"
    and "acc_sim sd a (x\<lparr>storage := m\<rparr>) (y\<lparr>storage := m\<rparr>)"
    and "acc_sim sd a (x\<lparr>info := set_balance (info x) t b\<rparr>) (y\<lparr>info := set_balance (info y) t b\<rparr>)"
    and "acc_sim sd a (x\<lparr>info := (info x)\<lparr>nonce := n\<rparr>\<rparr>) (y\<lparr>info := (info y)\<lparr>nonce := n\<rparr>\<rparr>)"
    and "acc_sim sd a (x\<lparr>info := (info x)\<lparr>code_hash := h, code := c\<rparr>\<rparr>)
           (y\<lparr>info := (info y)\<lparr>code_hash := h, code := c'\<rparr>\<rparr>)"
proof -
  show "acc_sim sd a (x\<lparr>status := flag_insert (status x) f\<rparr>) (y\<lparr>status := flag_insert (status y) f\<rparr>)"
    using assms by (simp add: acc_sim_def flag_remove_insert_touched split: if_splits)
  show "acc_sim sd a (x\<lparr>status := flag_remove (status x) f\<rparr>) (y\<lparr>status := flag_remove (status y) f\<rparr>)"
    using assms
    by (simp add: acc_sim_def flag_remove_remove [of _ f Touched] split: if_splits)
qed (use assms in \<open>simp_all add: acc_sim_def token_ledger.get_set_fun\<close>)

lemma acc_sim_reads:
  assumes "acc_sim sd a x y"
  shows "get_balance (info x) = get_balance (info y)" and "nonce (info x) = nonce (info y)"
    and "code_hash (info x) = code_hash (info y)" and "storage x = storage y"
  using assms by (simp_all add: acc_sim_def)

lemma credit_sim:
  assumes "acc_sim sd a x y"
  shows "acc_sim sd a (x\<lparr>info := increase_balance (info x) t b\<rparr>) (y\<lparr>info := increase_balance (info y) t b\<rparr>)"
    and "acc_sim sd a (x\<lparr>info := decrease_balance (info x) t b\<rparr>) (y\<lparr>info := decrease_balance (info y) t b\<rparr>)"
  using acc_sim_updates(4) [OF assms] acc_sim_reads(1) [OF assms]
  by (simp_all add: balance_ops)

text \<open>One lemma per account update of \<^verbatim>\<open>journal_revert\<close>.\<close>

lemma obs_cong_flags:
  "obs_cong sd a (\<lambda>x. Val (unmark_touch x))"
  "obs_cong sd a (\<lambda>x. Val (unmark_selfdestruct x))"
  "obs_cong sd a (\<lambda>x. Val (mark_selfdestruct x))"
  "obs_cong sd a (\<lambda>x. Val (unmark_created x))"
  by (auto intro!: obs_cong_Val acc_sim_updates simp: flag_ops)

lemma obs_cong_balances:
  "obs_cong sd a (\<lambda>x. Val (x\<lparr>info := increase_balance (info x) t b\<rparr>))"
  "obs_cong sd a (\<lambda>x. Val (x\<lparr>info := decrease_balance (info x) t b\<rparr>))"
  by (auto intro!: obs_cong_Val credit_sim)

lemma obs_cong_compose:
  assumes "obs_cong sd a (\<lambda>x. Val (g x))" and "obs_cong sd a (\<lambda>x. Val (h x))"
  shows "obs_cong sd a (\<lambda>x. Val (h (g x)))"
  using assms by (simp add: obs_cong_def)

lemma obs_cong_destroy:
  "obs_cong sd a (\<lambda>acc.
     let acc = (if d then mark_selfdestruct acc else unmark_selfdestruct acc)
     in Val (acc\<lparr>info := increase_base_balance (info acc) b\<rparr>))"
  using obs_cong_compose [OF obs_cong_flags(3) obs_cong_balances(1), of sd a BASE_TOKEN_ID b]
    obs_cong_compose [OF obs_cong_flags(2) obs_cong_balances(1), of sd a BASE_TOKEN_ID b]
  by (cases d) (simp_all add: increase_base_balance_def Let_def)

lemma obs_cong_create:
  "obs_cong sd a (\<lambda>acc. let acc = unmark_created acc in Val (acc\<lparr>info := (info acc)\<lparr>nonce := 0\<rparr>\<rparr>))"
proof -
  have "obs_cong sd a (\<lambda>x. Val (x\<lparr>info := (info x)\<lparr>nonce := 0\<rparr>\<rparr>))"
    by (auto intro!: obs_cong_Val acc_sim_updates)
  from obs_cong_compose [OF obs_cong_flags(4) this] show ?thesis by (simp add: Let_def)
qed

lemma obs_cong_nonce:
  "obs_cong sd a (\<lambda>acc. bindE (minus_or_panic (nonce (info acc)) 1) (\<lambda>n.
     Val (acc\<lparr>info := (info acc)\<lparr>nonce := n\<rparr>\<rparr>)))"
  by (auto simp: obs_cong_def evals acc_sim_reads(2) acc_sim_updates)

lemma obs_cong_slot:
  "obs_cong sd a (\<lambda>acc. Val (acc\<lparr>storage := (storage acc)(key := None)\<rparr>))"
  "obs_cong sd a (\<lambda>acc. bindE (unwrap (storage acc key)) (\<lambda>slot.
     Val (acc\<lparr>storage := (storage acc)(key \<mapsto> slot\<lparr>present_value := v\<rparr>)\<rparr>)))"
  by (auto simp: obs_cong_def evals acc_sim_reads(4) acc_sim_updates)

lemma obs_cong_code:
  "obs_cong sd a (\<lambda>acc. Val (acc\<lparr>info := (info acc)\<lparr>code_hash := h, code := c\<rparr>\<rparr>))"
  by (auto intro!: obs_cong_Val acc_sim_updates)

lemmas obs_cong_all =
  obs_cong_flags obs_cong_balances obs_cong_destroy obs_cong_create obs_cong_nonce obs_cong_slot
  obs_cong_code

lemma revert_modify_sim:
  assumes "st_sim sd (s, ts) (t, tt)"
    and "bindE (modify_account a f s) (\<lambda>s. Val (s, ts)) = Val p'" and "obs_cong sd a f"
  shows "\<exists>q'. bindE (modify_account a f t) (\<lambda>s. Val (s, tt)) = Val q' \<and> st_sim sd p' q'"
proof -
  from assms(2) obtain s' where s': "modify_account a f s = Val s'" "p' = (s', ts)"
    by (auto simp: evals)
  from modify_account_sim [OF assms(1) s'(1) assms(3)] obtain t'
    where "modify_account a f t = Val t'" "st_sim sd (s', ts) (t', tt)" by blast
  with s'(2) show ?thesis by (simp only: bindE.simps) blast
qed

lemma revert_modify2_sim:
  assumes "st_sim sd (s, ts) (t, tt)"
    and "bindE (modify_account a f s) (\<lambda>s. bindE (modify_account b g s) (\<lambda>s. Val (s, ts))) = Val p'"
    and "obs_cong sd a f" and "obs_cong sd b g"
  shows "\<exists>q'. bindE (modify_account a f t) (\<lambda>s. bindE (modify_account b g s) (\<lambda>s. Val (s, tt))) = Val q' \<and>
     st_sim sd p' q'"
proof -
  from assms(2) obtain s' where s': "modify_account a f s = Val s'"
    and p': "bindE (modify_account b g s') (\<lambda>s. Val (s, ts)) = Val p'"
    by (auto simp: evals)
  from modify_account_sim [OF assms(1) s' assms(3)] obtain t'
    where "modify_account a f t = Val t'" "st_sim sd (s', ts) (t', tt)" by blast
  with revert_modify_sim [OF _ p' assms(4)] show ?thesis by (simp only: bindE.simps)
qed

lemma revert_entry_sim:
  assumes "st_sim sd p q" and "revert_entry sd e p = Val p'"
  shows "\<exists>q'. revert_entry sd e q = Val q' \<and> st_sim sd p' q'"
proof -
  obtain s ts t tt where pq: "p = (s, ts)" "q = (t, tt)" by (cases p, cases q)
  note sim = assms(1) [unfolded pq] and rev = assms(2) [unfolded pq]
  note one = revert_modify_sim [OF sim _ obs_cong_all(1)] revert_modify_sim [OF sim _ obs_cong_all(5)]
    revert_modify_sim [OF sim _ obs_cong_all(6)] revert_modify_sim [OF sim _ obs_cong_all(7)]
    revert_modify_sim [OF sim _ obs_cong_all(8)] revert_modify_sim [OF sim _ obs_cong_all(9)]
    revert_modify_sim [OF sim _ obs_cong_all(10)] revert_modify_sim [OF sim _ obs_cong_all(11)]
    revert_modify_sim [OF sim _ obs_cong_all(12)]
  show ?thesis
  proof (cases e)
    case (AccountTouched a)
    with sim rev show ?thesis unfolding pq
      by (cases "sd \<and> a = PRECOMPILE3")
        (auto simp only: revert_entry.simps if_False if_True simp_thms eval.inject intro!: one)
  next
    case (AccountDestroyed a target d b)
    with rev show ?thesis unfolding pq
      using one(4) revert_modify2_sim [OF sim _ obs_cong_destroy obs_cong_balances(2)]
      by (cases "a = target")
        (simp_all only: revert_entry.simps decrease_base_balance_def simp_thms if_True if_False)
  next
    case (BalanceTransfer a a2 i b)
    with rev show ?thesis unfolding pq
      using revert_modify2_sim [OF sim _ obs_cong_balances(1) obs_cong_balances(2)]
      by (simp only: revert_entry.simps)
  next
    case (StorageChange a key v)
    with rev show ?thesis unfolding pq
      by (cases v) (simp_all only: revert_entry.simps one)
  qed (use sim rev in \<open>auto simp: pq one transient_value_def fun_eq_iff simp del: split_paired_Ex\<close>)
qed

interpretation journal_undo: undo_log "st_sim sd" "revert_entry sd" "revert_entries sd" for sd
  by unfold_locales
    (auto simp del: split_paired_Ex st_sim.simps
      intro: st_sim_refl st_sim_sym st_sim_trans revert_entry_sim)

lemma revert_levels_concat: "revert_levels sd (rev xss) st = revert_entries sd (rev (concat xss)) st"
proof (induction xss arbitrary: st rule: rev_induct)
  case (snoc xs xss)
  have "revert_levels sd (rev (xss @ [xs])) st =
      bindE (revert_entries sd (rev xs) st) (revert_levels sd (rev xss))"
    by (simp add: journal_revert_def)
  also have "\<dots> = revert_entries sd (rev (concat (xss @ [xs]))) st"
    using snoc by (cases "revert_entries sd (rev xs) st") (simp_all add: journal_undo.undo_all_append)
  finally show ?case .
qed simp

section \<open>States that a revert can undo\<close>

abbreviation spurious :: "journaled_state \<Rightarrow> bool" where
  "spurious j \<equiv> enabled (spec j) SPURIOUS_DRAGON"

abbreviation st_of :: "journaled_state \<Rightarrow> evm_state \<times> transient_storage" where
  "st_of j \<equiv> (state j, transient_storage j)"

text \<open>The entries lead from the second state back to the first, up to observation.\<close>

definition undoes :: "bool \<Rightarrow> journal_entry list \<Rightarrow> journaled_state \<Rightarrow> journaled_state \<Rightarrow> bool" where
  "undoes sd es j' j \<longleftrightarrow> (\<exists>st. revert_entries sd (rev es) (st_of j') = Val st \<and> st_sim sd st (st_of j))"

text \<open>
  \<open>extends j j'\<close>: the journal of \<open>j'\<close> continues that of \<open>j\<close> by entries that undo the change, the
  logs continue, and nesting depth, fork and warm addresses are the same.
\<close>

definition extends :: "journaled_state \<Rightarrow> journaled_state \<Rightarrow> bool" where
  "extends j j' \<longleftrightarrow>
     journal j \<noteq> [] \<and> length (journal j) \<le> length (journal j') \<and>
     take (length (journal j) - 1) (journal j') = butlast (journal j) \<and>
     (\<exists>es. concat (journal j') = concat (journal j) @ es \<and> undoes (spurious j) es j' j) \<and>
     (\<exists>l. logs j' = logs j @ l) \<and>
     depth j' = depth j \<and> spec j' = spec j \<and>
     warm_preloaded_addresses j' = warm_preloaded_addresses j"

lemma undoes_Nil [simp]: "undoes sd [] j' j \<longleftrightarrow> st_sim sd (st_of j') (st_of j)"
  by (simp add: undoes_def)

lemma undoes_append: "undoes sd es j1 j0 \<Longrightarrow> undoes sd fs j2 j1 \<Longrightarrow> undoes sd (es @ fs) j2 j0"
  unfolding undoes_def rev_append
  by (elim exE conjE) (rule journal_undo.undo_all_compose)

lemma extends_journal: "extends j j' \<Longrightarrow> journal j \<noteq> [] \<and> journal j' \<noteq> []"
  by (auto simp: extends_def)

lemma extends_spec: "extends j j' \<Longrightarrow> spec j' = spec j"
  by (simp add: extends_def)

lemma extends_refl: "journal j \<noteq> [] \<Longrightarrow> extends j j"
  by (auto simp: extends_def butlast_conv_take intro!: exI [of _ "[]"] st_sim_refl simp del: st_sim.simps)

lemma extends_trans:
  assumes "extends j0 j1" and "extends j1 j2"
  shows "extends j0 j2"
proof -
  let ?n = "length (journal j0) - 1" and ?m = "length (journal j1) - 1"
  have le: "?n \<le> ?m" using assms by (auto simp: extends_def)
  have "take ?n (journal j2) = take ?n (take ?m (journal j2))"
    using le by simp
  also have "\<dots> = take ?n (take ?m (journal j1))"
    using assms(2) by (simp add: extends_def butlast_conv_take)
  also have "\<dots> = butlast (journal j0)"
    using assms(1) le by (simp add: extends_def)
  finally have "take ?n (journal j2) = butlast (journal j0)" .
  moreover have "\<exists>es. concat (journal j2) = concat (journal j0) @ es \<and> undoes (spurious j0) es j2 j0"
    using assms undoes_append by (fastforce simp: extends_def)
  ultimately show ?thesis
    using assms by (auto simp: extends_def simp del: split_paired_Ex)
qed

lemma extends_silent:
  assumes "journal j \<noteq> []" and "journal j' = journal j" and "depth j' = depth j" and "spec j' = spec j"
    and "warm_preloaded_addresses j' = warm_preloaded_addresses j" and "\<exists>l. logs j' = logs j @ l"
    and "st_sim (spurious j) (st_of j') (st_of j)"
  shows "extends j j'"
  using assms by (simp add: extends_def butlast_conv_take del: st_sim.simps)

lemma extends_entry:
  assumes "journal j \<noteq> []" and "journal j' = push_last e (journal j)" and "depth j' = depth j"
    and "spec j' = spec j" and "warm_preloaded_addresses j' = warm_preloaded_addresses j"
    and "logs j' = logs j" and "revert_entry (spurious j) e (st_of j') = Val st"
    and "st_sim (spurious j) st (st_of j)"
  shows "extends j j'"
  using assms
  by (auto simp: extends_def butlast_conv_take undoes_def simp del: split_paired_Ex st_sim.simps)

section \<open>One lemma per operation\<close>

declare st_sim.simps [simp del]

lemma put_account_frame [simp]:
  "journal (put_account a x j) = journal j" "depth (put_account a x j) = depth j"
  "spec (put_account a x j) = spec j" "logs (put_account a x j) = logs j"
  "warm_preloaded_addresses (put_account a x j) = warm_preloaded_addresses j"
  "transient_storage (put_account a x j) = transient_storage j"
  "accounts (state (put_account a x j)) = (accounts (state j))(a \<mapsto> x)"
  "token_ids (state (put_account a x j)) = token_ids (state j)"
  by (simp_all add: put_account_def)

lemma put_account_journal [simp]:
  "put_account a x (j\<lparr>journal := u\<rparr>) = (put_account a x j)\<lparr>journal := u\<rparr>"
  by (simp add: put_account_def)

lemma put_account_twice [simp]: "put_account a y (put_account a x j) = put_account a y j"
  by (simp add: put_account_def)

lemma acct_put [simp]: "acct (put_account a x j) b = (if b = a then Some x else acct j b)"
  by (simp add: acct_def)

lemma acct_journal [simp]: "acct (j\<lparr>journal := u\<rparr>) b = acct j b"
  by (simp add: acct_def)

lemma push_journal_Val_iff [simp]:
  "push_journal e j = Val j' \<longleftrightarrow> journal j \<noteq> [] \<and> j' = j\<lparr>journal := push_last e (journal j)\<rparr>"
  by (auto simp: push_journal_def)

lemma js_account_Val_iff [simp]: "js_account j a = Val x \<longleftrightarrow> acct j a = Some x"
  by (simp add: js_account_def)

lemma st_sim_put:
  assumes "acct j a = Some x" and "acc_sim sd a y x"
  shows "st_sim sd (state (put_account a y j), transient_storage j) (st_of j)"
  using assms by (auto simp: acct_def st_sim.simps intro: option.rel_refl)

text \<open>A change to one account with an entry that undoes it.\<close>

lemma extends_modify:
  assumes "journal j \<noteq> []" and "acct j a = Some x"
    and "\<And>s ts. revert_entry (spurious j) e (s, ts) = bindE (modify_account a f s) (\<lambda>s. Val (s, ts))"
    and "f y = Val z" and "acc_sim (spurious j) a z x"
  shows "extends j ((put_account a y j)\<lparr>journal := push_last e (journal j)\<rparr>)"
proof (rule extends_entry)
  let ?s = "(state (put_account a y j))\<lparr>accounts := (accounts (state j))(a \<mapsto> z)\<rparr>"
  show "revert_entry (spurious j) e (st_of ((put_account a y j)\<lparr>journal := push_last e (journal j)\<rparr>))
      = Val (?s, transient_storage j)"
    using assms(3,4) by (simp add: modify_account_def)
  show "st_sim (spurious j) (?s, transient_storage j) (st_of j)"
    using assms(2,5) by (auto simp: acct_def st_sim.simps intro: option.rel_refl)
qed (use assms(1) in simp_all)

lemma extends_touch_account:
  assumes "journal j \<noteq> []" and "acct j a = Some x" and "touch_account a x j = Val (x', j')"
  shows "extends j (put_account a x' j')"
proof (cases "is_touched x")
  case True
  with assms have "x' = x" "j' = j" by (auto simp: touch_account_def)
  with assms(1) st_sim_put [OF assms(2) acc_sim_refl] show ?thesis
    by (intro extends_silent) simp_all
next
  case False
  with assms have x': "x' = mark_touch x" and j': "j' = j\<lparr>journal := push_last (AccountTouched a) (journal j)\<rparr>"
    by (auto simp: touch_account_def evals)
  have st: "flag_remove (status (mark_touch x)) Touched = status x"
    using False touched.remove_insert by (simp add: flag_ops)
  show ?thesis
  proof (cases "spurious j \<and> a = PRECOMPILE3")
    case True
    have "acc_sim (spurious j) a (mark_touch x) x"
      using True st False touched.remove_same by (simp add: acc_sim_def flag_ops)
    from st_sim_put [OF assms(2) this] True assms(1,2) show ?thesis
      unfolding x' j'
      by (intro extends_entry [where e = "AccountTouched a"]) simp_all
  next
    case False
    have "unmark_touch (mark_touch x) = x"
      using st by (simp add: flag_ops)
    with False assms(1,2) show ?thesis
      unfolding x' j' put_account_journal
      by (intro extends_modify [where x = x and z = x and f = "\<lambda>acc. Val (unmark_touch acc)"]) auto
  qed
qed

lemma extends_touch:
  assumes "journal j \<noteq> []" and "js_touch a j = Val j'"
  shows "extends j j'"
  using assms extends_touch_account extends_refl
  by (auto simp: js_touch_def evals split: option.splits)

lemma touch_account_frame:
  assumes "touch_account a x j = Val (x', j')"
  shows "info x' = info x" "storage x' = storage x" "accounts (state j') = accounts (state j)"
    "journal j' \<noteq> []" "acct j' = acct j" "is_created x' = is_created x"
    "is_selfdestructed x' = is_selfdestructed x"
    "warm_preloaded_addresses j' = warm_preloaded_addresses j"
  using assms flags_independent
  by (auto simp: touch_account_def evals mark_touch_def acct_def split: if_splits)

lemma extends_log: "journal j \<noteq> [] \<Longrightarrow> extends j (js_log l j)"
  by (rule extends_silent) (auto simp: js_log_def st_sim_refl)

lemma extends_set_code:
  assumes "journal j \<noteq> []" and "js_set_code keccak256 a c j = Val j'"
    and "\<And>x. acct j a = Some x \<Longrightarrow> code_hash (info x) = KECCAK_EMPTY"
  shows "extends j j'"
proof -
  from assms(2) obtain x x1 j1 h where x: "acct j a = Some x" and t: "touch_account a x j = Val (x1, j1)"
    and j': "j' = (put_account a (x1\<lparr>info := (info x1)\<lparr>code_hash := h, code := Some c\<rparr>\<rparr>) j1)
                    \<lparr>journal := push_last (CodeChange a) (journal j1)\<rparr>"
    by (auto simp: js_set_code_def evals)
  have "extends (put_account a x1 j1) j'"
    using extends_modify [of "put_account a x1 j1" a x1 "CodeChange a" _
        "x1\<lparr>info := (info x1)\<lparr>code_hash := h, code := Some c\<rparr>\<rparr>"]
      touch_account_frame [OF t] assms(3) [OF x]
    unfolding j' by (simp add: acc_sim_def)
  with extends_touch_account [OF assms(1) x t] show ?thesis by (rule extends_trans)
qed

lemma extends_inc_nonce:
  assumes "journal j \<noteq> []" and "js_inc_nonce a j = Val (r, j')"
  shows "extends j j'"
proof -
  from assms(2) obtain x where x: "acct j a = Some x" by (auto simp: js_inc_nonce_def evals)
  show ?thesis
  proof (cases "nonce (info x) = - 1")
    case True
    with assms x show ?thesis by (auto simp: js_inc_nonce_def evals extends_refl)
  next
    case False
    with assms(2) x obtain x1 j1 where t: "touch_account a x j = Val (x1, j1)"
      and j': "j' = (put_account a (x1\<lparr>info := (info x1)\<lparr>nonce := nonce (info x1) + 1\<rparr>\<rparr>) j1)
                    \<lparr>journal := push_last (NonceChange a) (journal j1)\<rparr>"
      by (auto simp: js_inc_nonce_def evals Let_def)
    have "minus_or_panic (nonce (info x1) + 1) 1 = Val (nonce (info x1))"
      using False touch_account_frame(1) [OF t] by (simp add: minus_or_panic_def checked_sub_def one_le_inc)
    then have "extends (put_account a x1 j1) j'"
      using extends_modify [of "put_account a x1 j1" a x1 "NonceChange a" _
          "x1\<lparr>info := (info x1)\<lparr>nonce := nonce (info x1) + 1\<rparr>\<rparr>"] touch_account_frame(4) [OF t]
      unfolding j' by (simp add: acc_sim_def)
    with extends_touch_account [OF assms(1) x t] show ?thesis by (rule extends_trans)
  qed
qed

lemma query_Val_iff [simp]:
  "query q s = Val (Inr x, s') \<longleftrightarrow> q = Inr x \<and> s' = s"
  "query q s = Val (Inl e, s') \<longleftrightarrow> (\<exists>d. q = Inl d \<and> e = Database d \<and> s' = s)"
  by (cases q; auto)+

lemma extends_load_native_token_ids:
  assumes "journal j \<noteq> []" and "js_load_native_token_ids db j = Val (r, j')"
  shows "extends j j'"
proof (cases "j' = j")
  case True
  with assms(1) show ?thesis by (simp add: extends_refl)
next
  case False
  with assms(2) obtain ids where
    "j' = j\<lparr>state := (state j)\<lparr>token_ids := ids\<rparr>, journal := push_last (TokenIdsLoaded ids) (journal j)\<rparr>"
    by (cases r) (auto simp: js_load_native_token_ids_def evals Let_def split: if_splits)
  with assms(1) show ?thesis
    by (intro extends_entry [where e = "TokenIdsLoaded ids"])
      (auto simp: st_sim.simps intro: option.rel_refl)
qed

lemma extends_load_account:
  assumes "journal j \<noteq> []" and "js_load_account db a j = Val (r, j')"
  shows "extends j j'"
proof (cases "j' = j")
  case True
  with assms(1) show ?thesis by (simp add: extends_refl)
next
  case False
  with assms(2) obtain x where "acct j a = None"
    "j' = (put_account a x j)\<lparr>journal := push_last (AccountLoaded a) (journal j)\<rparr>"
    by (cases r) (auto simp: js_load_account_def evals Let_def split: option.splits if_splits)
  with assms(1) show ?thesis
    by (intro extends_entry [where e = "AccountLoaded a"])
      (auto simp: st_sim.simps acct_def intro: option.rel_refl)
qed

lemma extends_load_account_exist:
  assumes "journal j \<noteq> []" and "js_load_account_exist db a j = Val (r, j')"
  shows "extends j j'"
  using assms extends_load_account
  by (cases r) (fastforce simp: js_load_account_exist_def evals Let_def)+

lemma load_account_loaded:
  "js_load_account db a j = Val (Inr (x, c), j') \<Longrightarrow> acct j' a = Some x"
  by (auto simp: js_load_account_def evals Let_def split: option.splits)

text \<open>Filling the code cache is not observed.\<close>

lemma extends_code_cache:
  assumes "journal j \<noteq> []" and "acct j a = Some x"
  shows "extends j (put_account a (x\<lparr>info := (info x)\<lparr>code := c\<rparr>\<rparr>) j)"
  using assms st_sim_put [OF assms(2), of "spurious j" "x\<lparr>info := (info x)\<lparr>code := c\<rparr>\<rparr>"]
  by (intro extends_silent) (simp_all add: acc_sim_def)

lemma extends_load_code:
  assumes "journal j \<noteq> []" and "js_load_code db a j = Val (r, j')"
  shows "extends j j'"
proof (cases "js_load_account db a j" rule: result_cases)
  case panic
  with assms(2) show ?thesis by (simp add: js_load_code_def)
next
  case (err e s)
  with assms extends_load_account show ?thesis by (auto simp: js_load_code_def)
next
  case (ok p j1)
  obtain x c where p: "p = (x, c)" by (cases p)
  have ext: "extends j j1" using extends_load_account assms(1) ok by blast
  have "j' = j1 \<or> (\<exists>c. j' = put_account a (x\<lparr>info := (info x)\<lparr>code := c\<rparr>\<rparr>) j1)"
    using assms(2) ok p
    by (cases r) (auto simp: js_load_code_def evals Let_def split: if_splits)
  then show ?thesis
    using ext extends_code_cache load_account_loaded [OF ok [unfolded p]] extends_journal extends_trans
    by blast
qed

lemma extends_sload:
  assumes "journal j \<noteq> []" and "js_sload db a key j = Val (r, j')"
  shows "extends j j'"
proof (cases "j' = j")
  case True
  with assms(1) show ?thesis by (simp add: extends_refl)
next
  case False
  with assms(2) obtain x v where x: "acct j a = Some x" "storage x key = None" and
    j': "j' = (put_account a (x\<lparr>storage := (storage x)(key \<mapsto> slot_new v)\<rparr>) j)
               \<lparr>journal := push_last (StorageChange a key None) (journal j)\<rparr>"
    by (cases r) (auto simp: js_sload_def evals split: option.splits if_splits)
  have "(storage x)(key := None) = storage x" using x(2) by auto
  then show ?thesis unfolding j'
    by (intro extends_modify [OF assms(1) x(1) revert_entry.simps(8)]) (auto simp: acc_sim_def)
qed

lemma sload_present:
  assumes "js_sload db a key j = Val (Inr (v, c), j')"
  shows "\<exists>x slot. acct j' a = Some x \<and> storage x key = Some slot \<and> present_value slot = v"
  using assms by (auto simp: js_sload_def evals slot_new_def split: option.splits)

lemma extends_sstore:
  assumes "journal j \<noteq> []" and "js_sstore db a key new j = Val (r, j')"
  shows "extends j j'"
proof (cases "js_sload db a key j" rule: result_cases)
  case panic
  with assms(2) show ?thesis by (simp add: js_sstore_def)
next
  case (err e s)
  with assms extends_sload show ?thesis by (auto simp: js_sstore_def)
next
  case (ok p j1)
  obtain v c where p: "p = (v, c)" by (cases p)
  have ext: "extends j j1" using extends_sload assms(1) ok by blast
  then have ne: "journal j1 \<noteq> []" by (simp add: extends_journal)
  from sload_present [OF ok [unfolded p]] obtain x slot where
    x: "acct j1 a = Some x" "storage x key = Some slot" "present_value slot = v" by blast
  have "j' = j1 \<or> j' = (put_account a (x\<lparr>storage := (storage x)(key \<mapsto> slot\<lparr>present_value := new\<rparr>)\<rparr>) j1)
               \<lparr>journal := push_last (StorageChange a key (Some v)) (journal j1)\<rparr>"
    using assms(2) ok p x by (cases r) (auto simp: js_sstore_def evals Let_def split: if_splits)
  moreover have "extends j1 ((put_account a (x\<lparr>storage := (storage x)(key \<mapsto> slot\<lparr>present_value := new\<rparr>)\<rparr>) j1)
               \<lparr>journal := push_last (StorageChange a key (Some v)) (journal j1)\<rparr>)"
  proof (rule extends_modify [OF ne x(1) revert_entry.simps(7)])
    have "slot\<lparr>present_value := v\<rparr> = slot" using x(3) by simp
    with x(2) show "acc_sim (spurious j1) a (x\<lparr>storage := (storage x)(key \<mapsto> slot\<lparr>present_value := v\<rparr>)\<rparr>) x"
      by (auto simp: acc_sim_def)
  qed simp
  ultimately show ?thesis using ext extends_trans by blast
qed

lemma tstore_cases:
  assumes "js_tstore a key new j = Val j'"
  obtains (same) ts where "j' = j\<lparr>transient_storage := ts\<rparr>"
      "transient_value ts = transient_value (transient_storage j)"
  | (entry) ts where "\<And>k. k \<noteq> (a, key) \<Longrightarrow> ts k = transient_storage j k"
      "j' = j\<lparr>transient_storage := ts, journal := push_last
         (TransientStorageChange a key (transient_value (transient_storage j) (a, key))) (journal j)\<rparr>"
proof (cases "transient_storage j (a, key)")
  case None
  let ?ts = "if new = 0 then (transient_storage j)((a, key) := None) else (transient_storage j)((a, key) \<mapsto> new)"
  show ?thesis
    using assms None same [of ?ts] entry [of ?ts]
    by (cases "new = 0") (auto simp: js_tstore_def Let_def transient_value_def fun_eq_iff)
next
  case (Some v)
  let ?ts = "if new = 0 then (transient_storage j)((a, key) := None) else (transient_storage j)((a, key) \<mapsto> new)"
  show ?thesis
    using assms Some same [of ?ts] entry [of ?ts]
    by (cases "new = 0") (auto simp: js_tstore_def Let_def transient_value_def fun_eq_iff split: if_splits)
qed

lemma extends_tstore:
  assumes "journal j \<noteq> []" and "js_tstore a key new j = Val j'"
  shows "extends j j'"
  using assms(2)
proof (cases rule: tstore_cases)
  case (same ts)
  with assms(1) show ?thesis by (intro extends_silent) (simp_all add: st_sim.simps)
next
  case (entry ts)
  let ?v = "transient_value (transient_storage j) (a, key)"
  let ?ts = "ts((a, key) := (if ?v = 0 then None else Some ?v))"
  have "transient_value ?ts = transient_value (transient_storage j)"
    using entry(1) by (auto simp: transient_value_def fun_eq_iff)
  with assms(1) entry(2) show ?thesis
    by (intro extends_entry [where e = "TransientStorageChange a key ?v" and st = "(state j, ?ts)"])
      (simp_all add: st_sim.simps)
qed

section \<open>Moving balances\<close>

lemma put_account_commute:
  "a \<noteq> b \<Longrightarrow> put_account a x (put_account b y j) = put_account b y (put_account a x j)"
  by (simp add: put_account_def fun_upd_twist)

text \<open>A change to two accounts with an entry that undoes it.\<close>

lemma extends_modify2:
  assumes "journal j \<noteq> []" and "a \<noteq> b" and "acct j a = Some x" and "acct j b = Some y"
    and "\<And>s ts. revert_entry (spurious j) e (s, ts) =
           bindE (modify_account a f s) (\<lambda>s. bindE (modify_account b g s) (\<lambda>s. Val (s, ts)))"
    and "f x' = Val x''" and "acc_sim (spurious j) a x'' x"
    and "g y' = Val y''" and "acc_sim (spurious j) b y'' y"
  shows "extends j ((put_account b y' (put_account a x' j))\<lparr>journal := push_last e (journal j)\<rparr>)"
proof (rule extends_entry)
  let ?s = "(state j)\<lparr>accounts := (accounts (state j))(a \<mapsto> x'', b \<mapsto> y'')\<rparr>"
  show "revert_entry (spurious j) e
      (st_of ((put_account b y' (put_account a x' j))\<lparr>journal := push_last e (journal j)\<rparr>))
      = Val (?s, transient_storage j)"
    using assms(2,5,6,8) by (simp add: modify_account_def put_account_def fun_upd_twist)
  show "st_sim (spurious j) (?s, transient_storage j) (st_of j)"
    using assms(3,4,7,9) by (auto simp: acct_def st_sim.simps)
qed (use assms(1) in simp_all)

lemmas undo_balance_simps = token_ledger.get_set_fun balance_ops

lemma extends_move:
  assumes "journal j \<noteq> []" and "a \<noteq> b" and "acct j a = Some x" and "acct j b = Some y"
  shows "extends j
     ((put_account b (y\<lparr>info := set_balance (info y) t (get_balance (info y) t + v)\<rparr>)
        (put_account a (x\<lparr>info := set_balance (info x) t (get_balance (info x) t - v)\<rparr>) j))
      \<lparr>journal := push_last (BalanceTransfer a b t v) (journal j)\<rparr>)"
proof (rule extends_modify2 [OF assms revert_entry.simps(4)])
  let ?x = "x\<lparr>info := set_balance (info x) t (get_balance (info x) t - v)\<rparr>"
    and ?y = "y\<lparr>info := set_balance (info y) t (get_balance (info y) t + v)\<rparr>"
  show "acc_sim (spurious j) a (?x\<lparr>info := increase_balance (info ?x) t v\<rparr>) x"
    by (simp add: acc_sim_def undo_balance_simps)
  show "acc_sim (spurious j) b (?y\<lparr>info := decrease_balance (info ?y) t v\<rparr>) y"
    by (simp add: acc_sim_def undo_balance_simps)
qed simp_all

text \<open>A transfer of an account to itself: the entry credits and debits the same account.\<close>

lemma extends_move_self:
  assumes "journal j \<noteq> []" and "acct j a = Some x" and "acc_sim (spurious j) a x' x"
  shows "extends j ((put_account a x' j)\<lparr>journal := push_last (BalanceTransfer a a t v) (journal j)\<rparr>)"
proof (rule extends_modify [OF assms(1,2)])
  let ?f = "\<lambda>acc. Val ((acc\<lparr>info := increase_balance (info acc) t v\<rparr>)
    \<lparr>info := decrease_balance (increase_balance (info acc) t v) t v\<rparr>)"
  show "revert_entry (spurious j) (BalanceTransfer a a t v) (s, ts) =
      bindE (modify_account a ?f s) (\<lambda>s. Val (s, ts))" for s ts
    by (cases "accounts s a") (simp_all add: modify_account_def)
  show "acc_sim (spurious j) a ((x'\<lparr>info := increase_balance (info x') t v\<rparr>)
    \<lparr>info := decrease_balance (increase_balance (info x') t v) t v\<rparr>) x"
    using assms(3) by (simp add: acc_sim_def undo_balance_simps)
qed simp

text \<open>Touching depends on the journal alone, and changes the journal alone.\<close>

lemma touch_account_journal:
  assumes "touch_account a x j = Val (x', j')"
  shows "j' = j\<lparr>journal := journal j'\<rparr>"
    and "journal k = journal j \<Longrightarrow> touch_account a x k = Val (x', k\<lparr>journal := journal j'\<rparr>)"
  using assms
  by (auto simp: touch_account_def evals push_journal_def split: if_splits)

lemma touched_again:
  assumes "touch_account a x j = Val (x', j')" and "journal k \<noteq> []" and "status y = status x'"
  shows "touch_account a y k = Val (y, k)"
  using assms touched.contains_insert
  by (auto simp: touch_account_def evals flag_ops split: if_splits)

text \<open>The three ways one token of a transfer ends.\<close>

definition debit :: "token_transfer \<Rightarrow> account \<Rightarrow> account" where
  "debit t x = x\<lparr>info := set_balance (info x) (tt_id t) (get_balance (info x) (tt_id t) - tt_amount t)\<rparr>"

definition credit :: "token_transfer \<Rightarrow> account \<Rightarrow> account" where
  "credit t x = x\<lparr>info := set_balance (info x) (tt_id t) (get_balance (info x) (tt_id t) + tt_amount t)\<rparr>"

lemma transfer_one_cases [consumes 1, case_names out_of_funds overflow moved]:
  assumes "transfer_one a b t j = Val (r, j')"
  obtains
    x x1 j1 where "acct j a = Some x" "touch_account a x j = Val (x1, j1)"
      "get_balance (info x1) (tt_id t) < tt_amount t"
      "r = Some OutOfFunds" "j' = put_account a x1 j1"
  | x x1 j1 y y1 j3 where "acct j a = Some x" "touch_account a x j = Val (x1, j1)"
      "tt_amount t \<le> get_balance (info x1) (tt_id t)"
      "acct (put_account a (debit t x1) j1) b = Some y"
      "touch_account b y (put_account a (debit t x1) j1) = Val (y1, j3)"
      "2 ^ 256 \<le> unat (get_balance (info y1) (tt_id t)) + unat (tt_amount t)"
      "r = Some OverflowPayment" "j' = put_account b y1 j3"
  | x x1 j1 y y1 j3 where "acct j a = Some x" "touch_account a x j = Val (x1, j1)"
      "tt_amount t \<le> get_balance (info x1) (tt_id t)"
      "acct (put_account a (debit t x1) j1) b = Some y"
      "touch_account b y (put_account a (debit t x1) j1) = Val (y1, j3)"
      "unat (get_balance (info y1) (tt_id t)) + unat (tt_amount t) < 2 ^ 256"
      "r = None" "j' = (put_account b (credit t y1) j3)
          \<lparr>journal := push_last (BalanceTransfer a b (tt_id t) (tt_amount t)) (journal j3)\<rparr>"
proof -
  from assms obtain x x1 j1 where x: "acct j a = Some x" and t1: "touch_account a x j = Val (x1, j1)"
    by (auto simp: transfer_one_def evals)
  let ?i = "tt_id t" and ?v = "tt_amount t" and ?j2 = "put_account a (debit t x1) j1"
  show ?thesis
  proof (cases "?v \<le> get_balance (info x1) ?i")
    case False
    with assms x t1 that(1) show ?thesis
      by (auto simp: transfer_one_def checked_sub_def js_account_def)
  next
    case True
    with assms x t1 obtain y y1 j3 where y: "acct ?j2 b = Some y" and t2: "touch_account b y ?j2 = Val (y1, j3)"
      by (auto simp: transfer_one_def checked_sub_def js_account_def evals debit_def Let_def)
    have loads: "js_account j a = Val x" "js_account ?j2 b = Val y" using x y by simp_all
    have "transfer_one a b t j = (case checked_add (get_balance (info y1) ?i) ?v of
        None \<Rightarrow> Val (Some OverflowPayment, put_account b y1 j3)
      | Some z \<Rightarrow> bindE (push_journal (BalanceTransfer a b ?i ?v)
            (put_account b (y1\<lparr>info := set_balance (info y1) ?i z\<rparr>) j3)) (\<lambda>j. Val (None, j)))"
      by (simp add: transfer_one_def checked_sub_def True t1 t2 loads Let_def flip: debit_def
          cong: option.case_cong)
    note run = assms [unfolded this]
    show ?thesis
    proof (cases "checked_add (get_balance (info y1) ?i) ?v")
      case None
      with run have "r = Some OverflowPayment" "j' = put_account b y1 j3" by simp_all
      with that(2) [OF x t1 True y t2] None show ?thesis by (simp add: checked_add_None_iff)
    next
      case (Some z)
      then have z: "z = get_balance (info y1) ?i + ?v" "unat (get_balance (info y1) ?i) + unat ?v < 2 ^ 256"
        by (simp_all add: checked)
      with run Some have "r = None" "j' = (put_account b (credit t y1) j3)
          \<lparr>journal := push_last (BalanceTransfer a b ?i ?v) (journal j3)\<rparr>"
        by (auto simp: evals credit_def)
      with that(3) [OF x t1 True y t2] z show ?thesis by blast
    qed
  qed
qed

text \<open>
  One token of a transfer. Every outcome is undone, except the overflow of the recipient's
  balance, which leaves the sender debited without an entry.
\<close>

lemma extends_transfer_one:
  assumes ne: "journal j \<noteq> []" and run: "transfer_one a b t j = Val (r, j')"
    and no_overflow: "r \<noteq> Some OverflowPayment"
  shows "extends j j'"
  using run
proof (cases rule: transfer_one_cases)
  case (out_of_funds x x1 j1)
  with extends_touch_account [OF ne] show ?thesis by simp
next
  case overflow
  with no_overflow show ?thesis by simp
next
  case (moved x x1 j1 y y1 j3)
  let ?A = "put_account a x1 j1" and ?j2 = "put_account a (debit t x1) j1"
  note t1 = moved(2) and y = moved(4) and t2 = moved(5)
  have jA: "extends j ?A" using extends_touch_account [OF ne moved(1,2)] .
  show ?thesis
  proof (cases "a = b")
    case True
    then have "y = debit t x1" using y by simp
    moreover have "status (debit t x1) = status x1" by (simp add: debit_def)
    ultimately have "y1 = debit t x1" "j3 = ?j2"
      using touched_again [OF t1, of ?j2 "debit t x1"] t2 True touch_account_frame(4) [OF t1] by auto
    moreover have "acc_sim (spurious ?A) a (credit t (debit t x1)) x1"
      by (simp add: debit_def credit_def acc_sim_def undo_balance_simps)
    ultimately have "extends ?A j'"
      using extends_move_self [of ?A a x1] moved(8) True touch_account_frame(4) [OF t1] by simp
    with jA show ?thesis by (rule extends_trans)
  next
    case False
    let ?B = "put_account b y1 (?A\<lparr>journal := journal j3\<rparr>)"
    have yA: "acct ?A b = Some y" using y False by simp
    from touch_account_journal(2) [OF t2, of ?A]
    have AB: "extends ?A ?B"
      using extends_touch_account [OF _ yA] extends_journal [OF jA] by simp
    have j3: "j3 = ?j2\<lparr>journal := journal j3\<rparr>" by (rule touch_account_journal(1) [OF t2])
    have "extends ?B j'"
      using extends_move [of ?B a b x1 y1 "tt_id t" "tt_amount t"] False touch_account_frame(4) [OF t2]
      unfolding moved(8) by (subst j3) (simp add: debit_def credit_def put_account_commute)
    with jA AB show ?thesis by (blast intro: extends_trans)
  qed
qed

lemma extends_transfer_loop:
  assumes "journal j \<noteq> []" and "transfer_loop a b ts j = Val (r, j')" and "r \<noteq> Some OverflowPayment"
  shows "extends j j'"
  using assms
proof (induction ts arbitrary: j)
  case (Cons t ts)
  from Cons.prems(2) obtain r1 j1 where t1: "transfer_one a b t j = Val (r1, j1)"
    and rest: "(case r1 of Some e \<Rightarrow> Val (Some e, j1) | None \<Rightarrow> transfer_loop a b ts j1) = Val (r, j')"
    by (auto simp: evals)
  with Cons.prems(3) have "extends j j1"
    using extends_transfer_one [OF Cons.prems(1) t1] by (auto split: option.splits)
  moreover have "extends j1 j'"
    using rest Cons.IH [OF _ _ Cons.prems(3), of j1] extends_journal [OF \<open>extends j j1\<close>] extends_refl
    by (auto split: option.splits)
  ultimately show ?case by (rule extends_trans)
qed (simp add: extends_refl)

text \<open>The \<^verbatim>\<open>?\<close> operator composes operations that can be undone.\<close>

lemma extends_tryE:
  assumes "journal j \<noteq> []" and "tryE m f = Val (r, j')"
    and first: "\<And>r1 j1. m = Val (r1, j1) \<Longrightarrow> extends j j1"
    and rest: "\<And>x j1. m = Val (Inr x, j1) \<Longrightarrow> journal j1 \<noteq> [] \<Longrightarrow> f x j1 = Val (r, j') \<Longrightarrow> extends j1 j'"
  shows "extends j j'"
proof (cases m rule: result_cases)
  case (ok x j1)
  then have "extends j j1" by (rule first)
  moreover from this ok assms(2) rest have "extends j1 j'"
    by (auto dest: extends_journal)
  ultimately show ?thesis by (rule extends_trans)
qed (use assms(2) first in auto)

lemma extends_transfer:
  assumes "journal j \<noteq> []" and "js_transfer db a b ts j = Val (r, j')"
    and "r \<noteq> Inr (Some OverflowPayment)"
  shows "extends j j'"
  using assms(2) unfolding js_transfer_def
proof (rule extends_tryE [OF assms(1)], goal_cases)
  case (2 x j1)
  show ?case using 2(3)
  proof (rule extends_tryE [OF 2(2)], goal_cases)
    case (2 x j2)
    show ?case using 2(3)
    proof (rule extends_tryE [OF 2(2)], goal_cases)
      case (2 x j3)
      with assms(3) show ?case by (auto simp: evals intro: extends_transfer_loop)
    qed (use 2 in \<open>auto intro: extends_load_account\<close>)
  qed (use 2 in \<open>auto intro: extends_load_account\<close>)
qed (rule extends_load_native_token_ids [OF assms(1)], assumption)

lemma extends_burned:
  assumes "journal j \<noteq> []" and "acct j a = Some x"
  shows "extends j ((put_account a (x\<lparr>info := set_balance (info x) t (get_balance (info x) t - v)\<rparr>) j)
     \<lparr>journal := push_last (TokensBurned a t v) (journal j)\<rparr>)"
proof (rule extends_modify [OF assms revert_entry.simps(11)])
  let ?x = "x\<lparr>info := set_balance (info x) t (get_balance (info x) t - v)\<rparr>"
  show "acc_sim (spurious j) a (?x\<lparr>info := increase_balance (info ?x) t v\<rparr>) x"
    by (simp add: acc_sim_def undo_balance_simps)
qed simp

lemma extends_minted:
  assumes "journal j \<noteq> []" and "acct j a = Some x"
  shows "extends j ((put_account a (x\<lparr>info := set_balance (info x) t (get_balance (info x) t + v)\<rparr>) j)
     \<lparr>journal := push_last (TokensMinted m a t v) (journal j)\<rparr>)"
proof (rule extends_modify [OF assms revert_entry.simps(13)])
  let ?x = "x\<lparr>info := set_balance (info x) t (get_balance (info x) t + v)\<rparr>"
  show "acc_sim (spurious j) a (?x\<lparr>info := decrease_balance (info ?x) t v\<rparr>) x"
    by (simp add: acc_sim_def undo_balance_simps)
qed simp

text \<open>The list of known token ids is not observed.\<close>

lemma extends_token_ids:
  assumes "journal j \<noteq> []"
  shows "extends j (j\<lparr>state := (state j)\<lparr>token_ids := ids\<rparr>\<rparr>)"
  using assms by (intro extends_silent) (simp_all add: st_sim.simps)

lemma put_account_token_ids:
  "put_account a x (j\<lparr>state := (state j)\<lparr>token_ids := ids\<rparr>\<rparr>) =
     (put_account a x j)\<lparr>state := (state (put_account a x j))\<lparr>token_ids := ids\<rparr>\<rparr>"
  by (simp add: put_account_def)

lemma extends_result_case:
  assumes "journal j \<noteq> []" and "bindE m (\<lambda>(r, j). case r of Inl e \<Rightarrow> Val (d, j) | Inr x \<Rightarrow> f x j) = Val (r, j')"
    and first: "\<And>r1 j1. m = Val (r1, j1) \<Longrightarrow> extends j j1"
    and rest: "\<And>x j1. m = Val (Inr x, j1) \<Longrightarrow> journal j1 \<noteq> [] \<Longrightarrow> f x j1 = Val (r, j') \<Longrightarrow> extends j1 j'"
  shows "extends j j'"
proof (cases m rule: result_cases)
  case (ok x j1)
  then have "extends j j1" by (rule first)
  moreover from this ok assms(2) rest have "extends j1 j'"
    by (auto dest: extends_journal)
  ultimately show ?thesis by (rule extends_trans)
qed (use assms(2) first in auto)

lemma extends_burn:
  assumes "journal j \<noteq> []" and "js_burn keccak256 db burner sub_id h amount j = Val (r, j')"
  shows "extends j j'"
proof (cases "amount = 0")
  case True
  with assms show ?thesis by (auto simp: js_burn_def extends_refl)
next
  case False
  show ?thesis using assms(2) unfolding js_burn_def if_not_P [OF False]
  proof (rule extends_result_case [OF assms(1)], goal_cases)
    case (2 x j1)
    show ?case using 2(3)
    proof (rule extends_result_case [OF 2(2)], goal_cases)
      case (2 x j2)
      then show ?case
        by (auto simp: evals Let_def checked_sub_def extends_burned extends_refl
            split: sum.splits if_splits)
    qed (use 2 in \<open>auto intro: extends_load_account\<close>)
  qed (rule extends_load_native_token_ids [OF assms(1)], assumption)
qed

lemma extends_mint:
  assumes "journal j \<noteq> []" and "js_mint keccak256 db minter b sub_id amount j = Val (r, j')"
  shows "extends j j'"
  using assms(2) unfolding js_mint_def
proof (rule extends_result_case [OF assms(1)], goal_cases)
  case (2 x j1)
  show ?case using 2(3)
  proof (rule extends_result_case [OF 2(2)], goal_cases)
    case (2 x j2)
    let ?t = "token_id_address keccak256 minter sub_id"
    from 2(3) obtain y where y: "acct j2 b = Some y" by (auto simp: evals Let_def)
    let ?j3 = "if ?t \<in> set (token_ids (state j2)) then j2
      else j2\<lparr>state := (state j2)\<lparr>token_ids := token_ids (state j2) @ [?t]\<rparr>\<rparr>"
    have 3: "extends j2 ?j3" using 2(2) by (simp add: extends_refl extends_token_ids)
    have y3: "acct ?j3 b = Some y" using y by (simp add: acct_def)
    have ne3: "journal ?j3 \<noteq> []" using 2(2) by simp
    show ?case
    proof (cases "checked_add (get_balance (info y) ?t) amount")
      case None
      with 2 y show ?thesis by (auto simp: evals Let_def extends_refl js_account_def)
    next
      case (Some nb)
      with 2 y extends_minted [OF ne3 y3, where t = ?t and v = amount and m = minter]
      have "extends ?j3 j'"
        by (auto simp: js_account_def Let_def checked put_account_token_ids push_journal_def
            split: if_splits)
      with 3 show ?thesis by (rule extends_trans)
    qed
  qed (use 2 in \<open>auto intro: extends_load_account\<close>)
qed (rule extends_load_native_token_ids [OF assms(1)], assumption)

section \<open>Self-destruction\<close>

lemma destroy_undone:
  assumes "b = get_base_balance (info x)"
    and "x' = (mark_selfdestruct x)\<lparr>info := set_base_balance (info x) 0\<rparr>"
  shows "acc_sim sd a
     (let y = (if is_selfdestructed x then mark_selfdestruct x' else unmark_selfdestruct x')
      in y\<lparr>info := increase_base_balance (info y) b\<rparr>) x"
  using assms destroyed.insert_same destroyed.remove_insert
  by (simp add: acc_sim_def undo_balance_simps flag_ops)

lemma extends_destroyed:
  assumes "journal j \<noteq> []" and "a \<noteq> b" and "acct j a = Some x" and "acct j b = Some y"
  defines "v \<equiv> get_base_balance (info x)"
  shows "extends j ((put_account b (y\<lparr>info := increase_base_balance (info y) v\<rparr>)
      (put_account a ((mark_selfdestruct x)\<lparr>info := set_base_balance (info x) 0\<rparr>) j))
      \<lparr>journal := push_last (AccountDestroyed a b (is_selfdestructed x) v) (journal j)\<rparr>)"
proof (rule extends_modify2 [OF assms(1-4)])
  let ?f = "\<lambda>acc. let acc = (if is_selfdestructed x then mark_selfdestruct acc else unmark_selfdestruct acc)
         in Val (acc\<lparr>info := increase_base_balance (info acc) v\<rparr>)"
    and ?y = "y\<lparr>info := increase_base_balance (info y) v\<rparr>"
  show "revert_entry (spurious j) (AccountDestroyed a b (is_selfdestructed x) v) (s, ts) =
      bindE (modify_account a ?f s) (\<lambda>s. bindE (modify_account b
        (\<lambda>acc. Val (acc\<lparr>info := decrease_base_balance (info acc) v\<rparr>)) s) (\<lambda>s. Val (s, ts)))" for s ts
    using assms(2) by simp
  show "acc_sim (spurious j) b (?y\<lparr>info := decrease_base_balance (info ?y) v\<rparr>) y"
    by (simp add: acc_sim_def undo_balance_simps)
qed (use destroy_undone [OF v_def [THEN meta_eq_to_obj_eq] refl] in \<open>simp_all add: Let_def\<close>)

lemma extends_destroyed_self:
  assumes "journal j \<noteq> []" and "acct j a = Some x"
  defines "v \<equiv> get_base_balance (info x)"
  shows "extends j ((put_account a ((mark_selfdestruct x)\<lparr>info := set_base_balance (info x) 0\<rparr>) j)
      \<lparr>journal := push_last (AccountDestroyed a a (is_selfdestructed x) v) (journal j)\<rparr>)"
proof (rule extends_modify [OF assms(1,2)])
  let ?f = "\<lambda>acc. let acc = (if is_selfdestructed x then mark_selfdestruct acc else unmark_selfdestruct acc)
         in Val (acc\<lparr>info := increase_base_balance (info acc) v\<rparr>)"
  show "revert_entry (spurious j) (AccountDestroyed a a (is_selfdestructed x) v) (s, ts) =
      bindE (modify_account a ?f s) (\<lambda>s. Val (s, ts))" for s ts
    by simp
qed (use destroy_undone [OF v_def [THEN meta_eq_to_obj_eq] refl] in \<open>simp_all add: Let_def\<close>)

lemma info_mark [simp]:
  "info (mark_selfdestruct x) = info x" "info (mark_created x) = info x" "info (mark_touch x) = info x"
  "storage (mark_created x) = storage x"
  by (simp_all add: flag_ops)

lemma extends_selfdestruct:
  assumes "journal j \<noteq> []" and "js_selfdestruct db a b j = Val (r, j')"
  shows "extends j j'"
  using assms(2) unfolding js_selfdestruct_def
proof (rule extends_tryE [OF assms(1)], goal_cases)
  case (2 lr j1)
  show ?case
  proof (cases "a = b")
    case True
    with 2 show ?thesis
      using extends_refl extends_destroyed_self
      by (auto simp: evals Let_def split: if_splits)
  next
    case False
    from 2 False obtain x y y1 j2 where x: "acct j1 a = Some x" and y: "acct j1 b = Some y"
      and t: "touch_account b y j1 = Val (y1, j2)"
      by (auto simp: evals)
    let ?B = "put_account b y1 j2"
    have jB: "extends j1 ?B" by (rule extends_touch_account [OF 2(2) y t])
    have ne: "journal ?B \<noteq> []" and xB: "acct ?B a = Some x" and yB: "acct ?B b = Some y1"
      using touch_account_frame [OF t] x False by simp_all
    have "extends ?B j'"
      using 2(3) False x y t touch_account_frame [OF t]
        extends_destroyed [OF ne False xB yB] extends_move [OF ne False xB yB, of BASE_TOKEN_ID "get_base_balance (info x)"]
      by (auto simp: evals Let_def put_account_commute balance_ops js_account_def split: if_splits)
    with jB show ?thesis by (rule extends_trans)
  qed
qed (rule extends_load_account_exist [OF assms(1)], assumption)

section \<open>Checkpoints\<close>

text \<open>Everything observed of the journaled state is the same.\<close>

definition restored :: "journaled_state \<Rightarrow> journaled_state \<Rightarrow> bool" where
  "restored j' j \<longleftrightarrow>
     st_sim (spurious j) (st_of j') (st_of j) \<and> journal j' = journal j \<and> logs j' = logs j \<and>
     depth j' = depth j \<and> spec j' = spec j \<and>
     warm_preloaded_addresses j' = warm_preloaded_addresses j"

lemma restored_extends: "journal j \<noteq> [] \<Longrightarrow> restored j' j \<Longrightarrow> extends j j'"
  by (rule extends_silent) (auto simp: restored_def)

lemma checkpoint_frame [simp]:
  "state (snd (js_checkpoint j)) = state j" "transient_storage (snd (js_checkpoint j)) = transient_storage j"
  "logs (snd (js_checkpoint j)) = logs j" "depth (snd (js_checkpoint j)) = depth j + 1"
  "journal (snd (js_checkpoint j)) = journal j @ [[]]" "spec (snd (js_checkpoint j)) = spec j"
  "warm_preloaded_addresses (snd (js_checkpoint j)) = warm_preloaded_addresses j"
  "log_i (fst (js_checkpoint j)) = length (logs j)"
  "journal_i (fst (js_checkpoint j)) = length (journal j)"
  "acct (snd (js_checkpoint j)) = acct j"
  by (simp_all add: js_checkpoint_def acct_def fun_eq_iff)

text \<open>Reverting to a checkpoint undoes any extension of it, and does not panic.\<close>

lemma checkpoint_revert_restored:
  assumes "extends (snd (js_checkpoint j)) j2"
  shows "\<exists>j3. js_checkpoint_revert (fst (js_checkpoint j)) j2 = Val j3 \<and> restored j3 j"
proof -
  let ?n = "length (journal j)" and ?sd = "spurious j"
  from assms obtain es st l where len: "?n < length (journal j2)" and pre: "take ?n (journal j2) = journal j"
    and es: "concat (journal j2) = concat (journal j) @ es"
    and undo: "revert_entries ?sd (rev es) (st_of j2) = Val st" "st_sim ?sd st (st_of j)"
    and frame: "logs j2 = logs j @ l" "depth j2 = depth j + 1" "spec j2 = spec j"
      "warm_preloaded_addresses j2 = warm_preloaded_addresses j"
    by (auto simp: extends_def undoes_def)
  have "concat (drop ?n (journal j2)) = es"
    using es pre by (metis append_take_drop_id concat_append same_append_eq)
  moreover have "take (length (journal j2) - ?n) (rev (journal j2)) = rev (drop ?n (journal j2))"
    using len by (simp add: rev_drop)
  ultimately have "revert_levels ?sd (take (length (journal j2) - ?n) (rev (journal j2))) (st_of j2) = Val st"
    using undo(1) by (simp add: revert_levels_concat)
  with len pre frame undo(2) show ?thesis
    by (cases st) (simp add: js_checkpoint_revert_def restored_def)
qed

lemma commit_extends:
  assumes "extends (snd (js_checkpoint j)) j2" and "journal j \<noteq> []"
  shows "\<exists>j3. js_checkpoint_commit j2 = Val j3 \<and> extends j j3"
proof -
  let ?j3 = "j2\<lparr>depth := depth j\<rparr>"
  have d: "depth j2 = depth j + 1" using assms(1) by (simp add: extends_def)
  have "take (length (journal j) - 1) (journal j2) = take (length (journal j) - 1) (journal j)"
    using assms(1) by (metis (no_types, lifting) extends_def checkpoint_frame(5) length_append_singleton
        diff_Suc_1 butlast_snoc take_take min_def diff_le_self)
  then have "extends j ?j3"
    using assms by (auto simp: extends_def undoes_def butlast_conv_take)
  with d show ?thesis by (simp add: js_checkpoint_commit_def)
qed

section \<open>Creating accounts\<close>

text \<open>
  What the caller of \<^verbatim>\<open>create_account_checkpoint\<close> relies on for a revert: an account created in
  this transaction is not created again, and a fresh account has no written storage. An account with
  code or a nonce is a collision and needs neither.
\<close>

definition fresh_account :: "account \<Rightarrow> bool" where
  "fresh_account x \<longleftrightarrow> \<not> is_created x \<and> (\<forall>k. storage x k \<in> {None, Some slot_default})"

definition creatable :: "journaled_state \<Rightarrow> address \<Rightarrow> bool" where
  "creatable j a \<longleftrightarrow>
     (\<forall>x. acct j a = Some x \<longrightarrow> nonce (info x) = 0 \<longrightarrow> code_hash (info x) = KECCAK_EMPTY \<longrightarrow> fresh_account x)"

lemma touch_account_same_status:
  assumes "touch_account a x j = Val (x', j')" and "journal k = journal j" and "status y = status x"
  shows "touch_account a y k = Val (y\<lparr>status := status x'\<rparr>, k\<lparr>journal := journal j'\<rparr>)"
  using assms
  by (auto simp: touch_account_def evals push_journal_def flag_ops split: if_splits)

definition created_account :: "account \<Rightarrow> account" where
  "created_account x = (mark_created x)\<lparr>info := (info x)\<lparr>code := None\<rparr>,
     storage := (\<lambda>k. map_option (\<lambda>_. slot_default) (storage x k))\<rparr>"

lemma default_storage_fresh:
  assumes "fresh_account x"
  shows "(\<lambda>k. map_option (\<lambda>_. slot_default) (storage x k)) = storage x"
proof (rule ext)
  fix k
  have "storage x k \<in> {None, Some slot_default}" using assms by (simp add: fresh_account_def)
  then show "map_option (\<lambda>_. slot_default) (storage x k) = storage x k" by auto
qed

lemma extends_created:
  assumes ne: "journal j \<noteq> []" and x: "acct j a = Some x" and fresh: "fresh_account x"
    and nonce0: "nonce (info x) = 0"
    and t: "touch_account a (created_account x) (j\<lparr>journal := push_last (AccountCreated a) (journal j)\<rparr>) = Val (x2, j2)"
  shows "extends j (put_account a (x2\<lparr>info := (info x2)\<lparr>nonce := n\<rparr>\<rparr>) j2)"
proof -
  let ?x = "(created_account x)\<lparr>info := (info x)\<lparr>code := None, nonce := n\<rparr>\<rparr>"
  let ?A = "(put_account a ?x j)\<lparr>journal := push_last (AccountCreated a) (journal j)\<rparr>"
  have "flag_remove (flag_insert (status x) Created) Created = status x"
    using fresh created.remove_insert by (simp add: fresh_account_def is_created_def)
  with nonce0 have "acc_sim (spurious j) a
      ((unmark_created ?x)\<lparr>info := (info ?x)\<lparr>nonce := 0\<rparr>\<rparr>) x"
    by (simp add: acc_sim_def created_account_def default_storage_fresh [OF fresh] flag_ops)
  then have A: "extends j ?A"
    by (intro extends_modify [OF ne x revert_entry.simps(6)]) (simp_all add: Let_def flag_ops)
  have frame: "info x2 = (info x)\<lparr>code := None\<rparr>" "storage x2 = storage (created_account x)"
    using touch_account_frame(1,2) [OF t] by (simp_all add: created_account_def)
  have "touch_account a ?x ?A = Val (?x\<lparr>status := status x2\<rparr>, ?A\<lparr>journal := journal j2\<rparr>)"
    by (rule touch_account_same_status [OF t]) simp_all
  from extends_touch_account [OF _ _ this]
  have "extends ?A (put_account a (?x\<lparr>status := status x2\<rparr>) (?A\<lparr>journal := journal j2\<rparr>))"
    by simp
  moreover have "?x\<lparr>status := status x2\<rparr> = x2\<lparr>info := (info x2)\<lparr>nonce := n\<rparr>\<rparr>"
    using frame by (cases x2) simp
  moreover have "put_account a y (?A\<lparr>journal := journal j2\<rparr>) = put_account a y j2" for y
    by (subst touch_account_journal(1) [OF t]) simp
  ultimately show ?thesis using A extends_trans by simp
qed

text \<open>A created account starts a checkpoint that can be reverted; a failed creation is undone.\<close>

lemma create_account_collision:
  assumes "acct j a = Some x"
    and "code_hash (info x) \<noteq> KECCAK_EMPTY \<or> nonce (info x) \<noteq> 0 \<or> a \<in> warm_preloaded_addresses j"
  shows "js_create_account_checkpoint caller a v sp j =
     bindE (js_checkpoint_revert (fst (js_checkpoint j)) (snd (js_checkpoint j)))
       (\<lambda>j. Val (Inl CreateCollision, j))"
  using assms by (auto simp: js_create_account_checkpoint_def split_beta js_account_def)

lemma create_account_fresh:
  assumes "acct j a = Some x" and "code_hash (info x) = KECCAK_EMPTY" and "nonce (info x) = 0"
    and "a \<notin> warm_preloaded_addresses j"
  shows "js_create_account_checkpoint caller a v sp j =
     bindE (touch_account a (created_account x) ((snd (js_checkpoint j))
         \<lparr>journal := push_last (AccountCreated a) (journal j @ [[]])\<rparr>)) (\<lambda>(x, j2).
       case checked_add (get_base_balance (info x)) v of
         None \<Rightarrow> bindE (js_checkpoint_revert (fst (js_checkpoint j)) (put_account a x j2))
                   (\<lambda>j. Val (Inl OverflowPayment, j))
       | Some nb \<Rightarrow>
           let j2 = put_account a (x\<lparr>info := (if enabled sp SPURIOUS_DRAGON
               then (set_base_balance (info x) nb)\<lparr>nonce := 1\<rparr> else set_base_balance (info x) nb)\<rparr>) j2 in
           bindE (js_account j2 caller) (\<lambda>c.
           let j2 = put_account caller (c\<lparr>info := decrease_base_balance (info c) v\<rparr>) j2 in
           bindE (push_journal (BalanceTransfer caller a BASE_TOKEN_ID v) j2) (\<lambda>j2.
             Val (Inr (fst (js_checkpoint j)), j2))))"
proof -
  have push: "push_journal (AccountCreated a) (snd (js_checkpoint j)) =
      Val ((snd (js_checkpoint j))\<lparr>journal := push_last (AccountCreated a) (journal j @ [[]])\<rparr>)"
    by simp
  have x: "js_account (snd (js_checkpoint j)) a = Val x" using assms(1) by simp
  show ?thesis
  proof (cases "touch_account a (created_account x) ((snd (js_checkpoint j))
         \<lparr>journal := push_last (AccountCreated a) (journal j @ [[]])\<rparr>)")
    case Panic
    with assms(2-4) show ?thesis
      by (simp add: js_create_account_checkpoint_def split_beta x push created_account_def Let_def)
  next
    case (Val p)
    with assms(2-4) show ?thesis
      by (cases "checked_add (get_base_balance (info (fst p))) v"; cases "enabled sp SPURIOUS_DRAGON")
        (simp_all add: js_create_account_checkpoint_def split_beta x push created_account_def Let_def)
  qed
qed

text \<open>The transfer of the endowment, once the account exists.\<close>

lemma extends_endow:
  assumes ne: "journal j \<noteq> []" and x: "acct j a = Some x"
    and j2: "j2 = put_account a (x\<lparr>info := set_base_balance (info x) (get_base_balance (info x) + v)\<rparr>) j"
    and c: "acct j2 caller = Some c"
  shows "extends j ((put_account caller (c\<lparr>info := decrease_base_balance (info c) v\<rparr>) j2)
           \<lparr>journal := push_last (BalanceTransfer caller a BASE_TOKEN_ID v) (journal j)\<rparr>)"
proof (cases "caller = a")
  case True
  with c j2 have "acc_sim (spurious j) a (c\<lparr>info := decrease_base_balance (info c) v\<rparr>) x"
    by (auto simp: acc_sim_def undo_balance_simps)
  from extends_move_self [OF ne x this] True j2 show ?thesis by simp
next
  case False
  with c j2 have "acct j caller = Some c" by simp
  from extends_move [OF ne False this x, of BASE_TOKEN_ID v] j2 show ?thesis
    using False by (simp add: balance_ops put_account_commute)
qed

lemma create_account_extends:
  assumes ne: "journal j \<noteq> []" and run: "js_create_account_checkpoint caller a v sp j = Val (r, j')"
    and fresh: "creatable j a"
  shows "case r of
      Inr cp \<Rightarrow> cp = fst (js_checkpoint j) \<and> extends (snd (js_checkpoint j)) j'
    | Inl e \<Rightarrow> restored j' j"
proof -
  let ?J = "snd (js_checkpoint j)"
  have neJ: "journal ?J \<noteq> []" by simp
  from run obtain x where x: "acct j a = Some x"
    by (auto simp: js_create_account_checkpoint_def evals Let_def split_beta)
  show ?thesis
  proof (cases "code_hash (info x) \<noteq> KECCAK_EMPTY \<or> nonce (info x) \<noteq> 0 \<or> a \<in> warm_preloaded_addresses j")
    case True
    with run x create_account_collision [OF x True]
    have "js_checkpoint_revert (fst (js_checkpoint j)) ?J = Val j'" "r = Inl CreateCollision"
      by (auto simp: evals)
    with checkpoint_revert_restored [OF extends_refl [OF neJ]] show ?thesis by auto
  next
    case False
    then have n0: "nonce (info x) = 0" and rest: "code_hash (info x) = KECCAK_EMPTY"
      "a \<notin> warm_preloaded_addresses j" by simp_all
    note run' = run [unfolded create_account_fresh [OF x rest(1) n0 rest(2)]]
    from run' obtain x2 j2 where t: "touch_account a (created_account x)
        (?J\<lparr>journal := push_last (AccountCreated a) (journal ?J)\<rparr>) = Val (x2, j2)"
      by (auto simp: evals)
    have xJ: "acct ?J a = Some x" using x by simp
    have "fresh_account x" using fresh x n0 rest(1) by (simp add: creatable_def)
    note B = extends_created [OF neJ xJ this n0 t]
    have i2: "(info x2)\<lparr>nonce := 0\<rparr> = info x2"
      using touch_account_frame(1) [OF t] n0 by (simp add: created_account_def)
    define n :: u64 where "n = (if enabled sp SPURIOUS_DRAGON then 1 else 0)"
    define x3 where "x3 = x2\<lparr>info := (info x2)\<lparr>nonce := n\<rparr>\<rparr>"
    let ?B = "put_account a x3 j2"
    show ?thesis
    proof (cases "checked_add (get_base_balance (info x2)) v")
      case None
      with run' t checkpoint_revert_restored [OF B [of 0]] show ?thesis
        by (auto simp: evals i2)
    next
      case (Some nb)
      let ?nb = "get_base_balance (info x2) + v"
      have nb: "nb = ?nb" using Some by (simp add: checked)
      have eq: "(if enabled sp SPURIOUS_DRAGON
          then (set_base_balance (info x2) ?nb)\<lparr>nonce := 1\<rparr> else set_base_balance (info x2) ?nb) =
          set_base_balance (info x3) (get_base_balance (info x3) + v)"
        using i2 by (auto simp: balance_ops set_balance_def n_def x3_def)
      have x3: "x2\<lparr>info := i\<rparr> = x3\<lparr>info := i\<rparr>" for i by (simp add: x3_def)
      let ?j3 = "put_account a (x3\<lparr>info := set_base_balance (info x3) (get_base_balance (info x3) + v)\<rparr>) ?B"
      from run' t Some obtain c where c: "acct ?j3 caller = Some c" and r: "r = Inr (fst (js_checkpoint j))"
        and j': "j' = (put_account caller (c\<lparr>info := decrease_base_balance (info c) v\<rparr>) ?j3)
           \<lparr>journal := push_last (BalanceTransfer caller a BASE_TOKEN_ID v) (journal ?B)\<rparr>"
        using eq nb by (auto simp: evals Let_def x3)
      have "extends ?B j'"
        unfolding j' using touch_account_frame(4) [OF t] by (intro extends_endow [OF _ _ refl c]) simp_all
      with B [of n, folded x3_def] r show ?thesis by (auto intro: extends_trans)
    qed
  qed
qed

section \<open>Runs\<close>

text \<open>
  One operation of the journaled state, as the interpreter and the native token precompile call
  it. The guards are what the callers guarantee: code is set on an account without code, and an
  account is created when it is fresh. A transfer that overflows the recipient is left out.
\<close>

inductive jstep :: "keccak \<Rightarrow> 'e database \<Rightarrow> journaled_state \<Rightarrow> journaled_state \<Rightarrow> bool"
  for keccak256 :: keccak and db :: "'e database" where
  touch: "js_touch a j = Val j' \<Longrightarrow> jstep keccak256 db j j'"
| log: "jstep keccak256 db j (js_log l j)"
| set_code: "js_set_code keccak256 a c j = Val j' \<Longrightarrow>
    (\<And>x. acct j a = Some x \<Longrightarrow> code_hash (info x) = KECCAK_EMPTY) \<Longrightarrow> jstep keccak256 db j j'"
| inc_nonce: "js_inc_nonce a j = Val (n, j') \<Longrightarrow> jstep keccak256 db j j'"
| load_ids: "js_load_native_token_ids db j = Val (r, j') \<Longrightarrow> jstep keccak256 db j j'"
| load_account: "js_load_account db a j = Val (ra, j') \<Longrightarrow> jstep keccak256 db j j'"
| load_account_exist: "js_load_account_exist db a j = Val (re, j') \<Longrightarrow> jstep keccak256 db j j'"
| load_code: "js_load_code db a j = Val (ra, j') \<Longrightarrow> jstep keccak256 db j j'"
| sload: "js_sload db a key j = Val (rs, j') \<Longrightarrow> jstep keccak256 db j j'"
| sstore: "js_sstore db a key new j = Val (rw, j') \<Longrightarrow> jstep keccak256 db j j'"
| tstore: "js_tstore a key new j = Val j' \<Longrightarrow> jstep keccak256 db j j'"
| transfer: "js_transfer db a b ts j = Val (rt, j') \<Longrightarrow> rt \<noteq> Inr (Some OverflowPayment) \<Longrightarrow>
    jstep keccak256 db j j'"
| burn: "js_burn keccak256 db a sub_id b amount j = Val (ok, j') \<Longrightarrow> jstep keccak256 db j j'"
| mint: "js_mint keccak256 db a b sub_id amount j = Val (ok, j') \<Longrightarrow> jstep keccak256 db j j'"
| selfdestruct: "js_selfdestruct db a b j = Val (rd, j') \<Longrightarrow> jstep keccak256 db j j'"
| create_failed: "js_create_account_checkpoint caller a v sp j = Val (Inl e, j') \<Longrightarrow>
    creatable j a \<Longrightarrow> jstep keccak256 db j j'"

text \<open>A call opens a frame with a checkpoint; a creation does so with the new account.\<close>

inductive opens :: "journaled_state \<Rightarrow> journal_checkpoint \<Rightarrow> journaled_state \<Rightarrow> bool" where
  call: "js_checkpoint j = (cp, j') \<Longrightarrow> opens j cp j'"
| create: "js_create_account_checkpoint caller a v sp j = Val (Inr cp, j') \<Longrightarrow>
    creatable j a \<Longrightarrow> opens j cp j'"

text \<open>The run of a frame: operations, and inner frames that are committed or reverted.\<close>

inductive frame_run :: "keccak \<Rightarrow> 'e database \<Rightarrow> journaled_state \<Rightarrow> journaled_state \<Rightarrow> bool"
  for keccak256 :: keccak and db :: "'e database" where
  start: "frame_run keccak256 db j j"
| step: "frame_run keccak256 db j j1 \<Longrightarrow> jstep keccak256 db j1 j2 \<Longrightarrow> frame_run keccak256 db j j2"
| commit: "frame_run keccak256 db j j1 \<Longrightarrow> opens j1 cp j2 \<Longrightarrow> frame_run keccak256 db j2 j3 \<Longrightarrow>
    js_checkpoint_commit j3 = Val j4 \<Longrightarrow> frame_run keccak256 db j j4"
| revert: "frame_run keccak256 db j j1 \<Longrightarrow> opens j1 cp j2 \<Longrightarrow> frame_run keccak256 db j2 j3 \<Longrightarrow>
    js_checkpoint_revert cp j3 = Val j4 \<Longrightarrow> frame_run keccak256 db j j4"

lemma jstep_extends:
  assumes "jstep keccak256 db j j'" and "journal j \<noteq> []"
  shows "extends j j'"
  using assms
proof (induction rule: jstep.induct)
  case (create_failed caller a v sp j e j')
  have "restored j' j" using create_account_extends [OF create_failed(3,1,2)] by simp
  with create_failed(3) show ?case by (rule restored_extends)
qed (simp_all add: extends_touch extends_log extends_set_code extends_inc_nonce
      extends_load_native_token_ids extends_load_account extends_load_account_exist
      extends_load_code extends_sload extends_sstore extends_tstore extends_transfer extends_burn
      extends_mint extends_selfdestruct)

lemma opens_extends:
  assumes "opens j cp j'" and "journal j \<noteq> []"
  shows "cp = fst (js_checkpoint j) \<and> extends (snd (js_checkpoint j)) j'"
  using assms(1)
proof cases
  case call
  have "extends (snd (js_checkpoint j)) (snd (js_checkpoint j))" by (rule extends_refl) simp
  with call show ?thesis by simp
next
  case (create caller a v sp)
  show ?thesis using create_account_extends [OF assms(2) create(1,2)] by simp
qed

lemma frame_run_extends:
  assumes "frame_run keccak256 db j j'" and "journal j \<noteq> []"
  shows "extends j j'"
  using assms
proof (induction rule: frame_run.induct)
  case (start j)
  then show ?case by (rule extends_refl)
next
  case (step j j1 j2)
  then show ?case by (meson extends_journal extends_trans jstep_extends)
next
  case (commit j j1 cp j2 j3 j4)
  then have j1: "extends j j1" and ne1: "journal j1 \<noteq> []" by (auto dest: extends_journal)
  from opens_extends [OF commit.hyps(2) ne1]
  have "extends (snd (js_checkpoint j1)) j3"
    using commit.IH(2) extends_journal extends_trans by blast
  from commit_extends [OF this ne1] commit.hyps(4) j1 show ?case
    by (auto intro: extends_trans)
next
  case (revert j j1 cp j2 j3 j4)
  then have j1: "extends j j1" and ne1: "journal j1 \<noteq> []" by (auto dest: extends_journal)
  from opens_extends [OF revert.hyps(2) ne1]
  have cp: "cp = fst (js_checkpoint j1)" and "extends (snd (js_checkpoint j1)) j3"
    using revert.IH(2) extends_journal extends_trans by blast+
  from checkpoint_revert_restored [OF this(2)] revert.hyps(4) cp restored_extends [OF ne1] j1
  show ?case by (auto intro: extends_trans)
qed

section \<open>Properties\<close>

text \<open>
  C10. Reverting to the checkpoint of a frame never panics and restores what the journal tracks: which
  accounts are loaded, their balances, nonces, code hashes, storage and flags, transient storage, logs,
  journal and depth. In between any operations and committed or reverted inner frames may have run, with three
  exceptions that \<open>jstep\<close> and \<open>opens\<close> leave out: a transfer that overflows the recipient (its debit has no
  journal entry), a creation on an account that is not fresh, and a second store of code on an account. The list of
  token ids, which a revert does not shrink, and the cached code are not part of what is restored, nor is the
  touched flag of the third precompile from \<^verbatim>\<open>SPURIOUS_DRAGON\<close> on.
\<close>

theorem revert_restores_checkpoint:
  assumes "journal j \<noteq> []" and "opens j cp j1" and "frame_run keccak256 db j1 j2"
  shows "\<exists>j3. js_checkpoint_revert cp j2 = Val j3 \<and> restored j3 j"
proof -
  from opens_extends [OF assms(2,1)] have cp: "cp = fst (js_checkpoint j)"
    and ext: "extends (snd (js_checkpoint j)) j1" by simp_all
  from ext frame_run_extends [OF assms(3)] have "extends (snd (js_checkpoint j)) j2"
    by (auto dest: extends_journal intro: extends_trans)
  from checkpoint_revert_restored [OF this] cp show ?thesis by simp
qed

theorem revert_restores_checkpoint_witness:
  "let j = js_new CANCUN {};
       j2 = (snd (js_checkpoint j))\<lparr>transient_storage := [(5, 7) \<mapsto> 9],
              journal := [[], [TransientStorageChange 5 7 0]]\<rparr>
   in js_tload 5 7 j2 = 9 \<and>
      (\<exists>j3. js_checkpoint_revert (fst (js_checkpoint j)) j2 = Val j3 \<and> restored j3 j)"
proof -
  define j where "j = js_new CANCUN {}"
  define j2 where "j2 = (snd (js_checkpoint j))\<lparr>transient_storage := [(5, 7) \<mapsto> 9],
              journal := [[], [TransientStorageChange 5 7 0]]\<rparr>"
  let ?db = "empty_db (\<lambda>_. 0) :: unit database"
  have "js_tstore 5 7 9 (snd (js_checkpoint j)) = Val j2"
    by (simp add: j_def j2_def js_new_def js_checkpoint_def js_tstore_def push_journal_def push_last_def)
  then have "frame_run (\<lambda>_. 0) ?db (snd (js_checkpoint j)) j2"
    by (intro frame_run.step [OF frame_run.start] jstep.tstore)
  moreover have "opens j (fst (js_checkpoint j)) (snd (js_checkpoint j))"
    by (rule opens.call) simp
  ultimately have "\<exists>j3. js_checkpoint_revert (fst (js_checkpoint j)) j2 = Val j3 \<and> restored j3 j"
    by (intro revert_restores_checkpoint) (simp_all add: j_def js_new_def)
  moreover have "js_tload 5 7 j2 = 9" by (simp add: js_tload_def j2_def)
  ultimately show ?thesis by (simp add: j_def j2_def)
qed

text \<open>
  C14. Committing an inner frame keeps its changes undoable: reverting the outer frame afterwards
  still restores what was observed when the outer frame was opened.
\<close>

theorem commit_then_outer_revert:
  assumes "journal j \<noteq> []" and "opens j cp j1" and "frame_run keccak256 db j1 j2"
    and "opens j2 cp' j3" and "frame_run keccak256 db j3 j4"
  shows "\<exists>j5 j6. js_checkpoint_commit j4 = Val j5 \<and> depth j5 = depth j2 \<and>
     js_checkpoint_revert cp j5 = Val j6 \<and> restored j6 j"
proof -
  from opens_extends [OF assms(2,1)] have cp: "cp = fst (js_checkpoint j)"
    and e1: "extends (snd (js_checkpoint j)) j1" by simp_all
  from e1 frame_run_extends [OF assms(3)] have e2: "extends (snd (js_checkpoint j)) j2"
    by (auto dest: extends_journal intro: extends_trans)
  then have ne2: "journal j2 \<noteq> []" by (simp add: extends_journal)
  from opens_extends [OF assms(4) ne2] frame_run_extends [OF assms(5)]
  have "extends (snd (js_checkpoint j2)) j4"
    by (auto dest: extends_journal intro: extends_trans)
  from commit_extends [OF this ne2] obtain j5 where j5: "js_checkpoint_commit j4 = Val j5" "extends j2 j5"
    by blast
  from checkpoint_revert_restored [OF extends_trans [OF e2 j5(2)]] cp j5 show ?thesis
    by (auto simp: extends_def)
qed

theorem commit_then_outer_revert_witness:
  "let j = js_new CANCUN {}; j2 = snd (js_checkpoint j);
       j4 = (snd (js_checkpoint j2))\<lparr>transient_storage := [(5, 7) \<mapsto> 9],
              journal := [[], [], [TransientStorageChange 5 7 0]]\<rparr>
   in \<exists>j5 j6. js_checkpoint_commit j4 = Val j5 \<and> depth j5 = depth j2 \<and>
        js_checkpoint_revert (fst (js_checkpoint j)) j5 = Val j6 \<and> restored j6 j"
proof -
  define j where "j = js_new CANCUN {}"
  define j2 where "j2 = snd (js_checkpoint j)"
  define j4 where "j4 = (snd (js_checkpoint j2))\<lparr>transient_storage := [(5, 7) \<mapsto> 9],
              journal := [[], [], [TransientStorageChange 5 7 0]]\<rparr>"
  let ?db = "empty_db (\<lambda>_. 0) :: unit database"
  have "js_tstore 5 7 9 (snd (js_checkpoint j2)) = Val j4"
    by (simp add: j_def j2_def j4_def js_new_def js_checkpoint_def js_tstore_def push_journal_def
        push_last_def)
  then have run: "frame_run (\<lambda>_. 0) ?db (snd (js_checkpoint j2)) j4"
    by (intro frame_run.step [OF frame_run.start] jstep.tstore)
  have ne: "journal j \<noteq> []" by (simp add: j_def js_new_def)
  have opens1: "opens j (fst (js_checkpoint j)) j2" unfolding j2_def by (rule opens.call) simp
  have opens2: "opens j2 (fst (js_checkpoint j2)) (snd (js_checkpoint j2))" by (rule opens.call) simp
  from commit_then_outer_revert [OF ne opens1 frame_run.start opens2 run] show ?thesis
    unfolding Let_def j4_def j2_def j_def .
qed

end
