(* ===== verification/Token_Flow.thy ===== *)
theory Token_Flow
  imports Journal_Revert
begin

text \<open>
  What the operations of the journaled state do to balances, storage, nonces and flags, on every
  branch. The balance of an address is the one in the state, or the one in the database while the
  account is not loaded; loading does not change it.
\<close>

section \<open>Balances seen through the database\<close>

definition info_of :: "'e database \<Rightarrow> journaled_state \<Rightarrow> address \<Rightarrow> account_info" where
  "info_of db j a =
     (case acct j a of
        Some x \<Rightarrow> info x
      | None \<Rightarrow> (case basic db a of Inr (Some i) \<Rightarrow> i | _ \<Rightarrow> default_account_info))"

definition balance :: "'e database \<Rightarrow> journaled_state \<Rightarrow> address \<Rightarrow> u256 \<Rightarrow> u256" where
  "balance db j a t = get_balance (info_of db j a) t"

lemma info_of_cong: "acct j' = acct j \<Longrightarrow> info_of db j' = info_of db j"
  by (simp add: info_of_def fun_eq_iff)

lemma info_of_loaded [simp]: "acct j a = Some x \<Longrightarrow> info_of db j a = info x"
  by (simp add: info_of_def)

lemma info_of_put [simp]: "info_of db (put_account a x j) = (info_of db j)(a := info x)"
  by (simp add: info_of_def fun_eq_iff)

lemma info_of_journal [simp]: "info_of db (j\<lparr>journal := u\<rparr>) = info_of db j"
  by (rule info_of_cong) (simp add: fun_eq_iff)

lemma info_of_touch:
  "touch_account a x j = Val (x', j') \<Longrightarrow> info_of db j' = info_of db j"
  by (rule info_of_cong) (rule touch_account_frame(5))

lemma load_account_info_of:
  assumes "js_load_account db a j = Val (r, j')"
  shows "info_of db j' = info_of db j"
proof (cases "j' = j")
  case False
  with assms obtain i where "acct j a = None" "basic db a = Inr i"
    and "info_of db j' = (info_of db j)(a := info (case i of Some i \<Rightarrow> account_of_info i | None \<Rightarrow> new_not_existing))"
    by (cases r) (auto simp: js_load_account_def evals Let_def split: option.splits)
  then show ?thesis
    by (auto simp: fun_eq_iff info_of_def account_of_info_def new_not_existing_def split: option.splits)
qed simp

lemma load_native_token_ids_acct:
  assumes "js_load_native_token_ids db j = Val (r, j')"
  shows "acct j' = acct j"
  using assms
  by (cases r) (auto simp: js_load_native_token_ids_def evals Let_def acct_def fun_eq_iff split: if_splits)

lemma load_native_token_ids_info_of:
  assumes "js_load_native_token_ids db j = Val (r, j')"
  shows "info_of db j' = info_of db j"
  using load_native_token_ids_acct [OF assms] by (rule info_of_cong)

lemma load_account_keeps:
  assumes "js_load_account db a j = Val (r, j')" and "acct j b = Some x"
  shows "acct j' b = Some x"
  using assms
  by (cases r) (auto simp: js_load_account_def evals Let_def split: option.splits)

section \<open>Transfers\<close>

text \<open>The amount of one token a list of transfers moves.\<close>

definition amount_of :: "u256 \<Rightarrow> token_transfer list \<Rightarrow> nat" where
  "amount_of i ts = sum_list (map (\<lambda>t. if tt_id t = i then unat (tt_amount t) else 0) ts)"

lemma amount_of_simps [simp]:
  "amount_of i [] = 0"
  "amount_of i (t # ts) = (if tt_id t = i then unat (tt_amount t) else 0) + amount_of i ts"
  by (simp_all add: amount_of_def)

text \<open>The balances after a debit of one account and a credit of another.\<close>

definition move :: "address \<Rightarrow> address \<Rightarrow> u256 \<Rightarrow> u256 \<Rightarrow> (address \<Rightarrow> u256 \<Rightarrow> u256) \<Rightarrow> address \<Rightarrow> u256 \<Rightarrow> u256" where
  "move a b i v f =
     (let g = f(a := (f a)(i := f a i - v)) in g(b := (g b)(i := g b i + v)))"

lemma balance_put [simp]: "balance db (put_account a x j) = (balance db j)(a := get_balance (info x))"
  by (simp add: balance_def fun_eq_iff)

lemma balance_journal [simp]: "balance db (j\<lparr>journal := u\<rparr>) = balance db j"
  by (simp add: balance_def fun_eq_iff)

lemma balance_loaded: "acct j a = Some x \<Longrightarrow> balance db j a = get_balance (info x)"
  by (simp add: balance_def fun_eq_iff)

lemma balance_touch: "touch_account a x j = Val (x', j') \<Longrightarrow> balance db j' = balance db j"
  by (simp add: balance_def info_of_touch fun_eq_iff)

lemma get_balance_debit [simp]:
  "get_balance (info (debit t x)) =
     (get_balance (info x))(tt_id t := get_balance (info x) (tt_id t) - tt_amount t)"
  by (simp add: debit_def token_ledger.get_set_fun)

lemma get_balance_credit [simp]:
  "get_balance (info (credit t x)) =
     (get_balance (info x))(tt_id t := get_balance (info x) (tt_id t) + tt_amount t)"
  by (simp add: credit_def token_ledger.get_set_fun)

text \<open>One token of a transfer: the balances on each of the three outcomes.\<close>

lemma transfer_one_balances:
  assumes run: "transfer_one a b t j = Val (r, j')"
  shows "(r = None \<and> tt_amount t \<le> balance db j a (tt_id t) \<and>
      (a \<noteq> b \<longrightarrow> unat (balance db j b (tt_id t)) + unat (tt_amount t) < 2 ^ 256) \<and>
      balance db j' = move a b (tt_id t) (tt_amount t) (balance db j)) \<or>
    (r = Some OutOfFunds \<and> balance db j a (tt_id t) < tt_amount t \<and> balance db j' = balance db j) \<or>
    (r = Some OverflowPayment \<and> tt_amount t \<le> balance db j a (tt_id t) \<and>
      (a \<noteq> b \<longrightarrow> 2 ^ 256 \<le> unat (balance db j b (tt_id t)) + unat (tt_amount t)) \<and>
      balance db j' = (balance db j)(a := (balance db j a)(tt_id t := balance db j a (tt_id t) - tt_amount t)))"
    using run
proof (cases rule: transfer_one_cases)
  case (out_of_funds x x1 j1)
  with touch_account_frame(1) [OF out_of_funds(2)] balance_touch [OF out_of_funds(2), of db]
  show ?thesis by (auto simp: balance_loaded fun_eq_iff)
next
  case (overflow x x1 j1 y y1 j3)
  have j3: "balance db j3 = balance db (put_account a (debit t x1) j1)"
    by (rule balance_touch [OF overflow(5)])
  have j1: "acct j1 = acct j" by (rule touch_account_frame(5) [OF overflow(2)])
  show ?thesis
    using overflow touch_account_frame(1) [OF overflow(2)] touch_account_frame(1) [OF overflow(5)]
      balance_touch [OF overflow(2), of db] j1 j3
    by (auto simp: balance_loaded fun_eq_iff split: if_splits)
next
  case (moved x x1 j1 y y1 j3)
  have j3: "balance db j3 = balance db (put_account a (debit t x1) j1)"
    by (rule balance_touch [OF moved(5)])
  have j1: "acct j1 = acct j" by (rule touch_account_frame(5) [OF moved(2)])
  show ?thesis
    using moved touch_account_frame(1) [OF moved(2)] touch_account_frame(1) [OF moved(5)]
      balance_touch [OF moved(2), of db] j1 j3
    by (auto simp: balance_loaded move_def Let_def fun_eq_iff split: if_splits)
qed

lemma move_unat:
  assumes "a \<noteq> b" and "v \<le> f a i" and "unat (f b i) + unat v < 2 ^ 256"
  shows "unat (move a b i v f a k) + (if i = k then unat v else 0) = unat (f a k)"
    and "unat (move a b i v f b k) = unat (f b k) + (if i = k then unat v else 0)"
    and "c \<noteq> a \<Longrightarrow> c \<noteq> b \<Longrightarrow> move a b i v f c = f c"
  using assms
  by (auto simp: move_def Let_def unat_minus_if_le unat_plus_if_small word_le_nat_alt)

lemma move_self: "move a a i v f = f"
  by (simp add: move_def)

lemma transfer_loop_moves:
  assumes "transfer_loop a b ts j = Val (None, j')"
  shows "(if a = b then balance db j' = balance db j
     else (\<forall>i. unat (balance db j' a i) + amount_of i ts = unat (balance db j a i)) \<and>
       (\<forall>i. unat (balance db j' b i) = unat (balance db j b i) + amount_of i ts) \<and>
       (\<forall>c. c \<noteq> a \<longrightarrow> c \<noteq> b \<longrightarrow> balance db j' c = balance db j c))"
  using assms
proof (induction ts arbitrary: j)
  case (Cons t ts)
  from Cons.prems obtain j1 where one: "transfer_one a b t j = Val (None, j1)"
    and rest: "transfer_loop a b ts j1 = Val (None, j')"
    by (auto simp: evals split: option.splits)
  from transfer_one_balances [OF one, of db]
  have le: "tt_amount t \<le> balance db j a (tt_id t)"
    and lt: "a \<noteq> b \<Longrightarrow> unat (balance db j b (tt_id t)) + unat (tt_amount t) < 2 ^ 256"
    and j1: "balance db j1 = move a b (tt_id t) (tt_amount t) (balance db j)" by auto
  show ?case
  proof (cases "a = b")
    case True
    with Cons.IH [OF rest] j1 show ?thesis by (simp add: move_self)
  next
    case False
    note mv = move_unat [where f = "balance db j", OF False le lt [OF False], folded j1]
    from Cons.IH [OF rest] False mv(2,3) show ?thesis
      by (simp add: mv(1) [symmetric] add.assoc add.left_commute)
  qed
qed simp

lemma transfer_loop_conserves:
  assumes "transfer_loop a b ts j = Val (r, j')" and "r \<noteq> Some OverflowPayment" and "a \<noteq> b"
  shows "unat (balance db j' a i) + unat (balance db j' b i) = unat (balance db j a i) + unat (balance db j b i) \<and>
     (\<forall>c. c \<noteq> a \<longrightarrow> c \<noteq> b \<longrightarrow> balance db j' c = balance db j c)"
  using assms(1,2)
proof (induction ts arbitrary: j)
  case (Cons t ts)
  from Cons.prems(1) obtain r1 j1 where one: "transfer_one a b t j = Val (r1, j1)"
    and rest: "(case r1 of Some e \<Rightarrow> Val (Some e, j1) | None \<Rightarrow> transfer_loop a b ts j1) = Val (r, j')"
    by (auto simp: evals)
  show ?case
  proof (cases r1)
    case None
    from transfer_one_balances [OF one, of db] None
    have le: "tt_amount t \<le> balance db j a (tt_id t)"
      and lt: "unat (balance db j b (tt_id t)) + unat (tt_amount t) < 2 ^ 256"
      and j1: "balance db j1 = move a b (tt_id t) (tt_amount t) (balance db j)" using assms(3) by auto
    note mv = move_unat [where f = "balance db j", OF assms(3) le lt, folded j1]
    from Cons.IH [of j1] rest None Cons.prems(2) mv(1) [of i] mv(2) [of i] mv(3) show ?thesis
      by (auto split: if_splits)
  next
    case (Some e)
    with rest Cons.prems(2) transfer_one_balances [OF one, of db] show ?thesis by auto
  qed
qed simp

lemma transfer_unfold:
  assumes "js_transfer db a b ts j = Val (Inr r, j')"
  obtains j1 where "transfer_loop a b ts j1 = Val (r, j')" "balance db j1 = balance db j"
proof -
  from assms obtain q1 q2 q3 k1 k2 k3 where
    l1: "js_load_native_token_ids db j = Val (Inr q1, k1)" and l2: "js_load_account db a k1 = Val (Inr q2, k2)"
    and l3: "js_load_account db b k2 = Val (Inr q3, k3)" and run: "transfer_loop a b ts k3 = Val (r, j')"
    by (auto simp: js_transfer_def evals)
  have "balance db k3 = balance db j"
    by (simp add: balance_def fun_eq_iff load_native_token_ids_info_of [OF l1]
        load_account_info_of [OF l2] load_account_info_of [OF l3])
  with run that show thesis by blast
qed

text \<open>The balances of a set of accounts, added up.\<close>

definition holdings :: "'e database \<Rightarrow> journaled_state \<Rightarrow> address set \<Rightarrow> u256 \<Rightarrow> nat" where
  "holdings db j S i = (\<Sum>c\<in>S. unat (balance db j c i))"

lemma holdings_cong: "(\<And>c. c \<in> S \<Longrightarrow> balance db j' c i = balance db j c i) \<Longrightarrow> holdings db j' S i = holdings db j S i"
  by (simp add: holdings_def)

lemma holdings_split:
  assumes "finite S" and "a \<in> S"
  shows "holdings db j S i = unat (balance db j a i) + holdings db j (S - {a}) i"
  using assms by (simp add: holdings_def sum.remove)

section \<open>When a transfer succeeds\<close>

text \<open>The amounts fit: the sender has them and the recipient can take them.\<close>

definition transfer_fits :: "(address \<Rightarrow> u256 \<Rightarrow> u256) \<Rightarrow> address \<Rightarrow> address \<Rightarrow> token_transfer \<Rightarrow> bool" where
  "transfer_fits f a b t \<longleftrightarrow>
     tt_amount t \<le> f a (tt_id t) \<and> unat (f b (tt_id t)) + unat (tt_amount t) < 2 ^ 256"

lemma touch_account_total: "journal j \<noteq> [] \<Longrightarrow> \<exists>x' j'. touch_account a x j = Val (x', j')"
  by (auto simp: touch_account_def push_journal_def)

lemma transfer_one_total:
  assumes "journal j \<noteq> []" and "acct j a \<noteq> None" and "acct j b \<noteq> None"
  shows "\<exists>r j'. transfer_one a b t j = Val (r, j') \<and> journal j' \<noteq> [] \<and> acct j' a \<noteq> None \<and> acct j' b \<noteq> None"
proof -
  from assms(2) obtain x where x: "acct j a = Some x" by auto
  obtain x1 j1 where t1: "touch_account a x j = Val (x1, j1)" using touch_account_total [OF assms(1)] by blast
  note f1 = touch_account_frame [OF t1]
  let ?j2 = "put_account a (debit t x1) j1"
  have "acct ?j2 b \<noteq> None" using assms(3) f1(5) by simp
  then obtain y where y: "acct ?j2 b = Some y" by blast
  have "journal ?j2 \<noteq> []" using f1(4) by simp
  then obtain y1 j3 where t2: "touch_account b y ?j2 = Val (y1, j3)" using touch_account_total by blast
  note f2 = touch_account_frame [OF t2]
  have loads: "js_account j a = Val x" "js_account ?j2 b = Val y" using x y by simp_all
  have ne3: "journal j3 \<noteq> []" by (rule f2(4))
  show ?thesis
  proof (cases "tt_amount t \<le> get_balance (info x1) (tt_id t)")
    case False
    then show ?thesis
      using f1(4,5) assms(3) by (simp add: transfer_one_def checked_sub_def t1 loads)
  next
    case True
    then show ?thesis
      using f2(4,5) f1(5) assms(3)
      by (cases "checked_add (get_balance (info y1) (tt_id t)) (tt_amount t)")
        (simp_all add: transfer_one_def checked_sub_def t1 t2 loads push_journal_def flip: debit_def)
  qed
qed

lemma transfer_loop_succeeds:
  assumes "journal j \<noteq> []" and "acct j a \<noteq> None" and "acct j b \<noteq> None" and "a \<noteq> b"
    and "distinct (map tt_id ts)" and "\<forall>t\<in>set ts. transfer_fits (balance db j) a b t"
  shows "\<exists>j'. transfer_loop a b ts j = Val (None, j')"
  using assms
proof (induction ts arbitrary: j)
  case (Cons t ts)
  from transfer_one_total [OF Cons.prems(1-3), of t] obtain r j1 where
    one: "transfer_one a b t j = Val (r, j1)" and j1: "journal j1 \<noteq> []" "acct j1 a \<noteq> None" "acct j1 b \<noteq> None"
    by blast
  have fit: "transfer_fits (balance db j) a b t" using Cons.prems(6) by simp
  with transfer_one_balances [OF one, of db] assms(4)
  have r: "r = None" and mv: "balance db j1 = move a b (tt_id t) (tt_amount t) (balance db j)"
    by (auto simp: transfer_fits_def)
  have "transfer_fits (balance db j1) a b u" if "u \<in> set ts" for u
  proof -
    have "tt_id u \<in> tt_id ` set ts" using that by simp
    then have "tt_id u \<noteq> tt_id t" using Cons.prems(5) by auto
    moreover have "transfer_fits (balance db j) a b u" using Cons.prems(6) that by simp
    ultimately show ?thesis using assms(4) by (simp add: mv transfer_fits_def move_def Let_def)
  qed
  with Cons.IH [OF j1 assms(4)] Cons.prems(5) obtain j' where "transfer_loop a b ts j1 = Val (None, j')"
    by auto
  with one r show ?case by simp
qed simp

lemma transfer_succeeds:
  assumes "journal j \<noteq> []" and "a \<noteq> b" and "distinct (map tt_id ts)"
    and "\<forall>t\<in>set ts. transfer_fits (balance db j) a b t"
    and "js_load_native_token_ids db j = Val (Inr q, j1)" and "js_load_account db a j1 = Val (Inr q1, j2)"
    and "js_load_account db b j2 = Val (Inr q2, j3)"
  shows "\<exists>j'. js_transfer db a b ts j = Val (Inr None, j')"
proof -
  have bal: "balance db j3 = balance db j"
    by (simp add: balance_def fun_eq_iff load_native_token_ids_info_of [OF assms(5)]
        load_account_info_of [OF assms(6)] load_account_info_of [OF assms(7)])
  have "extends j j1" by (rule extends_load_native_token_ids [OF assms(1,5)])
  then have ne1: "journal j1 \<noteq> []" by (simp add: extends_journal)
  have "extends j1 j2" by (rule extends_load_account [OF ne1 assms(6)])
  then have ne2: "journal j2 \<noteq> []" by (simp add: extends_journal)
  have "extends j2 j3" by (rule extends_load_account [OF ne2 assms(7)])
  then have ne3: "journal j3 \<noteq> []" by (simp add: extends_journal)
  obtain x c y d where q: "q1 = (x, c)" "q2 = (y, d)" by (cases q1, cases q2)
  have "acct j2 a = Some x" using load_account_loaded assms(6) q by blast
  then have a3: "acct j3 a = Some x" by (rule load_account_keeps [OF assms(7)])
  have b3: "acct j3 b = Some y" using load_account_loaded assms(7) q by blast
  have fits: "\<forall>t\<in>set ts. transfer_fits (balance db j3) a b t" using assms(4) bal by simp
  have "\<exists>j'. transfer_loop a b ts j3 = Val (None, j')"
    by (rule transfer_loop_succeeds [OF ne3 _ _ assms(2,3) fits]) (simp_all add: a3 b3)
  then show ?thesis using assms(5-7) by (auto simp: js_transfer_def)
qed

section \<open>Minting and burning\<close>

lemma token_ids_update_acct [simp]: "acct (j\<lparr>state := (state j)\<lparr>token_ids := ids\<rparr>\<rparr>) = acct j"
  by (simp add: acct_def fun_eq_iff)

lemma balance_token_ids [simp]:
  "balance db (j\<lparr>state := (state j)\<lparr>token_ids := ids\<rparr>\<rparr>) = balance db j"
  by (simp add: balance_def fun_eq_iff info_of_def)

lemma loads_balance:
  assumes "js_load_native_token_ids db j = Val (r1, j1)" and "js_load_account db a j1 = Val (r2, j2)"
  shows "balance db j2 = balance db j"
  by (simp add: balance_def fun_eq_iff load_native_token_ids_info_of [OF assms(1)]
      load_account_info_of [OF assms(2)])

lemma load_ids_balance:
  assumes "js_load_native_token_ids db j = Val (r1, j1)"
  shows "balance db j1 = balance db j"
  by (simp add: balance_def fun_eq_iff load_native_token_ids_info_of [OF assms])

text \<open>
  What a refused mint or burn may leave behind: the token ids read from the database and one account
  loaded from it, each with its entry in the journal.
\<close>

definition loaded_only :: "'e database \<Rightarrow> address \<Rightarrow> journaled_state \<Rightarrow> journaled_state \<Rightarrow> bool" where
  "loaded_only db a j j' \<longleftrightarrow>
     j'\<lparr>state := state j, journal := journal j\<rparr> = j \<and>
     (\<forall>c. acct j' c = acct j c \<or> c = a \<and> acct j a = None) \<and>
     (token_ids (state j') = token_ids (state j) \<or>
      token_ids (state j) = [] \<and> get_token_ids db = Inr (token_ids (state j'))) \<and>
     (\<exists>es. concat (journal j') = concat (journal j) @ es \<and> length (journal j') = length (journal j) \<and>
        set es \<subseteq> {AccountLoaded a, TokenIdsLoaded (token_ids (state j'))}) \<and>
     balance db j' = balance db j"

lemma loaded_only_refl: "loaded_only db a j j"
  by (simp add: loaded_only_def)

lemma load_ids_loaded_only:
  assumes "js_load_native_token_ids db j = Val (r, j')"
  shows "loaded_only db a j j'"
  using assms load_ids_balance [OF assms]
  by (cases "get_token_ids db")
     (auto simp: loaded_only_def js_load_native_token_ids_def evals Let_def push_journal_def acct_def split: if_splits)

lemma loads_loaded_only:
  assumes "js_load_native_token_ids db j = Val (r, j1)" and "js_load_account db a j1 = Val (r2, j2)"
  shows "loaded_only db a j j2"
proof (cases "acct j1 a")
  case (Some x)
  then show ?thesis using load_ids_loaded_only [OF assms(1)] assms(2) by (simp add: js_load_account_def)
next
  case None
  note l = load_ids_loaded_only [OF assms(1), of a, unfolded loaded_only_def]
  from None assms(2) have "j2 = j1 \<or> (\<exists>x. journal j1 \<noteq> [] \<and>
      j2 = put_account a x (j1\<lparr>journal := push_last (AccountLoaded a) (journal j1)\<rparr>))"
    by (cases "basic db a") (auto simp: js_load_account_def evals Let_def push_journal_def split: if_splits)
  then show ?thesis
  proof (elim disjE exE conjE)
    fix x assume ne: "journal j1 \<noteq> []" and j2: "j2 = put_account a x (j1\<lparr>journal := push_last (AccountLoaded a) (journal j1)\<rparr>)"
    obtain es where es: "concat (journal j1) = concat (journal j) @ es" "length (journal j1) = length (journal j)"
      "set es \<subseteq> {AccountLoaded a, TokenIdsLoaded (token_ids (state j1))}" using l by blast
    have "token_ids (state j2) = token_ids (state j1)" "j2\<lparr>state := state j, journal := journal j\<rparr> = j1\<lparr>state := state j, journal := journal j\<rparr>"
      by (simp_all add: j2 put_account_def)
    moreover have "concat (journal j2) = concat (journal j) @ (es @ [AccountLoaded a])" "length (journal j2) = length (journal j)"
      using ne es by (simp_all add: j2 put_account_def)
    moreover have "acct j2 c = acct j c \<or> c = a \<and> acct j a = None" for c
      using l None by (cases "c = a") (auto simp: j2 put_account_def acct_def)
    moreover have "set (es @ [AccountLoaded a]) \<subseteq> {AccountLoaded a, TokenIdsLoaded (token_ids (state j2))}"
      using es(3) calculation(1) by auto
    ultimately show ?thesis using l loads_balance [OF assms] unfolding loaded_only_def by metis
  qed (use l in \<open>simp add: loaded_only_def\<close>)
qed

text \<open>Minting, by outcome.\<close>

lemma mint_balances:
  assumes "js_mint keccak256 db minter b sub_id v j = Val (ok, j')"
  defines "t \<equiv> token_id_address keccak256 minter sub_id"
  shows "if ok
     then unat (balance db j b t) + unat v < 2 ^ 256 \<and> t \<in> set (token_ids (state j')) \<and>
       last (last (journal j')) = TokensMinted minter b t v \<and>
       balance db j' = (balance db j)(b := (balance db j b)(t := balance db j b t + v))
     else loaded_only db minter j j'"
proof -
  from assms(1) obtain r1 j1 where l1: "js_load_native_token_ids db j = Val (r1, j1)"
    by (auto simp: js_mint_def evals)
  show ?thesis
  proof (cases r1)
    case (Inl e)
    with assms(1) l1 load_ids_loaded_only [OF l1] show ?thesis by (simp add: js_mint_def)
  next
    case (Inr q)
    with assms(1) l1 obtain r2 j2 where l2: "js_load_account db minter j1 = Val (r2, j2)"
      by (auto simp: js_mint_def evals)
    note bal = loads_balance [OF l1 l2]
    show ?thesis
    proof (cases r2)
      case (Inl e)
      with assms(1) l1 Inr l2 loads_loaded_only [OF l1 l2] show ?thesis by (simp add: js_mint_def)
    next
      case (Inr q2)
      with assms(1) l1 \<open>r1 = Inr q\<close> l2 obtain x where x: "acct j2 b = Some x"
        by (auto simp: js_mint_def evals Let_def)
      note bx = balance_loaded [OF x, of db, unfolded bal]
      show ?thesis
        using assms(1) l1 \<open>r1 = Inr q\<close> l2 Inr x bx bal loads_loaded_only [OF l1 l2]
        by (auto simp: js_mint_def js_account_def checked token_ledger.get_set_fun evals Let_def t_def
            push_journal_def push_last_def split: option.splits if_splits)
    qed
  qed
qed

text \<open>Burning, by outcome.\<close>

lemma burn_balances:
  assumes "js_burn keccak256 db burner sub_id h v j = Val (ok, j')"
  defines "t \<equiv> token_id_address keccak256 burner sub_id"
  shows "if ok
     then v \<noteq> 0 \<and> is_token_id_valid db t = Inr True \<and> v \<le> balance db j h t \<and>
       last (last (journal j')) = TokensBurned h t v \<and>
       balance db j' = (balance db j)(h := (balance db j h)(t := balance db j h t - v))
     else loaded_only db h j j'"
proof (cases "v = 0")
  case True
  with assms(1) show ?thesis by (simp add: js_burn_def loaded_only_refl)
next
  case False
  with assms(1) obtain r1 j1 where l1: "js_load_native_token_ids db j = Val (r1, j1)"
    by (auto simp: js_burn_def evals)
  show ?thesis
  proof (cases r1)
    case (Inl e)
    with assms(1) False l1 load_ids_loaded_only [OF l1] show ?thesis by (simp add: js_burn_def)
  next
    case (Inr q)
    with assms(1) False l1 obtain r2 j2 where l2: "js_load_account db h j1 = Val (r2, j2)"
      by (auto simp: js_burn_def evals)
    note bal = loads_balance [OF l1 l2]
    show ?thesis
    proof (cases r2)
      case (Inl e)
      with assms(1) False l1 Inr l2 loads_loaded_only [OF l1 l2] show ?thesis by (simp add: js_burn_def)
    next
      case (Inr q2)
      then obtain x c where x: "acct j2 h = Some x" using l2 load_account_loaded by (cases q2) blast
      note bx = balance_loaded [OF x, of db, unfolded bal]
      show ?thesis
        using assms(1) False l1 \<open>r1 = Inr q\<close> l2 Inr x bx bal loads_loaded_only [OF l1 l2]
        by (auto simp: js_burn_def js_account_def checked token_ledger.get_set_fun evals Let_def t_def
            push_journal_def push_last_def split: sum.splits option.splits if_splits)
    qed
  qed
qed

section \<open>A concrete database\<close>

text \<open>Two holders of token 5 (the accounts 1 and 2), for the examples below.\<close>

definition two_holders :: "u256 \<Rightarrow> u256 \<Rightarrow> unit database" where
  "two_holders x y =
     (empty_db (\<lambda>_. 0))\<lparr>basic := (\<lambda>a. Inr (if a = 1 then Some (info_of_balances [5 \<mapsto> x])
                                     else if a = 2 then Some (info_of_balances [5 \<mapsto> y]) else None)),
       get_token_ids := Inr [0, 5], is_token_id_valid := (\<lambda>i. Inr (i \<in> {0, 5}))\<rparr>"

lemma two_holders_queries [simp]:
  "basic (two_holders x y) a = Inr (if a = 1 then Some (info_of_balances [5 \<mapsto> x])
      else if a = 2 then Some (info_of_balances [5 \<mapsto> y]) else None)"
  "get_token_ids (two_holders x y) = Inr [0, 5]"
  "is_token_id_valid (two_holders x y) i = Inr (i \<in> {0, 5})"
  by (simp_all add: two_holders_def)

lemma two_holders_balance:
  "balance (two_holders x y) (js_new sp warm) a i =
     (if i = 5 then (if a = 1 then x else if a = 2 then y else 0) else 0)"
  by (simp add: balance_def info_of_def js_new_def acct_def default_evm_state_def info_of_balances_def
      get_balance_def default_account_info_def)

lemmas run_simps =
  js_transfer_def js_load_native_token_ids_def js_load_account_def js_new_def acct_def
  default_evm_state_def push_journal_def push_last_def put_account_def transfer_one_def
  js_account_def touch_account_def flag_ops account_of_info_def info_of_balances_def
  get_balance_def set_balance_def default_account_info_def checked_sub_def checked_add_def
  Loaded_def Touched_def flag_contains_def flag_insert_def Let_def

section \<open>Properties\<close>

text \<open>
  C13. A successful transfer of a list of tokens between two accounts debits the sender and credits
  the recipient by exactly the listed amounts of each token, without wrapping, and leaves every
  other account alone.
\<close>

theorem transfer_moves_exactly:
  assumes "js_transfer db a b ts j = Val (Inr None, j')" and "a \<noteq> b"
  shows "unat (balance db j a i) = unat (balance db j' a i) + amount_of i ts \<and>
     unat (balance db j' b i) = unat (balance db j b i) + amount_of i ts \<and>
     (\<forall>c. c \<notin> {a, b} \<longrightarrow> balance db j' c = balance db j c)"
proof -
  from assms(1) obtain j1 where "transfer_loop a b ts j1 = Val (None, j')" "balance db j1 = balance db j"
    by (rule transfer_unfold)
  with transfer_loop_moves [of a b ts j1 j' db] assms(2) show ?thesis by simp
qed

theorem transfer_moves_exactly_witness:
  "\<exists>j'. js_transfer (two_holders 10 3) 1 2 [\<lparr>tt_id = 5, tt_amount = 4\<rparr>] (js_new CANCUN {}) = Val (Inr None, j')
     \<and> unat (balance (two_holders 10 3) j' 1 5) = 6 \<and> unat (balance (two_holders 10 3) j' 2 5) = 7
     \<and> balance (two_holders 10 3) j' 9 5 = 0"
proof -
  have "\<exists>j'. js_transfer (two_holders 10 3) 1 2 [\<lparr>tt_id = 5, tt_amount = 4\<rparr>] (js_new CANCUN {}) = Val (Inr None, j')"
    by (simp add: run_simps)
  then obtain j' where
    j': "js_transfer (two_holders 10 3) 1 2 [\<lparr>tt_id = 5, tt_amount = 4\<rparr>] (js_new CANCUN {}) = Val (Inr None, j')" ..
  from transfer_moves_exactly [OF j', of 5] j' show ?thesis
    by (auto simp: two_holders_balance)
qed

text \<open>
  C12. A transfer never creates or destroys tokens, whether it succeeds, runs out of funds or stops
  at a failing database, unless the recipient's balance overflows: the holdings of any group of
  accounts that has both parties or neither are unchanged, and so are all other balances.
\<close>

theorem transfer_conserves_holdings:
  assumes "js_transfer db a b ts j = Val (Inr r, j')" and "r \<noteq> Some OverflowPayment"
    and "finite S" and "a \<in> S \<longleftrightarrow> b \<in> S"
  shows "holdings db j' S i = holdings db j S i"
proof -
  from assms(1) obtain j1 where run: "transfer_loop a b ts j1 = Val (r, j')" and j1: "balance db j1 = balance db j"
    by (rule transfer_unfold)
  show ?thesis
  proof (cases "a = b")
    case True
    have "balance db j' = balance db j"
      using run assms(2) j1
    proof (induction ts arbitrary: j1)
      case (Cons t ts)
      then show ?case
        by (fastforce simp: evals True move_self dest: transfer_one_balances [where db = db]
            split: option.splits)
    qed simp
    then show ?thesis by (simp add: holdings_def)
  next
    case False
    note c = transfer_loop_conserves [OF run assms(2) False, of db, unfolded j1]
    show ?thesis
    proof (cases "a \<in> S")
      case True
      with assms(3,4) False c [of i] show ?thesis
        by (simp add: holdings_split [of S a] holdings_split [of "S - {a}" b] add.assoc [symmetric])
          (intro holdings_cong, auto)
    next
      case False
      with assms(4) c [of i] show ?thesis by (intro holdings_cong) auto
    qed
  qed
qed

theorem transfer_conserves_holdings_witness:
  "\<exists>j'. js_transfer (two_holders 10 3) 1 2 [\<lparr>tt_id = 5, tt_amount = 11\<rparr>] (js_new CANCUN {})
          = Val (Inr (Some OutOfFunds), j') \<and> holdings (two_holders 10 3) j' {1, 2} 5 = 13"
proof -
  have "\<exists>j'. js_transfer (two_holders 10 3) 1 2 [\<lparr>tt_id = 5, tt_amount = 11\<rparr>] (js_new CANCUN {})
      = Val (Inr (Some OutOfFunds), j')"
    by (simp add: run_simps)
  then obtain j' where j': "js_transfer (two_holders 10 3) 1 2 [\<lparr>tt_id = 5, tt_amount = 11\<rparr>] (js_new CANCUN {})
      = Val (Inr (Some OutOfFunds), j')" ..
  from transfer_conserves_holdings [OF j', of "{1, 2}" 5] j' show ?thesis
    by (auto simp: two_holders_balance holdings_def)
qed

text \<open>
  The exception: when the recipient's balance overflows, the transfer reports
  \<^verbatim>\<open>OverflowPayment\<close> with the sender already debited and nobody credited.
\<close>

lemma overflow_transfer:
  assumes "js_transfer db a b [t] j = Val (Inr (Some OverflowPayment), j')" and "a \<noteq> b"
  shows overflow_debit: "unat (balance db j' a (tt_id t)) + unat (tt_amount t) = unat (balance db j a (tt_id t)) \<and>
     (\<forall>c. c \<noteq> a \<longrightarrow> balance db j' c = balance db j c)"
    and overflow_other_tokens: "i \<noteq> tt_id t \<Longrightarrow> balance db j' a i = balance db j a i"
proof -
  from assms(1) obtain j1 where run: "transfer_loop a b [t] j1 = Val (Some OverflowPayment, j')"
    and j1: "balance db j1 = balance db j" by (rule transfer_unfold)
  from run have "transfer_one a b t j1 = Val (Some OverflowPayment, j')"
    by (auto simp: evals split: option.splits)
  from transfer_one_balances [OF this, of db] assms(2)
  show "unat (balance db j' a (tt_id t)) + unat (tt_amount t) = unat (balance db j a (tt_id t)) \<and>
     (\<forall>c. c \<noteq> a \<longrightarrow> balance db j' c = balance db j c)"
    and "i \<noteq> tt_id t \<Longrightarrow> balance db j' a i = balance db j a i"
    unfolding j1 by (auto simp: unat_minus_if_le word_le_nat_alt)
qed

text \<open>Entries that undo flags and loaded ids keep the information of every account.\<close>

definition touch_or_ids :: "evm_state \<Rightarrow> journal_entry \<Rightarrow> bool" where
  "touch_or_ids s e \<longleftrightarrow> (\<exists>c. e = AccountTouched c \<and> accounts s c \<noteq> None) \<or> (\<exists>ids. e = TokenIdsLoaded ids)"

lemma revert_touches:
  assumes "list_all (touch_or_ids s) es"
  shows "\<exists>s'. revert_entries sd es (s, ts) = Val (s', ts) \<and>
     (\<forall>c. map_option info (accounts s' c) = map_option info (accounts s c))"
  using assms
proof (induction es arbitrary: s)
  case (Cons e es)
  have "\<exists>s1. revert_entry sd e (s, ts) = Val (s1, ts) \<and>
      (\<forall>c. map_option info (accounts s1 c) = map_option info (accounts s c))"
    using Cons.prems by (auto simp: touch_or_ids_def modify_account_def flag_ops)
  then obtain s1 where s1: "revert_entry sd e (s, ts) = Val (s1, ts)"
    "\<And>c. map_option info (accounts s1 c) = map_option info (accounts s c)" by blast
  then have "accounts s1 c = None \<longleftrightarrow> accounts s c = None" for c by (metis option.map_disc_iff)
  with Cons.prems have "list_all (touch_or_ids s1) es" by (auto simp: list_all_iff touch_or_ids_def)
  from Cons.IH [OF this] s1 show ?case by auto
qed simp

text \<open>The entries of the frame in which a transfer between loaded accounts overflows.\<close>

lemma overflow_entries:
  assumes run: "js_transfer db a b [t] j = Val (Inr (Some OverflowPayment), j')"
    and loaded: "acct j a \<noteq> None" "acct j b \<noteq> None"
  shows "\<exists>es. journal j' = butlast (journal j) @ [last (journal j) @ es] \<and> list_all (touch_or_ids (state j')) es"
    and "depth j' = depth j" "journal j \<noteq> []" "\<And>c. acct j' c = None \<longleftrightarrow> acct j c = None"
proof -
  from run obtain k k1 k2 r r1 r2 where ids: "js_load_native_token_ids db j = Val (Inr r, k)"
    and l1: "js_load_account db a k = Val (Inr r1, k1)" and l2: "js_load_account db b k1 = Val (Inr r2, k2)"
    and "transfer_loop a b [t] k2 = Val (Some OverflowPayment, j')"
    by (auto simp: js_transfer_def evals)
  then have one: "transfer_one a b t k2 = Val (Some OverflowPayment, j')" by (auto simp: evals split: option.splits)
  have k: "(journal k \<noteq> [] \<longrightarrow> journal j \<noteq> [] \<and> (\<exists>es. journal k = butlast (journal j) @ [last (journal j) @ es] \<and>
        (\<forall>e \<in> set es. \<exists>i. e = TokenIdsLoaded i))) \<and> depth k = depth j \<and> acct k = acct j"
    using ids
    by (cases "get_token_ids db") (auto simp: js_load_native_token_ids_def evals Let_def push_journal_def push_last_def acct_def
        intro: exI [of _ "[]"] split: if_splits)
  then have "k2 = k" using l1 l2 loaded by (auto simp: js_load_account_def)
  with one have one: "transfer_one a b t k = Val (Some OverflowPayment, j')" by simp
  have touched: "\<exists>es. journal m' = butlast (journal m) @ [last (journal m) @ es] \<and> set es \<subseteq> {AccountTouched c}"
    if "touch_account c x m = Val (x', m')" for c x x' m m'
    using that by (auto simp: touch_account_def evals push_journal_def push_last_def intro: exI [of _ "[]"] split: if_splits)
  from one have "(\<exists>es. journal j' = butlast (journal k) @ [last (journal k) @ es] \<and> set es \<subseteq> {AccountTouched a, AccountTouched b})
      \<and> depth j' = depth k \<and> (\<forall>c. acct j' c = None \<longleftrightarrow> acct k c = None) \<and> journal k \<noteq> []"
  proof (cases rule: transfer_one_cases)
    case (overflow x x1 j1 y y1 j3)
    obtain e1 e2 where "journal j1 = butlast (journal k) @ [last (journal k) @ e1]" "set e1 \<subseteq> {AccountTouched a}"
      "journal j3 = butlast (journal j1) @ [last (journal j1) @ e2]" "set e2 \<subseteq> {AccountTouched b}"
      using touched [OF overflow(2)] touched [OF overflow(5)] by auto
    then have "\<exists>es. journal j' = butlast (journal k) @ [last (journal k) @ es] \<and> set es \<subseteq> {AccountTouched a, AccountTouched b}"
      using overflow(8) by (intro exI [of _ "e1 @ e2"]) auto
    moreover have "depth m' = depth m" if "touch_account c x m = Val (x', m')" for c x x' m m'
      using touch_account_journal(1) [OF that] by (metis journaled_state.select_convs(4) journaled_state.surjective journaled_state.update_convs(5))
    from this [OF overflow(2)] this [OF overflow(5)] have "depth j' = depth k"
      using overflow(8) by (simp add: put_account_def)
    moreover have "acct j' c = None \<longleftrightarrow> acct k c = None" for c
      using overflow(1,4,8) touch_account_frame(5) [OF overflow(2)] touch_account_frame(5) [OF overflow(5)] by auto
    moreover have "journal k \<noteq> []" using overflow(2) by (auto simp: touch_account_def)
    ultimately show ?thesis by blast
  qed simp_all
  then have j': "\<exists>es. journal j' = butlast (journal k) @ [last (journal k) @ es] \<and> set es \<subseteq> {AccountTouched a, AccountTouched b}"
    and more: "depth j' = depth k" "\<And>c. acct j' c = None \<longleftrightarrow> acct k c = None" "journal k \<noteq> []" by blast+
  show "depth j' = depth j" "journal j \<noteq> []" "\<And>c. acct j' c = None \<longleftrightarrow> acct j c = None"
    using k more by simp_all
  from k more(3) obtain es1 where es1: "journal k = butlast (journal j) @ [last (journal j) @ es1]" "\<forall>e \<in> set es1. \<exists>i. e = TokenIdsLoaded i" by blast
  from j' obtain es2 where es2: "journal j' = butlast (journal k) @ [last (journal k) @ es2]" "set es2 \<subseteq> {AccountTouched a, AccountTouched b}" by blast
  have "accounts (state j') a \<noteq> None" "accounts (state j') b \<noteq> None" using loaded k more(2) by (auto simp: acct_def)
  then have "list_all (touch_or_ids (state j')) (es1 @ es2)" using es1(2) es2(2) by (auto simp: list_all_iff touch_or_ids_def)
  then show "\<exists>es. journal j' = butlast (journal j) @ [last (journal j) @ es] \<and> list_all (touch_or_ids (state j')) es"
    using es1(1) es2(1) by (intro exI [of _ "es1 @ es2"]) simp
qed

text \<open>
  C33. And reverting does not bring the tokens back: whenever, inside a frame, a transfer between two
  accounts that were loaded before overflows the recipient, the revert of the frame succeeds and
  leaves the sender without the amount and everybody else, the recipient included, with what they had.
\<close>

theorem transfer_overflow_survives_revert:
  assumes "js_transfer db a b [t] (snd (js_checkpoint j)) = Val (Inr (Some OverflowPayment), j2)" and "a \<noteq> b"
    and "acct j a \<noteq> None" and "acct j b \<noteq> None"
  shows "\<exists>j3. js_checkpoint_revert (fst (js_checkpoint j)) j2 = Val j3 \<and>
     unat (balance db j3 a (tt_id t)) + unat (tt_amount t) = unat (balance db j a (tt_id t)) \<and>
     (\<forall>i. i \<noteq> tt_id t \<longrightarrow> balance db j3 a i = balance db j a i) \<and>
     (\<forall>c. c \<noteq> a \<longrightarrow> balance db j3 c = balance db j c)"
proof -
  let ?j1 = "snd (js_checkpoint j)"
  have acct1: "acct ?j1 = acct j" by (simp add: acct_def fun_eq_iff)
  from overflow_entries [OF assms(1)] assms(3,4) obtain es where
    es: "journal j2 = journal j @ [es]" "list_all (touch_or_ids (state j2)) es" and d: "depth j2 = depth j + 1"
    by (auto simp: acct1)
  from es(2) have "list_all (touch_or_ids (state j2)) (rev es)" by simp
  from revert_touches [OF this] obtain s' where
    s': "revert_entries (enabled (spec j2) SPURIOUS_DRAGON) (rev es) (state j2, transient_storage j2) = Val (s', transient_storage j2)"
    "\<And>c. map_option info (accounts s' c) = map_option info (accounts (state j2) c)" by blast
  have cp: "journal_i (fst (js_checkpoint j)) = length (journal j)" by (simp add: js_checkpoint_def)
  obtain j3 where j3: "js_checkpoint_revert (fst (js_checkpoint j)) j2 = Val j3" "state j3 = s'"
    using d es(1) s'(1) by (simp add: js_checkpoint_revert_def cp journal_revert_def)
  have "info_of db j3 = info_of db j2"
  proof
    fix c show "info_of db j3 c = info_of db j2 c"
      using s'(2) [of c] j3(2) by (cases "accounts s' c"; cases "accounts (state j2) c") (auto simp: info_of_def acct_def)
  qed
  then have "balance db j3 = balance db j2" by (simp add: balance_def fun_eq_iff)
  moreover have "balance db ?j1 = balance db j" using info_of_cong [OF acct1, of db] by (intro ext) (simp add: balance_def)
  moreover have "balance db j2 a i = balance db j a i" if "i \<noteq> tt_id t" for i
    using overflow_other_tokens [OF assms(1,2) that] calculation(2) by simp
  ultimately show ?thesis using j3(1) overflow_debit [OF assms(1,2)] by simp
qed

text \<open>With both accounts loaded, a transfer of 4 of 10 to a full recipient leaves 6 after the revert.\<close>

theorem transfer_overflow_survives_revert_witness:
  "let db = two_holders 10 (- 1);
       j = (js_new CANCUN {})\<lparr>state := \<lparr>accounts = [1 \<mapsto> account_of_info (info_of_balances [5 \<mapsto> 10]),
               2 \<mapsto> account_of_info (info_of_balances [5 \<mapsto> - 1])], token_ids = [0, 5]\<rparr>\<rparr>
   in balance db j 1 5 = 10 \<and>
      (\<exists>j2 j3. js_transfer db 1 2 [\<lparr>tt_id = 5, tt_amount = 4\<rparr>] (snd (js_checkpoint j))
                 = Val (Inr (Some OverflowPayment), j2) \<and>
               js_checkpoint_revert (fst (js_checkpoint j)) j2 = Val j3 \<and> unat (balance db j3 1 5) = 6)"
proof -
  let ?db = "two_holders 10 (- 1)"
  let ?j = "(js_new CANCUN {})\<lparr>state := \<lparr>accounts = [1 \<mapsto> account_of_info (info_of_balances [5 \<mapsto> 10]),
               2 \<mapsto> account_of_info (info_of_balances [5 \<mapsto> - 1])], token_ids = [0, 5]\<rparr>\<rparr>"
  have "\<exists>j2. js_transfer ?db 1 2 [\<lparr>tt_id = 5, tt_amount = 4\<rparr>] (snd (js_checkpoint ?j)) = Val (Inr (Some OverflowPayment), j2)"
    by (simp add: run_simps js_checkpoint_def)
  then obtain j2 where j2: "js_transfer ?db 1 2 [\<lparr>tt_id = 5, tt_amount = 4\<rparr>] (snd (js_checkpoint ?j)) = Val (Inr (Some OverflowPayment), j2)" ..
  have b: "balance ?db ?j 1 5 = 10" by (simp add: run_simps balance_def info_of_def)
  have "acct ?j 1 \<noteq> None" "acct ?j 2 \<noteq> None" by (simp_all add: acct_def)
  from transfer_overflow_survives_revert [OF j2 _ this] j2 b show ?thesis by auto
qed

text \<open>
  C18. Minting: on success the recipient has exactly the minted amount more of the token derived
  from the minter and the sub id, without wrapping, the id is known, the mint is the last entry of
  the journal, and no other balance changes. On failure nothing is changed: at most the token ids
  and the minter's account have been read from the database, with their journal entries.
\<close>

theorem mint_outcome:
  assumes "js_mint keccak256 db minter b sub_id v j = Val (ok, j')"
  shows "let t = token_id_address keccak256 minter sub_id in
     if ok
     then unat (balance db j' b t) = unat (balance db j b t) + unat v \<and>
       t \<in> set (token_ids (state j')) \<and> last (last (journal j')) = TokensMinted minter b t v \<and>
       (\<forall>c i. (c, i) \<noteq> (b, t) \<longrightarrow> balance db j' c i = balance db j c i)
     else loaded_only db minter j j'"
  using mint_balances [OF assms] by (auto simp: Let_def unat_plus_if_small split: if_splits)

theorem mint_outcome_witness:
  "\<exists>j'. js_mint (\<lambda>_. 5) (two_holders 10 3) 1 1 0 7 (js_new CANCUN {}) = Val (True, j') \<and>
     unat (balance (two_holders 10 3) j' 1 5) = 17"
proof -
  have "\<exists>j'. js_mint (\<lambda>_. 5) (two_holders 10 3) 1 1 0 7 (js_new CANCUN {}) = Val (True, j')"
    by (simp add: run_simps js_mint_def token_id_address_def)
  then obtain j' where j': "js_mint (\<lambda>_. 5) (two_holders 10 3) 1 1 0 7 (js_new CANCUN {}) = Val (True, j')" ..
  from mint_outcome [OF j'] j' show ?thesis
    by (auto simp: two_holders_balance token_id_address_def)
qed

text \<open>
  C19. Burning: on success the amount is positive, the database knows the token, the holder had at
  least the amount and has exactly that much less, the burn is the last entry of the journal, and no
  other balance changes. On failure nothing is changed: at most the token ids and the holder's
  account have been read from the database, with their journal entries.
\<close>

theorem burn_outcome:
  assumes "js_burn keccak256 db burner sub_id h v j = Val (ok, j')"
  shows "let t = token_id_address keccak256 burner sub_id in
     if ok
     then v \<noteq> 0 \<and> is_token_id_valid db t = Inr True \<and>
       unat (balance db j h t) = unat (balance db j' h t) + unat v \<and>
       last (last (journal j')) = TokensBurned h t v \<and>
       (\<forall>c i. (c, i) \<noteq> (h, t) \<longrightarrow> balance db j' c i = balance db j c i)
     else loaded_only db h j j'"
  using burn_balances [OF assms]
  by (auto simp: Let_def unat_minus_if_le word_le_nat_alt split: if_splits)

theorem burn_outcome_witness:
  "\<exists>j'. js_burn (\<lambda>_. 5) (two_holders 10 3) 1 0 2 3 (js_new CANCUN {}) = Val (True, j') \<and>
     unat (balance (two_holders 10 3) j' 2 5) = 0"
proof -
  have "\<exists>j'. js_burn (\<lambda>_. 5) (two_holders 10 3) 1 0 2 3 (js_new CANCUN {}) = Val (True, j')"
    by (simp add: run_simps js_burn_def token_id_address_def)
  then obtain j' where j': "js_burn (\<lambda>_. 5) (two_holders 10 3) 1 0 2 3 (js_new CANCUN {}) = Val (True, j')" ..
  from burn_outcome [OF j'] j' show ?thesis
    by (auto simp: two_holders_balance token_id_address_def)
qed

end
