(* ===== verification/Journal_Ops.thy ===== *)
theory Journal_Ops
  imports Token_Flow
begin

text \<open>
  The functional behaviour of the other operations of the journaled state: storage, transient
  storage, nonces, account creation and self-destruction, on every branch.
\<close>

section \<open>Storage\<close>

definition slot_of :: "journaled_state \<Rightarrow> address \<Rightarrow> u256 \<Rightarrow> evm_storage_slot option" where
  "slot_of j a k = (case acct j a of None \<Rightarrow> None | Some x \<Rightarrow> storage x k)"

lemma slot_of_put [simp]:
  "slot_of (put_account a x j) b k = (if b = a then storage x k else slot_of j b k)"
  by (simp add: slot_of_def)

lemma slot_of_journal [simp]: "slot_of (j\<lparr>journal := u\<rparr>) a k = slot_of j a k"
  by (simp add: slot_of_def)

lemma sload_frame:
  assumes "js_sload db a k j = Val (r, j')" and "(b, l) \<noteq> (a, k)"
  shows "slot_of j' b l = slot_of j b l"
  using assms
  by (cases r) (auto simp: js_sload_def evals slot_of_def split: option.splits if_splits)

text \<open>The original value of a slot is that of its first load.\<close>

lemma sload_original:
  assumes "js_sload db a k j = Val (Inr (v, cold), j')"
  shows "\<exists>s. slot_of j' a k = Some s \<and> present_value s = v \<and>
     original_value s = (case slot_of j a k of Some s \<Rightarrow> original_value s | None \<Rightarrow> v)"
  using assms
  by (auto simp: js_sload_def evals slot_of_def slot_new_def js_account_def split: option.splits if_splits)

text \<open>
  C24. Storing a word: the next load of the slot is warm and returns the word, the result reports
  the value and the temperature a load would have seen before, the original value of the slot (the
  one before the transaction) is kept and reported, and no other slot of any account changes.
\<close>

theorem sload_after_sstore:
  assumes "js_sstore db a k v j = Val (Inr res, j')"
  shows "js_sload db a k j' = Val (Inr (v, False), j') \<and> sr_new_value res = v \<and>
     (\<exists>j1. js_sload db a k j = Val (Inr (sr_present_value res, sr_is_cold res), j1)) \<and>
     sr_original_value res = (case slot_of j a k of Some s \<Rightarrow> original_value s | None \<Rightarrow> sr_present_value res) \<and>
     (\<exists>s. slot_of j' a k = Some s \<and> present_value s = v \<and> original_value s = sr_original_value res) \<and>
     (\<forall>b l. (b, l) \<noteq> (a, k) \<longrightarrow> slot_of j' b l = slot_of j b l)"
proof -
  from assms obtain p c j1 where load: "js_sload db a k j = Val (Inr (p, c), j1)"
    by (auto simp: js_sstore_def evals)
  from sload_present [OF load] obtain x slot where x: "acct j1 a = Some x" "storage x k = Some slot"
    "present_value slot = p" by blast
  have orig: "original_value slot = (case slot_of j a k of Some s \<Rightarrow> original_value s | None \<Rightarrow> p)"
    using sload_original [OF load] x by (simp add: slot_of_def)
  have frame: "(b, l) \<noteq> (a, k) \<Longrightarrow> slot_of j1 b l = slot_of j b l" for b l
    by (rule sload_frame [OF load])
  show ?thesis
  proof (cases "p = v")
    case True
    with assms load x have "j' = j1" "sr_new_value res = v" "sr_present_value res = p" "sr_is_cold res = c"
      "sr_original_value res = original_value slot"
      by (auto simp: js_sstore_def js_account_def Let_def)
    moreover have "slot_of j1 a k = Some slot" "js_sload db a k j1 = Val (Inr (p, False), j1)"
      using x by (simp_all add: slot_of_def js_sload_def js_account_def)
    ultimately show ?thesis using True x(3) orig load frame by (simp split: option.splits)
  next
    case False
    let ?x = "x\<lparr>storage := (storage x)(k \<mapsto> slot\<lparr>present_value := v\<rparr>)\<rparr>"
    have "j' = (put_account a ?x j1)\<lparr>journal := push_last (StorageChange a k (Some p)) (journal j1)\<rparr>"
      and "sr_new_value res = v" "sr_present_value res = p" "sr_is_cold res = c" "sr_original_value res = original_value slot"
      using assms load x False by (auto simp: js_sstore_def js_account_def Let_def evals)
    moreover have "l \<noteq> k \<Longrightarrow> storage x l = slot_of j a l" for l
      using x frame [of a l] by (simp add: slot_of_def)
    ultimately show ?thesis
      using frame load orig by (auto simp: js_sload_def js_account_def split: option.splits)
  qed
qed

theorem sload_after_sstore_witness:
  "\<exists>res j'. js_sstore (two_holders 10 3) 1 8 77
       ((js_new CANCUN {})\<lparr>state := \<lparr>accounts = [1 \<mapsto> new_not_existing], token_ids = []\<rparr>\<rparr>) = Val (Inr res, j') \<and>
     js_sload (two_holders 10 3) 1 8 j' = Val (Inr (77, False), j')"
proof -
  let ?j = "(js_new CANCUN {})\<lparr>state := \<lparr>accounts = [1 \<mapsto> new_not_existing], token_ids = []\<rparr>\<rparr>"
  have "\<exists>res j'. js_sstore (two_holders 10 3) 1 8 77 ?j = Val (Inr res, j')"
    by (simp add: run_simps js_sstore_def js_sload_def new_not_existing_def LoadedAsNotExisting_def
        Created_def two_holders_def empty_db_def slot_new_def)
  then obtain res j' where "js_sstore (two_holders 10 3) 1 8 77 ?j = Val (Inr res, j')" by blast
  with sload_after_sstore [OF this] show ?thesis by blast
qed

text \<open>
  Transient storage: a store is read back by the next load and changes no other key.
\<close>

theorem tload_after_tstore:
  assumes "js_tstore a k v j = Val j'"
  shows "js_tload a k j' = v \<and> (\<forall>b l. (b, l) \<noteq> (a, k) \<longrightarrow> js_tload b l j' = js_tload b l j)"
  using assms
  by (cases "transient_storage j (a, k)")
    (auto simp: js_tstore_def js_tload_def Let_def split: if_splits)

theorem tload_after_tstore_witness:
  "\<exists>j'. js_tstore 5 7 9 (js_new CANCUN {}) = Val j' \<and> js_tload 5 7 j' = 9"
proof -
  have "\<exists>j'. js_tstore 5 7 9 (js_new CANCUN {}) = Val j'"
    by (simp add: js_tstore_def js_new_def push_journal_def)
  then obtain j' where "js_tstore 5 7 9 (js_new CANCUN {}) = Val j'" ..
  with tload_after_tstore [OF this] show ?thesis by blast
qed

section \<open>Nonces\<close>

text \<open>
  A nonce is incremented by one and never wraps: at the maximum the operation returns
  \<open>None\<close> and changes nothing; the account is touched otherwise, and only its nonce and flags
  change.
\<close>

theorem inc_nonce_outcome:
  assumes "js_inc_nonce a j = Val (r, j')" and "acct j a = Some x"
  shows "case r of
      None \<Rightarrow> nonce (info x) = - 1 \<and> j' = j
    | Some n \<Rightarrow> unat n = unat (nonce (info x)) + 1 \<and>
        (\<exists>y. acct j' a = Some y \<and> info y = (info x)\<lparr>nonce := n\<rparr> \<and> is_touched y \<and> storage y = storage x) \<and>
        (\<forall>b. b \<noteq> a \<longrightarrow> acct j' b = acct j b)"
proof (cases "nonce (info x) = - 1")
  case True
  with assms show ?thesis by (auto simp: js_inc_nonce_def js_account_def)
next
  case False
  then have "unat (nonce (info x) + 1) = unat (nonce (info x)) + 1"
    by (rule unat_inc)
  moreover from assms False obtain y j1 where t: "touch_account a x j = Val (y, j1)"
    by (auto simp: js_inc_nonce_def js_account_def evals)
  moreover have "is_touched y"
    using t touched.contains_insert by (auto simp: touch_account_def evals flag_ops split: if_splits)
  ultimately show ?thesis
    using assms False touch_account_frame [OF t]
    by (auto simp: js_inc_nonce_def js_account_def evals Let_def flag_ops)
qed

theorem inc_nonce_outcome_witness:
  "let j = (js_new CANCUN {})\<lparr>state := \<lparr>accounts = [1 \<mapsto> new_not_existing], token_ids = []\<rparr>\<rparr>
   in \<exists>n j'. js_inc_nonce 1 j = Val (Some n, j') \<and> unat n = 1 \<and> (\<exists>y. acct j' 1 = Some y \<and> is_touched y)"
proof -
  define j where "j = (js_new CANCUN {})\<lparr>state := \<lparr>accounts = [1 \<mapsto> new_not_existing], token_ids = []\<rparr>\<rparr>"
  have x: "acct j 1 = Some new_not_existing" by (simp add: j_def acct_def)
  have "\<exists>n j'. js_inc_nonce 1 j = Val (Some n, j')"
    by (simp add: j_def run_simps js_inc_nonce_def new_not_existing_def LoadedAsNotExisting_def)
  then obtain n j' where r: "js_inc_nonce 1 j = Val (Some n, j')" by blast
  from inc_nonce_outcome [OF r x] have "unat n = 1" "\<exists>y. acct j' 1 = Some y \<and> is_touched y"
    by (auto simp: new_not_existing_def default_account_info_def)
  with r show ?thesis unfolding Let_def j_def by blast
qed

section \<open>Creating accounts\<close>

lemma is_touched_after: "touch_account a x j = Val (y, j1) \<Longrightarrow> is_touched y"
  using touched.contains_insert by (auto simp: touch_account_def evals flag_ops split: if_splits)

lemma created_flag: "is_created (mark_created x)"
  using created.contains_insert by (simp add: flag_ops)

text \<open>What a created account looks like.\<close>

definition newly_created :: "spec_id \<Rightarrow> account \<Rightarrow> bool" where
  "newly_created sp y \<longleftrightarrow>
     is_created y \<and> is_touched y \<and> code_hash (info y) = KECCAK_EMPTY \<and>
     nonce (info y) = (if enabled sp SPURIOUS_DRAGON then 1 else 0) \<and>
     (\<forall>k s. storage y k = Some s \<longrightarrow> s = slot_default)"

definition create_collision :: "journaled_state \<Rightarrow> address \<Rightarrow> account \<Rightarrow> bool" where
  "create_collision j a x \<longleftrightarrow>
     code_hash (info x) \<noteq> KECCAK_EMPTY \<or> nonce (info x) \<noteq> 0 \<or> a \<in> warm_preloaded_addresses j"

lemma endow_outcome:
  assumes "newly_created sp x" and "get_balance (info x) = balance db j a"
    and "j2 = put_account a (x\<lparr>info := set_base_balance (info x) (get_base_balance (info x) + v)\<rparr>) j"
    and "acct j2 caller = Some c"
    and "j3 = put_account caller (c\<lparr>info := decrease_base_balance (info c) v\<rparr>) j2"
  shows "(\<exists>y. acct j3 a = Some y \<and> newly_created sp y) \<and>
     balance db j3 = move caller a BASE_TOKEN_ID v (balance db j)"
proof -
  have "newly_created sp (x\<lparr>info := set_balance i t b\<rparr>)" if "nonce i = nonce (info x)" "code_hash i = code_hash (info x)" for i t b
    using assms(1) that by (simp add: newly_created_def flag_ops)
  moreover have "caller \<noteq> a \<Longrightarrow> balance db j caller = get_balance (info c)"
    using assms(3,4) by (simp add: balance_loaded)
  ultimately show ?thesis
    using assms(2-5)
    by (cases "caller = a") (auto simp: move_def Let_def balance_ops token_ledger.get_set_fun fun_eq_iff)
qed

text \<open>
  C25. Creating an account that is loaded: it fails with \<^verbatim>\<open>CreateCollision\<close> exactly when the
  address has code or a nonce or is preloaded as warm, and with \<^verbatim>\<open>OverflowPayment\<close> exactly when the
  endowment overflows its balance. Otherwise the account is marked created and touched, has the
  initial nonce of the fork, no code and zeroed storage, and the endowment moves from the caller.
\<close>

theorem create_account_outcome:
  assumes "js_create_account_checkpoint caller a v sp j = Val (r, j')" and "acct j a = Some x"
  shows "(r = Inl CreateCollision \<longleftrightarrow> create_collision j a x) \<and>
     (r = Inl OverflowPayment \<longleftrightarrow>
        \<not> create_collision j a x \<and> 2 ^ 256 \<le> unat (get_base_balance (info x)) + unat v) \<and>
     (\<forall>cp. r = Inr cp \<longrightarrow>
        (\<exists>y. acct j' a = Some y \<and> newly_created sp y) \<and>
        balance db j' = move caller a BASE_TOKEN_ID v (balance db j))"
proof (cases "create_collision j a x")
  case True
  then have "js_create_account_checkpoint caller a v sp j =
     bindE (js_checkpoint_revert (fst (js_checkpoint j)) (snd (js_checkpoint j)))
       (\<lambda>j. Val (Inl CreateCollision, j))"
    using create_account_collision [OF assms(2), of caller v sp] by (simp add: create_collision_def)
  with assms(1) have "r = Inl CreateCollision" by (auto simp: evals)
  with True show ?thesis by simp
next
  case False
  then have fresh: "code_hash (info x) = KECCAK_EMPTY" "nonce (info x) = 0" "a \<notin> warm_preloaded_addresses j"
    by (auto simp: create_collision_def)
  note run = assms(1) [unfolded create_account_fresh [OF assms(2) fresh]]
  from run obtain x2 j2 where t: "touch_account a (created_account x) ((snd (js_checkpoint j))
      \<lparr>journal := push_last (AccountCreated a) (journal j @ [[]])\<rparr>) = Val (x2, j2)"
    by (auto simp: evals)
  note f = touch_account_frame [OF t]
  have bal2: "balance db j2 = balance db j"
    using balance_touch [OF t, of db] by (simp add: balance_def info_of_def fun_eq_iff)
  have i2: "info x2 = (info x)\<lparr>code := None\<rparr>" using f(1) by (simp add: created_account_def)
  show ?thesis
  proof (cases "checked_add (get_base_balance (info x2)) v")
    case None
    with run t have "r = Inl OverflowPayment" by (auto simp: evals)
    with None False show ?thesis by (simp add: i2 balance_ops checked_add_None_iff)
  next
    case (Some nb)
    define n :: u64 where "n = (if enabled sp SPURIOUS_DRAGON then 1 else 0)"
    define x3 where "x3 = x2\<lparr>info := (info x2)\<lparr>nonce := n\<rparr>\<rparr>"
    have new3: "newly_created sp x3"
      using f is_touched_after [OF t] created_flag [of x] fresh
      by (auto simp: newly_created_def created_account_def flag_ops n_def x3_def)
    have bal3: "get_balance (info x3) = balance db j2 a"
      using balance_loaded [OF assms(2), of db] bal2 by (simp add: x3_def i2)
    have nb: "nb = get_base_balance (info x3) + v" using Some by (simp add: checked x3_def balance_ops)
    have eq: "x2\<lparr>info := (if enabled sp SPURIOUS_DRAGON then (set_base_balance (info x2) nb)\<lparr>nonce := 1\<rparr>
        else set_base_balance (info x2) nb)\<rparr> = x3\<lparr>info := set_base_balance (info x3) nb\<rparr>"
      using fresh(2) by (simp add: x3_def n_def i2 balance_ops set_balance_def)
    let ?j3 = "put_account a (x3\<lparr>info := set_base_balance (info x3) (get_base_balance (info x3) + v)\<rparr>) j2"
    from run t Some obtain c cp where "acct ?j3 caller = Some c" "r = Inr cp"
      "j' = (put_account caller (c\<lparr>info := decrease_base_balance (info c) v\<rparr>) ?j3)
         \<lparr>journal := push_last (BalanceTransfer caller a BASE_TOKEN_ID v) (journal j2)\<rparr>"
      by (auto simp: evals Let_def eq simp flip: nb)
    with endow_outcome [OF new3 bal3 refl this(1) refl] bal2 False Some show ?thesis
      by (auto simp: i2 balance_ops checked)
  qed
qed

theorem create_account_outcome_witness:
  "let j = (js_new CANCUN {})\<lparr>state := \<lparr>accounts = [1 \<mapsto> account_of_info (info_of_balances [0 \<mapsto> 10]),
             2 \<mapsto> new_not_existing], token_ids = []\<rparr>\<rparr>;
       db = two_holders 10 3
   in \<exists>cp j'. js_create_account_checkpoint 1 2 4 CANCUN j = Val (Inr cp, j') \<and>
        (\<exists>y. acct j' 2 = Some y \<and> newly_created CANCUN y) \<and>
        balance db j' 1 0 = 6 \<and> balance db j' 2 0 = 4"
proof -
  define j where "j = (js_new CANCUN {})\<lparr>state := \<lparr>accounts = [1 \<mapsto> account_of_info (info_of_balances [0 \<mapsto> 10]),
             2 \<mapsto> new_not_existing], token_ids = []\<rparr>\<rparr>"
  have x: "acct j 2 = Some new_not_existing" by (simp add: j_def acct_def)
  have "\<exists>cp j'. js_create_account_checkpoint 1 2 4 CANCUN j = Val (Inr cp, j')"
    by (simp add: j_def run_simps js_create_account_checkpoint_def js_checkpoint_def new_not_existing_def
        LoadedAsNotExisting_def Created_def balance_ops BASE_TOKEN_ID_def)
  then obtain cp j' where r: "js_create_account_checkpoint 1 2 4 CANCUN j = Val (Inr cp, j')" by blast
  from create_account_outcome [OF r x, of "two_holders 10 3"]
  have new: "\<exists>y. acct j' 2 = Some y \<and> newly_created CANCUN y"
    and bal: "balance (two_holders 10 3) j' = move 1 2 BASE_TOKEN_ID 4 (balance (two_holders 10 3) j)"
    by simp_all
  have "balance (two_holders 10 3) j' 1 0 = 6" "balance (two_holders 10 3) j' 2 0 = 4"
    by (simp_all add: bal move_def BASE_TOKEN_ID_def j_def balance_def info_of_def acct_def get_balance_def
        account_of_info_def info_of_balances_def new_not_existing_def default_account_info_def)
  with r new show ?thesis unfolding Let_def j_def by blast
qed

section \<open>Self-destruction\<close>

definition destruction_takes_effect :: "journaled_state \<Rightarrow> account \<Rightarrow> bool" where
  "destruction_takes_effect j x \<longleftrightarrow> is_created x \<or> \<not> enabled (spec j) CANCUN"

lemma load_account_exist_frame:
  assumes "js_load_account_exist db b j = Val (Inr lr, j1)"
  shows "info_of db j1 = info_of db j" and "spec j1 = spec j"
    and "acct j a = Some x \<Longrightarrow> acct j1 a = Some x"
proof -
  from assms obtain r where l: "js_load_account db b j = Val (Inr r, j1)"
    by (auto simp: js_load_account_exist_def evals Let_def)
  show "info_of db j1 = info_of db j" by (rule load_account_info_of [OF l])
  show "acct j a = Some x \<Longrightarrow> acct j1 a = Some x" by (rule load_account_keeps [OF l])
  show "spec j1 = spec j"
    using l by (auto simp: js_load_account_def evals Let_def split: option.splits)
qed

lemma selfdestruct_flag:
  "is_selfdestructed (mark_selfdestruct x)"
  "is_selfdestructed ((mark_selfdestruct x)\<lparr>info := i\<rparr>)"
  "is_selfdestructed (x\<lparr>info := i\<rparr>) = is_selfdestructed x"
  using destroyed.contains_insert by (simp_all add: flag_ops)

text \<open>
  C26. Self-destruction sends the base token balance to the target: the target gains what the
  contract had, the contract has none left, and every other balance is unchanged. A contract that
  is its own target loses the balance when the destruction takes effect (before \<^verbatim>\<open>CANCUN\<close>, or in
  the transaction that created it) and keeps it otherwise; it is marked destroyed exactly when
  the destruction takes effect.
\<close>

theorem selfdestruct_outcome:
  assumes "js_selfdestruct db a b j = Val (Inr res, j')" and "acct j a = Some x"
  shows "(sd_had_value res \<longleftrightarrow> balance db j a BASE_TOKEN_ID \<noteq> 0) \<and>
     (sd_previously_destroyed res \<longleftrightarrow> is_selfdestructed x) \<and>
     balance db j' =
       (if a \<noteq> b then move a b BASE_TOKEN_ID (balance db j a BASE_TOKEN_ID) (balance db j)
        else if destruction_takes_effect j x then (balance db j)(a := (balance db j a)(BASE_TOKEN_ID := 0))
        else balance db j) \<and>
     (\<exists>y. acct j' a = Some y \<and> (is_selfdestructed y \<longleftrightarrow> is_selfdestructed x \<or> destruction_takes_effect j x))"
proof -
  from assms(1) obtain lr j1 where l: "js_load_account_exist db b j = Val (Inr lr, j1)"
    by (auto simp: js_selfdestruct_def evals)
  note f = load_account_exist_frame [OF l]
  have x1: "acct j1 a = Some x" by (rule f(3) [OF assms(2)])
  have bal1: "balance db j1 = balance db j" using f(1) by (simp add: balance_def fun_eq_iff)
  have balx: "balance db j a = get_balance (info x)" by (rule balance_loaded [OF assms(2)])
  note simps = js_selfdestruct_def l js_account_def evals Let_def f(2) destruction_takes_effect_def
    selfdestruct_flag balance_ops token_ledger.get_set_fun
  show ?thesis
  proof (cases "a = b")
    case True
    with assms(1) x1 balx bal1 show ?thesis by (auto simp: simps fun_eq_iff split: if_splits)
  next
    case False
    with assms(1) x1 obtain y y1 j2 where y: "acct j1 b = Some y" and t: "touch_account b y j1 = Val (y1, j2)"
      by (auto simp: simps)
    have sp: "spec j2 = spec j"
      using t f(2) by (auto simp: touch_account_def evals split: if_splits)
    have baly: "balance db j b = get_balance (info y1)"
      using balance_loaded [OF y, of db] touch_account_frame(1) [OF t] bal1 by simp
    have bal2: "balance db j2 = balance db j" using balance_touch [OF t, of db] bal1 by simp
    show ?thesis
      using assms(1) False x1 y t touch_account_frame(4,5) [OF t] sp
      by (auto simp: simps balx baly bal2 move_def fun_upd_twist split: if_splits)
  qed
qed

theorem selfdestruct_outcome_witness:
  "let j = (js_new CANCUN {})\<lparr>state := \<lparr>accounts = [3 \<mapsto> account_of_info (info_of_balances [0 \<mapsto> 10])],
             token_ids = []\<rparr>\<rparr>;
       db = two_holders 10 3
   in \<exists>res j'. js_selfdestruct db 3 2 j = Val (Inr res, j') \<and> sd_had_value res \<and>
        balance db j' 3 0 = 0 \<and> balance db j' 2 0 = 10"
proof -
  define j where "j = (js_new CANCUN {})\<lparr>state := \<lparr>accounts = [3 \<mapsto> account_of_info (info_of_balances [0 \<mapsto> 10])],
             token_ids = []\<rparr>\<rparr>"
  let ?db = "two_holders 10 3"
  have x: "acct j 3 = Some (account_of_info (info_of_balances [0 \<mapsto> 10]))" by (simp add: j_def acct_def)
  have "\<exists>res j'. js_selfdestruct ?db 3 2 j = Val (Inr res, j')"
    by (simp add: j_def run_simps js_selfdestruct_def js_load_account_exist_def enabled_def
        Created_def SelfDestructed_def balance_ops BASE_TOKEN_ID_def)
  then obtain res j' where r: "js_selfdestruct ?db 3 2 j = Val (Inr res, j')" by blast
  from selfdestruct_outcome [OF r x]
  have "sd_had_value res \<longleftrightarrow> balance ?db j 3 BASE_TOKEN_ID \<noteq> 0"
    and bal: "balance ?db j' = move 3 2 BASE_TOKEN_ID (balance ?db j 3 BASE_TOKEN_ID) (balance ?db j)"
    by simp_all
  then have "sd_had_value res" "balance ?db j' 3 0 = 0" "balance ?db j' 2 0 = 10"
    by (simp_all add: move_def BASE_TOKEN_ID_def j_def balance_def info_of_def acct_def get_balance_def
        account_of_info_def info_of_balances_def default_account_info_def)
  with r show ?thesis unfolding Let_def j_def by blast
qed

end
