(* ===== verification/Bytes_Parsing.thy ===== *)
theory Bytes_Parsing
  imports Prelude
begin

text \<open>
  The cursor functions of \<^verbatim>\<open>primitives/src/utilities.rs\<close>, module \<^verbatim>\<open>bytes_parsing\<close>: each takes the
  remaining input and returns the value read with the input that is left. They decode the ABI
  words of calls to the native token precompile; \<open>abi_word\<close> and \<open>abi_address\<close> are the inverse
  encodings, and the lemmas are the round trips.
\<close>

datatype bytes_parsing_error = BytesParsingInvalidInput

definition consume_bytes_from :: "bytes \<Rightarrow> nat \<Rightarrow> bytes_parsing_error + (bytes \<times> bytes)" where
  "consume_bytes_from input no_bytes =
     (if length input < no_bytes then Inl BytesParsingInvalidInput
      else Inr (take no_bytes input, drop no_bytes input))"

text \<open>\<^verbatim>\<open>consume_u8_from\<close> to \<^verbatim>\<open>consume_usize_from\<close> differ in the width only.\<close>

definition consume_be :: "bytes \<Rightarrow> bytes_parsing_error + ('a::len word \<times> bytes)" where
  "consume_be input =
     (case consume_bytes_from input (LENGTH('a) div 8) of
        Inl e \<Rightarrow> Inl e
      | Inr (bs, rest) \<Rightarrow> Inr (from_be_bytes bs, rest))"

definition consume_u8_from :: "bytes \<Rightarrow> bytes_parsing_error + (u8 \<times> bytes)" where
  "consume_u8_from input = consume_be input"

definition consume_u16_from :: "bytes \<Rightarrow> bytes_parsing_error + (u16 \<times> bytes)" where
  "consume_u16_from input = consume_be input"

definition consume_u32_from :: "bytes \<Rightarrow> bytes_parsing_error + (u32 \<times> bytes)" where
  "consume_u32_from input = consume_be input"

definition consume_u256_from :: "bytes \<Rightarrow> bytes_parsing_error + (u256 \<times> bytes)" where
  "consume_u256_from input = consume_be input"

definition consume_usize_from :: "bytes \<Rightarrow> bytes_parsing_error + (u64 \<times> bytes)" where
  "consume_usize_from input = consume_be input"

definition consume_word_from :: "bytes \<Rightarrow> bytes_parsing_error + (bytes \<times> bytes)" where
  "consume_word_from input = consume_bytes_from input 32"

text \<open>\<^verbatim>\<open>Address::from_word\<close>: the last 20 bytes of the word.\<close>

definition address_from_word :: "bytes \<Rightarrow> address" where
  "address_from_word word = from_be_bytes (drop 12 word)"

definition consume_address_from :: "bytes \<Rightarrow> bytes_parsing_error + (address \<times> bytes)" where
  "consume_address_from input =
     (case consume_word_from input of
        Inl e \<Rightarrow> Inl e
      | Inr (word, rest) \<Rightarrow> Inr (address_from_word word, rest))"

section \<open>Round trips\<close>

abbreviation abi_word :: "u256 \<Rightarrow> bytes" where
  "abi_word w \<equiv> to_be_bytes w"

definition abi_address :: "address \<Rightarrow> bytes" where
  "abi_address a = replicate 12 0 @ to_be_bytes a"

lemma length_abi_address [simp]: "length (abi_address a) = 32"
  by (simp add: abi_address_def)

lemma consume_bytes_append [simp]:
  "n = length bs \<Longrightarrow> consume_bytes_from (bs @ rest) n = Inr (bs, rest)"
  by (simp add: consume_bytes_from_def)

lemma consume_be_to_be:
  assumes "8 dvd LENGTH('a::len)"
  shows "consume_be (to_be_bytes (w :: 'a word) @ rest) = Inr (w, rest)"
  using assms by (simp add: consume_be_def from_to_be_bytes)

lemma consume_u256_abi [simp]: "consume_u256_from (abi_word w @ rest) = Inr (w, rest)"
  by (simp add: consume_u256_from_def consume_be_to_be)

lemma consume_u256_abi_end [simp]: "consume_u256_from (abi_word w) = Inr (w, [])"
  using consume_u256_abi [of w "[]"] by simp

lemma consume_u32_be [simp]: "consume_u32_from (to_be_bytes w @ rest) = Inr (w, rest)"
  by (simp add: consume_u32_from_def consume_be_to_be)

lemma consume_address_abi [simp]: "consume_address_from (abi_address a @ rest) = Inr (a, rest)"
proof -
  have "consume_word_from (abi_address a @ rest) = Inr (abi_address a, rest)"
    unfolding consume_word_from_def by (rule consume_bytes_append) simp
  then show ?thesis
    by (simp add: consume_address_from_def address_from_word_def abi_address_def from_to_be_bytes)
qed

text \<open>What is read and what is left make up the input.\<close>

lemma consume_bytes_from_Inr_iff:
  "consume_bytes_from input n = Inr (bs, rest) \<longleftrightarrow> input = bs @ rest \<and> length bs = n"
  by (auto simp: consume_bytes_from_def)

lemma consume_u256_from_Inr_iff:
  "consume_u256_from input = Inr (w, rest) \<longleftrightarrow> input = abi_word w @ rest"
proof
  assume "consume_u256_from input = Inr (w, rest)"
  then obtain bs where "consume_bytes_from input 32 = Inr (bs, rest)" "w = from_be_bytes bs"
    by (auto simp: consume_u256_from_def consume_be_def split: sum.splits)
  then show "input = abi_word w @ rest"
    by (auto simp: consume_bytes_from_Inr_iff to_from_be_bytes)
qed simp

lemma consume_u256_from_Inl_iff:
  "consume_u256_from input = Inl e \<longleftrightarrow> length input < 32"
  by (cases e) (auto simp: consume_u256_from_def consume_be_def consume_bytes_from_def)

lemma consume_address_from_Inl_iff:
  "consume_address_from input = Inl e \<longleftrightarrow> length input < 32"
  by (cases e) (auto simp: consume_address_from_def consume_word_from_def consume_bytes_from_def)

end
