(* ===== verification/Call_Inputs.thy ===== *)
theory Call_Inputs
  imports Journal
begin

text \<open>
  The inputs of a call, from \<^verbatim>\<open>interpreter/src/interpreter_action/call_inputs.rs\<close>. A memory range
  \<^verbatim>\<open>start..end\<close> is a pair of naturals.
\<close>

datatype call_scheme = SchemeCall | SchemeCallCode | SchemeDelegateCall | SchemeStaticCall

datatype call_values =
    Transfer "token_transfer list"
  | Apparent "token_transfer list"

definition default_call_values :: call_values where
  "default_call_values = Transfer [\<lparr>tt_id = BASE_TOKEN_ID, tt_amount = 0\<rparr>]"

text \<open>\<^verbatim>\<open>CallValues::get\<close>, \<^verbatim>\<open>transfer\<close>, \<^verbatim>\<open>apparent\<close> and the two tests.\<close>

fun values_get :: "call_values \<Rightarrow> token_transfer list" where
  "values_get (Transfer values) = values"
| "values_get (Apparent values) = values"

fun values_transfer :: "call_values \<Rightarrow> token_transfer list" where
  "values_transfer (Transfer values) = values"
| "values_transfer (Apparent values) = []"

fun values_apparent :: "call_values \<Rightarrow> token_transfer list" where
  "values_apparent (Transfer values) = []"
| "values_apparent (Apparent values) = values"

fun is_transfer :: "call_values \<Rightarrow> bool" where
  "is_transfer (Transfer _) = True"
| "is_transfer (Apparent _) = False"

fun is_apparent :: "call_values \<Rightarrow> bool" where
  "is_apparent (Transfer _) = False"
| "is_apparent (Apparent _) = True"

record call_inputs =
  ci_input :: bytes
  ci_return_memory_offset :: "nat \<times> nat"
  ci_gas_limit :: u64
  ci_bytecode_address :: address
  ci_target_address :: address
  ci_caller :: address
  ci_values :: call_values
  ci_scheme :: call_scheme
  ci_is_static :: bool
  ci_is_eof :: bool

definition transfers_value :: "call_inputs \<Rightarrow> bool" where
  "transfers_value i \<longleftrightarrow> list_ex (\<lambda>x. 0 < tt_amount x) (values_transfer (ci_values i))"

definition transfer_value :: "call_inputs \<Rightarrow> token_transfer list" where
  "transfer_value i = values_transfer (ci_values i)"

definition apparent_value :: "call_inputs \<Rightarrow> token_transfer list" where
  "apparent_value i = values_apparent (ci_values i)"

definition transfer_from :: "call_inputs \<Rightarrow> address" where
  "transfer_from i = ci_caller i"

definition transfer_to :: "call_inputs \<Rightarrow> address" where
  "transfer_to i = ci_target_address i"

definition ci_call_values :: "call_inputs \<Rightarrow> token_transfer list" where
  "ci_call_values i = values_get (ci_values i)"

text \<open>Exactly one of the two views of the values is empty, and together they are the values.\<close>

lemma values_views: "values_get v = values_transfer v @ values_apparent v"
  by (cases v) auto

lemma transfers_value_apparent: "is_apparent (ci_values i) \<Longrightarrow> \<not> transfers_value i"
  by (cases "ci_values i") (auto simp: transfers_value_def)

end
