(* ===== verification/Native_Tokens.thy ===== *)
theory Native_Tokens
  imports Token_Flow Bytes_Parsing Call_Inputs
begin

text \<open>
  The native token precompile of \<^verbatim>\<open>crates/revm/src/sablier/native_tokens.rs\<close>, with the precompile
  result types of \<^verbatim>\<open>primitives/src/precompile.rs\<close> and the context queries of
  \<^verbatim>\<open>inner_evm_context.rs\<close> it uses. A handler takes the journaled state and returns it with a
  \<open>Result\<close>; slicing off the 28-byte prefix of the call data panics when the data is shorter.
\<close>

section \<open>Results\<close>

datatype precompile_error =
    PE_OutOfGas
  | PE_Blake2WrongLength
  | PE_Blake2WrongFinalIndicatorFlag
  | PE_ModexpExpOverflow
  | PE_ModexpBaseOverflow
  | PE_ModexpModOverflow
  | PE_Bn128FieldPointNotAMember
  | PE_Bn128AffineGFailedToCreate
  | PE_Bn128PairLength
  | PE_BlobInvalidInputLength
  | PE_BlobMismatchedVersion
  | PE_BlobVerifyKzgProofFailed
  | PE_InvalidInput
  | PE_UnauthorizedCaller
  | PE_AttemptedStateChangeDuringStaticCall
  | PE_Other string

record result_info =
  gas_used :: u64
  returned_bytes :: bytes

record primitive_call_info =
  pci_target_address :: address
  pci_token_transfers :: "token_transfer list"
  pci_input_data :: bytes

datatype result_or_new_call = Result result_info | Call primitive_call_info

type_synonym precompile_result = "precompile_error + result_or_new_call"
type_synonym precompile_run = "(precompile_result \<times> journaled_state) eval"

section \<open>Context queries\<close>

text \<open>\<^verbatim>\<open>InnerEvmContext::balance\<close> and \<^verbatim>\<open>InnerEvmContext::code\<close>.\<close>

definition ctx_balance ::
  "'e database \<Rightarrow> u256 \<Rightarrow> address \<Rightarrow> journaled_state \<Rightarrow>
     (('e evm_error + (u256 \<times> bool)) \<times> journaled_state) eval" where
  "ctx_balance db token_id a j =
     tryE (js_load_account db a j) (\<lambda>(acc, is_cold) j.
       Val (Inr (get_balance (info acc) token_id, is_cold), j))"

definition ctx_code ::
  "'e database \<Rightarrow> address \<Rightarrow> journaled_state \<Rightarrow>
     (('e evm_error + (bytecode \<times> bool)) \<times> journaled_state) eval" where
  "ctx_code db a j =
     tryE (js_load_code db a j) (\<lambda>(acc, is_cold) j.
       bindE (unwrap (code (info acc))) (\<lambda>c. Val (Inr (c, is_cold), j)))"

definition is_address_eoa ::
  "'e database \<Rightarrow> address \<Rightarrow> journaled_state \<Rightarrow> (('e evm_error + bool) \<times> journaled_state) eval" where
  "is_address_eoa db a j =
     tryE (ctx_code db a j) (\<lambda>(c, _) j. Val (Inr (bytecode_is_empty c), j))"

section \<open>Constants\<close>

definition u64_to_prefixed_address :: "u64 \<Rightarrow> address" where
  "u64_to_prefixed_address x = from_be_bytes ([112, 96] @ replicate 10 0 @ to_be_bytes x)"

definition NATIVE_TOKENS_ADDRESS :: address where
  "NATIVE_TOKENS_ADDRESS = u64_to_prefixed_address 1"

definition BASE_GAS_COST :: u64 where "BASE_GAS_COST = 15"

definition BALANCEOF_SELECTOR :: u32 where "BALANCEOF_SELECTOR = 0x00fdd58e"
definition BURN_SELECTOR :: u32 where "BURN_SELECTOR = 0x9eea5f66"
definition GET_CALL_VALUES_SELECTOR :: u32 where "GET_CALL_VALUES_SELECTOR = 0x6141a8b9"
definition MINT_SELECTOR :: u32 where "MINT_SELECTOR = 0x836a1040"
definition TRANSFER_AND_CALL_SELECTOR :: u32 where "TRANSFER_AND_CALL_SELECTOR = 0xd1c673e9"
definition TRANSFER_MULTIPLE_SELECTOR :: u32 where "TRANSFER_MULTIPLE_SELECTOR = 0x99583417"
definition TRANSFER_MULTIPLE_AND_CALL_SELECTOR :: u32 where
  "TRANSFER_MULTIPLE_AND_CALL_SELECTOR = 0x822bbe4c"
definition TRANSFER_SELECTOR :: u32 where "TRANSFER_SELECTOR = 0x095bcdb6"

lemmas selector_defs =
  BALANCEOF_SELECTOR_def BURN_SELECTOR_def GET_CALL_VALUES_SELECTOR_def MINT_SELECTOR_def
  TRANSFER_AND_CALL_SELECTOR_def TRANSFER_MULTIPLE_SELECTOR_def
  TRANSFER_MULTIPLE_AND_CALL_SELECTOR_def TRANSFER_SELECTOR_def

section \<open>Reading the input\<close>

text \<open>\<^verbatim>\<open>.map_err(|_| Error::InvalidInput)?\<close> on a read.\<close>

fun parse :: "bytes_parsing_error + 'a \<Rightarrow> journaled_state \<Rightarrow>
    ((precompile_error + 'a) \<times> journaled_state) eval" where
  "parse (Inl _) j = Val (Inl PE_InvalidInput, j)"
| "parse (Inr x) j = Val (Inr x, j)"

text \<open>\<^verbatim>\<open>map_err\<close> to a given error on a query of the context.\<close>

fun map_err :: "precompile_error \<Rightarrow> (('e evm_error + 'a) \<times> journaled_state) eval \<Rightarrow>
    ((precompile_error + 'a) \<times> journaled_state) eval" where
  "map_err e Panic = Panic"
| "map_err e (Val (Inl _, j)) = Val (Inl e, j)"
| "map_err e (Val (Inr x, j)) = Val (Inr x, j)"

text \<open>The check shared by the state-changing functions: no static call, and a contract calls.\<close>

definition authorize ::
  "'e database \<Rightarrow> call_inputs \<Rightarrow> journaled_state \<Rightarrow> ((precompile_error + unit) \<times> journaled_state) eval" where
  "authorize db inputs j =
     (if ci_is_static inputs then Val (Inl PE_AttemptedStateChangeDuringStaticCall, j)
      else tryE (map_err PE_UnauthorizedCaller (is_address_eoa db (ci_target_address inputs) j)) (\<lambda>eoa j.
        if eoa then Val (Inl PE_UnauthorizedCaller, j) else Val (Inr (), j)))"

text \<open>Reading a given number of words; \<^verbatim>\<open>try_into().unwrap_or_default()\<close> from a word to \<^verbatim>\<open>usize\<close>.\<close>

fun consume_words :: "nat \<Rightarrow> bytes \<Rightarrow> bytes_parsing_error + (u256 list \<times> bytes)" where
  "consume_words 0 input = Inr ([], input)"
| "consume_words (Suc n) input =
     (case consume_u256_from input of
        Inl e \<Rightarrow> Inl e
      | Inr (w, input) \<Rightarrow>
          (case consume_words n input of
             Inl e \<Rightarrow> Inl e
           | Inr (ws, input) \<Rightarrow> Inr (w # ws, input)))"

definition usize_or_default :: "u256 \<Rightarrow> nat" where
  "usize_or_default w = (if unat w < 2 ^ 64 then unat w else 0)"

text \<open>\<^verbatim>\<open>u64::from_be_bytes\<close> of the last eight bytes of a word.\<close>

definition last_64_bits :: "u256 \<Rightarrow> u64" where
  "last_64_bits w = from_be_bytes (drop 24 (to_be_bytes w))"

text \<open>\<^verbatim>\<open>Vec::with_capacity\<close> of 64-byte elements panics when the size exceeds \<^verbatim>\<open>isize::MAX\<close>.\<close>

definition with_capacity :: "nat \<Rightarrow> unit eval" where
  "with_capacity n = (if n * 64 < 2 ^ 63 then Val () else Panic)"

text \<open>\<^verbatim>\<open>calldata[28..]\<close>: the function selector stands at the end of the first word.\<close>

definition strip_prefix :: "bytes \<Rightarrow> bytes eval" where
  "strip_prefix calldata = (if length calldata < 28 then Panic else Val (drop 28 calldata))"

section \<open>Functions\<close>

definition nt_balance_of :: "'e database \<Rightarrow> u64 \<Rightarrow> bytes \<Rightarrow> journaled_state \<Rightarrow> precompile_run" where
  "nt_balance_of db gas input j =
     tryE (parse (consume_address_from input) j) (\<lambda>(a, input) j.
     tryE (parse (consume_u256_from input) j) (\<lambda>(token_id, input) j.
     if input \<noteq> [] then Val (Inl PE_InvalidInput, j)
     else tryE (map_err PE_InvalidInput (ctx_balance db token_id a j)) (\<lambda>(b, _) j.
       Val (Inr (Result \<lparr>gas_used = gas, returned_bytes = to_be_bytes b\<rparr>), j))))"

definition nt_mint :: "keccak \<Rightarrow> 'e database \<Rightarrow> call_inputs \<Rightarrow> u64 \<Rightarrow> bytes \<Rightarrow> journaled_state \<Rightarrow> precompile_run" where
  "nt_mint keccak256 db inputs gas input j =
     tryE (authorize db inputs j) (\<lambda>_ j.
     tryE (parse (consume_u256_from input) j) (\<lambda>(sub_id, input) j.
     tryE (parse (consume_address_from input) j) (\<lambda>(recipient, input) j.
     tryE (parse (consume_u256_from input) j) (\<lambda>(amount, input) j.
     if input \<noteq> [] then Val (Inl PE_InvalidInput, j)
     else bindE (js_mint keccak256 db (ci_target_address inputs) recipient sub_id amount j) (\<lambda>(ok, j).
       if ok then Val (Inr (Result \<lparr>gas_used = gas, returned_bytes = []\<rparr>), j)
       else Val (Inl (PE_Other ''Mint failed''), j))))))"

definition nt_burn :: "keccak \<Rightarrow> 'e database \<Rightarrow> call_inputs \<Rightarrow> u64 \<Rightarrow> bytes \<Rightarrow> journaled_state \<Rightarrow> precompile_run" where
  "nt_burn keccak256 db inputs gas input j =
     tryE (authorize db inputs j) (\<lambda>_ j.
     tryE (parse (consume_u256_from input) j) (\<lambda>(sub_id, input) j.
     tryE (parse (consume_address_from input) j) (\<lambda>(token_holder, input) j.
     tryE (parse (consume_u256_from input) j) (\<lambda>(amount, input) j.
     if input \<noteq> [] then Val (Inl PE_InvalidInput, j)
     else bindE (js_burn keccak256 db (ci_target_address inputs) sub_id token_holder amount j) (\<lambda>(ok, j).
       if ok then Val (Inr (Result \<lparr>gas_used = gas, returned_bytes = []\<rparr>), j)
       else Val (Inl (PE_Other ''Burn failed''), j))))))"

text \<open>\<^verbatim>\<open>transfer(..).is_ok()\<close>: only a database error is a failure.\<close>

definition run_transfer ::
  "'e database \<Rightarrow> address \<Rightarrow> address \<Rightarrow> token_transfer list \<Rightarrow> u64 \<Rightarrow> journaled_state \<Rightarrow> precompile_run" where
  "run_transfer db sender recipient transfers gas j =
     bindE (js_transfer db sender recipient transfers j) (\<lambda>(r, j).
       case r of
         Inr _ \<Rightarrow> Val (Inr (Result \<lparr>gas_used = gas, returned_bytes = []\<rparr>), j)
       | Inl _ \<Rightarrow> Val (Inl (PE_Other ''Transfer failed''), j))"

definition nt_transfer :: "'e database \<Rightarrow> call_inputs \<Rightarrow> u64 \<Rightarrow> bytes \<Rightarrow> journaled_state \<Rightarrow> precompile_run" where
  "nt_transfer db inputs gas input j =
     tryE (authorize db inputs j) (\<lambda>_ j.
     tryE (parse (consume_address_from input) j) (\<lambda>(recipient, input) j.
     tryE (parse (consume_u256_from input) j) (\<lambda>(token_id, input) j.
     tryE (parse (consume_u256_from input) j) (\<lambda>(amount, input) j.
     if input \<noteq> [] then Val (Inl PE_InvalidInput, j)
     else run_transfer db (ci_target_address inputs) recipient
            [\<lparr>tt_id = token_id, tt_amount = amount\<rparr>] gas j))))"

definition nt_transfer_and_call :: "'e database \<Rightarrow> call_inputs \<Rightarrow> bytes \<Rightarrow> journaled_state \<Rightarrow> precompile_run" where
  "nt_transfer_and_call db inputs input j =
     tryE (authorize db inputs j) (\<lambda>_ j.
     tryE (parse (consume_address_from input) j) (\<lambda>(callee, input) j.
     tryE (map_err PE_InvalidInput (is_address_eoa db callee j)) (\<lambda>eoa j.
     if eoa then Val (Inl PE_InvalidInput, j) else
     tryE (parse (consume_u256_from input) j) (\<lambda>(token_id, input) j.
     tryE (parse (consume_u256_from input) j) (\<lambda>(amount, input) j.
     tryE (parse (consume_u256_from input) j) (\<lambda>(_, input) j.
     tryE (parse (consume_u256_from input) j) (\<lambda>(calldata_size, input) j.
     tryE (parse (consume_bytes_from input (usize_or_default calldata_size)) j) (\<lambda>(calldata, input) j.
     if input \<noteq> [] then Val (Inl PE_InvalidInput, j)
     else bindE (strip_prefix calldata) (\<lambda>calldata.
       Val (Inr (Call \<lparr>pci_target_address = callee,
                      pci_token_transfers = [\<lparr>tt_id = token_id, tt_amount = amount\<rparr>],
                      pci_input_data = calldata\<rparr>), j))))))))))"

definition nt_transfer_multiple :: "'e database \<Rightarrow> call_inputs \<Rightarrow> u64 \<Rightarrow> bytes \<Rightarrow> journaled_state \<Rightarrow> precompile_run" where
  "nt_transfer_multiple db inputs gas input j =
     tryE (authorize db inputs j) (\<lambda>_ j.
     tryE (parse (consume_address_from input) j) (\<lambda>(recipient, input) j.
     tryE (parse (consume_u256_from input) j) (\<lambda>(_, input) j.
     tryE (parse (consume_u256_from input) j) (\<lambda>(_, input) j.
     tryE (parse (consume_u256_from input) j) (\<lambda>(token_ids_len, input) j.
     tryE (parse (consume_words (unat (last_64_bits token_ids_len)) input) j) (\<lambda>(ids, input) j.
     if \<not> distinct ids then Val (Inl PE_InvalidInput, j) else
     tryE (parse (consume_u256_from input) j) (\<lambda>(transfer_amounts_len, input) j.
     if token_ids_len \<noteq> transfer_amounts_len then Val (Inl PE_InvalidInput, j) else
     tryE (parse (consume_words (unat (last_64_bits transfer_amounts_len)) input) j) (\<lambda>(amounts, input) j.
     if input \<noteq> [] then Val (Inl PE_InvalidInput, j)
     else run_transfer db (ci_target_address inputs) recipient
            (map (\<lambda>(i, amount). \<lparr>tt_id = i, tt_amount = amount\<rparr>) (zip ids amounts)) gas j))))))))"

definition nt_transfer_multiple_and_call ::
  "'e database \<Rightarrow> call_inputs \<Rightarrow> bytes \<Rightarrow> journaled_state \<Rightarrow> precompile_run" where
  "nt_transfer_multiple_and_call db inputs input j =
     tryE (authorize db inputs j) (\<lambda>_ j.
     tryE (parse (consume_address_from input) j) (\<lambda>(callee, input) j.
     tryE (map_err PE_InvalidInput (is_address_eoa db callee j)) (\<lambda>eoa j.
     if eoa then Val (Inl PE_InvalidInput, j) else
     tryE (parse (consume_u256_from input) j) (\<lambda>(_, input) j.
     tryE (parse (consume_u256_from input) j) (\<lambda>(_, input) j.
     tryE (parse (consume_u256_from input) j) (\<lambda>(_, input) j.
     tryE (parse (consume_u256_from input) j) (\<lambda>(token_ids_len, input) j.
     bindE (with_capacity (usize_or_default token_ids_len)) (\<lambda>_.
     tryE (parse (consume_words (usize_or_default token_ids_len) input) j) (\<lambda>(ids, input) j.
     if \<not> distinct ids then Val (Inl PE_InvalidInput, j) else
     tryE (parse (consume_u256_from input) j) (\<lambda>(transfer_amounts_len, input) j.
     if token_ids_len \<noteq> transfer_amounts_len then Val (Inl PE_InvalidInput, j) else
     tryE (parse (consume_words (length ids) input) j) (\<lambda>(amounts, input) j.
     tryE (parse (consume_u256_from input) j) (\<lambda>(calldata_size, input) j.
     tryE (parse (consume_bytes_from input (usize_or_default calldata_size)) j) (\<lambda>(calldata, input) j.
     if input \<noteq> [] then Val (Inl PE_InvalidInput, j)
     else bindE (strip_prefix calldata) (\<lambda>calldata.
       Val (Inr (Call \<lparr>pci_target_address = callee,
                      pci_token_transfers =
                        map (\<lambda>(i, amount). \<lparr>tt_id = i, tt_amount = amount\<rparr>) (zip ids amounts),
                      pci_input_data = calldata\<rparr>), j)))))))))))))))"

definition nt_get_call_values :: "'e database \<Rightarrow> call_inputs \<Rightarrow> u64 \<Rightarrow> journaled_state \<Rightarrow> precompile_run" where
  "nt_get_call_values db inputs gas j =
     tryE (authorize db inputs j) (\<lambda>_ j.
       let token_ids_offset = 64;
           token_ids_len = of_nat (length (ci_call_values inputs));
           evm_word_size = 32;
           transfer_amounts_offset = token_ids_offset + evm_word_size + token_ids_len * evm_word_size;
           data = abi_word token_ids_offset @ abi_word transfer_amounts_offset @
             abi_word token_ids_len @ concat (map (\<lambda>t. abi_word (tt_id t)) (ci_call_values inputs)) @
             abi_word token_ids_len @ concat (map (\<lambda>t. abi_word (tt_amount t)) (ci_call_values inputs))
       in Val (Inr (Result \<lparr>gas_used = gas, returned_bytes = data\<rparr>), j))"

section \<open>Dispatch\<close>

definition nt_call_mut :: "keccak \<Rightarrow> 'e database \<Rightarrow> call_inputs \<Rightarrow> u64 \<Rightarrow> journaled_state \<Rightarrow> precompile_run" where
  "nt_call_mut keccak256 db inputs gas_limit j =
     (let gas = BASE_GAS_COST in
      if gas > gas_limit then Val (Inl PE_OutOfGas, j)
      else tryE (parse (consume_u32_from (ci_input inputs)) j) (\<lambda>(selector, input) j.
        if selector = BALANCEOF_SELECTOR then nt_balance_of db gas input j
        else if selector = BURN_SELECTOR then nt_burn keccak256 db inputs gas input j
        else if selector = GET_CALL_VALUES_SELECTOR then nt_get_call_values db inputs gas j
        else if selector = MINT_SELECTOR then nt_mint keccak256 db inputs gas input j
        else if selector = TRANSFER_AND_CALL_SELECTOR then nt_transfer_and_call db inputs input j
        else if selector = TRANSFER_MULTIPLE_AND_CALL_SELECTOR then nt_transfer_multiple_and_call db inputs input j
        else if selector = TRANSFER_MULTIPLE_SELECTOR then nt_transfer_multiple db inputs gas input j
        else if selector = TRANSFER_SELECTOR then nt_transfer db inputs gas input j
        else Val (Inl PE_InvalidInput, j)))"

section \<open>Frame facts\<close>

lemma parse_Val_iff [simp]:
  "parse m j = Val (Inr x, j') \<longleftrightarrow> m = Inr x \<and> j' = j"
  "parse m j = Val (Inl e, j') \<longleftrightarrow> (\<exists>d. m = Inl d) \<and> e = PE_InvalidInput \<and> j' = j"
  by (cases m; auto)+

lemma parse_not_Panic [simp]: "parse m j \<noteq> Panic"
  by (cases m) auto

lemma map_err_Val_iff [simp]:
  "map_err e m = Val (Inr x, j') \<longleftrightarrow> m = Val (Inr x, j')"
  "map_err e m = Val (Inl d, j') \<longleftrightarrow> d = e \<and> (\<exists>x. m = Val (Inl x, j'))"
  by (induction e m rule: map_err.induct; auto)+

lemma load_account_balance: "js_load_account db a j = Val (r, j') \<Longrightarrow> balance db j' = balance db j"
  by (simp add: balance_def fun_eq_iff load_account_info_of)

lemma load_code_balance:
  assumes "js_load_code db a j = Val (r, j')"
  shows "balance db j' = balance db j"
proof (cases "js_load_account db a j" rule: result_cases)
  case panic
  with assms show ?thesis by (simp add: js_load_code_def)
next
  case (err e s)
  with assms load_account_balance [OF err] show ?thesis by (simp add: js_load_code_def)
next
  case (ok p j1)
  obtain x c where p: "p = (x, c)" by (cases p)
  have "j' = j1 \<or> (\<exists>c. j' = put_account a (x\<lparr>info := (info x)\<lparr>code := c\<rparr>\<rparr>) j1)"
    using assms ok p
    by (cases r) (auto simp: js_load_code_def evals Let_def split: if_splits)
  with load_account_balance [OF ok] balance_loaded [OF load_account_loaded [OF ok [unfolded p]], of db]
  show ?thesis by auto
qed

text \<open>After \<^verbatim>\<open>load_code\<close> the code is there, so the \<^verbatim>\<open>unwrap\<close> in \<^verbatim>\<open>code\<close> does not panic.\<close>

lemma load_code_filled: "js_load_code db a j = Val (Inr (x, c), j') \<Longrightarrow> code (info x) \<noteq> None"
  by (auto simp: js_load_code_def evals Let_def split: if_splits
      dest!: arg_cong [where f = "\<lambda>x. code (info x)"])

lemma ctx_code_total: "js_load_code db a j \<noteq> Panic \<Longrightarrow> ctx_code db a j \<noteq> Panic"
  using load_code_filled
  by (fastforce simp: ctx_code_def evals)

lemma is_address_eoa_balance:
  "is_address_eoa db a j = Val (r, j') \<Longrightarrow> balance db j' = balance db j"
  by (cases r) (auto simp: is_address_eoa_def ctx_code_def evals load_code_balance)

lemma is_address_eoa_extends:
  assumes "journal j \<noteq> []" and "is_address_eoa db a j = Val (r, j')"
  shows "extends j j'"
  using assms(2)
  by (cases r) (auto simp: is_address_eoa_def ctx_code_def evals intro: extends_load_code [OF assms(1)])

lemma authorize_cases:
  assumes "authorize db inputs j = Val (r, j')"
  shows "balance db j' = balance db j \<and> (journal j \<noteq> [] \<longrightarrow> extends j j') \<and>
     (case r of
        Inl e \<Rightarrow> e = (if ci_is_static inputs then PE_AttemptedStateChangeDuringStaticCall else PE_UnauthorizedCaller)
      | Inr _ \<Rightarrow> \<not> ci_is_static inputs \<and>
          is_address_eoa db (ci_target_address inputs) j = Val (Inr False, j'))"
  using assms is_address_eoa_balance is_address_eoa_extends
  by (cases r) (auto simp: authorize_def evals extends_refl split: if_splits)

lemma consume_words_abi: "consume_words (length ws) (concat (map abi_word ws) @ rest) = Inr (ws, rest)"
  by (induction ws) simp_all

lemma length_abi_words: "length (concat (map (\<lambda>t. abi_word (f t)) ts)) = 32 * length ts"
  by (induction ts) simp_all

lemma consume_words_Inr:
  "consume_words n input = Inr (ws, rest) \<Longrightarrow> length ws = n \<and> input = concat (map abi_word ws) @ rest"
  by (induction n arbitrary: input ws)
    (auto simp: consume_u256_from_Inr_iff split: sum.splits)

lemma drop_nat_be: "m \<le> n \<Longrightarrow> drop (n - m) (nat_be n v) = nat_be m v"
proof (induction n arbitrary: m v)
  case (Suc n)
  show ?case
  proof (cases m)
    case 0
    then show ?thesis by simp
  next
    case (Suc k)
    with Suc.IH [of k "v div 256"] Suc.prems show ?thesis by simp
  qed
qed simp

lemma last_64_bits_small:
  assumes "n < 2 ^ 64"
  shows "unat (last_64_bits (of_nat n)) = n"
proof -
  have "unat (of_nat n :: u256) = n" using assms by (simp add: unat_of_nat take_bit_nat_eq_self)
  then have "to_be_bytes (of_nat n :: u256) = nat_be 32 n" by (simp add: to_be_bytes_def)
  then have "drop 24 (to_be_bytes (of_nat n :: u256)) = nat_be 8 n"
    using drop_nat_be [of 8 32 n] by simp
  then show ?thesis
    using assms by (simp add: last_64_bits_def from_be_bytes_def be_nat_nat_be unat_of_nat take_bit_nat_eq_self)
qed

text \<open>Every function but the balance query starts with the authorization.\<close>

lemma call_mut_authorizes:
  assumes "BASE_GAS_COST \<le> gas_limit" and "consume_u32_from (ci_input inputs) = Inr (sel, input)"
    and "sel \<noteq> BALANCEOF_SELECTOR"
  shows "nt_call_mut keccak256 db inputs gas_limit j = Val (Inl PE_InvalidInput, j) \<or>
     (\<exists>f. nt_call_mut keccak256 db inputs gas_limit j = tryE (authorize db inputs j) f)"
  using assms
  by (auto simp: nt_call_mut_def Let_def not_less [symmetric] nt_burn_def nt_mint_def nt_get_call_values_def
      nt_transfer_and_call_def nt_transfer_multiple_and_call_def nt_transfer_multiple_def nt_transfer_def)

lemma call_mut_out_of_gas:
  "gas_limit < BASE_GAS_COST \<Longrightarrow> nt_call_mut keccak256 db inputs gas_limit j = Val (Inl PE_OutOfGas, j)"
  by (simp add: nt_call_mut_def)

lemma call_mut_short:
  "BASE_GAS_COST \<le> gas_limit \<Longrightarrow> consume_u32_from (ci_input inputs) = Inl e \<Longrightarrow>
   nt_call_mut keccak256 db inputs gas_limit j = Val (Inl PE_InvalidInput, j)"
  by (simp add: nt_call_mut_def not_less [symmetric])

lemma call_mut_balance_of:
  "BASE_GAS_COST \<le> gas_limit \<Longrightarrow> consume_u32_from (ci_input inputs) = Inr (BALANCEOF_SELECTOR, input) \<Longrightarrow>
   nt_call_mut keccak256 db inputs gas_limit j = nt_balance_of db BASE_GAS_COST input j"
  by (simp add: nt_call_mut_def not_less [symmetric])

lemma call_mut_get_call_values:
  "BASE_GAS_COST \<le> gas_limit \<Longrightarrow> consume_u32_from (ci_input inputs) = Inr (GET_CALL_VALUES_SELECTOR, input) \<Longrightarrow>
   nt_call_mut keccak256 db inputs gas_limit j = nt_get_call_values db inputs BASE_GAS_COST j"
  by (simp add: nt_call_mut_def not_less [symmetric] selector_defs)

section \<open>ABI encodings of the calls\<close>

text \<open>The call data a client sends, as Solidity encodes it.\<close>

definition enc_transfer :: "address \<Rightarrow> u256 \<Rightarrow> u256 \<Rightarrow> bytes" where
  "enc_transfer r i v = to_be_bytes TRANSFER_SELECTOR @ abi_address r @ abi_word i @ abi_word v"

definition enc_mint :: "u256 \<Rightarrow> address \<Rightarrow> u256 \<Rightarrow> bytes" where
  "enc_mint sub_id r v = to_be_bytes MINT_SELECTOR @ abi_word sub_id @ abi_address r @ abi_word v"

definition enc_burn :: "u256 \<Rightarrow> address \<Rightarrow> u256 \<Rightarrow> bytes" where
  "enc_burn sub_id h v = to_be_bytes BURN_SELECTOR @ abi_word sub_id @ abi_address h @ abi_word v"

definition enc_balance_of :: "address \<Rightarrow> u256 \<Rightarrow> bytes" where
  "enc_balance_of a i = to_be_bytes BALANCEOF_SELECTOR @ abi_address a @ abi_word i"

text \<open>A dynamic array of words: its length, then its elements.\<close>

definition abi_array :: "u256 list \<Rightarrow> bytes" where
  "abi_array ws = abi_word (of_nat (length ws)) @ concat (map abi_word ws)"

definition enc_transfer_multiple :: "address \<Rightarrow> token_transfer list \<Rightarrow> bytes" where
  "enc_transfer_multiple r ts =
     to_be_bytes TRANSFER_MULTIPLE_SELECTOR @ abi_address r @ abi_word 96 @
     abi_word (of_nat (128 + 32 * length ts)) @
     abi_array (map tt_id ts) @ abi_array (map tt_amount ts)"

definition enc_transfer_and_call :: "address \<Rightarrow> u256 \<Rightarrow> u256 \<Rightarrow> bytes \<Rightarrow> bytes" where
  "enc_transfer_and_call r i v data =
     to_be_bytes TRANSFER_AND_CALL_SELECTOR @ abi_address r @ abi_word i @ abi_word v @ abi_word 128 @
     abi_word (of_nat (length data)) @ data"

lemmas encodings =
  enc_transfer_def enc_mint_def enc_burn_def enc_balance_of_def abi_array_def enc_transfer_multiple_def

lemma consume_words_abi_end: "consume_words (length ws) (concat (map abi_word ws)) = Inr (ws, [])"
  using consume_words_abi [of ws "[]"] by simp

lemma zip_transfers: "map (\<lambda>(i, v). \<lparr>tt_id = i, tt_amount = v\<rparr>) (zip (map tt_id ts) (map tt_amount ts)) = ts"
  by (induction ts) simp_all

lemma nt_transfer_multiple_decodes:
  assumes "length ts < 2 ^ 64" and "distinct (map tt_id ts)" and "authorize db inputs j = Val (Inr (), j1)"
  shows "nt_transfer_multiple db inputs gas (abi_address r @ abi_word o1 @ abi_word o2 @
      abi_array (map tt_id ts) @ abi_array (map tt_amount ts)) j =
    run_transfer db (ci_target_address inputs) r ts gas j1"
proof -
  have len: "unat (last_64_bits (of_nat (length ts))) = length ts" by (rule last_64_bits_small [OF assms(1)])
  have ids: "consume_words (length ts) (concat (map (\<lambda>t. abi_word (tt_id t)) ts) @ rest) = Inr (map tt_id ts, rest)" for rest
    using consume_words_abi [of "map tt_id ts" rest] by (simp add: comp_def)
  have amounts: "consume_words (length ts) (concat (map (\<lambda>t. abi_word (tt_amount t)) ts)) = Inr (map tt_amount ts, [])"
    using consume_words_abi_end [of "map tt_amount ts"] by (simp add: comp_def)
  show ?thesis
    using assms(2,3)
    by (simp add: nt_transfer_multiple_def abi_array_def len ids amounts zip_transfers comp_def)
qed

section \<open>A concrete contract\<close>

text \<open>The account 1 of \<open>two_holders\<close> with code, and a call from it with 100 gas.\<close>

definition holder_contract_db :: "unit database" where
  "holder_contract_db = (two_holders 10 3)\<lparr>basic := (\<lambda>a. Inr (if a = 1
       then Some ((info_of_balances [5 \<mapsto> 10])\<lparr>code_hash := 1, code := Some (bytecode_new_raw [0])\<rparr>)
       else if a = 2 then Some (info_of_balances [5 \<mapsto> 3]) else None))\<rparr>"

definition contract_call :: "bytes \<Rightarrow> bool \<Rightarrow> call_inputs" where
  "contract_call input static =
     \<lparr>ci_input = input, ci_return_memory_offset = (0, 0), ci_gas_limit = 100,
      ci_bytecode_address = NATIVE_TOKENS_ADDRESS, ci_target_address = 1, ci_caller = 9,
      ci_values = Transfer [\<lparr>tt_id = 5, tt_amount = 2\<rparr>], ci_scheme = SchemeDelegateCall,
      ci_is_static = static, ci_is_eof = False\<rparr>"

lemma holder_contract_authorized:
  "\<exists>j1. authorize holder_contract_db (contract_call input False) (js_new CANCUN {}) = Val (Inr (), j1)"
  by (simp add: authorize_def contract_call_def is_address_eoa_def ctx_code_def js_load_code_def
      holder_contract_db_def run_simps bytecode_new_raw_def bytecode_is_empty_def)

lemma holder_contract_balance:
  "balance holder_contract_db (js_new CANCUN {}) a i =
     (if i = 5 then (if a = 1 then 10 else if a = 2 then 3 else 0) else 0)"
  by (simp add: balance_def info_of_def js_new_def acct_def default_evm_state_def info_of_balances_def
      get_balance_def default_account_info_def holder_contract_db_def)

section \<open>Properties\<close>

text \<open>
  C11. In a static call the precompile changes no balance and asks for no inner call: apart from the
  balance query, which may load an account, every function stops before it reads or writes the
  state.
\<close>

theorem static_call_is_read_only:
  assumes "ci_is_static inputs" and "nt_call_mut keccak256 db inputs gas_limit j = Val (r, j')"
  shows "(j' = j \<or> (\<exists>a q. js_load_account db a j = Val (q, j'))) \<and> balance db j' = balance db j \<and>
     (\<forall>c. r \<noteq> Inr (Call c))"
proof -
  have auth: "authorize db inputs j = Val (Inl PE_AttemptedStateChangeDuringStaticCall, j)"
    using assms(1) by (simp add: authorize_def)
  consider "gas_limit < BASE_GAS_COST"
    | e where "BASE_GAS_COST \<le> gas_limit" "consume_u32_from (ci_input inputs) = Inl e"
    | sel input where "BASE_GAS_COST \<le> gas_limit" "consume_u32_from (ci_input inputs) = Inr (sel, input)"
    using linorder_not_le [of BASE_GAS_COST gas_limit]
    by (cases "consume_u32_from (ci_input inputs)") auto
  then show ?thesis
  proof cases
    case 1
    with call_mut_out_of_gas [OF 1, of keccak256 db inputs j] assms(2) show ?thesis by simp
  next
    case (2 e)
    with call_mut_short [OF 2, of keccak256 db j] assms(2) show ?thesis by simp
  next
    case (3 sel input)
    show ?thesis
    proof (cases "sel = BALANCEOF_SELECTOR")
      case True
      with 3 call_mut_balance_of assms(2) have "nt_balance_of db BASE_GAS_COST input j = Val (r, j')"
        by metis
      then show ?thesis
        by (cases r) (auto simp: nt_balance_of_def ctx_balance_def evals load_account_balance split: if_splits)
    next
      case False
      from call_mut_authorizes [OF 3 False, of keccak256 db j] assms(2) auth show ?thesis by auto
    qed
  qed
qed

theorem static_call_is_read_only_witness:
  "\<exists>r j'. nt_call_mut (\<lambda>_. 5) holder_contract_db (contract_call (enc_transfer 2 5 4) True) 100 (js_new CANCUN {})
        = Val (r, j') \<and> (\<forall>c. r \<noteq> Inr (Call c)) \<and> balance holder_contract_db j' 1 5 = 10"
proof -
  have st: "ci_is_static (contract_call (enc_transfer 2 5 4) True)" by (simp add: contract_call_def)
  have "\<exists>r j'. nt_call_mut (\<lambda>_. 5) holder_contract_db (contract_call (enc_transfer 2 5 4) True) 100 (js_new CANCUN {})
      = Val (r, j')"
    by (simp add: nt_call_mut_def BASE_GAS_COST_def contract_call_def enc_transfer_def selector_defs
        nt_transfer_def authorize_def)
  then obtain r j' where run: "nt_call_mut (\<lambda>_. 5) holder_contract_db
      (contract_call (enc_transfer 2 5 4) True) 100 (js_new CANCUN {}) = Val (r, j')" by blast
  from static_call_is_read_only [OF st run] run show ?thesis by (auto simp: holder_contract_balance)
qed

text \<open>
  C17. Every function but the balance query succeeds only outside static calls and only when the
  calling frame runs a contract: the code at its target address is not empty.
\<close>

theorem success_needs_contract_caller:
  assumes "nt_call_mut keccak256 db inputs gas_limit j = Val (Inr res, j')"
    and "consume_u32_from (ci_input inputs) = Inr (selector, input)" and "selector \<noteq> BALANCEOF_SELECTOR"
  shows "BASE_GAS_COST \<le> gas_limit \<and> \<not> ci_is_static inputs \<and>
     (\<exists>j1. is_address_eoa db (ci_target_address inputs) j = Val (Inr False, j1))"
proof -
  from assms(1) have gas: "BASE_GAS_COST \<le> gas_limit"
    using call_mut_out_of_gas [of gas_limit keccak256 db inputs j] by (auto simp: not_less [symmetric])
  from call_mut_authorizes [OF gas assms(2,3), of keccak256 db j] assms(1)
  obtain f where "tryE (authorize db inputs j) f = Val (Inr res, j')" by auto
  then obtain u j1 where "authorize db inputs j = Val (Inr u, j1)" by (auto simp: evals)
  from authorize_cases [OF this] gas show ?thesis by auto
qed

theorem success_needs_contract_caller_witness:
  "\<exists>j1. is_address_eoa holder_contract_db 1 (js_new CANCUN {}) = Val (Inr False, j1)"
proof -
  let ?in = "contract_call (to_be_bytes GET_CALL_VALUES_SELECTOR) False"
  obtain j1 where auth: "authorize holder_contract_db ?in (js_new CANCUN {}) = Val (Inr (), j1)"
    using holder_contract_authorized by blast
  have sel: "consume_u32_from (ci_input ?in) = Inr (GET_CALL_VALUES_SELECTOR, [])"
    using consume_u32_be [of _ "[]"] by (simp add: contract_call_def)
  have gas: "BASE_GAS_COST \<le> 100" by (simp add: BASE_GAS_COST_def)
  have "\<exists>res j'. nt_call_mut (\<lambda>_. 5) holder_contract_db ?in 100 (js_new CANCUN {}) = Val (Inr res, j')"
    by (simp add: call_mut_get_call_values [OF gas sel] nt_get_call_values_def auth Let_def)
  then obtain res j' where "nt_call_mut (\<lambda>_. 5) holder_contract_db ?in 100 (js_new CANCUN {}) = Val (Inr res, j')"
    by blast
  from success_needs_contract_caller [OF this sel] show ?thesis
    by (simp add: selector_defs contract_call_def)
qed

text \<open>
  C20. Call data as a Solidity client encodes it is decoded to the intended operation: from an
  authorized frame with enough gas, each encoded call runs the transfer, mint or burn with exactly
  the encoded arguments on behalf of the calling contract. A list of transfers may have any
  length below \<open>2 ^ 64\<close> and distinct tokens.
\<close>

theorem encoded_calls_run:
  assumes "BASE_GAS_COST \<le> gas_limit" and "authorize db inputs j = Val (Inr (), j1)"
    and "length ts < 2 ^ 64" and "distinct (map tt_id ts)"
  shows "nt_call_mut keccak256 db (inputs\<lparr>ci_input := enc_transfer r i v\<rparr>) gas_limit j =
      run_transfer db (ci_target_address inputs) r [\<lparr>tt_id = i, tt_amount = v\<rparr>] BASE_GAS_COST j1 \<and>
    nt_call_mut keccak256 db (inputs\<lparr>ci_input := enc_transfer_multiple r ts\<rparr>) gas_limit j =
      run_transfer db (ci_target_address inputs) r ts BASE_GAS_COST j1 \<and>
    nt_call_mut keccak256 db (inputs\<lparr>ci_input := enc_mint i r v\<rparr>) gas_limit j =
      bindE (js_mint keccak256 db (ci_target_address inputs) r i v j1) (\<lambda>(ok, j). Val
        (if ok then Inr (Result \<lparr>gas_used = BASE_GAS_COST, returned_bytes = []\<rparr>)
         else Inl (PE_Other ''Mint failed''), j)) \<and>
    nt_call_mut keccak256 db (inputs\<lparr>ci_input := enc_burn i r v\<rparr>) gas_limit j =
      bindE (js_burn keccak256 db (ci_target_address inputs) i r v j1) (\<lambda>(ok, j). Val
        (if ok then Inr (Result \<lparr>gas_used = BASE_GAS_COST, returned_bytes = []\<rparr>)
         else Inl (PE_Other ''Burn failed''), j))"
proof -
  have gas: "\<not> gas_limit < BASE_GAS_COST" using assms(1) by simp
  have auth: "authorize db (inputs\<lparr>ci_input := x\<rparr>) j = Val (Inr (), j1)" for x
    using assms(2) by (simp add: authorize_def split: if_splits)
  note simps = nt_call_mut_def gas encodings selector_defs auth
  have 1: "nt_call_mut keccak256 db (inputs\<lparr>ci_input := enc_transfer r i v\<rparr>) gas_limit j =
      run_transfer db (ci_target_address inputs) r [\<lparr>tt_id = i, tt_amount = v\<rparr>] BASE_GAS_COST j1"
    by (simp add: simps nt_transfer_def)
  have 2: "nt_call_mut keccak256 db (inputs\<lparr>ci_input := enc_transfer_multiple r ts\<rparr>) gas_limit j =
      run_transfer db (ci_target_address inputs) r ts BASE_GAS_COST j1"
    using nt_transfer_multiple_decodes [OF assms(3,4) auth, of _ BASE_GAS_COST r]
    by (simp add: nt_call_mut_def gas selector_defs enc_transfer_multiple_def)
  have 3: "nt_call_mut keccak256 db (inputs\<lparr>ci_input := enc_mint i r v\<rparr>) gas_limit j =
      bindE (js_mint keccak256 db (ci_target_address inputs) r i v j1) (\<lambda>(ok, j). Val
        (if ok then Inr (Result \<lparr>gas_used = BASE_GAS_COST, returned_bytes = []\<rparr>)
         else Inl (PE_Other ''Mint failed''), j))"
    by (cases "js_mint keccak256 db (ci_target_address inputs) r i v j1") (auto simp: simps nt_mint_def)
  have 4: "nt_call_mut keccak256 db (inputs\<lparr>ci_input := enc_burn i r v\<rparr>) gas_limit j =
      bindE (js_burn keccak256 db (ci_target_address inputs) i r v j1) (\<lambda>(ok, j). Val
        (if ok then Inr (Result \<lparr>gas_used = BASE_GAS_COST, returned_bytes = []\<rparr>)
         else Inl (PE_Other ''Burn failed''), j))"
    by (cases "js_burn keccak256 db (ci_target_address inputs) i r v j1") (auto simp: simps nt_burn_def)
  from 1 2 3 4 show ?thesis by blast
qed

theorem encoded_calls_run_witness:
  "\<exists>j1. nt_call_mut (\<lambda>_. 5) holder_contract_db (contract_call (enc_transfer_multiple 2 [\<lparr>tt_id = 5, tt_amount = 4\<rparr>]) False)
      100 (js_new CANCUN {}) = run_transfer holder_contract_db 1 2 [\<lparr>tt_id = 5, tt_amount = 4\<rparr>] BASE_GAS_COST j1"
proof -
  obtain j1 where auth: "authorize holder_contract_db (contract_call [] False) (js_new CANCUN {}) = Val (Inr (), j1)"
    using holder_contract_authorized by blast
  have gas: "BASE_GAS_COST \<le> 100" by (simp add: BASE_GAS_COST_def)
  from encoded_calls_run [OF gas auth, of "[\<lparr>tt_id = 5, tt_amount = 4\<rparr>]"] show ?thesis
    by (auto simp: contract_call_def)
qed

text \<open>
  The call values are returned in the ABI layout of two dynamic arrays: reading the first offset
  leads to the token ids, reading the second to the amounts, in the order of the call values, and
  nothing follows the second array.
\<close>

theorem call_values_round_trip:
  assumes "BASE_GAS_COST \<le> gas_limit" and "authorize db inputs j = Val (Inr (), j1)"
    and "consume_u32_from (ci_input inputs) = Inr (GET_CALL_VALUES_SELECTOR, input)"
    and "length (ci_call_values inputs) < 2 ^ 64"
  shows "\<exists>data off r1 r2 r3 r4 r5. let n = length (ci_call_values inputs) in
     nt_call_mut keccak256 db inputs gas_limit j =
       Val (Inr (Result \<lparr>gas_used = BASE_GAS_COST, returned_bytes = data\<rparr>), j1) \<and>
     consume_u256_from data = Inr (64, r1) \<and> consume_u256_from r1 = Inr (off, r2) \<and>
     consume_u256_from (drop 64 data) = Inr (of_nat n, r3) \<and>
     consume_words n r3 = Inr (map tt_id (ci_call_values inputs), r4) \<and>
     consume_u256_from (drop (unat off) data) = Inr (of_nat n, r5) \<and>
     consume_words n r5 = Inr (map tt_amount (ci_call_values inputs), [])"
proof -
  let ?vs = "ci_call_values inputs" and ?n = "length (ci_call_values inputs)"
  let ?ids = "concat (map (\<lambda>t. abi_word (tt_id t)) ?vs)" and ?vals = "concat (map (\<lambda>t. abi_word (tt_amount t)) ?vs)"
  let ?off = "of_nat (96 + 32 * ?n) :: u256"
  let ?head = "abi_word 64 @ abi_word ?off @ abi_word (of_nat ?n) @ ?ids"
  let ?data = "?head @ abi_word (of_nat ?n) @ ?vals"
  have run: "nt_call_mut keccak256 db inputs gas_limit j =
      Val (Inr (Result \<lparr>gas_used = BASE_GAS_COST, returned_bytes = ?data\<rparr>), j1)"
    by (simp add: call_mut_get_call_values [OF assms(1,3)] nt_get_call_values_def assms(2) Let_def
        mult.commute)
  have len: "length ?ids = 32 * ?n" by (rule length_abi_words)
  have off: "unat ?off = 96 + 32 * ?n"
    using assms(4) by (intro unat_of_nat_small) simp
  have words: "consume_words ?n (?ids @ rest) = Inr (map tt_id ?vs, rest)" for rest
    using consume_words_abi [of "map tt_id ?vs" rest] by (simp add: comp_def)
  have amounts: "consume_words ?n ?vals = Inr (map tt_amount ?vs, [])"
    using consume_words_abi_end [of "map tt_amount ?vs"] by (simp add: comp_def)
  have "length ?head = 96 + 32 * ?n" using len by simp
  then have tail: "drop (unat ?off) ?data = abi_word (of_nat ?n) @ ?vals" unfolding off by simp
  have mid: "drop 64 ?data = abi_word (of_nat ?n) @ ?ids @ abi_word (of_nat ?n) @ ?vals" by simp
  have first: "consume_u256_from ?data = Inr (64, abi_word ?off @ abi_word (of_nat ?n) @ ?ids @ abi_word (of_nat ?n) @ ?vals)"
    by simp
  have second: "consume_u256_from (abi_word ?off @ rest) = Inr (?off, rest)" for rest by simp
  have third: "consume_u256_from (drop 64 ?data) = Inr (of_nat ?n, ?ids @ abi_word (of_nat ?n) @ ?vals)"
    unfolding mid by simp
  have fourth: "consume_u256_from (drop (unat ?off) ?data) = Inr (of_nat ?n, ?vals)"
    unfolding tail by simp
  show ?thesis
    unfolding Let_def
    by (intro exI conjI, rule run, rule first, rule second, rule third, rule words, rule fourth, rule amounts)
qed

theorem call_values_round_trip_witness:
  "\<exists>data off r1 r2 j1. nt_call_mut (\<lambda>_. 5) holder_contract_db
       (contract_call (to_be_bytes GET_CALL_VALUES_SELECTOR) False) 100 (js_new CANCUN {}) =
       Val (Inr (Result \<lparr>gas_used = 15, returned_bytes = data\<rparr>), j1) \<and>
     consume_u256_from data = Inr (64, r1) \<and> consume_u256_from r1 = Inr (off, r2) \<and>
     (\<exists>r5. consume_u256_from (drop (unat off) data) = Inr (1, r5) \<and> consume_words 1 r5 = Inr ([2], []))"
proof -
  let ?in = "contract_call (to_be_bytes GET_CALL_VALUES_SELECTOR) False"
  obtain j1 where auth: "authorize holder_contract_db ?in (js_new CANCUN {}) = Val (Inr (), j1)"
    using holder_contract_authorized by blast
  have sel: "consume_u32_from (ci_input ?in) = Inr (GET_CALL_VALUES_SELECTOR, [])"
    using consume_u32_be [of _ "[]"] by (simp add: contract_call_def)
  have gas: "BASE_GAS_COST \<le> 100" by (simp add: BASE_GAS_COST_def)
  have vals: "ci_call_values ?in = [\<lparr>tt_id = 5, tt_amount = 2\<rparr>]"
    by (simp add: contract_call_def ci_call_values_def)
  from call_values_round_trip [OF gas auth sel, unfolded vals] show ?thesis
    by (simp add: BASE_GAS_COST_def Let_def) blast
qed

text \<open>
  C32. A transfer that runs out of funds, or overflows the recipient, is reported to the calling
  contract as a success: only a database error makes the precompile fail.
\<close>

theorem failed_transfer_reported_as_success:
  assumes "BASE_GAS_COST \<le> gas_limit" and "authorize db inputs j = Val (Inr (), j1)"
    and "js_transfer db (ci_target_address inputs) r [\<lparr>tt_id = i, tt_amount = v\<rparr>] j1 = Val (Inr failure, j')"
  shows "nt_call_mut keccak256 db (inputs\<lparr>ci_input := enc_transfer r i v\<rparr>) gas_limit j =
     Val (Inr (Result \<lparr>gas_used = BASE_GAS_COST, returned_bytes = []\<rparr>), j')"
proof -
  have auth: "authorize db (inputs\<lparr>ci_input := x\<rparr>) j = Val (Inr (), j1)" for x
    using assms(2) by (simp add: authorize_def split: if_splits)
  show ?thesis
    using assms(1,3)
    by (simp add: nt_call_mut_def not_less [symmetric] enc_transfer_def selector_defs nt_transfer_def
        auth run_transfer_def)
qed

theorem failed_transfer_reported_as_success_witness:
  "\<exists>j'. nt_call_mut (\<lambda>_. 5) holder_contract_db (contract_call (enc_transfer 2 5 11) False) 100 (js_new CANCUN {}) =
       Val (Inr (Result \<lparr>gas_used = BASE_GAS_COST, returned_bytes = []\<rparr>), j') \<and>
     balance holder_contract_db j' 1 5 = 10 \<and> balance holder_contract_db j' 2 5 = 3"
proof -
  let ?c = "contract_call [] False" and ?t = "[\<lparr>tt_id = 5, tt_amount = 11\<rparr>]"
  obtain j1 where auth: "authorize holder_contract_db ?c (js_new CANCUN {}) = Val (Inr (), j1)"
    using holder_contract_authorized by blast
  have "\<exists>j'. bindE (authorize holder_contract_db ?c (js_new CANCUN {})) (\<lambda>(_, j1). js_transfer holder_contract_db 1 2 ?t j1)
      = Val (Inr (Some OutOfFunds), j')"
    by (simp add: authorize_def contract_call_def is_address_eoa_def ctx_code_def js_load_code_def
        holder_contract_db_def run_simps bytecode_new_raw_def bytecode_is_empty_def)
  then obtain j' where tr: "js_transfer holder_contract_db (ci_target_address ?c) 2 ?t j1 = Val (Inr (Some OutOfFunds), j')"
    unfolding auth by (auto simp: contract_call_def)
  have "unat (balance holder_contract_db j' a 5) = unat (balance holder_contract_db (js_new CANCUN {}) a 5)" for a
  proof -
    from tr obtain k where "transfer_loop (ci_target_address ?c) 2 ?t k = Val (Some OutOfFunds, j')"
      "balance holder_contract_db k = balance holder_contract_db j1" by (rule transfer_unfold)
    then have "balance holder_contract_db j' = balance holder_contract_db j1"
      using transfer_one_balances [where db = holder_contract_db] by (fastforce simp: evals split: option.splits)
    with authorize_cases [OF auth] show ?thesis by simp
  qed
  then have "balance holder_contract_db j' 1 5 = 10" "balance holder_contract_db j' 2 5 = 3"
    by (simp_all add: word_unat_eq_iff holder_contract_balance)
  moreover have gas: "BASE_GAS_COST \<le> 100" by (simp add: BASE_GAS_COST_def)
  ultimately show ?thesis
    using failed_transfer_reported_as_success [OF gas auth tr, of "\<lambda>_. 5"] by (auto simp: contract_call_def)
qed

text \<open>
  C31. A transfer with a call asks for an inner call of the callee with the encoded transfer and the
  call data without its first 28 bytes; with fewer than 28 bytes of call data the precompile
  panics instead of returning an error.
\<close>

theorem transfer_and_call_outcome:
  assumes "BASE_GAS_COST \<le> gas_limit" and "authorize db inputs j = Val (Inr (), j1)"
    and "is_address_eoa db callee j1 = Val (Inr False, j2)" and "length data < 2 ^ 64"
  shows "nt_call_mut keccak256 db (inputs\<lparr>ci_input := enc_transfer_and_call callee i v data\<rparr>) gas_limit j =
     (if length data < 28 then Panic
      else Val (Inr (Call \<lparr>pci_target_address = callee,
                          pci_token_transfers = [\<lparr>tt_id = i, tt_amount = v\<rparr>],
                          pci_input_data = drop 28 data\<rparr>), j2))"
proof -
  have auth: "authorize db (inputs\<lparr>ci_input := x\<rparr>) j = Val (Inr (), j1)" for x
    using assms(2) by (simp add: authorize_def split: if_splits)
  have n: "usize_or_default (of_nat (length data)) = length data"
    using assms(4) by (simp add: usize_or_default_def unat_of_nat_small)
  have all: "consume_bytes_from data (length data) = Inr (data, [])"
    using consume_bytes_append [of "length data" data "[]"] by simp
  show ?thesis
    using assms(1,3)
    by (simp add: nt_call_mut_def not_less [symmetric] enc_transfer_and_call_def selector_defs
        nt_transfer_and_call_def auth n all strip_prefix_def)
qed

theorem transfer_and_call_outcome_witness:
  "nt_call_mut (\<lambda>_. 5) holder_contract_db (contract_call (enc_transfer_and_call 1 5 4 [1, 2, 3, 4]) False) 100
     (js_new CANCUN {}) = Panic"
proof -
  let ?c = "contract_call [] False"
  obtain j1 where auth: "authorize holder_contract_db ?c (js_new CANCUN {}) = Val (Inr (), j1)"
    using holder_contract_authorized by blast
  have "\<exists>j2. bindE (authorize holder_contract_db ?c (js_new CANCUN {})) (\<lambda>(_, j1). is_address_eoa holder_contract_db 1 j1)
      = Val (Inr False, j2)"
    by (simp add: authorize_def contract_call_def is_address_eoa_def ctx_code_def js_load_code_def
        holder_contract_db_def run_simps bytecode_new_raw_def bytecode_is_empty_def)
  then obtain j2 where eoa: "is_address_eoa holder_contract_db 1 j1 = Val (Inr False, j2)"
    unfolding auth by auto
  have gas: "BASE_GAS_COST \<le> 100" by (simp add: BASE_GAS_COST_def)
  from transfer_and_call_outcome [OF gas auth eoa, of "[1, 2, 3, 4]"] show ?thesis
    by (simp add: contract_call_def)
qed

end
