(* ===== verification/Gas.thy ===== *)
theory Gas
  imports Spec_Id Journal
begin

text \<open>
  Gas accounting: the \<^verbatim>\<open>Gas\<close> counter of \<^verbatim>\<open>interpreter/src/gas.rs\<close>, the constants of
  \<^verbatim>\<open>gas/constants.rs\<close> and the cost functions of \<^verbatim>\<open>gas/calc.rs\<close>. Sums of constants cannot
  overflow 64 bits and are plain word additions; an overflow of unbounded quantities is \<open>None\<close>
  where the code uses checked operations and \<open>Panic\<close> where it does not. A signed 64-bit value is
  a word read with \<open>sint\<close>.
\<close>

type_synonym i64 = "64 word"

section \<open>The gas counter\<close>

record gas =
  limit :: u64
  remaining :: u64
  refunded :: i64

definition gas_new :: "u64 \<Rightarrow> gas" where
  "gas_new l = \<lparr>limit = l, remaining = l, refunded = 0\<rparr>"

definition gas_new_spent :: "u64 \<Rightarrow> gas" where
  "gas_new_spent l = \<lparr>limit = l, remaining = 0, refunded = 0\<rparr>"

definition spent :: "gas \<Rightarrow> u64 eval" where
  "spent g = minus_or_panic (limit g) (remaining g)"

definition erase_cost :: "gas \<Rightarrow> u64 \<Rightarrow> gas eval" where
  "erase_cost g returned = bindE (plus_or_panic (remaining g) returned) (\<lambda>r. Val (g\<lparr>remaining := r\<rparr>))"

definition spend_all :: "gas \<Rightarrow> gas" where
  "spend_all g = g\<lparr>remaining := 0\<rparr>"

text \<open>Rust's \<^verbatim>\<open>+\<close> on \<^verbatim>\<open>i64\<close>.\<close>

definition i64_plus_or_panic :: "i64 \<Rightarrow> i64 \<Rightarrow> i64 eval" where
  "i64_plus_or_panic x y =
     (if - (2 ^ 63) \<le> sint x + sint y \<and> sint x + sint y < 2 ^ 63 then Val (x + y) else Panic)"

definition record_refund :: "gas \<Rightarrow> i64 \<Rightarrow> gas eval" where
  "record_refund g refund = bindE (i64_plus_or_panic (refunded g) refund) (\<lambda>r. Val (g\<lparr>refunded := r\<rparr>))"

text \<open>\<^verbatim>\<open>(self.refunded() as u64).min(..)\<close> compares the refund as an unsigned number.\<close>

definition set_final_refund :: "gas \<Rightarrow> bool \<Rightarrow> gas eval" where
  "set_final_refund g is_london =
     bindE (spent g) (\<lambda>s.
       let max_refund_quotient = (if is_london then 5 else 2)
       in Val (g\<lparr>refunded := min (refunded g) (s div max_refund_quotient)\<rparr>))"

definition set_refund :: "gas \<Rightarrow> i64 \<Rightarrow> gas" where
  "set_refund g refund = g\<lparr>refunded := refund\<rparr>"

definition record_cost :: "gas \<Rightarrow> u64 \<Rightarrow> bool \<times> gas" where
  "record_cost g cost = (if remaining g < cost then (False, g) else (True, g\<lparr>remaining := remaining g - cost\<rparr>))"

section \<open>Constants\<close>

definition EXP :: u64 where "EXP = 10"
definition VERYLOW :: u64 where "VERYLOW = 3"
definition MEMORY :: u64 where "MEMORY = 3"
definition CREATE :: u64 where "CREATE = 32000"
definition CALLVALUE :: u64 where "CALLVALUE = 9000"
definition NEWACCOUNT :: u64 where "NEWACCOUNT = 25000"
definition LOG :: u64 where "LOG = 375"
definition LOGDATA :: u64 where "LOGDATA = 8"
definition LOGTOPIC :: u64 where "LOGTOPIC = 375"
definition KECCAK256 :: u64 where "KECCAK256 = 30"
definition KECCAK256WORD :: u64 where "KECCAK256WORD = 6"
definition COPY :: u64 where "COPY = 3"
definition CODEDEPOSIT :: u64 where "CODEDEPOSIT = 200"
definition INSTANBUL_SLOAD_GAS :: u64 where "INSTANBUL_SLOAD_GAS = 800"
definition SSTORE_SET :: u64 where "SSTORE_SET = 20000"
definition SSTORE_RESET :: u64 where "SSTORE_RESET = 5000"
definition REFUND_SSTORE_CLEARS :: i64 where "REFUND_SSTORE_CLEARS = 15000"
definition TRANSACTION_ZERO_DATA :: u64 where "TRANSACTION_ZERO_DATA = 4"
definition ACCESS_LIST_ADDRESS :: u64 where "ACCESS_LIST_ADDRESS = 2400"
definition ACCESS_LIST_STORAGE_KEY :: u64 where "ACCESS_LIST_STORAGE_KEY = 1900"
definition COLD_SLOAD_COST :: u64 where "COLD_SLOAD_COST = 2100"
definition COLD_ACCOUNT_ACCESS_COST :: u64 where "COLD_ACCOUNT_ACCESS_COST = 2600"
definition WARM_STORAGE_READ_COST :: u64 where "WARM_STORAGE_READ_COST = 100"
definition WARM_SSTORE_RESET :: u64 where "WARM_SSTORE_RESET = SSTORE_RESET - COLD_SLOAD_COST"
definition INITCODE_WORD_COST :: u64 where "INITCODE_WORD_COST = 2"
definition CALL_STIPEND :: u64 where "CALL_STIPEND = 2300"

lemmas gas_constants =
  EXP_def VERYLOW_def MEMORY_def CREATE_def CALLVALUE_def NEWACCOUNT_def LOG_def LOGDATA_def LOGTOPIC_def
  KECCAK256_def KECCAK256WORD_def COPY_def CODEDEPOSIT_def INSTANBUL_SLOAD_GAS_def SSTORE_SET_def
  SSTORE_RESET_def REFUND_SSTORE_CLEARS_def TRANSACTION_ZERO_DATA_def ACCESS_LIST_ADDRESS_def
  ACCESS_LIST_STORAGE_KEY_def COLD_SLOAD_COST_def COLD_ACCOUNT_ACCESS_COST_def WARM_STORAGE_READ_COST_def
  WARM_SSTORE_RESET_def INITCODE_WORD_COST_def CALL_STIPEND_def

section \<open>Words and memory\<close>

definition num_words :: "u64 \<Rightarrow> u64" where
  "num_words len = saturating_add len 31 div 32"

definition cost_per_word :: "u64 \<Rightarrow> u64 \<Rightarrow> u64 option" where
  "cost_per_word len multiple = checked_mul multiple (num_words len)"

definition memory_gas :: "u64 \<Rightarrow> u64" where
  "memory_gas words = saturating_add (saturating_mul MEMORY words) (saturating_mul words words div 512)"

definition memory_gas_for_len :: "nat \<Rightarrow> u64" where
  "memory_gas_for_len len = memory_gas (num_words (of_nat len))"

section \<open>Storage\<close>

definition sload_cost :: "spec_id \<Rightarrow> bool \<Rightarrow> u64" where
  "sload_cost sp is_cold =
     (if enabled sp BERLIN then (if is_cold then COLD_SLOAD_COST else WARM_STORAGE_READ_COST)
      else if enabled sp ISTANBUL then INSTANBUL_SLOAD_GAS
      else if enabled sp TANGERINE then 200 else 50)"

definition sstore_refund :: "spec_id \<Rightarrow> u256 \<Rightarrow> u256 \<Rightarrow> u256 \<Rightarrow> i64" where
  "sstore_refund sp original current new =
     (if enabled sp ISTANBUL then
        let sstore_clears_schedule =
          (if enabled sp LONDON then SSTORE_RESET - COLD_SLOAD_COST + ACCESS_LIST_STORAGE_KEY
           else REFUND_SSTORE_CLEARS)
        in if current = new then 0
           else if original = current \<and> new = 0 then sstore_clears_schedule
           else
             let refund =
               (if original \<noteq> 0 then
                  if current = 0 then - sstore_clears_schedule
                  else if new = 0 then sstore_clears_schedule else 0
                else 0)
             in if original = new then
                  let (gas_sstore_reset, gas_sload) =
                    (if enabled sp BERLIN then (SSTORE_RESET - COLD_SLOAD_COST, WARM_STORAGE_READ_COST)
                     else (SSTORE_RESET, sload_cost sp False))
                  in if original = 0 then refund + (SSTORE_SET - gas_sload)
                     else refund + (gas_sstore_reset - gas_sload)
                else refund
      else if current \<noteq> 0 \<and> new = 0 then REFUND_SSTORE_CLEARS else 0)"

definition istanbul_sstore_cost :: "u64 \<Rightarrow> u64 \<Rightarrow> u256 \<Rightarrow> u256 \<Rightarrow> u256 \<Rightarrow> u64" where
  "istanbul_sstore_cost SLOAD_GAS SSTORE_RESET_GAS original current new =
     (if new = current then SLOAD_GAS
      else if original = current \<and> original = 0 then SSTORE_SET
      else if original = current then SSTORE_RESET_GAS
      else SLOAD_GAS)"

definition frontier_sstore_cost :: "u256 \<Rightarrow> u256 \<Rightarrow> u64" where
  "frontier_sstore_cost current new = (if current = 0 \<and> new \<noteq> 0 then SSTORE_SET else SSTORE_RESET)"

definition sstore_cost :: "spec_id \<Rightarrow> u256 \<Rightarrow> u256 \<Rightarrow> u256 \<Rightarrow> u64 \<Rightarrow> bool \<Rightarrow> u64 option" where
  "sstore_cost sp original current new gas is_cold =
     (if enabled sp ISTANBUL \<and> gas \<le> CALL_STIPEND then None
      else if enabled sp BERLIN then
        let gas_cost = istanbul_sstore_cost WARM_STORAGE_READ_COST WARM_SSTORE_RESET original current new
        in Some (if is_cold then gas_cost + COLD_SLOAD_COST else gas_cost)
      else if enabled sp ISTANBUL then
        Some (istanbul_sstore_cost INSTANBUL_SLOAD_GAS SSTORE_RESET original current new)
      else Some (frontier_sstore_cost current new))"

section \<open>Other costs\<close>

definition create2_cost :: "u64 \<Rightarrow> u64 option" where
  "create2_cost len = Option.bind (cost_per_word len KECCAK256WORD) (checked_add CREATE)"

definition verylowcopy_cost :: "u64 \<Rightarrow> u64 option" where
  "verylowcopy_cost len = Option.bind (cost_per_word len COPY) (checked_add VERYLOW)"

definition warm_cold_cost :: "bool \<Rightarrow> u64" where
  "warm_cold_cost is_cold = (if is_cold then COLD_ACCOUNT_ACCESS_COST else WARM_STORAGE_READ_COST)"

definition extcodecopy_cost :: "spec_id \<Rightarrow> u64 \<Rightarrow> bool \<Rightarrow> u64 option" where
  "extcodecopy_cost sp len is_cold =
     (let base_gas = (if enabled sp BERLIN then warm_cold_cost is_cold
                      else if enabled sp TANGERINE then 700 else 20)
      in Option.bind (cost_per_word len COPY) (checked_add base_gas))"

definition log_cost :: "u8 \<Rightarrow> u64 \<Rightarrow> u64 option" where
  "log_cost n len =
     Option.bind (checked_mul LOGDATA len) (\<lambda>d.
     Option.bind (checked_add LOG d) (\<lambda>c. checked_add c (LOGTOPIC * ucast n)))"

definition keccak256_cost :: "u64 \<Rightarrow> u64 option" where
  "keccak256_cost len = Option.bind (cost_per_word len KECCAK256WORD) (checked_add KECCAK256)"

definition initcode_cost :: "u64 \<Rightarrow> u64 eval" where
  "initcode_cost len = unwrap (cost_per_word len INITCODE_WORD_COST)"

definition selfdestruct_cost :: "spec_id \<Rightarrow> self_destruct_result \<Rightarrow> u64" where
  "selfdestruct_cost sp res =
     (let should_charge_topup =
            (if enabled sp SPURIOUS_DRAGON then sd_had_value res \<and> \<not> sd_target_exists res
             else \<not> sd_target_exists res);
          selfdestruct_gas_topup = (if enabled sp TANGERINE \<and> should_charge_topup then 25000 else 0);
          selfdestruct_gas = (if enabled sp TANGERINE then 5000 else 0);
          gas = selfdestruct_gas + selfdestruct_gas_topup
      in if enabled sp BERLIN \<and> sd_is_cold res then gas + COLD_ACCOUNT_ACCESS_COST else gas)"

definition call_cost :: "spec_id \<Rightarrow> bool \<Rightarrow> bool \<Rightarrow> bool \<Rightarrow> u64" where
  "call_cost sp transfers is_cold new_account_accounting =
     (let gas = (if enabled sp BERLIN then warm_cold_cost is_cold
                 else if enabled sp TANGERINE then 700 else 40);
          gas = (if transfers then gas + CALLVALUE else gas)
      in if new_account_accounting then
           if enabled sp SPURIOUS_DRAGON then (if transfers then gas + NEWACCOUNT else gas)
           else gas + NEWACCOUNT
         else gas)"

text \<open>
  \<^verbatim>\<open>log2floor\<close>: the loop over the four 64-bit limbs, the most significant first, with \<^verbatim>\<open>l\<close> starting
  at 256 and \<^verbatim>\<open>i\<close> at 3.
\<close>

fun bit_length :: "nat \<Rightarrow> nat" where
  "bit_length n = (if n = 0 then 0 else bit_length (n div 2) + 1)"

declare bit_length.simps [simp del]

definition leading_zeros :: "u64 \<Rightarrow> nat" where
  "leading_zeros w = 64 - bit_length (unat w)"

definition limb :: "u256 \<Rightarrow> nat \<Rightarrow> u64" where
  "limb v i = of_nat (unat v div 2 ^ (64 * i))"

fun log2floor_loop :: "u256 \<Rightarrow> nat \<Rightarrow> nat \<Rightarrow> nat" where
  "log2floor_loop v l 0 =
     (if limb v 0 = 0 then l - 64
      else let l = l - leading_zeros (limb v 0) in if l = 0 then l else l - 1)"
| "log2floor_loop v l (Suc i) =
     (if limb v (Suc i) = 0 then log2floor_loop v (l - 64) i
      else let l = l - leading_zeros (limb v (Suc i)) in if l = 0 then l else l - 1)"

definition log2floor :: "u256 \<Rightarrow> nat" where
  "log2floor v = log2floor_loop v 256 3"

definition exp_cost :: "spec_id \<Rightarrow> u256 \<Rightarrow> u64 option" where
  "exp_cost sp exponent =
     (if exponent = 0 then Some EXP
      else
        let gas_byte = (if enabled sp SPURIOUS_DRAGON then 50 else 10) :: u256 in
        Option.bind (checked_mul gas_byte (of_nat (log2floor exponent div 8 + 1))) (\<lambda>m.
        Option.bind (checked_add (ucast EXP) m) (\<lambda>gas.
          if unat gas < 2 ^ 64 then Some (ucast gas) else None)))"

text \<open>
  \<^verbatim>\<open>validate_initial_tx_gas\<close>: a sum of products of unsigned numbers; it panics when the total
  exceeds 64 bits. The list of transferred tokens is not charged for.
\<close>

definition validate_initial_tx_gas ::
  "spec_id \<Rightarrow> bytes \<Rightarrow> bool \<Rightarrow> (address \<times> u256 list) list \<Rightarrow> token_transfer list \<Rightarrow> u64 eval" where
  "validate_initial_tx_gas sp input is_create access_list _ =
     (let zero_data_len = length (filter (\<lambda>v. v = 0) input);
          non_zero_data_len = length input - zero_data_len;
          data_gas = zero_data_len * unat TRANSACTION_ZERO_DATA
                     + non_zero_data_len * (if enabled sp ISTANBUL then 16 else 68);
          accessed_slots = sum_list (map (\<lambda>(_, slots). length slots) access_list);
          access_gas = (if enabled sp BERLIN
                        then length access_list * unat ACCESS_LIST_ADDRESS
                             + accessed_slots * unat ACCESS_LIST_STORAGE_KEY
                        else 0);
          base_gas = (if is_create \<and> enabled sp HOMESTEAD then 53000 else 21000)
      in bindE (if enabled sp SHANGHAI \<and> is_create then initcode_cost (of_nat (length input)) else Val 0) (\<lambda>initcode_gas.
           let total = data_gas + access_gas + base_gas + unat initcode_gas
           in if total < 2 ^ 64 then Val (of_nat total) else Panic))"

section \<open>The counter stays within its limit\<close>

definition gas_ok :: "gas \<Rightarrow> bool" where
  "gas_ok g \<longleftrightarrow> remaining g \<le> limit g"

lemma spent_ok: "gas_ok g \<Longrightarrow> spent g = Val (limit g - remaining g)"
  by (simp add: gas_ok_def spent_def minus_or_panic_def checked_sub_def)

lemma gas_new_ok: "gas_ok (gas_new l)" "gas_ok (gas_new_spent l)"
  by (simp_all add: gas_ok_def gas_new_def gas_new_spent_def)

text \<open>
  C27. The gas counter never goes below zero or above its limit: a cost is charged exactly when the
  remaining gas covers it, and then the spent gas grows by exactly the cost; otherwise nothing
  changes. Returning gas that was spent keeps the bound and lowers the spent gas by that amount.
\<close>

theorem gas_accounting:
  assumes "gas_ok g" and "spent g = Val s"
  shows "(let (ok, g') = record_cost g cost in
      (ok \<longleftrightarrow> cost \<le> remaining g) \<and> gas_ok g' \<and> limit g' = limit g \<and> refunded g' = refunded g \<and>
      (\<exists>s'. spent g' = Val s' \<and> unat s' = unat s + (if ok then unat cost else 0))) \<and>
    (returned \<le> s \<longrightarrow> (\<exists>g' s'. erase_cost g returned = Val g' \<and> gas_ok g' \<and> limit g' = limit g \<and>
      spent g' = Val s' \<and> unat s = unat s' + unat returned))"
proof -
  have le: "unat (remaining g) \<le> unat (limit g)" using assms(1) by (simp add: gas_ok_def word_le_nat_alt)
  have s: "unat s = unat (limit g) - unat (remaining g)"
    using assms spent_ok [OF assms(1)] by (auto simp: gas_ok_def unat_minus_if_le)
  have cost: "let (ok, g') = record_cost g cost in
      (ok \<longleftrightarrow> cost \<le> remaining g) \<and> gas_ok g' \<and> limit g' = limit g \<and> refunded g' = refunded g \<and>
      (\<exists>s'. spent g' = Val s' \<and> unat s' = unat s + (if ok then unat cost else 0))"
  proof (cases "cost \<le> remaining g")
    case True
    then have "unat (remaining g - cost) = unat (remaining g) - unat cost" by (rule unat_minus_if_le)
    moreover from this have ok: "gas_ok (g\<lparr>remaining := remaining g - cost\<rparr>)"
      using le by (simp add: gas_ok_def word_le_nat_alt)
    ultimately have "unat (limit g - (remaining g - cost)) = unat s + unat cost"
      using s le True by (simp add: gas_ok_def unat_minus_if_le word_le_nat_alt)
    with spent_ok [OF ok] ok True show ?thesis by (simp add: record_cost_def)
  next
    case False
    with assms show ?thesis by (simp add: record_cost_def)
  qed
  have "\<exists>g' s'. erase_cost g returned = Val g' \<and> gas_ok g' \<and> limit g' = limit g \<and>
      spent g' = Val s' \<and> unat s = unat s' + unat returned" if "returned \<le> s"
  proof -
    have r: "unat returned \<le> unat s" using that by (simp add: word_le_nat_alt)
    have "unat (remaining g) + unat returned < 2 ^ 64"
      using r s le unat_lt_length [of "limit g"] by simp
    then have add: "checked_add (remaining g) returned = Some (remaining g + returned)"
      and u: "unat (remaining g + returned) = unat (remaining g) + unat returned"
      by (simp_all add: checked_add_def unat_plus_if_small)
    have ok: "gas_ok (g\<lparr>remaining := remaining g + returned\<rparr>)"
      using u r s le by (simp add: gas_ok_def word_le_nat_alt)
    moreover have "unat s = unat (limit g - (remaining g + returned)) + unat returned"
      using ok u r s by (simp add: gas_ok_def unat_minus_if_le)
    ultimately show ?thesis
      using spent_ok [OF ok] by (simp add: erase_cost_def plus_or_panic_def add)
  qed
  with cost show ?thesis by blast
qed

theorem gas_accounting_witness:
  "let g = \<lparr>limit = 100, remaining = 60, refunded = 0\<rparr> in
     fst (record_cost g 50) \<and> \<not> fst (record_cost g 61) \<and>
     (\<exists>s. spent (snd (record_cost g 50)) = Val s \<and> unat s = 90) \<and>
     (\<exists>g' s'. erase_cost g 40 = Val g' \<and> spent g' = Val s' \<and> unat s' = 0)"
proof -
  let ?g = "\<lparr>limit = 100, remaining = 60, refunded = 0\<rparr>"
  have "gas_ok ?g" "spent ?g = Val 40"
    by (simp_all add: gas_ok_def spent_def minus_or_panic_def checked_sub_def)
  note acc = gas_accounting [OF this]
  from acc [of 50 40] acc [of 61 0] show ?thesis by (auto simp: record_cost_def)
qed

section \<open>Storage gas is net\<close>

text \<open>
  C29. Net gas metering (EIP-2200, EIP-2929, EIP-3529): from \<^verbatim>\<open>ISTANBUL\<close> on, with a warm slot and more
  gas left than the call stipend at both writes, changing a slot that holds its original value and changing it back
  costs two warm reads in total, once the refunds of both writes are taken off, whatever the values are.
\<close>

theorem sstore_round_trip_costs_two_reads:
  assumes "enabled sp ISTANBUL" and "v \<noteq> original" and "CALL_STIPEND < gas1" and "CALL_STIPEND < gas2"
  shows "\<exists>c1 c2. sstore_cost sp original original v gas1 False = Some c1 \<and>
     sstore_cost sp original v original gas2 False = Some c2 \<and>
     sint c1 + sint c2 - (sint (sstore_refund sp original original v) + sint (sstore_refund sp original v original))
       = 2 * sint (sload_cost sp False)"
proof -
  have le: "enabled sp LONDON \<Longrightarrow> enabled sp BERLIN"
    by (cases sp) (simp_all add: enabled_def word_le_nat_alt)
  show ?thesis
    using assms le
    by (auto simp: sstore_cost_def sstore_refund_def sload_cost_def istanbul_sstore_cost_def
        gas_constants Let_def split: if_splits)
qed

theorem sstore_round_trip_costs_two_reads_witness:
  "\<exists>c1 c2. sstore_cost CANCUN 0 0 7 5000 False = Some c1 \<and> sstore_cost CANCUN 0 7 0 5000 False = Some c2 \<and>
     sint c1 + sint c2 - (sint (sstore_refund CANCUN 0 0 7) + sint (sstore_refund CANCUN 0 7 0)) = 200"
proof -
  have "enabled CANCUN ISTANBUL" "(7 :: u256) \<noteq> 0" "CALL_STIPEND < 5000" "CALL_STIPEND < 5000"
    by (simp_all add: enabled_def CALL_STIPEND_def)
  from sstore_round_trip_costs_two_reads [OF this] show ?thesis
    by (simp add: sload_cost_def enabled_def WARM_STORAGE_READ_COST_def)
qed

section \<open>Exponentiation and memory\<close>

lemma bit_length_bounds: "n \<noteq> 0 \<Longrightarrow> 2 ^ (bit_length n - 1) \<le> n \<and> n < 2 ^ bit_length n \<and> 0 < bit_length n"
proof (induction n rule: bit_length.induct)
  case (1 n)
  show ?case
  proof (cases "n div 2 = 0")
    case True
    with 1(2) have "n = 1" by auto
    then show ?thesis by (simp add: bit_length.simps)
  next
    case False
    with 1 have ih: "2 ^ (bit_length (n div 2) - 1) \<le> n div 2" "n div 2 < 2 ^ bit_length (n div 2)"
      "0 < bit_length (n div 2)" by auto
    have b: "bit_length n = Suc (bit_length (n div 2))" using 1(2) by (subst bit_length.simps) simp
    have "(2::nat) ^ bit_length (n div 2) = 2 * 2 ^ (bit_length (n div 2) - 1)"
      using ih(3) by (cases "bit_length (n div 2)") auto
    with ih show ?thesis unfolding b by (simp, linarith)
  qed
qed

lemma bit_length_le_iff: "n < 2 ^ k \<Longrightarrow> bit_length n \<le> k"
proof (rule ccontr)
  assume "n < 2 ^ k" "\<not> bit_length n \<le> k"
  moreover from this have "n \<noteq> 0" by (metis bit_length.simps zero_le)
  ultimately have "k \<le> bit_length n - 1" "2 ^ (bit_length n - 1) \<le> n" using bit_length_bounds by auto
  then have "2 ^ k \<le> n" by (meson one_le_numeral order_trans power_increasing)
  with \<open>n < 2 ^ k\<close> show False by simp
qed

lemma unat_limb: "unat (limb v i) = (unat v div 2 ^ (64 * i)) mod 2 ^ 64"
  by (simp add: limb_def unat_of_nat take_bit_eq_mod)

lemma bit_length_shift:
  assumes "n div 2 ^ k \<noteq> 0"
  shows "bit_length n = k + bit_length (n div 2 ^ k)"
  using assms
proof (induction k arbitrary: n)
  case (Suc k)
  have eq: "n div 2 ^ Suc k = (n div 2) div 2 ^ k" by (simp add: div_mult2_eq)
  with Suc.prems have nz: "(n div 2) div 2 ^ k \<noteq> 0" by simp
  then have "n \<noteq> 0" by (metis div_0)
  then have "bit_length n = Suc (bit_length (n div 2))" by (subst bit_length.simps) simp
  with Suc.IH [OF nz] eq show ?case by simp
qed simp

lemma log2floor_loop_eq:
  assumes "unat v < 2 ^ (64 * (i + 1))" and "v \<noteq> 0"
  shows "log2floor_loop v (64 * (i + 1)) i = bit_length (unat v) - 1"
  using assms
proof (induction i)
  case 0
  have "unat (limb v 0) = unat v" using 0(1) by (simp add: unat_limb)
  moreover have "unat v \<noteq> 0" using 0(2) by (simp add: unat_eq_0)
  moreover have "bit_length (unat v) \<le> 64" using 0(1) by (intro bit_length_le_iff) simp
  ultimately show ?case
    using bit_length_bounds [of "unat v"] by (auto simp: leading_zeros_def Let_def unat_eq_0)
next
  case (Suc i)
  let ?q = "unat v div 2 ^ (64 * Suc i)"
  have "unat v < 2 ^ (64 * Suc i) * 2 ^ 64" using Suc.prems(1) by (simp add: power_add mult.commute)
  then have q: "?q < 2 ^ 64" by (simp add: less_mult_imp_div_less mult.commute)
  then have lq: "unat (limb v (Suc i)) = ?q" by (simp add: unat_limb)
  show ?case
  proof (cases "?q = 0")
    case True
    then have "unat v < 2 ^ (64 * (i + 1))" by (simp add: div_eq_0_iff)
    with Suc.IH Suc.prems(2) True lq show ?thesis by (simp add: unat_eq_0 [symmetric])
  next
    case False
    have "bit_length ?q \<le> 64" using q by (intro bit_length_le_iff)
    moreover have "bit_length (unat v) = 64 * Suc i + bit_length ?q" by (rule bit_length_shift [OF False])
    ultimately show ?thesis
      using lq False bit_length_bounds [OF False] by (auto simp: leading_zeros_def Let_def unat_eq_0 [symmetric])
  qed
qed

lemma log2floor_eq: "v \<noteq> 0 \<Longrightarrow> log2floor v = bit_length (unat v) - 1"
  using log2floor_loop_eq [of v 3] unat_lt_length [of v] by (simp add: log2floor_def)

text \<open>
  C30. The limb loop computes the integer logarithm, and the cost of an exponentiation is the base
  cost plus the byte price of the fork for every byte of the exponent; it never fails.
\<close>

theorem exp_cost_per_byte:
  assumes "e \<noteq> 0"
  shows "2 ^ log2floor e \<le> unat e \<and> unat e < 2 ^ (log2floor e + 1) \<and>
     (\<exists>c. exp_cost sp e = Some c \<and>
        unat c = 10 + (if enabled sp SPURIOUS_DRAGON then 50 else 10) * (log2floor e div 8 + 1))"
proof -
  have nz: "unat e \<noteq> 0" using assms by (simp add: unat_eq_0)
  have "bit_length (unat e) \<le> 256" by (rule bit_length_le_iff) (use unat_lt_length [of e] in simp)
  then have l: "log2floor e div 8 + 1 \<le> 32" using log2floor_eq [OF assms] bit_length_bounds [OF nz] by auto
  let ?n = "log2floor e div 8 + 1" and ?b = "(if enabled sp SPURIOUS_DRAGON then 50 else 10) :: u256"
  have un: "unat (of_nat ?n :: u256) = ?n"
    using l by (intro unat_of_nat_small) simp
  have um: "unat (?b * of_nat ?n) = unat ?b * ?n"
    using l un by (subst unat_mult_if_small) auto
  have "checked_mul ?b (of_nat ?n) = Some (?b * of_nat ?n)"
    using l un by (auto simp: checked_mul_def)
  moreover have "checked_add (ucast EXP) (?b * of_nat ?n) = Some (10 + ?b * of_nat ?n)"
    using l um by (auto simp: checked_add_def EXP_def)
  moreover have ug: "unat (10 + ?b * of_nat ?n) = 10 + unat ?b * ?n"
    using l um by (subst unat_plus_if_small) auto
  ultimately have "exp_cost sp e = Some (ucast (10 + ?b * of_nat ?n)) \<and>
      unat (ucast (10 + ?b * of_nat ?n) :: u64) = 10 + unat ?b * ?n"
    using l assms by (auto simp: exp_cost_def Let_def unsigned_ucast_eq take_bit_nat_eq_self)
  then show ?thesis
    using log2floor_eq [OF assms] bit_length_bounds [OF nz] by auto
qed

theorem exp_cost_per_byte_witness:
  "log2floor 1000 = 9 \<and> (\<exists>c. exp_cost CANCUN 1000 = Some c \<and> unat c = 110)"
proof -
  have l: "log2floor 1000 = 9"
    by (simp add: log2floor_eq bit_length.simps)
  from exp_cost_per_byte [of 1000 CANCUN] l show ?thesis
    by (simp add: enabled_def)
qed

lemma unat_num_words: "unat (num_words len) = min (unat len + 31) (2 ^ 64 - 1) div 32"
  by (simp add: num_words_def unat_div unat_saturating_add)

lemma unat_memory_gas:
  "unat (memory_gas w) =
     min (min (3 * unat w) (2 ^ 64 - 1) + min (unat w * unat w) (2 ^ 64 - 1) div 512) (2 ^ 64 - 1)"
  by (simp add: memory_gas_def unat_saturating_add unat_saturating_mul unat_div MEMORY_def)

lemma num_words_mono: "a \<le> b \<Longrightarrow> num_words a \<le> num_words b"
  by (auto simp: word_le_nat_alt unat_num_words intro!: div_le_mono)

lemma memory_gas_mono: "a \<le> b \<Longrightarrow> memory_gas a \<le> memory_gas b"
  unfolding word_le_nat_alt unat_memory_gas
  by (intro min.mono add_mono div_le_mono mult_le_mono) simp_all

text \<open>
  Memory gas grows with the size, and is the quadratic formula \<open>3 * w + w\<^sup>2 div 512\<close> of the number
  of words for every size that fits 32 bits; a length is rounded up to whole words.
\<close>

theorem memory_gas_formula:
  assumes "len < 2 ^ 32"
  shows "let w = (len + 31) div 32 in
     unat (memory_gas_for_len len) = 3 * w + w * w div 512 \<and>
     (\<forall>len'. len' \<le> len \<longrightarrow> memory_gas_for_len len' \<le> memory_gas_for_len len)"
proof -
  have u: "unat (of_nat len :: u64) = len" using assms by (intro unat_of_nat_small) simp
  let ?w = "(len + 31) div 32"
  have w: "unat (num_words (of_nat len)) = ?w" using assms u by (simp add: unat_num_words)
  have lt: "?w < 2 ^ 28" using assms by simp
  then have "?w * ?w < 2 ^ 28 * 2 ^ 28" by (intro mult_strict_mono) auto
  then have "unat (memory_gas (num_words (of_nat len))) = 3 * ?w + ?w * ?w div 512"
    using lt unfolding unat_memory_gas w by simp
  moreover have "memory_gas_for_len len' \<le> memory_gas_for_len len" if "len' \<le> len" for len'
  proof -
    have "(of_nat len' :: u64) \<le> of_nat len"
      using that assms by (simp add: word_le_nat_alt unat_of_nat_small)
    then show ?thesis by (simp add: memory_gas_for_len_def memory_gas_mono num_words_mono)
  qed
  ultimately show ?thesis by (simp add: memory_gas_for_len_def)
qed

theorem memory_gas_formula_witness: "unat (memory_gas_for_len 40000) = 6801"
  using memory_gas_formula [of 40000] by simp

end
