(* ===== verification/Stack.thy ===== *)
theory Stack
  imports Instruction_Result
begin

text \<open>
  The operand stack of \<^verbatim>\<open>interpreter/src/interpreter/stack.rs\<close> and the function stack of
  \<^verbatim>\<open>function_stack.rs\<close>. The stack is its data vector, the top at the end. An operation with a
  \<open>Result\<close> returns it beside the stack. The unchecked operations have no defined behaviour outside
  their precondition; there the model has \<open>Panic\<close>.
\<close>

type_synonym evm_stack = "u256 list"
type_synonym 'a stack_result = "(instruction_result + 'a) \<times> evm_stack"

definition STACK_LIMIT :: nat where "STACK_LIMIT = 1024"

section \<open>Popping\<close>

definition stack_pop :: "evm_stack \<Rightarrow> u256 stack_result" where
  "stack_pop s = (if s = [] then (Inl StackUnderflow, s) else (Inr (last s), butlast s))"

definition pop_unsafe :: "evm_stack \<Rightarrow> (u256 \<times> evm_stack) eval" where
  "pop_unsafe s = (if s = [] then Panic else Val (last s, butlast s))"

text \<open>\<^verbatim>\<open>top_unsafe\<close> hands out a reference to the top: a read and a write.\<close>

definition top_unsafe :: "evm_stack \<Rightarrow> u256 eval" where
  "top_unsafe s = (if s = [] then Panic else Val (last s))"

definition set_top :: "evm_stack \<Rightarrow> u256 \<Rightarrow> evm_stack eval" where
  "set_top s v = (if s = [] then Panic else Val (s[length s - 1 := v]))"

definition pop_top_unsafe :: "evm_stack \<Rightarrow> ((u256 \<times> u256) \<times> evm_stack) eval" where
  "pop_top_unsafe s =
     bindE (pop_unsafe s) (\<lambda>(pop, s). bindE (top_unsafe s) (\<lambda>top. Val ((pop, top), s)))"

definition pop2_unsafe :: "evm_stack \<Rightarrow> ((u256 \<times> u256) \<times> evm_stack) eval" where
  "pop2_unsafe s =
     bindE (pop_unsafe s) (\<lambda>(pop1, s). bindE (pop_unsafe s) (\<lambda>(pop2, s). Val ((pop1, pop2), s)))"

definition pop2_top_unsafe :: "evm_stack \<Rightarrow> ((u256 \<times> u256 \<times> u256) \<times> evm_stack) eval" where
  "pop2_top_unsafe s =
     bindE (pop_unsafe s) (\<lambda>(pop1, s).
     bindE (pop_unsafe s) (\<lambda>(pop2, s).
     bindE (top_unsafe s) (\<lambda>top. Val ((pop1, pop2, top), s))))"

definition pop3_unsafe :: "evm_stack \<Rightarrow> ((u256 \<times> u256 \<times> u256) \<times> evm_stack) eval" where
  "pop3_unsafe s =
     bindE (pop2_unsafe s) (\<lambda>((pop1, pop2), s).
     bindE (pop_unsafe s) (\<lambda>(pop3, s). Val ((pop1, pop2, pop3), s)))"

definition pop4_unsafe :: "evm_stack \<Rightarrow> ((u256 \<times> u256 \<times> u256 \<times> u256) \<times> evm_stack) eval" where
  "pop4_unsafe s =
     bindE (pop3_unsafe s) (\<lambda>((pop1, pop2, pop3), s).
     bindE (pop_unsafe s) (\<lambda>(pop4, s). Val ((pop1, pop2, pop3, pop4), s)))"

definition pop5_unsafe :: "evm_stack \<Rightarrow> ((u256 \<times> u256 \<times> u256 \<times> u256 \<times> u256) \<times> evm_stack) eval" where
  "pop5_unsafe s =
     bindE (pop4_unsafe s) (\<lambda>((pop1, pop2, pop3, pop4), s).
     bindE (pop_unsafe s) (\<lambda>(pop5, s). Val ((pop1, pop2, pop3, pop4, pop5), s)))"

section \<open>Pushing, reading and rearranging\<close>

definition stack_push :: "evm_stack \<Rightarrow> u256 \<Rightarrow> unit stack_result" where
  "stack_push s v = (if length s = STACK_LIMIT then (Inl StackOverflow, s) else (Inr (), s @ [v]))"

definition push_b256 :: "evm_stack \<Rightarrow> b256 \<Rightarrow> unit stack_result" where
  "push_b256 s v = stack_push s v"

definition stack_peek :: "evm_stack \<Rightarrow> nat \<Rightarrow> instruction_result + u256" where
  "stack_peek s no_from_top =
     (if length s > no_from_top then Inr (s ! (length s - no_from_top - 1)) else Inl StackUnderflow)"

definition stack_dup :: "evm_stack \<Rightarrow> nat \<Rightarrow> unit stack_result eval" where
  "stack_dup s n =
     (if n = 0 then Panic
      else if length s < n then Val (Inl StackUnderflow, s)
      else if length s + 1 > STACK_LIMIT then Val (Inl StackOverflow, s)
      else Val (Inr (), s @ [s ! (length s - n)]))"

definition stack_exchange :: "evm_stack \<Rightarrow> nat \<Rightarrow> nat \<Rightarrow> unit stack_result eval" where
  "stack_exchange s n m =
     (if m = 0 then Panic
      else
        let len = length s; n_m_index = n + m in
        if n_m_index \<ge> len then Val (Inl StackUnderflow, s)
        else
          let i = len - 1 - n; k = len - 1 - n_m_index
          in Val (Inr (), s[i := s ! k, k := s ! i]))"

definition stack_swap :: "evm_stack \<Rightarrow> nat \<Rightarrow> unit stack_result eval" where
  "stack_swap s n = stack_exchange s 0 n"

definition stack_set :: "evm_stack \<Rightarrow> nat \<Rightarrow> u256 \<Rightarrow> unit stack_result" where
  "stack_set s no_from_top v =
     (if length s > no_from_top then (Inr (), s[length s - no_from_top - 1 := v])
      else (Inl StackUnderflow, s))"

section \<open>Pushing a byte slice\<close>

text \<open>\<^verbatim>\<open>chunks_exact(32)\<close> with its remainder.\<close>

fun chunks_exact :: "nat \<Rightarrow> bytes \<Rightarrow> bytes list \<times> bytes" where
  "chunks_exact n bs =
     (if n = 0 \<or> length bs < n then ([], bs)
      else let (cs, r) = chunks_exact n (drop n bs) in (take n bs # cs, r))"

declare chunks_exact.simps [simp del]

text \<open>
  The limbs written for one chunk: eight bytes at a time from the end, the last limb padded with
  zeros in front.
\<close>

function rlimbs :: "bytes \<Rightarrow> u64 list" where
  "rlimbs bs =
     (if bs = [] then []
      else if length bs < 8 then [from_be_bytes (replicate (8 - length bs) 0 @ bs)]
      else from_be_bytes (drop (length bs - 8) bs) # rlimbs (take (length bs - 8) bs))"
  by auto
termination by (relation "measure length") auto

declare rlimbs.simps [simp del]

text \<open>A word in memory is four limbs, the least significant first.\<close>

fun words_of_limbs :: "u64 list \<Rightarrow> u256 list" where
  "words_of_limbs (a # b # c # d # ls) =
     of_nat (unat a + unat b * 2 ^ 64 + unat c * 2 ^ 128 + unat d * 2 ^ 192) # words_of_limbs ls"
| "words_of_limbs _ = []"

definition push_slice :: "evm_stack \<Rightarrow> bytes \<Rightarrow> unit stack_result" where
  "push_slice s bs =
     (if bs = [] then (Inr (), s)
      else
        let n_words = (length bs + 31) div 32; new_len = length s + n_words in
        if new_len > STACK_LIMIT then (Inl StackOverflow, s)
        else
          let (ws, partial_last_word) = chunks_exact 32 bs;
              limbs = concat (map rlimbs ws) @ rlimbs partial_last_word;
              m = length limbs mod 4;
              limbs = (if m \<noteq> 0 then limbs @ replicate (4 - m) 0 else limbs)
          in (Inr (), s @ words_of_limbs limbs))"

section \<open>Function stack\<close>

record function_return_frame =
  frame_idx :: nat
  frame_pc :: nat

record function_stack =
  return_stack :: "function_return_frame list"
  current_code_idx :: nat

definition fs_new :: function_stack where
  "fs_new = \<lparr>return_stack = [], current_code_idx = 0\<rparr>"

definition fs_push :: "function_stack \<Rightarrow> nat \<Rightarrow> nat \<Rightarrow> function_stack" where
  "fs_push f program_counter new_idx =
     f\<lparr>return_stack := return_stack f @ [\<lparr>frame_idx = current_code_idx f, frame_pc = program_counter\<rparr>],
       current_code_idx := new_idx\<rparr>"

definition return_stack_len :: "function_stack \<Rightarrow> nat" where
  "return_stack_len f = length (return_stack f)"

definition fs_pop :: "function_stack \<Rightarrow> function_return_frame option \<times> function_stack" where
  "fs_pop f =
     (if return_stack f = [] then (None, f)
      else let frame = last (return_stack f) in
        (Some frame, f\<lparr>return_stack := butlast (return_stack f), current_code_idx := frame_idx frame\<rparr>))"

definition set_current_code_idx :: "function_stack \<Rightarrow> nat \<Rightarrow> function_stack" where
  "set_current_code_idx f idx = f\<lparr>current_code_idx := idx\<rparr>"

section \<open>The slice is pushed word by word\<close>

text \<open>The bytes cut into words of 32, the last one possibly shorter.\<close>

function chunks32 :: "bytes \<Rightarrow> bytes list" where
  "chunks32 bs = (if bs = [] then [] else take 32 bs # chunks32 (drop 32 bs))"
  by auto
termination by (relation "measure length") auto

declare chunks32.simps [simp del]

lemma be_nat_append: "be_nat (a @ b) = be_nat a * 256 ^ length b + be_nat b"
proof (induction b rule: rev_induct)
  case (snoc x b)
  have "be_nat (a @ b @ [x]) = be_nat (a @ b) * 256 + unat x"
    using be_nat_snoc [of "a @ b" x] by simp
  with snoc show ?case by (simp add: algebra_simps)
qed simp

lemma be_nat_replicate_zero [simp]: "be_nat (replicate n 0) = 0"
proof (induction n)
  case (Suc n)
  have "be_nat (replicate (Suc n) 0) = be_nat (replicate n 0 @ [0])"
    by (simp add: replicate_append_same)
  with Suc show ?case by (simp del: replicate.simps)
qed simp

lemma be_nat_zeros: "be_nat (replicate n 0 @ bs) = be_nat bs"
  by (simp add: be_nat_append)

text \<open>The value of limbs, least significant first.\<close>

fun limbs_nat :: "u64 list \<Rightarrow> nat" where
  "limbs_nat [] = 0"
| "limbs_nat (l # ls) = unat l + 2 ^ 64 * limbs_nat ls"

lemma unat_from_be_small: "length bs \<le> 8 \<Longrightarrow> unat (from_be_bytes bs :: u64) = be_nat bs"
proof -
  assume "length bs \<le> 8"
  then have "(256::nat) ^ length bs \<le> 256 ^ 8" by (intro power_increasing) auto
  then have "be_nat bs < 2 ^ 64" using be_nat_less [of bs] by simp
  then show ?thesis unfolding from_be_bytes_def by (intro unat_of_nat_small) simp
qed

lemma limbs_nat_rlimbs: "limbs_nat (rlimbs bs) = be_nat bs"
proof (induction bs rule: rlimbs.induct)
  case (1 bs)
  consider "bs = []" | "bs \<noteq> []" "length bs < 8" | "8 \<le> length bs" by fastforce
  then show ?case
  proof cases
    case 3
    let ?k = "length bs - 8"
    have len: "length (drop ?k bs) = 8" using 3 by simp
    have "limbs_nat (rlimbs bs) = be_nat (drop ?k bs) + 2 ^ 64 * be_nat (take ?k bs)"
      using 1 3 unat_from_be_small [of "drop ?k bs"] len by (subst rlimbs.simps) auto
    also have "\<dots> = be_nat (take ?k bs @ drop ?k bs)"
      unfolding be_nat_append len by simp
    finally show ?thesis by simp
  qed (simp_all add: rlimbs.simps unat_from_be_small be_nat_zeros)
qed

lemma length_rlimbs: "length (rlimbs bs) = (length bs + 7) div 8"
proof (induction bs rule: rlimbs.induct)
  case (1 bs)
  consider "bs = []" | "bs \<noteq> []" "length bs < 8" | "8 \<le> length bs" by fastforce
  then show ?case
  proof cases
    case 2
    then have "(length bs + 7) div 8 = 1" by (cases bs) auto
    with 2 show ?thesis by (simp add: rlimbs.simps)
  next
    case 3
    then have "bs \<noteq> []" by auto
    with 1 3 show ?thesis by (subst rlimbs.simps) auto
  qed (simp add: rlimbs.simps)
qed

lemma limbs_nat_append_zeros: "limbs_nat (ls @ replicate n 0) = limbs_nat ls"
proof (induction ls)
  case Nil
  show ?case by (induction n) simp_all
qed simp

text \<open>Four limbs make the word with their value.\<close>

lemma words_of_limbs_four:
  assumes "length ls = 4"
  shows "words_of_limbs (ls @ rest) = of_nat (limbs_nat ls) # words_of_limbs rest"
proof -
  obtain a b c d where "ls = [a, b, c, d]"
    using assms by (auto simp: length_Suc_conv eval_nat_numeral)
  then show ?thesis by (simp add: algebra_simps)
qed

lemma words_of_limbs_chunk:
  assumes "0 < length c" and "length c \<le> 32"
  defines "pad \<equiv> replicate (4 - length (rlimbs c)) 0"
  shows "words_of_limbs (rlimbs c @ pad @ rest) = from_be_bytes c # words_of_limbs rest"
proof -
  have "length (rlimbs c @ pad) = 4" using assms(2) by (auto simp: length_rlimbs pad_def)
  from words_of_limbs_four [OF this, of rest] show ?thesis
    by (simp add: pad_def limbs_nat_append_zeros limbs_nat_rlimbs from_be_bytes_def)
qed

text \<open>Exact chunks and remainder are the cut into words.\<close>

lemma chunks_exact_props:
  assumes "chunks_exact 32 bs = (ws, r)"
  shows "(\<forall>w \<in> set ws. length w = 32) \<and> length r < 32 \<and>
         chunks32 bs = ws @ (if r = [] then [] else [r])"
  using assms
proof (induction "32::nat" bs arbitrary: ws r rule: chunks_exact.induct)
  case (1 bs)
  show ?case
  proof (cases "length bs < 32")
    case True
    then have "chunks32 bs = (if bs = [] then [] else [bs])"
      by (simp add: chunks32.simps [of bs] chunks32.simps [of "[]"])
    with True "1.prems" show ?thesis by (auto simp: chunks_exact.simps)
  next
    case False
    obtain ws' r' where rec: "chunks_exact 32 (drop 32 bs) = (ws', r')" by fastforce
    have "ws = take 32 bs # ws'" and "r = r'"
      using "1.prems" False rec by (auto simp: chunks_exact.simps [of _ bs])
    moreover have "bs \<noteq> []" using False by auto
    ultimately show ?thesis
      using "1.hyps" [OF _ rec] False by (subst chunks32.simps [of bs]) auto
  qed
qed

lemma words_of_limbs_chunks:
  assumes "\<forall>w \<in> set ws. length w = 32"
  shows "words_of_limbs (concat (map rlimbs ws) @ rest) = map from_be_bytes ws @ words_of_limbs rest"
  using assms
proof (induction ws)
  case (Cons w ws)
  then show ?case
    using words_of_limbs_chunk [of w "concat (map rlimbs ws) @ rest"] by (simp add: length_rlimbs)
qed simp

lemma length_concat_rlimbs:
  "\<forall>w \<in> set ws. length w = 32 \<Longrightarrow> length (concat (map rlimbs ws)) = 4 * length ws"
  by (induction ws) (auto simp: length_rlimbs)

lemma words_of_limbs_last:
  assumes "length r < 32"
  defines "m \<equiv> length (rlimbs r) mod 4"
  shows "words_of_limbs (rlimbs r @ (if m \<noteq> 0 then replicate (4 - m) 0 else [])) =
         (if r = [] then [] else [from_be_bytes r])"
proof (cases "r = []")
  case False
  have le: "length (rlimbs r) \<le> 4" and pos: "0 < length (rlimbs r)"
    using assms(1) False by (auto simp: length_rlimbs div_greater_zero_iff Suc_le_eq)
  then have "replicate (4 - length (rlimbs r)) 0 = (if m \<noteq> 0 then replicate (4 - m) (0::u64) else [])"
    by (cases "length (rlimbs r) = 4") (auto simp: m_def)
  with words_of_limbs_chunk [of r "[]"] False assms(1) show ?thesis by simp
qed (simp add: m_def rlimbs.simps)

lemma push_slice_words:
  assumes "bs \<noteq> []"
  shows "push_slice s bs =
     (if length s + (length bs + 31) div 32 > STACK_LIMIT then (Inl StackOverflow, s)
      else (Inr (), s @ map from_be_bytes (chunks32 bs)))"
proof -
  obtain ws r where c: "chunks_exact 32 bs = (ws, r)" by fastforce
  note p = chunks_exact_props [OF c]
  let ?m = "length (rlimbs r) mod 4"
  let ?pad = "if ?m \<noteq> 0 then replicate (4 - ?m) (0::u64) else []"
  have m: "length (concat (map rlimbs ws) @ rlimbs r) mod 4 = ?m"
    using p length_concat_rlimbs [of ws] by simp
  have "words_of_limbs ((concat (map rlimbs ws) @ rlimbs r) @ ?pad) = map from_be_bytes (chunks32 bs)"
    using words_of_limbs_chunks [of ws "rlimbs r @ ?pad"] words_of_limbs_last [of r] p by simp
  then show ?thesis using assms unfolding push_slice_def c Let_def prod.case m by auto
qed

lemma div_eq_one: "n \<le> (m::nat) \<Longrightarrow> m < 2 * n \<Longrightarrow> m div n = 1"
  by (simp add: div_nat_eqI)

lemma length_chunks32: "length (chunks32 bs) = (length bs + 31) div 32"
proof (induction bs rule: chunks32.induct)
  case (1 bs)
  show ?case
  proof (cases "bs = []")
    case False
    then have "length (chunks32 bs) = 1 + (length bs - 32 + 31) div 32"
      using 1 by (subst chunks32.simps) simp
    also have "\<dots> = (length bs + 31) div 32"
      using False by (cases "32 \<le> length bs") (simp_all add: div_eq_one Suc_le_eq)
    finally show ?thesis .
  qed (simp add: chunks32.simps)
qed

lemma concat_chunks32: "concat (chunks32 bs) = bs"
proof (induction bs rule: chunks32.induct)
  case (1 bs)
  then show ?case by (cases "bs = []") (subst chunks32.simps; simp)+
qed

text \<open>
  C23. \<^verbatim>\<open>push_slice\<close> writes 64-bit limbs straight into the stack's buffer, from the end of each
  word, pads the last limb in front and zeroes the rest of the last word. It is the plain
  definition: cut the slice into words of 32 bytes, the last possibly shorter, and append the
  big-endian value of each; the number of words appended is the number reserved, and a slice that
  does not fit leaves the stack as it was.
\<close>

theorem push_slice_is_word_by_word:
  assumes "length s \<le> STACK_LIMIT"
  shows "push_slice s bs =
           (if length s + length (chunks32 bs) \<le> STACK_LIMIT
            then (Inr (), s @ map from_be_bytes (chunks32 bs)) else (Inl StackOverflow, s)) \<and>
         concat (chunks32 bs) = bs \<and> length (chunks32 bs) = (length bs + 31) div 32"
proof (cases "bs = []")
  case True
  with assms show ?thesis by (simp add: push_slice_def chunks32.simps)
next
  case False
  then show ?thesis by (simp add: push_slice_words length_chunks32 concat_chunks32)
qed

text \<open>Witness: 33 bytes on a one-word stack give two more words, the second from one byte.\<close>

theorem push_slice_is_word_by_word_witness:
  "push_slice [7] (replicate 31 0 @ [1, 2]) = (Inr (), [7, 1, 2])"
  using push_slice_is_word_by_word [of "[7]" "replicate 31 0 @ [1, 2]"]
  by (simp add: STACK_LIMIT_def chunks32.simps from_be_bytes_def be_nat_zeros be_nat_def [of "[_]"])

section \<open>The size limit\<close>

lemma pop_unsafe_shrinks: "pop_unsafe s = Val (v, s') \<Longrightarrow> length s' \<le> length s"
  by (auto simp: pop_unsafe_def split: if_splits)

text \<open>
  The size limit is an invariant: a stack within 1024 words stays within it under every
  checked operation, and each of them that returns an error leaves the stack unchanged.
\<close>

theorem stack_limit_invariant:
  assumes "length s \<le> STACK_LIMIT"
  shows "length (snd (stack_push s v)) \<le> STACK_LIMIT \<and> length (snd (stack_pop s)) \<le> STACK_LIMIT \<and>
     length (snd (push_slice s bs)) \<le> STACK_LIMIT \<and> length (snd (stack_set s n v)) \<le> STACK_LIMIT \<and>
     (\<forall>r s'. stack_dup s n = Val (r, s') \<or> stack_exchange s n m = Val (r, s') \<or> stack_swap s m = Val (r, s')
        \<longrightarrow> length s' \<le> STACK_LIMIT \<and> (r \<noteq> Inr () \<longrightarrow> s' = s)) \<and>
     (fst (stack_push s v) \<noteq> Inr () \<longrightarrow> snd (stack_push s v) = s) \<and>
     (fst (push_slice s bs) \<noteq> Inr () \<longrightarrow> snd (push_slice s bs) = s) \<and>
     (fst (stack_set s n v) \<noteq> Inr () \<longrightarrow> snd (stack_set s n v) = s)"
proof (intro conjI allI)
  have "push_slice s bs =
           (if length s + length (chunks32 bs) \<le> STACK_LIMIT
            then (Inr (), s @ map from_be_bytes (chunks32 bs)) else (Inl StackOverflow, s))"
    using assms by (cases "bs = []") (simp_all add: push_slice_words length_chunks32
        push_slice_def [of s "[]"] chunks32.simps [of "[]"])
  with assms show "length (snd (push_slice s bs)) \<le> STACK_LIMIT"
    and "fst (push_slice s bs) \<noteq> Inr () \<longrightarrow> snd (push_slice s bs) = s" by simp_all
qed (use assms in \<open>auto simp: stack_push_def stack_pop_def stack_set_def stack_dup_def
       stack_swap_def stack_exchange_def Let_def split: if_splits\<close>)

text \<open>Witness: pushing on a full stack is an overflow that keeps it.\<close>

theorem stack_limit_invariant_witness:
  "stack_push (replicate 1024 0) 5 = (Inl StackOverflow, replicate 1024 0) \<and>
   length (snd (stack_push (replicate 1024 0) 5)) \<le> STACK_LIMIT"
proof -
  have "length (replicate 1024 0) \<le> STACK_LIMIT" by (simp add: STACK_LIMIT_def)
  from stack_limit_invariant [OF this, of 5] show ?thesis
    by (simp add: stack_push_def STACK_LIMIT_def)
qed

section \<open>Rearranging\<close>

lemma peek_nth: "stack_peek s i = (if i < length s then Inr (rev s ! i) else Inl StackUnderflow)"
  by (auto simp: stack_peek_def rev_nth)

text \<open>
  \<^verbatim>\<open>dup\<close> and \<^verbatim>\<open>exchange\<close> (hence \<^verbatim>\<open>swap\<close>), read through \<^verbatim>\<open>peek\<close>: \<^verbatim>\<open>dup(n)\<close> puts the
  \<open>n\<close>-th value on top and keeps the others one deeper; \<^verbatim>\<open>exchange(n, m)\<close> swaps the values at depth
  \<open>n\<close> and \<open>n + m\<close> and nothing else, fails only by underflow, and is its own inverse.
\<close>

theorem dup_and_exchange:
  assumes "0 < n" and "0 < m"
  shows "(\<forall>s'. stack_dup s n = Val (Inr (), s') \<longrightarrow>
            stack_peek s' 0 = stack_peek s (n - 1) \<and> (\<forall>i. stack_peek s' (Suc i) = stack_peek s i)) \<and>
         (\<exists>r s'. stack_exchange s k m = Val (r, s') \<and>
            (r = Inl StackUnderflow \<and> s' = s \<and> length s \<le> k + m \<or>
             r = Inr () \<and> k + m < length s \<and> stack_exchange s' k m = Val (Inr (), s) \<and>
             (\<forall>i. stack_peek s' i = (if i = k then stack_peek s (k + m)
                else if i = k + m then stack_peek s k else stack_peek s i))))"
proof (intro conjI)
  show "\<forall>s'. stack_dup s n = Val (Inr (), s') \<longrightarrow>
          stack_peek s' 0 = stack_peek s (n - 1) \<and> (\<forall>i. stack_peek s' (Suc i) = stack_peek s i)"
    using assms(1) by (auto simp: stack_dup_def peek_nth rev_nth split: if_splits)
  show "\<exists>r s'. stack_exchange s k m = Val (r, s') \<and>
            (r = Inl StackUnderflow \<and> s' = s \<and> length s \<le> k + m \<or>
             r = Inr () \<and> k + m < length s \<and> stack_exchange s' k m = Val (Inr (), s) \<and>
             (\<forall>i. stack_peek s' i = (if i = k then stack_peek s (k + m)
                else if i = k + m then stack_peek s k else stack_peek s i)))"
  proof (cases "k + m < length s")
    case True
    let ?i = "length s - 1 - k" and ?j = "length s - 1 - (k + m)"
    let ?t = "s[?i := s ! ?j, ?j := s ! ?i]"
    have idx: "?j < ?i" "?i < length s" using True assms(2) by auto
    have ex: "stack_exchange s k m = Val (Inr (), ?t)"
      using True assms(2) by (simp add: stack_exchange_def Let_def)
    have inv: "?t[?i := ?t ! ?j, ?j := ?t ! ?i] = s"
      using idx by (intro nth_equalityI) (auto simp: nth_list_update)
    have back_again: "stack_exchange ?t k m = Val (Inr (), s)"
      using True assms(2) inv by (simp add: stack_exchange_def Let_def del: list_update_overwrite)
    have "stack_peek ?t i = (if i = k then stack_peek s (k + m)
                else if i = k + m then stack_peek s k else stack_peek s i)" for i
      using True assms(2) idx by (auto simp: stack_peek_def nth_list_update)
    with ex back_again True show ?thesis by blast
  qed (use assms(2) in \<open>auto simp: stack_exchange_def Let_def\<close>)
qed

text \<open>Witness: \<^verbatim>\<open>SWAP2\<close> on three words.\<close>

theorem dup_and_exchange_witness:
  "stack_swap [1, 2, 3] 2 = Val (Inr (), [3, 2, 1]) \<and>
   (\<exists>s'. stack_exchange [1, 2, 3] 0 2 = Val (Inr (), s') \<and> stack_exchange s' 0 2 = Val (Inr (), [1, 2, 3]))"
  using dup_and_exchange [of 1 2 "[1, 2, 3]" 0]
  by (simp add: stack_swap_def stack_exchange_def Let_def)

section \<open>Function calls\<close>

text \<open>Returning from a function restores the caller's code section, and gives its program counter.\<close>

lemma fs_pop_push:
  "fs_pop (fs_push f pc idx) = (Some \<lparr>frame_idx = current_code_idx f, frame_pc = pc\<rparr>, f)"
  by (simp add: fs_pop_def fs_push_def)

end
