(* ===== verification/Memory.thy ===== *)
theory Memory
  imports Gas Instruction_Result
begin

text \<open>
  The memory shared between call frames, \<^verbatim>\<open>interpreter/src/interpreter/shared_memory.rs\<close>, with the
  gas-metered growth of \<^verbatim>\<open>interpreter.rs\<close> and of the \<^verbatim>\<open>resize_memory!\<close> macro. One buffer holds
  the memories of all open frames; a frame sees the part after the last checkpoint. Sizes are \<open>nat\<close>;
  access outside the current frame's memory is \<open>Panic\<close>. The field \<^verbatim>\<open>memory_limit\<close> belongs to the
  feature of that name, and \<^verbatim>\<open>u64::MAX\<close>, the value of \<^verbatim>\<open>new\<close>, is the behaviour without it.
\<close>

record shared_memory =
  buffer :: bytes
  checkpoints :: "nat list"
  last_checkpoint :: nat
  memory_limit :: u64

section \<open>Contexts\<close>

definition EMPTY_SHARED_MEMORY :: shared_memory where
  "EMPTY_SHARED_MEMORY = \<lparr>buffer = [], checkpoints = [], last_checkpoint = 0, memory_limit = - 1\<rparr>"

definition memory_new :: shared_memory where
  "memory_new = \<lparr>buffer = [], checkpoints = [], last_checkpoint = 0, memory_limit = - 1\<rparr>"

definition new_with_memory_limit :: "u64 \<Rightarrow> shared_memory" where
  "new_with_memory_limit l = memory_new\<lparr>memory_limit := l\<rparr>"

definition limit_reached :: "shared_memory \<Rightarrow> nat \<Rightarrow> bool" where
  "limit_reached m new_size = (min (last_checkpoint m + new_size) (2 ^ 64 - 1) > unat (memory_limit m))"

definition new_context :: "shared_memory \<Rightarrow> shared_memory" where
  "new_context m =
     (let new_checkpoint = length (buffer m)
      in m\<lparr>checkpoints := checkpoints m @ [new_checkpoint], last_checkpoint := new_checkpoint\<rparr>)"

text \<open>\<^verbatim>\<open>set_len\<close> past the end of the buffer would expose unwritten bytes: \<open>Panic\<close>.\<close>

definition free_context :: "shared_memory \<Rightarrow> shared_memory eval" where
  "free_context m =
     (if checkpoints m = [] then Val m
      else
        let old_checkpoint = last (checkpoints m); cs = butlast (checkpoints m) in
        if length (buffer m) < old_checkpoint then Panic
        else Val (m\<lparr>checkpoints := cs, last_checkpoint := (if cs = [] then 0 else last cs),
                    buffer := take old_checkpoint (buffer m)\<rparr>))"

definition mem_len :: "shared_memory \<Rightarrow> nat" where
  "mem_len m = length (buffer m) - last_checkpoint m"

definition context_memory :: "shared_memory \<Rightarrow> bytes" where
  "context_memory m = drop (last_checkpoint m) (buffer m)"

definition current_expansion_cost :: "shared_memory \<Rightarrow> u64" where
  "current_expansion_cost m = memory_gas_for_len (mem_len m)"

text \<open>
  \<^verbatim>\<open>Vec::resize\<close> to \<^verbatim>\<open>last_checkpoint + new_size\<close> bytes. The sum is a \<^verbatim>\<open>usize\<close> and a vector holds at most
  \<^verbatim>\<open>isize::MAX\<close> bytes: beyond that the addition overflows or the allocation panics.
\<close>

definition mem_resize :: "shared_memory \<Rightarrow> nat \<Rightarrow> shared_memory eval" where
  "mem_resize m new_size =
     (let n = last_checkpoint m + new_size
      in if n < 2 ^ 63 then Val (m\<lparr>buffer := take n (buffer m) @ replicate (n - length (buffer m)) 0\<rparr>)
         else Panic)"

section \<open>Reading\<close>

definition slice_range :: "shared_memory \<Rightarrow> nat \<Rightarrow> nat \<Rightarrow> bytes eval" where
  "slice_range m start fin =
     (if start \<le> fin \<and> fin \<le> length (context_memory m)
      then Val (take (fin - start) (drop start (context_memory m))) else Panic)"

definition mem_slice :: "shared_memory \<Rightarrow> nat \<Rightarrow> nat \<Rightarrow> bytes eval" where
  "mem_slice m offset sz = slice_range m offset (offset + sz)"

definition get_byte :: "shared_memory \<Rightarrow> nat \<Rightarrow> u8 eval" where
  "get_byte m offset = bindE (mem_slice m offset 1) (\<lambda>s. Val (s ! 0))"

definition get_word :: "shared_memory \<Rightarrow> nat \<Rightarrow> b256 eval" where
  "get_word m offset = bindE (mem_slice m offset 32) (\<lambda>s. Val (from_be_bytes s))"

definition get_u256 :: "shared_memory \<Rightarrow> nat \<Rightarrow> u256 eval" where
  "get_u256 m offset = get_word m offset"

section \<open>Writing\<close>

text \<open>
  \<^verbatim>\<open>slice_mut\<close> hands out a part of the current frame's memory; every caller overwrites the whole
  part at once, with bytes given to \<^verbatim>\<open>copy_from_slice\<close>, which must be as many, or with
  \<^verbatim>\<open>fill(0)\<close>.
\<close>

definition slice_mut :: "shared_memory \<Rightarrow> nat \<Rightarrow> nat \<Rightarrow> bytes \<Rightarrow> shared_memory eval" where
  "slice_mut m offset sz new =
     (let ctx = context_memory m in
      if offset + sz \<le> length ctx \<and> length new = sz
      then Val (m\<lparr>buffer := take (last_checkpoint m) (buffer m) @
                  take offset ctx @ new @ drop (offset + sz) ctx\<rparr>)
      else Panic)"

definition mem_set :: "shared_memory \<Rightarrow> nat \<Rightarrow> bytes \<Rightarrow> shared_memory eval" where
  "mem_set m offset v = (if v \<noteq> [] then slice_mut m offset (length v) v else Val m)"

definition set_byte :: "shared_memory \<Rightarrow> nat \<Rightarrow> u8 \<Rightarrow> shared_memory eval" where
  "set_byte m offset byte = mem_set m offset [byte]"

definition set_word :: "shared_memory \<Rightarrow> nat \<Rightarrow> b256 \<Rightarrow> shared_memory eval" where
  "set_word m offset v = mem_set m offset (to_be_bytes v)"

definition set_u256 :: "shared_memory \<Rightarrow> nat \<Rightarrow> u256 \<Rightarrow> shared_memory eval" where
  "set_u256 m offset v = mem_set m offset (to_be_bytes v)"

definition set_data :: "shared_memory \<Rightarrow> nat \<Rightarrow> nat \<Rightarrow> nat \<Rightarrow> bytes \<Rightarrow> shared_memory eval" where
  "set_data m memory_offset data_offset len data =
     (if data_offset \<ge> length data then slice_mut m memory_offset len (replicate len 0)
      else
        let data_end = min (data_offset + len) (length data);
            data_len = data_end - data_offset;
            data = take data_len (drop data_offset data)
        in bindE (slice_mut m memory_offset data_len data) (\<lambda>m.
           slice_mut m (memory_offset + data_len) (len - data_len) (replicate (len - data_len) 0)))"

text \<open>\<^verbatim>\<open>copy_within\<close> panics when the source or the destination leaves the slice.\<close>

definition mem_copy :: "shared_memory \<Rightarrow> nat \<Rightarrow> nat \<Rightarrow> nat \<Rightarrow> shared_memory eval" where
  "mem_copy m dst src len =
     (let ctx = context_memory m in
      if src + len \<le> length ctx \<and> dst \<le> length ctx - len
      then slice_mut m dst len (take len (drop src ctx)) else Panic)"

section \<open>Growing for gas\<close>

definition resize_memory :: "shared_memory \<Rightarrow> gas \<Rightarrow> nat \<Rightarrow> (bool \<times> shared_memory \<times> gas) eval" where
  "resize_memory m g new_size =
     (let new_words = num_words (of_nat new_size);
          new_cost = memory_gas new_words;
          current_cost = current_expansion_cost m
      in bindE (minus_or_panic new_cost current_cost) (\<lambda>cost.
           let (success, g) = record_cost g cost
           in if success then bindE (mem_resize m (unat new_words * 32)) (\<lambda>m. Val (success, m, g))
              else Val (success, m, g)))"

text \<open>The macro \<^verbatim>\<open>resize_memory!\<close>: the instruction's error, if any.\<close>

definition resize_memory_macro ::
  "shared_memory \<Rightarrow> gas \<Rightarrow> nat \<Rightarrow> nat \<Rightarrow> (instruction_result option \<times> shared_memory \<times> gas) eval" where
  "resize_memory_macro m g offset len =
     (let new_size = min (offset + len) (2 ^ 64 - 1) in
      if new_size > mem_len m then
        if limit_reached m new_size then Val (Some MemoryLimitOOG, m, g)
        else bindE (resize_memory m g new_size) (\<lambda>(success, m, g).
               Val (if success then None else Some MemoryOOG, m, g))
      else Val (None, m, g))"

section \<open>The invariant\<close>

text \<open>
  The checkpoints grow, stay within the buffer, and the cached last one is the last one.
\<close>

definition mem_inv :: "shared_memory \<Rightarrow> bool" where
  "mem_inv m \<longleftrightarrow> sorted (checkpoints m) \<and> (\<forall>c \<in> set (checkpoints m). c \<le> length (buffer m)) \<and>
     last_checkpoint m = (if checkpoints m = [] then 0 else last (checkpoints m))"

lemma mem_inv_last: "mem_inv m \<Longrightarrow> last_checkpoint m \<le> length (buffer m)"
  by (auto simp: mem_inv_def)

lemma mem_inv_below_last: "mem_inv m \<Longrightarrow> c \<in> set (checkpoints m) \<Longrightarrow> c \<le> last_checkpoint m"
  by (cases "checkpoints m" rule: rev_cases) (auto simp: mem_inv_def sorted_append)

text \<open>What an operation of a frame may change: the bytes after the last checkpoint.\<close>

definition same_below :: "shared_memory \<Rightarrow> shared_memory \<Rightarrow> bool" where
  "same_below m m' \<longleftrightarrow> checkpoints m' = checkpoints m \<and> last_checkpoint m' = last_checkpoint m \<and>
     memory_limit m' = memory_limit m \<and> last_checkpoint m \<le> length (buffer m') \<and>
     take (last_checkpoint m) (buffer m') = take (last_checkpoint m) (buffer m)"

lemma same_below_inv: "mem_inv m \<Longrightarrow> same_below m m' \<Longrightarrow> mem_inv m'"
  using mem_inv_below_last [of m] by (fastforce simp: mem_inv_def same_below_def)

lemma same_below_refl: "mem_inv m \<Longrightarrow> same_below m m"
  using mem_inv_last by (simp add: same_below_def)

lemma same_below_trans: "same_below a b \<Longrightarrow> same_below b c \<Longrightarrow> same_below a c"
  by (auto simp: same_below_def)

lemma resize_same_below: "mem_inv m \<Longrightarrow> mem_resize m n = Val m' \<Longrightarrow> same_below m m'"
  using mem_inv_last [of m] by (auto simp: same_below_def mem_resize_def Let_def min_def split: if_splits)

lemma slice_mut_same_below: "mem_inv m \<Longrightarrow> slice_mut m i n v = Val m' \<Longrightarrow> same_below m m'"
  using mem_inv_last [of m] by (auto simp: same_below_def slice_mut_def Let_def split: if_splits)

lemma set_same_below: "mem_inv m \<Longrightarrow> mem_set m i v = Val m' \<Longrightarrow> same_below m m'"
  by (auto simp: mem_set_def slice_mut_same_below same_below_refl split: if_splits)

lemma mem_len_context: "mem_len m = length (context_memory m)"
  by (simp add: mem_len_def context_memory_def)

text \<open>Two adjacent writes are one.\<close>

lemma slice_mut_adjacent:
  assumes "mem_inv m"
  shows "bindE (slice_mut m i (length a) a) (\<lambda>m. slice_mut m (i + length a) (length b) b) =
         slice_mut m i (length a + length b) (a @ b)"
proof (cases "i + (length a + length b) \<le> length (context_memory m)")
  case True
  then show ?thesis using mem_inv_last [OF assms]
    by (simp add: slice_mut_def context_memory_def Let_def ac_simps)
next
  case False
  then show ?thesis using mem_inv_last [OF assms]
    by (auto simp: slice_mut_def context_memory_def Let_def)
qed

text \<open>The bytes \<open>j, j + 1, ...\<close> of the data, zeros after its end.\<close>

definition padded_data :: "bytes \<Rightarrow> nat \<Rightarrow> nat \<Rightarrow> bytes" where
  "padded_data d j n = map (\<lambda>k. if j + k < length d then d ! (j + k) else 0) [0..<n]"

lemma padded_data_split:
  assumes "j < length d"
  shows "padded_data d j n =
    take (min (j + n) (length d) - j) (drop j d) @ replicate (n - (min (j + n) (length d) - j)) 0"
  using assms by (intro nth_equalityI) (auto simp: padded_data_def nth_append min_def)

lemma set_data_padded:
  assumes "mem_inv m"
  shows "set_data m i j n d = slice_mut m i n (padded_data d j n)"
proof (cases "j < length d")
  case True
  let ?k = "min (j + n) (length d) - j"
  let ?a = "take ?k (drop j d)" and ?b = "replicate (n - ?k) (0::u8)"
  have k: "length ?a = ?k" "length ?b = n - ?k" "?k + (n - ?k) = n" using True by auto
  show ?thesis
    using slice_mut_adjacent [OF assms, of i ?a ?b] True
    unfolding k padded_data_split [OF True] set_data_def Let_def by simp
next
  case False
  then have "padded_data d j n = replicate n 0"
    by (intro nth_equalityI) (auto simp: padded_data_def)
  with False show ?thesis by (simp add: set_data_def)
qed

lemma set_data_same_below:
  "mem_inv m \<Longrightarrow> set_data m i j n d = Val m' \<Longrightarrow> same_below m m'"
  by (simp add: set_data_padded slice_mut_same_below)

lemma copy_same_below: "mem_inv m \<Longrightarrow> mem_copy m i j n = Val m' \<Longrightarrow> same_below m m'"
  by (auto simp: mem_copy_def Let_def slice_mut_same_below split: if_splits)

lemmas frame_ops_same_below =
  resize_same_below set_same_below set_data_same_below copy_same_below

lemma new_context_inv: "mem_inv m \<Longrightarrow> mem_inv (new_context m)"
  by (auto simp: mem_inv_def new_context_def Let_def sorted_append)

lemma free_context_inv: "mem_inv m \<Longrightarrow> \<exists>m'. free_context m = Val m' \<and> mem_inv m'"
  by (cases "checkpoints m" rule: rev_cases)
     (auto simp: mem_inv_def free_context_def Let_def sorted_append)

text \<open>
  The struct's documented invariant, the checkpoints in bounds of the buffer and
  \<^verbatim>\<open>last_checkpoint\<close> the last of them, holds of a new memory and is kept by every operation; given
  it, freeing a context never exposes bytes past the buffer's end.
\<close>

theorem memory_invariant:
  assumes "mem_inv m"
  shows "mem_inv memory_new \<and> mem_inv (new_context m) \<and>
     (\<exists>m'. free_context m = Val m' \<and> mem_inv m') \<and>
     (\<forall>m'. mem_resize m n = Val m' \<or> mem_set m i v = Val m' \<or> set_data m i j n v = Val m' \<or> mem_copy m i j n = Val m'
        \<longrightarrow> mem_inv m')"
proof (intro conjI)
  show "mem_inv memory_new" by (simp add: mem_inv_def memory_new_def)
  show "\<forall>m'. mem_resize m n = Val m' \<or> mem_set m i v = Val m' \<or> set_data m i j n v = Val m' \<or> mem_copy m i j n = Val m'
        \<longrightarrow> mem_inv m'"
    using assms frame_ops_same_below same_below_inv by blast
qed (use assms new_context_inv free_context_inv in \<open>simp_all\<close>)

text \<open>Witness: opening a second context after growing the first.\<close>

theorem memory_invariant_witness:
  "\<exists>m. mem_resize (new_context memory_new) 3 = Val m \<and> mem_inv m \<and> mem_inv (new_context m) \<and>
     buffer (new_context m) = replicate 3 0"
proof -
  have "mem_inv memory_new" by (simp add: mem_inv_def memory_new_def)
  from memory_invariant [OF this] have inv: "mem_inv (new_context memory_new)" by blast
  obtain m where m: "mem_resize (new_context memory_new) 3 = Val m" "buffer (new_context m) = replicate 3 0"
    by (simp add: new_context_def mem_resize_def memory_new_def)
  with memory_invariant [OF inv, of 3] have "mem_inv m" by blast
  with memory_invariant [OF this] m show ?thesis by blast
qed

section \<open>A callee cannot touch its caller's memory\<close>

text \<open>
  What a frame does to the memory between its opening and its closing: its own reads and writes, and
  complete frames it opens itself.
\<close>

inductive frame_run_mem :: "shared_memory \<Rightarrow> shared_memory \<Rightarrow> bool" where
  stop: "frame_run_mem m m"
| grow: "frame_run_mem m a \<Longrightarrow> mem_resize a n = Val b \<Longrightarrow> frame_run_mem m b"
| store: "frame_run_mem m a \<Longrightarrow> mem_set a i v = Val b \<Longrightarrow> frame_run_mem m b"
| data: "frame_run_mem m a \<Longrightarrow> set_data a i j n v = Val b \<Longrightarrow> frame_run_mem m b"
| move: "frame_run_mem m a \<Longrightarrow> mem_copy a i j n = Val b \<Longrightarrow> frame_run_mem m b"
| call: "frame_run_mem m a \<Longrightarrow> frame_run_mem (new_context a) b \<Longrightarrow> free_context b = Val c \<Longrightarrow>
         frame_run_mem m c"

text \<open>Closing a context that was only written above its checkpoint restores the memory before it.\<close>

lemma free_after_same_below:
  assumes "mem_inv m" and "same_below (new_context m) m'"
  shows "free_context m' = Val m"
  using assms by (cases m) (auto simp: same_below_def new_context_def free_context_def mem_inv_def Let_def)

lemma frame_run_mem_same_below: "frame_run_mem m m' \<Longrightarrow> mem_inv m \<Longrightarrow> same_below m m'"
proof (induction rule: frame_run_mem.induct)
  case (call m a b c)
  have a: "same_below m a" and inv: "mem_inv a"
    using call.IH(1) call.prems same_below_inv by blast+
  have "free_context b = Val a"
    using free_after_same_below [OF inv call.IH(2)] new_context_inv [OF inv] by blast
  with a call.hyps show ?case by simp
qed (blast intro: same_below_refl same_below_trans same_below_inv frame_ops_same_below)+

text \<open>
  C21. A callee cannot touch its caller's memory: whatever a frame does between
  \<^verbatim>\<open>new_context\<close> and \<^verbatim>\<open>free_context\<close> (growing, writing, copying, and calling further frames to
  any depth), the closing gives back exactly the memory before the call, contents, checkpoints and
  all.
\<close>

theorem callee_memory_isolated:
  assumes "mem_inv m" and "frame_run_mem (new_context m) m'"
  shows "free_context m' = Val m"
  using assms by (blast intro: free_after_same_below frame_run_mem_same_below new_context_inv)

text \<open>Witness: a callee grows its memory by two bytes over a caller's one.\<close>

theorem callee_memory_isolated_witness:
  "\<exists>m m'. mem_resize memory_new 1 = Val m \<and> mem_resize (new_context m) 2 = Val m' \<and>
     buffer m' = [0, 0, 0] \<and> free_context m' = Val m"
proof -
  let ?m = "memory_new\<lparr>buffer := [0]\<rparr>" and ?m' = "\<lparr>buffer = [0, 0, 0], checkpoints = [1], last_checkpoint = 1, memory_limit = - 1\<rparr>"
  have two: "replicate 2 (0 :: u8) = [0, 0]" by (simp add: numeral_2_eq_2)
  have m: "mem_resize memory_new 1 = Val ?m" "mem_resize (new_context ?m) 2 = Val ?m'" "mem_inv ?m"
    by (simp_all add: mem_resize_def memory_new_def new_context_def mem_inv_def two)
  have "frame_run_mem (new_context ?m) ?m'" using m(2) by (blast intro: frame_run_mem.intros)
  with callee_memory_isolated [OF m(3)] m(1,2) show ?thesis by auto
qed

section \<open>Reading back\<close>

lemma slice_mut_context:
  assumes "mem_inv m" and "slice_mut m i n v = Val m'"
  shows "context_memory m' = take i (context_memory m) @ v @ drop (i + n) (context_memory m) \<and>
         i + n \<le> length (context_memory m) \<and> length v = n"
  using assms mem_inv_last [of m]
  by (auto simp: slice_mut_def context_memory_def Let_def split: if_splits)

lemma slice_mut_Val:
  "i + length v \<le> length (context_memory m) \<Longrightarrow> \<exists>m'. slice_mut m i (length v) v = Val m'"
  by (simp add: slice_mut_def Let_def)

lemma mem_set_context:
  assumes "mem_inv m" and "i + length v \<le> length (context_memory m)"
  shows "\<exists>m'. mem_set m i v = Val m' \<and>
      context_memory m' = take i (context_memory m) @ v @ drop (i + length v) (context_memory m)"
proof (cases "v = []")
  case False
  obtain m' where "slice_mut m i (length v) v = Val m'" using slice_mut_Val [OF assms(2)] by blast
  with False slice_mut_context [OF assms(1) this] show ?thesis by (simp add: mem_set_def)
qed (simp add: mem_set_def)

text \<open>
  Memory reads back what was written: within the frame's memory a write succeeds, does not
  change the size, a read of the written range returns the bytes written, bytes outside the range
  keep their value, and a word stored with \<^verbatim>\<open>set_u256\<close> is the word \<^verbatim>\<open>get_u256\<close> returns.
\<close>

theorem memory_read_after_write:
  assumes "mem_inv m" and "i + length v \<le> length (context_memory m)"
    and "j + 32 \<le> length (context_memory m)"
  shows "(\<exists>m'. mem_set m i v = Val m' \<and> mem_slice m' i (length v) = Val v \<and> mem_len m' = mem_len m \<and>
            (\<forall>k < length (context_memory m). k < i \<or> i + length v \<le> k \<longrightarrow>
               context_memory m' ! k = context_memory m ! k)) \<and>
         (\<exists>m'. set_u256 m j w = Val m' \<and> get_u256 m' j = Val w)"
proof -
  note set = mem_set_context [OF assms(1)]
  obtain m' where m': "mem_set m i v = Val m'"
    "context_memory m' = take i (context_memory m) @ v @ drop (i + length v) (context_memory m)"
    using set [OF assms(2)] by blast
  have "mem_len m' = mem_len m"
    using m'(2) assms(2) by (simp add: mem_len_context)
  moreover have "mem_slice m' i (length v) = Val v"
    using m'(2) assms(2) by (simp add: mem_slice_def slice_range_def)
  moreover have "\<forall>k < length (context_memory m). k < i \<or> i + length v \<le> k \<longrightarrow>
               context_memory m' ! k = context_memory m ! k"
    using m'(2) assms(2) by (auto simp: nth_append)
  moreover have "\<exists>m'. set_u256 m j w = Val m' \<and> get_u256 m' j = Val w"
  proof -
    have len: "length (to_be_bytes w) = 32" by simp
    obtain m' where w: "mem_set m j (to_be_bytes w) = Val m'"
      "context_memory m' = take j (context_memory m) @ to_be_bytes w @ drop (j + 32) (context_memory m)"
      using set [of j "to_be_bytes w"] assms(3) unfolding len by blast
    have "mem_slice m' j 32 = Val (to_be_bytes w)"
      using w(2) assms(3) len by (simp add: mem_slice_def slice_range_def)
    then show ?thesis
      using w(1) from_to_be_bytes [of w] by (simp add: set_u256_def get_u256_def get_word_def)
  qed
  ultimately show ?thesis using m'(1) by blast
qed

text \<open>Witness: the word 7 written at offset 32 of a 64-byte memory.\<close>

theorem memory_read_after_write_witness:
  "\<exists>m'. set_u256 (memory_new\<lparr>buffer := replicate 64 0\<rparr>) 32 7 = Val m' \<and> get_u256 m' 32 = Val 7"
  using memory_read_after_write [of "memory_new\<lparr>buffer := replicate 64 0\<rparr>" 0 "[1]" 32 7]
  by (simp add: mem_inv_def memory_new_def context_memory_def)

text \<open>
  Copying data into memory (\<^verbatim>\<open>CALLDATACOPY\<close>, \<^verbatim>\<open>CODECOPY\<close> and the like) pads with zeros:
  within the frame's memory, \<^verbatim>\<open>set_data\<close> succeeds, byte \<open>k\<close> of the written range is byte
  \<open>data_offset + k\<close> of the data, or zero past its end, and the rest is untouched.
\<close>

theorem set_data_zero_pads:
  assumes "mem_inv m" and "i + n \<le> length (context_memory m)"
  shows "\<exists>m'. set_data m i j n d = Val m' \<and> length (context_memory m') = length (context_memory m) \<and>
     (\<forall>k < length (context_memory m). context_memory m' ! k =
        (if i \<le> k \<and> k < i + n then (if j + (k - i) < length d then d ! (j + (k - i)) else 0)
         else context_memory m ! k))"
proof -
  have len: "length (padded_data d j n) = n" by (simp add: padded_data_def)
  obtain m' where m': "slice_mut m i n (padded_data d j n) = Val m'"
    using slice_mut_Val [of i "padded_data d j n" m] assms(2) len by auto
  note ctx = slice_mut_context [OF assms(1) m']
  have "context_memory m' ! k =
      (if i \<le> k \<and> k < i + n then (if j + (k - i) < length d then d ! (j + (k - i)) else 0)
       else context_memory m ! k)" if "k < length (context_memory m)" for k
    using ctx that by (auto simp: nth_append padded_data_def)
  then show ?thesis using m' ctx assms by (auto simp: set_data_padded)
qed

text \<open>Witness: three bytes from offset 1 of two bytes of data.\<close>

theorem set_data_zero_pads_witness:
  "\<exists>m'. set_data (memory_new\<lparr>buffer := replicate 4 0\<rparr>) 1 1 3 [8, 9] = Val m' \<and> context_memory m' ! 1 = 9 \<and>
        context_memory m' ! 2 = 0"
proof -
  have len: "length (context_memory (memory_new\<lparr>buffer := replicate 4 0\<rparr>)) = 4" and inv: "mem_inv (memory_new\<lparr>buffer := replicate 4 0\<rparr>)"
    by (simp_all add: mem_inv_def memory_new_def context_memory_def)
  from set_data_zero_pads [OF inv, of 1 3 1 "[8, 9]"] len
  obtain m' where "set_data (memory_new\<lparr>buffer := replicate 4 0\<rparr>) 1 1 3 [8, 9] = Val m'"
    and "\<forall>k < 4. context_memory m' ! k =
        (if 1 \<le> k \<and> k < 1 + 3 then (if 1 + (k - 1) < length [8, 9] then [8, 9] ! (1 + (k - 1)) else 0)
         else context_memory (memory_new\<lparr>buffer := replicate 4 0\<rparr>) ! k)" by auto
  moreover from this(2) have "context_memory m' ! 1 = 9" and "context_memory m' ! 2 = 0"
    by (auto dest: spec [of _ 1] spec [of _ 2])
  ultimately show ?thesis by blast
qed

section \<open>The price of growing\<close>

lemma unat_num_words_exact:
  "n + 31 < 2 ^ 64 \<Longrightarrow> unat (num_words (of_nat n)) = (n + 31) div 32"
  by (simp add: unat_num_words unat_of_nat_small)

lemma memory_gas_for_len_mono:
  "a \<le> b \<Longrightarrow> b < 2 ^ 64 \<Longrightarrow> memory_gas_for_len a \<le> memory_gas_for_len b"
  unfolding memory_gas_for_len_def
  by (intro memory_gas_mono num_words_mono) (simp add: word_le_nat_alt unat_of_nat_small)

lemma mem_resize_context:
  assumes "mem_inv m" and "mem_len m \<le> n" and "last_checkpoint m + n < 2 ^ 63"
  shows "\<exists>m'. mem_resize m n = Val m' \<and> context_memory m' = context_memory m @ replicate (n - mem_len m) 0"
  using assms mem_inv_last [OF assms(1)] by (simp add: mem_resize_def context_memory_def mem_len_def Let_def)

text \<open>A price below \<open>2 ^ 55\<close> pays for less than \<open>2 ^ 37\<close> bytes.\<close>

lemma affordable_words:
  assumes "unat (memory_gas w) < 2 ^ 55"
  shows "unat w < 2 ^ 32"
proof (rule ccontr)
  assume "\<not> unat w < 2 ^ 32"
  then have w: "2 ^ 32 \<le> unat w" by simp
  then have "2 ^ 32 * 2 ^ 32 \<le> unat w * unat w" by (intro mult_le_mono) auto
  then have "min (unat w * unat w) (2 ^ 64 - 1) = 2 ^ 64 - 1" by simp
  with w assms show False unfolding unat_memory_gas by simp
qed

lemma affordable_size:
  assumes "unat (memory_gas_for_len n) < 2 ^ 55" and "n < 2 ^ 64"
  shows "n < 2 ^ 38" and "unat (num_words (of_nat n)) = (n + 31) div 32"
proof -
  have u: "unat (num_words (of_nat n)) = min (n + 31) (2 ^ 64 - 1) div 32"
    using assms(2) by (simp add: unat_num_words unat_of_nat_small)
  then have "min (n + 31) (2 ^ 64 - 1) div 32 < 2 ^ 32"
    using affordable_words assms(1) unfolding memory_gas_for_len_def by metis
  then show n: "n < 2 ^ 38" by (simp add: min_def split: if_splits)
  then show "unat (num_words (of_nat n)) = (n + 31) div 32" by (intro unat_num_words_exact) simp
qed

text \<open>
  C22. Metered growth, for any range at all: while the gas in hand and the price of the memory held
  come to less than \<open>2 ^ 55\<close> and the buffer is below \<open>2 ^ 62\<close> bytes, the macro never panics, because
  whatever can be paid for fits in a vector. It either leaves memory and gas alone (the range is already
  there, the memory limit is hit, or the gas does not suffice, and these are told apart by the error),
  or appends zeros up to the next multiple of 32 that covers the range. The sum of the remaining gas and the
  memory's price is unchanged, so the total charged depends only on the final size and not on the
  steps taken to it.
\<close>

theorem metered_growth:
  assumes "mem_inv m" and "length (buffer m) < 2 ^ 62"
    and "unat (remaining g) + unat (memory_gas_for_len (mem_len m)) < 2 ^ 55"
  shows "\<exists>r m' g'. resize_memory_macro m g offset len = Val (r, m', g') \<and> mem_inv m' \<and>
    (offset + len \<le> mem_len m \<longrightarrow> r = None \<and> m' = m \<and> g' = g) \<and>
    (r \<noteq> None \<longrightarrow> m' = m \<and> g' = g \<and>
       (r = Some MemoryLimitOOG \<and> limit_reached m (min (offset + len) (2 ^ 64 - 1)) \<or>
        r = Some MemoryOOG \<and> unat (remaining g) + unat (memory_gas_for_len (mem_len m))
          < unat (memory_gas_for_len (min (offset + len) (2 ^ 64 - 1))))) \<and>
    (r = None \<longrightarrow> offset + len \<le> mem_len m' \<and>
       (\<exists>z. context_memory m' = context_memory m @ replicate z 0) \<and>
       (m' \<noteq> m \<longrightarrow> mem_len m' = (offset + len + 31) div 32 * 32) \<and>
       unat (remaining g') + unat (memory_gas_for_len (mem_len m')) =
       unat (remaining g) + unat (memory_gas_for_len (mem_len m)))"
proof -
  define n where "n = min (offset + len) (2 ^ 64 - 1)"
  let ?w = "(n + 31) div 32"
  have n64: "n < 2 ^ 64" by (simp add: n_def min_def)
  have small: "mem_len m < 2 ^ 62" "last_checkpoint m < 2 ^ 62"
    using assms(2) mem_inv_last [OF assms(1)] by (auto simp: mem_len_def)
  have whole: "offset + len = n" if "n < 2 ^ 63" using that by (auto simp: n_def min_def split: if_splits)
  consider "n \<le> mem_len m" | "mem_len m < n" "limit_reached m n" | "mem_len m < n" "\<not> limit_reached m n"
    by fastforce
  then show ?thesis
  proof cases
    case 1
    then have "offset + len = n" using small by (intro whole) simp
    with 1 assms(1) show ?thesis unfolding resize_memory_macro_def n_def [symmetric] Let_def
      by (auto intro: exI [of _ 0])
  next
    case 2
    then have "mem_len m < offset + len" by (simp add: n_def)
    with 2 assms(1) show ?thesis unfolding resize_memory_macro_def n_def [symmetric] Let_def by auto
  next
    case 3
    let ?new = "memory_gas_for_len n" and ?cur = "memory_gas_for_len (mem_len m)"
    have lt: "mem_len m < offset + len" using 3 by (simp add: n_def)
    have le: "?cur \<le> ?new" using 3 n64 by (intro memory_gas_for_len_mono) auto
    have d: "unat (?new - ?cur) = unat ?new - unat ?cur" and leN: "unat ?cur \<le> unat ?new"
      using le by (simp_all add: unat_minus_if_le word_le_nat_alt)
    have step: "resize_memory_macro m g offset len =
        (if remaining g < ?new - ?cur then Val (Some MemoryOOG, m, g)
         else bindE (mem_resize m (unat (num_words (of_nat n)) * 32)) (\<lambda>m.
                Val (None, m, g\<lparr>remaining := remaining g - (?new - ?cur)\<rparr>)))"
      using 3 le unfolding resize_memory_macro_def n_def [symmetric] Let_def resize_memory_def record_cost_def
        minus_or_panic_def checked_sub_def current_expansion_cost_def memory_gas_for_len_def
      by (simp add: bindE_assoc)
    show ?thesis
    proof (cases "remaining g < ?new - ?cur")
      case True
      then show ?thesis using step lt assms(1) leN d unfolding n_def [symmetric] by (auto simp: word_less_nat_alt)
    next
      case False
      then have paid: "unat ?new < 2 ^ 55" using assms(3) leN d by (simp add: word_less_nat_alt not_less)
      note n38 = affordable_size(1) [OF paid n64] and w = affordable_size(2) [OF paid n64]
      have nn: "offset + len = n" using n38 by (intro whole) simp
      have cover: "n \<le> ?w * 32" by simp
      have "?w \<le> (2 ^ 38 + 31) div 32" using n38 by (intro div_le_mono) simp
      then have w38: "?w * 32 < 2 ^ 39" by simp
      obtain m' where m': "mem_resize m (?w * 32) = Val m'"
        and ctx: "context_memory m' = context_memory m @ replicate (?w * 32 - mem_len m) 0"
        using mem_resize_context [OF assms(1), of "?w * 32"] 3 cover w38 small by force
      then have ml: "mem_len m' = ?w * 32" using 3 cover unfolding mem_len_context by simp
      have "unat (num_words (of_nat (?w * 32))) = ?w" using w38 by (subst unat_num_words_exact) simp_all
      then have price: "memory_gas_for_len (?w * 32) = ?new"
        unfolding memory_gas_for_len_def using w by (metis word_unat_eq_iff)
      have "unat (remaining g - (?new - ?cur)) + unat ?new = unat (remaining g) + unat ?cur"
        using False leN d by (subst unat_minus_if_le) (auto simp: word_less_nat_alt word_le_nat_alt not_less)
      moreover have "mem_inv m'" using same_below_inv [OF assms(1)] resize_same_below [OF assms(1) m'] by simp
      ultimately show ?thesis using step False 3 cover ctx ml price m' w by (simp add: nn)
    qed
  qed
qed

text \<open>Witness: the first 33 bytes cost two words.\<close>

theorem metered_growth_witness:
  "mem_inv memory_new \<and>
   (\<exists>m' g'. resize_memory_macro memory_new (gas_new 100) 1 32 = Val (None, m', g') \<and> mem_len m' = 64)"
proof -
  have inv: "mem_inv memory_new" by (simp add: mem_inv_def memory_new_def)
  have small: "\<not> limit_reached memory_new 33" "mem_len memory_new = 0"
    by (simp_all add: limit_reached_def memory_new_def mem_len_def)
  have free: "unat (memory_gas_for_len 0) = 0"
    by (simp add: memory_gas_for_len_def memory_gas_def num_words_def saturating_add_def saturating_mul_def MEMORY_def)
  have hyps: "length (buffer memory_new) < 2 ^ 62"
    "unat (remaining (gas_new 100)) + unat (memory_gas_for_len (mem_len memory_new)) < 2 ^ 55"
    unfolding small(2) free by (simp_all add: memory_new_def gas_new_def)
  from metered_growth [OF inv hyps, of 1 32] obtain r m' g' where
    r: "resize_memory_macro memory_new (gas_new 100) 1 32 = Val (r, m', g')"
    and err: "r \<noteq> None \<longrightarrow> r = Some MemoryLimitOOG \<and> limit_reached memory_new (1 + 32) \<or>
       unat (remaining (gas_new 100)) + unat (memory_gas_for_len 0) < unat (memory_gas_for_len (1 + 32))"
    and ok: "r = None \<longrightarrow> 1 + 32 \<le> mem_len m' \<and> (m' \<noteq> memory_new \<longrightarrow> mem_len m' = (1 + 32 + 31) div 32 * 32)"
    using small by auto
  have "r = None"
    using err small by (auto simp: gas_new_def memory_gas_for_len_def memory_gas_def num_words_def
        saturating_add_def saturating_mul_def MEMORY_def)
  moreover have "m' \<noteq> memory_new" using ok \<open>r = None\<close> small by auto
  ultimately show ?thesis using r ok inv by auto
qed

end
