(* ===== verification/Analysis.thy ===== *)
theory Analysis
  imports Bytecode
begin

text \<open>
  Jump-destination analysis of legacy code, \<^verbatim>\<open>interpreter/src/interpreter/analysis.rs\<close>, and its
  correctness: the jump table marks exactly the \<^verbatim>\<open>JUMPDEST\<close> bytes that begin an instruction, never
  one inside the data of a \<^verbatim>\<open>PUSH\<close>.
\<close>

definition JUMPDEST :: u8 where "JUMPDEST = 0x5B"
definition PUSH1 :: u8 where "PUSH1 = 0x60"

lemma push_step: "push_offset < 32 \<Longrightarrow> unat (push_offset + 2) = unat push_offset + 2" for push_offset :: u8
  by (subst unat_plus_if_small) (simp_all add: word_less_nat_alt)

text \<open>The loop of \<^verbatim>\<open>analyze\<close> from position \<open>i\<close>, on the bit vector built so far.\<close>

function analyze_loop :: "bytes \<Rightarrow> nat \<Rightarrow> jump_table \<Rightarrow> jump_table" where
  "analyze_loop bs i jumps =
     (if i < length bs then
        let opcode = bs ! i in
        if JUMPDEST = opcode then analyze_loop bs (i + 1) (jumps[i := True])
        else
          let push_offset = opcode - PUSH1 in
          if push_offset < 32 then analyze_loop bs (i + unat (push_offset + 2)) jumps
          else analyze_loop bs (i + 1) jumps
      else jumps)"
  by auto
termination
  by (relation "measure (\<lambda>(bs, i, jumps). length bs - i)") (auto simp: push_step)

declare analyze_loop.simps [simp del]

definition analyze :: "bytes \<Rightarrow> jump_table" where
  "analyze bs = analyze_loop bs 0 (replicate (length bs) False)"

fun to_analysed :: "bytecode \<Rightarrow> bytecode" where
  "to_analysed (LegacyRaw bs) =
     (let padded = bs @ replicate 33 0
      in LegacyAnalyzed \<lparr>la_bytecode = padded, la_original_len = length bs, la_jump_table = analyze padded\<rparr>)"
| "to_analysed c = c"

section \<open>Instruction boundaries\<close>

text \<open>The size of an instruction: \<^verbatim>\<open>PUSHn\<close> carries \<open>n\<close> bytes of data.\<close>

definition instr_size :: "u8 \<Rightarrow> nat" where
  "instr_size b = (if 0x60 \<le> unat b \<and> unat b \<le> 0x7F then unat b - 0x5F + 1 else 1)"

inductive instr_start :: "bytes \<Rightarrow> nat \<Rightarrow> bool" for bs where
  first: "instr_start bs 0"
| after: "instr_start bs i \<Longrightarrow> i < length bs \<Longrightarrow> instr_start bs (i + instr_size (bs ! i))"

text \<open>Boundaries at or after a boundary are reached from it.\<close>

inductive starts_from :: "bytes \<Rightarrow> nat \<Rightarrow> nat \<Rightarrow> bool" for bs where
  here: "starts_from bs i i"
| later: "i < length bs \<Longrightarrow> starts_from bs (i + instr_size (bs ! i)) k \<Longrightarrow> starts_from bs i k"

inductive_cases starts_fromE: "starts_from bs i k"

lemma starts_from_unfold:
  "i < length bs \<Longrightarrow> starts_from bs i k \<longleftrightarrow> k = i \<or> starts_from bs (i + instr_size (bs ! i)) k"
  by (auto elim: starts_fromE intro: starts_from.intros)

lemma instr_size_pos: "0 < instr_size b"
  by (simp add: instr_size_def)

lemma starts_from_le: "starts_from bs i k \<Longrightarrow> i \<le> k"
  by (induction rule: starts_from.induct) auto

lemma starts_from_snoc: "starts_from bs i k \<Longrightarrow> k < length bs \<Longrightarrow> starts_from bs i (k + instr_size (bs ! k))"
  by (induction rule: starts_from.induct) (auto intro: starts_from.intros)

lemma instr_start_iff: "instr_start bs k \<longleftrightarrow> starts_from bs 0 k"
proof
  show "instr_start bs k \<Longrightarrow> starts_from bs 0 k"
    by (induction rule: instr_start.induct) (auto intro: starts_from.here starts_from_snoc)
  have "instr_start bs i \<Longrightarrow> instr_start bs k" if "starts_from bs i k" for i
    using that by (induction rule: starts_from.induct) (auto intro: instr_start.after)
  then show "starts_from bs 0 k \<Longrightarrow> instr_start bs k" using instr_start.first by blast
qed

text \<open>The wrapping subtraction and the unsigned comparison single out the \<^verbatim>\<open>PUSH\<close> range.\<close>

lemma push_range:
  fixes b :: u8
  shows "b - PUSH1 < 32 \<longleftrightarrow> 0x60 \<le> unat b \<and> unat b \<le> 0x7F"
    and "b - PUSH1 < 32 \<Longrightarrow> unat (b - PUSH1 + 2) = instr_size b"
    and "\<not> b - PUSH1 < 32 \<Longrightarrow> instr_size b = 1"
proof -
  have lt: "unat b < 256" using unat_lt_length [of b] by simp
  have d: "unat (b - PUSH1) = (if 0x60 \<le> unat b then unat b - 0x60 else unat b + 256 - 0x60)"
    using lt unfolding PUSH1_def by (auto simp: unat_sub_if_size word_size)
  show r: "b - PUSH1 < 32 \<longleftrightarrow> 0x60 \<le> unat b \<and> unat b \<le> 0x7F"
    using lt d by (auto simp: word_less_nat_alt)
  show "b - PUSH1 < 32 \<Longrightarrow> unat (b - PUSH1 + 2) = instr_size b"
    using r d by (auto simp: push_step instr_size_def)
  show "\<not> b - PUSH1 < 32 \<Longrightarrow> instr_size b = 1" using r by (simp add: instr_size_def)
qed

lemma instr_size_jumpdest: "instr_size JUMPDEST = 1"
  by (simp add: instr_size_def JUMPDEST_def)

section \<open>The table\<close>

lemma length_analyze_loop: "length (analyze_loop bs i jumps) = length jumps"
  by (induction bs i jumps rule: analyze_loop.induct)
     (subst analyze_loop.simps; simp add: Let_def)

lemma analyze_loop_marks:
  assumes "length jumps = length bs" and "k < length bs"
  shows "analyze_loop bs i jumps ! k \<longleftrightarrow> jumps ! k \<or> (starts_from bs i k \<and> bs ! k = JUMPDEST)"
  using assms
proof (induction bs i jumps rule: analyze_loop.induct)
  case (1 bs i jumps)
  show ?case
  proof (cases "i < length bs")
    case False
    then have "\<not> starts_from bs i k" using 1(4) "1.prems" starts_from_le by fastforce
    with False show ?thesis by (subst analyze_loop.simps) simp
  next
    case True
    note unf = starts_from_unfold [OF True, of k] and loop = analyze_loop.simps [of bs i jumps]
    consider "bs ! i = JUMPDEST" | "bs ! i \<noteq> JUMPDEST" "bs ! i - PUSH1 < 32"
      | "bs ! i \<noteq> JUMPDEST" "\<not> bs ! i - PUSH1 < 32" by blast
    then show ?thesis
    proof cases
      case 1
      have "\<not> starts_from bs (i + 1) i" using starts_from_le by fastforce
      then show ?thesis
        using 1 True "1.prems" "1.IH"(1) [OF True refl] unf instr_size_jumpdest loop
        by (auto simp: nth_list_update)
    next
      case 2
      then show ?thesis
        using True "1.prems" "1.IH"(2) [OF True refl _ refl] unf push_range(2) [of "bs ! i"] loop by auto
    next
      case 3
      then show ?thesis
        using True "1.prems" "1.IH"(3) [OF True refl _ refl] unf push_range(3) [of "bs ! i"] loop by auto
    qed
  qed
qed

lemma analyze_valid:
  "jump_is_valid (analyze bs) pc \<longleftrightarrow> pc < length bs \<and> instr_start bs pc \<and> bs ! pc = JUMPDEST"
  using analyze_loop_marks [of "replicate (length bs) False" bs pc 0]
  by (auto simp: jump_is_valid_def analyze_def length_analyze_loop instr_start_iff)

text \<open>Padding changes no boundary within the code.\<close>

lemma starts_from_append:
  assumes "starts_from (bs @ pad) i k" and "k < length bs"
  shows "starts_from bs i k"
  using assms
proof (induction rule: starts_from.induct)
  case (later i k)
  have "i < length bs"
    using starts_from_le [OF later.hyps(2)] later.prems by simp
  with later show ?case by (auto intro: starts_from.later simp: nth_append)
qed (rule starts_from.here)

lemma starts_from_appendI: "starts_from bs i k \<Longrightarrow> starts_from (bs @ pad) i k"
  by (induction rule: starts_from.induct) (auto intro: starts_from.intros simp: nth_append)

lemma pad_not_jumpdest: "i < n \<Longrightarrow> (replicate n 0 :: bytes) ! i \<noteq> JUMPDEST"
  by (simp add: JUMPDEST_def)

text \<open>
  C37. Jump validity: after the analysis, a position is a valid jump destination exactly if it is a
  \<^verbatim>\<open>JUMPDEST\<close> of the original code at an instruction boundary, so never push data and never
  padding; the analysed code is ready to run and has the original bytes, length and hash.
\<close>

theorem jump_destinations_exact:
  "\<exists>a. to_analysed (LegacyRaw bs) = LegacyAnalyzed a \<and>
     (\<forall>pc. jump_is_valid (la_jump_table a) pc \<longleftrightarrow>
        pc < length bs \<and> instr_start bs pc \<and> bs ! pc = JUMPDEST) \<and>
     is_execution_ready (LegacyAnalyzed a) \<and> original_byte_slice (LegacyAnalyzed a) = Val bs \<and>
     bytecode_len (LegacyAnalyzed a) = length bs \<and>
     hash_slow keccak256 (LegacyAnalyzed a) = hash_slow keccak256 (LegacyRaw bs)"
proof -
  let ?p = "bs @ replicate 33 0"
  have "jump_is_valid (analyze ?p) pc \<longleftrightarrow> pc < length bs \<and> instr_start bs pc \<and> bs ! pc = JUMPDEST" for pc
  proof (cases "pc < length bs")
    case True
    then show ?thesis
      using starts_from_append [of bs "replicate 33 0" 0 pc] starts_from_appendI [of bs 0 pc]
      by (auto simp: analyze_valid instr_start_iff nth_append)
  next
    case False
    then show ?thesis
      using pad_not_jumpdest [of "pc - length bs" 33] by (auto simp: analyze_valid nth_append)
  qed
  moreover have "to_analysed (LegacyRaw bs) =
      LegacyAnalyzed \<lparr>la_bytecode = ?p, la_original_len = length bs, la_jump_table = analyze ?p\<rparr>"
    by (simp add: Let_def)
  ultimately show ?thesis
    by (intro exI conjI) (assumption, simp_all add: hash_slow_def bytecode_is_empty_def)
qed

text \<open>A \<^verbatim>\<open>JUMPDEST\<close> byte in push data is not a destination, the one behind it is.\<close>

lemma analyze_example:
  "map (jump_is_valid (analyze [0x60, 0x5B, 0x5B])) [0, 1, 2] = [False, False, True]"
  by (simp add: analyze_def analyze_loop.simps JUMPDEST_def PUSH1_def jump_is_valid_def)

end
