(* ===== verification/Env.thy ===== *)
theory Env
  imports Spec_Id Instruction_Result Call_Inputs
begin

text \<open>
  The environment of a transaction, \<^verbatim>\<open>primitives/src/env.rs\<close>: configuration, block and transaction,
  with their validation; the blob prices of \<^verbatim>\<open>utilities.rs\<close>; and the inputs of the first frame built
  from the transaction. The switches of the optional features are fields; without the feature the
  field is false. Plain arithmetic on \<^verbatim>\<open>U256\<close> wraps, as the type's operators do.
\<close>

section \<open>Constants\<close>

definition MAX_CODE_SIZE :: nat where "MAX_CODE_SIZE = 0x6000"
definition MAX_INITCODE_SIZE :: nat where "MAX_INITCODE_SIZE = 2 * MAX_CODE_SIZE"
definition BLOCK_HASH_HISTORY :: nat where "BLOCK_HASH_HISTORY = 256"
definition BLOCKHASH_STORAGE_ADDRESS :: address where
  "BLOCKHASH_STORAGE_ADDRESS = 0x25a219378dad9b3503c8268c9ca836a52427a4fb"
definition GAS_PER_BLOB :: u64 where "GAS_PER_BLOB = 2 ^ 17"
definition TARGET_BLOB_NUMBER_PER_BLOCK :: u64 where "TARGET_BLOB_NUMBER_PER_BLOCK = 3"
definition MAX_BLOB_NUMBER_PER_BLOCK :: u64 where "MAX_BLOB_NUMBER_PER_BLOCK = 2 * TARGET_BLOB_NUMBER_PER_BLOCK"
definition TARGET_BLOB_GAS_PER_BLOCK :: u64 where
  "TARGET_BLOB_GAS_PER_BLOCK = TARGET_BLOB_NUMBER_PER_BLOCK * GAS_PER_BLOB"
definition MIN_BLOB_GASPRICE :: u64 where "MIN_BLOB_GASPRICE = 1"
definition BLOB_GASPRICE_UPDATE_FRACTION :: u64 where "BLOB_GASPRICE_UPDATE_FRACTION = 3338477"
definition VERSIONED_HASH_VERSION_KZG :: u8 where "VERSIONED_HASH_VERSION_KZG = 1"

section \<open>Blob prices\<close>

definition calc_excess_blob_gas :: "u64 \<Rightarrow> u64 \<Rightarrow> u64 eval" where
  "calc_excess_blob_gas parent_excess_blob_gas parent_blob_gas_used =
     bindE (plus_or_panic parent_excess_blob_gas parent_blob_gas_used) (\<lambda>s.
       Val (saturating_sub s TARGET_BLOB_GAS_PER_BLOCK))"

text \<open>
  The loop of \<^verbatim>\<open>fake_exponential\<close> on 128-bit values, written on naturals with the overflow panics
  at each operation: \<open>i\<close> is the counter, \<open>out\<close> the sum so far, \<open>accum\<close> the current term. Once
  \<open>denominator * i\<close> exceeds the numerator the terms shrink, so the loop ends.
\<close>

function fake_exponential_loop :: "nat \<Rightarrow> nat \<Rightarrow> nat \<Rightarrow> nat \<Rightarrow> nat \<Rightarrow> nat eval" where
  "fake_exponential_loop numerator denominator i out accum =
     (if accum = 0 \<or> denominator = 0 then Val out
      else if out + accum \<ge> 2 ^ 128 \<or> accum * numerator \<ge> 2 ^ 128 \<or> denominator * i \<ge> 2 ^ 128 \<or> i = 0 then Panic
      else fake_exponential_loop numerator denominator (i + 1) (out + accum)
             (accum * numerator div (denominator * i)))"
  by auto
termination
proof (relation "measures [\<lambda>(numerator, denominator, i, out, accum). numerator + 1 - i,
                           \<lambda>(numerator, denominator, i, out, accum). accum]"; (auto)?)
  fix numerator denominator i accum :: nat
  assume a: "0 < accum" "0 < denominator" "0 < i" "\<not> numerator - i < Suc numerator - i"
  then have "numerator < i" by auto
  then have "numerator < denominator * i" using a(2) by (metis less_le_trans mult_le_mono1 nat_mult_1 Suc_leI One_nat_def)
  then have "accum * numerator < accum * (denominator * i)" using a(1) by simp
  then show "accum * numerator div (denominator * i) < accum"
    by (simp add: less_mult_imp_div_less)
qed

declare fake_exponential_loop.simps [simp del]

definition fake_exponential :: "u64 \<Rightarrow> u64 \<Rightarrow> u64 \<Rightarrow> u128 eval" where
  "fake_exponential factor numerator denominator =
     (if denominator = 0 then Panic
      else bindE (fake_exponential_loop (unat numerator) (unat denominator) 1 0 (unat factor * unat denominator))
             (\<lambda>out. Val (of_nat (out div unat denominator))))"

definition calc_blob_gasprice :: "u64 \<Rightarrow> u128 eval" where
  "calc_blob_gasprice excess_blob_gas =
     fake_exponential MIN_BLOB_GASPRICE excess_blob_gas BLOB_GASPRICE_UPDATE_FRACTION"

section \<open>Configuration, block and transaction\<close>

datatype analysis_kind = Raw | Analyse
datatype transact_to = TransactCall address | TransactCreate
datatype create_scheme = Create1 | Create2 u256

record cfg_env =
  chain_id :: u64
  perf_analyse_created_bytecodes :: analysis_kind
  limit_contract_code_size :: "nat option"
  cfg_memory_limit :: u64
  disable_balance_check :: bool
  disable_block_gas_limit :: bool
  disable_eip3607 :: bool
  disable_gas_refund :: bool
  disable_base_fee :: bool
  disable_beneficiary_reward :: bool

definition default_cfg_env :: cfg_env where
  "default_cfg_env =
     \<lparr>chain_id = 706, perf_analyse_created_bytecodes = Analyse, limit_contract_code_size = None,
      cfg_memory_limit = 2 ^ 32 - 1, disable_balance_check = False, disable_block_gas_limit = False,
      disable_eip3607 = False, disable_gas_refund = False, disable_base_fee = False,
      disable_beneficiary_reward = False\<rparr>"

record blob_excess_gas_and_price =
  excess_blob_gas :: u64
  blob_gasprice :: u128

definition blob_new :: "u64 \<Rightarrow> blob_excess_gas_and_price eval" where
  "blob_new excess = bindE (calc_blob_gasprice excess) (\<lambda>p. Val \<lparr>excess_blob_gas = excess, blob_gasprice = p\<rparr>)"

record block_env =
  number :: u256
  coinbase :: address
  timestamp :: u256
  blk_gas_limit :: u256
  basefee :: u256
  difficulty :: u256
  prevrandao :: "b256 option"
  blob_excess :: "blob_excess_gas_and_price option"
  blk_transferred_tokens :: "token_transfer list"

definition get_blob_gasprice :: "block_env \<Rightarrow> u128 option" where
  "get_blob_gasprice b = map_option blob_gasprice (blob_excess b)"

definition get_blob_excess_gas :: "block_env \<Rightarrow> u64 option" where
  "get_blob_excess_gas b = map_option excess_blob_gas (blob_excess b)"

definition set_blob_excess_gas_and_price :: "block_env \<Rightarrow> u64 \<Rightarrow> block_env eval" where
  "set_blob_excess_gas_and_price b excess = bindE (blob_new excess) (\<lambda>p. Val (b\<lparr>blob_excess := Some p\<rparr>))"

definition default_block_env :: "block_env eval" where
  "default_block_env =
     bindE (blob_new 0) (\<lambda>p. Val
       \<lparr>number = 0, coinbase = 0, timestamp = 1, blk_gas_limit = - 1, basefee = 0, difficulty = 0,
        prevrandao = Some 0, blob_excess = Some p, blk_transferred_tokens = []\<rparr>)"

record tx_env =
  caller :: address
  gas_limit :: u64
  gas_price :: u256
  transact_dest :: transact_to
  tx_data :: bytes
  tx_nonce :: "u64 option"
  tx_chain_id :: "u64 option"
  access_list :: "(address \<times> u256 list) list"
  gas_priority_fee :: "u256 option"
  blob_hashes :: "b256 list"
  max_fee_per_blob_gas :: "u256 option"
  transferred_tokens :: "token_transfer list"

definition default_tx_env :: tx_env where
  "default_tx_env =
     \<lparr>caller = 0, gas_limit = - 1, gas_price = 0, transact_dest = TransactCall 0, tx_data = [],
      tx_nonce = None, tx_chain_id = None, access_list = [], gas_priority_fee = None, blob_hashes = [],
      max_fee_per_blob_gas = None, transferred_tokens = []\<rparr>"

fun is_create :: "transact_to \<Rightarrow> bool" where
  "is_create TransactCreate = True"
| "is_create (TransactCall _) = False"

fun is_call :: "transact_to \<Rightarrow> bool" where
  "is_call (TransactCall _) = True"
| "is_call TransactCreate = False"

text \<open>The product needs a list of 2 to the 47 hashes to overflow.\<close>

definition get_total_blob_gas :: "tx_env \<Rightarrow> u64" where
  "get_total_blob_gas t = GAS_PER_BLOB * of_nat (length (blob_hashes t))"

definition get_base_transfer_value :: "tx_env \<Rightarrow> u256" where
  "get_base_transfer_value t =
     (if transferred_tokens t = [] then 0
      else case find (\<lambda>k. tt_id k = BASE_TOKEN_ID) (transferred_tokens t) of
             Some k \<Rightarrow> tt_amount k | None \<Rightarrow> 0)"

record env =
  cfg :: cfg_env
  block :: block_env
  tx :: tx_env

definition effective_gas_price :: "env \<Rightarrow> u256" where
  "effective_gas_price e =
     (case gas_priority_fee (tx e) of
        Some priority_fee \<Rightarrow> min (gas_price (tx e)) (basefee (block e) + priority_fee)
      | None \<Rightarrow> gas_price (tx e))"

definition calc_data_fee :: "env \<Rightarrow> u256 option" where
  "calc_data_fee e =
     map_option (\<lambda>p. saturating_mul (ucast p) (ucast (get_total_blob_gas (tx e)))) (get_blob_gasprice (block e))"

definition calc_max_data_fee :: "env \<Rightarrow> u256 option" where
  "calc_max_data_fee e =
     map_option (\<lambda>f. saturating_mul f (ucast (get_total_blob_gas (tx e)))) (max_fee_per_blob_gas (tx e))"

section \<open>Validation\<close>

definition validate_block_env :: "spec_id \<Rightarrow> env \<Rightarrow> invalid_header + unit" where
  "validate_block_env sp e =
     (if enabled sp MERGE \<and> prevrandao (block e) = None then Inl PrevrandaoNotSet
      else if enabled sp CANCUN \<and> blob_excess (block e) = None then Inl ExcessBlobGasNotSet
      else Inr ())"

definition max_initcode_size :: "cfg_env \<Rightarrow> nat" where
  "max_initcode_size c =
     (case limit_contract_code_size c of
        Some l \<Rightarrow> min (l * 2) (2 ^ 64 - 1)
      | None \<Rightarrow> MAX_INITCODE_SIZE)"

text \<open>The fee checks of the London fork.\<close>

definition validate_fees :: "spec_id \<Rightarrow> env \<Rightarrow> invalid_transaction option" where
  "validate_fees sp e =
     (if enabled sp LONDON then
        (if (case gas_priority_fee (tx e) of Some p \<Rightarrow> p > gas_price (tx e) | None \<Rightarrow> False)
         then Some PriorityFeeGreaterThanMaxFee
         else if \<not> disable_base_fee (cfg e) \<and> effective_gas_price e < basefee (block e)
         then Some GasPriceLessThanBasefee else None)
      else None)"

text \<open>The blob checks; \<^verbatim>\<open>expect\<close> panics when the block has no blob price.\<close>

definition validate_blobs :: "spec_id \<Rightarrow> env \<Rightarrow> invalid_transaction option eval" where
  "validate_blobs sp e =
     (if enabled sp CANCUN then
        case max_fee_per_blob_gas (tx e) of
          None \<Rightarrow> Val None
        | Some mx \<Rightarrow>
            bindE (unwrap (get_blob_gasprice (block e))) (\<lambda>price.
              Val (if ucast price > mx then Some BlobGasPriceGreaterThanMax
                   else if blob_hashes (tx e) = [] then Some EmptyBlobs
                   else if is_create (transact_dest (tx e)) then Some BlobCreateTransaction
                   else if list_ex (\<lambda>b. to_be_bytes b ! 0 \<noteq> VERSIONED_HASH_VERSION_KZG) (blob_hashes (tx e))
                   then Some BlobVersionNotSupported
                   else if length (blob_hashes (tx e)) > unat MAX_BLOB_NUMBER_PER_BLOCK
                   then Some (TooManyBlobs (length (blob_hashes (tx e))) (unat MAX_BLOB_NUMBER_PER_BLOCK))
                   else None))
      else Val (if blob_hashes (tx e) \<noteq> [] then Some BlobVersionedHashesNotSupported
                else if max_fee_per_blob_gas (tx e) \<noteq> None then Some MaxFeePerBlobGasNotSupported
                else None))"

definition validate_tx :: "spec_id \<Rightarrow> env \<Rightarrow> (invalid_transaction + unit) eval" where
  "validate_tx sp e =
     (case validate_fees sp e of Some x \<Rightarrow> Val (Inl x) | None \<Rightarrow>
      if \<not> disable_block_gas_limit (cfg e) \<and> ucast (gas_limit (tx e)) > blk_gas_limit (block e)
      then Val (Inl CallerGasLimitMoreThanBlock)
      else if enabled sp SHANGHAI \<and> is_create (transact_dest (tx e)) \<and>
              length (tx_data (tx e)) > max_initcode_size (cfg e)
      then Val (Inl IT_CreateInitCodeSizeLimit)
      else if (case tx_chain_id (tx e) of Some i \<Rightarrow> i \<noteq> chain_id (cfg e) | None \<Rightarrow> False)
      then Val (Inl InvalidChainId)
      else if \<not> enabled sp BERLIN \<and> access_list (tx e) \<noteq> [] then Val (Inl AccessListNotSupported)
      else bindE (validate_blobs sp e) (\<lambda>r.
        case r of Some x \<Rightarrow> Val (Inl x) | None \<Rightarrow>
        if transferred_tokens (tx e) \<noteq> [] \<and> \<not> distinct (map tt_id (transferred_tokens (tx e)))
        then Val (Inl TokenIdsNotUnique)
        else Val (Inr ())))"

definition validate_env_tx_nonce :: "env \<Rightarrow> account \<Rightarrow> invalid_transaction option" where
  "validate_env_tx_nonce e a =
     (case tx_nonce (tx e) of
        None \<Rightarrow> None
      | Some t \<Rightarrow>
          let st = nonce (info a) in
          if t > st then Some (NonceTooHigh t st) else if t < st then Some (NonceTooLow t st) else None)"

definition required_base_balance :: "spec_id \<Rightarrow> env \<Rightarrow> u256 option" where
  "required_base_balance sp e =
     (case checked_mul (ucast (gas_limit (tx e))) (gas_price (tx e)) of None \<Rightarrow> None | Some gas_cost \<Rightarrow>
      case checked_add gas_cost (get_base_transfer_value (tx e)) of None \<Rightarrow> None | Some required \<Rightarrow>
      if enabled sp CANCUN
      then checked_add required (case calc_max_data_fee e of Some f \<Rightarrow> f | None \<Rightarrow> 0)
      else Some required)"

fun validate_token_balances :: "account \<Rightarrow> token_transfer list \<Rightarrow> invalid_transaction option" where
  "validate_token_balances a [] = None"
| "validate_token_balances a (t # ts) =
     (if tt_id t = BASE_TOKEN_ID then validate_token_balances a ts
      else if get_balance (info a) (tt_id t) \<ge> tt_amount t then validate_token_balances a ts
      else Some (NotEnoughTokenBalanceForTransfer (tt_id t) (tt_amount t) (get_balance (info a) (tt_id t))))"

definition env_validate_tx_against_state ::
  "spec_id \<Rightarrow> env \<Rightarrow> account \<Rightarrow> (invalid_transaction + unit) \<times> account" where
  "env_validate_tx_against_state sp e a =
     (if \<not> disable_eip3607 (cfg e) \<and> code_hash (info a) \<noteq> KECCAK_EMPTY then (Inl RejectCallerWithCode, a)
      else case validate_env_tx_nonce e a of Some x \<Rightarrow> (Inl x, a) | None \<Rightarrow>
      case required_base_balance sp e of None \<Rightarrow> (Inl OverflowPaymentInTransaction, a) | Some required \<Rightarrow>
      let base_token_balance = get_base_balance (info a) in
      if required > base_token_balance \<and> \<not> disable_balance_check (cfg e)
      then (Inl (LackOfFundForMaxFee required base_token_balance), a)
      else
        let a = (if required > base_token_balance then a\<lparr>info := set_base_balance (info a) required\<rparr> else a)
        in case validate_token_balances a (transferred_tokens (tx e)) of
             Some x \<Rightarrow> (Inl x, a)
           | None \<Rightarrow> (Inr (), a))"

section \<open>Inputs of the first frame\<close>

definition call_inputs_new :: "tx_env \<Rightarrow> u64 \<Rightarrow> call_inputs option" where
  "call_inputs_new t gl =
     (case transact_dest t of
        TransactCreate \<Rightarrow> None
      | TransactCall target \<Rightarrow> Some
          \<lparr>ci_input = tx_data t, ci_return_memory_offset = (0, 0), ci_gas_limit = gl,
           ci_bytecode_address = target, ci_target_address = target, ci_caller = caller t,
           ci_values = Transfer (transferred_tokens t), ci_scheme = SchemeCall,
           ci_is_static = False, ci_is_eof = False\<rparr>)"

record create_inputs =
  cr_caller :: address
  cr_scheme :: create_scheme
  cr_value :: u256
  cr_init_code :: bytes
  cr_gas_limit :: u64

definition create_inputs_new :: "tx_env \<Rightarrow> u64 \<Rightarrow> create_inputs option" where
  "create_inputs_new t gl =
     (case transact_dest t of
        TransactCall _ \<Rightarrow> None
      | TransactCreate \<Rightarrow> Some
          \<lparr>cr_caller = caller t, cr_scheme = Create1, cr_value = get_base_transfer_value t,
           cr_init_code = tx_data t, cr_gas_limit = gl\<rparr>)"

end
