(* ===== verification/Interpreter.thy ===== *)
theory Interpreter
  imports Env Stack Memory Analysis
begin

text \<open>
  The state of the interpreter (\<^verbatim>\<open>interpreter/src/interpreter.rs\<close>, \<^verbatim>\<open>interpreter/contract.rs\<close>), the
  actions it hands to its caller (\<^verbatim>\<open>interpreter_action/\<close>), the interface \<^verbatim>\<open>Host\<close> (\<^verbatim>\<open>host.rs\<close>) and
  the instruction macros of \<^verbatim>\<open>instructions/macros.rs\<close>.

  An instruction maps the interpreter and the host's state to new ones. A macro that may return early
  takes the rest of the instruction as its last argument: it runs it or ends the instruction. The
  instruction pointer is its offset from the start of the code; reading outside the code is \<open>Panic\<close>.
\<close>

section \<open>Gas constants of the instructions\<close>

definition GAS_BASE :: u64 where "GAS_BASE = 2"
definition GAS_LOW :: u64 where "GAS_LOW = 5"
definition GAS_MID :: u64 where "GAS_MID = 8"
definition GAS_HIGH :: u64 where "GAS_HIGH = 10"
definition GAS_JUMPDEST :: u64 where "GAS_JUMPDEST = 1"
definition GAS_BLOCKHASH :: u64 where "GAS_BLOCKHASH = 20"
definition CONDITION_JUMP_GAS :: u64 where "CONDITION_JUMP_GAS = 4"
definition RETF_GAS :: u64 where "RETF_GAS = 4"
definition DATA_LOAD_GAS :: u64 where "DATA_LOAD_GAS = 4"
definition EOF_CREATE_GAS :: u64 where "EOF_CREATE_GAS = 32000"
definition SELFDESTRUCT_REFUND :: i64 where "SELFDESTRUCT_REFUND = 24000"

lemmas instr_gas_constants =
  GAS_BASE_def GAS_LOW_def GAS_MID_def GAS_HIGH_def GAS_JUMPDEST_def GAS_BLOCKHASH_def
  CONDITION_JUMP_GAS_def RETF_GAS_def DATA_LOAD_GAS_def EOF_CREATE_GAS_def

section \<open>Contracts, results and actions\<close>

record contract =
  c_input :: bytes
  c_bytecode :: bytecode
  c_hash :: "b256 option"
  c_target_address :: address
  c_caller :: address
  c_call_values :: "token_transfer list"

definition contract_new ::
  "bytes \<Rightarrow> bytecode \<Rightarrow> b256 option \<Rightarrow> address \<Rightarrow> address \<Rightarrow> token_transfer list \<Rightarrow> contract" where
  "contract_new input bc hash target cal vals =
     \<lparr>c_input = input, c_bytecode = to_analysed bc, c_hash = hash, c_target_address = target,
      c_caller = cal, c_call_values = vals\<rparr>"

definition contract_new_env :: "env \<Rightarrow> bytecode \<Rightarrow> b256 option \<Rightarrow> contract" where
  "contract_new_env e bc hash =
     contract_new (tx_data (tx e)) bc hash
       (case transact_dest (tx e) of TransactCall a \<Rightarrow> a | TransactCreate \<Rightarrow> 0)
       (caller (tx e)) (transferred_tokens (tx e))"

definition contract_new_with_context ::
  "bytes \<Rightarrow> bytecode \<Rightarrow> b256 option \<Rightarrow> call_inputs \<Rightarrow> contract" where
  "contract_new_with_context input bc hash ctx =
     contract_new input bc hash (ci_target_address ctx) (ci_caller ctx) (ci_call_values ctx)"

definition is_valid_jump :: "contract \<Rightarrow> nat \<Rightarrow> bool" where
  "is_valid_jump c pos =
     (case legacy_jump_table (c_bytecode c) of Some t \<Rightarrow> jump_is_valid t pos | None \<Rightarrow> False)"

record interpreter_result =
  ir_result :: instruction_result
  ir_output :: bytes
  ir_gas :: gas

record eof_create_input =
  ec_caller :: address
  ec_created_address :: address
  ec_value :: u256
  ec_eof_init_code :: eof
  ec_gas_limit :: u64
  ec_return_memory_range :: "nat \<times> nat"

datatype interpreter_action =
    ActCall call_inputs
  | ActCreate create_inputs
  | ActEOFCreate eof_create_input
  | ActReturn interpreter_result
  | ActNone

record call_outcome =
  co_result :: interpreter_result
  co_memory_offset :: "nat \<times> nat"

record create_outcome =
  cro_result :: interpreter_result
  cro_address :: "address option"

record eof_create_outcome =
  eco_result :: interpreter_result
  eco_address :: address
  eco_return_memory_range :: "nat \<times> nat"

section \<open>The interpreter\<close>

record interpreter =
  ip :: nat
  int_gas :: gas
  contract :: contract
  instr_result :: instruction_result
  code_bytes :: bytes
  running_eof :: bool
  is_eof_init :: bool
  memory :: shared_memory
  stack :: evm_stack
  call_functions :: function_stack
  return_data_buffer :: bytes
  is_static :: bool
  next_action :: interpreter_action

text \<open>\<^verbatim>\<open>Bytecode::bytecode\<close>: the bytes to run, section 0 of an EOF container.\<close>

fun running_bytes :: "bytecode \<Rightarrow> bytes eval" where
  "running_bytes (LegacyRaw bs) = Val bs"
| "running_bytes (LegacyAnalyzed a) = Val (la_bytecode a)"
| "running_bytes (Eof e) = unwrap (body_code (eof_body e) 0)"

fun bytecode_eof :: "bytecode \<Rightarrow> eof option" where
  "bytecode_eof (Eof e) = Some e"
| "bytecode_eof _ = None"

definition interpreter_new :: "contract \<Rightarrow> u64 \<Rightarrow> bool \<Rightarrow> interpreter eval" where
  "interpreter_new c gl static =
     (if \<not> is_execution_ready (c_bytecode c) then Panic
      else bindE (running_bytes (c_bytecode c)) (\<lambda>bs. Val
        \<lparr>ip = 0, int_gas = gas_new gl, contract = c, instr_result = Continue, code_bytes = bs,
         running_eof = is_eof (c_bytecode c), is_eof_init = False, memory = EMPTY_SHARED_MEMORY,
         stack = [], call_functions = fs_new, return_data_buffer = [], is_static = static,
         next_action = ActNone\<rparr>))"

definition set_is_eof_init :: "interpreter \<Rightarrow> interpreter" where
  "set_is_eof_init i = i\<lparr>is_eof_init := True\<rparr>"

definition load_eof_code :: "interpreter \<Rightarrow> nat \<Rightarrow> nat \<Rightarrow> interpreter eval" where
  "load_eof_code i idx pc =
     (case bytecode_eof (c_bytecode (contract i)) of
        None \<Rightarrow> Panic
      | Some e \<Rightarrow> bindE (unwrap (body_code (eof_body e) idx)) (\<lambda>bs. Val (i\<lparr>code_bytes := bs, ip := pc\<rparr>)))"

section \<open>Outcomes of sub-calls\<close>

definition push_or_fail :: "u256 \<Rightarrow> (interpreter \<Rightarrow> interpreter eval) \<Rightarrow> interpreter \<Rightarrow> interpreter eval" where
  "push_or_fail v k i =
     (case stack_push (stack i) v of
        (Inl e, s) \<Rightarrow> Val (i\<lparr>instr_result := e, stack := s\<rparr>)
      | (Inr _, s) \<Rightarrow> k (i\<lparr>stack := s\<rparr>))"

definition return_gas :: "gas \<Rightarrow> interpreter \<Rightarrow> interpreter eval" where
  "return_gas g i = bindE (erase_cost (int_gas i) (remaining g)) (\<lambda>g'. Val (i\<lparr>int_gas := g'\<rparr>))"

definition return_gas_and_refund :: "gas \<Rightarrow> interpreter \<Rightarrow> interpreter eval" where
  "return_gas_and_refund g i =
     bindE (return_gas g i) (\<lambda>i. bindE (record_refund (int_gas i) (refunded g)) (\<lambda>g'. Val (i\<lparr>int_gas := g'\<rparr>)))"

definition insert_create_outcome :: "create_outcome \<Rightarrow> interpreter \<Rightarrow> interpreter eval" where
  "insert_create_outcome out i =
     (let r = ir_result (cro_result out);
          i = i\<lparr>instr_result := Continue,
                return_data_buffer := (if is_revert r then ir_output (cro_result out) else [])\<rparr>
      in if is_ok r then
           push_or_fail (ucast (case cro_address out of Some a \<Rightarrow> a | None \<Rightarrow> 0))
             (return_gas_and_refund (ir_gas (cro_result out))) i
         else if is_revert r then push_or_fail 0 (return_gas (ir_gas (cro_result out))) i
         else if r = FatalExternalError then Panic
         else push_or_fail 0 Val i)"

definition insert_eofcreate_outcome :: "eof_create_outcome \<Rightarrow> interpreter \<Rightarrow> interpreter eval" where
  "insert_eofcreate_outcome out i =
     (let r = ir_result (eco_result out);
          i = i\<lparr>return_data_buffer := (if r = Revert then ir_output (eco_result out) else [])\<rparr>
      in if r = ReturnContract then
           push_or_fail (ucast (eco_address out)) (return_gas_and_refund (ir_gas (eco_result out))) i
         else if is_revert r then push_or_fail 0 (return_gas (ir_gas (eco_result out))) i
         else if r = FatalExternalError then Panic
         else push_or_fail 0 Val i)"

text \<open>The shared memory is passed beside the interpreter, which holds an empty one meanwhile.\<close>

definition insert_call_outcome ::
  "shared_memory \<Rightarrow> call_outcome \<Rightarrow> interpreter \<Rightarrow> (interpreter \<times> shared_memory) eval" where
  "insert_call_outcome m out i =
     (let r = ir_result (co_result out);
          i = i\<lparr>instr_result := Continue, return_data_buffer := ir_output (co_result out)\<rparr>;
          (out_offset, out_end) = co_memory_offset out;
          target_len = min (out_end - out_offset) (length (return_data_buffer i));
          data = take target_len (return_data_buffer i)
      in if is_ok r then
           bindE (return_gas_and_refund (ir_gas (co_result out)) i) (\<lambda>i.
           bindE (mem_set m out_offset data) (\<lambda>m.
           bindE (push_or_fail 1 Val i) (\<lambda>i. Val (i, m))))
         else if is_revert r then
           bindE (return_gas (ir_gas (co_result out)) i) (\<lambda>i.
           bindE (mem_set m out_offset data) (\<lambda>m.
           bindE (push_or_fail 0 Val i) (\<lambda>i. Val (i, m))))
         else if r = FatalExternalError then Panic
         else bindE (push_or_fail 0 Val i) (\<lambda>i. Val (i, m)))"

section \<open>The host\<close>

text \<open>The trait \<^verbatim>\<open>Host\<close>: its methods as functions on the host's state.\<close>

record 'h host =
  h_env :: "'h \<Rightarrow> env"
  h_load_account :: "address \<Rightarrow> 'h \<Rightarrow> (load_account_result option \<times> 'h) eval"
  h_block_hash :: "u256 \<Rightarrow> 'h \<Rightarrow> (b256 option \<times> 'h) eval"
  h_code :: "address \<Rightarrow> 'h \<Rightarrow> ((bytecode \<times> bool) option \<times> 'h) eval"
  h_code_hash :: "address \<Rightarrow> 'h \<Rightarrow> ((b256 \<times> bool) option \<times> 'h) eval"
  h_sload :: "address \<Rightarrow> u256 \<Rightarrow> 'h \<Rightarrow> ((u256 \<times> bool) option \<times> 'h) eval"
  h_sstore :: "address \<Rightarrow> u256 \<Rightarrow> u256 \<Rightarrow> 'h \<Rightarrow> (sstore_result option \<times> 'h) eval"
  h_tload :: "address \<Rightarrow> u256 \<Rightarrow> 'h \<Rightarrow> (u256 \<times> 'h) eval"
  h_tstore :: "address \<Rightarrow> u256 \<Rightarrow> u256 \<Rightarrow> 'h \<Rightarrow> (unit \<times> 'h) eval"
  h_log :: "log \<Rightarrow> 'h \<Rightarrow> (unit \<times> 'h) eval"
  h_selfdestruct :: "address \<Rightarrow> address \<Rightarrow> 'h \<Rightarrow> (self_destruct_result option \<times> 'h) eval"
  h_balance :: "u256 \<Rightarrow> address \<Rightarrow> 'h \<Rightarrow> ((u256 \<times> bool) option \<times> 'h) eval"
  h_base_balance :: "address \<Rightarrow> 'h \<Rightarrow> ((u256 \<times> bool) option \<times> 'h) eval"
  h_burn :: "address \<Rightarrow> u256 \<Rightarrow> address \<Rightarrow> u256 \<Rightarrow> 'h \<Rightarrow> (bool \<times> 'h) eval"
  h_mint :: "address \<Rightarrow> address \<Rightarrow> u256 \<Rightarrow> u256 \<Rightarrow> 'h \<Rightarrow> (bool \<times> 'h) eval"

text \<open>
  Functions of the crate \<^verbatim>\<open>alloy_primitives\<close>: the hash and the two derivations of a new contract's
  address.
\<close>

record alloy =
  keccak256 :: keccak
  address_create :: "address \<Rightarrow> u64 \<Rightarrow> address"
  address_create2 :: "address \<Rightarrow> bytes \<Rightarrow> b256 \<Rightarrow> address"

section \<open>Macros\<close>

type_synonym 'h instr = "interpreter \<Rightarrow> 'h \<Rightarrow> (interpreter \<times> 'h) eval"

definition finish :: "'h instr" where
  "finish i h = Val (i, h)"

definition fail :: "instruction_result \<Rightarrow> 'h instr" where
  "fail r i h = Val (i\<lparr>instr_result := r\<rparr>, h)"

definition require_non_staticcall :: "'h instr \<Rightarrow> 'h instr" where
  "require_non_staticcall k i h = (if is_static i then fail StateChangeDuringStaticCall i h else k i h)"

definition require_eof :: "'h instr \<Rightarrow> 'h instr" where
  "require_eof k i h = (if \<not> running_eof i then fail EOFOpcodeDisabledInLegacy i h else k i h)"

definition require_init_eof :: "'h instr \<Rightarrow> 'h instr" where
  "require_init_eof k i h = (if \<not> is_eof_init i then fail ReturnContractInNotInitEOF i h else k i h)"

definition check_spec :: "spec_id \<Rightarrow> spec_id \<Rightarrow> 'h instr \<Rightarrow> 'h instr" where
  "check_spec sp lo k i h = (if \<not> enabled sp lo then fail NotActivated i h else k i h)"

definition charge :: "u64 \<Rightarrow> 'h instr \<Rightarrow> 'h instr" where
  "charge cost k i h =
     (let (ok, g) = record_cost (int_gas i) cost
      in if ok then k (i\<lparr>int_gas := g\<rparr>) h else fail OutOfGas i h)"

definition charge_or_fail :: "u64 option \<Rightarrow> 'h instr \<Rightarrow> 'h instr" where
  "charge_or_fail cost k i h = (case cost of Some c \<Rightarrow> charge c k i h | None \<Rightarrow> fail OutOfGas i h)"

definition refund :: "i64 \<Rightarrow> 'h instr \<Rightarrow> 'h instr" where
  "refund r k i h = bindE (record_refund (int_gas i) r) (\<lambda>g. k (i\<lparr>int_gas := g\<rparr>) h)"

definition resize_mem :: "nat \<Rightarrow> nat \<Rightarrow> 'h instr \<Rightarrow> 'h instr" where
  "resize_mem offset len k i h =
     bindE (resize_memory_macro (memory i) (int_gas i) offset len) (\<lambda>(err, m, g).
       let i = i\<lparr>memory := m, int_gas := g\<rparr>
       in case err of Some e \<Rightarrow> fail e i h | None \<Rightarrow> k i h)"

text \<open>The \<^verbatim>\<open>pop!\<close> family: the check, then the unchecked pops.\<close>

definition pop1 :: "(u256 \<Rightarrow> 'h instr) \<Rightarrow> 'h instr" where
  "pop1 k i h =
     (if length (stack i) < 1 then fail StackUnderflow i h
      else bindE (pop_unsafe (stack i)) (\<lambda>(a, s). k a (i\<lparr>stack := s\<rparr>) h))"

definition pop2 :: "(u256 \<Rightarrow> u256 \<Rightarrow> 'h instr) \<Rightarrow> 'h instr" where
  "pop2 k i h =
     (if length (stack i) < 2 then fail StackUnderflow i h
      else bindE (pop2_unsafe (stack i)) (\<lambda>((a, b), s). k a b (i\<lparr>stack := s\<rparr>) h))"

definition pop3 :: "(u256 \<Rightarrow> u256 \<Rightarrow> u256 \<Rightarrow> 'h instr) \<Rightarrow> 'h instr" where
  "pop3 k i h =
     (if length (stack i) < 3 then fail StackUnderflow i h
      else bindE (pop3_unsafe (stack i)) (\<lambda>((a, b, c), s). k a b c (i\<lparr>stack := s\<rparr>) h))"

definition pop4 :: "(u256 \<Rightarrow> u256 \<Rightarrow> u256 \<Rightarrow> u256 \<Rightarrow> 'h instr) \<Rightarrow> 'h instr" where
  "pop4 k i h =
     (if length (stack i) < 4 then fail StackUnderflow i h
      else bindE (pop4_unsafe (stack i)) (\<lambda>((a, b, c, d), s). k a b c d (i\<lparr>stack := s\<rparr>) h))"

text \<open>\<^verbatim>\<open>Address::from_word\<close> takes the low 20 bytes.\<close>

definition pop_address :: "(address \<Rightarrow> 'h instr) \<Rightarrow> 'h instr" where
  "pop_address k = pop1 (\<lambda>w. k (ucast w))"

text \<open>
  \<^verbatim>\<open>pop_top!\<close> leaves the last operand on the stack and hands out a reference to it; \<open>put_top\<close> is
  the assignment through that reference.
\<close>

definition top1 :: "(u256 \<Rightarrow> 'h instr) \<Rightarrow> 'h instr" where
  "top1 k i h =
     (if length (stack i) < 1 then fail StackUnderflow i h
      else bindE (top_unsafe (stack i)) (\<lambda>a. k a i h))"

definition top2 :: "(u256 \<Rightarrow> u256 \<Rightarrow> 'h instr) \<Rightarrow> 'h instr" where
  "top2 k i h =
     (if length (stack i) < 2 then fail StackUnderflow i h
      else bindE (pop_top_unsafe (stack i)) (\<lambda>((a, b), s). k a b (i\<lparr>stack := s\<rparr>) h))"

definition top3 :: "(u256 \<Rightarrow> u256 \<Rightarrow> u256 \<Rightarrow> 'h instr) \<Rightarrow> 'h instr" where
  "top3 k i h =
     (if length (stack i) < 3 then fail StackUnderflow i h
      else bindE (pop2_top_unsafe (stack i)) (\<lambda>((a, b, c), s). k a b c (i\<lparr>stack := s\<rparr>) h))"

definition put_top :: "u256 \<Rightarrow> 'h instr" where
  "put_top v i h = bindE (set_top (stack i) v) (\<lambda>s. Val (i\<lparr>stack := s\<rparr>, h))"

definition push1 :: "u256 \<Rightarrow> 'h instr \<Rightarrow> 'h instr" where
  "push1 v k i h =
     (case stack_push (stack i) v of
        (Inl e, s) \<Rightarrow> fail e (i\<lparr>stack := s\<rparr>) h
      | (Inr _, s) \<Rightarrow> k (i\<lparr>stack := s\<rparr>) h)"

definition as_u64_saturated :: "u256 \<Rightarrow> u64" where
  "as_u64_saturated v = (if limb v 1 = 0 \<and> limb v 2 = 0 \<and> limb v 3 = 0 then limb v 0 else - 1)"

definition as_usize_saturated :: "u256 \<Rightarrow> nat" where
  "as_usize_saturated v = unat (as_u64_saturated v)"

definition as_isize_saturated :: "u256 \<Rightarrow> nat" where
  "as_isize_saturated v = min (unat (as_u64_saturated v)) (2 ^ 63 - 1)"

definition as_usize_or_fail_with :: "u256 \<Rightarrow> instruction_result \<Rightarrow> (nat \<Rightarrow> 'h instr) \<Rightarrow> 'h instr" where
  "as_usize_or_fail_with v reason k i h =
     (if limb v 1 \<noteq> 0 \<or> limb v 2 \<noteq> 0 \<or> limb v 3 \<noteq> 0 then fail reason i h
      else k (unat (limb v 0)) i h)"

definition as_usize_or_fail :: "u256 \<Rightarrow> (nat \<Rightarrow> 'h instr) \<Rightarrow> 'h instr" where
  "as_usize_or_fail v k = as_usize_or_fail_with v InvalidOperandOOG k"

text \<open>A call of the host; \<open>ask\<close> also covers \<^verbatim>\<open>let Some(..) = .. else\<close> with the fatal error.\<close>

definition call_host :: "('h \<Rightarrow> ('a \<times> 'h) eval) \<Rightarrow> ('a \<Rightarrow> 'h instr) \<Rightarrow> 'h instr" where
  "call_host f k i h = bindE (f h) (\<lambda>(x, h). k x i h)"

definition ask :: "('h \<Rightarrow> ('a option \<times> 'h) eval) \<Rightarrow> ('a \<Rightarrow> 'h instr) \<Rightarrow> 'h instr" where
  "ask f k = call_host f (\<lambda>r. case r of Some x \<Rightarrow> k x | None \<Rightarrow> fail FatalExternalError)"

text \<open>Reads through the instruction pointer, and moving it.\<close>

definition read_code :: "nat \<Rightarrow> nat \<Rightarrow> (bytes \<Rightarrow> 'h instr) \<Rightarrow> 'h instr" where
  "read_code off n k i h =
     (if ip i + off + n \<le> length (code_bytes i)
      then k (take n (drop (ip i + off) (code_bytes i))) i h else Panic)"

definition read_u16 :: "nat \<Rightarrow> (nat \<Rightarrow> 'h instr) \<Rightarrow> 'h instr" where
  "read_u16 off k = read_code off 2 (\<lambda>bs. k (unat (from_be_bytes bs :: u16)))"

definition read_i16 :: "nat \<Rightarrow> (int \<Rightarrow> 'h instr) \<Rightarrow> 'h instr" where
  "read_i16 off k = read_code off 2 (\<lambda>bs. k (sint (from_be_bytes bs :: u16)))"

definition read_byte :: "(u8 \<Rightarrow> 'h instr) \<Rightarrow> 'h instr" where
  "read_byte k = read_code 0 1 (\<lambda>bs. k (hd bs))"

definition move_ip :: "int \<Rightarrow> 'h instr" where
  "move_ip d i h = (if int (ip i) + d < 0 then Panic else Val (i\<lparr>ip := nat (int (ip i) + d)\<rparr>, h))"

definition program_counter :: "interpreter \<Rightarrow> nat" where
  "program_counter i = ip i"

definition with_interp :: "(interpreter \<Rightarrow> 'h instr) \<Rightarrow> 'h instr" where
  "with_interp f i h = f i i h"

definition with_env :: "'h host \<Rightarrow> (env \<Rightarrow> 'h instr) \<Rightarrow> 'h instr" where
  "with_env H f i h = f (h_env H h) i h"

lemmas macro_defs =
  finish_def fail_def require_non_staticcall_def require_eof_def require_init_eof_def check_spec_def
  charge_def charge_or_fail_def refund_def resize_mem_def pop1_def pop2_def pop3_def pop4_def
  pop_address_def top1_def top2_def top3_def put_top_def push1_def as_usize_or_fail_with_def
  as_usize_or_fail_def call_host_def ask_def read_code_def read_u16_def read_i16_def read_byte_def
  move_ip_def with_interp_def with_env_def

end
