(* ===== verification/Signed_Word.thy ===== *)
theory Signed_Word
  imports Prelude "HOL-Library.Signed_Division"
begin

unbundle bit_operations_syntax

text \<open>
  Two's complement arithmetic on 256-bit words, \<^verbatim>\<open>interpreter/src/instructions/i256.rs\<close>, and the
  word functions inside the instructions \<^verbatim>\<open>SAR\<close>, \<^verbatim>\<open>BYTE\<close> and \<^verbatim>\<open>SIGNEXTEND\<close> of
  \<^verbatim>\<open>bitwise.rs\<close> and \<^verbatim>\<open>arithmetic.rs\<close>, with their meaning on the integers that the words denote.
\<close>

section \<open>Definitions\<close>

datatype sign = Minus_sign | Zero_sign | Plus_sign
datatype ordering = Less | Equal | Greater

fun sign_rank :: "sign \<Rightarrow> int" where
  "sign_rank Minus_sign = - 1"
| "sign_rank Zero_sign = 0"
| "sign_rank Plus_sign = 1"

definition compare_by :: "'a::linorder \<Rightarrow> 'a \<Rightarrow> ordering" where
  "compare_by x y = (if x < y then Less else if x = y then Equal else Greater)"

definition MIN_NEGATIVE_VALUE :: u256 where "MIN_NEGATIVE_VALUE = 2 ^ 255"
definition MAX_POSITIVE_VALUE :: u256 where "MAX_POSITIVE_VALUE = 2 ^ 255 - 1"

definition i256_sign :: "u256 \<Rightarrow> sign" where
  "i256_sign val = (if bit val 255 then Minus_sign else if val \<noteq> 0 then Plus_sign else Zero_sign)"

definition two_compl :: "u256 \<Rightarrow> u256" where
  "two_compl op = - op"

definition i256_sign_compl :: "u256 \<Rightarrow> sign \<times> u256" where
  "i256_sign_compl val = (let sign = i256_sign val in (sign, if sign = Minus_sign then two_compl val else val))"

text \<open>\<^verbatim>\<open>limbs[3] &= 0x7FFF_FFFF_FFFF_FFFF\<close>.\<close>

definition u256_remove_sign :: "u256 \<Rightarrow> u256" where
  "u256_remove_sign val = val AND mask 255"

definition i256_cmp :: "u256 \<Rightarrow> u256 \<Rightarrow> ordering" where
  "i256_cmp first second =
     (let by_sign = compare_by (sign_rank (i256_sign first)) (sign_rank (i256_sign second))
      in if by_sign = Equal then compare_by first second else by_sign)"

definition i256_div :: "u256 \<Rightarrow> u256 \<Rightarrow> u256" where
  "i256_div first second =
     (let (second_sign, second) = i256_sign_compl second in
      if second_sign = Zero_sign then 0
      else
        let (first_sign, first) = i256_sign_compl first in
        if first = MIN_NEGATIVE_VALUE \<and> second = 1 then two_compl MIN_NEGATIVE_VALUE
        else
          let d = u256_remove_sign (first div second) in
          if first_sign = Minus_sign \<and> second_sign \<noteq> Minus_sign \<or>
             second_sign = Minus_sign \<and> first_sign \<noteq> Minus_sign
          then two_compl d else d)"

definition i256_mod :: "u256 \<Rightarrow> u256 \<Rightarrow> u256" where
  "i256_mod first second =
     (let (first_sign, first) = i256_sign_compl first in
      if first_sign = Zero_sign then 0
      else
        let (second_sign, second) = i256_sign_compl second in
        if second_sign = Zero_sign then 0
        else
          let r = u256_remove_sign (first mod second) in
          if first_sign = Minus_sign then two_compl r else r)"

text \<open>The results of \<^verbatim>\<open>sar\<close>, \<^verbatim>\<open>byte\<close> and \<^verbatim>\<open>signextend\<close>; the shift and the index are already \<^verbatim>\<open>usize\<close>.\<close>

definition sar_word :: "nat \<Rightarrow> u256 \<Rightarrow> u256" where
  "sar_word shift x =
     (if shift \<ge> 256 then (if bit x 255 then - 1 else 0)
      else if bit x 255 then (drop_bit shift x OR push_bit (256 - shift) (- 1))
      else drop_bit shift x)"

definition byte_word :: "nat \<Rightarrow> u256 \<Rightarrow> u256" where
  "byte_word o1 x = (if o1 < 32 then drop_bit (8 * (31 - o1)) x AND mask 8 else 0)"

definition signextend_word :: "u256 \<Rightarrow> u256 \<Rightarrow> u256" where
  "signextend_word ext x =
     (if ext < 31 then
        let bit_index = 8 * unat ext + 7; m = push_bit bit_index 1 - 1
        in if bit x bit_index then x OR NOT m else x AND m
      else x)"

section \<open>Signs and magnitudes\<close>

lemma bit_255_iff: "bit x 255 \<longleftrightarrow> sint x < 0" for x :: u256
  using bit_last_iff [of x] by simp

lemma sint_bounds: "- (2 ^ 255) \<le> sint x" "sint x < 2 ^ 255" for x :: u256
  using sint_greater_eq [of x] sint_less [of x] by simp_all

lemma sint_eq_0_iff: "sint x = 0 \<longleftrightarrow> x = 0" for x :: u256
proof
  assume "sint x = 0"
  then have "of_int (sint x) = (0 :: u256)" by simp
  then show "x = 0" by simp
qed simp

lemma i256_sign_sgn:
  "i256_sign x = (if sint x < 0 then Minus_sign else if sint x = 0 then Zero_sign else Plus_sign)"
  by (auto simp: i256_sign_def bit_255_iff sint_eq_0_iff)

lemma sign_rank_sgn: "sign_rank (i256_sign x) = sgn (sint x)"
  by (simp add: i256_sign_sgn)

lemma uint_of_int_small: "0 \<le> k \<Longrightarrow> k < 2 ^ 256 \<Longrightarrow> uint (of_int k :: u256) = k"
  by (simp add: unsigned_of_int take_bit_int_eq_self)

lemma uint_nonneg_sint: "0 \<le> sint x \<Longrightarrow> uint x = sint x" for x :: u256
  using uint_of_int_small [of "sint x"] sint_bounds(2) [of x] by simp

lemma uint_two_compl_neg: "sint x < 0 \<Longrightarrow> uint (two_compl x) = - sint x"
  using uint_of_int_small [of "- sint x"] sint_bounds(1) [of x] by (simp add: two_compl_def)

text \<open>\<^verbatim>\<open>i256_sign_compl\<close> splits a word into the sign and the magnitude of the integer it denotes.\<close>

lemma sign_compl_magnitude: "uint (snd (i256_sign_compl x)) = \<bar>sint x\<bar>"
  by (simp add: i256_sign_compl_def Let_def i256_sign_sgn uint_two_compl_neg uint_nonneg_sint)

lemma fst_sign_compl [simp]: "fst (i256_sign_compl x) = i256_sign x"
  by (simp add: i256_sign_compl_def Let_def)

lemma uint_remove_sign: "uint x < 2 ^ 255 \<Longrightarrow> u256_remove_sign x = x"
  unfolding u256_remove_sign_def take_bit_eq_mask [symmetric]
  by (simp add: word_uint_eq_iff unsigned_take_bit_eq take_bit_int_eq_self)

lemma word_eq_of_int: "uint x = k \<Longrightarrow> x = of_int k" for x :: u256
  by (metis word_of_int_uint)


section \<open>Comparison and division\<close>

lemma i256_cmp_sint: "i256_cmp a b = compare_by (sint a) (sint b)"
proof -
  have neg: "uint x = sint x + 2 ^ 256" if "sint x < 0" for x :: u256
  proof -
    have "(sint x + 2 ^ 256) mod 2 ^ 256 = sint x + 2 ^ 256"
      using that sint_bounds(1) [of x] by (intro mod_pos_pos_trivial) simp_all
    then show ?thesis by (simp add: uint_sint [of x] take_bit_eq_mod)
  qed
  have eq: "a = b \<longleftrightarrow> sint a = sint b"
    by (auto simp: signed_word_eqI)
  have less: "a < b \<longleftrightarrow> sint a < sint b" if "sint a < 0 \<longleftrightarrow> sint b < 0"
  proof (cases "sint a < 0")
    case True
    with that show ?thesis unfolding word_less_alt by (simp add: neg)
  next
    case False
    with that show ?thesis unfolding word_less_alt by (simp add: uint_nonneg_sint)
  qed
  show ?thesis
  proof (cases "sgn (sint a) = sgn (sint b)")
    case True
    then have "sint a < 0 \<longleftrightarrow> sint b < 0" by (auto simp: sgn_if split: if_splits)
    with True show ?thesis by (simp add: i256_cmp_def Let_def sign_rank_sgn compare_by_def less eq)
  next
    case False
    then show ?thesis by (auto simp: i256_cmp_def Let_def sign_rank_sgn compare_by_def sgn_if split: if_splits)
  qed
qed

lemma magnitude_div:
  fixes a b :: u256
  assumes "sint b \<noteq> 0" and "\<not> (sint a = - (2 ^ 255) \<and> \<bar>sint b\<bar> = 1)"
  shows "\<bar>sint a\<bar> div \<bar>sint b\<bar> < 2 ^ 255"
proof (cases "\<bar>sint b\<bar> = 1")
  case True
  then show ?thesis using assms sint_bounds [of a] by auto
next
  case False
  have "\<bar>sint a\<bar> div \<bar>sint b\<bar> \<le> \<bar>sint a\<bar> div 2"
    using assms(1) False by (intro zdiv_mono2) auto
  also have "\<dots> < 2 ^ 255" using sint_bounds [of a] by (auto simp: abs_if)
  finally show ?thesis .
qed

lemma i256_div_sdiv: "i256_div a b = of_int (sint a sdiv sint b)"
proof -
  define ma mb where "ma = snd (i256_sign_compl a)" and "mb = snd (i256_sign_compl b)"
  have split: "i256_sign_compl a = (i256_sign a, ma)" "i256_sign_compl b = (i256_sign b, mb)"
    by (simp_all add: ma_def mb_def prod_eq_iff)
  have u: "uint ma = \<bar>sint a\<bar>" "uint mb = \<bar>sint b\<bar>"
    by (simp_all add: ma_def mb_def sign_compl_magnitude)
  have min: "ma = MIN_NEGATIVE_VALUE \<longleftrightarrow> sint a = - (2 ^ 255)"
    using u sint_bounds [of a] by (auto simp: word_uint_eq_iff MIN_NEGATIVE_VALUE_def abs_if)
  have one: "mb = 1 \<longleftrightarrow> \<bar>sint b\<bar> = 1"
    using u by (simp add: word_uint_eq_iff)
  consider "sint b = 0" | "sint b \<noteq> 0" "sint a = - (2 ^ 255)" "\<bar>sint b\<bar> = 1"
    | "sint b \<noteq> 0" "\<not> (sint a = - (2 ^ 255) \<and> \<bar>sint b\<bar> = 1)" by blast
  then show ?thesis
  proof cases
    case 1
    then show ?thesis by (simp add: i256_div_def split i256_sign_sgn signed_divide_int_def)
  next
    case 2
    have "sint a sdiv sint b = 2 ^ 255 \<or> sint a sdiv sint b = - (2 ^ 255)"
    proof -
      have "sint b = 1 \<or> sint b = - 1" using 2(3) by linarith
      then show ?thesis using 2(2) by (auto simp: signed_divide_int_def)
    qed
    moreover have "(of_int (2 ^ 255) :: u256) = two_compl MIN_NEGATIVE_VALUE"
      and "(of_int (- (2 ^ 255)) :: u256) = two_compl MIN_NEGATIVE_VALUE"
      by (simp_all add: two_compl_def MIN_NEGATIVE_VALUE_def)
    ultimately have "of_int (sint a sdiv sint b) = two_compl MIN_NEGATIVE_VALUE" by metis
    with 2 show ?thesis using min one by (simp add: i256_div_def split i256_sign_sgn)
  next
    case 3
    let ?d = "\<bar>sint a\<bar> div \<bar>sint b\<bar>"
    have "uint (ma div mb) = ?d" by (simp add: uint_div u)
    then have d: "u256_remove_sign (ma div mb) = of_int ?d"
      using magnitude_div [OF 3] uint_remove_sign word_eq_of_int by metis
    have "\<not> (ma = MIN_NEGATIVE_VALUE \<and> mb = 1)" using 3 min one by simp
    moreover have "sint a sdiv sint b = sgn (sint a) * sgn (sint b) * ?d"
      by (simp add: signed_divide_int_def)
    ultimately show ?thesis
      using 3(1) by (auto simp: i256_div_def split i256_sign_sgn d two_compl_def sgn_if)
  qed
qed

lemma i256_mod_smod: "i256_mod a b = (if b = 0 then 0 else of_int (sint a smod sint b))"
proof -
  define ma mb where "ma = snd (i256_sign_compl a)" and "mb = snd (i256_sign_compl b)"
  have split: "i256_sign_compl a = (i256_sign a, ma)" "i256_sign_compl b = (i256_sign b, mb)"
    by (simp_all add: ma_def mb_def prod_eq_iff)
  have u: "uint ma = \<bar>sint a\<bar>" "uint mb = \<bar>sint b\<bar>"
    by (simp_all add: ma_def mb_def sign_compl_magnitude)
  show ?thesis
  proof (cases "sint b = 0")
    case True
    then have "i256_sign b = Zero_sign" and "b = 0" by (simp_all add: i256_sign_sgn sint_eq_0_iff)
    moreover have "i256_sign_compl 0 = (Zero_sign, 0)" by (simp add: i256_sign_compl_def i256_sign_def)
    ultimately show ?thesis by (simp add: i256_mod_def split Let_def split: prod.splits)
  next
    case False
    let ?r = "\<bar>sint a\<bar> mod \<bar>sint b\<bar>"
    have "?r < \<bar>sint b\<bar>" using False by simp
    moreover have "\<bar>sint b\<bar> \<le> 2 ^ 255" using sint_bounds [of b] by (simp add: abs_le_iff)
    ultimately have "?r < 2 ^ 255" by linarith
    moreover have "uint (ma mod mb) = ?r" by (simp add: uint_mod u)
    ultimately have r: "u256_remove_sign (ma mod mb) = of_int ?r"
      using uint_remove_sign word_eq_of_int by metis
    have "sint a smod sint b = sgn (sint a) * ?r" by (simp add: signed_modulo_int_def)
    with False show ?thesis
      by (auto simp: i256_mod_def split i256_sign_sgn r two_compl_def sgn_if sint_eq_0_iff)
  qed
qed


section \<open>Shifts, bytes and sign extension\<close>

lemma sar_word_sint: "sar_word shift x = of_int (sint x div 2 ^ shift)"
proof (rule bit_word_eqI)
  fix n
  assume "n < LENGTH(256)"
  then have n: "n < 256" by simp
  have "bit (of_int (sint x div 2 ^ shift) :: u256) n \<longleftrightarrow> bit (sint x) (n + shift)"
    using n by (simp add: bit_word_of_int_iff drop_bit_eq_div [symmetric] bit_drop_bit_eq ac_simps)
  also have "\<dots> \<longleftrightarrow> bit x (min 255 (n + shift))"
    by (cases "n + shift < 256") (auto simp: bit_sint_iff min_def le_less not_less dest: bit_imp_le_length)
  also have "\<dots> \<longleftrightarrow> bit (sar_word shift x) n"
  proof (cases "bit x 255")
    case True
    then show ?thesis using n
      by (cases "n + shift < 255"; cases "n + shift = 255")
         (auto simp: sar_word_def bit_or_iff bit_drop_bit_eq bit_not_iff bit_mask_iff min_def ac_simps)
  next
    case False
    then have "bit x (n + shift) \<longleftrightarrow> n + shift < 255 \<and> bit x (n + shift)"
      using bit_imp_le_length [of x "n + shift"] by (cases "n + shift = 255") auto
    with False show ?thesis using n
      by (auto simp: sar_word_def bit_drop_bit_eq min_def ac_simps dest: bit_imp_le_length)
  qed
  finally show "bit (sar_word shift x) n = bit (of_int (sint x div 2 ^ shift) :: u256) n" by simp
qed

lemma byte_word_nth: "byte_word i x = (if i < 32 then ucast (to_be_bytes x ! i) else 0)"
proof (cases "i < 32")
  case True
  have nth: "nat_be n v ! i = of_nat (v div 256 ^ (n - 1 - i))" if "i < n" for n v i
    using that
  proof (induction n arbitrary: v)
    case (Suc n)
    show ?case
    proof (cases "i < n")
      case True
      then have "n - i = Suc (n - 1 - i)" by simp
      with Suc.IH [OF True] True show ?thesis by (simp add: nth_append div_mult2_eq)
    qed (use Suc.prems in \<open>auto simp: nth_append less_Suc_eq\<close>)
  qed simp
  have p: "(256::nat) ^ (31 - i) = 2 ^ (8 * (31 - i))" by (simp add: power_mult)
  have "unat (byte_word i x) = unat x div 2 ^ (8 * (31 - i)) mod 2 ^ 8"
  proof -
    have "unat (drop_bit (8 * (31 - i)) x AND mask 8) = take_bit 8 (drop_bit (8 * (31 - i)) (unat x))"
      by (simp only: take_bit_eq_mask [symmetric] unsigned_take_bit_eq unsigned_drop_bit_eq)
         (use unat_lt_length [of x] in \<open>simp add: take_bit_nat_eq_self [of "unat x" 256]\<close>)
    with True show ?thesis by (simp only: byte_word_def if_True take_bit_eq_mod drop_bit_eq_div)
  qed
  also have "\<dots> = unat (ucast (to_be_bytes x ! i) :: u256)"
    using True nth [of i 32 "unat x"] p
    by (simp add: to_be_bytes_def unsigned_ucast_eq unat_of_nat take_bit_eq_mod)
  finally show ?thesis using True by (simp add: word_unat_eq_iff)
qed (simp add: byte_word_def)

lemma signextend_word_bits:
  "signextend_word ext x = (if unat ext < 31 then of_int (signed_take_bit (8 * unat ext + 7) (uint x)) else x)"
proof (cases "unat ext < 31")
  case True
  then have lt: "ext < 31" by (simp add: word_less_nat_alt)
  let ?k = "8 * unat ext + 7"
  have k: "?k < 256" using True by simp
  have m: "push_bit ?k 1 - 1 = (mask ?k :: u256)" by (simp add: mask_eq_exp_minus_1 push_bit_of_1)
  have "signextend_word ext x = of_int (signed_take_bit ?k (uint x))"
  proof (rule bit_word_eqI)
    fix n assume "n < LENGTH(256)"
    then show "bit (signextend_word ext x) n = bit (of_int (signed_take_bit ?k (uint x)) :: u256) n"
      using k unfolding signextend_word_def Let_def m
      by (auto simp: lt bit_or_iff bit_and_iff bit_not_iff bit_mask_iff bit_word_of_int_iff
          bit_signed_take_bit_iff bit_uint_iff min_def not_less le_less)
  qed
  with True show ?thesis by simp
qed (simp add: signextend_word_def word_less_nat_alt)

text \<open>
  C38. The signed instructions compute on two's complement integers: \<^verbatim>\<open>SDIV\<close> truncates towards
  zero, with division by zero giving zero and the one overflow wrapping; \<^verbatim>\<open>SMOD\<close> takes the sign of
  the dividend; \<^verbatim>\<open>SLT\<close> and \<^verbatim>\<open>SGT\<close> compare the integers; \<^verbatim>\<open>SAR\<close> is floor division by a power of two
  for every shift, also beyond the width; \<^verbatim>\<open>SIGNEXTEND\<close> extends the low bytes; \<^verbatim>\<open>BYTE\<close> counts from
  the most significant byte.
\<close>

theorem signed_arithmetic:
  "i256_div a b = of_int (sint a sdiv sint b) \<and>
   i256_mod a b = (if b = 0 then 0 else of_int (sint a smod sint b)) \<and>
   i256_cmp a b = (if sint a < sint b then Less else if a = b then Equal else Greater) \<and>
   sar_word s a = of_int (sint a div 2 ^ s) \<and>
   signextend_word e a = (if unat e < 31 then of_int (signed_take_bit (8 * unat e + 7) (uint a)) else a) \<and>
   byte_word i a = (if i < 32 then ucast (to_be_bytes a ! i) else 0)"
  by (auto simp: i256_div_sdiv i256_mod_smod i256_cmp_sint compare_by_def sar_word_sint
      signextend_word_bits byte_word_nth intro: signed_word_eqI)

end
