(* ===== verification/Instructions.thy ===== *)
theory Instructions
  imports Interpreter Signed_Word
begin

unbundle bit_operations_syntax

text \<open>
  The instructions, one definition per function of \<^verbatim>\<open>interpreter/src/instructions/\<close>: arithmetic and
  bitwise operations, stack, memory, control flow, system queries, EOF data, host access and the
  block environment. Calls and creations are in theory \<open>Call_Instructions\<close>.
\<close>

section \<open>Arithmetic (\<^verbatim>\<open>arithmetic.rs\<close>)\<close>

definition i_add :: "'h instr" where
  "i_add = charge VERYLOW (top2 (\<lambda>op1 op2. put_top (op1 + op2)))"

definition i_mul :: "'h instr" where
  "i_mul = charge GAS_LOW (top2 (\<lambda>op1 op2. put_top (op1 * op2)))"

definition i_sub :: "'h instr" where
  "i_sub = charge VERYLOW (top2 (\<lambda>op1 op2. put_top (op1 - op2)))"

definition i_div :: "'h instr" where
  "i_div = charge GAS_LOW (top2 (\<lambda>op1 op2. if op2 \<noteq> 0 then put_top (op1 div op2) else finish))"

definition i_sdiv :: "'h instr" where
  "i_sdiv = charge GAS_LOW (top2 (\<lambda>op1 op2. put_top (i256_div op1 op2)))"

definition i_rem :: "'h instr" where
  "i_rem = charge GAS_LOW (top2 (\<lambda>op1 op2. if op2 \<noteq> 0 then put_top (op1 mod op2) else finish))"

definition i_smod :: "'h instr" where
  "i_smod = charge GAS_LOW (top2 (\<lambda>op1 op2. put_top (i256_mod op1 op2)))"

text \<open>\<^verbatim>\<open>add_mod\<close> and \<^verbatim>\<open>mul_mod\<close> of \<^verbatim>\<open>U256\<close>: on unbounded intermediate values, zero for modulus zero.\<close>

definition add_mod :: "u256 \<Rightarrow> u256 \<Rightarrow> u256 \<Rightarrow> u256" where
  "add_mod a b m = (if m = 0 then 0 else of_nat ((unat a + unat b) mod unat m))"

definition mul_mod :: "u256 \<Rightarrow> u256 \<Rightarrow> u256 \<Rightarrow> u256" where
  "mul_mod a b m = (if m = 0 then 0 else of_nat ((unat a * unat b) mod unat m))"

definition i_addmod :: "'h instr" where
  "i_addmod = charge GAS_MID (top3 (\<lambda>op1 op2 op3. put_top (add_mod op1 op2 op3)))"

definition i_mulmod :: "'h instr" where
  "i_mulmod = charge GAS_MID (top3 (\<lambda>op1 op2 op3. put_top (mul_mod op1 op2 op3)))"

definition i_exp :: "spec_id \<Rightarrow> 'h instr" where
  "i_exp sp = top2 (\<lambda>op1 op2. charge_or_fail (exp_cost sp op2) (put_top (op1 ^ unat op2)))"

definition i_signextend :: "'h instr" where
  "i_signextend = charge GAS_LOW (top2 (\<lambda>ext x. put_top (signextend_word ext x)))"

section \<open>Comparison and bits (\<^verbatim>\<open>bitwise.rs\<close>)\<close>

definition i_lt :: "'h instr" where
  "i_lt = charge VERYLOW (top2 (\<lambda>op1 op2. put_top (of_bool (op1 < op2))))"

definition i_gt :: "'h instr" where
  "i_gt = charge VERYLOW (top2 (\<lambda>op1 op2. put_top (of_bool (op1 > op2))))"

definition i_slt :: "'h instr" where
  "i_slt = charge VERYLOW (top2 (\<lambda>op1 op2. put_top (of_bool (i256_cmp op1 op2 = Less))))"

definition i_sgt :: "'h instr" where
  "i_sgt = charge VERYLOW (top2 (\<lambda>op1 op2. put_top (of_bool (i256_cmp op1 op2 = Greater))))"

definition i_eq :: "'h instr" where
  "i_eq = charge VERYLOW (top2 (\<lambda>op1 op2. put_top (of_bool (op1 = op2))))"

definition i_iszero :: "'h instr" where
  "i_iszero = charge VERYLOW (top1 (\<lambda>op1. put_top (of_bool (op1 = 0))))"

definition i_bitand :: "'h instr" where
  "i_bitand = charge VERYLOW (top2 (\<lambda>op1 op2. put_top (op1 AND op2)))"

definition i_bitor :: "'h instr" where
  "i_bitor = charge VERYLOW (top2 (\<lambda>op1 op2. put_top (op1 OR op2)))"

definition i_bitxor :: "'h instr" where
  "i_bitxor = charge VERYLOW (top2 (\<lambda>op1 op2. put_top (op1 XOR op2)))"

definition i_not :: "'h instr" where
  "i_not = charge VERYLOW (top1 (\<lambda>op1. put_top (NOT op1)))"

definition i_byte :: "'h instr" where
  "i_byte = charge VERYLOW (top2 (\<lambda>op1 op2. put_top (byte_word (as_usize_saturated op1) op2)))"

definition i_shl :: "spec_id \<Rightarrow> 'h instr" where
  "i_shl sp = check_spec sp CONSTANTINOPLE (charge VERYLOW (top2 (\<lambda>op1 op2.
     let shift = as_usize_saturated op1
     in put_top (if shift < 256 then push_bit shift op2 else 0))))"

definition i_shr :: "spec_id \<Rightarrow> 'h instr" where
  "i_shr sp = check_spec sp CONSTANTINOPLE (charge VERYLOW (top2 (\<lambda>op1 op2.
     let shift = as_usize_saturated op1
     in put_top (if shift < 256 then drop_bit shift op2 else 0))))"

definition i_sar :: "spec_id \<Rightarrow> 'h instr" where
  "i_sar sp = check_spec sp CONSTANTINOPLE (charge VERYLOW (top2 (\<lambda>op1 op2.
     put_top (sar_word (as_usize_saturated op1) op2))))"

section \<open>Stack (\<^verbatim>\<open>stack.rs\<close>)\<close>

text \<open>\<^verbatim>\<open>if let Err(result) = ..\<close> records the error of a stack operation and goes on.\<close>

definition stack_op :: "(evm_stack \<Rightarrow> 'a stack_result eval) \<Rightarrow> 'h instr \<Rightarrow> 'h instr" where
  "stack_op f k i h =
     bindE (f (stack i)) (\<lambda>(r, s).
       let i = i\<lparr>stack := s\<rparr>
       in k (case r of Inl e \<Rightarrow> i\<lparr>instr_result := e\<rparr> | Inr _ \<Rightarrow> i) h)"

definition i_pop :: "'h instr" where
  "i_pop = charge GAS_BASE (stack_op (\<lambda>s. Val (stack_pop s)) finish)"

definition i_push0 :: "spec_id \<Rightarrow> 'h instr" where
  "i_push0 sp = check_spec sp SHANGHAI (charge GAS_BASE (stack_op (\<lambda>s. Val (stack_push s 0)) finish))"

definition i_push :: "nat \<Rightarrow> 'h instr" where
  "i_push n = charge VERYLOW (read_code 0 n (\<lambda>bs i h.
     case push_slice (stack i) bs of
       (Inl e, s) \<Rightarrow> fail e (i\<lparr>stack := s\<rparr>) h
     | (Inr _, s) \<Rightarrow> move_ip (int n) (i\<lparr>stack := s\<rparr>) h))"

definition i_dup :: "nat \<Rightarrow> 'h instr" where
  "i_dup n = charge VERYLOW (stack_op (\<lambda>s. stack_dup s n) finish)"

definition i_swap :: "nat \<Rightarrow> 'h instr" where
  "i_swap n = charge VERYLOW (stack_op (\<lambda>s. stack_swap s n) finish)"

definition i_dupn :: "'h instr" where
  "i_dupn = require_eof (charge VERYLOW (read_byte (\<lambda>imm.
     stack_op (\<lambda>s. stack_dup s (unat imm + 1)) (move_ip 1))))"

definition i_swapn :: "'h instr" where
  "i_swapn = require_eof (charge VERYLOW (read_byte (\<lambda>imm.
     stack_op (\<lambda>s. stack_swap s (unat imm + 1)) (move_ip 1))))"

definition i_exchange :: "'h instr" where
  "i_exchange = require_eof (charge VERYLOW (read_byte (\<lambda>imm.
     let n = drop_bit 4 imm + 1; m = (imm AND 0x0F) + 1
     in stack_op (\<lambda>s. stack_exchange s (unat n) (unat m)) (move_ip 1))))"

section \<open>Memory (\<^verbatim>\<open>memory.rs\<close>)\<close>

definition mem_write :: "(shared_memory \<Rightarrow> shared_memory eval) \<Rightarrow> 'h instr \<Rightarrow> 'h instr" where
  "mem_write f k i h = bindE (f (memory i)) (\<lambda>m. k (i\<lparr>memory := m\<rparr>) h)"

definition mem_read :: "(shared_memory \<Rightarrow> 'a eval) \<Rightarrow> ('a \<Rightarrow> 'h instr) \<Rightarrow> 'h instr" where
  "mem_read f k i h = bindE (f (memory i)) (\<lambda>x. k x i h)"

definition i_mload :: "'h instr" where
  "i_mload = charge VERYLOW (top1 (\<lambda>top. as_usize_or_fail top (\<lambda>offset.
     resize_mem offset 32 (mem_read (\<lambda>m. get_u256 m offset) put_top))))"

definition i_mstore :: "'h instr" where
  "i_mstore = charge VERYLOW (pop2 (\<lambda>offset v. as_usize_or_fail offset (\<lambda>offset.
     resize_mem offset 32 (mem_write (\<lambda>m. set_u256 m offset v) finish))))"

definition i_mstore8 :: "'h instr" where
  "i_mstore8 = charge VERYLOW (pop2 (\<lambda>offset v. as_usize_or_fail offset (\<lambda>offset.
     resize_mem offset 1 (mem_write (\<lambda>m. set_byte m offset (ucast v)) finish))))"

definition i_msize :: "'h instr" where
  "i_msize = charge GAS_BASE (with_interp (\<lambda>i. push1 (of_nat (mem_len (memory i))) finish))"

definition i_mcopy :: "spec_id \<Rightarrow> 'h instr" where
  "i_mcopy sp = check_spec sp CANCUN (pop3 (\<lambda>dst src len. as_usize_or_fail len (\<lambda>len.
     charge_or_fail (verylowcopy_cost (of_nat len)) (
     if len = 0 then finish
     else as_usize_or_fail dst (\<lambda>dst. as_usize_or_fail src (\<lambda>src.
       resize_mem (max dst src) len (mem_write (\<lambda>m. mem_copy m dst src len) finish)))))))"

section \<open>Control flow (\<^verbatim>\<open>control.rs\<close>)\<close>

definition i_rjump :: "'h instr" where
  "i_rjump = require_eof (charge GAS_BASE (read_i16 0 (\<lambda>offset. move_ip (offset + 2))))"

definition i_rjumpi :: "'h instr" where
  "i_rjumpi = require_eof (charge CONDITION_JUMP_GAS (pop1 (\<lambda>condition.
     if condition \<noteq> 0 then read_i16 0 (\<lambda>offset. move_ip (2 + offset)) else move_ip 2)))"

definition i_rjumpv :: "'h instr" where
  "i_rjumpv = require_eof (charge CONDITION_JUMP_GAS (pop1 (\<lambda>cs.
     let cs = as_isize_saturated cs in
     read_byte (\<lambda>max_index.
       let offset = (int (unat max_index) + 1) * 2 + 1
       in if cs \<le> unat max_index then read_i16 (1 + cs * 2) (\<lambda>o1. move_ip (offset + o1))
          else move_ip offset))))"

definition jump_inner :: "u256 \<Rightarrow> 'h instr" where
  "jump_inner target = as_usize_or_fail_with target InvalidJump (\<lambda>target i h.
     if \<not> is_valid_jump (contract i) target then fail InvalidJump i h
     else Val (i\<lparr>ip := target\<rparr>, h))"

definition i_jump :: "'h instr" where
  "i_jump = charge GAS_MID (pop1 jump_inner)"

definition i_jumpi :: "'h instr" where
  "i_jumpi = charge GAS_HIGH (pop2 (\<lambda>target cond. if cond \<noteq> 0 then jump_inner target else finish))"

definition i_jumpdest_or_nop :: "'h instr" where
  "i_jumpdest_or_nop = charge GAS_JUMPDEST finish"

text \<open>The types of a code section, and the room its frame needs on the stack.\<close>

definition section_types :: "nat \<Rightarrow> (types_section \<Rightarrow> 'h instr) \<Rightarrow> 'h instr" where
  "section_types idx k i h =
     bindE (unwrap (bytecode_eof (c_bytecode (contract i)))) (\<lambda>e.
       let ts = types_sections (eof_body e)
       in if idx < length ts then k (ts ! idx) i h else Panic)"

definition check_stack_height :: "types_section \<Rightarrow> 'h instr \<Rightarrow> 'h instr" where
  "check_stack_height t k i h =
     bindE (minus_or_panic (max_stack_size t) (ucast (ts_inputs t))) (\<lambda>d.
       if length (stack i) + unat d > 1024 then fail StackOverflow i h else k i h)"

definition load_code :: "nat \<Rightarrow> nat \<Rightarrow> 'h instr" where
  "load_code idx pc i h = bindE (load_eof_code i idx pc) (\<lambda>i. Val (i, h))"

definition i_callf :: "'h instr" where
  "i_callf = require_eof (charge GAS_LOW (read_u16 0 (\<lambda>idx i h.
     if return_stack_len (call_functions i) \<ge> 1024 then fail EOFFunctionStackOverflow i h
     else section_types idx (\<lambda>t. check_stack_height t (\<lambda>i h.
       load_code idx 0 (i\<lparr>call_functions := fs_push (call_functions i) (program_counter i + 2) idx\<rparr>) h)) i h)))"

definition i_retf :: "'h instr" where
  "i_retf = require_eof (charge RETF_GAS (\<lambda>i h.
     case fs_pop (call_functions i) of
       (None, _) \<Rightarrow> Panic
     | (Some f, fs) \<Rightarrow> load_code (frame_idx f) (frame_pc f) (i\<lparr>call_functions := fs\<rparr>) h))"

definition i_jumpf :: "'h instr" where
  "i_jumpf = require_eof (charge GAS_LOW (read_u16 0 (\<lambda>idx.
     section_types idx (\<lambda>t. check_stack_height t (\<lambda>i h.
       load_code idx 0 (i\<lparr>call_functions := set_current_code_idx (call_functions i) idx\<rparr>) h)))))"

text \<open>The instruction pointer has advanced past the opcode already.\<close>

definition i_pc :: "'h instr" where
  "i_pc = charge GAS_BASE (with_interp (\<lambda>i. push1 (of_nat (program_counter i - 1)) finish))"

definition return_with :: "instruction_result \<Rightarrow> bytes \<Rightarrow> 'h instr" where
  "return_with r output i h =
     Val (i\<lparr>instr_result := r,
            next_action := ActReturn \<lparr>ir_result = r, ir_output = output, ir_gas = int_gas i\<rparr>\<rparr>, h)"

definition return_inner :: "instruction_result \<Rightarrow> 'h instr" where
  "return_inner r = pop2 (\<lambda>offset len. as_usize_or_fail len (\<lambda>len.
     if len \<noteq> 0 then as_usize_or_fail offset (\<lambda>offset.
       resize_mem offset len (mem_read (\<lambda>m. mem_slice m offset len) (return_with r)))
     else return_with r []))"

definition i_ret :: "'h instr" where
  "i_ret = return_inner Return"

definition i_revert :: "spec_id \<Rightarrow> 'h instr" where
  "i_revert sp = check_spec sp BYZANTIUM (return_inner Revert)"

definition i_stop :: "'h instr" where "i_stop = fail Stop"
definition i_invalid :: "'h instr" where "i_invalid = fail InvalidFEOpcode"
definition i_unknown :: "'h instr" where "i_unknown = fail OpcodeNotFound"

section \<open>System (\<^verbatim>\<open>system.rs\<close>)\<close>

definition i_keccak256 :: "alloy \<Rightarrow> 'h instr" where
  "i_keccak256 L = top2 (\<lambda>offset len. as_usize_or_fail len (\<lambda>len.
     charge_or_fail (keccak256_cost (of_nat len)) (
     if len = 0 then put_top KECCAK_EMPTY
     else as_usize_or_fail offset (\<lambda>start.
       resize_mem start len (mem_read (\<lambda>m. mem_slice m start len) (\<lambda>bs. put_top (keccak256 L bs)))))))"

definition i_address :: "'h instr" where
  "i_address = charge GAS_BASE (with_interp (\<lambda>i. push1 (ucast (c_target_address (contract i))) finish))"

definition i_caller :: "'h instr" where
  "i_caller = charge GAS_BASE (with_interp (\<lambda>i. push1 (ucast (c_caller (contract i))) finish))"

text \<open>\<^verbatim>\<open>assume!\<close> that the code is not EOF is undefined behaviour otherwise.\<close>

definition assume_legacy :: "'h instr \<Rightarrow> 'h instr" where
  "assume_legacy k i h = (if is_eof (c_bytecode (contract i)) then Panic else k i h)"

definition i_codesize :: "'h instr" where
  "i_codesize = charge GAS_BASE (assume_legacy (with_interp (\<lambda>i.
     push1 (of_nat (bytecode_len (c_bytecode (contract i)))) finish)))"

text \<open>The shape shared by the copy instructions, up to the write.\<close>

definition copy_prelude :: "u256 \<Rightarrow> u256 \<Rightarrow> (nat \<Rightarrow> nat \<Rightarrow> 'h instr) \<Rightarrow> 'h instr" where
  "copy_prelude memory_offset len k = as_usize_or_fail len (\<lambda>len.
     charge_or_fail (verylowcopy_cost (of_nat len)) (
     if len = 0 then finish else as_usize_or_fail memory_offset (\<lambda>memory_offset. k memory_offset len)))"

definition i_codecopy :: "'h instr" where
  "i_codecopy = pop3 (\<lambda>memory_offset code_offset len. copy_prelude memory_offset len (\<lambda>mo len.
     let co = as_usize_saturated code_offset in
     resize_mem mo len (assume_legacy (\<lambda>i h.
       bindE (original_byte_slice (c_bytecode (contract i))) (\<lambda>bs.
         mem_write (\<lambda>m. set_data m mo co len bs) finish i h)))))"

definition i_calldataload :: "'h instr" where
  "i_calldataload = charge VERYLOW (top1 (\<lambda>offset_ptr. with_interp (\<lambda>i.
     let offset = as_usize_saturated offset_ptr; input = c_input (contract i);
         w = (if offset < length input
              then let count = min 32 (length input - offset)
                   in take count (drop offset input) @ replicate (32 - count) 0
              else replicate 32 0)
     in put_top (from_be_bytes w))))"

definition i_calldatasize :: "'h instr" where
  "i_calldatasize = charge GAS_BASE (with_interp (\<lambda>i. push1 (of_nat (length (c_input (contract i)))) finish))"

definition i_callvalue :: "'h instr" where
  "i_callvalue = charge GAS_BASE (with_interp (\<lambda>i.
     push1 (case find (\<lambda>t. tt_id t = BASE_TOKEN_ID) (c_call_values (contract i)) of
              None \<Rightarrow> 0 | Some t \<Rightarrow> tt_amount t) finish))"

definition i_calldatacopy :: "'h instr" where
  "i_calldatacopy = pop3 (\<lambda>memory_offset data_offset len. copy_prelude memory_offset len (\<lambda>mo len.
     let d = as_usize_saturated data_offset in
     resize_mem mo len (with_interp (\<lambda>i.
       mem_write (\<lambda>m. set_data m mo d len (c_input (contract i))) finish))))"

definition i_returndatasize :: "spec_id \<Rightarrow> 'h instr" where
  "i_returndatasize sp = check_spec sp BYZANTIUM (charge GAS_BASE (with_interp (\<lambda>i.
     push1 (of_nat (length (return_data_buffer i))) finish)))"

definition i_returndatacopy :: "spec_id \<Rightarrow> 'h instr" where
  "i_returndatacopy sp = check_spec sp BYZANTIUM (pop3 (\<lambda>memory_offset offset len. as_usize_or_fail len (\<lambda>len.
     charge_or_fail (verylowcopy_cost (of_nat len)) (with_interp (\<lambda>i.
     let data_offset = as_usize_saturated offset; data_end = min (data_offset + len) (2 ^ 64 - 1)
     in if data_end > length (return_data_buffer i) then fail OutOfOffset
        else if len \<noteq> 0 then as_usize_or_fail memory_offset (\<lambda>mo.
          resize_mem mo len (mem_write (\<lambda>m.
            mem_set m mo (take (data_end - data_offset) (drop data_offset (return_data_buffer i)))) finish))
        else finish)))))"

definition i_returndataload :: "'h instr" where
  "i_returndataload = require_eof (charge VERYLOW (top1 (\<lambda>offset. as_usize_or_fail offset (\<lambda>offset_usize.
     with_interp (\<lambda>i.
       if min (offset_usize + 32) (2 ^ 64 - 1) > length (return_data_buffer i) then fail OutOfOffset
       else put_top (from_be_bytes (take 32 (drop offset_usize (return_data_buffer i)))))))))"

definition i_gas :: "'h instr" where
  "i_gas = charge GAS_BASE (with_interp (\<lambda>i. push1 (ucast (remaining (int_gas i))) finish))"

section \<open>EOF data (\<^verbatim>\<open>data.rs\<close>)\<close>

definition with_eof :: "(eof \<Rightarrow> 'h instr) \<Rightarrow> 'h instr" where
  "with_eof k i h = bindE (unwrap (bytecode_eof (c_bytecode (contract i)))) (\<lambda>e. k e i h)"

definition pad_word :: "bytes \<Rightarrow> u256" where
  "pad_word bs = from_be_bytes (bs @ replicate (32 - length bs) 0)"

definition i_data_load :: "'h instr" where
  "i_data_load = require_eof (charge DATA_LOAD_GAS (top1 (\<lambda>offset. with_eof (\<lambda>e.
     put_top (pad_word (data_slice e (as_usize_saturated offset) 32))))))"

definition i_data_loadn :: "'h instr" where
  "i_data_loadn = require_eof (charge VERYLOW (read_u16 0 (\<lambda>offset. with_eof (\<lambda>e.
     push1 (pad_word (data_slice e offset 32)) (move_ip 2)))))"

definition i_data_size :: "'h instr" where
  "i_data_size = require_eof (charge GAS_BASE (with_eof (\<lambda>e. push1 (ucast (data_size (eof_header e))) finish)))"

definition i_data_copy :: "'h instr" where
  "i_data_copy = require_eof (charge VERYLOW (pop3 (\<lambda>mem_offset offset len. as_usize_or_fail len (\<lambda>len.
     if len = 0 then finish
     else as_usize_or_fail mem_offset (\<lambda>mo. resize_mem mo len (with_eof (\<lambda>e.
       mem_write (\<lambda>m. set_data m mo (as_usize_saturated offset) len (data_section (eof_body e))) finish)))))))"

section \<open>Host access (\<^verbatim>\<open>host.rs\<close>)\<close>

definition i_balance :: "'h host \<Rightarrow> spec_id \<Rightarrow> 'h instr" where
  "i_balance H sp = pop_address (\<lambda>a. ask (h_base_balance H a) (\<lambda>(bal, is_cold).
     charge (if enabled sp BERLIN then warm_cold_cost is_cold
             else if enabled sp ISTANBUL then 700 else if enabled sp TANGERINE then 400 else 20)
       (push1 bal finish)))"

definition i_selfbalance :: "'h host \<Rightarrow> spec_id \<Rightarrow> 'h instr" where
  "i_selfbalance H sp = check_spec sp ISTANBUL (charge GAS_LOW (with_interp (\<lambda>i.
     ask (h_base_balance H (c_target_address (contract i))) (\<lambda>(bal, _). push1 bal finish))))"

definition i_extcodesize :: "'h host \<Rightarrow> spec_id \<Rightarrow> 'h instr" where
  "i_extcodesize H sp = pop_address (\<lambda>a. ask (h_code H a) (\<lambda>(c, is_cold).
     charge (if enabled sp BERLIN then warm_cold_cost is_cold else if enabled sp TANGERINE then 700 else 20)
       (push1 (of_nat (bytecode_len c)) finish)))"

definition i_extcodehash :: "'h host \<Rightarrow> spec_id \<Rightarrow> 'h instr" where
  "i_extcodehash H sp = check_spec sp CONSTANTINOPLE (pop_address (\<lambda>a. ask (h_code_hash H a) (\<lambda>(hash, is_cold).
     charge (if enabled sp BERLIN then warm_cold_cost is_cold else if enabled sp ISTANBUL then 700 else 400)
       (push1 hash finish))))"

definition i_extcodecopy :: "'h host \<Rightarrow> spec_id \<Rightarrow> 'h instr" where
  "i_extcodecopy H sp = pop_address (\<lambda>a. pop3 (\<lambda>memory_offset code_offset len_u256.
     ask (h_code H a) (\<lambda>(c, is_cold). as_usize_or_fail len_u256 (\<lambda>len.
     charge_or_fail (extcodecopy_cost sp (of_nat len) is_cold) (
     if len = 0 then finish
     else as_usize_or_fail memory_offset (\<lambda>mo.
       let co = min (as_usize_saturated code_offset) (bytecode_len c) in
       resize_mem mo len (\<lambda>i h. bindE (original_byte_slice c) (\<lambda>bs.
         mem_write (\<lambda>m. set_data m mo co len bs) finish i h))))))))"

definition i_blockhash :: "'h host \<Rightarrow> 'h instr" where
  "i_blockhash H = charge GAS_BLOCKHASH (top1 (\<lambda>n. ask (h_block_hash H n) put_top))"

definition i_sload :: "'h host \<Rightarrow> spec_id \<Rightarrow> 'h instr" where
  "i_sload H sp = top1 (\<lambda>index. with_interp (\<lambda>i.
     ask (h_sload H (c_target_address (contract i)) index) (\<lambda>(v, is_cold).
       charge (sload_cost sp is_cold) (put_top v))))"

definition i_sstore :: "'h host \<Rightarrow> spec_id \<Rightarrow> 'h instr" where
  "i_sstore H sp = require_non_staticcall (pop2 (\<lambda>index v. with_interp (\<lambda>i.
     ask (h_sstore H (c_target_address (contract i)) index v) (\<lambda>r.
       charge_or_fail (sstore_cost sp (sr_original_value r) (sr_present_value r) (sr_new_value r)
                         (remaining (int_gas i)) (sr_is_cold r))
         (refund (sstore_refund sp (sr_original_value r) (sr_present_value r) (sr_new_value r)) finish)))))"

definition i_tstore :: "'h host \<Rightarrow> spec_id \<Rightarrow> 'h instr" where
  "i_tstore H sp = check_spec sp CANCUN (require_non_staticcall (charge WARM_STORAGE_READ_COST (
     pop2 (\<lambda>index v. with_interp (\<lambda>i.
       call_host (h_tstore H (c_target_address (contract i)) index v) (\<lambda>_. finish))))))"

definition i_tload :: "'h host \<Rightarrow> spec_id \<Rightarrow> 'h instr" where
  "i_tload H sp = check_spec sp CANCUN (charge WARM_STORAGE_READ_COST (top1 (\<lambda>index. with_interp (\<lambda>i.
     call_host (h_tload H (c_target_address (contract i)) index) put_top))))"

text \<open>The topics are popped one by one after the bound is checked.\<close>

definition pop_topics :: "nat \<Rightarrow> (b256 list \<Rightarrow> 'h instr) \<Rightarrow> 'h instr" where
  "pop_topics n k i h =
     (if length (stack i) < n then fail StackUnderflow i h
      else k (take n (rev (stack i))) (i\<lparr>stack := take (length (stack i) - n) (stack i)\<rparr>) h)"

definition i_log :: "'h host \<Rightarrow> nat \<Rightarrow> 'h instr" where
  "i_log H n = require_non_staticcall (pop2 (\<lambda>offset len. as_usize_or_fail len (\<lambda>len.
     charge_or_fail (log_cost (of_nat n) (of_nat len)) (
       let rest = (\<lambda>data. pop_topics n (\<lambda>topics. with_interp (\<lambda>i.
             if length topics > 4 then (\<lambda>i h. Panic)
             else call_host (h_log H (c_target_address (contract i), topics, data)) (\<lambda>_. finish))))
       in if len = 0 then rest []
          else as_usize_or_fail offset (\<lambda>offset.
            resize_mem offset len (mem_read (\<lambda>m. mem_slice m offset len) rest))))))"

definition i_selfdestruct :: "'h host \<Rightarrow> spec_id \<Rightarrow> 'h instr" where
  "i_selfdestruct H sp = require_non_staticcall (pop_address (\<lambda>target. with_interp (\<lambda>i.
     ask (h_selfdestruct H (c_target_address (contract i)) target) (\<lambda>res.
       let rest = charge (selfdestruct_cost sp res) (fail SelfDestruct)
       in if \<not> enabled sp LONDON \<and> \<not> sd_previously_destroyed res then refund SELFDESTRUCT_REFUND rest
          else rest))))"

section \<open>Block environment (\<^verbatim>\<open>host_env.rs\<close>)\<close>

definition i_chainid :: "'h host \<Rightarrow> spec_id \<Rightarrow> 'h instr" where
  "i_chainid H sp = check_spec sp ISTANBUL (charge GAS_BASE (with_env H (\<lambda>e. push1 (ucast (chain_id (cfg e))) finish)))"

definition i_coinbase :: "'h host \<Rightarrow> 'h instr" where
  "i_coinbase H = charge GAS_BASE (with_env H (\<lambda>e. push1 (ucast (coinbase (block e))) finish))"

definition i_timestamp :: "'h host \<Rightarrow> 'h instr" where
  "i_timestamp H = charge GAS_BASE (with_env H (\<lambda>e. push1 (timestamp (block e)) finish))"

definition i_block_number :: "'h host \<Rightarrow> 'h instr" where
  "i_block_number H = charge GAS_BASE (with_env H (\<lambda>e. push1 (number (block e)) finish))"

definition i_difficulty :: "'h host \<Rightarrow> spec_id \<Rightarrow> 'h instr" where
  "i_difficulty H sp = charge GAS_BASE (with_env H (\<lambda>e.
     if enabled sp MERGE
     then (case prevrandao (block e) of Some r \<Rightarrow> push1 r finish | None \<Rightarrow> (\<lambda>i h. Panic))
     else push1 (difficulty (block e)) finish))"

definition i_gaslimit :: "'h host \<Rightarrow> 'h instr" where
  "i_gaslimit H = charge GAS_BASE (with_env H (\<lambda>e. push1 (blk_gas_limit (block e)) finish))"

definition i_gasprice :: "'h host \<Rightarrow> 'h instr" where
  "i_gasprice H = charge GAS_BASE (with_env H (\<lambda>e. push1 (effective_gas_price e) finish))"

definition i_basefee :: "'h host \<Rightarrow> spec_id \<Rightarrow> 'h instr" where
  "i_basefee H sp = check_spec sp LONDON (charge GAS_BASE (with_env H (\<lambda>e. push1 (basefee (block e)) finish)))"

definition i_origin :: "'h host \<Rightarrow> 'h instr" where
  "i_origin H = charge GAS_BASE (with_env H (\<lambda>e. push1 (ucast (caller (tx e))) finish))"

definition i_blob_hash :: "'h host \<Rightarrow> spec_id \<Rightarrow> 'h instr" where
  "i_blob_hash H sp = check_spec sp CANCUN (charge VERYLOW (top1 (\<lambda>index. with_env H (\<lambda>e.
     let n = as_usize_saturated index
     in put_top (if n < length (blob_hashes (tx e)) then blob_hashes (tx e) ! n else 0)))))"

definition i_blob_basefee :: "'h host \<Rightarrow> spec_id \<Rightarrow> 'h instr" where
  "i_blob_basefee H sp = check_spec sp CANCUN (charge GAS_BASE (with_env H (\<lambda>e.
     push1 (case get_blob_gasprice (block e) of Some p \<Rightarrow> ucast p | None \<Rightarrow> 0) finish)))"

end
