(* ===== verification/Call_Instructions.thy ===== *)
theory Call_Instructions
  imports Instructions
begin

text \<open>
  The instructions that call or create contracts, \<^verbatim>\<open>interpreter/src/instructions/contract.rs\<close> and
  \<^verbatim>\<open>contract/call_helpers.rs\<close>. A helper that returns \<^verbatim>\<open>None\<close> has set the instruction's result; it
  takes the rest of the instruction as its last argument, as the macros do.
\<close>

section \<open>Memory ranges and gas for the callee\<close>

text \<open>An empty range stands at \<^verbatim>\<open>usize::MAX\<close>; the end \<^verbatim>\<open>offset + len\<close> is a checked sum.\<close>

definition USIZE_MAX :: nat where "USIZE_MAX = 2 ^ 64 - 1"

definition range_from :: "nat \<Rightarrow> nat \<Rightarrow> (nat \<times> nat \<Rightarrow> 'h instr) \<Rightarrow> 'h instr" where
  "range_from offset len k i h = (if offset + len \<le> USIZE_MAX then k (offset, offset + len) i h else Panic)"

definition resize_memory_range :: "u256 \<Rightarrow> u256 \<Rightarrow> (nat \<times> nat \<Rightarrow> 'h instr) \<Rightarrow> 'h instr" where
  "resize_memory_range offset len k = as_usize_or_fail len (\<lambda>len.
     if len \<noteq> 0 then as_usize_or_fail offset (\<lambda>offset.
       resize_mem offset len (range_from offset len k))
     else k (USIZE_MAX, USIZE_MAX))"

definition resize_memory_and_return_range :: "u256 \<Rightarrow> u256 \<Rightarrow> (nat \<times> nat \<Rightarrow> 'h instr) \<Rightarrow> 'h instr" where
  "resize_memory_and_return_range offset len k = as_usize_or_fail len (\<lambda>len.
     if len \<noteq> 0 then as_usize_or_fail offset (\<lambda>offset.
       resize_mem offset len (range_from offset len k))
     else range_from USIZE_MAX len k)"

definition get_memory_input_and_out_ranges :: "(bytes \<Rightarrow> nat \<times> nat \<Rightarrow> 'h instr) \<Rightarrow> 'h instr" where
  "get_memory_input_and_out_ranges k = pop4 (\<lambda>in_offset in_len out_offset out_len.
     resize_memory_and_return_range in_offset in_len (\<lambda>(a, b).
       let rest = (\<lambda>input. resize_memory_and_return_range out_offset out_len (k input))
       in if a < b then mem_read (\<lambda>m. slice_range m a b) rest else rest []))"

definition calc_call_gas :: "spec_id \<Rightarrow> bool \<Rightarrow> bool \<Rightarrow> bool \<Rightarrow> u64 \<Rightarrow> (u64 \<Rightarrow> 'h instr) \<Rightarrow> 'h instr" where
  "calc_call_gas sp is_cold has_transfer new_account_accounting local_gas_limit k =
     charge (call_cost sp has_transfer is_cold new_account_accounting) (with_interp (\<lambda>i.
       let g = remaining (int_gas i)
       in k (if enabled sp TANGERINE then min (g - g div 64) local_gas_limit else local_gas_limit)))"

text \<open>The end of every instruction that opens a frame.\<close>

definition next_frame :: "interpreter_action \<Rightarrow> 'h instr" where
  "next_frame a i h = Val (i\<lparr>next_action := a, instr_result := CallOrCreate\<rparr>, h)"

section \<open>EOF creation\<close>

fun expect_decoded :: "(eof_decode_error + eof) eval \<Rightarrow> eof eval" where
  "expect_decoded (Val (Inr e)) = Val e"
| "expect_decoded _ = Panic"

definition container_at :: "nat \<Rightarrow> (bytes \<Rightarrow> 'h instr) \<Rightarrow> 'h instr" where
  "container_at idx k = with_eof (\<lambda>e.
     let cs = container_section (eof_body e)
     in if idx < length cs then k (cs ! idx) else (\<lambda>i h. Panic))"

definition decode_container :: "bytes \<Rightarrow> (eof \<Rightarrow> 'h instr) \<Rightarrow> 'h instr" where
  "decode_container bs k i h = bindE (expect_decoded (eof_decode bs)) (\<lambda>e. k e i h)"

text \<open>\<^verbatim>\<open>eofcreate\<close> sets the next action and leaves the instruction's result as it is.\<close>

definition i_eofcreate :: "alloy \<Rightarrow> 'h instr" where
  "i_eofcreate L = require_eof (charge EOF_CREATE_GAS (read_byte (\<lambda>initcontainer_index.
     pop4 (\<lambda>val salt data_offset data_size. container_at (unat initcontainer_index) (\<lambda>sub_container.
     resize_memory_range data_offset data_size (\<lambda>return_range.
     decode_container sub_container (\<lambda>e.
     if \<not> is_data_filled (eof_body e) then (\<lambda>i h. Panic)
     else charge_or_fail (cost_per_word (of_nat (length sub_container)) KECCAK256WORD) (\<lambda>i h.
       let created_address = address_create2 L (c_caller (contract i)) (to_be_bytes salt)
             (keccak256 L sub_container)
       in move_ip 1 (i\<lparr>next_action := ActEOFCreate
            \<lparr>ec_caller = c_target_address (contract i), ec_created_address = created_address,
             ec_value = val, ec_eof_init_code = e, ec_gas_limit = remaining (int_gas i),
             ec_return_memory_range = return_range\<rparr>\<rparr>) h)))))))) "

definition i_return_contract :: "'h instr" where
  "i_return_contract = require_init_eof (read_u16 0 (\<lambda>deploy_container_index.
     pop2 (\<lambda>aux_data_offset aux_data_size. as_usize_or_fail aux_data_size (\<lambda>aux_data_size.
     container_at deploy_container_index (\<lambda>container. decode_container container (\<lambda>new_eof.
       let rest = (\<lambda>aux_slice.
         let new_data_size = length (data_section (eof_body new_eof)) + length aux_slice
         in if new_data_size > 0xFFFF then fail FatalExternalError
            else if new_data_size < unat (data_size (eof_header new_eof)) then fail FatalExternalError
            else return_with ReturnContract (eof_raw new_eof @ aux_slice))
       in if aux_data_size \<noteq> 0 then as_usize_or_fail aux_data_offset (\<lambda>offset.
            resize_mem offset aux_data_size (mem_read (\<lambda>m. mem_slice m offset aux_data_size) rest))
          else rest []))))))"

section \<open>EOF calls\<close>

definition extcall_input :: "(bytes \<Rightarrow> 'h instr) \<Rightarrow> 'h instr" where
  "extcall_input k = pop2 (\<lambda>input_offset input_size.
     resize_memory_and_return_range input_offset input_size (\<lambda>(a, b).
       mem_read (\<lambda>m. slice_range m a b) k))"

definition extcall_gas_calc :: "'h host \<Rightarrow> address \<Rightarrow> bool \<Rightarrow> (u64 \<Rightarrow> 'h instr) \<Rightarrow> 'h instr" where
  "extcall_gas_calc H target transfers k = ask (h_load_account H target) (\<lambda>r.
     let rest = charge (call_cost BERLIN transfers (lar_is_cold r) (lar_is_empty r)) (with_interp (\<lambda>i.
           let g = remaining (int_gas i); gas_reduce = max (g div 64) 5000;
               gas_limit = saturating_sub g gas_reduce
           in if gas_limit < 2300 then fail CallNotAllowedInsideStatic
              else charge gas_limit (k gas_limit)))
     in if lar_is_cold r then charge COLD_ACCOUNT_ACCESS_COST rest else rest)"

definition base_transfer :: "u256 \<Rightarrow> call_values" where
  "base_transfer v = Transfer [\<lparr>tt_id = BASE_TOKEN_ID, tt_amount = v\<rparr>]"

definition i_extcall :: "'h host \<Rightarrow> 'h instr" where
  "i_extcall H = require_eof (pop_address (\<lambda>target. extcall_input (\<lambda>input. pop1 (\<lambda>val.
     extcall_gas_calc H target (val \<noteq> 0) (\<lambda>gl. with_interp (\<lambda>i. next_frame (ActCall
       \<lparr>ci_input = input, ci_return_memory_offset = (0, 0), ci_gas_limit = gl, ci_bytecode_address = target,
        ci_target_address = target, ci_caller = c_target_address (contract i), ci_values = base_transfer val,
        ci_scheme = SchemeCall, ci_is_static = is_static i, ci_is_eof = True\<rparr>)))))))"

definition i_extdelegatecall :: "'h host \<Rightarrow> 'h instr" where
  "i_extdelegatecall H = require_eof (pop_address (\<lambda>target. extcall_input (\<lambda>input.
     extcall_gas_calc H target False (\<lambda>gl. with_interp (\<lambda>i. next_frame (ActCall
       \<lparr>ci_input = input, ci_return_memory_offset = (0, 0), ci_gas_limit = gl, ci_bytecode_address = target,
        ci_target_address = target, ci_caller = c_target_address (contract i),
        ci_values = Apparent (c_call_values (contract i)),
        ci_scheme = SchemeDelegateCall, ci_is_static = is_static i, ci_is_eof = True\<rparr>))))))"

definition i_extstaticcall :: "'h host \<Rightarrow> 'h instr" where
  "i_extstaticcall H = require_eof (pop_address (\<lambda>target. extcall_input (\<lambda>input.
     extcall_gas_calc H target False (\<lambda>gl. with_interp (\<lambda>i. next_frame (ActCall
       \<lparr>ci_input = input, ci_return_memory_offset = (0, 0), ci_gas_limit = gl, ci_bytecode_address = target,
        ci_target_address = target, ci_caller = c_target_address (contract i), ci_values = Transfer [],
        ci_scheme = SchemeCall, ci_is_static = is_static i, ci_is_eof = True\<rparr>))))))"

section \<open>Legacy creation\<close>

text \<open>The initialisation code, read from memory after the limit and the metering of EIP-3860.\<close>

definition create_code :: "'h host \<Rightarrow> spec_id \<Rightarrow> nat \<Rightarrow> u256 \<Rightarrow> (bytes \<Rightarrow> 'h instr) \<Rightarrow> 'h instr" where
  "create_code H sp len code_offset k =
     (let rest = as_usize_or_fail code_offset (\<lambda>code_offset.
            resize_mem code_offset len (mem_read (\<lambda>m. mem_slice m code_offset len) k))
      in if len = 0 then k []
         else if enabled sp SHANGHAI then with_env H (\<lambda>e.
           if len > max_initcode_size (cfg e) then fail CreateInitCodeSizeLimit
           else (\<lambda>i h. bindE (initcode_cost (of_nat len)) (\<lambda>c. charge c rest i h)))
         else rest)"

definition create_finish :: "spec_id \<Rightarrow> u256 \<Rightarrow> bytes \<Rightarrow> create_scheme \<Rightarrow> 'h instr" where
  "create_finish sp val init scheme = with_interp (\<lambda>i.
     let g = remaining (int_gas i); gl = (if enabled sp TANGERINE then g - g div 64 else g)
     in charge gl (next_frame (ActCreate
          \<lparr>cr_caller = c_target_address (contract i), cr_scheme = scheme, cr_value = val,
           cr_init_code = init, cr_gas_limit = gl\<rparr>)))"

definition i_create :: "'h host \<Rightarrow> bool \<Rightarrow> spec_id \<Rightarrow> 'h instr" where
  "i_create H is_create2 sp =
     (let body = pop3 (\<lambda>val code_offset len. as_usize_or_fail len (\<lambda>len.
            create_code H sp len code_offset (\<lambda>init.
              if is_create2
              then pop1 (\<lambda>salt. charge_or_fail (create2_cost (of_nat len)) (create_finish sp val init (Create2 salt)))
              else charge CREATE (create_finish sp val init Create1))))
      in require_non_staticcall (if is_create2 then check_spec sp PETERSBURG body else body))"

section \<open>Legacy calls\<close>

definition i_call :: "'h host \<Rightarrow> spec_id \<Rightarrow> 'h instr" where
  "i_call H sp = pop1 (\<lambda>lgl. pop_address (\<lambda>target. pop1 (\<lambda>val. with_interp (\<lambda>i.
     if is_static i \<and> val \<noteq> 0 then fail CallNotAllowedInsideStatic
     else get_memory_input_and_out_ranges (\<lambda>input ret. ask (h_load_account H target) (\<lambda>r.
       calc_call_gas sp (lar_is_cold r) (val \<noteq> 0) (lar_is_empty r) (as_u64_saturated lgl) (\<lambda>gl.
       charge gl (next_frame (ActCall
         \<lparr>ci_input = input, ci_return_memory_offset = ret,
          ci_gas_limit = (if val \<noteq> 0 then saturating_add gl CALL_STIPEND else gl), ci_bytecode_address = target,
          ci_target_address = target, ci_caller = c_target_address (contract i), ci_values = base_transfer val,
          ci_scheme = SchemeCall, ci_is_static = is_static i, ci_is_eof = False\<rparr>)))))))))"

definition i_call_code :: "'h host \<Rightarrow> spec_id \<Rightarrow> 'h instr" where
  "i_call_code H sp = pop1 (\<lambda>lgl. pop_address (\<lambda>target. pop1 (\<lambda>val.
     get_memory_input_and_out_ranges (\<lambda>input ret. ask (h_load_account H target) (\<lambda>r.
       calc_call_gas sp (lar_is_cold r) (val \<noteq> 0) False (as_u64_saturated lgl) (\<lambda>gl.
       charge gl (with_interp (\<lambda>i. next_frame (ActCall
         \<lparr>ci_input = input, ci_return_memory_offset = ret,
          ci_gas_limit = (if val \<noteq> 0 then saturating_add gl CALL_STIPEND else gl), ci_bytecode_address = target,
          ci_target_address = c_target_address (contract i), ci_caller = c_target_address (contract i),
          ci_values = base_transfer val,
          ci_scheme = SchemeCallCode, ci_is_static = is_static i, ci_is_eof = False\<rparr>)))))))))"

definition i_delegate_call :: "'h host \<Rightarrow> spec_id \<Rightarrow> 'h instr" where
  "i_delegate_call H sp = check_spec sp HOMESTEAD (pop1 (\<lambda>lgl. pop_address (\<lambda>target.
     get_memory_input_and_out_ranges (\<lambda>input ret. ask (h_load_account H target) (\<lambda>r.
       calc_call_gas sp (lar_is_cold r) False False (as_u64_saturated lgl) (\<lambda>gl.
       charge gl (with_interp (\<lambda>i. next_frame (ActCall
         \<lparr>ci_input = input, ci_return_memory_offset = ret, ci_gas_limit = gl, ci_bytecode_address = target,
          ci_target_address = c_target_address (contract i), ci_caller = c_caller (contract i),
          ci_values = Apparent (c_call_values (contract i)),
          ci_scheme = SchemeDelegateCall, ci_is_static = is_static i, ci_is_eof = False\<rparr>)))))))))"

definition i_static_call :: "'h host \<Rightarrow> spec_id \<Rightarrow> 'h instr" where
  "i_static_call H sp = check_spec sp BYZANTIUM (pop1 (\<lambda>lgl. pop_address (\<lambda>target.
     get_memory_input_and_out_ranges (\<lambda>input ret. ask (h_load_account H target) (\<lambda>r.
       calc_call_gas sp (lar_is_cold r) False False (as_u64_saturated lgl) (\<lambda>gl.
       charge gl (with_interp (\<lambda>i. next_frame (ActCall
         \<lparr>ci_input = input, ci_return_memory_offset = ret, ci_gas_limit = gl, ci_bytecode_address = target,
          ci_target_address = target, ci_caller = c_target_address (contract i), ci_values = Transfer [],
          ci_scheme = SchemeStaticCall, ci_is_static = True, ci_is_eof = False\<rparr>)))))))))"

end
