(* ===== verification/Opcodes.thy ===== *)
theory Opcodes
  imports Call_Instructions
begin

text \<open>
  The opcode table and the interpreter loop: \<^verbatim>\<open>interpreter/src/opcode.rs\<close> (the table of the macro
  \<^verbatim>\<open>opcodes!\<close>, the queries of \<^verbatim>\<open>OpCode\<close>, the instruction tables) and \<^verbatim>\<open>step\<close> and \<^verbatim>\<open>run\<close> of
  \<^verbatim>\<open>interpreter.rs\<close>.
\<close>

section \<open>Opcode information\<close>

record opcode_info =
  op_name :: string
  op_inputs :: u8
  op_outputs :: u8
  op_immediate_size :: u8
  op_not_eof :: bool
  op_terminating :: bool

definition op_info_new :: "string \<Rightarrow> opcode_info" where
  "op_info_new nm = \<lparr>op_name = nm, op_inputs = 0, op_outputs = 0, op_immediate_size = 0, op_not_eof = False,
                  op_terminating = False\<rparr>"

definition not_eof :: "opcode_info \<Rightarrow> opcode_info" where
  "not_eof op = op\<lparr>op_not_eof := True\<rparr>"

definition immediate_size :: "opcode_info \<Rightarrow> u8 \<Rightarrow> opcode_info" where
  "immediate_size op n = op\<lparr>op_immediate_size := n\<rparr>"

definition terminating :: "opcode_info \<Rightarrow> opcode_info" where
  "terminating op = op\<lparr>op_terminating := True\<rparr>"

definition stack_io :: "opcode_info \<Rightarrow> u8 \<Rightarrow> u8 \<Rightarrow> opcode_info" where
  "stack_io op inputs outputs = op\<lparr>op_inputs := inputs, op_outputs := outputs\<rparr>"

definition info_io_diff :: "opcode_info \<Rightarrow> int" where
  "info_io_diff op = int (unat (op_outputs op)) - int (unat (op_inputs op))"

lemmas info_defs = op_info_new_def not_eof_def immediate_size_def terminating_def stack_io_def

text \<open>The rows of the macro: opcode, name and modifiers, then the function of each opcode.\<close>

definition opcode_rows :: "(u8 \<times> opcode_info) list" where
  "opcode_rows =
     [(0x00, terminating (stack_io (op_info_new ''STOP'') 0 0)), (0x01, stack_io (op_info_new ''ADD'') 2 1),
      (0x02, stack_io (op_info_new ''MUL'') 2 1), (0x03, stack_io (op_info_new ''SUB'') 2 1),
      (0x04, stack_io (op_info_new ''DIV'') 2 1), (0x05, stack_io (op_info_new ''SDIV'') 2 1),
      (0x06, stack_io (op_info_new ''MOD'') 2 1), (0x07, stack_io (op_info_new ''SMOD'') 2 1),
      (0x08, stack_io (op_info_new ''ADDMOD'') 3 1), (0x09, stack_io (op_info_new ''MULMOD'') 3 1),
      (0x0A, stack_io (op_info_new ''EXP'') 2 1), (0x0B, stack_io (op_info_new ''SIGNEXTEND'') 2 1),
      (0x10, stack_io (op_info_new ''LT'') 2 1), (0x11, stack_io (op_info_new ''GT'') 2 1),
      (0x12, stack_io (op_info_new ''SLT'') 2 1), (0x13, stack_io (op_info_new ''SGT'') 2 1),
      (0x14, stack_io (op_info_new ''EQ'') 2 1), (0x15, stack_io (op_info_new ''ISZERO'') 1 1),
      (0x16, stack_io (op_info_new ''AND'') 2 1), (0x17, stack_io (op_info_new ''OR'') 2 1),
      (0x18, stack_io (op_info_new ''XOR'') 2 1), (0x19, stack_io (op_info_new ''NOT'') 1 1),
      (0x1A, stack_io (op_info_new ''BYTE'') 2 1), (0x1B, stack_io (op_info_new ''SHL'') 2 1),
      (0x1C, stack_io (op_info_new ''SHR'') 2 1), (0x1D, stack_io (op_info_new ''SAR'') 2 1),
      (0x20, stack_io (op_info_new ''KECCAK256'') 2 1), (0x30, stack_io (op_info_new ''ADDRESS'') 0 1),
      (0x31, stack_io (op_info_new ''BALANCE'') 1 1), (0x32, stack_io (op_info_new ''ORIGIN'') 0 1),
      (0x33, stack_io (op_info_new ''CALLER'') 0 1), (0x34, stack_io (op_info_new ''CALLVALUE'') 0 1),
      (0x35, stack_io (op_info_new ''CALLDATALOAD'') 1 1), (0x36, stack_io (op_info_new ''CALLDATASIZE'') 0 1),
      (0x37, stack_io (op_info_new ''CALLDATACOPY'') 3 0), (0x38, not_eof (stack_io (op_info_new ''CODESIZE'') 0 1)),
      (0x39, not_eof (stack_io (op_info_new ''CODECOPY'') 3 0)), (0x3A, stack_io (op_info_new ''GASPRICE'') 0 1),
      (0x3B, not_eof (stack_io (op_info_new ''EXTCODESIZE'') 1 1)),
      (0x3C, not_eof (stack_io (op_info_new ''EXTCODECOPY'') 4 0)), (0x3D, stack_io (op_info_new ''RETURNDATASIZE'') 0 1),
      (0x3E, stack_io (op_info_new ''RETURNDATACOPY'') 3 0), (0x3F, not_eof (stack_io (op_info_new ''EXTCODEHASH'') 1 1)),
      (0x40, stack_io (op_info_new ''BLOCKHASH'') 1 1), (0x41, stack_io (op_info_new ''COINBASE'') 0 1),
      (0x42, stack_io (op_info_new ''TIMESTAMP'') 0 1), (0x43, stack_io (op_info_new ''NUMBER'') 0 1),
      (0x44, stack_io (op_info_new ''DIFFICULTY'') 0 1), (0x45, stack_io (op_info_new ''GASLIMIT'') 0 1),
      (0x46, stack_io (op_info_new ''CHAINID'') 0 1), (0x47, stack_io (op_info_new ''SELFBALANCE'') 0 1),
      (0x48, stack_io (op_info_new ''BASEFEE'') 0 1), (0x49, stack_io (op_info_new ''BLOBHASH'') 1 1),
      (0x4A, stack_io (op_info_new ''BLOBBASEFEE'') 0 1), (0x50, stack_io (op_info_new ''POP'') 1 0),
      (0x51, stack_io (op_info_new ''MLOAD'') 1 1), (0x52, stack_io (op_info_new ''MSTORE'') 2 0),
      (0x53, stack_io (op_info_new ''MSTORE8'') 2 0), (0x54, stack_io (op_info_new ''SLOAD'') 1 1),
      (0x55, stack_io (op_info_new ''SSTORE'') 2 0), (0x56, not_eof (stack_io (op_info_new ''JUMP'') 1 0)),
      (0x57, not_eof (stack_io (op_info_new ''JUMPI'') 2 0)), (0x58, not_eof (stack_io (op_info_new ''PC'') 0 1)),
      (0x59, stack_io (op_info_new ''MSIZE'') 0 1), (0x5A, not_eof (stack_io (op_info_new ''GAS'') 0 1)),
      (0x5B, stack_io (op_info_new ''JUMPDEST'') 0 0), (0x5C, stack_io (op_info_new ''TLOAD'') 1 1),
      (0x5D, stack_io (op_info_new ''TSTORE'') 2 0), (0x5E, stack_io (op_info_new ''MCOPY'') 3 0),
      (0x5F, stack_io (op_info_new ''PUSH0'') 0 1), (0x60, immediate_size (stack_io (op_info_new ''PUSH1'') 0 1) 1),
      (0x61, immediate_size (stack_io (op_info_new ''PUSH2'') 0 1) 2),
      (0x62, immediate_size (stack_io (op_info_new ''PUSH3'') 0 1) 3),
      (0x63, immediate_size (stack_io (op_info_new ''PUSH4'') 0 1) 4),
      (0x64, immediate_size (stack_io (op_info_new ''PUSH5'') 0 1) 5),
      (0x65, immediate_size (stack_io (op_info_new ''PUSH6'') 0 1) 6),
      (0x66, immediate_size (stack_io (op_info_new ''PUSH7'') 0 1) 7),
      (0x67, immediate_size (stack_io (op_info_new ''PUSH8'') 0 1) 8),
      (0x68, immediate_size (stack_io (op_info_new ''PUSH9'') 0 1) 9),
      (0x69, immediate_size (stack_io (op_info_new ''PUSH10'') 0 1) 10),
      (0x6A, immediate_size (stack_io (op_info_new ''PUSH11'') 0 1) 11),
      (0x6B, immediate_size (stack_io (op_info_new ''PUSH12'') 0 1) 12),
      (0x6C, immediate_size (stack_io (op_info_new ''PUSH13'') 0 1) 13),
      (0x6D, immediate_size (stack_io (op_info_new ''PUSH14'') 0 1) 14),
      (0x6E, immediate_size (stack_io (op_info_new ''PUSH15'') 0 1) 15),
      (0x6F, immediate_size (stack_io (op_info_new ''PUSH16'') 0 1) 16),
      (0x70, immediate_size (stack_io (op_info_new ''PUSH17'') 0 1) 17),
      (0x71, immediate_size (stack_io (op_info_new ''PUSH18'') 0 1) 18),
      (0x72, immediate_size (stack_io (op_info_new ''PUSH19'') 0 1) 19),
      (0x73, immediate_size (stack_io (op_info_new ''PUSH20'') 0 1) 20),
      (0x74, immediate_size (stack_io (op_info_new ''PUSH21'') 0 1) 21),
      (0x75, immediate_size (stack_io (op_info_new ''PUSH22'') 0 1) 22),
      (0x76, immediate_size (stack_io (op_info_new ''PUSH23'') 0 1) 23),
      (0x77, immediate_size (stack_io (op_info_new ''PUSH24'') 0 1) 24),
      (0x78, immediate_size (stack_io (op_info_new ''PUSH25'') 0 1) 25),
      (0x79, immediate_size (stack_io (op_info_new ''PUSH26'') 0 1) 26),
      (0x7A, immediate_size (stack_io (op_info_new ''PUSH27'') 0 1) 27),
      (0x7B, immediate_size (stack_io (op_info_new ''PUSH28'') 0 1) 28),
      (0x7C, immediate_size (stack_io (op_info_new ''PUSH29'') 0 1) 29),
      (0x7D, immediate_size (stack_io (op_info_new ''PUSH30'') 0 1) 30),
      (0x7E, immediate_size (stack_io (op_info_new ''PUSH31'') 0 1) 31),
      (0x7F, immediate_size (stack_io (op_info_new ''PUSH32'') 0 1) 32), (0x80, stack_io (op_info_new ''DUP1'') 1 2),
      (0x81, stack_io (op_info_new ''DUP2'') 2 3), (0x82, stack_io (op_info_new ''DUP3'') 3 4),
      (0x83, stack_io (op_info_new ''DUP4'') 4 5), (0x84, stack_io (op_info_new ''DUP5'') 5 6),
      (0x85, stack_io (op_info_new ''DUP6'') 6 7), (0x86, stack_io (op_info_new ''DUP7'') 7 8),
      (0x87, stack_io (op_info_new ''DUP8'') 8 9), (0x88, stack_io (op_info_new ''DUP9'') 9 10),
      (0x89, stack_io (op_info_new ''DUP10'') 10 11), (0x8A, stack_io (op_info_new ''DUP11'') 11 12),
      (0x8B, stack_io (op_info_new ''DUP12'') 12 13), (0x8C, stack_io (op_info_new ''DUP13'') 13 14),
      (0x8D, stack_io (op_info_new ''DUP14'') 14 15), (0x8E, stack_io (op_info_new ''DUP15'') 15 16),
      (0x8F, stack_io (op_info_new ''DUP16'') 16 17), (0x90, stack_io (op_info_new ''SWAP1'') 2 2),
      (0x91, stack_io (op_info_new ''SWAP2'') 3 3), (0x92, stack_io (op_info_new ''SWAP3'') 4 4),
      (0x93, stack_io (op_info_new ''SWAP4'') 5 5), (0x94, stack_io (op_info_new ''SWAP5'') 6 6),
      (0x95, stack_io (op_info_new ''SWAP6'') 7 7), (0x96, stack_io (op_info_new ''SWAP7'') 8 8),
      (0x97, stack_io (op_info_new ''SWAP8'') 9 9), (0x98, stack_io (op_info_new ''SWAP9'') 10 10),
      (0x99, stack_io (op_info_new ''SWAP10'') 11 11), (0x9A, stack_io (op_info_new ''SWAP11'') 12 12),
      (0x9B, stack_io (op_info_new ''SWAP12'') 13 13), (0x9C, stack_io (op_info_new ''SWAP13'') 14 14),
      (0x9D, stack_io (op_info_new ''SWAP14'') 15 15), (0x9E, stack_io (op_info_new ''SWAP15'') 16 16),
      (0x9F, stack_io (op_info_new ''SWAP16'') 17 17), (0xA0, stack_io (op_info_new ''LOG0'') 2 0),
      (0xA1, stack_io (op_info_new ''LOG1'') 3 0), (0xA2, stack_io (op_info_new ''LOG2'') 4 0),
      (0xA3, stack_io (op_info_new ''LOG3'') 5 0), (0xA4, stack_io (op_info_new ''LOG4'') 6 0),
      (0xD0, stack_io (op_info_new ''DATALOAD'') 1 1), (0xD1, immediate_size (stack_io (op_info_new ''DATALOADN'') 0 1) 2),
      (0xD2, stack_io (op_info_new ''DATASIZE'') 0 1), (0xD3, stack_io (op_info_new ''DATACOPY'') 3 0),
      (0xE0, terminating (immediate_size (stack_io (op_info_new ''RJUMP'') 0 0) 2)),
      (0xE1, immediate_size (stack_io (op_info_new ''RJUMPI'') 1 0) 2),
      (0xE2, immediate_size (stack_io (op_info_new ''RJUMPV'') 1 0) 1),
      (0xE3, immediate_size (stack_io (op_info_new ''CALLF'') 0 0) 2),
      (0xE4, terminating (stack_io (op_info_new ''RETF'') 0 0)),
      (0xE5, terminating (immediate_size (stack_io (op_info_new ''JUMPF'') 0 0) 2)),
      (0xE6, immediate_size (stack_io (op_info_new ''DUPN'') 0 1) 1),
      (0xE7, immediate_size (stack_io (op_info_new ''SWAPN'') 0 0) 1),
      (0xE8, immediate_size (stack_io (op_info_new ''EXCHANGE'') 0 0) 1),
      (0xEC, immediate_size (stack_io (op_info_new ''EOFCREATE'') 4 1) 1),
      (0xEE, terminating (immediate_size (stack_io (op_info_new ''RETURNCONTRACT'') 2 0) 1)),
      (0xF0, not_eof (stack_io (op_info_new ''CREATE'') 3 1)), (0xF1, not_eof (stack_io (op_info_new ''CALL'') 7 1)),
      (0xF2, not_eof (stack_io (op_info_new ''CALLCODE'') 7 1)),
      (0xF3, terminating (stack_io (op_info_new ''RETURN'') 2 0)),
      (0xF4, not_eof (stack_io (op_info_new ''DELEGATECALL'') 6 1)),
      (0xF5, not_eof (stack_io (op_info_new ''CREATE2'') 4 1)), (0xF7, stack_io (op_info_new ''RETURNDATALOAD'') 1 1),
      (0xF8, stack_io (op_info_new ''EXTCALL'') 4 1), (0xF9, stack_io (op_info_new ''EXTDELEGATECALL'') 3 1),
      (0xFA, not_eof (stack_io (op_info_new ''STATICCALL'') 6 1)), (0xFB, stack_io (op_info_new ''EXTSTATICCALL'') 3 1),
      (0xFD, terminating (stack_io (op_info_new ''REVERT'') 2 0)),
      (0xFE, terminating (stack_io (op_info_new ''INVALID'') 0 0)),
      (0xFF, terminating (not_eof (stack_io (op_info_new ''SELFDESTRUCT'') 1 0)))]"

definition instruction_rows :: "'h host \<Rightarrow> alloy \<Rightarrow> spec_id \<Rightarrow> (u8 \<times> 'h instr) list" where
  "instruction_rows H L sp =
     [(0x00, i_stop), (0x01, i_add), (0x02, i_mul), (0x03, i_sub), (0x04, i_div), (0x05, i_sdiv), (0x06, i_rem),
      (0x07, i_smod), (0x08, i_addmod), (0x09, i_mulmod), (0x0A, i_exp sp), (0x0B, i_signextend), (0x10, i_lt),
      (0x11, i_gt), (0x12, i_slt), (0x13, i_sgt), (0x14, i_eq), (0x15, i_iszero), (0x16, i_bitand), (0x17, i_bitor),
      (0x18, i_bitxor), (0x19, i_not), (0x1A, i_byte), (0x1B, i_shl sp), (0x1C, i_shr sp), (0x1D, i_sar sp),
      (0x20, i_keccak256 L), (0x30, i_address), (0x31, i_balance H sp), (0x32, i_origin H), (0x33, i_caller),
      (0x34, i_callvalue), (0x35, i_calldataload), (0x36, i_calldatasize), (0x37, i_calldatacopy),
      (0x38, i_codesize), (0x39, i_codecopy), (0x3A, i_gasprice H), (0x3B, i_extcodesize H sp),
      (0x3C, i_extcodecopy H sp), (0x3D, i_returndatasize sp), (0x3E, i_returndatacopy sp),
      (0x3F, i_extcodehash H sp), (0x40, i_blockhash H), (0x41, i_coinbase H), (0x42, i_timestamp H),
      (0x43, i_block_number H), (0x44, i_difficulty H sp), (0x45, i_gaslimit H), (0x46, i_chainid H sp),
      (0x47, i_selfbalance H sp), (0x48, i_basefee H sp), (0x49, i_blob_hash H sp), (0x4A, i_blob_basefee H sp),
      (0x50, i_pop), (0x51, i_mload), (0x52, i_mstore), (0x53, i_mstore8), (0x54, i_sload H sp),
      (0x55, i_sstore H sp), (0x56, i_jump), (0x57, i_jumpi), (0x58, i_pc), (0x59, i_msize), (0x5A, i_gas),
      (0x5B, i_jumpdest_or_nop), (0x5C, i_tload H sp), (0x5D, i_tstore H sp), (0x5E, i_mcopy sp), (0x5F, i_push0 sp),
      (0x60, i_push 1), (0x61, i_push 2), (0x62, i_push 3), (0x63, i_push 4), (0x64, i_push 5), (0x65, i_push 6),
      (0x66, i_push 7), (0x67, i_push 8), (0x68, i_push 9), (0x69, i_push 10), (0x6A, i_push 11), (0x6B, i_push 12),
      (0x6C, i_push 13), (0x6D, i_push 14), (0x6E, i_push 15), (0x6F, i_push 16), (0x70, i_push 17),
      (0x71, i_push 18), (0x72, i_push 19), (0x73, i_push 20), (0x74, i_push 21), (0x75, i_push 22),
      (0x76, i_push 23), (0x77, i_push 24), (0x78, i_push 25), (0x79, i_push 26), (0x7A, i_push 27),
      (0x7B, i_push 28), (0x7C, i_push 29), (0x7D, i_push 30), (0x7E, i_push 31), (0x7F, i_push 32), (0x80, i_dup 1),
      (0x81, i_dup 2), (0x82, i_dup 3), (0x83, i_dup 4), (0x84, i_dup 5), (0x85, i_dup 6), (0x86, i_dup 7),
      (0x87, i_dup 8), (0x88, i_dup 9), (0x89, i_dup 10), (0x8A, i_dup 11), (0x8B, i_dup 12), (0x8C, i_dup 13),
      (0x8D, i_dup 14), (0x8E, i_dup 15), (0x8F, i_dup 16), (0x90, i_swap 1), (0x91, i_swap 2), (0x92, i_swap 3),
      (0x93, i_swap 4), (0x94, i_swap 5), (0x95, i_swap 6), (0x96, i_swap 7), (0x97, i_swap 8), (0x98, i_swap 9),
      (0x99, i_swap 10), (0x9A, i_swap 11), (0x9B, i_swap 12), (0x9C, i_swap 13), (0x9D, i_swap 14),
      (0x9E, i_swap 15), (0x9F, i_swap 16), (0xA0, i_log H 0), (0xA1, i_log H 1), (0xA2, i_log H 2),
      (0xA3, i_log H 3), (0xA4, i_log H 4), (0xD0, i_data_load), (0xD1, i_data_loadn), (0xD2, i_data_size),
      (0xD3, i_data_copy), (0xE0, i_rjump), (0xE1, i_rjumpi), (0xE2, i_rjumpv), (0xE3, i_callf), (0xE4, i_retf),
      (0xE5, i_jumpf), (0xE6, i_dupn), (0xE7, i_swapn), (0xE8, i_exchange), (0xEC, i_eofcreate L),
      (0xEE, i_return_contract), (0xF0, i_create H False sp), (0xF1, i_call H sp), (0xF2, i_call_code H sp),
      (0xF3, i_ret), (0xF4, i_delegate_call H sp), (0xF5, i_create H True sp), (0xF7, i_returndataload),
      (0xF8, i_extcall H), (0xF9, i_extdelegatecall H), (0xFA, i_static_call H sp), (0xFB, i_extstaticcall H),
      (0xFD, i_revert sp), (0xFE, i_invalid), (0xFF, i_selfdestruct H sp)]"

definition OPCODE_INFO_JUMPTABLE :: "u8 \<Rightarrow> opcode_info option" where
  "OPCODE_INFO_JUMPTABLE = map_of opcode_rows"

definition instruction :: "'h host \<Rightarrow> alloy \<Rightarrow> spec_id \<Rightarrow> u8 \<Rightarrow> 'h instr" where
  "instruction H L sp op = (case map_of (instruction_rows H L sp) op of Some f \<Rightarrow> f | None \<Rightarrow> i_unknown)"

section \<open>Opcodes\<close>

text \<open>An \<^verbatim>\<open>OpCode\<close> wraps a byte; \<open>opcode_new\<close> admits the bytes of the table.\<close>

definition opcode_new :: "u8 \<Rightarrow> u8 option" where
  "opcode_new opcode = (case OPCODE_INFO_JUMPTABLE opcode of Some _ \<Rightarrow> Some opcode | None \<Rightarrow> None)"

definition opcode_parse :: "string \<Rightarrow> u8 option" where
  "opcode_parse s = map_of (map (\<lambda>(v, op). (op_name op, v)) opcode_rows) s"

definition opcode_info_of :: "u8 \<Rightarrow> opcode_info eval" where
  "opcode_info_of opcode = unwrap (OPCODE_INFO_JUMPTABLE opcode)"

definition info_by_op :: "u8 \<Rightarrow> opcode_info option eval" where
  "info_by_op opcode =
     (case opcode_new opcode of Some o1 \<Rightarrow> bindE (opcode_info_of o1) (\<lambda>x. Val (Some x)) | None \<Rightarrow> Val None)"

definition as_str :: "u8 \<Rightarrow> string eval" where
  "as_str opcode = bindE (opcode_info_of opcode) (\<lambda>x. Val (op_name x))"

definition name_by_op :: "u8 \<Rightarrow> string eval" where
  "name_by_op opcode = (case opcode_new opcode of Some o1 \<Rightarrow> as_str o1 | None \<Rightarrow> Val ''Unknown'')"

definition input_output :: "u8 \<Rightarrow> (u8 \<times> u8) eval" where
  "input_output opcode = bindE (opcode_info_of opcode) (\<lambda>x. Val (op_inputs x, op_outputs x))"

definition opcode_io_diff :: "u8 \<Rightarrow> int eval" where
  "opcode_io_diff opcode = bindE (opcode_info_of opcode) (\<lambda>x. Val (info_io_diff x))"

definition is_jumpdest :: "u8 \<Rightarrow> bool" where
  "is_jumpdest opcode \<longleftrightarrow> opcode = JUMPDEST"

definition is_jumpdest_by_op :: "u8 \<Rightarrow> bool" where
  "is_jumpdest_by_op opcode = (case opcode_new opcode of Some o1 \<Rightarrow> is_jumpdest o1 | None \<Rightarrow> False)"

definition is_jump :: "u8 \<Rightarrow> bool" where
  "is_jump opcode \<longleftrightarrow> opcode = 0x56"

definition is_jump_by_op :: "u8 \<Rightarrow> bool" where
  "is_jump_by_op opcode = (case opcode_new opcode of Some o1 \<Rightarrow> is_jump o1 | None \<Rightarrow> False)"

definition is_push :: "u8 \<Rightarrow> bool" where
  "is_push opcode \<longleftrightarrow> PUSH1 \<le> opcode \<and> opcode \<le> 0x7F"

definition is_push_by_op :: "u8 \<Rightarrow> bool" where
  "is_push_by_op opcode = (case opcode_new opcode of Some o1 \<Rightarrow> is_push o1 | None \<Rightarrow> False)"

definition modifies_memory :: "u8 \<Rightarrow> bool" where
  "modifies_memory opcode \<longleftrightarrow>
     opcode \<in> {0x3C, 0x51, 0x52, 0x53, 0x5E, 0x39, 0x37, 0x3E, 0xF1, 0xF2, 0xF4, 0xFA}"

section \<open>Instruction tables\<close>

text \<open>An array of 256 functions is a function of the opcode; a boxed closure is an instruction.\<close>

datatype 'h instruction_tables = Plain "u8 \<Rightarrow> 'h instr" | Boxed "u8 \<Rightarrow> 'h instr"

definition make_instruction_table :: "'h host \<Rightarrow> alloy \<Rightarrow> spec_id \<Rightarrow> u8 \<Rightarrow> 'h instr" where
  "make_instruction_table H L sp = instruction H L sp"

definition new_plain :: "'h host \<Rightarrow> alloy \<Rightarrow> spec_id \<Rightarrow> 'h instruction_tables" where
  "new_plain H L sp = Plain (make_instruction_table H L sp)"

fun convert_boxed :: "'h instruction_tables \<Rightarrow> 'h instruction_tables" where
  "convert_boxed (Plain t) = Boxed t"
| "convert_boxed (Boxed t) = Boxed t"

fun tables_insert :: "u8 \<Rightarrow> 'h instr \<Rightarrow> 'h instruction_tables \<Rightarrow> 'h instruction_tables" where
  "tables_insert op f (Plain t) = Plain (t(op := f))"
| "tables_insert op f (Boxed t) = Boxed (t(op := f))"

fun insert_boxed :: "u8 \<Rightarrow> 'h instr \<Rightarrow> 'h instruction_tables \<Rightarrow> 'h instruction_tables eval" where
  "insert_boxed op f t =
     (case convert_boxed t of Plain _ \<Rightarrow> Panic | Boxed b \<Rightarrow> Val (Boxed (b(op := f))))"

definition make_boxed_instruction_table ::
  "(u8 \<Rightarrow> 'h instr) \<Rightarrow> ('h instr \<Rightarrow> 'h instr) \<Rightarrow> u8 \<Rightarrow> 'h instr" where
  "make_boxed_instruction_table table outer i = outer (table i)"

section \<open>The loop\<close>

definition current_opcode :: "interpreter \<Rightarrow> u8 eval" where
  "current_opcode i = (if ip i < length (code_bytes i) then Val (code_bytes i ! ip i) else Panic)"

definition step :: "(u8 \<Rightarrow> 'h instr) \<Rightarrow> 'h instr" where
  "step table i h = bindE (current_opcode i) (\<lambda>op. table op (i\<lparr>ip := ip i + 1\<rparr>) h)"

definition take_memory :: "interpreter \<Rightarrow> shared_memory \<times> interpreter" where
  "take_memory i = (memory i, i\<lparr>memory := EMPTY_SHARED_MEMORY\<rparr>)"

text \<open>The main loop; \<open>None\<close> stands for a loop that does not end.\<close>

partial_function (option) run_loop :: "(u8 \<Rightarrow> 'h instr) \<Rightarrow> interpreter \<Rightarrow> 'h \<Rightarrow> (interpreter \<times> 'h) eval option"
where
  "run_loop table i h =
     (if instr_result i = Continue
      then (case step table i h of Panic \<Rightarrow> Some Panic | Val (i', h') \<Rightarrow> run_loop table i' h')
      else Some (Val (i, h)))"

definition run_result :: "interpreter \<Rightarrow> interpreter_action \<times> interpreter" where
  "run_result i =
     (if next_action i \<noteq> ActNone then (next_action i, i\<lparr>next_action := ActNone\<rparr>)
      else (ActReturn \<lparr>ir_result = instr_result i, ir_output = [], ir_gas = int_gas i\<rparr>, i))"

definition run ::
  "(u8 \<Rightarrow> 'h instr) \<Rightarrow> shared_memory \<Rightarrow> interpreter \<Rightarrow> 'h \<Rightarrow>
     (interpreter_action \<times> interpreter \<times> 'h) eval option" where
  "run table m i h =
     map_option (\<lambda>r. bindE r (\<lambda>(i, h). let (a, i) = run_result i in Val (a, i, h)))
       (run_loop table (i\<lparr>next_action := ActNone, memory := m\<rparr>) h)"

end
