(* ===== verification/Evm_Context.thy ===== *)
theory Evm_Context
  imports Native_Tokens Opcodes
begin

text \<open>
  The execution context: \<^verbatim>\<open>revm/src/context.rs\<close> (the implementation of \<^verbatim>\<open>Host\<close>),
  \<^verbatim>\<open>context/inner_evm_context.rs\<close>, \<^verbatim>\<open>context/evm_context.rs\<close>, \<^verbatim>\<open>context/context_precompiles.rs\<close> and
  the frames of \<^verbatim>\<open>frame.rs\<close>. The state is the environment, the journaled state, the pending error and
  the precompiles; the database is a parameter. The precompiles of the crate \<^verbatim>\<open>revm-precompile\<close> are
  values of the map; the native token precompile is the one of theory \<open>Native_Tokens\<close>.
\<close>

section \<open>State\<close>

definition CALL_STACK_LIMIT :: nat where "CALL_STACK_LIMIT = 1024"

type_synonym precompile = "bytes \<Rightarrow> u64 \<Rightarrow> env \<Rightarrow> precompile_result eval"

datatype context_precompile =
    Ordinary precompile
  | ContextStateful "bytes \<Rightarrow> u64 \<Rightarrow> journaled_state \<Rightarrow> precompile_run"
  | ContextStatefulMut "call_inputs \<Rightarrow> u64 \<Rightarrow> journaled_state \<Rightarrow> precompile_run"

type_synonym context_precompiles = "address \<rightharpoonup> context_precompile"

record 'e evm_context =
  ctx_env :: env
  ctx_js :: journaled_state
  ctx_error :: "'e evm_error option"
  ctx_precompiles :: context_precompiles

definition context_new_with_env :: "env \<Rightarrow> 'e evm_context" where
  "context_new_with_env e = \<lparr>ctx_env = e, ctx_js = js_new LATEST {}, ctx_error = None, ctx_precompiles = Map.empty\<rparr>"

text \<open>A method of the journaled state, inside the context.\<close>

definition on_js :: "(journaled_state \<Rightarrow> ('x \<times> journaled_state) eval) \<Rightarrow> 'e evm_context \<Rightarrow> ('x \<times> 'e evm_context) eval" where
  "on_js f c = bindE (f (ctx_js c)) (\<lambda>(x, j). Val (x, c\<lparr>ctx_js := j\<rparr>))"

definition do_js :: "(journaled_state \<Rightarrow> journaled_state eval) \<Rightarrow> 'e evm_context \<Rightarrow> 'e evm_context eval" where
  "do_js f c = bindE (f (ctx_js c)) (\<lambda>j. Val (c\<lparr>ctx_js := j\<rparr>))"

definition take_error :: "'e evm_context \<Rightarrow> ('e evm_error + unit) \<times> 'e evm_context" where
  "take_error c = (case ctx_error c of Some e \<Rightarrow> Inl e | None \<Rightarrow> Inr (), c\<lparr>ctx_error := None\<rparr>)"

fun load_access_list_loop ::
  "'e database \<Rightarrow> (address \<times> u256 list) list \<Rightarrow> journaled_state \<Rightarrow> (('e evm_error + unit) \<times> journaled_state) eval" where
  "load_access_list_loop db [] j = Val (Inr (), j)"
| "load_access_list_loop db ((a, slots) # rest) j =
     tryE (js_initial_account_load db a slots j) (\<lambda>_ j. load_access_list_loop db rest j)"

definition load_access_list :: "'e database \<Rightarrow> 'e evm_context \<Rightarrow> (('e evm_error + unit) \<times> 'e evm_context) eval" where
  "load_access_list db c = on_js (load_access_list_loop db (access_list (tx (ctx_env c)))) c"

definition ctx_base_balance ::
  "'e database \<Rightarrow> address \<Rightarrow> journaled_state \<Rightarrow> (('e evm_error + (u256 \<times> bool)) \<times> journaled_state) eval" where
  "ctx_base_balance db a j =
     tryE (js_load_account db a j) (\<lambda>(acc, is_cold) j. Val (Inr (get_base_balance (info acc), is_cold), j))"

definition ctx_code_hash ::
  "'e database \<Rightarrow> address \<Rightarrow> journaled_state \<Rightarrow> (('e evm_error + (b256 \<times> bool)) \<times> journaled_state) eval" where
  "ctx_code_hash db a j =
     tryE (js_load_code db a j) (\<lambda>(acc, is_cold) j.
       Val (Inr (if account_is_empty acc then 0 else code_hash (info acc), is_cold), j))"

section \<open>The host\<close>

text \<open>\<^verbatim>\<open>.map_err(|e| self.evm.error = Err(e)).ok()\<close>.\<close>

fun keep_error :: "(('e evm_error + 'a) \<times> 'e evm_context) eval \<Rightarrow> ('a option \<times> 'e evm_context) eval" where
  "keep_error Panic = Panic"
| "keep_error (Val (Inl e, c)) = Val (None, c\<lparr>ctx_error := Some e\<rparr>)"
| "keep_error (Val (Inr x, c)) = Val (Some x, c)"

definition host_block_hash :: "'e database \<Rightarrow> u256 \<Rightarrow> 'e evm_context \<Rightarrow> (b256 option \<times> 'e evm_context) eval" where
  "host_block_hash db num c =
     (let block_number = as_usize_saturated (number (block (ctx_env c)));
          requested_number = as_usize_saturated num
      in if block_number < requested_number then Val (Some 0, c)
         else let diff = block_number - requested_number
              in if diff = 0 then Val (Some 0, c)
                 else if diff \<le> BLOCK_HASH_HISTORY then keep_error (query (block_hash db num) c)
                 else Val (Some 0, c))"

definition host_selfdestruct ::
  "'e database \<Rightarrow> address \<Rightarrow> address \<Rightarrow> 'e evm_context \<Rightarrow> (self_destruct_result option \<times> 'e evm_context) eval" where
  "host_selfdestruct db a target c = keep_error (on_js (js_selfdestruct db a target) c)"

definition host_mint ::
  "keccak \<Rightarrow> 'e database \<Rightarrow> address \<Rightarrow> address \<Rightarrow> u256 \<Rightarrow> u256 \<Rightarrow> 'e evm_context \<Rightarrow> (bool \<times> 'e evm_context) eval" where
  "host_mint K db minter recipient sub_id amount c =
     (if amount = 0 then Val (False, c) else on_js (js_mint K db minter recipient sub_id amount) c)"

definition context_host :: "keccak \<Rightarrow> 'e database \<Rightarrow> ('e evm_context) host" where
  "context_host K db =
     \<lparr>h_env = ctx_env,
      h_load_account = (\<lambda>a c. keep_error (on_js (js_load_account_exist db a) c)),
      h_block_hash = host_block_hash db,
      h_code = (\<lambda>a c. keep_error (on_js (ctx_code db a) c)),
      h_code_hash = (\<lambda>a c. keep_error (on_js (ctx_code_hash db a) c)),
      h_sload = (\<lambda>a k c. keep_error (on_js (js_sload db a k) c)),
      h_sstore = (\<lambda>a k v c. keep_error (on_js (js_sstore db a k v) c)),
      h_tload = (\<lambda>a k c. Val (js_tload a k (ctx_js c), c)),
      h_tstore = (\<lambda>a k v c. bindE (do_js (js_tstore a k v) c) (\<lambda>c. Val ((), c))),
      h_log = (\<lambda>l c. Val ((), c\<lparr>ctx_js := js_log l (ctx_js c)\<rparr>)),
      h_selfdestruct = host_selfdestruct db,
      h_balance = (\<lambda>t a c. keep_error (on_js (ctx_balance db t a) c)),
      h_base_balance = (\<lambda>a c. keep_error (on_js (ctx_base_balance db a) c)),
      h_burn = (\<lambda>burner sub_id holder amount c. on_js (js_burn K db burner sub_id holder amount) c),
      h_mint = host_mint K db\<rparr>"

section \<open>Precompiles\<close>

text \<open>\<^verbatim>\<open>From<Precompiles> for ContextPrecompiles\<close>.\<close>

definition from_precompiles :: "(address \<rightharpoonup> precompile) \<Rightarrow> context_precompiles" where
  "from_precompiles p a = map_option Ordinary (p a)"

definition set_precompiles :: "context_precompiles \<Rightarrow> 'e evm_context \<Rightarrow> 'e evm_context" where
  "set_precompiles p c =
     c\<lparr>ctx_js := (ctx_js c)\<lparr>warm_preloaded_addresses := dom p\<rparr>, ctx_precompiles := p\<rparr>"

text \<open>\<^verbatim>\<open>ContextPrecompiles::call\<close>: the precompile at the code address, if there is one.\<close>

definition precompiles_call ::
  "call_inputs \<Rightarrow> u64 \<Rightarrow> 'e evm_context \<Rightarrow> (precompile_result \<times> 'e evm_context) eval option" where
  "precompiles_call inputs gl c =
     map_option (\<lambda>p. case p of
         Ordinary f \<Rightarrow> bindE (f (ci_input inputs) gl (ctx_env c)) (\<lambda>r. Val (r, c))
       | ContextStatefulMut f \<Rightarrow> on_js (f inputs gl) c
       | ContextStateful f \<Rightarrow> on_js (f (ci_input inputs) gl) c)
       (ctx_precompiles c (ci_bytecode_address inputs))"

record call_info =
  nc_target_address :: address
  nc_input_data :: bytes
  nc_call_values :: call_values

datatype interpreter_result_or_new_call = CallEnded interpreter_result | NewCall call_info

fun precompile_outcome :: "gas \<Rightarrow> precompile_result \<Rightarrow> interpreter_result_or_new_call" where
  "precompile_outcome g (Inr (Call ci)) =
     NewCall \<lparr>nc_target_address = pci_target_address ci, nc_input_data = pci_input_data ci,
              nc_call_values = Transfer (pci_token_transfers ci)\<rparr>"
| "precompile_outcome g (Inr (Result r)) =
     (let (ok, g') = record_cost g (gas_used r)
      in CallEnded (if ok then \<lparr>ir_result = Return, ir_output = returned_bytes r, ir_gas = g'\<rparr>
                    else \<lparr>ir_result = PrecompileOOG, ir_output = [], ir_gas = g'\<rparr>))"
| "precompile_outcome g (Inl e) =
     CallEnded \<lparr>ir_result = (if e = PE_OutOfGas then PrecompileOOG else PrecompileError), ir_output = [], ir_gas = g\<rparr>"

definition call_precompile ::
  "call_inputs \<Rightarrow> gas \<Rightarrow> 'e evm_context \<Rightarrow> (interpreter_result_or_new_call option \<times> 'e evm_context) eval" where
  "call_precompile inputs g c =
     (case precompiles_call inputs (limit g) c of
        None \<Rightarrow> Val (None, c)
      | Some r \<Rightarrow> bindE r (\<lambda>(out, c). Val (Some (precompile_outcome g out), c)))"

section \<open>Frames\<close>

record frame_data =
  fd_checkpoint :: journal_checkpoint
  fd_interpreter :: interpreter

datatype frame =
    CallFrame "nat \<times> nat" frame_data
  | CreateFrame address frame_data
  | EOFCreateFrame address "nat \<times> nat" frame_data

datatype frame_result =
    CallResult call_outcome
  | CreateResult create_outcome
  | EOFCreateResult eof_create_outcome

datatype frame_or_result = NewFrame frame | Ended frame_result

fun frame_interpreter :: "frame \<Rightarrow> interpreter" where
  "frame_interpreter (CallFrame _ d) = fd_interpreter d"
| "frame_interpreter (CreateFrame _ d) = fd_interpreter d"
| "frame_interpreter (EOFCreateFrame _ _ d) = fd_interpreter d"

fun set_frame_interpreter :: "interpreter \<Rightarrow> frame \<Rightarrow> frame" where
  "set_frame_interpreter i (CallFrame r d) = CallFrame r (d\<lparr>fd_interpreter := i\<rparr>)"
| "set_frame_interpreter i (CreateFrame a d) = CreateFrame a (d\<lparr>fd_interpreter := i\<rparr>)"
| "set_frame_interpreter i (EOFCreateFrame a r d) = EOFCreateFrame a r (d\<lparr>fd_interpreter := i\<rparr>)"

fun into_interpreter_result :: "frame_result \<Rightarrow> interpreter_result" where
  "into_interpreter_result (CallResult x) = co_result x"
| "into_interpreter_result (CreateResult x) = cro_result x"
| "into_interpreter_result (EOFCreateResult x) = eco_result x"

fun set_result_gas :: "gas \<Rightarrow> frame_result \<Rightarrow> frame_result" where
  "set_result_gas g (CallResult x) = CallResult (x\<lparr>co_result := (co_result x)\<lparr>ir_gas := g\<rparr>\<rparr>)"
| "set_result_gas g (CreateResult x) = CreateResult (x\<lparr>cro_result := (cro_result x)\<lparr>ir_gas := g\<rparr>\<rparr>)"
| "set_result_gas g (EOFCreateResult x) = EOFCreateResult (x\<lparr>eco_result := (eco_result x)\<lparr>ir_gas := g\<rparr>\<rparr>)"

definition new_call_result :: "instruction_result \<Rightarrow> gas \<Rightarrow> nat \<times> nat \<Rightarrow> frame_or_result" where
  "new_call_result r g rng =
     Ended (CallResult \<lparr>co_result = \<lparr>ir_result = r, ir_output = [], ir_gas = g\<rparr>, co_memory_offset = rng\<rparr>)"

definition new_create_result :: "instruction_result \<Rightarrow> gas \<Rightarrow> frame_or_result" where
  "new_create_result r g =
     Ended (CreateResult \<lparr>cro_result = \<lparr>ir_result = r, ir_output = [], ir_gas = g\<rparr>, cro_address = None\<rparr>)"

definition new_eofcreate_result :: "instruction_result \<Rightarrow> gas \<Rightarrow> address \<Rightarrow> nat \<times> nat \<Rightarrow> frame_or_result" where
  "new_eofcreate_result r g a rng =
     Ended (EOFCreateResult \<lparr>eco_result = \<lparr>ir_result = r, ir_output = [], ir_gas = g\<rparr>, eco_address = a,
                             eco_return_memory_range = rng\<rparr>)"

section \<open>Calls\<close>

type_synonym 'e frame_made = "(('e evm_error + frame_or_result) \<times> 'e evm_context) eval"

definition revert_and_return :: "journal_checkpoint \<Rightarrow> frame_or_result \<Rightarrow> 'e evm_context \<Rightarrow> 'e frame_made" where
  "revert_and_return cp res c = bindE (do_js (js_checkpoint_revert cp) c) (\<lambda>c. Val (Inr res, c))"

text \<open>The touch or the transfer at the start of a call: the result of a failed transfer, if any.\<close>

definition call_transfer ::
  "'e database \<Rightarrow> call_inputs \<Rightarrow> 'e evm_context \<Rightarrow> (('e evm_error + instruction_result option) \<times> 'e evm_context) eval" where
  "call_transfer db inputs c =
     (case ci_values inputs of
        Transfer vs \<Rightarrow>
          if vs = [] \<or> list_all (\<lambda>t. tt_amount t = 0) vs
          then tryE (on_js (js_load_account db (ci_target_address inputs)) c) (\<lambda>_ c.
                 bindE (do_js (js_touch (ci_target_address inputs)) c) (\<lambda>c. Val (Inr None, c)))
          else on_js (js_transfer db (ci_caller inputs) (ci_target_address inputs) vs) c
      | Apparent _ \<Rightarrow> Val (Inr None, c))"

definition call_frame_of ::
  "bytes \<Rightarrow> bytecode \<Rightarrow> b256 \<Rightarrow> call_inputs \<Rightarrow> u64 \<Rightarrow> journal_checkpoint \<Rightarrow> 'e evm_context \<Rightarrow> 'e frame_made" where
  "call_frame_of input bc hash inputs gl cp c =
     bindE (interpreter_new (contract_new_with_context input bc (Some hash) inputs) gl (ci_is_static inputs)) (\<lambda>i.
       Val (Inr (NewFrame (CallFrame (ci_return_memory_offset inputs) \<lparr>fd_checkpoint = cp, fd_interpreter = i\<rparr>)), c))"

text \<open>The new call a precompile asks for: it replaces the call, within the same checkpoint.\<close>

definition new_call_frame ::
  "'e database \<Rightarrow> call_inputs \<Rightarrow> call_info \<Rightarrow> gas \<Rightarrow> journal_checkpoint \<Rightarrow> 'e evm_context \<Rightarrow> 'e frame_made" where
  "new_call_frame db inputs ci g cp c =
     tryE (on_js (js_load_code db (nc_target_address ci)) c) (\<lambda>(acc, _) c.
       let bc = (case code (info acc) of Some b \<Rightarrow> b | None \<Rightarrow> bytecode_new);
           call_inputs =
             \<lparr>ci_input = nc_input_data ci, ci_return_memory_offset = (0, 0), ci_gas_limit = limit g,
              ci_bytecode_address = nc_target_address ci, ci_target_address = nc_target_address ci,
              ci_caller = ci_caller inputs, ci_values = nc_call_values ci, ci_scheme = SchemeCall,
              ci_is_static = ci_is_static inputs, ci_is_eof = False\<rparr>
       in tryE (on_js (js_transfer db (ci_caller call_inputs) (ci_target_address call_inputs)
                        (values_get (ci_values call_inputs))) c) (\<lambda>r c.
            case r of
              Some e \<Rightarrow> revert_and_return cp (new_call_result e g (ci_return_memory_offset inputs)) c
            | None \<Rightarrow> call_frame_of (nc_input_data ci) bc (code_hash (info acc)) call_inputs
                        (ci_gas_limit call_inputs) cp c))"

definition make_call_frame :: "'e database \<Rightarrow> call_inputs \<Rightarrow> 'e evm_context \<Rightarrow> 'e frame_made" where
  "make_call_frame db inputs c =
     (let g = gas_new (ci_gas_limit inputs);
          return_result = (\<lambda>r. new_call_result r g (ci_return_memory_offset inputs))
      in if depth (ctx_js c) > CALL_STACK_LIMIT then Val (Inr (return_result CallTooDeep), c)
         else tryE (on_js (js_load_code db (ci_bytecode_address inputs)) c) (\<lambda>(acc, _) c.
           let bc = (case code (info acc) of Some b \<Rightarrow> b | None \<Rightarrow> bytecode_new);
               (cp, j) = js_checkpoint (ctx_js c); c = c\<lparr>ctx_js := j\<rparr>
           in tryE (call_transfer db inputs c) (\<lambda>r c.
             case r of
               Some e \<Rightarrow> revert_and_return cp (return_result e) c
             | None \<Rightarrow>
                 bindE (call_precompile inputs g c) (\<lambda>(out, c).
                 case out of
                   Some (NewCall ci) \<Rightarrow> new_call_frame db inputs ci g cp c
                 | Some (CallEnded res) \<Rightarrow>
                     bindE (if is_ok (ir_result res) then do_js js_checkpoint_commit c
                            else do_js (js_checkpoint_revert cp) c) (\<lambda>c.
                       Val (Inr (Ended (CallResult \<lparr>co_result = res,
                              co_memory_offset = ci_return_memory_offset inputs\<rparr>)), c))
                 | None \<Rightarrow>
                     if \<not> bytecode_is_empty bc
                     then call_frame_of (ci_input inputs) bc (code_hash (info acc)) inputs (limit g) cp c
                     else bindE (do_js js_checkpoint_commit c) (\<lambda>c. Val (Inr (return_result Stop), c))))))"

definition inner_call_return :: "interpreter_result \<Rightarrow> journal_checkpoint \<Rightarrow> 'e evm_context \<Rightarrow> 'e evm_context eval" where
  "inner_call_return res cp c =
     (if is_ok (ir_result res) then do_js js_checkpoint_commit c else do_js (js_checkpoint_revert cp) c)"

section \<open>Creations\<close>

text \<open>The checks a creation makes before it derives an address: the caller's funds and nonce.\<close>

definition create_prelude ::
  "'e database \<Rightarrow> address \<Rightarrow> u256 \<Rightarrow> (instruction_result \<Rightarrow> frame_or_result) \<Rightarrow>
     (u64 \<Rightarrow> 'e evm_context \<Rightarrow> 'e frame_made) \<Rightarrow> 'e evm_context \<Rightarrow> 'e frame_made" where
  "create_prelude db cal val return_error k c =
     (if depth (ctx_js c) > CALL_STACK_LIMIT then Val (Inr (return_error CallTooDeep), c)
      else tryE (on_js (ctx_base_balance db cal) c) (\<lambda>(caller_balance, _) c.
        if caller_balance < val then Val (Inr (return_error OutOfFunds), c)
        else bindE (on_js (js_inc_nonce cal) c) (\<lambda>(n, c).
          case n of None \<Rightarrow> Val (Inr (return_error Return), c) | Some n \<Rightarrow> k n c)))"

text \<open>The account at the derived address, and the frame that runs the initialisation code there.\<close>

definition create_account_frame ::
  "'e database \<Rightarrow> spec_id \<Rightarrow> address \<Rightarrow> address \<Rightarrow> u256 \<Rightarrow> (instruction_result \<Rightarrow> frame_or_result) \<Rightarrow>
     (journal_checkpoint \<Rightarrow> 'e evm_context \<Rightarrow> 'e frame_made) \<Rightarrow> 'e evm_context \<Rightarrow> 'e frame_made" where
  "create_account_frame db sp cal created val return_error k c =
     tryE (on_js (js_load_account db created) c) (\<lambda>_ c.
     bindE (on_js (js_create_account_checkpoint cal created val sp) c) (\<lambda>(r, c).
       case r of Inl e \<Rightarrow> Val (Inr (return_error e), c) | Inr cp \<Rightarrow> k cp c))"

definition make_create_frame :: "alloy \<Rightarrow> 'e database \<Rightarrow> spec_id \<Rightarrow> create_inputs \<Rightarrow> 'e evm_context \<Rightarrow> 'e frame_made" where
  "make_create_frame L db sp inputs c =
     (let g = gas_new (cr_gas_limit inputs); return_error = (\<lambda>e. new_create_result e g)
      in create_prelude db (cr_caller inputs) (cr_value inputs) return_error (\<lambda>n c.
        let old_nonce = n - 1;
            (init_code_hash, created_address) =
              (case cr_scheme inputs of
                 Create1 \<Rightarrow> (0, address_create L (cr_caller inputs) old_nonce)
               | Create2 salt \<Rightarrow>
                   let h = keccak256 L (cr_init_code inputs)
                   in (h, address_create2 L (cr_caller inputs) (to_be_bytes salt) h))
        in create_account_frame db sp (cr_caller inputs) created_address (cr_value inputs) return_error (\<lambda>cp c.
             bindE (interpreter_new
                     (contract_new [] (bytecode_new_raw (cr_init_code inputs)) (Some init_code_hash)
                        created_address (cr_caller inputs) [\<lparr>tt_id = BASE_TOKEN_ID, tt_amount = cr_value inputs\<rparr>])
                     (limit g) False) (\<lambda>i.
               Val (Inr (NewFrame (CreateFrame created_address \<lparr>fd_checkpoint = cp, fd_interpreter = i\<rparr>)), c))) c) c)"

definition make_eofcreate_frame :: "'e database \<Rightarrow> spec_id \<Rightarrow> eof_create_input \<Rightarrow> 'e evm_context \<Rightarrow> 'e frame_made" where
  "make_eofcreate_frame db sp inputs c =
     (let return_error = (\<lambda>e. new_eofcreate_result e (gas_new (ec_gas_limit inputs)) (ec_created_address inputs)
                                (ec_return_memory_range inputs))
      in create_prelude db (ec_caller inputs) (ec_value inputs) return_error (\<lambda>_ c.
           create_account_frame db sp (ec_caller inputs) (ec_created_address inputs) (ec_value inputs) return_error (\<lambda>cp c.
             bindE (interpreter_new
                     (contract_new [] (Eof (ec_eof_init_code inputs)) None (ec_created_address inputs)
                        (ec_caller inputs) [\<lparr>tt_id = BASE_TOKEN_ID, tt_amount = ec_value inputs\<rparr>])
                     (ec_gas_limit inputs) False) (\<lambda>i.
               Val (Inr (NewFrame (EOFCreateFrame (ec_created_address inputs) (ec_return_memory_range inputs)
                      \<lparr>fd_checkpoint = cp, fd_interpreter = set_is_eof_init i\<rparr>)), c))) c) c)"

definition inner_eofcreate_return ::
  "keccak \<Rightarrow> interpreter_result \<Rightarrow> address \<Rightarrow> journal_checkpoint \<Rightarrow> 'e evm_context \<Rightarrow> 'e evm_context eval" where
  "inner_eofcreate_return K res a cp c =
     (if ir_result res \<noteq> ReturnContract then do_js (js_checkpoint_revert cp) c
      else bindE (do_js js_checkpoint_commit c) (\<lambda>c.
        bindE (expect_decoded (eof_decode (ir_output res))) (\<lambda>e. do_js (js_set_code K a (Eof e)) c)))"

text \<open>
  \<^verbatim>\<open>create_return\<close>: the result may be replaced. The length of the code times the price of a byte is a
  checked product.
\<close>

definition inner_create_return ::
  "keccak \<Rightarrow> spec_id \<Rightarrow> interpreter_result \<Rightarrow> address \<Rightarrow> journal_checkpoint \<Rightarrow> 'e evm_context \<Rightarrow>
     (interpreter_result \<times> 'e evm_context) eval" where
  "inner_create_return K sp res a cp c =
     (let reverted = (\<lambda>res. bindE (do_js (js_checkpoint_revert cp) c) (\<lambda>c. Val (res, c)));
          code_limit = (case limit_contract_code_size (cfg (ctx_env c)) of Some l \<Rightarrow> l | None \<Rightarrow> MAX_CODE_SIZE)
      in if \<not> is_ok (ir_result res) then reverted res
         else if enabled sp LONDON \<and> ir_output res \<noteq> [] \<and> hd (ir_output res) = 0xEF
         then reverted (res\<lparr>ir_result := CreateContractStartingWithEF\<rparr>)
         else if enabled sp SPURIOUS_DRAGON \<and> length (ir_output res) > code_limit
         then reverted (res\<lparr>ir_result := CreateContractSizeLimit\<rparr>)
         else bindE (unwrap (checked_mul (of_nat (length (ir_output res))) CODEDEPOSIT)) (\<lambda>gas_for_code.
           let (ok, g) = record_cost (ir_gas res) gas_for_code
           in if \<not> ok \<and> enabled sp HOMESTEAD then reverted (res\<lparr>ir_result := OutOfGas\<rparr>)
              else
                let res = (if ok then res\<lparr>ir_gas := g\<rparr> else res\<lparr>ir_output := []\<rparr>);
                    bc = (case perf_analyse_created_bytecodes (cfg (ctx_env c)) of
                            Raw \<Rightarrow> bytecode_new_raw (ir_output res)
                          | Analyse \<Rightarrow> to_analysed (bytecode_new_raw (ir_output res)))
                in bindE (do_js js_checkpoint_commit c) (\<lambda>c.
                   bindE (do_js (js_set_code K a bc) c) (\<lambda>c.
                     Val (res\<lparr>ir_result := Return\<rparr>, c)))))"

end
