(* ===== verification/Handler.thy ===== *)
theory Handler
  imports Evm_Context
begin

text \<open>
  A transaction: the mainnet handlers of \<^verbatim>\<open>revm/src/handler/mainnet/\<close> (validation, pre-execution,
  execution, post-execution) and the functions of \<^verbatim>\<open>revm/src/evm.rs\<close> that call them. The precompiles
  of a fork from the crate \<^verbatim>\<open>revm-precompile\<close> are the parameter \<open>P\<close> (theory \<open>Precompile_Sets\<close> defines it), the functions of
  \<^verbatim>\<open>alloy_primitives\<close> the parameter \<open>L\<close>. A computation that may not end is \<open>None\<close>.
\<close>

section \<open>Results\<close>

datatype exec_output = OutCall bytes | OutCreate bytes "address option"

datatype execution_result =
    ER_Success success_reason u64 u64 "log list" exec_output
  | ER_Revert u64 bytes
  | ER_Halt halt_reason u64

record result_and_state =
  rs_result :: execution_result
  rs_state :: evm_state

fun into_data :: "exec_output \<Rightarrow> bytes" where
  "into_data (OutCall d) = d"
| "into_data (OutCreate d _) = d"

text \<open>\<^verbatim>\<open>FrameResult::output\<close>: the result of an EOF creation never reaches the outside.\<close>

fun frame_output :: "frame_result \<Rightarrow> exec_output eval" where
  "frame_output (CallResult x) = Val (OutCall (ir_output (co_result x)))"
| "frame_output (CreateResult x) = Val (OutCreate (ir_output (cro_result x)) (cro_address x))"
| "frame_output (EOFCreateResult _) = Panic"

type_synonym ('e, 'a) ctx_run = "(('e evm_error + 'a) \<times> 'e evm_context) eval"

section \<open>Validation\<close>

definition validate_env :: "spec_id \<Rightarrow> env \<Rightarrow> ('e evm_error + unit) eval" where
  "validate_env sp e =
     (case validate_block_env sp e of
        Inl x \<Rightarrow> Val (Inl (Header x))
      | Inr _ \<Rightarrow> bindE (validate_tx sp e) (\<lambda>r. Val (case r of Inl x \<Rightarrow> Inl (Transaction x) | Inr _ \<Rightarrow> Inr ())))"

definition handler_initial_tx_gas :: "spec_id \<Rightarrow> env \<Rightarrow> ('e evm_error + u64) eval" where
  "handler_initial_tx_gas sp e =
     bindE (validate_initial_tx_gas sp (tx_data (tx e)) (is_create (transact_dest (tx e))) (access_list (tx e))
              (transferred_tokens (tx e))) (\<lambda>initial_gas_spend.
       Val (if initial_gas_spend > gas_limit (tx e) then Inl (Transaction CallGasCostMoreThanGasLimit)
            else Inr initial_gas_spend))"

fun invalid_token :: "'e database \<Rightarrow> token_transfer list \<Rightarrow> u256 option" where
  "invalid_token db [] = None"
| "invalid_token db (t # ts) =
     (case is_token_id_valid db (tt_id t) of Inr True \<Rightarrow> invalid_token db ts | _ \<Rightarrow> Some (tt_id t))"

definition validate_tx_against_state :: "'e database \<Rightarrow> spec_id \<Rightarrow> 'e evm_context \<Rightarrow> ('e, unit) ctx_run" where
  "validate_tx_against_state db sp c =
     (case invalid_token db (transferred_tokens (tx (ctx_env c))) of
        Some t \<Rightarrow> Val (Inl (Transaction (InvalidTokenId t)), c)
      | None \<Rightarrow>
          let a = caller (tx (ctx_env c)) in
          tryE (on_js (js_load_account db a) c) (\<lambda>(acc, _) c.
            let (r, acc) = env_validate_tx_against_state sp (ctx_env c) acc;
                c = c\<lparr>ctx_js := put_account a acc (ctx_js c)\<rparr>
            in Val (case r of Inl x \<Rightarrow> Inl (Transaction x) | Inr _ \<Rightarrow> Inr (), c)))"

section \<open>Pre-execution\<close>

definition load_precompiles ::
  "(spec_id \<Rightarrow> address \<rightharpoonup> precompile) \<Rightarrow> alloy \<Rightarrow> 'e database \<Rightarrow> spec_id \<Rightarrow> context_precompiles" where
  "load_precompiles P L db sp =
     (from_precompiles (P sp))(NATIVE_TOKENS_ADDRESS \<mapsto> ContextStatefulMut (nt_call_mut (keccak256 L) db))"

definition load_accounts :: "'e database \<Rightarrow> spec_id \<Rightarrow> 'e evm_context \<Rightarrow> ('e, unit) ctx_run" where
  "load_accounts db sp c =
     (let c = c\<lparr>ctx_js := js_set_spec_id (ctx_js c) sp\<rparr>;
          warm = (\<lambda>b a c. if b then on_js (js_initial_account_load db a []) c else Val (Inr (), c))
      in tryE (warm (enabled sp SHANGHAI) (coinbase (block (ctx_env c))) c) (\<lambda>_ c.
         tryE (warm (enabled sp PRAGUE) BLOCKHASH_STORAGE_ADDRESS c) (\<lambda>_ c.
         load_access_list db c)))"

definition deduct_caller_inner :: "spec_id \<Rightarrow> account \<Rightarrow> env \<Rightarrow> account eval" where
  "deduct_caller_inner sp acc e =
     (let gas_cost = saturating_mul (ucast (gas_limit (tx e))) (effective_gas_price e) in
      bindE (if enabled sp CANCUN
             then bindE (unwrap (calc_data_fee e)) (\<lambda>data_fee. Val (saturating_add gas_cost data_fee))
             else Val gas_cost) (\<lambda>gas_cost.
        let i = decrease_base_balance_saturating (info acc) gas_cost;
            i = (if is_call (transact_dest (tx e)) then i\<lparr>nonce := saturating_add (nonce i) 1\<rparr> else i)
        in Val (mark_touch (acc\<lparr>info := i\<rparr>))))"

definition deduct_caller :: "'e database \<Rightarrow> spec_id \<Rightarrow> 'e evm_context \<Rightarrow> ('e, unit) ctx_run" where
  "deduct_caller db sp c =
     (let a = caller (tx (ctx_env c)) in
      tryE (on_js (js_load_account db a) c) (\<lambda>(acc, _) c.
        bindE (deduct_caller_inner sp acc (ctx_env c)) (\<lambda>acc.
          Val (Inr (), c\<lparr>ctx_js := put_account a acc (ctx_js c)\<rparr>))))"

section \<open>Execution\<close>

definition execute_frame ::
  "'e evm_context instruction_tables \<Rightarrow> frame \<Rightarrow> shared_memory \<Rightarrow> 'e evm_context \<Rightarrow>
     (interpreter_action \<times> frame \<times> shared_memory \<times> 'e evm_context) eval option" where
  "execute_frame tables f m c =
     map_option (\<lambda>r. bindE r (\<lambda>(a, i, c).
         let (m, i) = take_memory i in Val (a, set_frame_interpreter i f, m, c)))
       (case tables of Plain t \<Rightarrow> run t m (frame_interpreter f) c | Boxed t \<Rightarrow> run t m (frame_interpreter f) c)"

definition frame_return_with_refund_flag :: "spec_id \<Rightarrow> env \<Rightarrow> frame_result \<Rightarrow> bool \<Rightarrow> frame_result eval" where
  "frame_return_with_refund_flag sp e res refund_enabled =
     (let r = ir_result (into_interpreter_result res); g0 = ir_gas (into_interpreter_result res);
          g = gas_new_spent (gas_limit (tx e))
      in bindE (if is_ok r then bindE (erase_cost g (remaining g0)) (\<lambda>g. record_refund g (refunded g0))
                else if is_revert r then erase_cost g (remaining g0)
                else Val g) (\<lambda>g.
         bindE (if refund_enabled then set_final_refund g (enabled sp LONDON) else Val g) (\<lambda>g.
           Val (set_result_gas g res))))"

definition last_frame_return :: "spec_id \<Rightarrow> 'e evm_context \<Rightarrow> frame_result \<Rightarrow> frame_result eval" where
  "last_frame_return sp c res = frame_return_with_refund_flag sp (ctx_env c) res True"

text \<open>The three handlers for a returning frame, by the kind of the frame.\<close>

fun frame_return ::
  "alloy \<Rightarrow> spec_id \<Rightarrow> frame \<Rightarrow> interpreter_result \<Rightarrow> 'e evm_context \<Rightarrow> (frame_result \<times> 'e evm_context) eval" where
  "frame_return L sp (CallFrame rng d) res c =
     bindE (inner_call_return res (fd_checkpoint d) c) (\<lambda>c.
       Val (CallResult \<lparr>co_result = res, co_memory_offset = rng\<rparr>, c))"
| "frame_return L sp (CreateFrame a d) res c =
     bindE (inner_create_return (keccak256 L) sp res a (fd_checkpoint d) c) (\<lambda>(res, c).
       Val (CreateResult \<lparr>cro_result = res, cro_address = Some a\<rparr>, c))"
| "frame_return L sp (EOFCreateFrame a rng d) res c =
     bindE (inner_eofcreate_return (keccak256 L) res a (fd_checkpoint d) c) (\<lambda>c.
       Val (EOFCreateResult \<lparr>eco_result = res, eco_address = a, eco_return_memory_range = rng\<rparr>, c))"

text \<open>The three handlers that hand an outcome to the frame below.\<close>

fun insert_outcome :: "frame_result \<Rightarrow> frame \<Rightarrow> shared_memory \<Rightarrow> (frame \<times> shared_memory) eval" where
  "insert_outcome (CallResult x) f m =
     bindE (insert_call_outcome m x (frame_interpreter f)) (\<lambda>(i, m). Val (set_frame_interpreter i f, m))"
| "insert_outcome (CreateResult x) f m =
     bindE (insert_create_outcome x (frame_interpreter f)) (\<lambda>i. Val (set_frame_interpreter i f, m))"
| "insert_outcome (EOFCreateResult x) f m =
     bindE (insert_eofcreate_outcome x (frame_interpreter f)) (\<lambda>i. Val (set_frame_interpreter i f, m))"

section \<open>The main loop\<close>

record 'e loop_state =
  call_stack :: "frame list"
  loop_memory :: shared_memory
  loop_context :: "'e evm_context"

text \<open>The last frame of the vector is the head of the list. An iteration ends the loop (\<open>Inl\<close>) or goes on.\<close>

type_synonym 'e loop_exit = "('e evm_error + frame_result) \<times> 'e evm_context"

definition next_frame_or_result ::
  "alloy \<Rightarrow> 'e database \<Rightarrow> spec_id \<Rightarrow> interpreter_action \<Rightarrow> 'e loop_state \<Rightarrow>
     (('e evm_error + frame_or_result) \<times> 'e loop_state) eval" where
  "next_frame_or_result L db sp act s =
     (let made = (\<lambda>r. bindE r (\<lambda>(x, c). Val (x, s\<lparr>loop_context := c\<rparr>))); c = loop_context s
      in case act of
           ActCall inputs \<Rightarrow> made (make_call_frame db inputs c)
         | ActCreate inputs \<Rightarrow> made (make_create_frame L db sp inputs c)
         | ActEOFCreate inputs \<Rightarrow> made (make_eofcreate_frame db sp inputs c)
         | ActReturn res \<Rightarrow>
             bindE (free_context (loop_memory s)) (\<lambda>m.
             case call_stack s of
               [] \<Rightarrow> Panic
             | f # fs \<Rightarrow> bindE (frame_return L sp f res c) (\<lambda>(r, c).
                 Val (Inr (Ended r), \<lparr>call_stack = fs, loop_memory = m, loop_context = c\<rparr>)))
         | ActNone \<Rightarrow> Panic)"

fun handle_frame_or_result :: "frame_or_result \<Rightarrow> 'e loop_state \<Rightarrow> ('e loop_exit + 'e loop_state) eval" where
  "handle_frame_or_result (NewFrame f) s =
     Val (Inr (s\<lparr>loop_memory := new_context (loop_memory s), call_stack := f # call_stack s\<rparr>))"
| "handle_frame_or_result (Ended r) s =
     (case call_stack s of
        [] \<Rightarrow> Val (Inl (Inr r, loop_context s))
      | f # fs \<Rightarrow>
          (case take_error (loop_context s) of
             (Inl e, c) \<Rightarrow> Val (Inl (Inl e, c))
           | (Inr _, c) \<Rightarrow> bindE (insert_outcome r f (loop_memory s)) (\<lambda>(f, m).
               Val (Inr \<lparr>call_stack = f # fs, loop_memory = m, loop_context = c\<rparr>))))"

definition loop_iteration ::
  "alloy \<Rightarrow> 'e database \<Rightarrow> spec_id \<Rightarrow> 'e evm_context instruction_tables \<Rightarrow> 'e loop_state \<Rightarrow>
     ('e loop_exit + 'e loop_state) eval option" where
  "loop_iteration L db sp tables s =
     (case call_stack s of
        [] \<Rightarrow> Some Panic
      | f # fs \<Rightarrow>
          map_option (\<lambda>r. bindE r (\<lambda>(act, f, m, c).
            case take_error c of
              (Inl e, c) \<Rightarrow> Val (Inl (Inl e, c))
            | (Inr _, c) \<Rightarrow>
                bindE (next_frame_or_result L db sp act \<lparr>call_stack = f # fs, loop_memory = m, loop_context = c\<rparr>)
                  (\<lambda>(r, s). case r of
                     Inl e \<Rightarrow> Val (Inl (Inl e, loop_context s))
                   | Inr x \<Rightarrow> handle_frame_or_result x s)))
            (execute_frame tables f (loop_memory s) (loop_context s)))"

partial_function (option) main_loop ::
  "alloy \<Rightarrow> 'e database \<Rightarrow> spec_id \<Rightarrow> 'e evm_context instruction_tables \<Rightarrow> 'e loop_state \<Rightarrow> 'e loop_exit eval option"
where
  "main_loop L db sp tables s =
     (case loop_iteration L db sp tables s of
        None \<Rightarrow> None
      | Some Panic \<Rightarrow> Some Panic
      | Some (Val (Inl r)) \<Rightarrow> Some (Val r)
      | Some (Val (Inr s')) \<Rightarrow> main_loop L db sp tables s')"

definition run_the_loop ::
  "alloy \<Rightarrow> 'e database \<Rightarrow> spec_id \<Rightarrow> 'e evm_context instruction_tables \<Rightarrow> frame \<Rightarrow> 'e evm_context \<Rightarrow>
     'e loop_exit eval option" where
  "run_the_loop L db sp tables first_frame c =
     main_loop L db sp tables
       \<lparr>call_stack = [first_frame],
        loop_memory = new_context (new_with_memory_limit (cfg_memory_limit (cfg (ctx_env c)))),
        loop_context = c\<rparr>"

section \<open>Post-execution\<close>

text \<open>The product of a price and an amount of gas wraps, as the multiplication of \<^verbatim>\<open>U256\<close> does.\<close>

definition reward_beneficiary :: "'e database \<Rightarrow> spec_id \<Rightarrow> gas \<Rightarrow> 'e evm_context \<Rightarrow> ('e, unit) ctx_run" where
  "reward_beneficiary db sp g c =
     (let e = ctx_env c; beneficiary = coinbase (block e);
          coinbase_gas_price = (if enabled sp LONDON then saturating_sub (effective_gas_price e) (basefee (block e))
                                else effective_gas_price e)
      in tryE (on_js (js_load_account db beneficiary) c) (\<lambda>(acc, _) c.
        bindE (spent g) (\<lambda>s. bindE (minus_or_panic s (refunded g)) (\<lambda>used.
          let acc = mark_touch acc;
              acc = acc\<lparr>info := increase_base_balance_saturating (info acc) (coinbase_gas_price * ucast used)\<rparr>
          in Val (Inr (), c\<lparr>ctx_js := put_account beneficiary acc (ctx_js c)\<rparr>)))))"

definition reimburse_caller :: "'e database \<Rightarrow> gas \<Rightarrow> 'e evm_context \<Rightarrow> ('e, unit) ctx_run" where
  "reimburse_caller db g c =
     (let e = ctx_env c; a = caller (tx e)
      in tryE (on_js (js_load_account db a) c) (\<lambda>(acc, _) c.
        bindE (plus_or_panic (remaining g) (refunded g)) (\<lambda>left.
          let acc = acc\<lparr>info := increase_base_balance_saturating (info acc) (effective_gas_price e * ucast left)\<rparr>
          in Val (Inr (), c\<lparr>ctx_js := put_account a acc (ctx_js c)\<rparr>))))"

definition handler_output :: "frame_result \<Rightarrow> 'e evm_context \<Rightarrow> ('e, result_and_state) ctx_run" where
  "handler_output res c =
     (case take_error c of
        (Inl e, c) \<Rightarrow> Val (Inl e, c)
      | (Inr _, c) \<Rightarrow>
          let ir = into_interpreter_result res; g = ir_gas ir; gas_refunded = refunded g in
          bindE (spent g) (\<lambda>s. bindE (minus_or_panic s gas_refunded) (\<lambda>final_gas_used.
          bindE (frame_output res) (\<lambda>out.
          let ((st, ls), j) = js_finalize (ctx_js c); c = c\<lparr>ctx_js := j\<rparr> in
          bindE (success_or_halt_of (ir_result ir)) (\<lambda>flag.
          bindE (case flag of
                   SH_Success reason \<Rightarrow> Val (ER_Success reason final_gas_used gas_refunded ls out)
                 | SH_Revert \<Rightarrow> Val (ER_Revert final_gas_used (into_data out))
                 | SH_Halt reason \<Rightarrow> Val (ER_Halt reason final_gas_used)
                 | _ \<Rightarrow> Panic) (\<lambda>r.
            Val (Inr \<lparr>rs_result = r, rs_state = st\<rparr>, c)))))))"

definition handler_clear :: "'e evm_context \<Rightarrow> 'e evm_context" where
  "handler_clear c = (let (_, c) = take_error c in c\<lparr>ctx_js := js_clear (ctx_js c)\<rparr>)"

section \<open>Transactions\<close>

definition preverify_transaction_inner :: "'e database \<Rightarrow> spec_id \<Rightarrow> 'e evm_context \<Rightarrow> ('e, u64) ctx_run" where
  "preverify_transaction_inner db sp c =
     bindE (validate_env sp (ctx_env c)) (\<lambda>r. case r of Inl e \<Rightarrow> Val (Inl e, c) | Inr _ \<Rightarrow>
     bindE (handler_initial_tx_gas sp (ctx_env c)) (\<lambda>r. case r of Inl e \<Rightarrow> Val (Inl e, c) | Inr g \<Rightarrow>
     tryE (validate_tx_against_state db sp c) (\<lambda>_ c. Val (Inr g, c))))"

definition preverify_transaction :: "'e database \<Rightarrow> spec_id \<Rightarrow> 'e evm_context \<Rightarrow> ('e, unit) ctx_run" where
  "preverify_transaction db sp c =
     bindE (preverify_transaction_inner db sp c) (\<lambda>(r, c).
       Val (case r of Inl e \<Rightarrow> Inl e | Inr _ \<Rightarrow> Inr (), handler_clear c))"

definition first_frame_or_result ::
  "alloy \<Rightarrow> 'e database \<Rightarrow> spec_id \<Rightarrow> u64 \<Rightarrow> 'e evm_context \<Rightarrow> ('e, frame_or_result) ctx_run" where
  "first_frame_or_result L db sp gl c =
     (case transact_dest (tx (ctx_env c)) of
        TransactCall _ \<Rightarrow> bindE (unwrap (call_inputs_new (tx (ctx_env c)) gl)) (\<lambda>i. make_call_frame db i c)
      | TransactCreate \<Rightarrow> bindE (unwrap (create_inputs_new (tx (ctx_env c)) gl)) (\<lambda>i. make_create_frame L db sp i c))"

text \<open>Up to the first frame, and from the result of the last frame on.\<close>

definition transact_setup ::
  "(spec_id \<Rightarrow> address \<rightharpoonup> precompile) \<Rightarrow> alloy \<Rightarrow> 'e database \<Rightarrow> spec_id \<Rightarrow> u64 \<Rightarrow> 'e evm_context \<Rightarrow>
     ('e, frame_or_result) ctx_run" where
  "transact_setup P L db sp initial_gas_spend c =
     tryE (load_accounts db sp c) (\<lambda>_ c.
       let c = set_precompiles (load_precompiles P L db sp) c in
       tryE (deduct_caller db sp c) (\<lambda>_ c.
       bindE (minus_or_panic (gas_limit (tx (ctx_env c))) initial_gas_spend) (\<lambda>gl.
         first_frame_or_result L db sp gl c)))"

definition transact_finish ::
  "'e database \<Rightarrow> spec_id \<Rightarrow> frame_result \<Rightarrow> 'e evm_context \<Rightarrow> ('e, result_and_state) ctx_run" where
  "transact_finish db sp res c =
     bindE (last_frame_return sp c res) (\<lambda>res.
       let g = ir_gas (into_interpreter_result res) in
       tryE (reimburse_caller db g c) (\<lambda>_ c.
       tryE (reward_beneficiary db sp g c) (\<lambda>_ c.
       handler_output res c)))"

fun with_frame_result ::
  "('e, frame_result) ctx_run option \<Rightarrow> (frame_result \<Rightarrow> 'e evm_context \<Rightarrow> ('e, 'a) ctx_run) \<Rightarrow> ('e, 'a) ctx_run option" where
  "with_frame_result None k = None"
| "with_frame_result (Some r) k = Some (tryE r k)"

definition transact_preverified_inner ::
  "(spec_id \<Rightarrow> address \<rightharpoonup> precompile) \<Rightarrow> alloy \<Rightarrow> 'e database \<Rightarrow> spec_id \<Rightarrow> 'e evm_context instruction_tables \<Rightarrow> u64 \<Rightarrow>
     'e evm_context \<Rightarrow> ('e, result_and_state) ctx_run option" where
  "transact_preverified_inner P L db sp tables initial_gas_spend c =
     (case transact_setup P L db sp initial_gas_spend c of
        Panic \<Rightarrow> Some Panic
      | Val (Inl e, c) \<Rightarrow> Some (Val (Inl e, c))
      | Val (Inr (Ended r), c) \<Rightarrow> Some (transact_finish db sp r c)
      | Val (Inr (NewFrame f), c) \<Rightarrow>
          with_frame_result (run_the_loop L db sp tables f c) (transact_finish db sp))"

definition transact ::
  "(spec_id \<Rightarrow> address \<rightharpoonup> precompile) \<Rightarrow> alloy \<Rightarrow> 'e database \<Rightarrow> spec_id \<Rightarrow> 'e evm_context instruction_tables \<Rightarrow>
     'e evm_context \<Rightarrow> ('e, result_and_state) ctx_run option" where
  "transact P L db sp tables c =
     (case preverify_transaction_inner db sp c of
        Panic \<Rightarrow> Some Panic
      | Val (Inl e, c) \<Rightarrow> Some (Val (Inl e, handler_clear c))
      | Val (Inr initial_gas_spend, c) \<Rightarrow>
          map_option (\<lambda>out. bindE out (\<lambda>(r, c). Val (r, handler_clear c)))
            (transact_preverified_inner P L db sp tables initial_gas_spend c))"

definition transact_preverified ::
  "(spec_id \<Rightarrow> address \<rightharpoonup> precompile) \<Rightarrow> alloy \<Rightarrow> 'e database \<Rightarrow> spec_id \<Rightarrow> 'e evm_context instruction_tables \<Rightarrow>
     'e evm_context \<Rightarrow> ('e, result_and_state) ctx_run option" where
  "transact_preverified P L db sp tables c =
     (case handler_initial_tx_gas sp (ctx_env c) of
        Panic \<Rightarrow> Some Panic
      | Val (Inl e) \<Rightarrow> Some (Val (Inl e, handler_clear c))
      | Val (Inr initial_gas_spend) \<Rightarrow>
          map_option (\<lambda>out. bindE out (\<lambda>(r, c). Val (r, handler_clear c)))
            (transact_preverified_inner P L db sp tables initial_gas_spend c))"

end
