(* ===== verification/Instr_Wp.thy ===== *)
theory Instr_Wp
  imports Call_Instructions
begin

text \<open>
  Weakest preconditions for the instructions: one rule per macro of \<^verbatim>\<open>macros.rs\<close> and per helper, so
  that a property of an instruction follows by applying the rules and discharging its exits.
\<close>

named_theorems wps \<open>the rules for the macros and helpers\<close>

definition wp :: "'h instr \<Rightarrow> (interpreter \<Rightarrow> 'h \<Rightarrow> bool) \<Rightarrow> interpreter \<Rightarrow> 'h \<Rightarrow> bool" where
  "wp f Q i h \<longleftrightarrow> (\<forall>i' h'. f i h = Val (i', h') \<longrightarrow> Q i' h')"

abbreviation gas_left :: "interpreter \<Rightarrow> nat" where
  "gas_left i \<equiv> unat (remaining (int_gas i))"

abbreviation height :: "interpreter \<Rightarrow> nat" where
  "height i \<equiv> length (stack i)"

lemma wpD: "wp f Q i h \<Longrightarrow> f i h = Val (i', h') \<Longrightarrow> Q i' h'"
  by (simp add: wp_def)

lemma wp_mono: "wp f P i h \<Longrightarrow> (\<And>i' h'. P i' h' \<Longrightarrow> Q i' h') \<Longrightarrow> wp f Q i h"
  by (simp add: wp_def)

section \<open>Exits\<close>

lemma wp_finish [wps]: "Q i h \<Longrightarrow> wp finish Q i h"
  by (simp add: wp_def finish_def)

lemma wp_fail [wps]: "Q (i\<lparr>instr_result := r\<rparr>) h \<Longrightarrow> wp (fail r) Q i h"
  by (simp add: wp_def fail_def)

lemma wp_Panic [wps]: "wp (\<lambda>i h. Panic) Q i h"
  by (simp add: wp_def)

lemma wp_Val [wps]: "Q i' h' \<Longrightarrow> wp (\<lambda>i h. Val (i', h')) Q i h"
  by (simp add: wp_def)

lemma wp_put_top [wps]:
  "(\<And>s. length s = height i \<Longrightarrow> Q (i\<lparr>stack := s\<rparr>) h) \<Longrightarrow> wp (put_top v) Q i h"
  by (auto simp: wp_def put_top_def set_top_def evals split: if_splits)

lemma wp_move_ip [wps]: "(\<And>n. int n = int (ip i) + d \<Longrightarrow> Q (i\<lparr>ip := n\<rparr>) h) \<Longrightarrow> wp (move_ip d) Q i h"
  by (auto simp: wp_def move_ip_def split: if_splits)

lemma wp_load_code [wps]: "(\<And>bs. Q (i\<lparr>code_bytes := bs, ip := pc\<rparr>) h) \<Longrightarrow> wp (load_code idx pc) Q i h"
  by (auto simp: wp_def load_code_def load_eof_code_def evals split: option.splits)

lemma wp_return_with [wps]:
  "(\<And>x. Q (i\<lparr>instr_result := r, next_action := ActReturn x\<rparr>) h) \<Longrightarrow> wp (return_with r bs) Q i h"
  by (auto simp: wp_def return_with_def)

lemma wp_next_frame [wps]:
  "Q (i\<lparr>next_action := a, instr_result := CallOrCreate\<rparr>) h \<Longrightarrow> wp (next_frame a) Q i h"
  by (auto simp: wp_def next_frame_def)

section \<open>Guards and gas\<close>

lemma wp_if [wps]: "(b \<Longrightarrow> wp f Q i h) \<Longrightarrow> (\<not> b \<Longrightarrow> wp g Q i h) \<Longrightarrow> wp (if b then f else g) Q i h"
  by simp

lemma wp_require_non_staticcall [wps]:
  "(is_static i \<Longrightarrow> Q (i\<lparr>instr_result := StateChangeDuringStaticCall\<rparr>) h) \<Longrightarrow>
   (\<not> is_static i \<Longrightarrow> wp k Q i h) \<Longrightarrow> wp (require_non_staticcall k) Q i h"
  by (auto simp: wp_def require_non_staticcall_def fail_def)

lemma wp_require_eof [wps]:
  "(\<not> running_eof i \<Longrightarrow> Q (i\<lparr>instr_result := EOFOpcodeDisabledInLegacy\<rparr>) h) \<Longrightarrow>
   (running_eof i \<Longrightarrow> wp k Q i h) \<Longrightarrow> wp (require_eof k) Q i h"
  by (auto simp: wp_def require_eof_def fail_def)

lemma wp_require_init_eof [wps]:
  "Q (i\<lparr>instr_result := ReturnContractInNotInitEOF\<rparr>) h \<Longrightarrow> wp k Q i h \<Longrightarrow> wp (require_init_eof k) Q i h"
  by (auto simp: wp_def require_init_eof_def fail_def)

lemma wp_check_spec [wps]:
  "Q (i\<lparr>instr_result := NotActivated\<rparr>) h \<Longrightarrow> wp k Q i h \<Longrightarrow> wp (check_spec sp lo k) Q i h"
  by (auto simp: wp_def check_spec_def fail_def)

lemma wp_charge [wps]:
  assumes "Q (i\<lparr>instr_result := OutOfGas\<rparr>) h"
    and "\<And>g. unat (remaining g) + unat c = gas_left i \<Longrightarrow> wp k Q (i\<lparr>int_gas := g\<rparr>) h"
  shows "wp (charge c k) Q i h"
proof (cases "remaining (int_gas i) < c")
  case True
  then show ?thesis using assms(1) by (simp add: wp_def charge_def record_cost_def fail_def)
next
  case False
  have "unat (remaining ((int_gas i)\<lparr>remaining := remaining (int_gas i) - c\<rparr>)) + unat c = gas_left i"
    using False by (simp add: unat_minus_if_le not_less word_le_nat_alt)
  from assms(2) [OF this] show ?thesis using False by (simp add: wp_def charge_def record_cost_def)
qed

lemma wp_charge_or_fail [wps]:
  assumes "Q (i\<lparr>instr_result := OutOfGas\<rparr>) h"
    and "\<And>c g. cost = Some c \<Longrightarrow> unat (remaining g) + unat c = gas_left i \<Longrightarrow> wp k Q (i\<lparr>int_gas := g\<rparr>) h"
  shows "wp (charge_or_fail cost k) Q i h"
proof (cases cost)
  case None
  then show ?thesis using assms(1) by (simp add: wp_def charge_or_fail_def fail_def)
next
  case (Some c)
  with wp_charge [where Q = Q and c = c and k = k, OF assms(1) assms(2)] show ?thesis
    by (simp add: wp_def charge_or_fail_def)
qed

lemma wp_refund [wps]:
  assumes "\<And>g. remaining g = remaining (int_gas i) \<Longrightarrow> wp k Q (i\<lparr>int_gas := g\<rparr>) h"
  shows "wp (refund r k) Q i h"
  unfolding wp_def [of "refund r k"]
  by (auto simp: refund_def record_refund_def evals elim!: wpD [OF assms, rotated])

lemma resize_memory_gas:
  assumes "resize_memory m g n = Val (ok, m', g')"
  shows "unat (remaining g') \<le> unat (remaining g)"
  using assms
  by (auto simp: resize_memory_def Let_def evals record_cost_def unat_minus_if_le not_less split: if_splits)

lemma resize_memory_macro_laws:
  assumes "resize_memory_macro m g off len = Val (err, m', g')"
  shows "unat (remaining g') \<le> unat (remaining g) \<and> (err = None \<or> err = Some MemoryOOG \<or> err = Some MemoryLimitOOG)"
  using assms resize_memory_gas
  by (auto simp: resize_memory_macro_def Let_def evals split: if_splits)

lemma wp_resize_mem [wps]:
  assumes "\<And>m g. unat (remaining g) \<le> gas_left i \<Longrightarrow> Q (i\<lparr>memory := m, int_gas := g, instr_result := MemoryOOG\<rparr>) h"
    and "\<And>m g. unat (remaining g) \<le> gas_left i \<Longrightarrow> Q (i\<lparr>memory := m, int_gas := g, instr_result := MemoryLimitOOG\<rparr>) h"
    and "\<And>m g. unat (remaining g) \<le> gas_left i \<Longrightarrow> wp k Q (i\<lparr>memory := m, int_gas := g\<rparr>) h"
  shows "wp (resize_mem off len k) Q i h"
  using assms
  by (auto simp: wp_def resize_mem_def evals Let_def fail_def split: option.splits
      dest!: resize_memory_macro_laws)

section \<open>Operands\<close>

lemma wp_pop1 [wps]:
  assumes "height i < 1 \<Longrightarrow> Q (i\<lparr>instr_result := StackUnderflow\<rparr>) h"
    and "\<And>a s. Suc (length s) = height i \<Longrightarrow> wp (k a) Q (i\<lparr>stack := s\<rparr>) h"
  shows "wp (pop1 k) Q i h"
  using assms(1) unfolding wp_def [of "pop1 k"]
  by (auto simp: pop1_def fail_def pop_unsafe_def evals split: if_splits elim!: wpD [OF assms(2), rotated])

lemma wp_pop2 [wps]:
  assumes "height i < 2 \<Longrightarrow> Q (i\<lparr>instr_result := StackUnderflow\<rparr>) h"
    and "\<And>a b s. length s + 2 = height i \<Longrightarrow> wp (k a b) Q (i\<lparr>stack := s\<rparr>) h"
  shows "wp (pop2 k) Q i h"
  using assms(1) unfolding wp_def [of "pop2 k"]
  by (auto simp: pop2_def fail_def pop2_unsafe_def pop_unsafe_def evals split: if_splits elim!: wpD [OF assms(2), rotated])

lemma wp_pop3 [wps]:
  assumes "height i < 3 \<Longrightarrow> Q (i\<lparr>instr_result := StackUnderflow\<rparr>) h"
    and "\<And>a b c s. length s + 3 = height i \<Longrightarrow> wp (k a b c) Q (i\<lparr>stack := s\<rparr>) h"
  shows "wp (pop3 k) Q i h"
  using assms(1) unfolding wp_def [of "pop3 k"]
  by (auto simp: pop3_def fail_def pop3_unsafe_def pop2_unsafe_def pop_unsafe_def evals split: if_splits elim!: wpD [OF assms(2), rotated])

lemma wp_pop4 [wps]:
  assumes "height i < 4 \<Longrightarrow> Q (i\<lparr>instr_result := StackUnderflow\<rparr>) h"
    and "\<And>a b c d s. length s + 4 = height i \<Longrightarrow> wp (k a b c d) Q (i\<lparr>stack := s\<rparr>) h"
  shows "wp (pop4 k) Q i h"
  using assms(1) unfolding wp_def [of "pop4 k"]
  by (auto simp: pop4_def fail_def pop4_unsafe_def pop3_unsafe_def pop2_unsafe_def pop_unsafe_def evals split: if_splits elim!: wpD [OF assms(2), rotated])

lemma wp_pop_address [wps]:
  assumes "height i < 1 \<Longrightarrow> Q (i\<lparr>instr_result := StackUnderflow\<rparr>) h"
    and "\<And>a s. Suc (length s) = height i \<Longrightarrow> wp (k a) Q (i\<lparr>stack := s\<rparr>) h"
  shows "wp (pop_address k) Q i h"
  unfolding pop_address_def by (rule wp_pop1; simp add: assms)

lemma wp_top1 [wps]:
  assumes "height i < 1 \<Longrightarrow> Q (i\<lparr>instr_result := StackUnderflow\<rparr>) h" "\<And>a. 1 \<le> height i \<Longrightarrow> wp (k a) Q i h"
  shows "wp (top1 k) Q i h"
  using assms(1) unfolding wp_def [of "top1 k"]
  by (auto simp: top1_def fail_def top_unsafe_def evals Suc_le_eq split: if_splits elim!: wpD [OF assms(2), rotated])

lemma wp_top2 [wps]:
  assumes "height i < 2 \<Longrightarrow> Q (i\<lparr>instr_result := StackUnderflow\<rparr>) h"
    and "\<And>a b s. length s + 1 = height i \<Longrightarrow> 1 \<le> length s \<Longrightarrow> wp (k a b) Q (i\<lparr>stack := s\<rparr>) h"
  shows "wp (top2 k) Q i h"
  using assms(1) unfolding wp_def [of "top2 k"]
  by (auto simp: top2_def fail_def pop_top_unsafe_def pop_unsafe_def top_unsafe_def evals split: if_splits elim!: wpD [OF assms(2), rotated 2])

lemma wp_top3 [wps]:
  assumes "height i < 3 \<Longrightarrow> Q (i\<lparr>instr_result := StackUnderflow\<rparr>) h"
    and "\<And>a b c s. length s + 2 = height i \<Longrightarrow> 1 \<le> length s \<Longrightarrow> wp (k a b c) Q (i\<lparr>stack := s\<rparr>) h"
  shows "wp (top3 k) Q i h"
  using assms(1) unfolding wp_def [of "top3 k"]
  by (auto simp: top3_def fail_def pop2_top_unsafe_def pop_unsafe_def top_unsafe_def evals split: if_splits elim!: wpD [OF assms(2), rotated 2])

lemma wp_push1 [wps]:
  assumes "Q (i\<lparr>instr_result := StackOverflow\<rparr>) h"
    and "\<And>s. length s = Suc (height i) \<Longrightarrow> height i \<noteq> STACK_LIMIT \<Longrightarrow> wp k Q (i\<lparr>stack := s\<rparr>) h"
  shows "wp (push1 v k) Q i h"
  using assms(1) unfolding wp_def [of "push1 v k"]
  by (auto simp: push1_def fail_def stack_push_def split: if_splits elim!: wpD [OF assms(2), rotated 2])

lemma wp_pop_topics [wps]:
  assumes "height i < n \<Longrightarrow> Q (i\<lparr>instr_result := StackUnderflow\<rparr>) h"
    and "\<And>ts s. length s + n = height i \<Longrightarrow> length ts = n \<Longrightarrow> wp (k ts) Q (i\<lparr>stack := s\<rparr>) h"
  shows "wp (pop_topics n k) Q i h"
  using assms(1) unfolding wp_def [of "pop_topics n k"]
  by (auto simp: pop_topics_def fail_def elim!: wpD [OF assms(2), rotated 2])

lemma wp_as_usize_or_fail_with [wps]:
  assumes "Q (i\<lparr>instr_result := r\<rparr>) h" "\<And>n. wp (k n) Q i h"
  shows "wp (as_usize_or_fail_with v r k) Q i h"
  using assms by (auto simp: wp_def as_usize_or_fail_with_def fail_def)

lemma wp_as_usize_or_fail [wps]:
  assumes "Q (i\<lparr>instr_result := InvalidOperandOOG\<rparr>) h" "\<And>n. wp (k n) Q i h"
  shows "wp (as_usize_or_fail v k) Q i h"
  unfolding as_usize_or_fail_def by (rule wp_as_usize_or_fail_with; simp add: assms)

section \<open>Host, code and memory\<close>

lemma wp_call_host [wps]:
  "(\<And>x h'. f h = Val (x, h') \<Longrightarrow> wp (k x) Q i h') \<Longrightarrow> wp (call_host f k) Q i h"
  by (auto simp: wp_def call_host_def evals)

lemma wp_ask [wps]:
  assumes "\<And>h'. f h = Val (None, h') \<Longrightarrow> Q (i\<lparr>instr_result := FatalExternalError\<rparr>) h'"
    and "\<And>x h'. f h = Val (Some x, h') \<Longrightarrow> wp (k x) Q i h'"
  shows "wp (ask f k) Q i h"
  unfolding ask_def
proof (rule wp_call_host)
  fix x h' assume f: "f h = Val (x, h')"
  show "wp (case x of None \<Rightarrow> fail FatalExternalError | Some x \<Rightarrow> k x) Q i h'"
  proof (cases x)
    case None
    with f assms(1) show ?thesis by (simp add: wp_fail)
  next
    case (Some y)
    with f assms(2) show ?thesis by simp
  qed
qed

lemma wp_read_code [wps]:
  assumes "\<And>bs. length bs = n \<Longrightarrow> wp (k bs) Q i h"
  shows "wp (read_code off n k) Q i h"
  unfolding wp_def [of "read_code off n k"]
  by (auto simp: read_code_def split: if_splits elim!: wpD [OF assms, rotated])

lemma wp_read_u16 [wps]: "(\<And>n. wp (k n) Q i h) \<Longrightarrow> wp (read_u16 off k) Q i h"
  unfolding read_u16_def by (rule wp_read_code)

lemma wp_read_i16 [wps]: "(\<And>n. wp (k n) Q i h) \<Longrightarrow> wp (read_i16 off k) Q i h"
  unfolding read_i16_def by (rule wp_read_code)

lemma wp_read_byte [wps]: "(\<And>b. wp (k b) Q i h) \<Longrightarrow> wp (read_byte k) Q i h"
  unfolding read_byte_def by (rule wp_read_code)

lemma wp_with_interp [wps]: "wp (f i) Q i h \<Longrightarrow> wp (with_interp f) Q i h"
  by (simp add: wp_def with_interp_def)

lemma wp_with_env [wps]: "wp (f (h_env H h)) Q i h \<Longrightarrow> wp (with_env H f) Q i h"
  by (simp add: wp_def with_env_def)

lemma wp_with_eof [wps]: "(\<And>e. wp (k e) Q i h) \<Longrightarrow> wp (with_eof k) Q i h"
  by (auto simp: wp_def with_eof_def evals)

lemma wp_container_at [wps]: "(\<And>bs. wp (k bs) Q i h) \<Longrightarrow> wp (container_at idx k) Q i h"
  unfolding container_at_def Let_def by (intro wps)

lemma wp_decode_container [wps]: "(\<And>e. wp (k e) Q i h) \<Longrightarrow> wp (decode_container bs k) Q i h"
  by (auto simp: wp_def decode_container_def evals)

lemma wp_section_types [wps]: "(\<And>t. wp (k t) Q i h) \<Longrightarrow> wp (section_types idx k) Q i h"
  by (auto simp: wp_def section_types_def evals Let_def split: if_splits)

lemma wp_check_stack_height [wps]:
  "Q (i\<lparr>instr_result := StackOverflow\<rparr>) h \<Longrightarrow> wp k Q i h \<Longrightarrow> wp (check_stack_height t k) Q i h"
  by (auto simp: wp_def check_stack_height_def evals fail_def split: if_splits)

lemma wp_assume_legacy [wps]: "wp k Q i h \<Longrightarrow> wp (assume_legacy k) Q i h"
  by (auto simp: wp_def assume_legacy_def)

lemma wp_mem_write [wps]: "(\<And>m. wp k Q (i\<lparr>memory := m\<rparr>) h) \<Longrightarrow> wp (mem_write f k) Q i h"
  by (auto simp: wp_def mem_write_def evals)

lemma wp_mem_read [wps]: "(\<And>x. wp (k x) Q i h) \<Longrightarrow> wp (mem_read f k) Q i h"
  by (auto simp: wp_def mem_read_def evals)

lemma wp_bind [wps]: "(\<And>x. wp (g x) Q i h) \<Longrightarrow> wp (\<lambda>i h. bindE (m i) (\<lambda>x. g x i h)) Q i h"
  by (auto simp: wp_def evals)

lemma wp_range_from [wps]: "(\<And>r. wp (k r) Q i h) \<Longrightarrow> wp (range_from off len k) Q i h"
  by (auto simp: wp_def range_from_def split: if_splits)

section \<open>Stack operations\<close>

lemma wp_stack_op [wps]:
  assumes "\<And>e s. f (stack i) = Val (Inl e, s) \<Longrightarrow> wp k Q (i\<lparr>stack := s, instr_result := e\<rparr>) h"
    and "\<And>x s. f (stack i) = Val (Inr x, s) \<Longrightarrow> wp k Q (i\<lparr>stack := s\<rparr>) h"
  shows "wp (stack_op f k) Q i h"
proof (unfold wp_def [of "stack_op f k"], intro allI impI)
  fix i' h' assume "stack_op f k i h = Val (i', h')"
  then obtain r s where f: "f (stack i) = Val (r, s)"
    and k: "k (case r of Inl e \<Rightarrow> i\<lparr>stack := s, instr_result := e\<rparr> | Inr _ \<Rightarrow> i\<lparr>stack := s\<rparr>) h = Val (i', h')"
    by (auto simp: stack_op_def evals Let_def)
  show "Q i' h'"
    using f k wpD [OF assms(1)] wpD [OF assms(2)] by (cases r) auto
qed

end
