(* ===== verification/Opcode_Laws.thy ===== *)
theory Opcode_Laws
  imports Instr_Wp Opcodes
begin

text \<open>
  Every instruction against its row of the opcode table: what it takes from and leaves on the stack
  when execution goes on, that it pays gas to go on, and that it keeps the stack within its limit.
\<close>

section \<open>The contract of an instruction\<close>

text \<open>
  An instruction started with the result \<open>Continue\<close> gains no gas and keeps the stack's limit. When it leaves \<open>Continue\<close>
  it has burnt gas, found its \<open>n\<close> inputs and left \<open>m\<close> outputs for them. When it opens a frame
  (\<open>CallOrCreate\<close>) it has taken its inputs; the output is pushed when the frame returns.
\<close>

definition io_exit :: "nat \<Rightarrow> nat \<Rightarrow> interpreter \<Rightarrow> interpreter \<Rightarrow> bool" where
  "io_exit n m i i' \<longleftrightarrow>
     gas_left i' \<le> gas_left i \<and>
     (height i \<le> STACK_LIMIT \<longrightarrow> height i' \<le> STACK_LIMIT) \<and>
     (instr_result i' = Continue \<longrightarrow> gas_left i' < gas_left i \<and> n \<le> height i \<and> height i' + n = height i + m) \<and>
     (instr_result i' = CallOrCreate \<longrightarrow> n \<le> height i \<and> height i' + n = height i)"

definition obeys :: "nat \<Rightarrow> nat \<Rightarrow> 'h instr \<Rightarrow> bool" where
  "obeys n m f \<longleftrightarrow> (\<forall>i h. instr_result i = Continue \<longrightarrow> wp f (\<lambda>i' h'. io_exit n m i i') i h)"

lemma obeysI:
  assumes "\<And>i h. instr_result i = Continue \<Longrightarrow> wp f (\<lambda>i' h'. io_exit n m i i') i h"
  shows "obeys n m f"
  using assms by (simp add: obeys_def)

lemma obeysD:
  assumes "obeys n m f" "instr_result i = Continue" "f i h = Val (i', h')"
  shows "io_exit n m i i'"
  using assms by (auto simp: obeys_def dest: wpD)

lemmas exits = io_exit_def gas_constants instr_gas_constants

section \<open>Costs that depend on operands are positive\<close>

lemma checked_add_grows:
  "checked_add a b = Some c \<Longrightarrow> 0 < unat a \<or> 0 < unat b \<Longrightarrow> 0 < unat c"
  by (auto simp: checked unat_plus_if_small)

lemma word_cost_pos:
  "verylowcopy_cost len = Some c \<Longrightarrow> 0 < unat c"
  "keccak256_cost len = Some c \<Longrightarrow> 0 < unat c"
  "extcodecopy_cost sp len is_cold = Some c \<Longrightarrow> 0 < unat c"
  by (auto simp: verylowcopy_cost_def keccak256_cost_def extcodecopy_cost_def warm_cold_cost_def Let_def
      bind_eq_Some_conv gas_constants elim!: checked_add_grows split: if_splits)

lemma log_cost_pos: "log_cost n len = Some c \<Longrightarrow> 0 < unat c"
  by (auto simp: log_cost_def bind_eq_Some_conv gas_constants dest: checked_add_grows elim!: checked_add_grows)

lemma exp_cost_pos:
  assumes "exp_cost sp e = Some c"
  shows "0 < unat c"
proof (cases "e = 0")
  case True
  with assms show ?thesis by (auto simp: exp_cost_def gas_constants)
next
  case False
  with assms obtain g :: u256 and m where g: "checked_add (ucast EXP) m = Some g" "unat g < 2 ^ 64" "c = ucast g"
    by (auto simp: exp_cost_def Let_def bind_eq_Some_conv split: if_splits)
  have "0 < unat g" using g(1) by (rule checked_add_grows) (simp add: gas_constants)
  with g(2,3) show ?thesis by (simp add: unsigned_ucast_eq take_bit_nat_eq_self)
qed

lemma storage_cost_pos:
  "0 < unat (sload_cost sp is_cold)" "0 < unat (warm_cold_cost is_cold)"
  "sstore_cost sp orig cur new g is_cold = Some c \<Longrightarrow> 0 < unat c"
  by (auto simp: sload_cost_def warm_cold_cost_def sstore_cost_def istanbul_sstore_cost_def
      frontier_sstore_cost_def gas_constants Let_def split: if_splits)

lemmas costs_pos = word_cost_pos log_cost_pos exp_cost_pos storage_cost_pos

section \<open>Instructions\<close>

lemma arithmetic_obeys:
  "obeys 2 1 i_add" "obeys 2 1 i_mul" "obeys 2 1 i_sub" "obeys 2 1 i_div" "obeys 2 1 i_sdiv"
  "obeys 2 1 i_rem" "obeys 2 1 i_smod" "obeys 3 1 i_addmod" "obeys 3 1 i_mulmod" "obeys 2 1 i_signextend"
  unfolding i_add_def i_mul_def i_sub_def i_div_def i_sdiv_def i_rem_def i_smod_def i_addmod_def
    i_mulmod_def i_signextend_def
  by (rule obeysI, intro wps; simp add: exits)+

lemma exp_obeys: "obeys 2 1 (i_exp sp)"
  unfolding i_exp_def by (rule obeysI, intro wps; (frule exp_cost_pos)?; simp add: exits)

lemma bitwise_obeys:
  "obeys 2 1 i_lt" "obeys 2 1 i_gt" "obeys 2 1 i_slt" "obeys 2 1 i_sgt" "obeys 2 1 i_eq" "obeys 1 1 i_iszero"
  "obeys 2 1 i_bitand" "obeys 2 1 i_bitor" "obeys 2 1 i_bitxor" "obeys 1 1 i_not" "obeys 2 1 i_byte"
  "obeys 2 1 (i_shl sp)" "obeys 2 1 (i_shr sp)" "obeys 2 1 (i_sar sp)"
  unfolding i_lt_def i_gt_def i_slt_def i_sgt_def i_eq_def i_iszero_def i_bitand_def i_bitor_def
    i_bitxor_def i_not_def i_byte_def i_shl_def i_shr_def i_sar_def Let_def
  by (rule obeysI, intro wps; simp add: exits)+

lemma stack_pop_laws:
  "stack_pop s = (Inr x, s') \<Longrightarrow> Suc (length s') = length s" "stack_pop s = (Inl e, s') \<Longrightarrow> e \<noteq> Continue \<and> e \<noteq> CallOrCreate \<and> s' = s"
  by (auto simp: stack_pop_def split: if_splits)

lemma stack_push_laws:
  "stack_push s v = (Inr x, s') \<Longrightarrow> length s' = Suc (length s) \<and> length s \<noteq> STACK_LIMIT"
  "stack_push s v = (Inl e, s') \<Longrightarrow> e \<noteq> Continue \<and> e \<noteq> CallOrCreate \<and> s' = s"
  by (auto simp: stack_push_def split: if_splits)

lemma stack_dup_laws:
  "stack_dup s n = Val (Inr x, s') \<Longrightarrow> n \<le> length s \<and> length s' = Suc (length s) \<and> length s \<noteq> STACK_LIMIT"
  "stack_dup s n = Val (Inl e, s') \<Longrightarrow> e \<noteq> Continue \<and> e \<noteq> CallOrCreate \<and> s' = s"
  by (auto simp: stack_dup_def Let_def evals split: if_splits)

lemma stack_exchange_laws:
  "stack_exchange s n m = Val (Inr x, s') \<Longrightarrow> n + m < length s \<and> length s' = length s"
  "stack_exchange s n m = Val (Inl e, s') \<Longrightarrow> e \<noteq> Continue \<and> e \<noteq> CallOrCreate \<and> s' = s"
  by (auto simp: stack_exchange_def Let_def evals split: if_splits)

lemma stack_swap_laws:
  "stack_swap s n = Val (Inr x, s') \<Longrightarrow> n < length s \<and> length s' = length s"
  "stack_swap s n = Val (Inl e, s') \<Longrightarrow> e \<noteq> Continue \<and> e \<noteq> CallOrCreate \<and> s' = s"
  using stack_exchange_laws [of s 0 n] by (auto simp: stack_swap_def)

lemmas stack_laws = stack_pop_laws stack_push_laws stack_dup_laws stack_exchange_laws stack_swap_laws

lemma stack_obeys:
  "obeys 1 0 i_pop" "obeys 0 1 (i_push0 sp)" "obeys n (n + 1) (i_dup n)" "obeys (n + 1) (n + 1) (i_swap n)"
  "obeys 0 1 i_dupn" "obeys 0 0 i_swapn" "obeys 0 0 i_exchange"
  unfolding i_pop_def i_push0_def i_dup_def i_swap_def i_dupn_def i_swapn_def i_exchange_def Let_def
  by (rule obeysI, intro wps; auto simp: exits dest!: stack_laws)+

lemma push_slice_laws:
  assumes "push_slice s bs = (r, s')" "1 \<le> length bs" "length bs \<le> 32"
  shows "(case r of Inl e \<Rightarrow> e \<noteq> Continue \<and> e \<noteq> CallOrCreate \<and> s' = s | Inr _ \<Rightarrow> length s' = Suc (length s) \<and> length s < STACK_LIMIT)"
proof -
  have "bs \<noteq> []" "(length bs + 31) div 32 = 1" using assms by auto
  with push_slice_words [of bs s] assms show ?thesis by (auto simp: length_chunks32 split: if_splits)
qed

lemma push_obeys:
  assumes "1 \<le> n" "n \<le> 32"
  shows "obeys 0 1 (i_push n)"
proof -
  have body: "wp (\<lambda>i h. case push_slice (stack i) bs of
       (Inl e, s) \<Rightarrow> fail e (i\<lparr>stack := s\<rparr>) h
     | (Inr _, s) \<Rightarrow> move_ip (int n) (i\<lparr>stack := s\<rparr>) h)
     (\<lambda>i' h'. (height i \<le> STACK_LIMIT \<longrightarrow> height i' \<le> STACK_LIMIT) \<and> instr_result i' \<noteq> CallOrCreate \<and> int_gas i' = int_gas i \<and>
       (instr_result i' = Continue \<longrightarrow> height i' = Suc (height i))) i h"
    if "length bs = n" "instr_result i = Continue" for bs i h
    using push_slice_laws [of "stack i" bs] assms that
    by (auto simp: wp_def fail_def move_ip_def split: prod.splits sum.splits if_splits)
  show ?thesis
    unfolding i_push_def
    by (rule obeysI, intro wps; (rule wp_mono, rule body)?; auto simp: exits)
qed

lemma memory_obeys:
  "obeys 1 1 i_mload" "obeys 2 0 i_mstore" "obeys 2 0 i_mstore8" "obeys 0 1 i_msize"
  unfolding i_mload_def i_mstore_def i_mstore8_def i_msize_def
  by (rule obeysI, intro wps; auto simp: exits)+

lemma mcopy_obeys: "obeys 3 0 (i_mcopy sp)"
  unfolding i_mcopy_def by (rule obeysI, intro wps; (frule costs_pos)?; auto simp: exits)

lemma wp_jump_inner [wps]:
  assumes "Q (i\<lparr>instr_result := InvalidJump\<rparr>) h" "\<And>n. Q (i\<lparr>ip := n\<rparr>) h"
  shows "wp (jump_inner t) Q i h"
  using assms by (auto simp: wp_def jump_inner_def as_usize_or_fail_with_def fail_def)

lemma control_obeys:
  "obeys 0 0 i_rjump" "obeys 1 0 i_rjumpi" "obeys 1 0 i_rjumpv" "obeys 1 0 i_jump" "obeys 2 0 i_jumpi"
  "obeys 0 0 i_jumpdest_or_nop" "obeys 0 1 i_pc"
  unfolding i_rjump_def i_rjumpi_def i_rjumpv_def i_jump_def i_jumpi_def i_jumpdest_or_nop_def i_pc_def Let_def
  by (rule obeysI, intro wps; auto simp: exits)+

lemma halt_obeys:
  "obeys 0 0 i_stop" "obeys 0 0 i_invalid" "obeys 0 0 i_unknown" "obeys 2 0 i_ret" "obeys 2 0 (i_revert sp)"
  unfolding i_stop_def i_invalid_def i_unknown_def i_ret_def i_revert_def return_inner_def
  by (rule obeysI, intro wps; auto simp: exits)+

lemma keccak_obeys: "obeys 2 1 (i_keccak256 L)"
  unfolding i_keccak256_def by (rule obeysI, intro wps; (frule costs_pos)?; auto simp: exits)

lemma query_obeys:
  "obeys 0 1 i_address" "obeys 0 1 i_caller" "obeys 0 1 i_codesize" "obeys 1 1 i_calldataload"
  "obeys 0 1 i_calldatasize" "obeys 0 1 i_callvalue" "obeys 0 1 (i_returndatasize sp)"
  "obeys 1 1 i_returndataload" "obeys 0 1 i_gas"
  unfolding i_address_def i_caller_def i_codesize_def i_calldataload_def i_calldatasize_def i_callvalue_def
    i_returndatasize_def i_returndataload_def i_gas_def Let_def
  by (rule obeysI, intro wps; auto simp: exits)+

lemma copy_obeys:
  "obeys 3 0 i_codecopy" "obeys 3 0 i_calldatacopy" "obeys 3 0 (i_returndatacopy sp)"
  unfolding i_codecopy_def i_calldatacopy_def i_returndatacopy_def copy_prelude_def Let_def
  by (rule obeysI, intro wps; (frule costs_pos)?; auto simp: exits)+

lemma data_obeys:
  "obeys 1 1 i_data_load" "obeys 0 1 i_data_loadn" "obeys 0 1 i_data_size" "obeys 3 0 i_data_copy"
  unfolding i_data_load_def i_data_loadn_def i_data_size_def i_data_copy_def
  by (rule obeysI, intro wps; auto simp: exits)+

lemma host_obeys:
  "obeys 1 1 (i_balance H sp)" "obeys 0 1 (i_selfbalance H sp)" "obeys 1 1 (i_extcodesize H sp)"
  "obeys 1 1 (i_extcodehash H sp)" "obeys 4 0 (i_extcodecopy H sp)" "obeys 1 1 (i_blockhash H)"
  "obeys 1 1 (i_sload H sp)" "obeys 2 0 (i_sstore H sp)" "obeys 2 0 (i_tstore H sp)" "obeys 1 1 (i_tload H sp)"
  unfolding i_balance_def i_selfbalance_def i_extcodesize_def i_extcodehash_def i_extcodecopy_def
    i_blockhash_def i_sload_def i_sstore_def i_tstore_def i_tload_def Let_def case_prod_beta
  by (rule obeysI, intro wps; (frule costs_pos)?;
      auto simp: exits warm_cold_cost_def sload_cost_def split: if_splits)+

lemma log_obeys: "obeys (n + 2) 0 (i_log H n)"
  unfolding i_log_def Let_def by (rule obeysI, intro wps; (frule costs_pos)?; auto simp: exits)

lemma selfdestruct_obeys: "obeys 1 0 (i_selfdestruct H sp)"
  unfolding i_selfdestruct_def Let_def by (rule obeysI, intro wps; auto simp: exits)

lemma wp_case_option [wps]:
  "(x = None \<Longrightarrow> wp f Q i h) \<Longrightarrow> (\<And>y. x = Some y \<Longrightarrow> wp (g y) Q i h) \<Longrightarrow>
   wp (case x of None \<Rightarrow> f | Some y \<Rightarrow> g y) Q i h"
  by (cases x) auto

lemma env_obeys:
  "obeys 0 1 (i_chainid H sp)" "obeys 0 1 (i_coinbase H)" "obeys 0 1 (i_timestamp H)" "obeys 0 1 (i_block_number H)"
  "obeys 0 1 (i_difficulty H sp)" "obeys 0 1 (i_gaslimit H)" "obeys 0 1 (i_gasprice H)" "obeys 0 1 (i_basefee H sp)"
  "obeys 0 1 (i_origin H)" "obeys 1 1 (i_blob_hash H sp)" "obeys 0 1 (i_blob_basefee H sp)"
  unfolding i_chainid_def i_coinbase_def i_timestamp_def i_block_number_def i_difficulty_def i_gaslimit_def
    i_gasprice_def i_basefee_def i_origin_def i_blob_hash_def i_blob_basefee_def Let_def
  by (rule obeysI, intro wps; auto simp: exits)+

text \<open>Moving between code sections: the stack stays, the rest is the frame's business.\<close>

lemma wp_enter_section [wps]:
  assumes "\<And>fs bs. Q (i\<lparr>call_functions := fs, code_bytes := bs, ip := 0\<rparr>) h"
  shows "wp (\<lambda>i h. load_code idx 0 (i\<lparr>call_functions := f i\<rparr>) h) Q i h"
  using assms by (auto simp: wp_def load_code_def load_eof_code_def evals split: option.splits)

lemma wp_leave_section [wps]:
  assumes "\<And>fs bs pc. Q (i\<lparr>call_functions := fs, code_bytes := bs, ip := pc\<rparr>) h"
  shows "wp (\<lambda>i h. case fs_pop (call_functions i) of (None, _) \<Rightarrow> Panic
     | (Some f, fs) \<Rightarrow> load_code (frame_idx f) (frame_pc f) (i\<lparr>call_functions := fs\<rparr>) h) Q i h"
  using assms
  by (auto simp: wp_def load_code_def load_eof_code_def evals split: option.splits prod.splits)

lemma wp_if_state [wps]:
  "wp f Q i h \<Longrightarrow> wp g Q i h \<Longrightarrow> wp (\<lambda>i h. if b i then f i h else g i h) Q i h"
  by (simp add: wp_def)

lemma section_obeys: "obeys 0 0 i_callf" "obeys 0 0 i_retf" "obeys 0 0 i_jumpf"
  unfolding i_callf_def i_retf_def i_jumpf_def
  by (rule obeysI, intro wps; auto simp: exits)+

section \<open>Instructions that open a frame\<close>

lemma create_obeys: "obeys 3 1 (i_create H False sp)" "obeys 4 1 (i_create H True sp)"
  unfolding i_create_def create_code_def create_finish_def Let_def if_True if_False
  by (rule obeysI, intro wps; auto simp: exits)+

lemma call_obeys:
  "obeys 7 1 (i_call H sp)" "obeys 7 1 (i_call_code H sp)" "obeys 6 1 (i_delegate_call H sp)"
  "obeys 6 1 (i_static_call H sp)"
  unfolding i_call_def i_call_code_def i_delegate_call_def i_static_call_def get_memory_input_and_out_ranges_def
    resize_memory_and_return_range_def calc_call_gas_def Let_def case_prod_beta
  by (rule obeysI, intro wps; simp add: exits)+

lemma extcall_obeys:
  "obeys 4 1 (i_extcall H)" "obeys 3 1 (i_extdelegatecall H)" "obeys 3 1 (i_extstaticcall H)"
  unfolding i_extcall_def i_extdelegatecall_def i_extstaticcall_def extcall_input_def extcall_gas_calc_def
    resize_memory_and_return_range_def Let_def case_prod_beta
  by (rule obeysI, intro wps; simp add: exits)+

lemma return_contract_obeys: "obeys 2 0 i_return_contract"
  unfolding i_return_contract_def Let_def by (rule obeysI, intro wps; simp add: exits)

lemma wp_eofcreate_exit [wps]:
  assumes "\<And>a n. Q (i\<lparr>next_action := ActEOFCreate a, ip := n\<rparr>) h"
  shows "wp (\<lambda>i h. move_ip d (i\<lparr>next_action := ActEOFCreate (f i)\<rparr>) h) Q i h"
  using assms by (auto simp: wp_def move_ip_def split: if_splits)

lemma eofcreate_obeys: "obeys 4 0 (i_eofcreate L)"
  unfolding i_eofcreate_def resize_memory_range_def Let_def by (rule obeysI, intro wps; simp add: exits)

section \<open>The table\<close>

lemma dup_row: "m = n + 1 \<Longrightarrow> obeys n m (i_dup n)"
  by (simp add: stack_obeys del: One_nat_def)

lemma swap_row: "a = n + 1 \<Longrightarrow> b = n + 1 \<Longrightarrow> obeys a b (i_swap n)"
  by (simp add: stack_obeys del: One_nat_def)

lemma log_row: "a = n + 2 \<Longrightarrow> obeys a 0 (i_log H n)"
  using log_obeys by simp

lemmas row_obeys =
  arithmetic_obeys exp_obeys bitwise_obeys stack_obeys(1,2,5-7) push_obeys dup_row swap_row memory_obeys
  mcopy_obeys control_obeys halt_obeys keccak_obeys query_obeys copy_obeys data_obeys host_obeys log_row
  selfdestruct_obeys env_obeys section_obeys create_obeys call_obeys extcall_obeys return_contract_obeys
  eofcreate_obeys

text \<open>The row of \<^verbatim>\<open>EOFCREATE\<close> promises an output that the instruction leaves to its frame's end.\<close>

definition row_io :: "u8 \<Rightarrow> opcode_info \<Rightarrow> nat \<times> nat" where
  "row_io op oi = (unat (op_inputs oi), if op = 0xEC then 0 else unat (op_outputs oi))"

lemma rows_match:
  "list_all2 (\<lambda>(v, oi) (w, f). v = w \<and> obeys (fst (row_io v oi)) (snd (row_io v oi)) f)
     opcode_rows (instruction_rows H L sp)"
  unfolding opcode_rows_def instruction_rows_def
  by (simp add: info_defs row_io_def row_obeys [unfolded One_nat_def])

lemma map_of_rows:
  assumes "list_all2 (\<lambda>(v, x) (w, y). v = w \<and> P v x y) xs ys"
  shows "(map_of xs op = None \<and> map_of ys op = None) \<or>
         (\<exists>x y. map_of xs op = Some x \<and> map_of ys op = Some y \<and> P op x y)"
  using assms by (induction xs ys rule: list_all2_induct) auto

lemma instruction_obeys:
  assumes "OPCODE_INFO_JUMPTABLE op = Some oi"
  shows "obeys (fst (row_io op oi)) (snd (row_io op oi)) (instruction H L sp op)"
  using map_of_rows [OF rows_match [where H = H and L = L and sp = sp], of op] assms
  by (auto simp: OPCODE_INFO_JUMPTABLE_def instruction_def)

lemma instruction_unknown: "OPCODE_INFO_JUMPTABLE op = None \<Longrightarrow> instruction H L sp op = i_unknown"
  using map_of_rows [OF rows_match [where H = H and L = L and sp = sp], of op]
  by (auto simp: OPCODE_INFO_JUMPTABLE_def instruction_def)

lemma instruction_obeys_some: "\<exists>n m. obeys n m (instruction H L sp op)"
  using instruction_obeys [of op _ H L sp] instruction_unknown [of op H L sp] halt_obeys(3)
  by (cases "OPCODE_INFO_JUMPTABLE op") auto

end
