(* ===== verification/Dummy_Host.thy ===== *)
theory Dummy_Host
  imports Opcodes
begin

text \<open>
  The test host of \<^verbatim>\<open>interpreter/src/host/dummy.rs\<close>, and a sample frame on which the properties of the
  interpreter are evaluated.
\<close>

record dummy_host =
  dh_env :: env
  dh_storage :: "u256 \<rightharpoonup> u256"
  dh_transient_storage :: "u256 \<rightharpoonup> u256"
  dh_log :: "log list"

definition dummy_new :: "env \<Rightarrow> dummy_host" where
  "dummy_new e = \<lparr>dh_env = e, dh_storage = Map.empty, dh_transient_storage = Map.empty, dh_log = []\<rparr>"

definition dummy_clear :: "dummy_host \<Rightarrow> dummy_host" where
  "dummy_clear h = h\<lparr>dh_storage := Map.empty, dh_log := []\<rparr>"

definition dummy_sload :: "address \<Rightarrow> u256 \<Rightarrow> dummy_host \<Rightarrow> ((u256 \<times> bool) option \<times> dummy_host) eval" where
  "dummy_sload _ index h =
     (case dh_storage h index of
        Some v \<Rightarrow> Val (Some (v, False), h)
      | None \<Rightarrow> Val (Some (0, True), h\<lparr>dh_storage := (dh_storage h)(index \<mapsto> 0)\<rparr>))"

definition dummy_sstore :: "address \<Rightarrow> u256 \<Rightarrow> u256 \<Rightarrow> dummy_host \<Rightarrow> (sstore_result option \<times> dummy_host) eval" where
  "dummy_sstore _ index v h =
     (let (present, is_cold) = (case dh_storage h index of Some x \<Rightarrow> (x, False) | None \<Rightarrow> (0, True))
      in Val (Some \<lparr>sr_original_value = 0, sr_present_value = present, sr_new_value = v, sr_is_cold = is_cold\<rparr>,
              h\<lparr>dh_storage := (dh_storage h)(index \<mapsto> v)\<rparr>))"

definition dummy_tload :: "address \<Rightarrow> u256 \<Rightarrow> dummy_host \<Rightarrow> (u256 \<times> dummy_host) eval" where
  "dummy_tload _ index h = Val (case dh_transient_storage h index of Some v \<Rightarrow> v | None \<Rightarrow> 0, h)"

definition dummy_tstore :: "address \<Rightarrow> u256 \<Rightarrow> u256 \<Rightarrow> dummy_host \<Rightarrow> (unit \<times> dummy_host) eval" where
  "dummy_tstore _ index v h = Val ((), h\<lparr>dh_transient_storage := (dh_transient_storage h)(index \<mapsto> v)\<rparr>)"

definition dummy_log :: "log \<Rightarrow> dummy_host \<Rightarrow> (unit \<times> dummy_host) eval" where
  "dummy_log l h = Val ((), h\<lparr>dh_log := dh_log h @ [l]\<rparr>)"

definition dummy_balance :: "u256 \<Rightarrow> address \<Rightarrow> dummy_host \<Rightarrow> ((u256 \<times> bool) option \<times> dummy_host) eval" where
  "dummy_balance _ _ h = Val (Some (0, False), h)"

definition dummy :: "dummy_host host" where
  "dummy =
     \<lparr>h_env = dh_env,
      h_load_account = (\<lambda>_ h. Val (Some \<lparr>lar_is_cold = False, lar_is_empty = False\<rparr>, h)),
      h_block_hash = (\<lambda>_ h. Val (Some 0, h)),
      h_code = (\<lambda>_ h. Val (Some (bytecode_new, False), h)),
      h_code_hash = (\<lambda>_ h. Val (Some (KECCAK_EMPTY, False), h)),
      h_sload = dummy_sload, h_sstore = dummy_sstore, h_tload = dummy_tload, h_tstore = dummy_tstore,
      h_log = dummy_log, h_selfdestruct = (\<lambda>_ _ _. Panic),
      h_balance = dummy_balance, h_base_balance = dummy_balance BASE_TOKEN_ID,
      h_burn = (\<lambda>_ _ _ _ _. Panic), h_mint = (\<lambda>_ _ _ _ _. Panic)\<rparr>"

section \<open>A sample\<close>

definition sample_alloy :: alloy where
  "sample_alloy = \<lparr>keccak256 = (\<lambda>_. 0), address_create = (\<lambda>_ _. 0), address_create2 = (\<lambda>_ _ _. 0)\<rparr>"

definition sample_env :: env where
  "sample_env =
     \<lparr>cfg = default_cfg_env,
      block = \<lparr>number = 1, coinbase = 0, timestamp = 1, blk_gas_limit = - 1, basefee = 0, difficulty = 0,
               prevrandao = Some 0, blob_excess = None, blk_transferred_tokens = []\<rparr>,
      tx = default_tx_env\<rparr>"

definition sample_frame :: "bytes \<Rightarrow> evm_stack \<Rightarrow> u64 \<Rightarrow> bool \<Rightarrow> interpreter" where
  "sample_frame bs st g static =
     \<lparr>ip = 0, int_gas = gas_new g,
      contract = \<lparr>c_input = [], c_bytecode = LegacyAnalyzed \<lparr>la_bytecode = bs, la_original_len = length bs,
                    la_jump_table = []\<rparr>, c_hash = None, c_target_address = 7, c_caller = 8, c_call_values = []\<rparr>,
      instr_result = Continue, code_bytes = bs, running_eof = False, is_eof_init = False,
      memory = EMPTY_SHARED_MEMORY, stack = st, call_functions = fs_new, return_data_buffer = [],
      is_static = static, next_action = ActNone\<rparr>"

end
