(* ===== verification/Interpreter_Loop.thy ===== *)
theory Interpreter_Loop
  imports Opcode_Laws Dummy_Host
begin

text \<open>
  The interpreter loop ends, because every step that goes on burns gas, and the opcode table is
  consistent with the instructions it names and with its own inverse.
\<close>

section \<open>The loop\<close>

lemma step_io:
  assumes "instr_result i = Continue" "step (instruction H L sp) i h = Val (i', h')"
  shows "\<exists>n m. io_exit n m i i'"
proof -
  from assms(2) obtain op where f: "instruction H L sp op (i\<lparr>ip := ip i + 1\<rparr>) h = Val (i', h')"
    by (auto simp: step_def evals)
  from instruction_obeys_some obtain n m where o: "obeys n m (instruction H L sp op)" by blast
  from obeysD [OF o _ f] assms(1) show ?thesis by (auto simp: io_exit_def)
qed

lemma step_burns:
  assumes "instr_result i = Continue" "step (instruction H L sp) i h = Val (i', h')" "instr_result i' = Continue"
  shows "gas_left i' < gas_left i"
  using step_io [OF assms(1,2)] assms(3) by (auto simp: io_exit_def)

text \<open>A run that goes on burns gas, so it is over after at most as many steps as there is gas.\<close>

lemma run_loop_ends:
  "\<exists>r. run_loop (instruction H L sp) i h = Some r \<and>
     (\<forall>i' h'. r = Val (i', h') \<longrightarrow> instr_result i' \<noteq> Continue \<and> gas_left i' \<le> gas_left i \<and>
        (height i \<le> STACK_LIMIT \<longrightarrow> height i' \<le> STACK_LIMIT))"
proof (induction "gas_left i" arbitrary: i h rule: less_induct)
  case less
  show ?case
  proof (cases "instr_result i = Continue")
    case False
    then show ?thesis by (subst run_loop.simps) simp
  next
    case True
    show ?thesis
    proof (cases "step (instruction H L sp) i h")
      case Panic
      with True show ?thesis by (subst run_loop.simps) simp
    next
      case (Val p)
      obtain i1 h1 where s: "step (instruction H L sp) i h = Val (i1, h1)" using Val by (cases p) auto
      with True have unfold: "run_loop (instruction H L sp) i h = run_loop (instruction H L sp) i1 h1"
        by (subst run_loop.simps) simp
      from step_io [OF True s] have le: "gas_left i1 \<le> gas_left i" "height i \<le> STACK_LIMIT \<longrightarrow> height i1 \<le> STACK_LIMIT"
        by (auto simp: io_exit_def)
      show ?thesis
      proof (cases "instr_result i1 = Continue")
        case False
        with unfold le show ?thesis by (subst unfold, subst run_loop.simps) simp
      next
        case c: True
        from less [OF step_burns [OF True s c], of h1] le show ?thesis
          unfolding unfold by (meson order_trans)
      qed
    qed
  qed
qed

lemma run_ends:
  "\<exists>r. run (instruction H L sp) m i h = Some r \<and>
     (\<forall>a i' h'. r = Val (a, i', h') \<longrightarrow> a \<noteq> ActNone \<and> instr_result i' \<noteq> Continue \<and> gas_left i' \<le> gas_left i \<and>
        (height i \<le> STACK_LIMIT \<longrightarrow> height i' \<le> STACK_LIMIT))"
proof -
  from run_loop_ends [of H L sp "i\<lparr>next_action := ActNone, memory := m\<rparr>" h] obtain r
    where r: "run_loop (instruction H L sp) (i\<lparr>next_action := ActNone, memory := m\<rparr>) h = Some r"
      "\<forall>i' h'. r = Val (i', h') \<longrightarrow> instr_result i' \<noteq> Continue \<and> gas_left i' \<le> gas_left i \<and>
        (height i \<le> STACK_LIMIT \<longrightarrow> height i' \<le> STACK_LIMIT)"
    by auto
  show ?thesis
    by (auto simp: run_def r(1) evals Let_def run_result_def r(2) split: if_splits)
qed

section \<open>Properties\<close>

text \<open>
  C39. The interpreter loop never runs forever: with the instruction table of any fork and any host, from
  any state of the interpreter, \<^verbatim>\<open>run\<close> ends, either by a panic or with an action for the caller that is not
  \<^verbatim>\<open>None\<close>; in the second case the instruction result is not \<^verbatim>\<open>Continue\<close>, no gas was gained, and a stack
  within its limit is still within it. The witness runs a program to its end without a panic.
\<close>

theorem interpreter_run_terminates:
  "\<exists>r. run (make_instruction_table H L sp) m i h = Some r \<and>
     (\<forall>a i' h'. r = Val (a, i', h') \<longrightarrow> a \<noteq> ActNone \<and> instr_result i' \<noteq> Continue \<and> gas_left i' \<le> gas_left i \<and>
        (height i \<le> STACK_LIMIT \<longrightarrow> height i' \<le> STACK_LIMIT))"
  unfolding make_instruction_table_def by (rule run_ends)

lemma add_program_runs:
  "\<exists>i'. run_loop (instruction H L sp) ((sample_frame [0x01, 0] [5, 3, 4] 100 False)\<lparr>next_action := ActNone, memory := m\<rparr>) h =
      Some (Val (i', h)) \<and> instr_result i' = Stop \<and> next_action i' = ActNone"
proof -
  let ?i = "(sample_frame [0x01, 0] [5, 3, 4] 100 False)\<lparr>next_action := ActNone, memory := m\<rparr>"
  have rows: "instruction H L sp 0x01 = i_add" "instruction H L sp 0 = i_stop"
    by (simp_all add: instruction_def instruction_rows_def)
  obtain i1 where "step (instruction H L sp) ?i h = Val (i1, h)" "instr_result i1 = Continue" "ip i1 = 1"
    "code_bytes i1 = [0x01, 0]" "next_action i1 = ActNone" "instr_result ?i = Continue"
    by (simp add: step_def current_opcode_def rows i_add_def charge_def record_cost_def top2_def
        pop_top_unsafe_def pop_unsafe_def top_unsafe_def put_top_def set_top_def sample_frame_def gas_new_def VERYLOW_def)
  moreover from this have "step (instruction H L sp) i1 h = Val (i1\<lparr>ip := 2, instr_result := Stop\<rparr>, h)"
    by (simp add: step_def current_opcode_def rows i_stop_def fail_def)
  ultimately show ?thesis by (subst run_loop.simps, simp) (subst run_loop.simps, simp, subst run_loop.simps, simp)
qed

theorem interpreter_run_terminates_witness:
  "\<exists>a i' h'. run (make_instruction_table dummy sample_alloy CANCUN) EMPTY_SHARED_MEMORY
         (sample_frame [0x01, 0] [5, 3, 4] 100 False) (dummy_new sample_env) = Some (Val (a, i', h')) \<and>
     a \<noteq> ActNone \<and> instr_result i' \<noteq> Continue \<and> gas_left i' \<le> 100 \<and> height i' \<le> STACK_LIMIT"
proof -
  let ?i = "sample_frame [0x01, 0] [5, 3, 4] 100 False"
  obtain a i' h' where r: "run (make_instruction_table dummy sample_alloy CANCUN) EMPTY_SHARED_MEMORY ?i (dummy_new sample_env) =
      Some (Val (a, i', h'))"
    using add_program_runs [of dummy sample_alloy CANCUN EMPTY_SHARED_MEMORY "dummy_new sample_env"]
    by (auto simp: run_def run_result_def make_instruction_table_def)
  with interpreter_run_terminates [of dummy sample_alloy CANCUN EMPTY_SHARED_MEMORY ?i "dummy_new sample_env"]
  show ?thesis by (auto simp: sample_frame_def gas_new_def STACK_LIMIT_def)
qed

text \<open>
  C40. The stack inputs and outputs of the opcode table are those of the instructions, with one exception. An
  instruction that leaves the interpreter running found at least its inputs on the stack and left exactly its
  outputs in their place; one that opens a frame took exactly its inputs, its one output being pushed when the
  frame returns. The exception is \<^verbatim>\<open>EOFCREATE\<close>: its row promises one output, and the instruction leaves none.
  A byte outside the table is the unknown instruction.
\<close>

theorem opcode_table_matches_instructions:
  assumes "instr_result i = Continue" "instruction H L sp op i h = Val (i', h')"
  shows "case OPCODE_INFO_JUMPTABLE op of
      None \<Rightarrow> instr_result i' = OpcodeNotFound
    | Some oi \<Rightarrow>
        (instr_result i' = Continue \<longrightarrow> unat (op_inputs oi) \<le> height i \<and>
           height i' + unat (op_inputs oi) = height i + (if op = 0xEC then 0 else unat (op_outputs oi))) \<and>
        (instr_result i' = CallOrCreate \<longrightarrow> unat (op_inputs oi) \<le> height i \<and>
           height i' + unat (op_inputs oi) = height i)"
proof (cases "OPCODE_INFO_JUMPTABLE op")
  case None
  with assms(2) show ?thesis by (auto simp: instruction_unknown i_unknown_def fail_def)
next
  case (Some oi)
  from obeysD [OF instruction_obeys [OF Some] assms(1,2)] show ?thesis
    by (simp add: Some io_exit_def row_io_def)
qed

theorem opcode_table_matches_instructions_witness:
  "let i = sample_frame [0x01] [5, 3, 4] 100 False
   in \<exists>i' h'. instruction dummy sample_alloy CANCUN 0x01 i (dummy_new sample_env) = Val (i', h') \<and>
        instr_result i' = Continue \<and> height i' + 2 = height i + 1"
proof -
  define i where "i = sample_frame [0x01] [5, 3, 4] 100 False"
  have f: "\<exists>i' h'. instruction dummy sample_alloy CANCUN 0x01 i (dummy_new sample_env) = Val (i', h') \<and>
      instr_result i' = Continue"
    by (simp add: instruction_def instruction_rows_def i_add_def charge_def record_cost_def top2_def
        pop_top_unsafe_def pop_unsafe_def top_unsafe_def put_top_def set_top_def i_def sample_frame_def
        gas_new_def VERYLOW_def)
  have row: "OPCODE_INFO_JUMPTABLE 0x01 = Some (stack_io (op_info_new ''ADD'') 2 1)"
    by (simp add: OPCODE_INFO_JUMPTABLE_def opcode_rows_def)
  from f obtain i' h' where g: "instruction dummy sample_alloy CANCUN 0x01 i (dummy_new sample_env) = Val (i', h')"
    "instr_result i' = Continue" by blast
  have "instr_result i = Continue" by (simp add: i_def sample_frame_def)
  from opcode_table_matches_instructions [OF this g(1)] g row show ?thesis
    by (auto simp: info_defs Let_def i_def [symmetric])
qed

lemma opcode_rows_distinct:
  "distinct (map (op_name \<circ> snd) opcode_rows)" "''Unknown'' \<notin> set (map (op_name \<circ> snd) opcode_rows)"
  unfolding opcode_rows_def info_defs by simp_all

text \<open>
  Parsing an opcode's name gives the opcode back: for every byte of the table, \<^verbatim>\<open>parse\<close> of its
  name is that byte, the names of distinct opcodes differ, and a byte outside the table has the name
  \<^verbatim>\<open>Unknown\<close>, which no opcode has.
\<close>

theorem opcode_names_round_trip:
  "case opcode_new op of
     Some p \<Rightarrow> p = op \<and> (\<exists>nm. as_str op = Val nm \<and> name_by_op op = Val nm \<and> opcode_parse nm = Some op)
   | None \<Rightarrow> name_by_op op = Val ''Unknown'' \<and> opcode_parse ''Unknown'' = None"
proof (cases "OPCODE_INFO_JUMPTABLE op")
  case None
  have "opcode_parse ''Unknown'' = None"
    using opcode_rows_distinct(2) by (auto simp: opcode_parse_def map_of_eq_None_iff image_image case_prod_beta)
  with None show ?thesis by (simp add: opcode_new_def name_by_op_def)
next
  case (Some oi)
  then have "(op, oi) \<in> set opcode_rows" by (auto simp: OPCODE_INFO_JUMPTABLE_def dest: map_of_SomeD)
  then have "(op_name oi, op) \<in> set (map (\<lambda>(v, x). (op_name x, v)) opcode_rows)" by force
  moreover have "distinct (map fst (map (\<lambda>(v, x). (op_name x, v)) opcode_rows))"
    using opcode_rows_distinct(1) by (simp add: case_prod_beta comp_def)
  ultimately have "opcode_parse (op_name oi) = Some op"
    by (simp add: opcode_parse_def)
  with Some show ?thesis by (simp add: opcode_new_def as_str_def name_by_op_def opcode_info_of_def)
qed

end
