(* ===== verification/Host_Frames.thy ===== *)
theory Host_Frames
  imports Interpreter_Loop
begin

text \<open>
  The interpreter as a client of its host. The locale states what the instructions need of a host to
  stay within a relation on the host's state: the reading methods keep to it, and the writing methods
  do when the frame may write. Inside it, every instruction and then the whole loop keep to the
  relation, and a frame that may not write ends with an action that cannot write either.
\<close>

section \<open>Frames\<close>

text \<open>
  What a static frame of legacy code may ask its caller for: to return, or a static call that moves
  no value out of the caller's account.
\<close>

fun harmless :: "interpreter_action \<Rightarrow> bool" where
  "harmless (ActCall c) \<longleftrightarrow> ci_is_static c \<and> (transfers_value c \<longrightarrow> ci_target_address c = ci_caller c)"
| "harmless (ActCreate _) \<longleftrightarrow> False"
| "harmless (ActEOFCreate _) \<longleftrightarrow> False"
| "harmless (ActReturn _) \<longleftrightarrow> True"
| "harmless ActNone \<longleftrightarrow> True"

definition static_frame :: "interpreter \<Rightarrow> bool" where
  "static_frame i \<longleftrightarrow> is_static i \<and> \<not> running_eof i \<and> harmless (next_action i)"

definition allowed :: "bool \<Rightarrow> interpreter \<Rightarrow> bool" where
  "allowed writes i \<longleftrightarrow> writes \<or> static_frame i"

lemma allowed_update [simp]:
  "allowed w (i\<lparr>ip := n\<rparr>) = allowed w i" "allowed w (i\<lparr>int_gas := g\<rparr>) = allowed w i"
  "allowed w (i\<lparr>instr_result := r\<rparr>) = allowed w i" "allowed w (i\<lparr>code_bytes := c\<rparr>) = allowed w i"
  "allowed w (i\<lparr>memory := m\<rparr>) = allowed w i" "allowed w (i\<lparr>stack := s\<rparr>) = allowed w i"
  "allowed w (i\<lparr>call_functions := fs\<rparr>) = allowed w i"
  by (simp_all add: allowed_def static_frame_def)

lemma allowed_return [simp]: "allowed w i \<Longrightarrow> allowed w (i\<lparr>instr_result := r, next_action := ActReturn x\<rparr>)"
  by (auto simp: allowed_def static_frame_def)

lemma allowed_action:
  "allowed w i \<Longrightarrow> (\<not> w \<Longrightarrow> is_static i \<Longrightarrow> harmless a) \<Longrightarrow> allowed w (i\<lparr>next_action := a\<rparr>)"
  by (auto simp: allowed_def static_frame_def)

lemma allowed_writes: "allowed w i \<Longrightarrow> \<not> is_static i \<or> running_eof i \<Longrightarrow> w"
  by (auto simp: allowed_def static_frame_def)

section \<open>Hosts\<close>

locale frame_host =
  fixes H :: "'h host" and R :: "'h \<Rightarrow> 'h \<Rightarrow> bool" and writes :: bool
  assumes R_refl: "R h h"
    and R_trans: "R h h' \<Longrightarrow> R h' h'' \<Longrightarrow> R h h''"
    and load_account: "h_load_account H a h = Val (x1, h') \<Longrightarrow> R h h'"
    and block_hash: "h_block_hash H n h = Val (x2, h') \<Longrightarrow> R h h'"
    and code: "h_code H a h = Val (x3, h') \<Longrightarrow> R h h'"
    and code_hash: "h_code_hash H a h = Val (x4, h') \<Longrightarrow> R h h'"
    and sload: "h_sload H a k h = Val (x5, h') \<Longrightarrow> R h h'"
    and tload: "h_tload H a k h = Val (x6, h') \<Longrightarrow> R h h'"
    and base_balance: "h_base_balance H a h = Val (x7, h') \<Longrightarrow> R h h'"
    and sstore: "writes \<Longrightarrow> h_sstore H a k v h = Val (x8, h') \<Longrightarrow> R h h'"
    and tstore: "writes \<Longrightarrow> h_tstore H a k v h = Val (x9, h') \<Longrightarrow> R h h'"
    and log: "writes \<Longrightarrow> h_log H l h = Val (x10, h') \<Longrightarrow> R h h'"
    and selfdestruct: "writes \<Longrightarrow> h_selfdestruct H a b h = Val (x11, h') \<Longrightarrow> R h h'"
begin

lemmas host_laws =
  load_account block_hash code code_hash sload tload base_balance sstore tstore log selfdestruct

definition within :: "'h instr \<Rightarrow> bool" where
  "within f \<longleftrightarrow> (\<forall>i h. allowed writes i \<longrightarrow> wp f (\<lambda>i' h'. allowed writes i' \<and> R h h') i h)"

lemma withinI:
  assumes "\<And>i h. allowed writes i \<Longrightarrow> wp f (\<lambda>i' h'. allowed writes i' \<and> R h h') i h"
  shows "within f"
  using assms by (simp add: within_def)

lemma withinD:
  assumes "within f" "allowed writes i" "f i h = Val (i', h')"
  shows "allowed writes i' \<and> R h h'"
  using assms by (auto simp: within_def dest: wpD)

lemma arithmetic_within:
  "within i_add" "within i_mul" "within i_sub" "within i_div" "within i_sdiv" "within i_rem" "within i_smod"
  "within i_addmod" "within i_mulmod" "within i_signextend" "within (i_exp sp)"
  unfolding i_add_def i_mul_def i_sub_def i_div_def i_sdiv_def i_rem_def i_smod_def i_addmod_def
    i_mulmod_def i_signextend_def i_exp_def
  by (rule withinI, intro wps; simp add: R_refl)+

lemma bitwise_within:
  "within i_lt" "within i_gt" "within i_slt" "within i_sgt" "within i_eq" "within i_iszero" "within i_bitand"
  "within i_bitor" "within i_bitxor" "within i_not" "within i_byte" "within (i_shl sp)" "within (i_shr sp)"
  "within (i_sar sp)"
  unfolding i_lt_def i_gt_def i_slt_def i_sgt_def i_eq_def i_iszero_def i_bitand_def i_bitor_def
    i_bitxor_def i_not_def i_byte_def i_shl_def i_shr_def i_sar_def Let_def
  by (rule withinI, intro wps; simp add: R_refl)+

lemma stack_within:
  "within i_pop" "within (i_push0 sp)" "within (i_dup n)" "within (i_swap n)" "within i_dupn" "within i_swapn"
  "within i_exchange"
  unfolding i_pop_def i_push0_def i_dup_def i_swap_def i_dupn_def i_swapn_def i_exchange_def Let_def
  by (rule withinI, intro wps; simp add: R_refl)+

lemma push_within: "within (i_push n)"
proof -
  have "wp (\<lambda>i h. case push_slice (stack i) bs of
       (Inl e, s) \<Rightarrow> fail e (i\<lparr>stack := s\<rparr>) h
     | (Inr _, s) \<Rightarrow> move_ip (int n) (i\<lparr>stack := s\<rparr>) h) (\<lambda>i' h'. allowed writes i' \<and> R h h') i h"
    if "allowed writes i" for bs i h
    using that
    by (auto simp: wp_def fail_def move_ip_def R_refl split: prod.splits sum.splits if_splits)
  then show ?thesis
    unfolding i_push_def by (intro withinI wps) (simp_all add: R_refl)
qed

lemma memory_within:
  "within i_mload" "within i_mstore" "within i_mstore8" "within i_msize" "within (i_mcopy sp)"
  unfolding i_mload_def i_mstore_def i_mstore8_def i_msize_def i_mcopy_def
  by (rule withinI, intro wps; simp add: R_refl)+

lemma control_within:
  "within i_rjump" "within i_rjumpi" "within i_rjumpv" "within i_jump" "within i_jumpi" "within i_jumpdest_or_nop"
  "within i_pc" "within i_callf" "within i_retf" "within i_jumpf"
  unfolding i_rjump_def i_rjumpi_def i_rjumpv_def i_jump_def i_jumpi_def i_jumpdest_or_nop_def i_pc_def
    i_callf_def i_retf_def i_jumpf_def Let_def
  by (rule withinI, intro wps; simp add: R_refl)+

lemma halt_within:
  "within i_stop" "within i_invalid" "within i_unknown" "within i_ret" "within (i_revert sp)" "within i_return_contract"
  unfolding i_stop_def i_invalid_def i_unknown_def i_ret_def i_revert_def return_inner_def i_return_contract_def Let_def
  by (rule withinI, intro wps; simp add: R_refl)+

lemma query_within:
  "within (i_keccak256 L)" "within i_address" "within i_caller" "within i_codesize" "within i_calldataload"
  "within i_calldatasize" "within i_callvalue" "within (i_returndatasize sp)" "within i_returndataload" "within i_gas"
  unfolding i_keccak256_def i_address_def i_caller_def i_codesize_def i_calldataload_def i_calldatasize_def
    i_callvalue_def i_returndatasize_def i_returndataload_def i_gas_def Let_def
  by (rule withinI, intro wps; simp add: R_refl)+

lemma copy_within:
  "within i_codecopy" "within i_calldatacopy" "within (i_returndatacopy sp)"
  "within i_data_load" "within i_data_loadn" "within i_data_size" "within i_data_copy"
  unfolding i_codecopy_def i_calldatacopy_def i_returndatacopy_def copy_prelude_def i_data_load_def
    i_data_loadn_def i_data_size_def i_data_copy_def Let_def
  by (rule withinI, intro wps; simp add: R_refl)+

lemma env_within:
  "within (i_chainid H sp)" "within (i_coinbase H)" "within (i_timestamp H)" "within (i_block_number H)"
  "within (i_difficulty H sp)" "within (i_gaslimit H)" "within (i_gasprice H)" "within (i_basefee H sp)"
  "within (i_origin H)" "within (i_blob_hash H sp)" "within (i_blob_basefee H sp)"
  unfolding i_chainid_def i_coinbase_def i_timestamp_def i_block_number_def i_difficulty_def i_gaslimit_def
    i_gasprice_def i_basefee_def i_origin_def i_blob_hash_def i_blob_basefee_def Let_def
  by (rule withinI, intro wps; simp add: R_refl)+

lemma read_within:
  "within (i_balance H sp)" "within (i_selfbalance H sp)" "within (i_extcodesize H sp)"
  "within (i_extcodehash H sp)" "within (i_extcodecopy H sp)" "within (i_blockhash H)"
  "within (i_sload H sp)" "within (i_tload H sp)"
  unfolding i_balance_def i_selfbalance_def i_extcodesize_def i_extcodehash_def i_extcodecopy_def
    i_blockhash_def i_sload_def i_tload_def Let_def case_prod_beta
  by (rule withinI, intro wps; (drule host_laws)?; simp add: R_refl)+

lemma write_within:
  "within (i_sstore H sp)" "within (i_tstore H sp)" "within (i_log H n)" "within (i_selfdestruct H sp)"
  unfolding i_sstore_def i_tstore_def i_log_def i_selfdestruct_def Let_def
  by (rule withinI, intro wps; auto simp: R_refl dest: allowed_writes intro: host_laws)+

lemma create_within: "within (i_create H c2 sp)"
  unfolding i_create_def create_code_def create_finish_def Let_def
  by (rule withinI, intro wps; auto simp: R_refl dest: allowed_writes intro!: allowed_action)

lemma call_within: "within (i_call H sp)" "within (i_call_code H sp)" "within (i_delegate_call H sp)" "within (i_static_call H sp)"
  unfolding i_call_def i_call_code_def i_delegate_call_def i_static_call_def get_memory_input_and_out_ranges_def
    resize_memory_and_return_range_def calc_call_gas_def base_transfer_def Let_def case_prod_beta
  by (rule withinI, intro wps; auto simp: R_refl transfers_value_def intro: host_laws intro!: allowed_action)+

lemma extcall_within: "within (i_extcall H)" "within (i_extdelegatecall H)" "within (i_extstaticcall H)"
  unfolding i_extcall_def i_extdelegatecall_def i_extstaticcall_def extcall_input_def extcall_gas_calc_def
    resize_memory_and_return_range_def Let_def case_prod_beta
  by (rule withinI, intro wps; auto simp: R_refl dest: allowed_writes intro: host_laws intro!: allowed_action)+

lemma eofcreate_within: "within (i_eofcreate L)"
  unfolding i_eofcreate_def resize_memory_range_def Let_def
  by (rule withinI, intro wps; auto simp: R_refl dest: allowed_writes intro!: allowed_action)

lemmas row_within =
  arithmetic_within bitwise_within stack_within push_within memory_within control_within halt_within
  query_within copy_within env_within read_within write_within create_within call_within extcall_within
  eofcreate_within

lemma rows_within: "list_all (\<lambda>(v, f). within f) (instruction_rows H L sp)"
  unfolding instruction_rows_def by (simp add: row_within)

lemma instruction_within: "within (instruction H L sp op)"
proof (cases "map_of (instruction_rows H L sp) op")
  case None
  then show ?thesis by (simp add: instruction_def halt_within)
next
  case (Some f)
  then have "(op, f) \<in> set (instruction_rows H L sp)" by (rule map_of_SomeD)
  with rows_within [of L sp] show ?thesis by (auto simp: instruction_def Some list_all_iff)
qed

lemma step_within: "within (step (instruction H L sp))"
proof (rule withinI)
  fix i h assume a: "allowed writes i"
  show "wp (step (instruction H L sp)) (\<lambda>i' h'. allowed writes i' \<and> R h h') i h"
    unfolding wp_def step_def
  proof (intro allI impI)
    fix i' h' assume "bindE (current_opcode i) (\<lambda>op. instruction H L sp op (i\<lparr>ip := ip i + 1\<rparr>) h) = Val (i', h')"
    then obtain op where "instruction H L sp op (i\<lparr>ip := ip i + 1\<rparr>) h = Val (i', h')" by (auto simp: evals)
    from withinD [OF instruction_within _ this] a show "allowed writes i' \<and> R h h'" by simp
  qed
qed

text \<open>The loop, by the length of the run.\<close>

lemma run_loop_within:
  assumes "run_loop (instruction H L sp) i h = Some (Val (i', h'))" "allowed writes i"
  shows "allowed writes i' \<and> R h h'"
proof -
  have "\<forall>i h i' h'. run_loop (instruction H L sp) i h = Some (Val (i', h')) \<longrightarrow> gas_left i = n \<longrightarrow>
      allowed writes i \<longrightarrow> allowed writes i' \<and> R h h'" for n
  proof (induction n rule: less_induct)
    case (less n)
    show ?case
    proof (intro allI impI)
      fix i h i' h'
      assume run: "run_loop (instruction H L sp) i h = Some (Val (i', h'))" and n: "gas_left i = n"
        and a: "allowed writes i"
      show "allowed writes i' \<and> R h h'"
      proof (cases "instr_result i = Continue")
        case False
        with run a R_refl show ?thesis by (simp add: run_loop.simps)
      next
        case True
        with run obtain i1 h1 where s: "step (instruction H L sp) i h = Val (i1, h1)"
          and rest: "run_loop (instruction H L sp) i1 h1 = Some (Val (i', h'))"
          by (subst (asm) run_loop.simps) (auto split: eval.splits)
        from withinD [OF step_within a s] have a1: "allowed writes i1" and r1: "R h h1" by auto
        show ?thesis
        proof (cases "instr_result i1 = Continue")
          case False
          with rest a1 r1 show ?thesis by (simp add: run_loop.simps)
        next
          case c: True
          then have "gas_left i1 < n" using step_burns [OF True s] n by simp
          with less rest a1 have "allowed writes i' \<and> R h1 h'" by blast
          with r1 show ?thesis by (blast intro: R_trans)
        qed
      qed
    qed
  qed
  with assms show ?thesis by blast
qed

lemma run_within:
  assumes "run (instruction H L sp) m i h = Some (Val (a, i', h'))" "writes \<or> is_static i \<and> \<not> running_eof i"
  shows "R h h' \<and> (writes \<or> harmless a)"
proof -
  let ?i = "i\<lparr>next_action := ActNone, memory := m\<rparr>"
  have "allowed writes ?i" using assms(2) by (auto simp: allowed_def static_frame_def)
  moreover from assms(1) obtain i1 where "run_loop (instruction H L sp) ?i h = Some (Val (i1, h'))"
    and "fst (run_result i1) = a"
    by (auto simp: run_def evals Let_def case_prod_beta)
  ultimately show ?thesis
    using run_loop_within [of L sp ?i h i1 h'] by (auto simp: allowed_def static_frame_def run_result_def split: if_splits)
qed

end

end
