(* ===== verification/Context_Frames.thy ===== *)
theory Context_Frames
  imports Handler Host_Frames
begin

text \<open>
  The interpreter on the real host, the journaled state in its context. Two interpretations of the
  contract of a host give: a static frame of legacy code leaves the world as it was, and whatever a
  frame does can be undone by reverting its checkpoint.
\<close>

section \<open>The world a contract can observe\<close>

text \<open>Storage seen through the database: the loaded slot, or the database's value while it is not loaded.\<close>

definition db_slot :: "'e database \<Rightarrow> address \<Rightarrow> u256 \<Rightarrow> u256" where
  "db_slot db a k = (case db_storage db a k of Inr v \<Rightarrow> v | Inl _ \<Rightarrow> 0)"

definition slot_value :: "'e database \<Rightarrow> journaled_state \<Rightarrow> address \<Rightarrow> u256 \<Rightarrow> u256" where
  "slot_value db j a k =
     (case acct j a of
        None \<Rightarrow> db_slot db a k
      | Some x \<Rightarrow> (case storage x k of
          Some s \<Rightarrow> present_value s
        | None \<Rightarrow> if is_created x then 0 else db_slot db a k))"

definition same_world :: "'e database \<Rightarrow> journaled_state \<Rightarrow> journaled_state \<Rightarrow> bool" where
  "same_world db j j' \<longleftrightarrow>
     (\<forall>a t. balance db j' a t = balance db j a t) \<and>
     (\<forall>a. nonce (info_of db j' a) = nonce (info_of db j a) \<and> code_hash (info_of db j' a) = code_hash (info_of db j a)) \<and>
     (\<forall>a k. slot_value db j' a k = slot_value db j a k) \<and>
     (\<forall>a k. js_tload a k j' = js_tload a k j) \<and> logs j' = logs j"

lemma same_world_refl: "same_world db j j"
  by (simp add: same_world_def)

lemma same_world_trans: "same_world db j j' \<Longrightarrow> same_world db j' j'' \<Longrightarrow> same_world db j j''"
  by (simp add: same_world_def)

text \<open>A change of one account that keeps what is observed of it.\<close>

lemma same_world_put:
  assumes "info_of db j a = i" "get_balance (info x) = get_balance i" "nonce (info x) = nonce i"
    "code_hash (info x) = code_hash i" "\<And>k. slot_value db (put_account a x j) a k = slot_value db j a k"
  shows "same_world db j (put_account a x j)"
  using assms
  by (auto simp: same_world_def balance_def slot_value_def js_tload_def)

lemma same_world_journal: "same_world db j (j'\<lparr>journal := u\<rparr>) = same_world db j j'"
  by (simp add: same_world_def balance_def slot_value_def js_tload_def)

lemma load_account_same_world:
  assumes "js_load_account db a j = Val (r, j')"
  shows "same_world db j j'"
proof (cases "j' = j")
  case False
  with assms obtain i where n: "acct j a = None" and b: "basic db a = Inr i"
    and j': "j' = put_account a (case i of Some i \<Rightarrow> account_of_info i | None \<Rightarrow> new_not_existing)
                    (j\<lparr>journal := push_last (AccountLoaded a) (journal j)\<rparr>)"
    by (cases r) (auto simp: js_load_account_def evals Let_def split: option.splits)
  let ?x = "case i of Some i \<Rightarrow> account_of_info i | None \<Rightarrow> new_not_existing"
  let ?j = "j\<lparr>journal := push_last (AccountLoaded a) (journal j)\<rparr>"
  have inf: "info_of db ?j a = info ?x"
    using n b by (auto simp: info_of_def account_of_info_def new_not_existing_def split: option.splits)
  have "\<not> is_created ?x" "storage ?x = Map.empty"
    by (auto simp: is_created_def account_of_info_def new_not_existing_def flag_ops Created_def Loaded_def
        LoadedAsNotExisting_def flag_contains_def split: option.splits)
  then have "same_world db ?j (put_account a ?x ?j)"
    using n by (intro same_world_put [OF inf]) (simp_all add: slot_value_def)
  then show ?thesis
    unfolding j' by (auto simp: same_world_def balance_def slot_value_def js_tload_def)
qed (simp add: same_world_refl)

lemma code_cache_same_world:
  assumes "acct j a = Some x"
  shows "same_world db j (put_account a (x\<lparr>info := (info x)\<lparr>code := c\<rparr>\<rparr>) j)"
proof (rule same_world_put [OF info_of_loaded [OF assms]])
  show "get_balance (info (x\<lparr>info := (info x)\<lparr>code := c\<rparr>\<rparr>)) = get_balance (info x)"
    by (simp add: get_balance_def fun_eq_iff)
qed (simp_all add: slot_value_def assms is_created_def)

lemma load_code_same_world:
  assumes "js_load_code db a j = Val (r, j')"
  shows "same_world db j j'"
proof (cases "js_load_account db a j" rule: result_cases)
  case panic
  with assms show ?thesis by (simp add: js_load_code_def)
next
  case (err e s)
  with assms load_account_same_world show ?thesis by (auto simp: js_load_code_def)
next
  case (ok p j1)
  obtain x c where p: "p = (x, c)" by (cases p)
  have w: "same_world db j j1" by (rule load_account_same_world [OF ok])
  have "j' = j1 \<or> (\<exists>c. j' = put_account a (x\<lparr>info := (info x)\<lparr>code := c\<rparr>\<rparr>) j1)"
    using assms ok p by (cases r) (auto simp: js_load_code_def evals Let_def split: if_splits)
  then show ?thesis
    using w code_cache_same_world [OF load_account_loaded [OF ok [unfolded p]]] by (auto intro: same_world_trans)
qed

lemma sload_same_world:
  assumes "js_sload db a key j = Val (r, j')"
  shows "same_world db j j'"
proof (cases "j' = j")
  case False
  with assms obtain x v where x: "acct j a = Some x" "storage x key = None"
    and v: "v = (if is_created x then 0 else db_slot db a key)"
    and j': "j' = put_account a (x\<lparr>storage := (storage x)(key \<mapsto> slot_new v)\<rparr>)
               (j\<lparr>journal := push_last (StorageChange a key None) (journal j)\<rparr>)"
    by (cases r) (auto simp: js_sload_def evals db_slot_def split: option.splits if_splits)
  let ?x = "x\<lparr>storage := (storage x)(key \<mapsto> slot_new v)\<rparr>"
  have "same_world db j (put_account a ?x j)"
    using x v by (intro same_world_put [OF info_of_loaded [OF x(1)]])
      (simp_all add: slot_value_def slot_new_def is_created_def)
  then show ?thesis
    unfolding j' by (auto simp: same_world_def balance_def slot_value_def js_tload_def)
qed (simp add: same_world_refl)

section \<open>Two readings of the host\<close>

definition reads_only :: "'e database \<Rightarrow> 'e evm_context \<Rightarrow> 'e evm_context \<Rightarrow> bool" where
  "reads_only db c c' \<longleftrightarrow>
     same_world db (ctx_js c) (ctx_js c') \<and> ctx_env c' = ctx_env c \<and> ctx_precompiles c' = ctx_precompiles c"

definition can_be_undone :: "'e evm_context \<Rightarrow> 'e evm_context \<Rightarrow> bool" where
  "can_be_undone c c' \<longleftrightarrow>
     (journal (ctx_js c) \<noteq> [] \<longrightarrow> extends (ctx_js c) (ctx_js c')) \<and>
     ctx_env c' = ctx_env c \<and> ctx_precompiles c' = ctx_precompiles c"

lemma keep_error_cases:
  assumes "keep_error m = Val (r, c')"
  obtains x c1 where "m = Val (x, c1)" "ctx_js c' = ctx_js c1" "ctx_env c' = ctx_env c1"
    "ctx_precompiles c' = ctx_precompiles c1"
  using assms by (cases m rule: result_cases) auto

lemma on_js_cases:
  assumes "on_js f c = Val (r, c')"
  obtains j where "f (ctx_js c) = Val (r, j)" "c' = c\<lparr>ctx_js := j\<rparr>"
  using assms by (auto simp: on_js_def evals)

lemma keep_js:
  assumes "keep_error (on_js f c) = Val (r, c')"
  shows "\<exists>x j. f (ctx_js c) = Val (x, j) \<and> ctx_js c' = j \<and> ctx_env c' = ctx_env c \<and> ctx_precompiles c' = ctx_precompiles c"
  using assms by (elim keep_error_cases on_js_cases) auto

lemma block_hash_keeps:
  assumes "host_block_hash db n c = Val (r, c')"
  shows "ctx_js c' = ctx_js c \<and> ctx_env c' = ctx_env c \<and> ctx_precompiles c' = ctx_precompiles c"
  using assms by (cases "block_hash db n") (auto simp: host_block_hash_def Let_def split: if_splits)

text \<open>The queries of the context are loads, whatever they return.\<close>

lemma query_loads:
  "js_load_account_exist db a j = Val (r1, j') \<Longrightarrow> \<exists>x. js_load_account db a j = Val (x, j')"
  "ctx_base_balance db a j = Val (r2, j') \<Longrightarrow> \<exists>x. js_load_account db a j = Val (x, j')"
  "ctx_code db a j = Val (r3, j') \<Longrightarrow> \<exists>x. js_load_code db a j = Val (x, j')"
  "ctx_code_hash db a j = Val (r4, j') \<Longrightarrow> \<exists>x. js_load_code db a j = Val (x, j')"
proof -
  show "\<exists>x. js_load_account db a j = Val (x, j')" if "js_load_account_exist db a j = Val (r1, j')" for r1
    using that by (cases "js_load_account db a j" rule: result_cases) (auto simp: js_load_account_exist_def Let_def)
  show "\<exists>x. js_load_account db a j = Val (x, j')" if "ctx_base_balance db a j = Val (r2, j')" for r2
    using that by (cases "js_load_account db a j" rule: result_cases) (auto simp: ctx_base_balance_def)
  show "\<exists>x. js_load_code db a j = Val (x, j')" if "ctx_code db a j = Val (r3, j')" for r3
    using that by (cases "js_load_code db a j" rule: result_cases) (auto simp: ctx_code_def evals)
  show "\<exists>x. js_load_code db a j = Val (x, j')" if "ctx_code_hash db a j = Val (r4, j')" for r4
    using that by (cases "js_load_code db a j" rule: result_cases) (auto simp: ctx_code_hash_def)
qed

lemma static_host: "frame_host (context_host K db) (reads_only db) False"
proof unfold_locales
  show "reads_only db h h''" if "reads_only db h h'" "reads_only db h' h''" for h h' h'' :: "'a evm_context"
    using that by (auto simp: reads_only_def intro: same_world_trans)
qed (auto simp: reads_only_def context_host_def same_world_refl
     dest!: keep_js query_loads block_hash_keeps
     intro: load_account_same_world load_code_same_world sload_same_world)

lemma writing_host: "frame_host (context_host K db) can_be_undone True"
proof unfold_locales
  show "can_be_undone h h''" if "can_be_undone h h'" "can_be_undone h' h''" for h h' h'' :: "'a evm_context"
    using that by (auto simp: can_be_undone_def dest: extends_journal intro: extends_trans)
qed (auto simp: can_be_undone_def context_host_def extends_refl extends_log host_selfdestruct_def do_js_def evals
     dest!: keep_js query_loads block_hash_keeps
     intro: extends_load_account extends_load_code extends_sload extends_sstore extends_tstore extends_selfdestruct)

interpretation static_context: frame_host "context_host K db" "reads_only db" False for K db
  by (rule static_host)

interpretation writing_context: frame_host "context_host K db" can_be_undone True for K db
  by (rule writing_host)

end
