(* ===== verification/Frame_Loop.thy ===== *)
theory Frame_Loop
  imports Context_Frames
begin

text \<open>
  The loop over call frames. Every frame that is opened can be undone: the invariant \<open>undo_stack\<close> says
  so for all frames of the call stack at once, every iteration of the loop keeps it, and a loop that
  ends with a failed first frame leaves the world as it was before the call.
\<close>

section \<open>Transfers that cannot overflow\<close>

text \<open>The supply of every token, over all addresses, fits a word.\<close>

definition supply_fits :: "'e database \<Rightarrow> journaled_state \<Rightarrow> bool" where
  "supply_fits db j \<longleftrightarrow> (\<forall>t. holdings db j UNIV t < 2 ^ 256)"

lemma supply_fits_balance: "balance db j' = balance db j \<Longrightarrow> supply_fits db j' = supply_fits db j"
  by (simp add: supply_fits_def holdings_def)

lemma holdings_pair:
  assumes "a \<noteq> b"
  shows "holdings db j UNIV t = unat (balance db j a t) + unat (balance db j b t) + holdings db j (UNIV - {a} - {b}) t"
  using assms holdings_split [of "UNIV :: address set" a db j t] holdings_split [of "UNIV - {a}" b db j t] by simp

lemma supply_pair:
  assumes "supply_fits db j" "a \<noteq> b"
  shows "unat (balance db j a t) + unat (balance db j b t) < 2 ^ 256"
proof (rule le_less_trans)
  show "unat (balance db j a t) + unat (balance db j b t) \<le> holdings db j UNIV t"
    by (simp only: holdings_pair [OF assms(2)] le_add1)
  show "holdings db j UNIV t < 2 ^ 256"
    using assms(1) unfolding supply_fits_def by (rule spec)
qed

lemma unat_lt_256: "unat (w :: u256) < 2 ^ 256"
  using unsigned_less [of w] by simp

lemma transfer_one_self_no_overflow:
  assumes "transfer_one a a t j = Val (r, j')"
  shows "r \<noteq> Some OverflowPayment"
  using assms
proof (cases rule: transfer_one_cases)
  case (overflow x x1 j1 y y1 j3)
  have "get_balance (info y1) (tt_id t) = get_balance (info x1) (tt_id t) - tt_amount t"
    using overflow(4) touch_account_frame(1) [OF overflow(5)] by auto
  with overflow(3,6) show ?thesis
    using unat_lt_256 [of "get_balance (info x1) (tt_id t)"] by (simp add: unat_minus_if_le word_le_nat_alt)
qed simp_all

lemma transfer_loop_no_overflow:
  assumes "transfer_loop a b ts j = Val (r, j')"
    and "\<And>t. a \<noteq> b \<Longrightarrow> unat (balance db j a t) + unat (balance db j b t) < 2 ^ 256"
  shows "r \<noteq> Some OverflowPayment"
  using assms
proof (induction ts arbitrary: j)
  case (Cons t ts)
  from Cons.prems(1) obtain r1 j1 where one: "transfer_one a b t j = Val (r1, j1)"
    and rest: "(case r1 of Some e \<Rightarrow> Val (Some e, j1) | None \<Rightarrow> transfer_loop a b ts j1) = Val (r, j')"
    by (auto simp: evals)
  note bal = transfer_one_balances [OF one, of db]
  have no: "r1 \<noteq> Some OverflowPayment"
  proof (cases "a = b")
    case True
    with transfer_one_self_no_overflow one show ?thesis by blast
  next
    case False
    with bal Cons.prems(2) [OF False, of "tt_id t"] show ?thesis by (auto simp: word_le_nat_alt)
  qed
  show ?case
  proof (cases r1)
    case None
    have "transfer_loop a b [t] j = Val (None, j1)" using one None by simp
    note keeps = transfer_loop_conserves [OF this, of db, simplified]
    have "unat (balance db j1 a k) + unat (balance db j1 b k) < 2 ^ 256" if "a \<noteq> b" for k
      using keeps [OF that, of k] Cons.prems(2) [OF that, of k] by simp
    with Cons.IH [of j1] rest None show ?thesis by simp
  qed (use no rest in auto)
qed simp

lemma transfer_no_overflow:
  assumes "supply_fits db j" "js_transfer db a b ts j = Val (r, j')"
  shows "r \<noteq> Inr (Some OverflowPayment)"
proof (cases r)
  case (Inr x)
  with assms(2) obtain j1 where l: "transfer_loop a b ts j1 = Val (x, j')" and b: "balance db j1 = balance db j"
    by (auto elim: transfer_unfold)
  show ?thesis
    using transfer_loop_no_overflow [OF l, of db] supply_pair [OF assms(1), of a b] b Inr by auto
qed simp

lemma fitting_transfer_extends:
  assumes "supply_fits db j" "journal j \<noteq> []" "js_transfer db a b ts j = Val (r, j')"
  shows "extends j j'"
  by (rule extends_transfer [OF assms(2,3) transfer_no_overflow [OF assms(1,3)]])

lemma transfer_keeps_supply:
  assumes "supply_fits db j" "js_transfer db a b ts j = Val (Inr r, j')"
  shows "supply_fits db j'"
proof -
  obtain j1 where l: "transfer_loop a b ts j1 = Val (r, j')" and bal: "balance db j1 = balance db j"
    using assms(2) by (rule transfer_unfold)
  have no: "r \<noteq> Some OverflowPayment" using transfer_no_overflow [OF assms] by simp
  show ?thesis
  proof (cases "a = b")
    case True
    have "balance db j' = balance db j1"
      using l no unfolding True
    proof (induction ts arbitrary: j1)
      case (Cons t ts)
      from Cons.prems(1) obtain r1 k where one: "transfer_one b b t j1 = Val (r1, k)"
        and rest: "(case r1 of Some e \<Rightarrow> Val (Some e, k) | None \<Rightarrow> transfer_loop b b ts k) = Val (r, j')"
        by (auto simp: evals)
      show ?case
        using transfer_one_balances [OF one, of db] transfer_one_self_no_overflow [OF one] rest Cons
        by (cases r1) (auto simp: move_self)
    qed simp
    with assms(1) bal show ?thesis using supply_fits_balance [of db j' j] by simp
  next
    case False
    have "holdings db j' UNIV t = holdings db j UNIV t" for t
    proof -
      note keeps = transfer_loop_conserves [OF l no False, of db t, unfolded bal]
      have "holdings db j' (UNIV - {a} - {b}) t = holdings db j (UNIV - {a} - {b}) t"
        by (rule holdings_cong) (use keeps in auto)
      with keeps show ?thesis by (simp only: holdings_pair [OF False])
    qed
    with assms(1) show ?thesis by (simp add: supply_fits_def)
  qed
qed

section \<open>The native token precompile can be undone\<close>

text \<open>A computation that, if it returns, returns a state whose journal undoes it.\<close>

definition undoable :: "journaled_state \<Rightarrow> ('a \<times> journaled_state) eval \<Rightarrow> bool" where
  "undoable j m \<longleftrightarrow> (\<forall>r j'. m = Val (r, j') \<longrightarrow> extends j j')"

lemma undoable_Val: "journal j \<noteq> [] \<Longrightarrow> undoable j (Val (r, j))"
  by (simp add: undoable_def extends_refl)

lemma undoable_parse:
  assumes "journal j \<noteq> []" "\<And>x. undoable j (f x j)"
  shows "undoable j (tryE (parse p j) f)"
  using assms by (cases p) (auto simp: undoable_def extends_refl)

lemma undoable_bind: "(\<And>x. undoable j (f x)) \<Longrightarrow> undoable j (bindE m f)"
  by (auto simp: undoable_def evals)

lemma undoable_if: "undoable j m \<Longrightarrow> undoable j m' \<Longrightarrow> undoable j (if b then m else m')"
  by simp

lemma undoable_prod: "(\<And>a b. undoable j (f a b j)) \<Longrightarrow> undoable j ((case p of (a, b) \<Rightarrow> f a b) j)"
  by (cases p) simp

lemma undoable_try:
  assumes "journal j \<noteq> []" "undoable j m"
    and "\<And>x j1. m = Val (Inr x, j1) \<Longrightarrow> journal j1 \<noteq> [] \<Longrightarrow> undoable j1 (f x j1)"
  shows "undoable j (tryE m f)"
  unfolding undoable_def
proof (intro allI impI)
  fix r j' assume "tryE m f = Val (r, j')"
  then show "extends j j'"
    by (rule extends_tryE [OF assms(1)]) (use assms(2,3) in \<open>auto simp: undoable_def\<close>)
qed

lemma undoable_eoa: "journal j \<noteq> [] \<Longrightarrow> undoable j (map_err e (is_address_eoa db a j))"
  by (cases "is_address_eoa db a j" rule: result_cases) (auto simp: undoable_def intro: is_address_eoa_extends)

text \<open>What follows the authorisation runs on a state with the same balances.\<close>

lemma undoable_authorize:
  assumes "journal j \<noteq> []" "supply_fits db j"
    and "\<And>j1. journal j1 \<noteq> [] \<Longrightarrow> supply_fits db j1 \<Longrightarrow> undoable j1 (f () j1)"
  shows "undoable j (tryE (authorize db inputs j) f)"
proof (rule undoable_try [OF assms(1)])
  show "undoable j (authorize db inputs j)"
    using authorize_cases assms(1) unfolding undoable_def by blast
  show "undoable j1 (f x j1)" if "authorize db inputs j = Val (Inr x, j1)" "journal j1 \<noteq> []" for x j1
  proof -
    have "supply_fits db j1" using authorize_cases [OF that(1)] assms(2) supply_fits_balance by blast
    from assms(3) [OF that(2) this] show ?thesis by simp
  qed
qed

lemma undoable_run_transfer:
  assumes "supply_fits db j" "journal j \<noteq> []"
  shows "undoable j (run_transfer db a b ts g j)"
  unfolding undoable_def run_transfer_def
proof (intro allI impI)
  fix r j' assume "bindE (js_transfer db a b ts j) (\<lambda>(r, j). case r of
      Inl _ \<Rightarrow> Val (Inl (PE_Other ''Transfer failed''), j)
    | Inr _ \<Rightarrow> Val (Inr (Result \<lparr>gas_used = g, returned_bytes = []\<rparr>), j)) = Val (r, j')"
  then obtain x where "js_transfer db a b ts j = Val (x, j')"
    by (auto simp: evals split: sum.splits) (metis sum.exhaust)
  with assms show "extends j j'" by (blast intro: fitting_transfer_extends)
qed

lemma undoable_balance: "journal j \<noteq> [] \<Longrightarrow> undoable j (map_err e (ctx_balance db t a j))"
  by (cases "js_load_account db a j" rule: result_cases)
    (auto simp: undoable_def ctx_balance_def intro: extends_load_account)

lemma undoable_mint: "journal j \<noteq> [] \<Longrightarrow> undoable j (bindE (js_mint K db a b s v j)
    (\<lambda>(ok, j). if ok then Val (x, j) else Val (y, j)))"
  by (auto simp: undoable_def evals split: if_splits intro: extends_mint)

lemma undoable_burn: "journal j \<noteq> [] \<Longrightarrow> undoable j (bindE (js_burn K db a s b v j)
    (\<lambda>(ok, j). if ok then Val (x, j) else Val (y, j)))"
  by (auto simp: undoable_def evals split: if_splits intro: extends_burn)

lemmas undoable_intros =
  undoable_Val undoable_parse undoable_mint undoable_burn undoable_bind undoable_if undoable_prod
  undoable_authorize undoable_run_transfer

lemma call_mut_extends:
  assumes "journal j \<noteq> []" "supply_fits db j" "nt_call_mut K db inputs gl j = Val (r, j')"
  shows "extends j j'"
proof -
  have "undoable j (nt_call_mut K db inputs gl j)"
    unfolding nt_call_mut_def nt_balance_of_def nt_mint_def nt_burn_def nt_transfer_def nt_transfer_multiple_def
      nt_transfer_and_call_def nt_transfer_multiple_and_call_def nt_get_call_values_def Let_def
    by (intro undoable_intros undoable_try [OF _ undoable_balance] undoable_try [OF _ undoable_eoa] assms(1,2))
  with assms(3) show ?thesis by (simp add: undoable_def)
qed

lemma run_transfer_no_call: "run_transfer db a b ts g j \<noteq> Val (Inr (Call ci), j')"
  by (cases "js_transfer db a b ts j" rule: result_cases) (auto simp: run_transfer_def)

lemma call_mut_new_call_balance:
  assumes "nt_call_mut K db inputs gl j = Val (Inr (Call ci), j')"
  shows "balance db j' = balance db j"
proof -
  have auth: "balance db j1 = balance db j" if "authorize db inputs j = Val (Inr x, j1)" for x j1
    using authorize_cases [OF that] by simp
  show ?thesis
    using assms
    by (auto simp: nt_call_mut_def nt_balance_of_def nt_mint_def nt_burn_def nt_transfer_def nt_transfer_multiple_def
      nt_transfer_and_call_def nt_transfer_multiple_and_call_def nt_get_call_values_def run_transfer_no_call Let_def evals
      dest!: is_address_eoa_balance auth split: if_splits sum.splits)
qed

lemma touch_balance:
  assumes "js_touch a j = Val j'"
  shows "balance db j' = balance db j"
proof (cases "acct j a")
  case None
  with assms show ?thesis by (simp add: js_touch_def acct_def)
next
  case (Some x)
  with assms obtain x1 j1 where "touch_account a x j = Val (x1, j1)" "j' = put_account a x1 j1"
    by (auto simp: js_touch_def acct_def evals)
  with Some touch_account_frame(1) show ?thesis
    using balance_touch [of a x j x1 j1 db] by (auto simp: balance_loaded fun_eq_iff)
qed

section \<open>Opening and closing a frame\<close>

text \<open>The precompiles a context holds: those without effects, and the native tokens.\<close>

definition known_precompiles :: "keccak \<Rightarrow> 'e database \<Rightarrow> context_precompiles \<Rightarrow> bool" where
  "known_precompiles K db ps \<longleftrightarrow>
     (\<forall>p \<in> ran ps. (\<exists>f. p = Ordinary f) \<or> p = ContextStatefulMut (nt_call_mut K db))"

lemma load_precompiles_known: "known_precompiles (keccak256 L) db (load_precompiles P L db sp)"
  by (auto simp: known_precompiles_def load_precompiles_def from_precompiles_def ran_def split: if_splits)

definition same_frame :: "'e evm_context \<Rightarrow> 'e evm_context \<Rightarrow> bool" where
  "same_frame c c' \<longleftrightarrow> ctx_env c' = ctx_env c \<and> ctx_precompiles c' = ctx_precompiles c"

lemma call_precompile_undo:
  assumes "journal (ctx_js c) \<noteq> []" "supply_fits db (ctx_js c)" "known_precompiles K db (ctx_precompiles c)"
    "call_precompile inputs g c = Val (out, c')"
  shows "extends (ctx_js c) (ctx_js c')" "same_frame c c'"
    "out = Some (NewCall ci) \<Longrightarrow> supply_fits db (ctx_js c')"
proof -
  have "extends (ctx_js c) (ctx_js c') \<and> same_frame c c' \<and> (out = Some (NewCall ci) \<longrightarrow> supply_fits db (ctx_js c'))"
  proof (cases "ctx_precompiles c (ci_bytecode_address inputs)")
    case None
    with assms show ?thesis by (simp add: call_precompile_def precompiles_call_def extends_refl same_frame_def)
  next
    case (Some p)
    with assms(3) consider f where "p = Ordinary f" | "p = ContextStatefulMut (nt_call_mut K db)"
      by (auto simp: known_precompiles_def ran_def)
    then show ?thesis
    proof cases
      case 1
      with assms Some show ?thesis by (auto simp: call_precompile_def precompiles_call_def extends_refl same_frame_def evals)
    next
      case 2
      with assms(4) Some 2 obtain r j where r: "nt_call_mut K db inputs (limit g) (ctx_js c) = Val (r, j)"
        and c': "c' = c\<lparr>ctx_js := j\<rparr>" and out: "out = Some (precompile_outcome g r)"
        by (auto simp: call_precompile_def precompiles_call_def on_js_def evals)
      have "supply_fits db j" if "out = Some (NewCall ci)"
      proof -
        from that out obtain x where "r = Inr (Call x)" by (induction g r rule: precompile_outcome.induct) (auto simp: Let_def split: prod.splits)
        with call_mut_new_call_balance r supply_fits_balance [of db j "ctx_js c"] assms(2) show ?thesis by blast
      qed
      with call_mut_extends [OF assms(1,2) r] c' show ?thesis by (simp add: same_frame_def)
    qed
  qed
  then show "extends (ctx_js c) (ctx_js c')" "same_frame c c'" "out = Some (NewCall ci) \<Longrightarrow> supply_fits db (ctx_js c')"
    by auto
qed

lemma call_transfer_undo:
  assumes "journal (ctx_js c) \<noteq> []" "supply_fits db (ctx_js c)" "call_transfer db inputs c = Val (Inr r, c')"
  shows "extends (ctx_js c) (ctx_js c') \<and> same_frame c c' \<and> supply_fits db (ctx_js c')"
proof (cases "ci_values inputs")
  case (Apparent v)
  with assms show ?thesis by (simp add: call_transfer_def extends_refl same_frame_def)
next
  case (Transfer vs)
  show ?thesis
  proof (cases "vs = [] \<or> list_all (\<lambda>t. tt_amount t = 0) vs")
    case True
    with Transfer assms(3) obtain x j1 j2 where l: "js_load_account db (ci_target_address inputs) (ctx_js c) = Val (Inr x, j1)"
      and t: "js_touch (ci_target_address inputs) j1 = Val j2" and c': "c' = c\<lparr>ctx_js := j2\<rparr>"
      by (auto simp: call_transfer_def on_js_def do_js_def evals)
    have e1: "extends (ctx_js c) j1" by (rule extends_load_account [OF assms(1) l])
    then have e2: "extends j1 j2" using extends_touch [OF _ t] by (simp add: extends_journal)
    have "balance db j2 = balance db (ctx_js c)"
      using load_account_balance [OF l] touch_balance [OF t, of db] by simp
    with e1 e2 c' assms(2) show ?thesis
      using supply_fits_balance [of db j2 "ctx_js c"] by (simp add: same_frame_def) (blast intro: extends_trans)
  next
    case False
    with Transfer assms(3) obtain j where t: "js_transfer db (ci_caller inputs) (ci_target_address inputs) vs (ctx_js c) = Val (Inr r, j)"
      and c': "c' = c\<lparr>ctx_js := j\<rparr>"
      by (auto simp: call_transfer_def on_js_def evals)
    from fitting_transfer_extends [OF assms(2,1) t] transfer_keeps_supply [OF assms(2) t] c'
    show ?thesis by (simp add: same_frame_def)
  qed
qed

text \<open>A frame opened on \<open>j0\<close>: its checkpoint was taken there, and all since then can be undone.\<close>

fun frame_checkpoint :: "frame \<Rightarrow> journal_checkpoint" where
  "frame_checkpoint (CallFrame _ d) = fd_checkpoint d"
| "frame_checkpoint (CreateFrame _ d) = fd_checkpoint d"
| "frame_checkpoint (EOFCreateFrame _ _ d) = fd_checkpoint d"

definition opened :: "journaled_state \<Rightarrow> frame \<Rightarrow> journaled_state \<Rightarrow> bool" where
  "opened j0 f j \<longleftrightarrow> frame_checkpoint f = fst (js_checkpoint j0) \<and> extends (snd (js_checkpoint j0)) j"

text \<open>What making a frame does: it opens one on a state that extends the old one, or nothing is open after it.\<close>

definition made_from :: "'e evm_context \<Rightarrow> journaled_state \<Rightarrow> frame_or_result \<Rightarrow> 'e evm_context \<Rightarrow> bool" where
  "made_from c j0 x c' \<longleftrightarrow>
     same_frame c c' \<and> extends (ctx_js c) j0 \<and>
     (case x of NewFrame f \<Rightarrow> opened j0 f (ctx_js c') | Ended r \<Rightarrow> extends j0 (ctx_js c'))"

lemma reverted_from:
  assumes "extends (snd (js_checkpoint j0)) (ctx_js c)" "journal j0 \<noteq> []"
    "do_js (js_checkpoint_revert (fst (js_checkpoint j0))) c = Val c'"
  shows "restored (ctx_js c') j0" "extends j0 (ctx_js c')" "same_frame c c'"
proof -
  obtain j3 where j3: "js_checkpoint_revert (fst (js_checkpoint j0)) (ctx_js c) = Val j3" and r: "restored j3 j0"
    using checkpoint_revert_restored [OF assms(1)] by blast
  with assms(3) have "c' = c\<lparr>ctx_js := j3\<rparr>" by (simp add: do_js_def)
  with r restored_extends [OF assms(2) r] show "restored (ctx_js c') j0" "extends j0 (ctx_js c')" "same_frame c c'"
    by (simp_all add: same_frame_def)
qed

lemma committed_from:
  assumes "extends (snd (js_checkpoint j0)) (ctx_js c)" "journal j0 \<noteq> []" "do_js js_checkpoint_commit c = Val c'"
  shows "extends j0 (ctx_js c')" "same_frame c c'"
  using commit_extends [OF assms(1,2)] assms(3) by (auto simp: do_js_def same_frame_def)

lemma call_frame_of_Val:
  "call_frame_of input bc h inputs gl cp c = Val (Inr x, c') \<Longrightarrow>
   \<exists>rng i. x = NewFrame (CallFrame rng \<lparr>fd_checkpoint = cp, fd_interpreter = i\<rparr>) \<and> c' = c"
  by (auto simp: call_frame_of_def evals)

lemma new_call_frame_made:
  assumes "extends (snd (js_checkpoint j0)) (ctx_js c)" "journal j0 \<noteq> []" "supply_fits db (ctx_js c)"
    and run: "new_call_frame db inputs ci g (fst (js_checkpoint j0)) c = Val (Inr x, c')"
  shows "same_frame c c' \<and> (case x of NewFrame f \<Rightarrow> opened j0 f (ctx_js c') | Ended r \<Rightarrow> extends j0 (ctx_js c') \<and> restored (ctx_js c') j0)"
proof -
  from run obtain acc w j1 r j2 where
    l: "js_load_code db (nc_target_address ci) (ctx_js c) = Val (Inr (acc, w), j1)"
    and t: "js_transfer db (ci_caller inputs) (nc_target_address ci) (values_get (nc_call_values ci)) j1 = Val (Inr r, j2)"
    and rest: "(\<exists>rng i. x = NewFrame (CallFrame rng \<lparr>fd_checkpoint = fst (js_checkpoint j0), fd_interpreter = i\<rparr>) \<and>
          c' = c\<lparr>ctx_js := j2\<rparr>) \<or>
        (\<exists>y. x = Ended y \<and> do_js (js_checkpoint_revert (fst (js_checkpoint j0))) (c\<lparr>ctx_js := j2\<rparr>) = Val c')"
    by (auto simp: new_call_frame_def on_js_def evals Let_def revert_and_return_def new_call_result_def
        split: option.splits dest!: call_frame_of_Val)
  have ne: "journal (ctx_js c) \<noteq> []" using assms(1) by (simp add: extends_journal)
  have e1: "extends (ctx_js c) j1" by (rule extends_load_code [OF ne l])
  have s1: "supply_fits db j1" using load_code_balance [OF l] supply_fits_balance [of db j1 "ctx_js c"] assms(3) by simp
  have e2: "extends j1 j2" using e1 by (intro fitting_transfer_extends [OF s1 _ t]) (simp add: extends_journal)
  have e: "extends (snd (js_checkpoint j0)) (ctx_js (c\<lparr>ctx_js := j2\<rparr>))"
    using extends_trans [OF extends_trans [OF assms(1) e1] e2] by simp
  show ?thesis
    using rest
  proof (elim disjE exE conjE)
    fix y assume x: "x = Ended y" and rv: "do_js (js_checkpoint_revert (fst (js_checkpoint j0))) (c\<lparr>ctx_js := j2\<rparr>) = Val c'"
    from reverted_from [OF e assms(2) rv] x show ?thesis by (simp add: same_frame_def)
  qed (use e in \<open>simp add: opened_def same_frame_def\<close>)
qed

lemma make_call_frame_cases [consumes 1, case_names too_deep refused handed_on ended running]:
  assumes "make_call_frame db inputs c = Val (Inr x, c')"
  obtains y where "x = Ended y" "c' = c"
  | acc j0 c2 e y where "js_load_code db (ci_bytecode_address inputs) (ctx_js c) = Val (Inr acc, j0)"
      "call_transfer db inputs (c\<lparr>ctx_js := snd (js_checkpoint j0)\<rparr>) = Val (Inr (Some e), c2)"
      "x = Ended y" "do_js (js_checkpoint_revert (fst (js_checkpoint j0))) c2 = Val c'"
  | acc j0 c2 ci c3 where "js_load_code db (ci_bytecode_address inputs) (ctx_js c) = Val (Inr acc, j0)"
      "call_transfer db inputs (c\<lparr>ctx_js := snd (js_checkpoint j0)\<rparr>) = Val (Inr None, c2)"
      "call_precompile inputs (gas_new (ci_gas_limit inputs)) c2 = Val (Some (NewCall ci), c3)"
      "new_call_frame db inputs ci (gas_new (ci_gas_limit inputs)) (fst (js_checkpoint j0)) c3 = Val (Inr x, c')"
  | acc j0 c2 out c3 y where "js_load_code db (ci_bytecode_address inputs) (ctx_js c) = Val (Inr acc, j0)"
      "call_transfer db inputs (c\<lparr>ctx_js := snd (js_checkpoint j0)\<rparr>) = Val (Inr None, c2)"
      "call_precompile inputs (gas_new (ci_gas_limit inputs)) c2 = Val (out, c3)" "x = Ended y"
      "if is_ok (ir_result (into_interpreter_result y)) then do_js js_checkpoint_commit c3 = Val c'
       else do_js (js_checkpoint_revert (fst (js_checkpoint j0))) c3 = Val c'"
  | acc j0 c2 c3 rng i where "js_load_code db (ci_bytecode_address inputs) (ctx_js c) = Val (Inr acc, j0)"
      "call_transfer db inputs (c\<lparr>ctx_js := snd (js_checkpoint j0)\<rparr>) = Val (Inr None, c2)"
      "call_precompile inputs (gas_new (ci_gas_limit inputs)) c2 = Val (None, c3)" "c' = c3"
      "x = NewFrame (CallFrame rng \<lparr>fd_checkpoint = fst (js_checkpoint j0), fd_interpreter = i\<rparr>)"
proof (cases "depth (ctx_js c) > CALL_STACK_LIMIT")
  case True
  with assms that(1) show thesis by (auto simp: make_call_frame_def new_call_result_def)
next
  case False
  with assms obtain acc w j0 r c2 where l: "js_load_code db (ci_bytecode_address inputs) (ctx_js c) = Val (Inr (acc, w), j0)"
    and t: "call_transfer db inputs (c\<lparr>ctx_js := snd (js_checkpoint j0)\<rparr>) = Val (Inr r, c2)"
    by (auto simp: make_call_frame_def on_js_def Let_def evals case_prod_beta)
  show thesis
  proof (cases r)
    case (Some e)
    with assms False l t that(2) show thesis
      by (auto simp: make_call_frame_def on_js_def Let_def evals case_prod_beta revert_and_return_def new_call_result_def)
  next
    case None
    with assms False l t obtain out c3 where p: "call_precompile inputs (gas_new (ci_gas_limit inputs)) c2 = Val (out, c3)"
      by (auto simp: make_call_frame_def on_js_def Let_def evals case_prod_beta)
    note run = assms False l t [unfolded None] p
    show thesis
    proof (cases out)
      case None
      with run that(4,5) show thesis
        by (auto simp: make_call_frame_def on_js_def Let_def evals case_prod_beta new_call_result_def
            dest!: call_frame_of_Val split: if_splits)
    next
      case (Some y)
      with run that(3,4) show thesis
        by (cases y) (auto simp: make_call_frame_def on_js_def Let_def evals case_prod_beta split: if_splits)
    qed
  qed
qed

lemma made_fromI:
  assumes "extends (ctx_js c) j0" "same_frame c c2" "same_frame c2 c'"
    "case x of NewFrame f \<Rightarrow> opened j0 f (ctx_js c') | Ended r \<Rightarrow> extends j0 (ctx_js c')"
  shows "made_from c j0 x c'"
  using assms by (simp add: made_from_def same_frame_def)

text \<open>The state a call opens its frame on differs from the one before the call by loaded code only.\<close>

lemma make_call_frame_made:
  assumes ne: "journal (ctx_js c) \<noteq> []" and fits: "supply_fits db (ctx_js c)"
    and known: "known_precompiles K db (ctx_precompiles c)" and run: "make_call_frame db inputs c = Val (Inr x, c')"
  shows "\<exists>j0. made_from c j0 x c' \<and> same_world db (ctx_js c) j0 \<and>
    (\<forall>r. x = Ended r \<longrightarrow> \<not> is_ok (ir_result (into_interpreter_result r)) \<longrightarrow> restored (ctx_js c') j0)"
proof -
  have opened: "extends (ctx_js c) j0 \<and> same_world db (ctx_js c) j0 \<and> journal j0 \<noteq> [] \<and>
      extends (snd (js_checkpoint j0)) (ctx_js c2) \<and> same_frame c c2 \<and> supply_fits db (ctx_js c2)"
    if l: "js_load_code db (ci_bytecode_address inputs) (ctx_js c) = Val (Inr acc, j0)"
      and t: "call_transfer db inputs (c\<lparr>ctx_js := snd (js_checkpoint j0)\<rparr>) = Val (Inr r, c2)" for acc j0 r c2
  proof -
    have e: "extends (ctx_js c) j0" by (rule extends_load_code [OF ne l])
    have "balance db (snd (js_checkpoint j0)) = balance db j0"
      using info_of_cong [of "snd (js_checkpoint j0)" j0 db] by (simp add: balance_def fun_eq_iff)
    with load_code_balance [OF l] fits have "supply_fits db (snd (js_checkpoint j0))"
      using supply_fits_balance [of db "snd (js_checkpoint j0)" "ctx_js c"] by simp
    with call_transfer_undo [OF _ _ t] e load_code_same_world [OF l] show ?thesis
      by (simp add: extends_journal same_frame_def)
  qed
  have called: "extends (snd (js_checkpoint j0)) (ctx_js c3) \<and> same_frame c c3 \<and> (out = Some (NewCall ci) \<longrightarrow> supply_fits db (ctx_js c3))"
    if l: "js_load_code db (ci_bytecode_address inputs) (ctx_js c) = Val (Inr acc, j0)"
      and t: "call_transfer db inputs (c\<lparr>ctx_js := snd (js_checkpoint j0)\<rparr>) = Val (Inr None, c2)"
      and p: "call_precompile inputs g c2 = Val (out, c3)" for acc j0 c2 g out c3 ci
  proof -
    note o2 = opened [OF l t]
    then have n2: "journal (ctx_js c2) \<noteq> []" and k2: "known_precompiles K db (ctx_precompiles c2)"
      using known by (auto simp: extends_journal same_frame_def)
    have f2: "supply_fits db (ctx_js c2)" using o2 by simp
    have "extends (snd (js_checkpoint j0)) (ctx_js c3)"
      using o2 call_precompile_undo(1) [OF n2 f2 k2 p] by (blast intro: extends_trans)
    with o2 call_precompile_undo(2,3) [OF n2 f2 k2 p] show ?thesis by (simp add: same_frame_def)
  qed
  from run show ?thesis
  proof (cases rule: make_call_frame_cases)
    case (too_deep y)
    then show ?thesis using ne
      by (intro exI [of _ "ctx_js c"]) (simp add: made_from_def same_frame_def extends_refl same_world_refl restored_def st_sim_refl)
  next
    case (refused acc j0 c2 e y)
    note o2 = opened [OF refused(1,2)]
    with reverted_from [OF _ _ refused(4)] refused(3) show ?thesis
      by (intro exI [of _ j0]) (simp add: made_fromI [of c j0 c2])
  next
    case (handed_on acc j0 c2 ci c3)
    note o2 = opened [OF handed_on(1,2)] and o3 = called [OF handed_on(1-3), of ci]
    from new_call_frame_made [OF _ _ _ handed_on(4)] o2 o3 show ?thesis
      by (cases x; intro exI [of _ j0]) (simp_all add: made_fromI [of c j0 c3])
  next
    case (ended acc j0 c2 out c3 y)
    note o2 = opened [OF ended(1,2)] and o3 = called [OF ended(1-3)]
    from ended(5) have "extends j0 (ctx_js c') \<and> same_frame c3 c' \<and>
        (\<not> is_ok (ir_result (into_interpreter_result y)) \<longrightarrow> restored (ctx_js c') j0)"
    proof (cases "is_ok (ir_result (into_interpreter_result y))")
      case True
      with ended(5) have "do_js js_checkpoint_commit c3 = Val c'" by simp
      from committed_from [OF _ _ this] o2 o3 True show ?thesis by blast
    next
      case False
      with ended(5) have "do_js (js_checkpoint_revert (fst (js_checkpoint j0))) c3 = Val c'" by simp
      from reverted_from [OF _ _ this] o2 o3 show ?thesis by blast
    qed
    with ended(4) o2 o3 show ?thesis by (intro exI [of _ j0]) (simp add: made_fromI [of c j0 c3])
  next
    case (running acc j0 c2 c3 rng i)
    note o2 = opened [OF running(1,2)] and o3 = called [OF running(1-3)]
    with running(4,5) show ?thesis
      by (intro exI [of _ j0]) (simp add: made_from_def opened_def)
  qed
qed

section \<open>Creations\<close>

lemma load_account_creatable:
  assumes "js_load_account db a j = Val (r, j')" "\<And>b. creatable j b"
  shows "creatable j' b"
proof (cases "j' = j")
  case False
  with assms(1) obtain i where "basic db a = Inr i" and "j' = put_account a (case i of Some i \<Rightarrow> account_of_info i | None \<Rightarrow> new_not_existing)
                    (j\<lparr>journal := push_last (AccountLoaded a) (journal j)\<rparr>)"
    by (cases r) (auto simp: js_load_account_def evals Let_def split: option.splits)
  moreover have "fresh_account (case i of Some i \<Rightarrow> account_of_info i | None \<Rightarrow> new_not_existing)"
    by (auto simp: fresh_account_def is_created_def account_of_info_def new_not_existing_def flag_ops Created_def Loaded_def
        LoadedAsNotExisting_def flag_contains_def split: option.splits)
  ultimately show ?thesis using assms(2) by (auto simp: creatable_def)
qed (use assms(2) in simp)

lemma inc_nonce_creatable:
  assumes "js_inc_nonce a j = Val (r, j')" "\<And>b. creatable j b"
  shows "creatable j' b"
proof -
  from assms(1) obtain x where x: "acct j a = Some x" by (auto simp: js_inc_nonce_def evals)
  show ?thesis
  proof (cases "nonce (info x) = - 1")
    case True
    with assms x show ?thesis by (auto simp: js_inc_nonce_def evals)
  next
    case False
    with assms(1) x obtain x1 j1 where t: "touch_account a x j = Val (x1, j1)"
      and j': "j' = put_account a (x1\<lparr>info := (info x1)\<lparr>nonce := nonce (info x1) + 1\<rparr>\<rparr>)
                     (j1\<lparr>journal := push_last (NonceChange a) (journal j1)\<rparr>)"
      by (auto simp: js_inc_nonce_def evals Let_def push_journal_def split: if_splits)
    have "nonce (info x1) + 1 \<noteq> 0"
      using False touch_account_frame(1) [OF t] by (metis add.right_neutral add_eq_0_iff diff_add_cancel eq_neg_iff_add_eq_0)
    with touch_account_frame(5) [OF t] j' assms(2) show ?thesis by (auto simp: creatable_def)
  qed
qed

text \<open>Both creations share their steps; only the address and the interpreter differ.\<close>

lemma create_made:
  assumes ne: "journal (ctx_js c) \<noteq> []" and safe: "\<And>a. creatable (ctx_js c) a"
    and run: "create_prelude db cal v re
        (\<lambda>n c. create_account_frame db sp cal (addr n) v re (\<lambda>cp c. bindE (m n) (\<lambda>i. Val (Inr (NewFrame (F n cp i)), c))) c) c =
      Val (Inr x, c')"
    and re: "\<And>e. \<exists>y. re e = Ended y" and F: "\<And>n cp i. frame_checkpoint (F n cp i) = cp"
  shows "\<exists>j0. made_from c j0 x c'"
proof (cases "depth (ctx_js c) > CALL_STACK_LIMIT")
  case True
  with run re [of CallTooDeep] ne show ?thesis
    by (intro exI [of _ "ctx_js c"]) (auto simp: create_prelude_def made_from_def same_frame_def extends_refl)
next
  case False
  with run obtain b w j1 where l1: "ctx_base_balance db cal (ctx_js c) = Val (Inr (b, w), j1)"
    by (auto simp: create_prelude_def on_js_def evals)
  from query_loads(2) [OF l1] obtain q1 where q1: "js_load_account db cal (ctx_js c) = Val (q1, j1)" ..
  have e1: "extends (ctx_js c) j1" by (rule extends_load_account [OF ne q1])
  then have n1: "journal j1 \<noteq> []" by (simp add: extends_journal)
  show ?thesis
  proof (cases "b < v")
    case True
    with False run l1 re [of OutOfFunds] e1 n1 show ?thesis
      by (intro exI [of _ j1]) (auto simp: create_prelude_def on_js_def made_from_def same_frame_def extends_refl)
  next
    case v: False
    with False run l1 obtain n j2 where n: "js_inc_nonce cal j1 = Val (n, j2)"
      by (auto simp: create_prelude_def on_js_def evals)
    have e2: "extends j1 j2" by (rule extends_inc_nonce [OF n1 n])
    then have n2: "journal j2 \<noteq> []" and e12: "extends (ctx_js c) j2" using e1 by (auto simp: extends_journal intro: extends_trans)
    show ?thesis
    proof (cases n)
      case None
      with False v run l1 n re [of Return] e12 n2 show ?thesis
        by (intro exI [of _ j2]) (auto simp: create_prelude_def on_js_def made_from_def same_frame_def extends_refl)
    next
      case (Some k)
      with False v run l1 n obtain q3 j3 r j4 where l3: "js_load_account db (addr k) j2 = Val (Inr q3, j3)"
        and cr: "js_create_account_checkpoint cal (addr k) v sp j3 = Val (r, j4)"
        by (auto simp: create_prelude_def create_account_frame_def on_js_def evals)
      have e3: "extends j2 j3" by (rule extends_load_account [OF n2 l3])
      then have n3: "journal j3 \<noteq> []" and e13: "extends (ctx_js c) j3" using e12 by (auto simp: extends_journal intro: extends_trans)
      have "creatable j3 (addr k)"
        by (intro load_account_creatable [OF l3] inc_nonce_creatable [OF n] load_account_creatable [OF q1] safe)
      note made = create_account_extends [OF n3 cr this]
      show ?thesis
      proof (cases r)
        case (Inl e)
        with False v run l1 n Some l3 cr made re [of e] e13 restored_extends [OF n3] show ?thesis
          by (intro exI [of _ j3])
            (auto simp: create_prelude_def create_account_frame_def on_js_def made_from_def same_frame_def)
      next
        case (Inr cp)
        with False v run l1 n Some l3 cr made F e13 show ?thesis
          by (intro exI [of _ j3])
            (auto simp: create_prelude_def create_account_frame_def on_js_def evals made_from_def same_frame_def opened_def)
      qed
    qed
  qed
qed

lemma make_create_frame_made:
  assumes "journal (ctx_js c) \<noteq> []" "\<And>a. creatable (ctx_js c) a" "make_create_frame L db sp inputs c = Val (Inr x, c')"
  shows "\<exists>j0. made_from c j0 x c'"
  using assms(3) unfolding make_create_frame_def Let_def case_prod_beta
  by (rule create_made [OF assms(1,2)]) (simp_all add: new_create_result_def)

lemma make_eofcreate_frame_made:
  assumes "journal (ctx_js c) \<noteq> []" "\<And>a. creatable (ctx_js c) a" "make_eofcreate_frame db sp inputs c = Val (Inr x, c')"
  shows "\<exists>j0. made_from c j0 x c'"
  using assms(3) unfolding make_eofcreate_frame_def Let_def
  by (rule create_made [OF assms(1,2)]) (simp_all add: new_eofcreate_result_def)

section \<open>Returning from a frame\<close>

text \<open>Code is stored on an account that has none.\<close>

fun code_free :: "frame \<Rightarrow> journaled_state \<Rightarrow> bool" where
  "code_free (CallFrame _ _) j \<longleftrightarrow> True"
| "code_free (CreateFrame a _) j \<longleftrightarrow> (\<forall>x. acct j a = Some x \<longrightarrow> code_hash (info x) = KECCAK_EMPTY)"
| "code_free (EOFCreateFrame a _ _) j \<longleftrightarrow> (\<forall>x. acct j a = Some x \<longrightarrow> code_hash (info x) = KECCAK_EMPTY)"

lemma code_stored:
  assumes "extends (snd (js_checkpoint j0)) (ctx_js c)" "journal j0 \<noteq> []"
    "\<forall>x. acct (ctx_js c) a = Some x \<longrightarrow> code_hash (info x) = KECCAK_EMPTY"
    "do_js js_checkpoint_commit c = Val c1" "do_js (js_set_code K a bc) c1 = Val c2"
  shows "extends j0 (ctx_js c2)" "same_frame c c2"
proof -
  note e1 = committed_from [OF assms(1,2,4)]
  have "acct (ctx_js c1) = acct (ctx_js c)"
    using assms(4) by (auto simp: do_js_def js_checkpoint_commit_def acct_def fun_eq_iff evals split: if_splits)
  moreover from assms(5) obtain j2 where j2: "js_set_code K a bc (ctx_js c1) = Val j2" and c2: "c2 = c1\<lparr>ctx_js := j2\<rparr>"
    by (auto simp: do_js_def evals)
  ultimately have "extends (ctx_js c1) j2"
    using assms(3) e1(1) by (intro extends_set_code [OF _ j2]) (simp_all add: extends_journal)
  with e1 c2 show "extends j0 (ctx_js c2)" "same_frame c c2"
    by (auto simp: same_frame_def intro: extends_trans)
qed

lemma inner_create_return_cases:
  assumes "inner_create_return K sp res a cp c = Val (res', c')"
  shows "do_js (js_checkpoint_revert cp) c = Val c' \<or>
     ir_result res' = Return \<and>
     (\<exists>c1 bc. do_js js_checkpoint_commit c = Val c1 \<and> do_js (js_set_code K a bc) c1 = Val c')"
proof (cases "do_js (js_checkpoint_revert cp) c = Val c'")
  case False
  then have no: "bindE (do_js (js_checkpoint_revert cp) c) (\<lambda>c. Val (q, c)) \<noteq> Val (res', c')" for q
    by (auto simp: evals)
  let ?n = "unwrap (checked_mul (of_nat (length (ir_output res))) CODEDEPOSIT)"
  from assms no obtain gfc where "?n = Val gfc"
    by (auto simp: inner_create_return_def Let_def evals simp del: unwrap_Val_iff split: if_split_asm)
  then show ?thesis
    using assms no
    by (cases "record_cost (ir_gas res) gfc") (auto simp: inner_create_return_def Let_def bindE_Val_iff split: if_split_asm)
qed simp

lemma frame_return_undo:
  assumes "opened j0 f (ctx_js c)" "journal j0 \<noteq> []" "code_free f (ctx_js c)" "frame_return L sp f res c = Val (r, c')"
  shows "extends j0 (ctx_js c') \<and> same_frame c c' \<and>
     (\<not> is_ok (ir_result (into_interpreter_result r)) \<longrightarrow> restored (ctx_js c') j0)"
proof (cases f)
  case (CallFrame rng d)
  with assms(1) have e: "extends (snd (js_checkpoint j0)) (ctx_js c)" and cp: "fd_checkpoint d = fst (js_checkpoint j0)"
    by (simp_all add: opened_def)
  show ?thesis
  proof (cases "is_ok (ir_result res)")
    case True
    with CallFrame assms(4) have "do_js js_checkpoint_commit c = Val c'" "r = CallResult \<lparr>co_result = res, co_memory_offset = rng\<rparr>"
      by (auto simp: inner_call_return_def evals)
    with committed_from [OF e assms(2)] True show ?thesis by simp
  next
    case False
    with CallFrame assms(4) cp have "do_js (js_checkpoint_revert (fst (js_checkpoint j0))) c = Val c'"
      by (auto simp: inner_call_return_def evals)
    with reverted_from [OF e assms(2)] show ?thesis by simp
  qed
next
  case (EOFCreateFrame a rng d)
  with assms(1) have e: "extends (snd (js_checkpoint j0)) (ctx_js c)" and cp: "fd_checkpoint d = fst (js_checkpoint j0)"
    by (simp_all add: opened_def)
  show ?thesis
  proof (cases "ir_result res = ReturnContract")
    case True
    with EOFCreateFrame assms(4) obtain c1 x where "do_js js_checkpoint_commit c = Val c1"
      "do_js (js_set_code (keccak256 L) a (Eof x)) c1 = Val c'" "ir_result (into_interpreter_result r) = ReturnContract"
      by (auto simp: inner_eofcreate_return_def evals)
    with code_stored [OF e assms(2)] assms(3) EOFCreateFrame show ?thesis by simp
  next
    case False
    with EOFCreateFrame assms(4) cp have "do_js (js_checkpoint_revert (fst (js_checkpoint j0))) c = Val c'"
      by (auto simp: inner_eofcreate_return_def evals)
    with reverted_from [OF e assms(2)] show ?thesis by simp
  qed
next
  case (CreateFrame a d)
  with assms(1) have e: "extends (snd (js_checkpoint j0)) (ctx_js c)" and cp: "fd_checkpoint d = fst (js_checkpoint j0)"
    by (simp_all add: opened_def)
  from CreateFrame assms(4) cp
  have "do_js (js_checkpoint_revert (fst (js_checkpoint j0))) c = Val c' \<or>
      ir_result (into_interpreter_result r) = Return \<and>
      (\<exists>c1 bc. do_js js_checkpoint_commit c = Val c1 \<and> do_js (js_set_code (keccak256 L) a bc) c1 = Val c')"
    using inner_create_return_cases [of "keccak256 L" sp res a "fst (js_checkpoint j0)" c _ c'] by (fastforce simp: evals)
  then show ?thesis
  proof (elim disjE exE conjE)
    assume "do_js (js_checkpoint_revert (fst (js_checkpoint j0))) c = Val c'"
    with reverted_from [OF e assms(2)] show ?thesis by simp
  next
    fix c1 bc
    assume "ir_result (into_interpreter_result r) = Return" "do_js js_checkpoint_commit c = Val c1"
      "do_js (js_set_code (keccak256 L) a bc) c1 = Val c'"
    with code_stored [OF e assms(2)] assms(3) CreateFrame show ?thesis by simp
  qed
qed

section \<open>The call stack\<close>

text \<open>
  Every frame was opened on a state the frames below it could still undo; the lowest on \<open>j0\<close>. The last
  frame of the vector is the head of the list.
\<close>

fun undo_stack :: "journaled_state \<Rightarrow> frame list \<Rightarrow> journaled_state \<Rightarrow> bool" where
  "undo_stack j0 [] j \<longleftrightarrow> extends j0 j"
| "undo_stack j0 [f] j \<longleftrightarrow> opened j0 f j"
| "undo_stack j0 (f # g # fs) j \<longleftrightarrow> (\<exists>j1. opened j1 f j \<and> undo_stack j0 (g # fs) j1)"

lemma opened_extends: "opened j0 f j \<Longrightarrow> extends j j' \<Longrightarrow> opened j0 f j'"
  by (auto simp: opened_def intro: extends_trans)

lemma undo_stack_extends: "undo_stack j0 fs j \<Longrightarrow> extends j j' \<Longrightarrow> undo_stack j0 fs j'"
  by (induction j0 fs j rule: undo_stack.induct) (auto intro: opened_extends extends_trans)

lemma undo_stack_journal:
  assumes "undo_stack j0 fs j" "journal j0 \<noteq> []"
  shows "journal j \<noteq> []"
  using assms by (induction j0 fs j rule: undo_stack.induct) (auto simp: opened_def extends_journal)

lemma undo_stack_push:
  assumes "fs \<noteq> []" "undo_stack j0 fs j1" "opened j1 f j"
  shows "undo_stack j0 (f # fs) j"
  using assms by (cases fs) auto

lemma undo_stack_interpreter:
  "frame_checkpoint (set_frame_interpreter i f) = frame_checkpoint f"
  "undo_stack j0 (set_frame_interpreter i f # fs) j = undo_stack j0 (f # fs) j"
proof -
  show cp: "frame_checkpoint (set_frame_interpreter i f) = frame_checkpoint f" by (cases f) simp_all
  show "undo_stack j0 (set_frame_interpreter i f # fs) j = undo_stack j0 (f # fs) j"
    by (cases fs) (simp_all add: opened_def cp)
qed

section \<open>The loop\<close>

text \<open>
  What the theorem asks of the action a frame ends with: a call finds supplies that fit, a creation
  finds accounts that can be created, and code is stored on an account that has none.
\<close>

fun sound_action :: "'e database \<Rightarrow> interpreter_action \<Rightarrow> frame \<Rightarrow> journaled_state \<Rightarrow> bool" where
  "sound_action db (ActCall _) f j \<longleftrightarrow> supply_fits db j"
| "sound_action db (ActCreate _) f j \<longleftrightarrow> (\<forall>a. creatable j a)"
| "sound_action db (ActEOFCreate _) f j \<longleftrightarrow> (\<forall>a. creatable j a)"
| "sound_action db (ActReturn _) f j \<longleftrightarrow> code_free f j"
| "sound_action db ActNone f j \<longleftrightarrow> True"

abbreviation mainnet_tables :: "alloy \<Rightarrow> 'e database \<Rightarrow> spec_id \<Rightarrow> 'e evm_context instruction_tables" where
  "mainnet_tables L db sp \<equiv> new_plain (context_host (keccak256 L) db) L sp"

definition sound_iteration :: "alloy \<Rightarrow> 'e database \<Rightarrow> spec_id \<Rightarrow> 'e loop_state \<Rightarrow> bool" where
  "sound_iteration L db sp s \<longleftrightarrow>
     (case execute_frame (mainnet_tables L db sp) (hd (call_stack s)) (loop_memory s) (loop_context s) of
        Some (Val (act, f, m, c)) \<Rightarrow> sound_action db act f (ctx_js c)
      | _ \<Rightarrow> True)"

text \<open>A run of the loop to its end, every iteration of it sound.\<close>

inductive sound_loop :: "alloy \<Rightarrow> 'e database \<Rightarrow> spec_id \<Rightarrow> 'e loop_state \<Rightarrow> 'e loop_exit \<Rightarrow> bool"
  for L :: alloy and db :: "'e database" and sp :: spec_id where
  exit: "loop_iteration L db sp (mainnet_tables L db sp) s = Some (Val (Inl r)) \<Longrightarrow> sound_iteration L db sp s \<Longrightarrow>
    sound_loop L db sp s r"
| again: "loop_iteration L db sp (mainnet_tables L db sp) s = Some (Val (Inr s')) \<Longrightarrow> sound_iteration L db sp s \<Longrightarrow>
    sound_loop L db sp s' r \<Longrightarrow> sound_loop L db sp s r"

lemma sound_loop_main: "sound_loop L db sp s r \<Longrightarrow> main_loop L db sp (mainnet_tables L db sp) s = Some (Val r)"
  by (induction rule: sound_loop.induct) (subst main_loop.simps, simp)+

lemma execute_frame_undo:
  assumes "execute_frame (mainnet_tables L db sp) f m c = Some (Val (act, f', m', c'))" "journal (ctx_js c) \<noteq> []"
  shows "extends (ctx_js c) (ctx_js c') \<and> same_frame c c' \<and> (\<exists>i. f' = set_frame_interpreter i f)"
proof -
  from assms(1) obtain i where run: "run (instruction (context_host (keccak256 L) db) L sp) m (frame_interpreter f) c = Some (Val (act, i, c'))"
    and f': "f' = set_frame_interpreter (snd (take_memory i)) f"
    by (auto simp: execute_frame_def new_plain_def make_instruction_table_def evals Let_def case_prod_beta)
  from writing_context.run_within [OF run] assms(2) f' show ?thesis
    by (auto simp: can_be_undone_def same_frame_def)
qed

lemma take_error_keeps: "take_error c = (r, c') \<Longrightarrow> ctx_js c' = ctx_js c \<and> same_frame c c'"
  by (auto simp: take_error_def same_frame_def split: option.splits)

text \<open>After the action: a frame to push on a stack that can undo it, or a result.\<close>

definition acted :: "journaled_state \<Rightarrow> frame_or_result \<Rightarrow> 'e loop_state \<Rightarrow> bool" where
  "acted j0 x s \<longleftrightarrow>
     (case x of
        NewFrame g \<Rightarrow> call_stack s \<noteq> [] \<and> (\<exists>j1. undo_stack j0 (call_stack s) j1 \<and> opened j1 g (ctx_js (loop_context s)))
      | Ended r \<Rightarrow> undo_stack j0 (call_stack s) (ctx_js (loop_context s)) \<and>
          (call_stack s = [] \<longrightarrow> \<not> is_ok (ir_result (into_interpreter_result r)) \<longrightarrow> restored (ctx_js (loop_context s)) j0))"

lemma made_acted:
  assumes "made_from (loop_context s) j1 x c'" "undo_stack j0 (call_stack s) (ctx_js (loop_context s))" "call_stack s \<noteq> []"
  shows "acted j0 x (s\<lparr>loop_context := c'\<rparr>) \<and> same_frame (loop_context s) c'"
proof (cases x)
  case (NewFrame g)
  with assms show ?thesis by (auto simp: made_from_def acted_def intro: undo_stack_extends)
next
  case (Ended r)
  with assms show ?thesis by (auto simp: made_from_def acted_def intro: undo_stack_extends)
qed

lemma next_frame_acted:
  assumes run: "next_frame_or_result L db sp act s = Val (Inr x, s')" and cs: "call_stack s = f # fs"
    and stack: "undo_stack j0 (call_stack s) (ctx_js (loop_context s))" and ne0: "journal j0 \<noteq> []"
    and known: "known_precompiles (keccak256 L) db (ctx_precompiles (loop_context s))"
    and sound: "sound_action db act f (ctx_js (loop_context s))"
  shows "acted j0 x s' \<and> same_frame (loop_context s) (loop_context s')"
proof -
  have ne: "journal (ctx_js (loop_context s)) \<noteq> []" by (rule undo_stack_journal [OF stack ne0])
  have made: ?thesis if "s' = s\<lparr>loop_context := c'\<rparr>" "\<exists>j1. made_from (loop_context s) j1 x c'" for c'
    using that made_acted [OF _ stack] cs by auto
  show ?thesis
  proof (cases act)
    case (ActCall inputs)
    with run obtain c' where "make_call_frame db inputs (loop_context s) = Val (Inr x, c')" "s' = s\<lparr>loop_context := c'\<rparr>"
      by (auto simp: next_frame_or_result_def Let_def evals)
    with make_call_frame_made [OF ne _ known] sound ActCall show ?thesis using made by fastforce
  next
    case (ActCreate inputs)
    with run obtain c' where "make_create_frame L db sp inputs (loop_context s) = Val (Inr x, c')" "s' = s\<lparr>loop_context := c'\<rparr>"
      by (auto simp: next_frame_or_result_def Let_def evals)
    with make_create_frame_made [OF ne] sound ActCreate show ?thesis using made by fastforce
  next
    case (ActEOFCreate inputs)
    with run obtain c' where "make_eofcreate_frame db sp inputs (loop_context s) = Val (Inr x, c')" "s' = s\<lparr>loop_context := c'\<rparr>"
      by (auto simp: next_frame_or_result_def Let_def evals)
    with make_eofcreate_frame_made [OF ne] sound ActEOFCreate show ?thesis using made by fastforce
  next
    case (ActReturn res)
    with run cs obtain m r c' where ret: "frame_return L sp f res (loop_context s) = Val (r, c')" and x: "x = Ended r"
      and s': "s' = \<lparr>call_stack = fs, loop_memory = m, loop_context = c'\<rparr>"
      by (auto simp: next_frame_or_result_def Let_def evals)
    have free: "code_free f (ctx_js (loop_context s))" using sound ActReturn by simp
    show ?thesis
    proof (cases fs)
      case Nil
      with stack cs have "opened j0 f (ctx_js (loop_context s))" by simp
      from frame_return_undo [OF this ne0 free ret] Nil x s' show ?thesis by (simp add: acted_def)
    next
      case (Cons g gs)
      with stack cs obtain j1 where op: "opened j1 f (ctx_js (loop_context s))" and below: "undo_stack j0 fs j1" by auto
      have "journal j1 \<noteq> []" by (rule undo_stack_journal [OF below ne0])
      from frame_return_undo [OF op this free ret] below Cons x s' show ?thesis
        by (auto simp: acted_def intro: undo_stack_extends)
    qed
  qed (use run in \<open>simp add: next_frame_or_result_def Let_def\<close>)
qed

text \<open>What holds after an iteration.\<close>

fun iterated :: "journaled_state \<Rightarrow> 'e evm_context \<Rightarrow> 'e loop_exit + 'e loop_state \<Rightarrow> bool" where
  "iterated j0 c (Inr s) \<longleftrightarrow>
     call_stack s \<noteq> [] \<and> undo_stack j0 (call_stack s) (ctx_js (loop_context s)) \<and> same_frame c (loop_context s)"
| "iterated j0 c (Inl (Inr r, c')) \<longleftrightarrow>
     extends j0 (ctx_js c') \<and> same_frame c c' \<and>
     (\<not> is_ok (ir_result (into_interpreter_result r)) \<longrightarrow> restored (ctx_js c') j0)"
| "iterated j0 c (Inl (Inl e, c')) \<longleftrightarrow> True"

lemma insert_outcome_frame: "insert_outcome r f m = Val (f', m') \<Longrightarrow> \<exists>i. f' = set_frame_interpreter i f"
  by (cases r) (auto simp: evals)

lemma handled:
  assumes "acted j0 x s" "same_frame c (loop_context s)" "handle_frame_or_result x s = Val y"
  shows "iterated j0 c y"
proof (cases x)
  case (NewFrame g)
  with assms show ?thesis by (auto simp: acted_def intro: undo_stack_push)
next
  case (Ended r)
  show ?thesis
  proof (cases "call_stack s")
    case Nil
    with Ended assms show ?thesis by (auto simp: acted_def)
  next
    case (Cons f fs)
    obtain e c1 where t: "take_error (loop_context s) = (e, c1)" by (cases "take_error (loop_context s)")
    show ?thesis
    proof (cases e)
      case (Inl q)
      with Ended Cons t assms(3) show ?thesis by auto
    next
      case (Inr q)
      with Ended Cons t assms(3) obtain f' m' where ins: "insert_outcome r f (loop_memory s) = Val (f', m')"
        and y: "y = Inr \<lparr>call_stack = f' # fs, loop_memory = m', loop_context = c1\<rparr>"
        by (auto simp: evals)
      from insert_outcome_frame [OF ins] obtain i where "f' = set_frame_interpreter i f" ..
      with take_error_keeps [OF t] assms(1,2) Ended Cons y show ?thesis
        by (simp add: acted_def undo_stack_interpreter same_frame_def)
    qed
  qed
qed

lemma iteration_undo:
  assumes iter: "loop_iteration L db sp (mainnet_tables L db sp) s = Some (Val y)" and sound: "sound_iteration L db sp s"
    and stack: "undo_stack j0 (call_stack s) (ctx_js (loop_context s))" and ne0: "journal j0 \<noteq> []"
    and known: "known_precompiles (keccak256 L) db (ctx_precompiles (loop_context s))"
  shows "iterated j0 (loop_context s) y"
proof -
  have ne: "journal (ctx_js (loop_context s)) \<noteq> []" by (rule undo_stack_journal [OF stack ne0])
  from iter obtain f fs where cs: "call_stack s = f # fs" by (cases "call_stack s") (auto simp: loop_iteration_def)
  with iter obtain act f' m c where ex: "execute_frame (mainnet_tables L db sp) f (loop_memory s) (loop_context s) = Some (Val (act, f', m, c))"
    by (auto simp: loop_iteration_def evals)
  obtain e c1 where t: "take_error c = (e, c1)" by (cases "take_error c")
  from execute_frame_undo [OF ex ne] obtain i where ext: "extends (ctx_js (loop_context s)) (ctx_js c)"
    and sf: "same_frame (loop_context s) c" and f': "f' = set_frame_interpreter i f" by blast
  let ?s = "\<lparr>call_stack = f' # fs, loop_memory = m, loop_context = c1\<rparr>"
  have stack1: "undo_stack j0 (call_stack ?s) (ctx_js (loop_context ?s))"
    using undo_stack_extends [OF stack ext] cs f' take_error_keeps [OF t] by (simp add: undo_stack_interpreter)
  have sf1: "same_frame (loop_context s) c1" using sf take_error_keeps [OF t] by (simp add: same_frame_def)
  show ?thesis
  proof (cases e)
    case (Inl q)
    with iter cs ex t show ?thesis by (auto simp: loop_iteration_def)
  next
    case (Inr q)
    with iter cs ex t obtain r s1 where nx: "next_frame_or_result L db sp act ?s = Val (r, s1)"
      and rest: "(case r of Inl e \<Rightarrow> Val (Inl (Inl e, loop_context s1)) | Inr x \<Rightarrow> handle_frame_or_result x s1) = Val y"
      by (auto simp: loop_iteration_def evals)
    show ?thesis
    proof (cases r)
      case (Inl q)
      with rest show ?thesis by auto
    next
      case (Inr x)
      have "sound_action db act f' (ctx_js (loop_context ?s))"
        using sound cs ex take_error_keeps [OF t] by (simp add: sound_iteration_def)
      moreover have "known_precompiles (keccak256 L) db (ctx_precompiles (loop_context ?s))"
        using known sf1 by (simp add: same_frame_def)
      ultimately have "acted j0 x s1 \<and> same_frame (loop_context ?s) (loop_context s1)"
        by (intro next_frame_acted [OF nx [unfolded Inr] _ stack1 ne0]) simp_all
      with rest Inr sf1 show ?thesis by (intro handled [of j0 x s1]) (auto simp: same_frame_def)
    qed
  qed
qed

lemma sound_loop_undo:
  assumes "sound_loop L db sp s r" "undo_stack j0 (call_stack s) (ctx_js (loop_context s))" "journal j0 \<noteq> []"
    "known_precompiles (keccak256 L) db (ctx_precompiles (loop_context s))"
  shows "iterated j0 (loop_context s) (Inl r)"
  using assms
proof (induction rule: sound_loop.induct)
  case (exit s r)
  then show ?case by (intro iteration_undo)
next
  case (again s s' r)
  have i: "iterated j0 (loop_context s) (Inr s')" by (rule iteration_undo [OF again(1,2,5,6,7)])
  then have "iterated j0 (loop_context s') (Inl r)"
    using again.IH again.prems(2,3) by (auto simp: same_frame_def)
  then show ?case using i by (cases r; cases "fst r") (auto simp: same_frame_def)
qed

lemma acc_sim_created: "acc_sim sd a x y \<Longrightarrow> is_created x = is_created y"
  unfolding acc_sim_def is_created_def created.contains_iff
  by (metis touched.bit_remove zero_neq_numeral)

lemma restored_same_world:
  assumes "restored j' j"
  shows "same_world db j j'"
proof -
  have st: "st_sim (spurious j) (st_of j') (st_of j)" and l: "logs j' = logs j" using assms by (simp_all add: restored_def)
  have sim: "rel_option (acc_sim (spurious j) a) (acct j' a) (acct j a)" for a
    using st by (simp add: acct_def st_sim.simps)
  have "get_balance (info_of db j' a) = get_balance (info_of db j a) \<and>
      nonce (info_of db j' a) = nonce (info_of db j a) \<and> code_hash (info_of db j' a) = code_hash (info_of db j a) \<and>
      (\<forall>k. slot_value db j' a k = slot_value db j a k)" for a
    using sim [of a]
    by (cases "acct j' a"; cases "acct j a")
      (simp_all add: info_of_def slot_value_def acc_sim_reads [of "spurious j" a] acc_sim_created [of "spurious j" a])
  moreover have "js_tload a k j' = js_tload a k j" for a k
  proof -
    have "transient_value (transient_storage j') (a, k) = transient_value (transient_storage j) (a, k)"
      using st by (simp add: st_sim.simps)
    then show ?thesis by (simp add: js_tload_def transient_value_def)
  qed
  ultimately show ?thesis using l by (simp add: same_world_def balance_def)
qed

section \<open>Properties\<close>

text \<open>
  A call to its end: it is answered at once (too deep, the transfer refused, a precompile, no code), or
  it opens a frame which the main loop runs with all the calls, creations and precompiles it makes in turn.
\<close>

inductive sound_call ::
  "alloy \<Rightarrow> 'e database \<Rightarrow> spec_id \<Rightarrow> call_inputs \<Rightarrow> 'e evm_context \<Rightarrow> frame_result \<Rightarrow> 'e evm_context \<Rightarrow> bool"
  for L :: alloy and db :: "'e database" and sp :: spec_id and inputs :: call_inputs and c :: "'e evm_context" where
  answered: "make_call_frame db inputs c = Val (Inr (Ended r), c2) \<Longrightarrow> sound_call L db sp inputs c r c2"
| executed: "make_call_frame db inputs c = Val (Inr (NewFrame f), c1) \<Longrightarrow>
    sound_loop L db sp \<lparr>call_stack = [f], loop_memory = m, loop_context = c1\<rparr> (Inr r, c2) \<Longrightarrow>
    main_loop L db sp (mainnet_tables L db sp) \<lparr>call_stack = [f], loop_memory = m, loop_context = c1\<rparr> = Some (Val (Inr r, c2)) \<Longrightarrow>
    sound_call L db sp inputs c r c2"

text \<open>
  C1. A call that fails is atomic. When a call comes back with anything but success, whether it was answered
  at once or ran a frame with all the calls, creations and precompiles it makes in turn, no balance,
  nonce, code hash, storage slot, transient slot or log differs from before the call, and the depth is back.
  The list of token ids is not part of this. The precompiles are those of the mainnet handler, and the run
  has to be sound: the supply of every token fits a word when a call is made (or an overflowing transfer leaves its
  debit behind), a creation finds accounts that can be created, and code is stored on an account that has none.
\<close>

theorem failed_call_changes_nothing:
  assumes "journal (ctx_js c) \<noteq> []" and "supply_fits db (ctx_js c)"
    and "ctx_precompiles c = load_precompiles P L db sp"
    and "sound_call L db sp inputs c r c2"
    and "\<not> is_ok (ir_result (into_interpreter_result r))"
  shows "same_world db (ctx_js c) (ctx_js c2) \<and> depth (ctx_js c2) = depth (ctx_js c)"
proof -
  have known: "known_precompiles (keccak256 L) db (ctx_precompiles c)"
    using load_precompiles_known assms(3) by simp
  note made = make_call_frame_made [OF assms(1,2) known]
  from assms(4) have "\<exists>j0. restored (ctx_js c2) j0 \<and> extends (ctx_js c) j0 \<and> same_world db (ctx_js c) j0"
  proof cases
    case answered
    from made [OF this] assms(5) show ?thesis by (auto simp: made_from_def)
  next
    case (executed f c1 m)
    from made [OF executed(1)] obtain j0 where
      mf: "made_from c j0 (NewFrame f) c1" and w: "same_world db (ctx_js c) j0" by blast
    then have e: "extends (ctx_js c) j0" and ne0: "journal j0 \<noteq> []" by (auto simp: made_from_def extends_journal)
    have "iterated j0 c1 (Inl (Inr r, c2))"
      using sound_loop_undo [OF executed(2) _ ne0] mf known by (simp add: made_from_def same_frame_def)
    with assms(5) e w show ?thesis by auto
  qed
  then obtain j0 where r: "restored (ctx_js c2) j0" and e: "extends (ctx_js c) j0" and w: "same_world db (ctx_js c) j0" by blast
  have "depth (ctx_js c2) = depth (ctx_js c)" using r e by (simp add: restored_def extends_def)
  with same_world_trans [OF w restored_same_world [OF r]] show ?thesis by blast
qed

text \<open>The hypotheses hold of a call with a value to a contract that stops at an invalid instruction.\<close>

definition failing_db :: "unit database" where
  "failing_db = (two_holders 10 3)\<lparr>basic := (\<lambda>a. Inr (if a = 1 then Some (info_of_balances [5 \<mapsto> 10])
       else if a = 2 then Some ((info_of_balances [5 \<mapsto> 3])\<lparr>code_hash := 1,
              code := Some (LegacyAnalyzed \<lparr>la_bytecode = [0xFE], la_original_len = 1, la_jump_table = []\<rparr>)\<rparr>)
       else None))\<rparr>"

definition failing_call :: call_inputs where
  "failing_call =
     \<lparr>ci_input = [], ci_return_memory_offset = (0, 0), ci_gas_limit = 100,
      ci_bytecode_address = 2, ci_target_address = 2, ci_caller = 1,
      ci_values = Transfer [\<lparr>tt_id = 5, tt_amount = 4\<rparr>], ci_scheme = SchemeCall,
      ci_is_static = False, ci_is_eof = False\<rparr>"

definition failing_context :: "unit evm_context" where
  "failing_context = (context_new_with_env sample_env)\<lparr>ctx_js := js_new CANCUN {},
     ctx_precompiles := load_precompiles (\<lambda>_. Map.empty) sample_alloy failing_db CANCUN\<rparr>"

lemma failing_supply: "supply_fits failing_db (ctx_js failing_context)"
proof -
  have "balance failing_db (js_new CANCUN {}) a t = (if t = 5 then (if a = 1 then 10 else if a = 2 then 3 else 0) else 0)" for a t
    by (simp add: balance_def info_of_def js_new_def acct_def default_evm_state_def info_of_balances_def
      get_balance_def default_account_info_def failing_db_def)
  then have "holdings failing_db (js_new CANCUN {}) UNIV t =
      (\<Sum>a\<in>(UNIV :: address set). (if t = 5 then (if a = 1 then 10 else 0) + (if a = 2 then 3 else 0) else 0))" for t
    unfolding holdings_def by (intro sum.cong) auto
  then have "holdings failing_db (js_new CANCUN {}) UNIV t = (if t = 5 then 13 else 0)" for t
    by (simp add: sum.distrib)
  then show ?thesis by (simp add: supply_fits_def failing_context_def)
qed

lemma native_tokens_odd: "odd NATIVE_TOKENS_ADDRESS"
proof -
  have "to_be_bytes (1 :: u64) = nat_be 7 0 @ [1]"
    using nat_be.simps(2) [of 7 1] by (simp add: to_be_bytes_def)
  then have eq: "NATIVE_TOKENS_ADDRESS = of_nat (be_nat ([112, 96] @ replicate 10 0 @ nat_be 7 0) * 256 + 1)"
    using be_nat_snoc [of "[112, 96] @ replicate 10 0 @ nat_be 7 0" 1]
    by (simp only: NATIVE_TOKENS_ADDRESS_def u64_to_prefixed_address_def from_be_bytes_def append_assoc unat_1)
  show ?thesis unfolding eq of_nat_add of_nat_mult by simp
qed
lemma native_tokens_elsewhere: "2 \<noteq> NATIVE_TOKENS_ADDRESS"
  using native_tokens_odd by auto

lemma failing_frame:
  "\<exists>cp i c1. make_call_frame failing_db failing_call failing_context =
      Val (Inr (NewFrame (CallFrame (0, 0) \<lparr>fd_checkpoint = cp, fd_interpreter = i\<rparr>)), c1) \<and>
     ctx_error c1 = None \<and> ip i = 0 \<and> code_bytes i = [0xFE] \<and> instr_result i = Continue \<and> next_action i = ActNone"
  by (simp add: make_call_frame_def failing_context_def failing_call_def failing_db_def context_new_with_env_def
      CALL_STACK_LIMIT_def on_js_def js_load_code_def run_simps js_checkpoint_def call_transfer_def
      call_precompile_def precompiles_call_def load_precompiles_def from_precompiles_def native_tokens_elsewhere
      call_frame_of_def interpreter_new_def contract_new_with_context_def contract_new_def
      bytecode_is_empty_def)

lemma invalid_instruction_runs:
  assumes "ip i = 0" "code_bytes i = [0xFE]" "instr_result i = Continue"
  shows "\<exists>i'. run (instruction H L CANCUN) m i h =
     Some (Val (ActReturn \<lparr>ir_result = InvalidFEOpcode, ir_output = [], ir_gas = int_gas i\<rparr>, i', h)) \<and> memory i' = m"
proof -
  let ?i = "i\<lparr>next_action := ActNone, memory := m\<rparr>"
  have inv: "instruction H L CANCUN 0xFE = i_invalid" by (simp add: instruction_def instruction_rows_def)
  have "step (instruction H L CANCUN) ?i h = Val (?i\<lparr>ip := 1, instr_result := InvalidFEOpcode\<rparr>, h)"
    using assms by (simp add: step_def current_opcode_def inv i_invalid_def fail_def)
  then have "run_loop (instruction H L CANCUN) ?i h = Some (Val (?i\<lparr>ip := 1, instr_result := InvalidFEOpcode\<rparr>, h))"
    using assms(3) by (subst run_loop.simps, simp) (subst run_loop.simps, simp)
  then show ?thesis by (simp add: run_def run_result_def)
qed

lemma failing_iteration:
  assumes "ip i = 0" "code_bytes i = [0xFE]" "instr_result i = Continue" "ctx_error c1 = None"
    and "do_js (js_checkpoint_revert cp) c1 = Val c2" "m = new_context memory_new"
  defines "s \<equiv> \<lparr>call_stack = [CallFrame (0, 0) \<lparr>fd_checkpoint = cp, fd_interpreter = i\<rparr>], loop_memory = m, loop_context = c1\<rparr>"
    and "r \<equiv> CallResult \<lparr>co_result = \<lparr>ir_result = InvalidFEOpcode, ir_output = [], ir_gas = int_gas i\<rparr>, co_memory_offset = (0, 0)\<rparr>"
  shows "sound_loop L db CANCUN s (Inr r, c2)"
proof (rule sound_loop.exit)
  from invalid_instruction_runs [OF assms(1-3), of "context_host (keccak256 L) db" L m c1] obtain i' where
    run: "run (instruction (context_host (keccak256 L) db) L CANCUN) m i c1 =
      Some (Val (ActReturn \<lparr>ir_result = InvalidFEOpcode, ir_output = [], ir_gas = int_gas i\<rparr>, i', c1))" and m: "memory i' = m"
    by blast
  have c1: "c1\<lparr>ctx_error := None\<rparr> = c1" using assms(4) by (cases c1) simp
  obtain m' where fr: "free_context m = Val m'"
    using assms(6) by (simp add: free_context_def new_context_def memory_new_def)
  show "loop_iteration L db CANCUN (mainnet_tables L db CANCUN) s = Some (Val (Inl (Inr r, c2)))"
    using assms(4,5) fr
    by (simp add: c1 s_def r_def loop_iteration_def execute_frame_def new_plain_def make_instruction_table_def run m
        take_memory_def take_error_def next_frame_or_result_def inner_call_return_def)
  show "sound_iteration L db CANCUN s"
    by (simp add: s_def sound_iteration_def execute_frame_def new_plain_def make_instruction_table_def run take_memory_def)
qed

theorem failed_call_changes_nothing_witness:
  "\<exists>f c1 r c2. make_call_frame failing_db failing_call failing_context = Val (Inr (NewFrame f), c1) \<and>
     main_loop sample_alloy failing_db CANCUN (mainnet_tables sample_alloy failing_db CANCUN)
       \<lparr>call_stack = [f], loop_memory = new_context memory_new, loop_context = c1\<rparr> = Some (Val (Inr r, c2)) \<and>
     same_world failing_db (ctx_js failing_context) (ctx_js c2)"
proof -
  let ?m = "new_context memory_new"
  from failing_frame obtain cp i c1 where
    mk: "make_call_frame failing_db failing_call failing_context =
      Val (Inr (NewFrame (CallFrame (0, 0) \<lparr>fd_checkpoint = cp, fd_interpreter = i\<rparr>)), c1)"
    and i: "ctx_error c1 = None" "ip i = 0" "code_bytes i = [0xFE]" "instr_result i = Continue" by blast
  have ne: "journal (ctx_js failing_context) \<noteq> []" by (simp add: failing_context_def js_new_def)
  have pre: "ctx_precompiles failing_context = load_precompiles (\<lambda>_. Map.empty) sample_alloy failing_db CANCUN"
    by (simp add: failing_context_def)
  have known: "known_precompiles (keccak256 sample_alloy) failing_db (ctx_precompiles failing_context)"
    unfolding pre by (rule load_precompiles_known)
  from make_call_frame_made [OF ne failing_supply known mk] obtain j0 where
    "cp = fst (js_checkpoint j0)" "extends (snd (js_checkpoint j0)) (ctx_js c1)"
    by (auto simp: made_from_def opened_def)
  with checkpoint_revert_restored obtain j3 where "js_checkpoint_revert cp (ctx_js c1) = Val j3" by blast
  then have rv: "do_js (js_checkpoint_revert cp) c1 = Val (c1\<lparr>ctx_js := j3\<rparr>)" by (simp add: do_js_def)
  note loop = failing_iteration [OF i(2-4,1) rv refl, of sample_alloy failing_db]
  note main = sound_loop_main [OF loop]
  note call = sound_call.executed [OF mk loop main]
  from failed_call_changes_nothing [OF ne failing_supply pre call] mk main show ?thesis by simp
qed

text \<open>
  C2. A static frame of legacy code is read-only on the real host. Whatever code it runs, when it hands
  control back no balance, nonce, code hash, storage slot, transient slot or log has changed, and what
  it asks for is harmless: a result, or a static call that moves no value to another account.
\<close>

theorem static_frame_is_read_only:
  assumes "is_static i" and "\<not> running_eof i"
    and "run (make_instruction_table (context_host K db) L sp) m i c = Some (Val (a, i', c'))"
  shows "same_world db (ctx_js c) (ctx_js c') \<and> harmless a"
  using static_context.run_within [OF assms(3) [unfolded make_instruction_table_def]] assms(1,2)
  by (simp add: reads_only_def)

theorem static_frame_is_read_only_witness:
  "\<exists>a i' c'. run (make_instruction_table (context_host (\<lambda>_. 0) failing_db) sample_alloy CANCUN) memory_new
       (sample_frame [0xFE] [] 100 True) failing_context = Some (Val (a, i', c')) \<and>
     same_world failing_db (ctx_js failing_context) (ctx_js c') \<and> harmless a"
proof -
  let ?i = "sample_frame [0xFE] [] 100 True" and ?H = "context_host (\<lambda>_. 0) failing_db"
  have i: "ip ?i = 0" "code_bytes ?i = [0xFE]" "instr_result ?i = Continue" "is_static ?i" "\<not> running_eof ?i"
    by (simp_all add: sample_frame_def)
  from invalid_instruction_runs [OF i(1-3), of ?H sample_alloy memory_new failing_context] obtain a i' c' where
    "run (make_instruction_table ?H sample_alloy CANCUN) memory_new ?i failing_context = Some (Val (a, i', c'))"
    unfolding make_instruction_table_def by blast
  with static_frame_is_read_only [OF i(4,5)] show ?thesis by blast
qed

end
