(* ===== verification/Fees.thy ===== *)
theory Fees
  imports Handler Dummy_Host
begin

text \<open>
  What a transaction costs: a transaction that passed validation can pay its gas and its value in full,
  the deduction before the execution is exact, and the settlement afterwards gives back and pays out
  exactly what the gas counter says.
\<close>

section \<open>Arithmetic of the fees\<close>

lemma effective_gas_price_le: "effective_gas_price e \<le> gas_price (tx e)"
  by (cases "gas_priority_fee (tx e)") (simp_all add: effective_gas_price_def)

lemma unat_ucast_up:
  assumes "LENGTH('a::len) \<le> LENGTH('b::len)"
  shows "unat (ucast (x :: 'a word) :: 'b word) = unat x"
proof -
  have "unat x < 2 ^ LENGTH('a)" by (rule unsigned_less)
  also have "(2 :: nat) ^ LENGTH('a) \<le> 2 ^ LENGTH('b)" using assms by (intro power_increasing) simp_all
  finally show ?thesis by (simp add: unsigned_ucast_eq take_bit_nat_eq_self)
qed

text \<open>The fee of the blobs of a transaction, without bounds.\<close>

definition blob_fee :: "spec_id \<Rightarrow> env \<Rightarrow> nat" where
  "blob_fee sp e =
     (if enabled sp CANCUN
      then (case get_blob_gasprice (block e) of Some p \<Rightarrow> unat p * unat (get_total_blob_gas (tx e)) | None \<Rightarrow> 0)
      else 0)"

text \<open>What is deducted before the execution, without bounds: all of the gas, at the price to pay, and the blobs.\<close>

definition prepaid :: "spec_id \<Rightarrow> env \<Rightarrow> nat" where
  "prepaid sp e = unat (gas_limit (tx e)) * unat (effective_gas_price e) + blob_fee sp e"

lemma no_blobs_no_gas: "blob_hashes t = [] \<Longrightarrow> get_total_blob_gas t = 0"
  by (simp add: get_total_blob_gas_def)

text \<open>A blob transaction that passed validation offers at least the price of the block.\<close>

lemma validated_blob_price:
  assumes "validate_env sp e = Val (Inr ())" "enabled sp CANCUN" "max_fee_per_blob_gas (tx e) = Some mx"
  shows "\<exists>p. get_blob_gasprice (block e) = Some p \<and> unat p \<le> unat mx"
proof -
  from assms(1) have "validate_tx sp e = Val (Inr ())"
    by (cases "validate_block_env sp e"; cases "validate_tx sp e") (auto simp: validate_env_def split: sum.splits)
  then obtain "validate_blobs sp e = Val None"
    by (auto simp: validate_tx_def evals split: option.splits if_splits)
  with assms(2,3) show ?thesis
    by (auto simp: validate_blobs_def evals word_le_nat_alt not_less unat_ucast_up split: if_splits)
qed

lemma required_covers_prepaid:
  assumes "validate_env sp e = Val (Inr ())" "required_base_balance sp e = Some r"
    and "max_fee_per_blob_gas (tx e) = None \<Longrightarrow> blob_hashes (tx e) = []"
  shows "prepaid sp e + unat (get_base_transfer_value (tx e)) \<le> unat r"
proof -
  let ?l = "ucast (gas_limit (tx e)) :: u256" and ?p = "gas_price (tx e)" and ?v = "get_base_transfer_value (tx e)"
  have l: "unat ?l = unat (gas_limit (tx e))" by (rule unat_ucast_up) simp
  from assms(2) obtain f where mul: "unat ?l * unat ?p < 2 ^ 256" and add: "unat (?l * ?p) + unat ?v < 2 ^ 256"
    and r: "if enabled sp CANCUN
      then f = (case calc_max_data_fee e of Some f \<Rightarrow> f | None \<Rightarrow> 0) \<and> unat (?l * ?p + ?v) + unat f < 2 ^ 256 \<and> r = ?l * ?p + ?v + f
      else r = ?l * ?p + ?v"
    by (auto simp: required_base_balance_def checked split: option.splits if_splits)
  have lp: "unat (?l * ?p) = unat (gas_limit (tx e)) * unat ?p" using mul l by (simp add: unat_mult_if_small)
  have base: "unat (?l * ?p + ?v) = unat (gas_limit (tx e)) * unat ?p + unat ?v"
    using add lp by (simp add: unat_plus_if_small)
  have price: "unat (gas_limit (tx e)) * unat (effective_gas_price e) \<le> unat (gas_limit (tx e)) * unat ?p"
    using effective_gas_price_le by (simp add: word_le_nat_alt)
  show ?thesis
  proof (cases "enabled sp CANCUN")
    case False
    with r base price show ?thesis by (simp add: prepaid_def blob_fee_def)
  next
    case c: True
    have "blob_fee sp e \<le> unat f"
    proof (cases "max_fee_per_blob_gas (tx e)")
      case None
      with assms(3) show ?thesis by (simp add: blob_fee_def no_blobs_no_gas split: option.splits)
    next
      case (Some mx)
      with validated_blob_price [OF assms(1) c] obtain p where p: "get_blob_gasprice (block e) = Some p" "unat p \<le> unat mx" by blast
      let ?g = "ucast (get_total_blob_gas (tx e)) :: u256"
      have g: "unat ?g = unat (get_total_blob_gas (tx e))" by (rule unat_ucast_up) simp
      have small: "unat p * unat (get_total_blob_gas (tx e)) < 2 ^ 256"
      proof -
        have "unat p * unat (get_total_blob_gas (tx e)) < 2 ^ 128 * 2 ^ 64"
          using unsigned_less [of p] unsigned_less [of "get_total_blob_gas (tx e)"]
          by (intro mult_strict_mono) simp_all
        then show ?thesis by simp
      qed
      have "unat p * unat (get_total_blob_gas (tx e)) \<le> unat mx * unat ?g" using p(2) g by simp
      with small have "unat p * unat (get_total_blob_gas (tx e)) \<le> unat (saturating_mul mx ?g)"
        by (simp add: unat_saturating_mul)
      with r c Some p(1) show ?thesis by (simp add: blob_fee_def calc_max_data_fee_def)
    qed
    moreover have "unat r = unat (gas_limit (tx e)) * unat ?p + unat ?v + unat f"
    proof -
      have "r = ?l * ?p + ?v + f" "unat (?l * ?p + ?v) + unat f < 2 ^ 256" using r c by auto
      then show ?thesis using unat_plus_if_small [of "?l * ?p + ?v" f] base by simp
    qed
    ultimately show ?thesis using price by (simp only: prepaid_def)
  qed
qed

section \<open>Deduction\<close>

lemma balance_put_info:
  "balance db (put_account a (mark_touch (x\<lparr>info := i\<rparr>)) j) = (balance db j)(a := get_balance i)"
  by (simp add: mark_touch_def)

lemma deducted_amount:
  assumes "prepaid sp e < 2 ^ 256"
    and "(if enabled sp CANCUN
          then bindE (unwrap (calc_data_fee e)) (\<lambda>d. Val (saturating_add (saturating_mul (ucast (gas_limit (tx e))) (effective_gas_price e)) d))
          else Val (saturating_mul (ucast (gas_limit (tx e))) (effective_gas_price e))) = Val g"
  shows "unat g = prepaid sp e"
proof -
  let ?m = "saturating_mul (ucast (gas_limit (tx e))) (effective_gas_price e) :: u256"
  have "unat (gas_limit (tx e)) * unat (effective_gas_price e) < 2 ^ 256"
    using assms(1) by (simp add: prepaid_def)
  then have m: "unat ?m = unat (gas_limit (tx e)) * unat (effective_gas_price e)"
    by (simp add: unat_saturating_mul unat_ucast_up)
  show ?thesis
  proof (cases "enabled sp CANCUN")
    case False
    with assms(2) m show ?thesis by (simp add: prepaid_def blob_fee_def)
  next
    case c: True
    with assms(2) obtain d where d: "calc_data_fee e = Some d" and g: "g = saturating_add ?m d" by (auto simp: evals)
    from d obtain p where p: "get_blob_gasprice (block e) = Some p"
      and dd: "d = saturating_mul (ucast p) (ucast (get_total_blob_gas (tx e)))" by (auto simp: calc_data_fee_def)
    have bf: "blob_fee sp e = unat p * unat (get_total_blob_gas (tx e))" using c p by (simp add: blob_fee_def)
    then have "unat p * unat (get_total_blob_gas (tx e)) < 2 ^ 256" using assms(1) by (simp add: prepaid_def)
    then have "unat d = blob_fee sp e" by (simp add: dd bf unat_saturating_mul unat_ucast_up)
    with m assms(1) show ?thesis by (simp add: g unat_saturating_add prepaid_def)
  qed
qed

lemma deduct_caller_inner_exact:
  assumes "deduct_caller_inner sp acc e = Val acc'" "prepaid sp e \<le> unat (get_base_balance (info acc))"
  shows "unat (get_base_balance (info acc')) + prepaid sp e = unat (get_base_balance (info acc))"
    and "t \<noteq> BASE_TOKEN_ID \<Longrightarrow> get_balance (info acc') t = get_balance (info acc) t"
    and "nonce (info acc') = (if is_call (transact_dest (tx e)) then saturating_add (nonce (info acc)) 1 else nonce (info acc))"
proof -
  have "unat (get_base_balance (info acc)) < 2 ^ 256" using unsigned_less [of "get_base_balance (info acc)"] by simp
  then have small: "prepaid sp e < 2 ^ 256" using assms(2) by simp
  let ?i = "\<lambda>g. decrease_base_balance_saturating (info acc) g"
  from assms(1) obtain g where g: "unat g = prepaid sp e"
    and acc': "acc' = mark_touch (acc\<lparr>info := if is_call (transact_dest (tx e))
        then (?i g)\<lparr>nonce := saturating_add (nonce (?i g)) 1\<rparr> else ?i g\<rparr>)"
    using deducted_amount [OF small]
    by (auto simp: deduct_caller_inner_def Let_def bindE_Val_iff simp del: unwrap_Val_iff)
  have keep: "get_balance (x\<lparr>nonce := n\<rparr>) = get_balance x" for x :: account_info and n
    by (simp add: get_balance_def fun_eq_iff)
  have i: "get_balance (info acc') = (get_balance (info acc))(BASE_TOKEN_ID := saturating_sub (get_base_balance (info acc)) g)"
    by (simp add: acc' mark_touch_def keep saturating_balance_ops token_ledger.get_set_fun balance_ops)
  show "unat (get_base_balance (info acc')) + prepaid sp e = unat (get_base_balance (info acc))"
    using i assms(2) g by (simp add: balance_ops unat_saturating_sub)
  show "t \<noteq> BASE_TOKEN_ID \<Longrightarrow> get_balance (info acc') t = get_balance (info acc) t"
    using i by simp
  show "nonce (info acc') = (if is_call (transact_dest (tx e)) then saturating_add (nonce (info acc)) 1 else nonce (info acc))"
    by (simp add: acc' mark_touch_def saturating_balance_ops set_balance_def)
qed

lemma validated_against_state:
  assumes "validate_tx_against_state db sp c = Val (Inr (), c1)" "\<not> disable_balance_check (cfg (ctx_env c))"
  obtains acc w j1 r where "js_load_account db (caller (tx (ctx_env c))) (ctx_js c) = Val (Inr (acc, w), j1)"
    "required_base_balance sp (ctx_env c) = Some r" "r \<le> get_base_balance (info acc)"
    "c1 = c\<lparr>ctx_js := put_account (caller (tx (ctx_env c))) acc j1\<rparr>"
proof -
  from assms(1) have t: "invalid_token db (transferred_tokens (tx (ctx_env c))) = None"
    by (cases "invalid_token db (transferred_tokens (tx (ctx_env c)))") (simp_all add: validate_tx_against_state_def)
  with assms(1) obtain acc w j1 where
    l: "js_load_account db (caller (tx (ctx_env c))) (ctx_js c) = Val (Inr (acc, w), j1)"
    by (auto simp: validate_tx_against_state_def on_js_def evals Let_def)
  obtain q acc' where q: "env_validate_tx_against_state sp (ctx_env c) acc = (q, acc')" by fastforce
  with assms(1) t l have v: "env_validate_tx_against_state sp (ctx_env c) acc = (Inr (), acc')"
    and c1: "c1 = c\<lparr>ctx_js := put_account (caller (tx (ctx_env c))) acc' j1\<rparr>"
    by (cases q; simp add: validate_tx_against_state_def on_js_def Let_def)+
  from v assms(2) obtain r where "required_base_balance sp (ctx_env c) = Some r" "r \<le> get_base_balance (info acc)" "acc' = acc"
    by (auto simp: env_validate_tx_against_state_def Let_def not_less split: if_splits option.splits)
  with that l c1 show thesis by blast
qed

lemma validated_block_has_blob_price:
  assumes "validate_env sp e = Val (Inr ())" "enabled sp CANCUN"
  shows "\<exists>d. calc_data_fee e = Some d"
  using assms by (auto simp: validate_env_def validate_block_env_def calc_data_fee_def get_blob_gasprice_def split: if_splits)

section \<open>Settlement\<close>

lemma credit_base:
  assumes "unat (get_base_balance i) + unat v < 2 ^ 256"
  shows "get_balance (increase_base_balance_saturating i v) = (get_balance i)(BASE_TOKEN_ID := get_base_balance i + v)"
    "unat (get_base_balance i + v) = unat (get_base_balance i) + unat v"
  using assms
  by (simp_all add: saturating_balance_ops saturating_add_def token_ledger.get_set_fun balance_ops unat_plus_if_small)

lemma gas_times_price:
  assumes "unat (p :: u256) * n < 2 ^ 256" "unat (g :: u64) \<le> n"
  shows "unat (p * ucast g) = unat p * unat g"
proof -
  have "unat p * unat g \<le> unat p * n" using assms(2) by (rule mult_le_mono2)
  then have "unat p * unat g < 2 ^ 256" using assms(1) by (rule le_less_trans)
  then show ?thesis by (simp add: unat_mult_if_small unat_ucast_up)
qed

lemma reimburse_caller_exact:
  assumes "reimburse_caller db g c = Val (Inr (), c')" "unat (remaining g) + unat (refunded g) \<le> unat (limit g)"
    and "unat (balance db (ctx_js c) (caller (tx (ctx_env c))) BASE_TOKEN_ID) +
         unat (effective_gas_price (ctx_env c)) * unat (limit g) < 2 ^ 256"
  defines "a \<equiv> caller (tx (ctx_env c))"
    and "back \<equiv> unat (effective_gas_price (ctx_env c)) * (unat (remaining g) + unat (refunded g))"
  shows "ctx_env c' = ctx_env c"
    and "unat (balance db (ctx_js c') a BASE_TOKEN_ID) = unat (balance db (ctx_js c) a BASE_TOKEN_ID) + back"
    and "b \<noteq> a \<or> t \<noteq> BASE_TOKEN_ID \<Longrightarrow> balance db (ctx_js c') b t = balance db (ctx_js c) b t"
proof -
  let ?p = "effective_gas_price (ctx_env c)"
  from assms(1) obtain acc w j1 left where l: "js_load_account db a (ctx_js c) = Val (Inr (acc, w), j1)"
    and left: "plus_or_panic (remaining g) (refunded g) = Val left"
    and c': "c' = c\<lparr>ctx_js := put_account a (acc\<lparr>info := increase_base_balance_saturating (info acc) (?p * ucast left)\<rparr>) j1\<rparr>"
    by (auto simp: reimburse_caller_def a_def on_js_def evals Let_def)
  have bal: "balance db j1 = balance db (ctx_js c)" by (rule load_account_balance [OF l])
  have b: "get_base_balance (info acc) = balance db (ctx_js c) a BASE_TOKEN_ID"
    using balance_loaded [OF load_account_loaded [OF l], of db] bal by (simp add: balance_ops)
  have ul: "unat left = unat (remaining g) + unat (refunded g)"
    using left by (simp add: plus_or_panic_def checked unat_plus_if_small)
  have pb: "unat (?p * ucast left) = back"
    using gas_times_price [of ?p "unat (limit g)" left] ul assms(2,3) by (simp add: back_def)
  have "back \<le> unat ?p * unat (limit g)" unfolding back_def using assms(2) by (intro mult_left_mono) simp_all
  then have fits: "unat (get_base_balance (info acc)) + unat (?p * ucast left) < 2 ^ 256"
    using assms(3) b pb by (simp add: a_def)
  note cr = credit_base [OF fits]
  show "ctx_env c' = ctx_env c" by (simp add: c')
  show "unat (balance db (ctx_js c') a BASE_TOKEN_ID) = unat (balance db (ctx_js c) a BASE_TOKEN_ID) + back"
    using cr b pb by (simp add: c')
  show "b \<noteq> a \<or> t \<noteq> BASE_TOKEN_ID \<Longrightarrow> balance db (ctx_js c') b t = balance db (ctx_js c) b t"
    using cr(1) bal balance_loaded [OF load_account_loaded [OF l], of db] by (auto simp: c')
qed

definition coinbase_price :: "spec_id \<Rightarrow> env \<Rightarrow> nat" where
  "coinbase_price sp e = unat (effective_gas_price e) - (if enabled sp LONDON then unat (basefee (block e)) else 0)"

lemma reward_beneficiary_exact:
  assumes "reward_beneficiary db sp g c = Val (Inr (), c')" "unat (remaining g) + unat (refunded g) \<le> unat (limit g)"
    and "unat (balance db (ctx_js c) (coinbase (block (ctx_env c))) BASE_TOKEN_ID) +
         unat (effective_gas_price (ctx_env c)) * unat (limit g) < 2 ^ 256"
  defines "a \<equiv> coinbase (block (ctx_env c))"
    and "reward \<equiv> coinbase_price sp (ctx_env c) * (unat (limit g) - unat (remaining g) - unat (refunded g))"
  shows "unat (balance db (ctx_js c') a BASE_TOKEN_ID) = unat (balance db (ctx_js c) a BASE_TOKEN_ID) + reward"
    and "b \<noteq> a \<or> t \<noteq> BASE_TOKEN_ID \<Longrightarrow> balance db (ctx_js c') b t = balance db (ctx_js c) b t"
proof -
  let ?e = "ctx_env c"
  define q where "q = (if enabled sp LONDON then saturating_sub (effective_gas_price ?e) (basefee (block ?e)) else effective_gas_price ?e)"
  from assms(1) obtain acc w j1 s used where l: "js_load_account db a (ctx_js c) = Val (Inr (acc, w), j1)"
    and s: "spent g = Val s" and used: "minus_or_panic s (refunded g) = Val used"
    and c': "c' = c\<lparr>ctx_js := put_account a ((mark_touch acc)\<lparr>info := increase_base_balance_saturating (info (mark_touch acc)) (q * ucast used)\<rparr>) j1\<rparr>"
    by (auto simp: reward_beneficiary_def a_def q_def on_js_def evals Let_def)
  have bal: "balance db j1 = balance db (ctx_js c)" by (rule load_account_balance [OF l])
  have b: "get_base_balance (info acc) = balance db (ctx_js c) a BASE_TOKEN_ID"
    using balance_loaded [OF load_account_loaded [OF l], of db] bal by (simp add: balance_ops)
  have uu: "unat used = unat (limit g) - unat (remaining g) - unat (refunded g)"
    using s used by (simp add: spent_def minus_or_panic_def checked unat_minus_if_le word_le_nat_alt)
  have uq: "unat q = coinbase_price sp ?e" by (simp add: q_def coinbase_price_def unat_saturating_sub)
  have fq: "unat (balance db (ctx_js c) a BASE_TOKEN_ID) + unat q * unat (limit g) < 2 ^ 256"
    using assms(3) [folded a_def]
    by (rule le_less_trans [rotated]) (intro add_left_mono mult_right_mono, simp_all add: uq coinbase_price_def)
  have pr: "unat (q * ucast used) = reward"
    using gas_times_price [of q "unat (limit g)" used] fq uu uq by (simp add: reward_def)
  have "reward \<le> unat q * unat (limit g)" unfolding reward_def uq [symmetric] by (intro mult_left_mono) simp_all
  then have fits: "unat (get_base_balance (info acc)) + unat (q * ucast used) < 2 ^ 256" using fq b pr by simp
  note cr = credit_base [OF fits]
  have touch: "info (mark_touch acc) = info acc" by (simp add: mark_touch_def)
  show "unat (balance db (ctx_js c') a BASE_TOKEN_ID) = unat (balance db (ctx_js c) a BASE_TOKEN_ID) + reward"
    using cr b pr by (simp add: c' touch)
  show "b \<noteq> a \<or> t \<noteq> BASE_TOKEN_ID \<Longrightarrow> balance db (ctx_js c') b t = balance db (ctx_js c) b t"
    using cr(1) bal balance_loaded [OF load_account_loaded [OF l], of db] by (auto simp: c' touch)
qed

section \<open>A sample transaction\<close>

definition payer_db :: "unit database" where
  "payer_db = (empty_db (\<lambda>_. 0))\<lparr>basic := (\<lambda>a. Inr (if a = 1 then Some (info_of_balances [BASE_TOKEN_ID \<mapsto> 1000000]) else None))\<rparr>"

definition payer_env :: env where
  "payer_env = sample_env\<lparr>tx := default_tx_env\<lparr>caller := 1, gas_limit := 21000, gas_price := 3, transact_dest := TransactCall 2\<rparr>,
     block := (block sample_env)\<lparr>coinbase := 9, basefee := 2\<rparr>\<rparr>"

definition payer_context :: "unit evm_context" where
  "payer_context = (context_new_with_env payer_env)\<lparr>ctx_js := js_new SHANGHAI {}\<rparr>"

lemmas payer_defs = payer_context_def payer_env_def payer_db_def context_new_with_env_def sample_env_def default_tx_env_def

lemma payer_valid: "validate_env SHANGHAI (ctx_env payer_context) = Val (Inr ())"
  by (simp add: payer_defs validate_env_def validate_block_env_def validate_tx_def validate_fees_def validate_blobs_def
      effective_gas_price_def default_cfg_env_def enabled_def)

lemma payer_funds: "\<exists>c1. validate_tx_against_state payer_db SHANGHAI payer_context = Val (Inr (), c1)"
  by (simp add: payer_defs validate_tx_against_state_def env_validate_tx_against_state_def on_js_def run_simps
      default_cfg_env_def validate_env_tx_nonce_def required_base_balance_def get_base_transfer_value_def checked_mul_def
      get_base_balance_def empty_db_def calc_max_data_fee_def BASE_TOKEN_ID_def)

lemma payer_balance: "balance payer_db (js_new SHANGHAI {}) a t = (if a = 1 \<and> t = BASE_TOKEN_ID then 1000000 else 0)"
  by (simp add: balance_def info_of_def js_new_def acct_def default_evm_state_def info_of_balances_def
      get_balance_def default_account_info_def payer_db_def)

lemma payer_prepaid: "prepaid SHANGHAI (ctx_env payer_context) = 63000"
  by (simp add: prepaid_def blob_fee_def enabled_def payer_defs effective_gas_price_def)

lemma payer_settled:
  "\<exists>c1 c2. reimburse_caller payer_db \<lparr>limit = 21000, remaining = 1000, refunded = 500\<rparr> payer_context = Val (Inr (), c1) \<and>
     reward_beneficiary payer_db SHANGHAI \<lparr>limit = 21000, remaining = 1000, refunded = 500\<rparr> c1 = Val (Inr (), c2)"
  by (simp add: payer_defs reimburse_caller_def reward_beneficiary_def on_js_def run_simps plus_or_panic_def minus_or_panic_def
      spent_def empty_db_def BASE_TOKEN_ID_def)

section \<open>Properties\<close>

text \<open>
  C3. A validated transaction pays its gas exactly. When the environment and the state check accept a
  transaction, with the balance check enabled, and the transaction carries no blob hashes unless it sets a maximal
  blob fee, then the deduction before the execution succeeds, takes exactly the gas limit times the price to
  pay plus the blob fee from the sender's base balance without saturating, leaves at least the value the
  transaction transfers, counts the nonce of a call, and changes no other balance. The condition on blobs is
  needed: validation accepts blob hashes without a blob fee, and then nothing has covered the fee that is deducted.
\<close>

theorem validated_sender_pays_exactly:
  assumes "validate_env sp (ctx_env c) = Val (Inr ())"
    and "validate_tx_against_state db sp c = Val (Inr (), c1)"
    and "\<not> disable_balance_check (cfg (ctx_env c))"
    and "max_fee_per_blob_gas (tx (ctx_env c)) = None \<Longrightarrow> blob_hashes (tx (ctx_env c)) = []"
  shows "\<exists>c2. deduct_caller db sp c1 = Val (Inr (), c2) \<and>
     (let e = ctx_env c; a = caller (tx e); before = balance db (ctx_js c); after = balance db (ctx_js c2) in
      unat (after a BASE_TOKEN_ID) + prepaid sp e = unat (before a BASE_TOKEN_ID) \<and>
      unat (get_base_transfer_value (tx e)) \<le> unat (after a BASE_TOKEN_ID) \<and>
      (\<forall>b t. b \<noteq> a \<or> t \<noteq> BASE_TOKEN_ID \<longrightarrow> after b t = before b t) \<and>
      nonce (info_of db (ctx_js c2) a) =
        (if is_call (transact_dest (tx e)) then saturating_add (nonce (info_of db (ctx_js c) a)) 1
         else nonce (info_of db (ctx_js c) a)))"
proof -
  let ?e = "ctx_env c" and ?a = "caller (tx (ctx_env c))"
  from validated_against_state [OF assms(2,3)] obtain acc w j1 r where
    l: "js_load_account db ?a (ctx_js c) = Val (Inr (acc, w), j1)" and r: "required_base_balance sp ?e = Some r"
    and le: "r \<le> get_base_balance (info acc)" and c1: "c1 = c\<lparr>ctx_js := put_account ?a acc j1\<rparr>" by blast
  have bal: "balance db j1 = balance db (ctx_js c)" by (rule load_account_balance [OF l])
  have inf: "info_of db j1 = info_of db (ctx_js c)" by (rule load_account_info_of [OF l])
  have x: "acct j1 ?a = Some acc" by (rule load_account_loaded [OF l])
  have cover: "prepaid sp ?e + unat (get_base_transfer_value (tx ?e)) \<le> unat (get_base_balance (info acc))"
    using required_covers_prepaid [OF assms(1) r assms(4)] le by (simp add: word_le_nat_alt)
  have "js_load_account db ?a (put_account ?a acc j1) = Val (Inr (acc, False), put_account ?a acc j1)"
    by (simp add: js_load_account_def)
  moreover obtain acc2 where d: "deduct_caller_inner sp acc ?e = Val acc2"
    using validated_block_has_blob_price [OF assms(1)]
    by (cases "enabled sp CANCUN") (auto simp: deduct_caller_inner_def Let_def)
  ultimately have run: "deduct_caller db sp c1 = Val (Inr (), c1\<lparr>ctx_js := put_account ?a acc2 (put_account ?a acc j1)\<rparr>)"
    by (auto simp: deduct_caller_def c1 on_js_def)
  note exact = deduct_caller_inner_exact [OF d]
  have le': "prepaid sp ?e \<le> unat (get_base_balance (info acc))" using cover by simp
  have b: "get_base_balance (info acc) = balance db (ctx_js c) ?a BASE_TOKEN_ID"
    using balance_loaded [OF x, of db] bal by (simp add: balance_ops)
  have n: "nonce (info acc) = nonce (info_of db (ctx_js c) ?a)" using info_of_loaded [OF x, of db] inf by simp
  have others: "get_balance (info acc2) t = balance db (ctx_js c) ?a t" if "t \<noteq> BASE_TOKEN_ID" for t
    using exact(2) [OF le' that] balance_loaded [OF x, of db] bal by simp
  show ?thesis
    using run exact(1,3) [OF le'] cover b n bal others
    by (auto simp: Let_def c1 balance_ops)
qed

theorem validated_sender_pays_exactly_witness:
  "\<exists>c1 c2. validate_tx_against_state payer_db SHANGHAI payer_context = Val (Inr (), c1) \<and>
     deduct_caller payer_db SHANGHAI c1 = Val (Inr (), c2) \<and>
     unat (balance payer_db (ctx_js c2) 1 BASE_TOKEN_ID) + 63000 = 1000000"
proof -
  from payer_funds obtain c1 where c1: "validate_tx_against_state payer_db SHANGHAI payer_context = Val (Inr (), c1)" ..
  have "\<not> disable_balance_check (cfg (ctx_env payer_context))" "blob_hashes (tx (ctx_env payer_context)) = []"
    by (simp_all add: payer_defs default_cfg_env_def)
  from validated_sender_pays_exactly [OF payer_valid c1 this] c1 show ?thesis
    by (auto simp: Let_def payer_prepaid) (simp add: payer_defs payer_balance [unfolded payer_db_def])
qed

text \<open>
  C4. The settlement after the execution adds up. The gas limit was paid in advance; the sender gets back
  the price of what was not used, refunds included, the beneficiary gets the price above the base fee of what
  was used, only the base fee of the gas used disappears, and no other balance changes.
\<close>

theorem settlement_adds_up:
  assumes "reimburse_caller db g c = Val (Inr (), c1)" and "reward_beneficiary db sp g c1 = Val (Inr (), c2)"
    and "unat (remaining g) + unat (refunded g) \<le> unat (limit g)"
    and "caller (tx (ctx_env c)) \<noteq> coinbase (block (ctx_env c))"
    and "\<And>b. unat (balance db (ctx_js c) b BASE_TOKEN_ID) + unat (effective_gas_price (ctx_env c)) * unat (limit g) < 2 ^ 256"
    and "basefee (block (ctx_env c)) \<le> effective_gas_price (ctx_env c)"
  shows "let e = ctx_env c; a = caller (tx e); b = coinbase (block e); price = unat (effective_gas_price e);
       used = unat (limit g) - unat (remaining g) - unat (refunded g);
       before = \<lambda>x. unat (balance db (ctx_js c) x BASE_TOKEN_ID); after = \<lambda>x. unat (balance db (ctx_js c2) x BASE_TOKEN_ID)
     in after a = before a + price * (unat (limit g) - used) \<and>
        after a + after b + (if enabled sp LONDON then unat (basefee (block e)) else 0) * used =
          before a + before b + price * unat (limit g) \<and>
        (\<forall>x t. (x \<noteq> a \<and> x \<noteq> b) \<or> t \<noteq> BASE_TOKEN_ID \<longrightarrow> balance db (ctx_js c2) x t = balance db (ctx_js c) x t)"
proof -
  let ?e = "ctx_env c" and ?a = "caller (tx (ctx_env c))" and ?b = "coinbase (block (ctx_env c))"
  let ?p = "unat (effective_gas_price ?e)" and ?left = "unat (remaining g) + unat (refunded g)" and ?l = "unat (limit g)"
  let ?bal = "\<lambda>c x. unat (balance db (ctx_js c) x BASE_TOKEN_ID)"
  note re = reimburse_caller_exact [OF assms(1,3,5)]
  have nb: "?bal c1 ?b = ?bal c ?b" using re(3) [of ?b BASE_TOKEN_ID] assms(4) by simp
  have "?bal c1 ?b + unat (effective_gas_price (ctx_env c1)) * ?l < 2 ^ 256" using assms(5) [of ?b] re(1) nb by simp
  note rw = reward_beneficiary_exact [OF assms(2,3), unfolded re(1), OF this [unfolded re(1)]]
  have a: "?bal c2 ?a = ?bal c ?a + ?p * ?left" using rw(2) [of ?a BASE_TOKEN_ID] re(2) assms(4) by simp
  have b: "?bal c2 ?b = ?bal c ?b + coinbase_price sp ?e * (?l - ?left)" using rw(1) nb by (simp add: diff_diff_add)
  let ?burnt = "if enabled sp LONDON then unat (basefee (block ?e)) else 0"
  have "coinbase_price sp ?e + ?burnt = ?p" using assms(6) by (simp add: coinbase_price_def word_le_nat_alt)
  then have "coinbase_price sp ?e * (?l - ?left) + ?burnt * (?l - ?left) = ?p * (?l - ?left)"
    by (metis add_mult_distrib)
  moreover have "?p * ?left + ?p * (?l - ?left) = ?p * ?l"
    using assms(3) by (metis add_mult_distrib2 le_add_diff_inverse)
  ultimately have "?bal c2 ?a + ?bal c2 ?b + ?burnt * (?l - ?left) = ?bal c ?a + ?bal c ?b + ?p * ?l"
    unfolding a b by linarith
  moreover have "?l - (?l - ?left) = ?left" using assms(3) by simp
  moreover have "balance db (ctx_js c2) x t = balance db (ctx_js c) x t" if "(x \<noteq> ?a \<and> x \<noteq> ?b) \<or> t \<noteq> BASE_TOKEN_ID" for x t
    using that rw(2) [of x t] re(3) [of x t] by auto
  ultimately show ?thesis using a by (simp only: Let_def diff_diff_add) blast
qed

theorem settlement_adds_up_witness:
  "\<exists>c1 c2. reimburse_caller payer_db \<lparr>limit = 21000, remaining = 1000, refunded = 500\<rparr> payer_context = Val (Inr (), c1) \<and>
     reward_beneficiary payer_db SHANGHAI \<lparr>limit = 21000, remaining = 1000, refunded = 500\<rparr> c1 = Val (Inr (), c2) \<and>
     unat (balance payer_db (ctx_js c2) 1 BASE_TOKEN_ID) = 1004500 \<and>
     unat (balance payer_db (ctx_js c2) 9 BASE_TOKEN_ID) = 19500"
proof -
  let ?g = "\<lparr>limit = 21000, remaining = 1000, refunded = 500\<rparr> :: gas"
  from payer_settled obtain c1 c2 where c: "reimburse_caller payer_db ?g payer_context = Val (Inr (), c1)"
    "reward_beneficiary payer_db SHANGHAI ?g c1 = Val (Inr (), c2)" by blast
  have env: "caller (tx (ctx_env payer_context)) = 1" "coinbase (block (ctx_env payer_context)) = 9"
    "effective_gas_price (ctx_env payer_context) = 3" "basefee (block (ctx_env payer_context)) = 2"
    by (simp_all add: payer_defs effective_gas_price_def)
  have js: "ctx_js payer_context = js_new SHANGHAI {}" by (simp add: payer_context_def)
  have "unat (balance payer_db (ctx_js payer_context) b BASE_TOKEN_ID) + unat (3 :: u256) * unat (limit ?g) < 2 ^ 256" for b
    by (simp add: js payer_balance)
  from settlement_adds_up [OF c, unfolded env, OF _ _ this] show ?thesis
    using c by (intro exI [of _ c1] exI [of _ c2]) (simp add: Let_def env js payer_balance enabled_def)
qed

end
