(* ===== verification/Hash_Map.thy ===== *)
theory Hash_Map
  imports Account "HOL-Library.AList"
begin

text \<open>
  Hash maps that the code counts or iterates over. Such a map is an association list with distinct keys; the
  order of the list is the order of iteration, which the code does not rely on. The maps of the
  journaled state, which are only read and written by key, stay functions; \<open>entries\<close> lists one.
\<close>

type_synonym ('k, 'v) hash_map = "('k \<times> 'v) list"

abbreviation hget :: "('k, 'v) hash_map \<Rightarrow> 'k \<rightharpoonup> 'v" where "hget \<equiv> map_of"
abbreviation hinsert :: "'k \<Rightarrow> 'v \<Rightarrow> ('k, 'v) hash_map \<Rightarrow> ('k, 'v) hash_map" where "hinsert \<equiv> AList.update"
abbreviation hremove :: "'k \<Rightarrow> ('k, 'v) hash_map \<Rightarrow> ('k, 'v) hash_map" where "hremove \<equiv> AList.delete"

text \<open>\<^verbatim>\<open>entry(key).or_insert(value)\<close>, then a change of the value.\<close>

definition hentry :: "'k \<Rightarrow> 'v \<Rightarrow> ('v \<Rightarrow> 'v) \<Rightarrow> ('k, 'v) hash_map \<Rightarrow> ('k, 'v) hash_map" where
  "hentry k v f m = hinsert k (f (case hget m k of Some x \<Rightarrow> x | None \<Rightarrow> v)) m"

definition hmap :: "('v \<Rightarrow> 'w) \<Rightarrow> ('k, 'v) hash_map \<Rightarrow> ('k, 'w) hash_map" where
  "hmap f = map (\<lambda>(k, v). (k, f v))"

definition entries :: "('k::linorder \<rightharpoonup> 'v) \<Rightarrow> ('k, 'v) hash_map" where
  "entries m = map (\<lambda>k. (k, the (m k))) (sorted_list_of_set (dom m))"

definition hdistinct :: "('k, 'v) hash_map \<Rightarrow> bool" where
  "hdistinct m \<longleftrightarrow> distinct (map fst m)"

section \<open>Lookup laws\<close>

lemma hget_insert [simp]: "hget (hinsert k v m) = (hget m)(k \<mapsto> v)"
  by (simp add: AList.update_conv')

lemma hget_remove [simp]: "hget (hremove k m) = (hget m)(k := None)"
  by (simp add: AList.delete_conv')

lemma hget_entry [simp]: "hget (hentry k v f m) = (hget m)(k \<mapsto> f (case hget m k of Some x \<Rightarrow> x | None \<Rightarrow> v))"
  by (simp add: hentry_def)

lemma hget_map [simp]: "hget (hmap f m) k = map_option f (hget m k)"
  by (induction m) (auto simp: hmap_def)

lemma hget_filter_value:
  "hdistinct m \<Longrightarrow> hget (filter (\<lambda>(k, v). P v) m) k = (case hget m k of Some v \<Rightarrow> if P v then Some v else None | None \<Rightarrow> None)"
proof (induction m)
  case (Cons p m)
  obtain k' v where p: "p = (k', v)" by (cases p)
  have none: "hget m k' = None" using Cons.prems by (simp add: hdistinct_def p map_of_eq_None_iff)
  from Cons none show ?case by (auto simp: p hdistinct_def split: option.splits)
qed simp

lemma hget_entries: "finite (dom m) \<Longrightarrow> hget (entries m) = m"
proof (rule ext)
  fix k assume f: "finite (dom m)"
  have "hget (map (\<lambda>k. (k, the (m k))) ks) k = (if k \<in> set ks then Some (the (m k)) else None)" for ks
    by (induction ks) auto
  then show "hget (entries m) k = m k"
    using f by (auto simp: entries_def dom_def)
qed

lemma hdistinct_simps [simp]:
  "hdistinct []" "hdistinct m \<Longrightarrow> hdistinct (hinsert k v m)" "hdistinct m \<Longrightarrow> hdistinct (hremove k m)"
  "hdistinct m \<Longrightarrow> hdistinct (hentry k v f m)" "hdistinct (hmap f m) = hdistinct m"
  "hdistinct m \<Longrightarrow> hdistinct (filter P m)"
  by (auto simp: hdistinct_def hentry_def hmap_def AList.distinct_update AList.distinct_delete case_prod_beta comp_def
      intro: distinct_map_filter)

lemma hdistinct_entries [simp]: "hdistinct (entries m)"
  by (simp add: hdistinct_def entries_def comp_def)

text \<open>A loop that inserts at each key of a second map.\<close>

lemma hget_fold_entry:
  assumes "hdistinct ys"
  shows "hget (fold (\<lambda>(k, v). hentry k (g v) (h v)) ys m) k =
     (case hget ys k of None \<Rightarrow> hget m k | Some v \<Rightarrow> Some (h v (case hget m k of Some x \<Rightarrow> x | None \<Rightarrow> g v)))"
  using assms
proof (induction ys arbitrary: m)
  case (Cons p ys)
  obtain k' v where p: "p = (k', v)" by (cases p)
  have "hget ys k' = None" using Cons.prems by (simp add: hdistinct_def p map_of_eq_None_iff)
  with Cons show ?case by (auto simp: p hdistinct_def split: option.splits)
qed simp

lemma hdistinct_fold_entry: "hdistinct m \<Longrightarrow> hdistinct (fold (\<lambda>(k, v). hentry k (g v) (h v)) ys m)"
  by (induction ys arbitrary: m) (auto simp: case_prod_beta)

end
