(* ===== verification/In_Memory_Db.thy ===== *)
theory In_Memory_Db
  imports Hash_Map Journal
begin

text \<open>
  The in-memory database of \<^verbatim>\<open>crates/revm/src/db/in_memory_db.rs\<close>: a cache of accounts, contracts, block
  hashes and token ids over an external database, which is a parameter. The methods of \<^verbatim>\<open>Database\<close> fill the
  cache, those of \<^verbatim>\<open>DatabaseRef\<close> only read, and \<^verbatim>\<open>commit\<close> takes over the state of a transaction.
\<close>

section \<open>Data\<close>

datatype account_state = DbNotExisting | DbTouched | StorageCleared | DbNone

fun is_storage_cleared :: "account_state \<Rightarrow> bool" where
  "is_storage_cleared s \<longleftrightarrow> s = StorageCleared"

record db_account =
  da_info :: account_info
  da_account_state :: account_state
  da_storage :: "(u256, u256) hash_map"

definition default_db_account :: db_account where
  "default_db_account = \<lparr>da_info = default_account_info, da_account_state = DbNone, da_storage = []\<rparr>"

definition db_new_not_existing :: db_account where
  "db_new_not_existing = default_db_account\<lparr>da_account_state := DbNotExisting\<rparr>"

definition db_info :: "db_account \<Rightarrow> account_info option" where
  "db_info a = (if da_account_state a = DbNotExisting then None else Some (da_info a))"

text \<open>\<^verbatim>\<open>From<AccountInfo>\<close> and \<^verbatim>\<open>From<Option<AccountInfo>>\<close>.\<close>

definition db_account_of_info :: "account_info \<Rightarrow> db_account" where
  "db_account_of_info i = default_db_account\<lparr>da_info := i, da_account_state := DbNone\<rparr>"

definition db_account_of :: "account_info option \<Rightarrow> db_account" where
  "db_account_of i = (case i of Some i \<Rightarrow> db_account_of_info i | None \<Rightarrow> db_new_not_existing)"

record cache_db =
  cd_accounts :: "(address, db_account) hash_map"
  cd_contracts :: "(b256, bytecode) hash_map"
  cd_logs :: "log list"
  cd_block_hashes :: "(u256, b256) hash_map"
  cd_token_ids :: "u256 list"

definition cache_db_new :: cache_db where
  "cache_db_new =
     \<lparr>cd_accounts = [], cd_contracts = hinsert 0 bytecode_new (hinsert KECCAK_EMPTY bytecode_new []),
      cd_logs = [], cd_block_hashes = [], cd_token_ids = [BASE_TOKEN_ID]\<rparr>"

section \<open>Inserting accounts\<close>

text \<open>The code goes to the contracts under its hash, which is computed when it is the empty one.\<close>

definition insert_contract :: "keccak \<Rightarrow> account_info \<Rightarrow> cache_db \<Rightarrow> (account_info \<times> cache_db) eval" where
  "insert_contract kec i d =
     bindE (case code i of
              Some c \<Rightarrow>
                if \<not> bytecode_is_empty c then
                  bindE (if code_hash i = KECCAK_EMPTY then bindE (hash_slow kec c) (\<lambda>h. Val (i\<lparr>code_hash := h\<rparr>))
                         else Val i) (\<lambda>i.
                    Val (i, d\<lparr>cd_contracts := hentry (code_hash i) c (\<lambda>x. x) (cd_contracts d)\<rparr>))
                else Val (i, d)
            | None \<Rightarrow> Val (i, d)) (\<lambda>(i, d).
       Val (if code_hash i = 0 then i\<lparr>code_hash := KECCAK_EMPTY\<rparr> else i, d))"

definition insert_account_info :: "keccak \<Rightarrow> address \<Rightarrow> account_info \<Rightarrow> cache_db \<Rightarrow> cache_db eval" where
  "insert_account_info kec a i d =
     bindE (insert_contract kec i d) (\<lambda>(i, d).
       Val (d\<lparr>cd_accounts := hentry a default_db_account (\<lambda>acc. acc\<lparr>da_info := i\<rparr>) (cd_accounts d)\<rparr>))"

section \<open>The methods of the database\<close>

text \<open>\<^verbatim>\<open>load_account\<close>, which \<^verbatim>\<open>basic\<close> repeats.\<close>

definition cd_load_account :: "'e database \<Rightarrow> address \<Rightarrow> cache_db \<Rightarrow> ('e + db_account) \<times> cache_db" where
  "cd_load_account db a d =
     (case hget (cd_accounts d) a of
        Some acc \<Rightarrow> (Inr acc, d)
      | None \<Rightarrow>
          (case basic db a of
             Inl e \<Rightarrow> (Inl e, d)
           | Inr i \<Rightarrow>
               let acc = (case i of Some i \<Rightarrow> default_db_account\<lparr>da_info := i\<rparr> | None \<Rightarrow> db_new_not_existing)
               in (Inr acc, d\<lparr>cd_accounts := hinsert a acc (cd_accounts d)\<rparr>)))"

definition insert_account_storage :: "'e database \<Rightarrow> address \<Rightarrow> u256 \<Rightarrow> u256 \<Rightarrow> cache_db \<Rightarrow> ('e + unit) \<times> cache_db" where
  "insert_account_storage db a k v d =
     (case cd_load_account db a d of
        (Inl e, d) \<Rightarrow> (Inl e, d)
      | (Inr acc, d) \<Rightarrow>
          (Inr (), d\<lparr>cd_accounts := hinsert a (acc\<lparr>da_storage := hinsert k v (da_storage acc)\<rparr>) (cd_accounts d)\<rparr>))"

definition replace_account_storage ::
  "'e database \<Rightarrow> address \<Rightarrow> (u256, u256) hash_map \<Rightarrow> cache_db \<Rightarrow> ('e + unit) \<times> cache_db" where
  "replace_account_storage db a st d =
     (case cd_load_account db a d of
        (Inl e, d) \<Rightarrow> (Inl e, d)
      | (Inr acc, d) \<Rightarrow>
          (Inr (), d\<lparr>cd_accounts := hinsert a (acc\<lparr>da_account_state := StorageCleared, da_storage := st\<rparr>) (cd_accounts d)\<rparr>))"

definition cd_basic :: "'e database \<Rightarrow> address \<Rightarrow> cache_db \<Rightarrow> ('e + account_info option) \<times> cache_db" where
  "cd_basic db a d =
     (case cd_load_account db a d of (Inl e, d) \<Rightarrow> (Inl e, d) | (Inr acc, d) \<Rightarrow> (Inr (db_info acc), d))"

definition cd_code_by_hash :: "'e database \<Rightarrow> b256 \<Rightarrow> cache_db \<Rightarrow> ('e + bytecode) \<times> cache_db" where
  "cd_code_by_hash db h d =
     (case hget (cd_contracts d) h of
        Some c \<Rightarrow> (Inr c, d)
      | None \<Rightarrow>
          (case code_by_hash db h of
             Inl e \<Rightarrow> (Inl e, d)
           | Inr c \<Rightarrow> (Inr c, d\<lparr>cd_contracts := hinsert h c (cd_contracts d)\<rparr>)))"

definition cd_storage :: "'e database \<Rightarrow> address \<Rightarrow> u256 \<Rightarrow> cache_db \<Rightarrow> ('e + u256) \<times> cache_db" where
  "cd_storage db a k d =
     (case hget (cd_accounts d) a of
        Some acc \<Rightarrow>
          (case hget (da_storage acc) k of
             Some v \<Rightarrow> (Inr v, d)
           | None \<Rightarrow>
               if da_account_state acc \<in> {StorageCleared, DbNotExisting} then (Inr 0, d)
               else
                 (case db_storage db a k of
                    Inl e \<Rightarrow> (Inl e, d)
                  | Inr v \<Rightarrow>
                      (Inr v, d\<lparr>cd_accounts := hinsert a (acc\<lparr>da_storage := hinsert k v (da_storage acc)\<rparr>) (cd_accounts d)\<rparr>)))
      | None \<Rightarrow>
          (case basic db a of
             Inl e \<Rightarrow> (Inl e, d)
           | Inr (Some i) \<Rightarrow>
               (case db_storage db a k of
                  Inl e \<Rightarrow> (Inl e, d)
                | Inr v \<Rightarrow>
                    let acc = db_account_of (Some i)
                    in (Inr v, d\<lparr>cd_accounts := hinsert a (acc\<lparr>da_storage := hinsert k v (da_storage acc)\<rparr>) (cd_accounts d)\<rparr>))
           | Inr None \<Rightarrow> (Inr 0, d\<lparr>cd_accounts := hinsert a (db_account_of None) (cd_accounts d)\<rparr>)))"

definition cd_block_hash :: "'e database \<Rightarrow> u256 \<Rightarrow> cache_db \<Rightarrow> ('e + b256) \<times> cache_db" where
  "cd_block_hash db n d =
     (case hget (cd_block_hashes d) n of
        Some h \<Rightarrow> (Inr h, d)
      | None \<Rightarrow>
          (case block_hash db n of
             Inl e \<Rightarrow> (Inl e, d)
           | Inr h \<Rightarrow> (Inr h, d\<lparr>cd_block_hashes := hinsert n h (cd_block_hashes d)\<rparr>)))"

definition cd_get_token_ids :: "cache_db \<Rightarrow> 'e + u256 list" where
  "cd_get_token_ids d = Inr (cd_token_ids d)"

definition cd_is_token_id_valid :: "u256 \<Rightarrow> cache_db \<Rightarrow> 'e + bool" where
  "cd_is_token_id_valid t d = Inr (t \<in> set (cd_token_ids d))"

section \<open>The read-only methods\<close>

definition basic_ref :: "'e database \<Rightarrow> cache_db \<Rightarrow> address \<Rightarrow> 'e + account_info option" where
  "basic_ref db d a = (case hget (cd_accounts d) a of Some acc \<Rightarrow> Inr (db_info acc) | None \<Rightarrow> basic db a)"

definition code_by_hash_ref :: "'e database \<Rightarrow> cache_db \<Rightarrow> b256 \<Rightarrow> 'e + bytecode" where
  "code_by_hash_ref db d h = (case hget (cd_contracts d) h of Some c \<Rightarrow> Inr c | None \<Rightarrow> code_by_hash db h)"

definition storage_ref :: "'e database \<Rightarrow> cache_db \<Rightarrow> address \<Rightarrow> u256 \<Rightarrow> 'e + u256" where
  "storage_ref db d a k =
     (case hget (cd_accounts d) a of
        Some acc \<Rightarrow>
          (case hget (da_storage acc) k of
             Some v \<Rightarrow> Inr v
           | None \<Rightarrow> if da_account_state acc \<in> {StorageCleared, DbNotExisting} then Inr 0 else db_storage db a k)
      | None \<Rightarrow> db_storage db a k)"

definition block_hash_ref :: "'e database \<Rightarrow> cache_db \<Rightarrow> u256 \<Rightarrow> 'e + b256" where
  "block_hash_ref db d n = (case hget (cd_block_hashes d) n of Some h \<Rightarrow> Inr h | None \<Rightarrow> block_hash db n)"

definition get_token_ids_ref :: "'e database \<Rightarrow> cache_db \<Rightarrow> 'e + u256 list" where
  "get_token_ids_ref db d = get_token_ids db"

definition is_token_id_valid_ref :: "'e database \<Rightarrow> cache_db \<Rightarrow> u256 \<Rightarrow> 'e + bool" where
  "is_token_id_valid_ref db d t = is_token_id_valid db t"

text \<open>A cache used as the external database of another layer, through \<^verbatim>\<open>DatabaseRef\<close>.\<close>

definition cache_db_ref :: "'e database \<Rightarrow> cache_db \<Rightarrow> 'e database" where
  "cache_db_ref db d =
     \<lparr>basic = basic_ref db d, code_by_hash = code_by_hash_ref db d, db_storage = storage_ref db d,
      block_hash = block_hash_ref db d, get_token_ids = get_token_ids_ref db d,
      is_token_id_valid = is_token_id_valid_ref db d\<rparr>"

section \<open>Commit\<close>

definition commit_account :: "keccak \<Rightarrow> address \<Rightarrow> account \<Rightarrow> cache_db \<Rightarrow> cache_db eval" where
  "commit_account kec a acc d =
     (if \<not> is_touched acc then Val d
      else if is_selfdestructed acc then
        Val (d\<lparr>cd_accounts := hentry a default_db_account
                 (\<lambda>x. x\<lparr>da_storage := [], da_account_state := DbNotExisting, da_info := default_account_info\<rparr>)
                 (cd_accounts d)\<rparr>)
      else bindE (insert_contract kec (info acc) d) (\<lambda>(i, d).
        let x = (case hget (cd_accounts d) a of Some x \<Rightarrow> x | None \<Rightarrow> default_db_account);
            x = x\<lparr>da_info := i\<rparr>;
            x = (if is_created acc then x\<lparr>da_storage := [], da_account_state := StorageCleared\<rparr>
                 else if is_storage_cleared (da_account_state x) then x\<lparr>da_account_state := StorageCleared\<rparr>
                 else x\<lparr>da_account_state := DbTouched\<rparr>);
            x = x\<lparr>da_storage := fold (\<lambda>(k, s). hinsert k (present_value s)) (entries (storage acc)) (da_storage x)\<rparr>
        in Val (d\<lparr>cd_accounts := hinsert a x (cd_accounts d)\<rparr>)))"

fun commit_accounts :: "keccak \<Rightarrow> (address \<times> account) list \<Rightarrow> cache_db \<Rightarrow> cache_db eval" where
  "commit_accounts kec [] d = Val d"
| "commit_accounts kec ((a, acc) # rest) d = bindE (commit_account kec a acc d) (commit_accounts kec rest)"

definition cd_commit :: "keccak \<Rightarrow> evm_state \<Rightarrow> cache_db \<Rightarrow> cache_db eval" where
  "cd_commit kec st d =
     bindE (commit_accounts kec (entries (accounts st)) d) (\<lambda>d. Val (d\<lparr>cd_token_ids := token_ids st\<rparr>))"

section \<open>The benchmarking database\<close>

definition benchmark_db :: "bytecode \<Rightarrow> b256 \<Rightarrow> 'e database" where
  "benchmark_db c h =
     \<lparr>basic = (\<lambda>a. if a = 0 then Inr (Some \<lparr>balances = init_balances 10000000, nonce = 1, code_hash = h, code = Some c\<rparr>)
                    else if a = 1 then Inr (Some \<lparr>balances = init_balances 10000000, nonce = 0, code_hash = KECCAK_EMPTY, code = None\<rparr>)
                    else Inr None),
      code_by_hash = (\<lambda>_. Inr bytecode_new), db_storage = (\<lambda>_ _. Inr 0), block_hash = (\<lambda>_. Inr 0),
      get_token_ids = Inr [BASE_TOKEN_ID], is_token_id_valid = (\<lambda>_. Inr False)\<rparr>"

definition new_bytecode :: "keccak \<Rightarrow> bytecode \<Rightarrow> 'e database eval" where
  "new_bytecode kec c = bindE (hash_slow kec c) (\<lambda>h. Val (benchmark_db c h))"

end
