(* ===== verification/Account_States.thy ===== *)
theory Account_States
  imports Hash_Map
begin

text \<open>
  Accounts across transactions and blocks, from \<^verbatim>\<open>crates/revm/src/db/states\<close>: the status machine, the
  plain and the cached account with its operations, and the transitions they emit, which a block
  aggregates.
\<close>

section \<open>Statuses\<close>

datatype cache_status =
    LoadedNotExisting | StatusLoaded | LoadedEmptyEIP161 | InMemoryChange | Changed
  | StatusDestroyed | DestroyedChanged | DestroyedAgain

fun is_not_modified :: "cache_status \<Rightarrow> bool" where
  "is_not_modified s \<longleftrightarrow> s \<in> {LoadedNotExisting, StatusLoaded, LoadedEmptyEIP161}"

fun was_destroyed :: "cache_status \<Rightarrow> bool" where
  "was_destroyed s \<longleftrightarrow> s \<in> {StatusDestroyed, DestroyedChanged, DestroyedAgain}"

fun is_storage_known :: "cache_status \<Rightarrow> bool" where
  "is_storage_known s \<longleftrightarrow>
     s \<in> {LoadedNotExisting, InMemoryChange, StatusDestroyed, DestroyedChanged, DestroyedAgain}"

fun is_modified_and_not_destroyed :: "cache_status \<Rightarrow> bool" where
  "is_modified_and_not_destroyed s \<longleftrightarrow> s \<in> {Changed, InMemoryChange}"

fun on_created :: "cache_status \<Rightarrow> cache_status" where
  "on_created DestroyedAgain = DestroyedChanged"
| "on_created StatusDestroyed = DestroyedChanged"
| "on_created DestroyedChanged = DestroyedChanged"
| "on_created LoadedNotExisting = InMemoryChange"
| "on_created LoadedEmptyEIP161 = InMemoryChange"
| "on_created StatusLoaded = InMemoryChange"
| "on_created Changed = InMemoryChange"
| "on_created InMemoryChange = InMemoryChange"

fun on_touched_empty_post_eip161 :: "cache_status \<Rightarrow> cache_status eval" where
  "on_touched_empty_post_eip161 LoadedNotExisting = Val LoadedNotExisting"
| "on_touched_empty_post_eip161 InMemoryChange = Val StatusDestroyed"
| "on_touched_empty_post_eip161 StatusDestroyed = Val StatusDestroyed"
| "on_touched_empty_post_eip161 LoadedEmptyEIP161 = Val StatusDestroyed"
| "on_touched_empty_post_eip161 DestroyedAgain = Val DestroyedAgain"
| "on_touched_empty_post_eip161 DestroyedChanged = Val DestroyedAgain"
| "on_touched_empty_post_eip161 StatusLoaded = Panic"
| "on_touched_empty_post_eip161 Changed = Panic"

fun on_touched_created_pre_eip161 :: "cache_status \<Rightarrow> bool \<Rightarrow> cache_status option eval" where
  "on_touched_created_pre_eip161 LoadedEmptyEIP161 had_no_info = Val None"
| "on_touched_created_pre_eip161 DestroyedChanged had_no_info =
     Val (if had_no_info then None else Some DestroyedChanged)"
| "on_touched_created_pre_eip161 StatusDestroyed had_no_info = Val (Some DestroyedChanged)"
| "on_touched_created_pre_eip161 DestroyedAgain had_no_info = Val (Some DestroyedChanged)"
| "on_touched_created_pre_eip161 InMemoryChange had_no_info = Val (Some InMemoryChange)"
| "on_touched_created_pre_eip161 LoadedNotExisting had_no_info = Val (Some InMemoryChange)"
| "on_touched_created_pre_eip161 StatusLoaded had_no_info = Panic"
| "on_touched_created_pre_eip161 Changed had_no_info = Panic"

fun on_changed :: "cache_status \<Rightarrow> bool \<Rightarrow> cache_status" where
  "on_changed LoadedNotExisting had_no_nonce_and_code = InMemoryChange"
| "on_changed LoadedEmptyEIP161 had_no_nonce_and_code = InMemoryChange"
| "on_changed StatusLoaded had_no_nonce_and_code = (if had_no_nonce_and_code then InMemoryChange else Changed)"
| "on_changed Changed had_no_nonce_and_code = Changed"
| "on_changed InMemoryChange had_no_nonce_and_code = InMemoryChange"
| "on_changed DestroyedChanged had_no_nonce_and_code = DestroyedChanged"
| "on_changed StatusDestroyed had_no_nonce_and_code = DestroyedChanged"
| "on_changed DestroyedAgain had_no_nonce_and_code = DestroyedChanged"

fun on_selfdestructed :: "cache_status \<Rightarrow> cache_status" where
  "on_selfdestructed LoadedNotExisting = LoadedNotExisting"
| "on_selfdestructed DestroyedChanged = DestroyedAgain"
| "on_selfdestructed DestroyedAgain = DestroyedAgain"
| "on_selfdestructed StatusDestroyed = DestroyedAgain"
| "on_selfdestructed _ = StatusDestroyed"

definition status_transition :: "cache_status \<Rightarrow> cache_status \<Rightarrow> cache_status" where
  "status_transition s other =
     (if was_destroyed s \<and> \<not> was_destroyed other then DestroyedChanged
      else if \<not> was_destroyed s \<and> \<not> was_destroyed other \<and> s = InMemoryChange then InMemoryChange
      else other)"

section \<open>Plain accounts and slots\<close>

record storage_slot =
  previous_or_original_value :: u256
  ss_present_value :: u256

type_synonym storage_with_original_values = "(u256, storage_slot) hash_map"
type_synonym plain_storage = "(u256, u256) hash_map"

definition storage_slot_new :: "u256 \<Rightarrow> storage_slot" where
  "storage_slot_new original = \<lparr>previous_or_original_value = original, ss_present_value = original\<rparr>"

definition storage_slot_new_changed :: "u256 \<Rightarrow> u256 \<Rightarrow> storage_slot" where
  "storage_slot_new_changed original present = \<lparr>previous_or_original_value = original, ss_present_value = present\<rparr>"

definition storage_slot_is_changed :: "storage_slot \<Rightarrow> bool" where
  "storage_slot_is_changed s \<longleftrightarrow> previous_or_original_value s \<noteq> ss_present_value s"

text \<open>\<^verbatim>\<open>From<EvmStorageSlot> for StorageSlot\<close>.\<close>

definition storage_slot_of_evm :: "evm_storage_slot \<Rightarrow> storage_slot" where
  "storage_slot_of_evm s = storage_slot_new_changed (original_value s) (present_value s)"

record plain_account =
  pa_info :: account_info
  pa_storage :: plain_storage

definition new_empty_with_storage :: "plain_storage \<Rightarrow> plain_account" where
  "new_empty_with_storage st = \<lparr>pa_info = default_account_info, pa_storage = st\<rparr>"

definition plain_into_components :: "plain_account \<Rightarrow> account_info \<times> plain_storage" where
  "plain_into_components a = (pa_info a, pa_storage a)"

text \<open>\<^verbatim>\<open>From<AccountInfo> for PlainAccount\<close>; the derived default is the same account with default information.\<close>

definition plain_of_info :: "account_info \<Rightarrow> plain_account" where
  "plain_of_info i = \<lparr>pa_info = i, pa_storage = []\<rparr>"

section \<open>Transitions\<close>

record transition_account =
  ta_info :: "account_info option"
  ta_status :: cache_status
  ta_previous_info :: "account_info option"
  ta_previous_status :: cache_status
  ta_storage :: storage_with_original_values
  ta_storage_was_destroyed :: bool

definition new_empty_eip161 :: "storage_with_original_values \<Rightarrow> transition_account" where
  "new_empty_eip161 st =
     \<lparr>ta_info = Some default_account_info, ta_status = InMemoryChange, ta_previous_info = None,
      ta_previous_status = LoadedNotExisting, ta_storage = st, ta_storage_was_destroyed = False\<rparr>"

definition has_new_contract :: "transition_account \<Rightarrow> (b256 \<times> bytecode) option" where
  "has_new_contract t =
     (if map_option code_hash (ta_info t) \<noteq> map_option code_hash (ta_previous_info t)
      then Option.bind (ta_info t) (\<lambda>i. map_option (\<lambda>c. (code_hash i, c)) (code i))
      else None)"

definition previous_balance :: "transition_account \<Rightarrow> u256" where
  "previous_balance t = (case ta_previous_info t of None \<Rightarrow> 0 | Some i \<Rightarrow> get_base_balance i)"

definition current_balance :: "transition_account \<Rightarrow> u256" where
  "current_balance t = (case ta_info t of None \<Rightarrow> 0 | Some i \<Rightarrow> get_base_balance i)"

text \<open>
  The difference is a signed 256-bit number, a word read by \<open>sint\<close>: \<open>None\<close> when the distance has the sign bit.
  \<^verbatim>\<open>checked_neg\<close> fails on the least number only, which no distance below the sign bit is.
\<close>

definition balance_delta :: "transition_account \<Rightarrow> u256 option" where
  "balance_delta t =
     (let previous = previous_balance t; current = current_balance t;
          delta = (if previous \<le> current then current - previous else previous - current)
      in if 2 ^ 255 \<le> unat delta then None
         else if previous \<le> current then Some delta else Some (- delta))"

text \<open>One slot of the loop of \<^verbatim>\<open>update\<close>: the entry goes when its value returns to the original.\<close>

definition update_slot :: "u256 \<Rightarrow> storage_slot \<Rightarrow> storage_with_original_values \<Rightarrow> storage_with_original_values" where
  "update_slot key slot st =
     (case hget st key of
        None \<Rightarrow> hinsert key slot st
      | Some v \<Rightarrow>
          if previous_or_original_value v = ss_present_value slot then hremove key st
          else hinsert key (v\<lparr>ss_present_value := ss_present_value slot\<rparr>) st)"

definition transition_update :: "transition_account \<Rightarrow> transition_account \<Rightarrow> transition_account" where
  "transition_update t other =
     (let t = t\<lparr>ta_info := ta_info other, ta_status := ta_status other\<rparr>
      in if ta_status other \<in> {StatusDestroyed, DestroyedAgain} then
           t\<lparr>ta_storage := ta_storage other, ta_storage_was_destroyed := True\<rparr>
         else t\<lparr>ta_storage := fold (\<lambda>(k, s). update_slot k s) (ta_storage other) (ta_storage t)\<rparr>)"

section \<open>Cached accounts\<close>

record cache_account =
  ca_account :: "plain_account option"
  ca_status :: cache_status

definition new_loaded :: "account_info \<Rightarrow> plain_storage \<Rightarrow> cache_account" where
  "new_loaded i st = \<lparr>ca_account = Some \<lparr>pa_info = i, pa_storage = st\<rparr>, ca_status = StatusLoaded\<rparr>"

definition new_loaded_empty_eip161 :: "plain_storage \<Rightarrow> cache_account" where
  "new_loaded_empty_eip161 st = \<lparr>ca_account = Some (new_empty_with_storage st), ca_status = LoadedEmptyEIP161\<rparr>"

definition new_loaded_not_existing :: cache_account where
  "new_loaded_not_existing = \<lparr>ca_account = None, ca_status = LoadedNotExisting\<rparr>"

definition new_newly_created :: "account_info \<Rightarrow> plain_storage \<Rightarrow> cache_account" where
  "new_newly_created i st = \<lparr>ca_account = Some \<lparr>pa_info = i, pa_storage = st\<rparr>, ca_status = InMemoryChange\<rparr>"

definition new_destroyed :: cache_account where
  "new_destroyed = \<lparr>ca_account = None, ca_status = StatusDestroyed\<rparr>"

definition new_changed :: "account_info \<Rightarrow> plain_storage \<Rightarrow> cache_account" where
  "new_changed i st = \<lparr>ca_account = Some \<lparr>pa_info = i, pa_storage = st\<rparr>, ca_status = Changed\<rparr>"

definition ca_is_some :: "cache_account \<Rightarrow> bool" where
  "ca_is_some c \<longleftrightarrow> ca_status c \<in> {Changed, InMemoryChange, DestroyedChanged, StatusLoaded, LoadedEmptyEIP161}"

definition ca_storage_slot :: "cache_account \<Rightarrow> u256 \<Rightarrow> u256 option" where
  "ca_storage_slot c k = Option.bind (ca_account c) (\<lambda>a. hget (pa_storage a) k)"

definition ca_account_info :: "cache_account \<Rightarrow> account_info option" where
  "ca_account_info c = map_option pa_info (ca_account c)"

definition ca_into_components :: "cache_account \<Rightarrow> (account_info \<times> plain_storage) option \<times> cache_status" where
  "ca_into_components c = (map_option plain_into_components (ca_account c), ca_status c)"

text \<open>\<^verbatim>\<open>iter().map(present_value).collect()\<close>.\<close>

definition present_storage :: "storage_with_original_values \<Rightarrow> plain_storage" where
  "present_storage st = hmap ss_present_value st"

definition touch_create_pre_eip161 ::
  "storage_with_original_values \<Rightarrow> cache_account \<Rightarrow> (transition_account option \<times> cache_account) eval" where
  "touch_create_pre_eip161 st c =
     (let had_no_info = (case ca_account c of None \<Rightarrow> False | Some a \<Rightarrow> info_is_empty (pa_info a))
      in bindE (on_touched_created_pre_eip161 (ca_status c) had_no_info) (\<lambda>next.
           case next of
             None \<Rightarrow> Val (None, c)
           | Some s \<Rightarrow>
               Val (Some \<lparr>ta_info = Some default_account_info, ta_status = s,
                          ta_previous_info = ca_account_info c, ta_previous_status = ca_status c,
                          ta_storage = st, ta_storage_was_destroyed = False\<rparr>,
                    \<lparr>ca_account = Some (new_empty_with_storage (present_storage st)), ca_status = s\<rparr>)))"

definition touch_empty_eip161 :: "cache_account \<Rightarrow> (transition_account option \<times> cache_account) eval" where
  "touch_empty_eip161 c =
     bindE (on_touched_empty_post_eip161 (ca_status c)) (\<lambda>s.
       Val (if ca_status c \<in> {LoadedNotExisting, StatusDestroyed, DestroyedAgain} then None
            else Some \<lparr>ta_info = None, ta_status = s, ta_previous_info = ca_account_info c,
                       ta_previous_status = ca_status c, ta_storage = [], ta_storage_was_destroyed = True\<rparr>,
            \<lparr>ca_account = None, ca_status = s\<rparr>))"

definition ca_selfdestruct :: "cache_account \<Rightarrow> transition_account option \<times> cache_account" where
  "ca_selfdestruct c =
     (let s = on_selfdestructed (ca_status c)
      in (if ca_status c = LoadedNotExisting then None
          else Some \<lparr>ta_info = None, ta_status = s, ta_previous_info = ca_account_info c,
                     ta_previous_status = ca_status c, ta_storage = [], ta_storage_was_destroyed = True\<rparr>,
          \<lparr>ca_account = None, ca_status = s\<rparr>))"

definition newly_created ::
  "account_info \<Rightarrow> storage_with_original_values \<Rightarrow> cache_account \<Rightarrow> transition_account \<times> cache_account" where
  "newly_created i st c =
     (let s = on_created (ca_status c)
      in (\<lparr>ta_info = Some i, ta_status = s, ta_previous_info = ca_account_info c,
           ta_previous_status = ca_status c, ta_storage = st, ta_storage_was_destroyed = False\<rparr>,
          \<lparr>ca_account = Some \<lparr>pa_info = i, pa_storage = present_storage st\<rparr>, ca_status = s\<rparr>))"

definition had_no_nonce_and_code :: "account_info option \<Rightarrow> bool" where
  "had_no_nonce_and_code i = (case i of None \<Rightarrow> False | Some i \<Rightarrow> has_no_code_and_nonce i)"

text \<open>\<^verbatim>\<open>account_info_change\<close>, with a change that may panic and has a result.\<close>

definition account_info_change ::
  "(account_info \<Rightarrow> ('t \<times> account_info) eval) \<Rightarrow> cache_account \<Rightarrow> (('t \<times> transition_account) \<times> cache_account) eval" where
  "account_info_change change c =
     (let previous_info = ca_account_info c;
          acc = (case ca_account c of None \<Rightarrow> plain_of_info default_account_info | Some a \<Rightarrow> a)
      in bindE (change (pa_info acc)) (\<lambda>(output, i).
           let s = on_changed (ca_status c) (had_no_nonce_and_code previous_info)
           in Val ((output,
                    \<lparr>ta_info = Some i, ta_status = s, ta_previous_info = previous_info,
                     ta_previous_status = ca_status c, ta_storage = [], ta_storage_was_destroyed = False\<rparr>),
                   \<lparr>ca_account = Some (acc\<lparr>pa_info := i\<rparr>), ca_status = s\<rparr>)))"

definition increment_balance ::
  "u256 \<Rightarrow> u128 \<Rightarrow> cache_account \<Rightarrow> (transition_account option \<times> cache_account) eval" where
  "increment_balance token_id v c =
     (if v = 0 then Val (None, c)
      else bindE (account_info_change (\<lambda>i. Val ((), increase_balance i token_id (ucast v))) c)
             (\<lambda>((_, t), c). Val (Some t, c)))"

definition increment_base_balance :: "u128 \<Rightarrow> cache_account \<Rightarrow> (transition_account option \<times> cache_account) eval" where
  "increment_base_balance v c = increment_balance BASE_TOKEN_ID v c"

text \<open>\<^verbatim>\<open>try_into().unwrap()\<close> from 256 to 128 bits.\<close>

definition u128_or_panic :: "u256 \<Rightarrow> u128 eval" where
  "u128_or_panic v = (if unat v < 2 ^ 128 then Val (ucast v) else Panic)"

definition drain_balance :: "u256 \<Rightarrow> cache_account \<Rightarrow> ((u128 \<times> transition_account) \<times> cache_account) eval" where
  "drain_balance token_id c =
     account_info_change (\<lambda>i. bindE (u128_or_panic (get_balance i token_id)) (\<lambda>v. Val (v, set_balance i token_id 0))) c"

definition drain_base_balance :: "cache_account \<Rightarrow> ((u128 \<times> transition_account) \<times> cache_account) eval" where
  "drain_base_balance c =
     account_info_change (\<lambda>i. bindE (u128_or_panic (get_base_balance i)) (\<lambda>v. Val (v, set_base_balance i 0))) c"

text \<open>\<^verbatim>\<open>extend\<close> of a plain storage with the present values.\<close>

definition extend_present :: "plain_storage \<Rightarrow> storage_with_original_values \<Rightarrow> plain_storage" where
  "extend_present this st = fold (\<lambda>(k, s). hinsert k (ss_present_value s)) st this"

definition ca_change ::
  "account_info \<Rightarrow> storage_with_original_values \<Rightarrow> cache_account \<Rightarrow> transition_account \<times> cache_account" where
  "ca_change i st c =
     (let previous_info = ca_account_info c;
          this = (case ca_account c of None \<Rightarrow> [] | Some a \<Rightarrow> pa_storage a);
          s = on_changed (ca_status c) (had_no_nonce_and_code previous_info)
      in (\<lparr>ta_info = Some i, ta_status = s, ta_previous_info = previous_info,
           ta_previous_status = ca_status c, ta_storage = st, ta_storage_was_destroyed = False\<rparr>,
          \<lparr>ca_account = Some \<lparr>pa_info = i, pa_storage = extend_present this st\<rparr>, ca_status = s\<rparr>))"

end
