(* ===== verification/Bundle_Account.thy ===== *)
theory Bundle_Account
  imports Account_States
begin

text \<open>
  Bundle accounts and their reverts, from \<^verbatim>\<open>crates/revm/src/db/states/bundle_account.rs\<close> and
  \<^verbatim>\<open>reverts.rs\<close>: a transition moves a bundle account to its new state and yields the revert that
  takes it back.
\<close>

section \<open>Data\<close>

datatype account_info_revert = DoNothing | DeleteIt | RevertTo account_info
datatype revert_to_slot = RevertSome u256 | SlotDestroyed

fun to_previous_value :: "revert_to_slot \<Rightarrow> u256" where
  "to_previous_value (RevertSome v) = v"
| "to_previous_value SlotDestroyed = 0"

record account_revert =
  ar_account :: account_info_revert
  ar_storage :: "(u256, revert_to_slot) hash_map"
  ar_previous_status :: cache_status
  ar_wipe_storage :: bool

record bundle_account =
  ba_info :: "account_info option"
  ba_original_info :: "account_info option"
  ba_storage :: storage_with_original_values
  ba_status :: cache_status

section \<open>Bundle accounts\<close>

definition bundle_account_new ::
  "account_info option \<Rightarrow> account_info option \<Rightarrow> storage_with_original_values \<Rightarrow> cache_status \<Rightarrow> bundle_account" where
  "bundle_account_new original present st s =
     \<lparr>ba_info = present, ba_original_info = original, ba_storage = st, ba_status = s\<rparr>"

definition ba_size_hint :: "bundle_account \<Rightarrow> nat" where
  "ba_size_hint b = 1 + length (ba_storage b)"

definition ba_storage_slot :: "bundle_account \<Rightarrow> u256 \<Rightarrow> u256 option" where
  "ba_storage_slot b k =
     (case map_option ss_present_value (hget (ba_storage b) k) of
        Some v \<Rightarrow> Some v
      | None \<Rightarrow> if is_storage_known (ba_status b) then Some 0 else None)"

definition ba_was_destroyed :: "bundle_account \<Rightarrow> bool" where
  "ba_was_destroyed b = was_destroyed (ba_status b)"

text \<open>Equality of \<^verbatim>\<open>Option<AccountInfo>\<close>.\<close>

fun info_opt_eq :: "account_info option \<Rightarrow> account_info option \<Rightarrow> bool" where
  "info_opt_eq None None = True"
| "info_opt_eq (Some a) (Some b) = info_eq a b"
| "info_opt_eq _ _ = False"

definition is_info_changed :: "bundle_account \<Rightarrow> bool" where
  "is_info_changed b \<longleftrightarrow> \<not> info_opt_eq (ba_info b) (ba_original_info b)"

definition is_contract_changed :: "bundle_account \<Rightarrow> bool" where
  "is_contract_changed b \<longleftrightarrow> map_option code_hash (ba_info b) \<noteq> map_option code_hash (ba_original_info b)"

text \<open>\<^verbatim>\<open>From<BundleAccount> for CacheAccount\<close>.\<close>

definition cache_account_of_bundle :: "bundle_account \<Rightarrow> cache_account" where
  "cache_account_of_bundle b =
     \<lparr>ca_account = map_option (\<lambda>i. \<lparr>pa_info = i, pa_storage = present_storage (ba_storage b)\<rparr>) (ba_info b),
      ca_status = ba_status b\<rparr>"

text \<open>The storage loop of \<^verbatim>\<open>revert\<close>, and \<^verbatim>\<open>revert\<close>: whether the account can be removed, and the account.\<close>

fun revert_slot :: "u256 \<Rightarrow> revert_to_slot \<Rightarrow> storage_with_original_values \<Rightarrow> storage_with_original_values" where
  "revert_slot k (RevertSome v) st = hentry k (storage_slot_new v) (\<lambda>s. s\<lparr>ss_present_value := v\<rparr>) st"
| "revert_slot k SlotDestroyed st = hremove k st"

definition ba_revert :: "account_revert \<Rightarrow> bundle_account \<Rightarrow> bool \<times> bundle_account" where
  "ba_revert r b =
     (let b = b\<lparr>ba_status := ar_previous_status r\<rparr>;
          revert_storage = (\<lambda>b. (False, b\<lparr>ba_storage := fold (\<lambda>(k, s). revert_slot k s) (ar_storage r) (ba_storage b)\<rparr>))
      in case ar_account r of
           DoNothing \<Rightarrow> revert_storage b
         | DeleteIt \<Rightarrow>
             (if ba_original_info b = None then (True, b\<lparr>ba_info := None, ba_storage := []\<rparr>)
              else (False, b\<lparr>ba_info := None, ba_storage := hmap (\<lambda>s. s\<lparr>ss_present_value := 0\<rparr>) (ba_storage b)\<rparr>))
         | RevertTo i \<Rightarrow> revert_storage (b\<lparr>ba_info := Some i\<rparr>))"

section \<open>Reverts\<close>

definition ar_size_hint :: "account_revert \<Rightarrow> nat" where
  "ar_size_hint r = 1 + length (ar_storage r)"

definition ar_is_empty :: "account_revert \<Rightarrow> bool" where
  "ar_is_empty r \<longleftrightarrow> ar_account r = DoNothing \<and> ar_storage r = [] \<and> \<not> ar_wipe_storage r"

text \<open>The present values as the values to revert to, and the keys that are new beside them.\<close>

definition revert_to_present :: "storage_with_original_values \<Rightarrow> (u256, revert_to_slot) hash_map" where
  "revert_to_present st = hmap (\<lambda>s. RevertSome (ss_present_value s)) st"

definition or_destroyed ::
  "storage_with_original_values \<Rightarrow> (u256, revert_to_slot) hash_map \<Rightarrow> (u256, revert_to_slot) hash_map" where
  "or_destroyed updated rs = fold (\<lambda>(k, _). hentry k SlotDestroyed (\<lambda>r. r)) updated rs"

definition new_selfdestructed_again ::
  "cache_status \<Rightarrow> account_info_revert \<Rightarrow> storage_with_original_values \<Rightarrow> storage_with_original_values \<Rightarrow> account_revert" where
  "new_selfdestructed_again s acc previous_storage updated_storage =
     \<lparr>ar_account = acc, ar_storage = or_destroyed updated_storage (revert_to_present previous_storage),
      ar_previous_status = s, ar_wipe_storage = False\<rparr>"

text \<open>The storage of the bundle account is drained when there is a revert.\<close>

definition new_selfdestructed_from_bundle ::
  "account_info_revert \<Rightarrow> storage_with_original_values \<Rightarrow> bundle_account \<Rightarrow> account_revert option \<times> bundle_account" where
  "new_selfdestructed_from_bundle acc updated_storage b =
     (if ba_status b \<in> {InMemoryChange, Changed, LoadedEmptyEIP161, StatusLoaded} then
        (Some ((new_selfdestructed_again (ba_status b) acc (ba_storage b) updated_storage)\<lparr>ar_wipe_storage := True\<rparr>),
         b\<lparr>ba_storage := []\<rparr>)
      else (None, b))"

definition new_selfdestructed :: "cache_status \<Rightarrow> account_info_revert \<Rightarrow> storage_with_original_values \<Rightarrow> account_revert" where
  "new_selfdestructed s acc st =
     \<lparr>ar_account = acc, ar_storage = revert_to_present st, ar_previous_status = s, ar_wipe_storage = True\<rparr>"

section \<open>Applying a transition\<close>

text \<open>The two closures of \<^verbatim>\<open>update_and_create_revert\<close>.\<close>

definition extend_storage ::
  "storage_with_original_values \<Rightarrow> storage_with_original_values \<Rightarrow> storage_with_original_values" where
  "extend_storage this update =
     fold (\<lambda>(k, s). hentry k s (\<lambda>x. x\<lparr>ss_present_value := ss_present_value s\<rparr>)) update this"

definition previous_storage_from_update :: "storage_with_original_values \<Rightarrow> (u256, revert_to_slot) hash_map" where
  "previous_storage_from_update updated =
     hmap (\<lambda>s. RevertSome (previous_or_original_value s)) (filter (\<lambda>(k, s). storage_slot_is_changed s) updated)"

definition info_revert_of :: "bundle_account \<Rightarrow> account_info option \<Rightarrow> account_info_revert" where
  "info_revert_of b updated =
     (if \<not> info_opt_eq (ba_info b) updated
      then RevertTo (case ba_info b of None \<Rightarrow> default_account_info | Some i \<Rightarrow> i)
      else DoNothing)"

definition update_to_changed :: "transition_account \<Rightarrow> bundle_account \<Rightarrow> (account_revert option \<times> bundle_account) eval" where
  "update_to_changed t b =
     bindE (if ba_status b \<in> {Changed, StatusLoaded} then Val (extend_storage (ba_storage b) (ta_storage t))
            else if ba_status b = LoadedEmptyEIP161 then Val (ba_storage b)
            else Panic) (\<lambda>st.
       Val (Some \<lparr>ar_account = info_revert_of b (ta_info t),
                  ar_storage = previous_storage_from_update (ta_storage t),
                  ar_previous_status = ba_status b, ar_wipe_storage = False\<rparr>,
            b\<lparr>ba_storage := st, ba_status := Changed, ba_info := ta_info t\<rparr>))"

definition update_to_in_memory_change ::
  "transition_account \<Rightarrow> bundle_account \<Rightarrow> (account_revert option \<times> bundle_account) eval" where
  "update_to_in_memory_change t b =
     bindE (if ba_status b \<in> {StatusLoaded, InMemoryChange}
              then Val (info_revert_of b (ta_info t), extend_storage (ba_storage b) (ta_storage t))
            else if ba_status b = LoadedEmptyEIP161 then Val (info_revert_of b (ta_info t), ta_storage t)
            else if ba_status b = LoadedNotExisting then Val (DeleteIt, ta_storage t)
            else Panic) (\<lambda>(acc, st).
       Val (Some \<lparr>ar_account = acc, ar_storage = previous_storage_from_update (ta_storage t),
                  ar_previous_status = ba_status b, ar_wipe_storage = False\<rparr>,
            b\<lparr>ba_storage := st, ba_status := InMemoryChange, ba_info := ta_info t\<rparr>))"

definition update_to_destroyed :: "transition_account \<Rightarrow> bundle_account \<Rightarrow> (account_revert option \<times> bundle_account) eval" where
  "update_to_destroyed t b =
     (let b' = b\<lparr>ba_storage := []\<rparr>
      in if ba_status b \<in> {InMemoryChange, Changed, StatusLoaded, LoadedEmptyEIP161} then
           Val (Some (new_selfdestructed (ba_status b) (info_revert_of b (ta_info t)) (ba_storage b)),
                b'\<lparr>ba_status := StatusDestroyed, ba_info := None\<rparr>)
         else if ba_status b = LoadedNotExisting then Val (None, b')
         else Panic)"

definition update_to_destroyed_changed ::
  "transition_account \<Rightarrow> bundle_account \<Rightarrow> (account_revert option \<times> bundle_account) eval" where
  "update_to_destroyed_changed t b =
     (let acc = info_revert_of b (ta_info t)
      in case new_selfdestructed_from_bundle acc (ta_storage t) b of
           (Some r, b) \<Rightarrow>
             Val (Some r, b\<lparr>ba_status := DestroyedChanged, ba_info := ta_info t, ba_storage := ta_storage t\<rparr>)
         | (None, b) \<Rightarrow>
             bindE (if ba_status b \<in> {StatusDestroyed, LoadedNotExisting} then
                      Val (\<lparr>ar_account = DeleteIt, ar_storage = previous_storage_from_update (ta_storage t),
                            ar_previous_status = ba_status b, ar_wipe_storage = False\<rparr>, ba_storage b)
                    else if ba_status b = DestroyedChanged then
                      (if ta_storage_was_destroyed t then
                         Val (\<lparr>ar_account = acc, ar_storage = or_destroyed (ta_storage t) (revert_to_present (ba_storage b)),
                               ar_previous_status = DestroyedChanged, ar_wipe_storage = False\<rparr>, [])
                       else
                         Val (\<lparr>ar_account = acc, ar_storage = previous_storage_from_update (ta_storage t),
                               ar_previous_status = DestroyedChanged, ar_wipe_storage = False\<rparr>, ba_storage b))
                    else if ba_status b = DestroyedAgain then
                      Val (new_selfdestructed_again DestroyedAgain DeleteIt [] (ta_storage t), ba_storage b)
                    else Panic) (\<lambda>(r, st).
               Val (Some r, b\<lparr>ba_status := DestroyedChanged, ba_info := ta_info t,
                              ba_storage := extend_storage st (ta_storage t)\<rparr>)))"

definition update_to_destroyed_again ::
  "transition_account \<Rightarrow> bundle_account \<Rightarrow> (account_revert option \<times> bundle_account) eval" where
  "update_to_destroyed_again t b =
     bindE (case new_selfdestructed_from_bundle (info_revert_of b (ta_info t)) [] b of
              (Some r, b) \<Rightarrow> Val (Some r)
            | (None, b) \<Rightarrow>
                if ba_status b \<in> {StatusDestroyed, DestroyedAgain, LoadedNotExisting} then Val None
                else if ba_status b = DestroyedChanged then
                  Val (Some (new_selfdestructed_again DestroyedChanged
                         (RevertTo (case ba_info b of None \<Rightarrow> default_account_info | Some i \<Rightarrow> i)) (ba_storage b) []))
                else Panic) (\<lambda>r.
       Val (r, b\<lparr>ba_status := DestroyedAgain, ba_info := None, ba_storage := []\<rparr>))"

definition update_and_create_revert ::
  "transition_account \<Rightarrow> bundle_account \<Rightarrow> (account_revert option \<times> bundle_account) eval" where
  "update_and_create_revert t b =
     bindE (case ta_status t of
              Changed \<Rightarrow> update_to_changed t b
            | InMemoryChange \<Rightarrow> update_to_in_memory_change t b
            | StatusLoaded \<Rightarrow> Val (None, b)
            | LoadedNotExisting \<Rightarrow> Val (None, b)
            | LoadedEmptyEIP161 \<Rightarrow> Val (None, b)
            | StatusDestroyed \<Rightarrow> update_to_destroyed t b
            | DestroyedChanged \<Rightarrow> update_to_destroyed_changed t b
            | DestroyedAgain \<Rightarrow> update_to_destroyed_again t b) (\<lambda>(r, b).
       Val (Option.bind r (\<lambda>r. if ar_is_empty r then None else Some r), b))"

text \<open>The bundle accounts of a transition, and its revert on its own.\<close>

definition present_bundle_account :: "transition_account \<Rightarrow> bundle_account" where
  "present_bundle_account t =
     \<lparr>ba_info = ta_info t, ba_original_info = ta_previous_info t, ba_storage = ta_storage t, ba_status = ta_status t\<rparr>"

definition original_bundle_account :: "transition_account \<Rightarrow> bundle_account" where
  "original_bundle_account t =
     \<lparr>ba_info = ta_previous_info t, ba_original_info = ta_previous_info t, ba_storage = [], ba_status = ta_previous_status t\<rparr>"

definition create_revert :: "transition_account \<Rightarrow> account_revert option eval" where
  "create_revert t = bindE (update_and_create_revert t (original_bundle_account t)) (\<lambda>(r, _). Val r)"

end
