(* ===== verification/Bundle_State.thy ===== *)
theory Bundle_State
  imports Bundle_Account "HOL-Library.Product_Lexorder"
begin

text \<open>
  The bundle of \<^verbatim>\<open>crates/revm/src/db/states/bundle_state.rs\<close>, which collects the changes of several blocks
  and the reverts that undo them, with \<^verbatim>\<open>transition_state.rs\<close>, \<^verbatim>\<open>changes.rs\<close> and the collection type of
  \<^verbatim>\<open>reverts.rs\<close>. Subtraction on the size counters panics below zero.
\<close>

section \<open>Data\<close>

type_synonym reverts = "(address \<times> account_revert) list list"
type_synonym transition_state = "(address, transition_account) hash_map"

record bundle_state =
  bs_state :: "(address, bundle_account) hash_map"
  bs_contracts :: "(b256, bytecode) hash_map"
  bs_reverts :: reverts
  bs_state_size :: nat
  bs_reverts_size :: nat

definition default_bundle_state :: bundle_state where
  "default_bundle_state =
     \<lparr>bs_state = [], bs_contracts = [], bs_reverts = [], bs_state_size = 0, bs_reverts_size = 0\<rparr>"

datatype original_values_known = KnownYes | KnownNo

fun is_not_known :: "original_values_known \<Rightarrow> bool" where
  "is_not_known k \<longleftrightarrow> k = KnownNo"

datatype bundle_retention = RetainPlainState | RetainReverts

fun includes_reverts :: "bundle_retention \<Rightarrow> bool" where
  "includes_reverts r \<longleftrightarrow> r = RetainReverts"

record plain_storage_changeset =
  psc_address :: address
  psc_wipe_storage :: bool
  psc_storage :: "(u256 \<times> u256) list"

record state_changeset =
  sc_accounts :: "(address \<times> account_info option) list"
  sc_storage :: "plain_storage_changeset list"
  sc_contracts :: "(b256 \<times> bytecode) list"

record plain_storage_revert =
  psr_address :: address
  psr_wiped :: bool
  psr_storage_revert :: "(u256 \<times> revert_to_slot) list"

record plain_state_reverts =
  pr_accounts :: "(address \<times> account_info option) list list"
  pr_storage :: "plain_storage_revert list list"

definition minus_usize :: "nat \<Rightarrow> nat \<Rightarrow> nat eval" where
  "minus_usize x y = (if y \<le> x then Val (x - y) else Panic)"

text \<open>\<^verbatim>\<open>collect()\<close> and \<^verbatim>\<open>extend\<close> into a hash map: a later entry replaces an earlier one.\<close>

definition hextend :: "('k, 'v) hash_map \<Rightarrow> ('k \<times> 'v) list \<Rightarrow> ('k, 'v) hash_map" where
  "hextend m xs = fold (\<lambda>(k, v). hinsert k v) xs m"

section \<open>The aggregated transitions of a block\<close>

definition transition_single :: "address \<Rightarrow> transition_account \<Rightarrow> transition_state" where
  "transition_single a t = [(a, t)]"

definition transition_take :: "transition_state \<Rightarrow> transition_state \<times> transition_state" where
  "transition_take ts = (ts, [])"

definition add_transition :: "address \<Rightarrow> transition_account \<Rightarrow> transition_state \<Rightarrow> transition_state" where
  "add_transition a t ts =
     (case hget ts a of
        Some entry \<Rightarrow> hinsert a (transition_update entry t) ts
      | None \<Rightarrow> hinsert a t ts)"

definition add_transitions :: "(address \<times> transition_account) list \<Rightarrow> transition_state \<Rightarrow> transition_state" where
  "add_transitions new ts = fold (\<lambda>(a, t). add_transition a t) new ts"

section \<open>The builder\<close>

record bundle_builder =
  bb_states :: "address list"
  bb_state_original :: "(address, account_info) hash_map"
  bb_state_present :: "(address, account_info) hash_map"
  bb_state_storage :: "(address, (u256, u256 \<times> u256) hash_map) hash_map"
  bb_reverts :: "(u64 \<times> address) list"
  bb_revert_range :: "u64 \<times> u64"
  bb_revert_account :: "(u64 \<times> address, account_info option option) hash_map"
  bb_revert_storage :: "(u64 \<times> address, (u256 \<times> u256) list) hash_map"
  bb_contracts :: "(b256, bytecode) hash_map"

definition builder_new :: "u64 \<times> u64 \<Rightarrow> bundle_builder" where
  "builder_new revert_range =
     \<lparr>bb_states = [], bb_state_original = [], bb_state_present = [], bb_state_storage = [], bb_reverts = [],
      bb_revert_range = revert_range, bb_revert_account = [], bb_revert_storage = [], bb_contracts = []\<rparr>"

definition default_builder :: bundle_builder where
  "default_builder = builder_new (0, 0)"

definition state_address :: "address \<Rightarrow> bundle_builder \<Rightarrow> bundle_builder" where
  "state_address a b = b\<lparr>bb_states := List.insert a (bb_states b)\<rparr>"

definition state_original_account_info :: "address \<Rightarrow> account_info \<Rightarrow> bundle_builder \<Rightarrow> bundle_builder" where
  "state_original_account_info a i b =
     b\<lparr>bb_states := List.insert a (bb_states b), bb_state_original := hinsert a i (bb_state_original b)\<rparr>"

definition state_present_account_info :: "address \<Rightarrow> account_info \<Rightarrow> bundle_builder \<Rightarrow> bundle_builder" where
  "state_present_account_info a i b =
     b\<lparr>bb_states := List.insert a (bb_states b), bb_state_present := hinsert a i (bb_state_present b)\<rparr>"

definition state_storage :: "address \<Rightarrow> (u256, u256 \<times> u256) hash_map \<Rightarrow> bundle_builder \<Rightarrow> bundle_builder" where
  "state_storage a st b =
     b\<lparr>bb_states := List.insert a (bb_states b), bb_state_storage := hinsert a st (bb_state_storage b)\<rparr>"

definition revert_address :: "u64 \<Rightarrow> address \<Rightarrow> bundle_builder \<Rightarrow> bundle_builder" where
  "revert_address n a b = b\<lparr>bb_reverts := insort_insert (n, a) (bb_reverts b)\<rparr>"

definition revert_account_info :: "u64 \<Rightarrow> address \<Rightarrow> account_info option option \<Rightarrow> bundle_builder \<Rightarrow> bundle_builder" where
  "revert_account_info n a acc b =
     b\<lparr>bb_reverts := insort_insert (n, a) (bb_reverts b), bb_revert_account := hinsert (n, a) acc (bb_revert_account b)\<rparr>"

definition builder_revert_storage :: "u64 \<Rightarrow> address \<Rightarrow> (u256 \<times> u256) list \<Rightarrow> bundle_builder \<Rightarrow> bundle_builder" where
  "builder_revert_storage n a st b =
     b\<lparr>bb_reverts := insort_insert (n, a) (bb_reverts b), bb_revert_storage := hinsert (n, a) st (bb_revert_storage b)\<rparr>"

definition builder_contract :: "b256 \<Rightarrow> bytecode \<Rightarrow> bundle_builder \<Rightarrow> bundle_builder" where
  "builder_contract h c b = b\<lparr>bb_contracts := hinsert h c (bb_contracts b)\<rparr>"

definition get_states :: "bundle_builder \<Rightarrow> address list" where
  "get_states b = bb_states b"

definition changed_slots_of :: "(u256, u256 \<times> u256) hash_map \<Rightarrow> storage_with_original_values" where
  "changed_slots_of st = hmap (\<lambda>(original, present). storage_slot_new_changed original present) st"

fun account_revert_kind :: "account_info option option \<Rightarrow> account_info_revert" where
  "account_revert_kind (Some (Some i)) = RevertTo i"
| "account_revert_kind (Some None) = DeleteIt"
| "account_revert_kind None = DoNothing"

definition changed_revert :: "account_info option option \<Rightarrow> (u256 \<times> u256) list \<Rightarrow> account_revert" where
  "changed_revert acc st =
     \<lparr>ar_account = account_revert_kind acc, ar_storage = hextend [] (map (\<lambda>(k, v). (k, RevertSome v)) st),
      ar_previous_status = Changed, ar_wipe_storage = False\<rparr>"

text \<open>
  \<^verbatim>\<open>build\<close>. Each address is taken out of the collected maps once, so a lookup stands for the removal. The
  numbers of an inclusive range, and a sorted map from them to the reverts of the block.
\<close>

definition u64_range :: "u64 \<times> u64 \<Rightarrow> u64 list" where
  "u64_range r = map of_nat [unat (fst r) ..< Suc (unat (snd r))]"

definition build_account :: "bundle_builder \<Rightarrow> address \<Rightarrow> bundle_account" where
  "build_account b a =
     bundle_account_new (hget (bb_state_original b) a) (hget (bb_state_present b) a)
       (case hget (bb_state_storage b) a of None \<Rightarrow> [] | Some st \<Rightarrow> changed_slots_of st) Changed"

definition build_revert :: "bundle_builder \<Rightarrow> u64 \<times> address \<Rightarrow> account_revert" where
  "build_revert b key =
     changed_revert (case hget (bb_revert_account b) key of None \<Rightarrow> None | Some acc \<Rightarrow> acc)
       (case hget (bb_revert_storage b) key of None \<Rightarrow> [] | Some st \<Rightarrow> st)"

definition build_reverts_step ::
  "bundle_builder \<Rightarrow> u64 \<times> address \<Rightarrow> (u64, (address \<times> account_revert) list) hash_map \<times> nat \<Rightarrow>
     (u64, (address \<times> account_revert) list) hash_map \<times> nat" where
  "build_reverts_step b key acc =
     (let (m, sz) = acc; r = build_revert b key
      in case hget m (fst key) of
           Some rs \<Rightarrow> (hinsert (fst key) (rs @ [(snd key, r)]) m, sz + ar_size_hint r)
         | None \<Rightarrow> (m, sz))"

definition build :: "bundle_builder \<Rightarrow> bundle_state" where
  "build b =
     (let st = map (\<lambda>a. (a, build_account b a)) (bb_states b);
          (m, sz) = fold (build_reverts_step b) (bb_reverts b) (map (\<lambda>n. (n, [])) (u64_range (bb_revert_range b)), 0)
      in \<lparr>bs_state = st, bs_contracts = bb_contracts b, bs_reverts = map snd m,
          bs_state_size = sum_list (map (\<lambda>(a, acc). ba_size_hint acc) st), bs_reverts_size = sz\<rparr>)"

definition bundle_state_new ::
  "(address \<times> account_info option \<times> account_info option \<times> (u256, u256 \<times> u256) hash_map) list \<Rightarrow>
   (address \<times> account_info option option \<times> (u256 \<times> u256) list) list list \<Rightarrow> (b256 \<times> bytecode) list \<Rightarrow> bundle_state" where
  "bundle_state_new accs rs cs =
     (let st = map (\<lambda>(a, original, present, slots). (a, bundle_account_new original present (changed_slots_of slots) Changed)) accs;
          reverts = map (map (\<lambda>(a, acc, slots). (a, changed_revert acc slots))) rs
      in \<lparr>bs_state = hextend [] st, bs_contracts = hextend [] cs, bs_reverts = reverts,
          bs_state_size = sum_list (map (\<lambda>(a, acc). ba_size_hint acc) st),
          bs_reverts_size = sum_list (map (\<lambda>(a, r). ar_size_hint r) (concat reverts))\<rparr>)"

section \<open>Queries\<close>

definition bs_size_hint :: "bundle_state \<Rightarrow> nat" where
  "bs_size_hint s = bs_state_size s + bs_reverts_size s + length (bs_contracts s)"

definition bs_len :: "bundle_state \<Rightarrow> nat" where
  "bs_len s = length (bs_state s)"

definition bs_is_empty :: "bundle_state \<Rightarrow> bool" where
  "bs_is_empty s \<longleftrightarrow> bs_len s = 0"

definition bs_account :: "bundle_state \<Rightarrow> address \<Rightarrow> bundle_account option" where
  "bs_account s a = hget (bs_state s) a"

definition bs_bytecode :: "bundle_state \<Rightarrow> b256 \<Rightarrow> bytecode option" where
  "bs_bytecode s h = hget (bs_contracts s) h"

section \<open>Merging the transitions of a block\<close>

text \<open>One account of the loop: the revert, when there is one, and the new bundle.\<close>

definition apply_transition_one ::
  "address \<Rightarrow> transition_account \<Rightarrow> bundle_state \<Rightarrow> (account_revert option \<times> bundle_state) eval" where
  "apply_transition_one a t s =
     (let s = (case has_new_contract t of
                 Some (h, c) \<Rightarrow> s\<lparr>bs_contracts := hinsert h c (bs_contracts s)\<rparr>
               | None \<Rightarrow> s)
      in case hget (bs_state s) a of
           Some acc \<Rightarrow>
             bindE (minus_usize (bs_state_size s) (ba_size_hint acc)) (\<lambda>n.
               bindE (update_and_create_revert t acc) (\<lambda>(r, acc).
                 Val (r, s\<lparr>bs_state := hinsert a acc (bs_state s), bs_state_size := n + ba_size_hint acc\<rparr>)))
         | None \<Rightarrow>
             (let present = present_bundle_account t
              in bindE (create_revert t) (\<lambda>r.
                   if r \<noteq> None then
                     Val (r, s\<lparr>bs_state := hinsert a present (bs_state s),
                               bs_state_size := bs_state_size s + ba_size_hint present\<rparr>)
                   else Val (r, s))))"

fun apply_transitions_loop ::
  "bool \<Rightarrow> (address \<times> transition_account) list \<Rightarrow> (address \<times> account_revert) list \<Rightarrow> bundle_state \<Rightarrow>
     ((address \<times> account_revert) list \<times> bundle_state) eval" where
  "apply_transitions_loop include [] rs s = Val (rs, s)"
| "apply_transitions_loop include ((a, t) # ts) rs s =
     bindE (apply_transition_one a t s) (\<lambda>(r, s).
       case r of
         Some r \<Rightarrow>
           if include then
             apply_transitions_loop include ts (rs @ [(a, r)]) (s\<lparr>bs_reverts_size := bs_reverts_size s + ar_size_hint r\<rparr>)
           else apply_transitions_loop include ts rs s
       | None \<Rightarrow> apply_transitions_loop include ts rs s)"

definition apply_transitions_and_create_reverts ::
  "transition_state \<Rightarrow> bundle_retention \<Rightarrow> bundle_state \<Rightarrow> bundle_state eval" where
  "apply_transitions_and_create_reverts ts retention s =
     bindE (apply_transitions_loop (includes_reverts retention) ts [] s) (\<lambda>(rs, s).
       Val (s\<lparr>bs_reverts := bs_reverts s @ [rs]\<rparr>))"

section \<open>Change sets\<close>

definition account_storage_changed ::
  "original_values_known \<Rightarrow> bundle_account \<Rightarrow> (u256 \<times> u256) list" where
  "account_storage_changed known acc =
     map (\<lambda>(k, s). (k, ss_present_value s))
       (filter (\<lambda>(k, s). is_not_known known \<or> ba_was_destroyed acc \<and> ss_present_value s \<noteq> 0 \<or>
                         \<not> ba_was_destroyed acc \<and> storage_slot_is_changed s)
          (ba_storage acc))"

definition into_plain_state :: "original_values_known \<Rightarrow> bundle_state \<Rightarrow> state_changeset" where
  "into_plain_state known s =
     \<lparr>sc_accounts = map (\<lambda>(a, acc). (a, map_option without_code (ba_info acc)))
        (filter (\<lambda>(a, acc). is_not_known known \<or> is_info_changed acc) (bs_state s)),
      sc_storage = map (\<lambda>(a, acc). \<lparr>psc_address = a, psc_wipe_storage = ba_was_destroyed acc,
                                     psc_storage = account_storage_changed known acc\<rparr>)
        (filter (\<lambda>(a, acc). account_storage_changed known acc \<noteq> [] \<or> ba_was_destroyed acc) (bs_state s)),
      sc_contracts = filter (\<lambda>(h, _). h \<noteq> KECCAK_EMPTY) (bs_contracts s)\<rparr>"

text \<open>The accounts and the storage that one block's reverts restore.\<close>

fun plain_account_reverts :: "(address \<times> account_revert) list \<Rightarrow> (address \<times> account_info option) list" where
  "plain_account_reverts [] = []"
| "plain_account_reverts ((a, r) # rs) =
     (case ar_account r of
        RevertTo i \<Rightarrow> (a, Some i) # plain_account_reverts rs
      | DeleteIt \<Rightarrow> (a, None) # plain_account_reverts rs
      | DoNothing \<Rightarrow> plain_account_reverts rs)"

definition plain_storage_reverts :: "(address \<times> account_revert) list \<Rightarrow> plain_storage_revert list" where
  "plain_storage_reverts rs =
     map (\<lambda>(a, r). \<lparr>psr_address = a, psr_wiped = ar_wipe_storage r, psr_storage_revert = ar_storage r\<rparr>)
       (filter (\<lambda>(a, r). ar_wipe_storage r \<or> ar_storage r \<noteq> []) rs)"

definition into_plain_state_reverts :: "reverts \<Rightarrow> plain_state_reverts" where
  "into_plain_state_reverts rs =
     \<lparr>pr_accounts = map plain_account_reverts rs, pr_storage = map plain_storage_reverts rs\<rparr>"

definition reverts_sort :: "reverts \<Rightarrow> reverts" where
  "reverts_sort rs = map (sort_key fst) rs"

definition take_all_reverts :: "bundle_state \<Rightarrow> reverts \<times> bundle_state" where
  "take_all_reverts s = (bs_reverts s, s\<lparr>bs_reverts_size := 0, bs_reverts := []\<rparr>)"

definition reverts_size :: "reverts \<Rightarrow> nat" where
  "reverts_size rs = fold (\<lambda>(_, r) acc. acc + ar_size_hint r) (concat rs) 0"

definition take_n_reverts :: "nat \<Rightarrow> bundle_state \<Rightarrow> reverts \<times> bundle_state" where
  "take_n_reverts n s =
     (if n > length (bs_reverts s) then take_all_reverts s
      else (take n (bs_reverts s),
            s\<lparr>bs_reverts_size := reverts_size (drop n (bs_reverts s)), bs_reverts := drop n (bs_reverts s)\<rparr>))"

definition into_plain_state_and_reverts ::
  "original_values_known \<Rightarrow> bundle_state \<Rightarrow> state_changeset \<times> plain_state_reverts" where
  "into_plain_state_and_reverts known s =
     (let (rs, s) = take_all_reverts s in (into_plain_state known s, into_plain_state_reverts rs))"

section \<open>Extending a bundle\<close>

definition extend_account :: "bundle_account \<Rightarrow> bundle_account \<Rightarrow> bundle_account" where
  "extend_account this other =
     this\<lparr>ba_storage := (if ba_was_destroyed other then ba_storage other
                         else extend_storage (ba_storage this) (ba_storage other)),
          ba_info := ba_info other,
          ba_status := status_transition (ba_status this) (ba_status other)\<rparr>"

fun extend_state :: "(address \<times> bundle_account) list \<Rightarrow> bundle_state \<Rightarrow> bundle_state eval" where
  "extend_state [] s = Val s"
| "extend_state ((a, other) # rest) s =
     (case hget (bs_state s) a of
        Some this \<Rightarrow>
          bindE (minus_usize (bs_state_size s) (ba_size_hint this)) (\<lambda>n.
            let this = extend_account this other
            in extend_state rest (s\<lparr>bs_state := hinsert a this (bs_state s), bs_state_size := n + ba_size_hint this\<rparr>))
      | None \<Rightarrow>
          extend_state rest (s\<lparr>bs_state := hinsert a other (bs_state s),
                               bs_state_size := bs_state_size s + ba_size_hint other\<rparr>))"

text \<open>One revert of the loop of \<^verbatim>\<open>extend\<close>, and the loop over all of them.\<close>

definition extend_revert :: "address \<Rightarrow> account_revert \<Rightarrow> bundle_state \<Rightarrow> account_revert \<times> bundle_state" where
  "extend_revert a r s =
     (let (r, s) =
        (if ar_wipe_storage r then
           case hget (bs_state s) a of
             Some this \<Rightarrow>
               (r\<lparr>ar_storage := fold (\<lambda>(k, v). hentry k (RevertSome (ss_present_value v)) (\<lambda>x. x)) (ba_storage this) (ar_storage r),
                  ar_wipe_storage := (if ba_was_destroyed this then False else ar_wipe_storage r)\<rparr>,
                s\<lparr>bs_state := hinsert a (this\<lparr>ba_storage := []\<rparr>) (bs_state s)\<rparr>)
           | None \<Rightarrow> (r, s)
         else (r, s))
      in (r, s\<lparr>bs_reverts_size := bs_reverts_size s + ar_size_hint r\<rparr>))"

fun extend_block_reverts ::
  "(address \<times> account_revert) list \<Rightarrow> bundle_state \<Rightarrow> (address \<times> account_revert) list \<times> bundle_state" where
  "extend_block_reverts [] s = ([], s)"
| "extend_block_reverts ((a, r) # rs) s =
     (let (r, s) = extend_revert a r s; (rs, s) = extend_block_reverts rs s in ((a, r) # rs, s))"

fun extend_reverts :: "reverts \<Rightarrow> bundle_state \<Rightarrow> reverts \<times> bundle_state" where
  "extend_reverts [] s = ([], s)"
| "extend_reverts (b # bs) s =
     (let (b, s) = extend_block_reverts b s; (bs, s) = extend_reverts bs s in (b # bs, s))"

definition bs_extend :: "bundle_state \<Rightarrow> bundle_state \<Rightarrow> bundle_state eval" where
  "bs_extend other s =
     (let (rs, s) = extend_reverts (bs_reverts other) s
      in bindE (extend_state (bs_state other) s) (\<lambda>s.
           Val (s\<lparr>bs_contracts := hextend (bs_contracts s) (bs_contracts other), bs_reverts := bs_reverts s @ rs\<rparr>)))"

text \<open>\<^verbatim>\<open>prepend_state\<close>: the other bundle, extended by the state and the contracts of this one, takes its place.\<close>

definition prepend_state :: "bundle_state \<Rightarrow> bundle_state \<Rightarrow> bundle_state eval" where
  "prepend_state other s =
     bindE (extend_state (bs_state s) other) (\<lambda>other.
       Val (other\<lparr>bs_contracts := hextend (bs_contracts other) (bs_contracts s)\<rparr>))"

section \<open>Reverting\<close>

definition revert_one :: "address \<Rightarrow> account_revert \<Rightarrow> bundle_state \<Rightarrow> bundle_state eval" where
  "revert_one a r s =
     bindE (minus_usize (bs_reverts_size s) (ar_size_hint r)) (\<lambda>n.
       let s = s\<lparr>bs_reverts_size := n\<rparr>
       in case hget (bs_state s) a of
            Some acc \<Rightarrow>
              bindE (minus_usize (bs_state_size s) (ba_size_hint acc)) (\<lambda>n.
                let (removable, acc) = ba_revert r acc
                in if removable then Val (s\<lparr>bs_state := hremove a (bs_state s), bs_state_size := n\<rparr>)
                   else Val (s\<lparr>bs_state := hinsert a acc (bs_state s), bs_state_size := n + ba_size_hint acc\<rparr>))
          | None \<Rightarrow>
              (let (removable, acc) = ba_revert r (bundle_account_new None None [] LoadedNotExisting)
               in if removable then Val s
                  else Val (s\<lparr>bs_state := hinsert a acc (bs_state s),
                              bs_state_size := bs_state_size s + ba_size_hint acc\<rparr>)))"

fun revert_all :: "(address \<times> account_revert) list \<Rightarrow> bundle_state \<Rightarrow> bundle_state eval" where
  "revert_all [] s = Val s"
| "revert_all ((a, r) # rs) s = bindE (revert_one a r s) (revert_all rs)"

definition revert_latest :: "bundle_state \<Rightarrow> (bool \<times> bundle_state) eval" where
  "revert_latest s =
     (if bs_reverts s = [] then Val (False, s)
      else bindE (revert_all (last (bs_reverts s)) (s\<lparr>bs_reverts := butlast (bs_reverts s)\<rparr>)) (\<lambda>s. Val (True, s)))"

fun bs_revert :: "nat \<Rightarrow> bundle_state \<Rightarrow> bundle_state eval" where
  "bs_revert 0 s = Val s"
| "bs_revert (Suc num_transitions) s =
     bindE (revert_latest s) (\<lambda>(reverted, s). if reverted then bs_revert num_transitions s else Val s)"

end
