(* ===== verification/Cache_State.thy ===== *)
theory Cache_State
  imports Bundle_State Journal Env
begin

text \<open>
  The cached state of \<^verbatim>\<open>crates/revm/src/db/states\<close>: \<^verbatim>\<open>cache.rs\<close> applies the state of a transaction to the
  cached accounts and emits their transitions, \<^verbatim>\<open>state.rs\<close> is the database over the cache, the preloaded
  bundle and the external database (a parameter), and \<^verbatim>\<open>state_builder.rs\<close> sets it up.
\<close>

section \<open>The cache\<close>

record cache_state =
  cs_accounts :: "(address, cache_account) hash_map"
  cs_contracts :: "(b256, bytecode) hash_map"
  cs_has_state_clear :: bool

definition cache_state_new :: "bool \<Rightarrow> cache_state" where
  "cache_state_new has_state_clear =
     \<lparr>cs_accounts = [], cs_contracts = [], cs_has_state_clear = has_state_clear\<rparr>"

definition default_cache_state :: cache_state where
  "default_cache_state = cache_state_new True"

definition cs_set_state_clear_flag :: "bool \<Rightarrow> cache_state \<Rightarrow> cache_state" where
  "cs_set_state_clear_flag has_state_clear c = c\<lparr>cs_has_state_clear := has_state_clear\<rparr>"

definition trie_account :: "cache_state \<Rightarrow> (address \<times> plain_account) list" where
  "trie_account c = List.map_filter (\<lambda>(a, acc). map_option (\<lambda>p. (a, p)) (ca_account acc)) (cs_accounts c)"

definition cs_insert_not_existing :: "address \<Rightarrow> cache_state \<Rightarrow> cache_state" where
  "cs_insert_not_existing a c = c\<lparr>cs_accounts := hinsert a new_loaded_not_existing (cs_accounts c)\<rparr>"

definition cs_insert_account_with_storage :: "address \<Rightarrow> account_info \<Rightarrow> plain_storage \<Rightarrow> cache_state \<Rightarrow> cache_state" where
  "cs_insert_account_with_storage a i st c =
     c\<lparr>cs_accounts := hinsert a (if \<not> info_is_empty i then new_loaded i st else new_loaded_empty_eip161 st) (cs_accounts c)\<rparr>"

definition cs_insert_account :: "address \<Rightarrow> account_info \<Rightarrow> cache_state \<Rightarrow> cache_state" where
  "cs_insert_account a i c =
     c\<lparr>cs_accounts := hinsert a (if \<not> info_is_empty i then new_loaded i [] else new_loaded_empty_eip161 []) (cs_accounts c)\<rparr>"

text \<open>The changed slots of an account of the EVM, with their previous values.\<close>

definition changed_storage :: "account \<Rightarrow> storage_with_original_values" where
  "changed_storage acc = hmap storage_slot_of_evm (filter (\<lambda>(k, s). slot_is_changed s) (entries (storage acc)))"

text \<open>The part of \<^verbatim>\<open>apply_account_state\<close> that works on one cached account.\<close>

definition apply_to_cached ::
  "bool \<Rightarrow> account \<Rightarrow> cache_account \<Rightarrow> (transition_account option \<times> cache_account) eval" where
  "apply_to_cached has_state_clear acc this =
     (if is_selfdestructed acc then Val (ca_selfdestruct this)
      else if is_created acc then
        (case newly_created (info acc) (changed_storage acc) this of (t, this) \<Rightarrow> Val (Some t, this))
      else if account_is_empty acc then
        (if has_state_clear then touch_empty_eip161 this
         else touch_create_pre_eip161 (changed_storage acc) this)
      else (case ca_change (info acc) (changed_storage acc) this of (t, this) \<Rightarrow> Val (Some t, this)))"

definition apply_account_state ::
  "address \<Rightarrow> account \<Rightarrow> cache_state \<Rightarrow> (transition_account option \<times> cache_state) eval" where
  "apply_account_state a acc c =
     (if \<not> is_touched acc then Val (None, c)
      else bindE (unwrap (hget (cs_accounts c) a)) (\<lambda>this.
        bindE (apply_to_cached (cs_has_state_clear c) acc this) (\<lambda>(t, this).
          Val (t, c\<lparr>cs_accounts := hinsert a this (cs_accounts c)\<rparr>))))"

fun apply_evm_accounts ::
  "(address \<times> account) list \<Rightarrow> cache_state \<Rightarrow> ((address \<times> transition_account) list \<times> cache_state) eval" where
  "apply_evm_accounts [] c = Val ([], c)"
| "apply_evm_accounts ((a, acc) # rest) c =
     bindE (apply_account_state a acc c) (\<lambda>(t, c).
       bindE (apply_evm_accounts rest c) (\<lambda>(ts, c).
         Val (case t of Some t \<Rightarrow> (a, t) # ts | None \<Rightarrow> ts, c)))"

definition apply_evm_state :: "evm_state \<Rightarrow> cache_state \<Rightarrow> ((address \<times> transition_account) list \<times> cache_state) eval" where
  "apply_evm_state st c = apply_evm_accounts (entries (accounts st)) c"

section \<open>The state\<close>

record block_state =
  st_cache :: cache_state
  st_transition_state :: "transition_state option"
  st_bundle_state :: bundle_state
  st_use_preloaded_bundle :: bool
  st_block_hashes :: "(u64 \<times> b256) list"

definition bundle_size_hint :: "block_state \<Rightarrow> nat" where
  "bundle_size_hint s = bs_size_hint (st_bundle_state s)"

definition put_cached :: "address \<Rightarrow> cache_account \<Rightarrow> block_state \<Rightarrow> block_state" where
  "put_cached a acc s = s\<lparr>st_cache := (st_cache s)\<lparr>cs_accounts := hinsert a acc (cs_accounts (st_cache s))\<rparr>\<rparr>"

fun cache_account_of_db :: "account_info option \<Rightarrow> cache_account" where
  "cache_account_of_db None = new_loaded_not_existing"
| "cache_account_of_db (Some i) = (if info_is_empty i then new_loaded_empty_eip161 [] else new_loaded i [])"

definition load_cache_account :: "'e database \<Rightarrow> address \<Rightarrow> block_state \<Rightarrow> ('e + cache_account) \<times> block_state" where
  "load_cache_account db a s =
     (case hget (cs_accounts (st_cache s)) a of
        Some acc \<Rightarrow> (Inr acc, s)
      | None \<Rightarrow>
          (case (if st_use_preloaded_bundle s then map_option cache_account_of_bundle (bs_account (st_bundle_state s) a)
                 else None) of
             Some acc \<Rightarrow> (Inr acc, put_cached a acc s)
           | None \<Rightarrow>
               (case basic db a of
                  Inl e \<Rightarrow> (Inl e, s)
                | Inr i \<Rightarrow> (Inr (cache_account_of_db i), put_cached a (cache_account_of_db i) s))))"

text \<open>\<^verbatim>\<open>apply_transition\<close>: dropped when the state collects no transitions.\<close>

definition apply_transition :: "(address \<times> transition_account) list \<Rightarrow> block_state \<Rightarrow> block_state" where
  "apply_transition ts s = s\<lparr>st_transition_state := map_option (add_transitions ts) (st_transition_state s)\<rparr>"

fun increment_balances_loop ::
  "'e database \<Rightarrow> (address \<times> u128) list \<Rightarrow> (address \<times> transition_account) list \<Rightarrow> block_state \<Rightarrow>
     (('e + (address \<times> transition_account) list) \<times> block_state) eval" where
  "increment_balances_loop db [] ts s = Val (Inr ts, s)"
| "increment_balances_loop db ((a, v) # rest) ts s =
     (if v = 0 then increment_balances_loop db rest ts s
      else tryE (Val (load_cache_account db a s)) (\<lambda>acc s.
        bindE (increment_base_balance v acc) (\<lambda>(t, acc).
          bindE (unwrap t) (\<lambda>t. increment_balances_loop db rest (ts @ [(a, t)]) (put_cached a acc s)))))"

definition increment_balances ::
  "'e database \<Rightarrow> (address \<times> u128) list \<Rightarrow> block_state \<Rightarrow> (('e + unit) \<times> block_state) eval" where
  "increment_balances db vs s =
     tryE (increment_balances_loop db vs [] s) (\<lambda>ts s. Val (Inr (), apply_transition ts s))"

fun drain_balances_loop ::
  "'e database \<Rightarrow> address list \<Rightarrow> u128 list \<Rightarrow> (address \<times> transition_account) list \<Rightarrow> block_state \<Rightarrow>
     (('e + u128 list \<times> (address \<times> transition_account) list) \<times> block_state) eval" where
  "drain_balances_loop db [] vs ts s = Val (Inr (vs, ts), s)"
| "drain_balances_loop db (a # rest) vs ts s =
     tryE (Val (load_cache_account db a s)) (\<lambda>acc s.
       bindE (drain_base_balance acc) (\<lambda>((v, t), acc).
         drain_balances_loop db rest (vs @ [v]) (ts @ [(a, t)]) (put_cached a acc s)))"

definition drain_balances ::
  "'e database \<Rightarrow> address list \<Rightarrow> block_state \<Rightarrow> (('e + u128 list) \<times> block_state) eval" where
  "drain_balances db addrs s =
     tryE (drain_balances_loop db addrs [] [] s) (\<lambda>(vs, ts) s. Val (Inr vs, apply_transition ts s))"

definition on_cache :: "(cache_state \<Rightarrow> cache_state) \<Rightarrow> block_state \<Rightarrow> block_state" where
  "on_cache f s = s\<lparr>st_cache := f (st_cache s)\<rparr>"

definition st_set_state_clear_flag :: "bool \<Rightarrow> block_state \<Rightarrow> block_state" where
  "st_set_state_clear_flag has_state_clear = on_cache (cs_set_state_clear_flag has_state_clear)"

definition st_insert_not_existing :: "address \<Rightarrow> block_state \<Rightarrow> block_state" where
  "st_insert_not_existing a = on_cache (cs_insert_not_existing a)"

definition st_insert_account :: "address \<Rightarrow> account_info \<Rightarrow> block_state \<Rightarrow> block_state" where
  "st_insert_account a i = on_cache (cs_insert_account a i)"

definition st_insert_account_with_storage :: "address \<Rightarrow> account_info \<Rightarrow> plain_storage \<Rightarrow> block_state \<Rightarrow> block_state" where
  "st_insert_account_with_storage a i st = on_cache (cs_insert_account_with_storage a i st)"

definition merge_transitions :: "bundle_retention \<Rightarrow> block_state \<Rightarrow> block_state eval" where
  "merge_transitions retention s =
     (case st_transition_state s of
        None \<Rightarrow> Val s
      | Some ts \<Rightarrow>
          bindE (apply_transitions_and_create_reverts (fst (transition_take ts)) retention (st_bundle_state s)) (\<lambda>b.
            Val (s\<lparr>st_bundle_state := b, st_transition_state := Some (snd (transition_take ts))\<rparr>)))"

definition take_bundle :: "block_state \<Rightarrow> bundle_state \<times> block_state" where
  "take_bundle s = (st_bundle_state s, s\<lparr>st_bundle_state := default_bundle_state\<rparr>)"

section \<open>The methods of the database\<close>

definition st_basic :: "'e database \<Rightarrow> address \<Rightarrow> block_state \<Rightarrow> ('e + account_info option) \<times> block_state" where
  "st_basic db a s =
     (case load_cache_account db a s of (Inl e, s) \<Rightarrow> (Inl e, s) | (Inr acc, s) \<Rightarrow> (Inr (ca_account_info acc), s))"

definition put_contract :: "b256 \<Rightarrow> bytecode \<Rightarrow> block_state \<Rightarrow> block_state" where
  "put_contract h c s = s\<lparr>st_cache := (st_cache s)\<lparr>cs_contracts := hinsert h c (cs_contracts (st_cache s))\<rparr>\<rparr>"

definition st_code_by_hash :: "'e database \<Rightarrow> b256 \<Rightarrow> block_state \<Rightarrow> ('e + bytecode) \<times> block_state" where
  "st_code_by_hash db h s =
     (case hget (cs_contracts (st_cache s)) h of
        Some c \<Rightarrow> (Inr c, s)
      | None \<Rightarrow>
          (case (if st_use_preloaded_bundle s then hget (bs_contracts (st_bundle_state s)) h else None) of
             Some c \<Rightarrow> (Inr c, put_contract h c s)
           | None \<Rightarrow>
               (case code_by_hash db h of
                  Inl e \<Rightarrow> (Inl e, s)
                | Inr c \<Rightarrow> (Inr c, put_contract h c s))))"

definition st_storage :: "'e database \<Rightarrow> address \<Rightarrow> u256 \<Rightarrow> block_state \<Rightarrow> (('e + u256) \<times> block_state) eval" where
  "st_storage db a k s =
     (case hget (cs_accounts (st_cache s)) a of
        None \<Rightarrow> Panic
      | Some acc \<Rightarrow>
          (case ca_account acc of
             None \<Rightarrow> Val (Inr 0, s)
           | Some p \<Rightarrow>
               (case hget (pa_storage p) k of
                  Some v \<Rightarrow> Val (Inr v, s)
                | None \<Rightarrow>
                    (case (if is_storage_known (ca_status acc) then Inr 0 else db_storage db a k) of
                       Inl e \<Rightarrow> Val (Inl e, s)
                     | Inr v \<Rightarrow>
                         Val (Inr v, put_cached a (acc\<lparr>ca_account := Some (p\<lparr>pa_storage := hinsert k v (pa_storage p)\<rparr>)\<rparr>) s)))))"

text \<open>
  \<^verbatim>\<open>block_hash\<close>: the ordered map is a list sorted by block number. The loop removes the first entry while it
  is older than the history.
\<close>

definition insert_block_hash :: "u64 \<Rightarrow> b256 \<Rightarrow> (u64 \<times> b256) list \<Rightarrow> (u64 \<times> b256) list" where
  "insert_block_hash n h m = insort_key fst (n, h) (filter (\<lambda>(k, _). k \<noteq> n) m)"

fun prune_block_hashes :: "u64 \<Rightarrow> (u64 \<times> b256) list \<Rightarrow> (u64 \<times> b256) list" where
  "prune_block_hashes last_block [] = []"
| "prune_block_hashes last_block ((n, h) # m) =
     (if n < last_block then prune_block_hashes last_block m else (n, h) # m)"

definition st_block_hash :: "'e database \<Rightarrow> u256 \<Rightarrow> block_state \<Rightarrow> (('e + b256) \<times> block_state) eval" where
  "st_block_hash db block_number s =
     (if unat block_number < 2 ^ 64 then
        let n = ucast block_number :: u64
        in case hget (st_block_hashes s) n of
             Some h \<Rightarrow> Val (Inr h, s)
           | None \<Rightarrow>
               (case block_hash db block_number of
                  Inl e \<Rightarrow> Val (Inl e, s)
                | Inr h \<Rightarrow>
                    Val (Inr h, s\<lparr>st_block_hashes :=
                      prune_block_hashes (saturating_sub n (of_nat BLOCK_HASH_HISTORY)) (insert_block_hash n h (st_block_hashes s))\<rparr>))
      else Panic)"

definition st_is_token_id_valid :: "'e database \<Rightarrow> u256 \<Rightarrow> block_state \<Rightarrow> 'e + bool" where
  "st_is_token_id_valid db t s = is_token_id_valid db t"

definition st_get_token_ids :: "'e database \<Rightarrow> block_state \<Rightarrow> 'e + u256 list" where
  "st_get_token_ids db s = get_token_ids db"

definition st_commit :: "evm_state \<Rightarrow> block_state \<Rightarrow> block_state eval" where
  "st_commit st s =
     bindE (apply_evm_state st (st_cache s)) (\<lambda>(ts, c). Val (apply_transition ts (s\<lparr>st_cache := c\<rparr>)))"

section \<open>The builder\<close>

record state_builder =
  sb_with_state_clear :: bool
  sb_with_cache_prestate :: "cache_state option"
  sb_with_bundle_prestate :: "bundle_state option"
  sb_with_bundle_update :: bool
  sb_with_background_transition_merge :: bool
  sb_with_block_hashes :: "(u64 \<times> b256) list"

definition state_builder_new :: state_builder where
  "state_builder_new =
     \<lparr>sb_with_state_clear = True, sb_with_cache_prestate = None, sb_with_bundle_prestate = None,
      sb_with_bundle_update = False, sb_with_background_transition_merge = False, sb_with_block_hashes = []\<rparr>"

definition without_state_clear :: "state_builder \<Rightarrow> state_builder" where
  "without_state_clear b = b\<lparr>sb_with_state_clear := False\<rparr>"

definition with_bundle_prestate :: "bundle_state \<Rightarrow> state_builder \<Rightarrow> state_builder" where
  "with_bundle_prestate bundle b = b\<lparr>sb_with_bundle_prestate := Some bundle\<rparr>"

definition with_bundle_update :: "state_builder \<Rightarrow> state_builder" where
  "with_bundle_update b = b\<lparr>sb_with_bundle_update := True\<rparr>"

definition with_cached_prestate :: "cache_state \<Rightarrow> state_builder \<Rightarrow> state_builder" where
  "with_cached_prestate c b = b\<lparr>sb_with_cache_prestate := Some c\<rparr>"

definition with_background_transition_merge :: "state_builder \<Rightarrow> state_builder" where
  "with_background_transition_merge b = b\<lparr>sb_with_background_transition_merge := True\<rparr>"

definition with_block_hashes :: "(u64 \<times> b256) list \<Rightarrow> state_builder \<Rightarrow> state_builder" where
  "with_block_hashes hs b = b\<lparr>sb_with_block_hashes := hs\<rparr>"

definition state_build :: "state_builder \<Rightarrow> block_state" where
  "state_build b =
     (let (bundle, preloaded) =
        (if sb_with_cache_prestate b \<noteq> None then (None, False)
         else (sb_with_bundle_prestate b, sb_with_bundle_prestate b \<noteq> None))
      in \<lparr>st_cache = (case sb_with_cache_prestate b of Some c \<Rightarrow> c | None \<Rightarrow> cache_state_new (sb_with_state_clear b)),
          st_transition_state = (if sb_with_bundle_update b then Some [] else None),
          st_bundle_state = (case bundle of Some s \<Rightarrow> s | None \<Rightarrow> default_bundle_state),
          st_use_preloaded_bundle = preloaded,
          st_block_hashes = sb_with_block_hashes b\<rparr>)"

end
