(* ===== verification/Db_Views.thy ===== *)
theory Db_Views
  imports In_Memory_Db Cache_State
begin

text \<open>
  Databases that fill a cache while they are read. Reading through a cache is an interface: an answer is
  what the cache shows before the question, and no question changes what it shows. The in-memory database and
  the block state are two instances; what a commit changes of the in-memory database follows.
\<close>

section \<open>Questions and answers\<close>

datatype db_query = AskBasic address | AskCode b256 | AskStorage address u256 | AskBlockHash u256

datatype db_answer = AnsInfo "account_info option" | AnsCode bytecode | AnsSlot u256 | AnsHash b256

definition reply :: "('a \<Rightarrow> db_answer) \<Rightarrow> ('e + 'a) \<times> 's \<Rightarrow> ('e + db_answer) \<times> 's" where
  "reply f r = (map_sum id f (fst r), snd r)"

text \<open>A sequence of questions.\<close>

fun ask_all :: "('q \<Rightarrow> 's \<Rightarrow> ('r \<times> 's) eval) \<Rightarrow> 'q list \<Rightarrow> 's \<Rightarrow> ('r list \<times> 's) eval" where
  "ask_all ask [] s = Val ([], s)"
| "ask_all ask (q # qs) s = bindE (ask q s) (\<lambda>(r, s). bindE (ask_all ask qs s) (\<lambda>(rs, s). Val (r # rs, s)))"

locale read_through =
  fixes ask :: "'q \<Rightarrow> 's \<Rightarrow> ('r \<times> 's) eval" and view :: "'s \<Rightarrow> 'q \<Rightarrow> 'r" and ready :: "'s \<Rightarrow> 'q \<Rightarrow> bool"
  assumes ask_view: "ready s q \<Longrightarrow> \<exists>s'. ask q s = Val (view s q, s') \<and> view s' = view s \<and> (\<forall>q'. ready s q' \<longrightarrow> ready s' q')"
begin

lemma ask_all_view:
  "(\<forall>q \<in> set qs. ready s q) \<Longrightarrow>
     \<exists>s'. ask_all ask qs s = Val (map (view s) qs, s') \<and> view s' = view s \<and> (\<forall>q'. ready s q' \<longrightarrow> ready s' q')"
proof (induction qs arbitrary: s)
  case (Cons q qs)
  then obtain s1 where one: "ask q s = Val (view s q, s1)" "view s1 = view s" "\<forall>q'. ready s q' \<longrightarrow> ready s1 q'"
    using ask_view [of s q] by auto
  then obtain s2 where "ask_all ask qs s1 = Val (map (view s1) qs, s2)" "view s2 = view s1" "\<forall>q'. ready s1 q' \<longrightarrow> ready s2 q'"
    using Cons.IH [of s1] Cons.prems by auto
  with one show ?case by auto
qed simp

end

section \<open>The in-memory database\<close>

definition cd_ask :: "'e database \<Rightarrow> db_query \<Rightarrow> cache_db \<Rightarrow> (('e + db_answer) \<times> cache_db) eval" where
  "cd_ask db q d =
     (case q of
        AskBasic a \<Rightarrow> Val (reply AnsInfo (cd_basic db a d))
      | AskCode h \<Rightarrow> Val (reply AnsCode (cd_code_by_hash db h d))
      | AskStorage a k \<Rightarrow> Val (reply AnsSlot (cd_storage db a k d))
      | AskBlockHash n \<Rightarrow> Val (reply AnsHash (cd_block_hash db n d)))"

definition cd_view :: "'e database \<Rightarrow> cache_db \<Rightarrow> db_query \<Rightarrow> 'e + db_answer" where
  "cd_view db d q =
     (case q of
        AskBasic a \<Rightarrow> map_sum id AnsInfo (basic_ref db d a)
      | AskCode h \<Rightarrow> map_sum id AnsCode (code_by_hash_ref db d h)
      | AskStorage a k \<Rightarrow> map_sum id AnsSlot (storage_ref db d a k)
      | AskBlockHash n \<Rightarrow> map_sum id AnsHash (block_hash_ref db d n))"

text \<open>An external database in which an account that does not exist has no storage, and whose failures agree.\<close>

definition no_stray_storage :: "'e database \<Rightarrow> address \<Rightarrow> bool" where
  "no_stray_storage db a \<longleftrightarrow>
     (case basic db a of
        Inl e \<Rightarrow> (\<forall>k. db_storage db a k = Inl e)
      | Inr None \<Rightarrow> (\<forall>k. db_storage db a k = Inr 0)
      | Inr (Some _) \<Rightarrow> True)"

definition cd_ready :: "'e database \<Rightarrow> cache_db \<Rightarrow> db_query \<Rightarrow> bool" where
  "cd_ready db d q \<longleftrightarrow>
     (case q of
        AskBasic a \<Rightarrow> hget (cd_accounts d) a = None \<longrightarrow> no_stray_storage db a
      | AskStorage a k \<Rightarrow> hget (cd_accounts d) a = None \<longrightarrow> no_stray_storage db a
      | _ \<Rightarrow> True)"

lemma cd_view_simps:
  "cd_view db d (AskBasic a) = map_sum id AnsInfo (basic_ref db d a)" "cd_view db d (AskCode h) = map_sum id AnsCode (code_by_hash_ref db d h)"
  "cd_view db d (AskStorage a k) = map_sum id AnsSlot (storage_ref db d a k)"
  "cd_view db d (AskBlockHash n) = map_sum id AnsHash (block_hash_ref db d n)"
  by (simp_all add: cd_view_def)

lemma cd_ready_simps:
  "cd_ready db d (AskBasic a) \<longleftrightarrow> (hget (cd_accounts d) a = None \<longrightarrow> no_stray_storage db a)"
  "cd_ready db d (AskStorage a k) \<longleftrightarrow> (hget (cd_accounts d) a = None \<longrightarrow> no_stray_storage db a)"
  by (simp_all add: cd_ready_def)

lemmas cd_refs = basic_ref_def code_by_hash_ref_def storage_ref_def block_hash_ref_def

text \<open>Storing an account that shows what was shown before.\<close>

definition db_slot_of :: "'e database \<Rightarrow> address \<Rightarrow> db_account \<Rightarrow> u256 \<Rightarrow> 'e + u256" where
  "db_slot_of db a y k =
     (case hget (da_storage y) k of
        Some v \<Rightarrow> Inr v
      | None \<Rightarrow> if da_account_state y \<in> {StorageCleared, DbNotExisting} then Inr 0 else db_storage db a k)"

lemma storage_ref_slot:
  "storage_ref db d a k = (case hget (cd_accounts d) a of Some y \<Rightarrow> db_slot_of db a y k | None \<Rightarrow> db_storage db a k)"
  by (simp add: storage_ref_def db_slot_of_def split: option.splits)

lemma cd_view_put:
  assumes "basic_ref db d a = Inr (db_info y)" and "\<And>k. db_slot_of db a y k = storage_ref db d a k"
  shows "cd_view db (d\<lparr>cd_accounts := hinsert a y (cd_accounts d)\<rparr>) = cd_view db d"
    "cd_ready db d q \<Longrightarrow> cd_ready db (d\<lparr>cd_accounts := hinsert a y (cd_accounts d)\<rparr>) q"
proof -
  let ?d = "d\<lparr>cd_accounts := hinsert a y (cd_accounts d)\<rparr>"
  have "basic_ref db ?d = basic_ref db d" using assms(1) by (auto simp: basic_ref_def fun_eq_iff)
  moreover have "storage_ref db ?d = storage_ref db d" using assms(2) by (auto simp: storage_ref_slot fun_eq_iff)
  ultimately show "cd_view db ?d = cd_view db d"
    by (auto simp: cd_view_def code_by_hash_ref_def block_hash_ref_def fun_eq_iff split: db_query.split)
  show "cd_ready db d q \<Longrightarrow> cd_ready db ?d q" by (auto simp: cd_ready_def split: db_query.splits)
qed

text \<open>A freshly loaded account shows what the external database says.\<close>

lemma loaded_db_account:
  assumes "basic db a = Inr i" and "no_stray_storage db a"
  shows "db_info (db_account_of i) = i" "db_slot_of db a (db_account_of i) k = db_storage db a k"
    "db_account_of i = (case i of Some i \<Rightarrow> default_db_account\<lparr>da_info := i\<rparr> | None \<Rightarrow> db_new_not_existing)"
  using assms by (cases i; simp add: db_account_of_def db_account_of_info_def db_new_not_existing_def default_db_account_def
      db_info_def db_slot_of_def no_stray_storage_def)+

lemma cd_basic_view:
  assumes ok: "hget (cd_accounts d) a = None \<longrightarrow> no_stray_storage db a"
  shows "fst (cd_basic db a d) = basic_ref db d a \<and> cd_view db (snd (cd_basic db a d)) = cd_view db d \<and>
    (cd_ready db d q \<longrightarrow> cd_ready db (snd (cd_basic db a d)) q)"
proof (cases "hget (cd_accounts d) a")
  case None
  show ?thesis
  proof (cases "basic db a")
    case (Inr i)
    note l = loaded_db_account [OF Inr] ok None
    have "basic_ref db d a = Inr (db_info (db_account_of i))" "\<And>k. db_slot_of db a (db_account_of i) k = storage_ref db d a k"
      using l Inr by (simp_all add: basic_ref_def storage_ref_slot)
    note put = cd_view_put [OF this]
    have "cd_basic db a d = (Inr (db_info (db_account_of i)), d\<lparr>cd_accounts := hinsert a (db_account_of i) (cd_accounts d)\<rparr>)"
      using None Inr l(3) ok by (simp add: cd_basic_def cd_load_account_def Let_def)
    then show ?thesis using put l Inr None ok by (simp add: basic_ref_def)
  qed (use None in \<open>simp add: cd_basic_def cd_load_account_def basic_ref_def\<close>)
qed (simp add: cd_basic_def cd_load_account_def basic_ref_def)

lemma cd_storage_view:
  assumes ok: "hget (cd_accounts d) a = None \<longrightarrow> no_stray_storage db a"
  shows "fst (cd_storage db a k d) = storage_ref db d a k \<and> cd_view db (snd (cd_storage db a k d)) = cd_view db d \<and>
    (cd_ready db d q \<longrightarrow> cd_ready db (snd (cd_storage db a k d)) q)"
proof -
  have cached: ?thesis if y: "db_slot_of db a y k = Inr v" "basic_ref db d a = Inr (db_info y)"
      "\<And>k. db_slot_of db a y k = storage_ref db d a k"
    and c: "cd_storage db a k d = (Inr v, d\<lparr>cd_accounts := hinsert a (y\<lparr>da_storage := hinsert k v (da_storage y)\<rparr>) (cd_accounts d)\<rparr>)" for y v
  proof -
    have "db_slot_of db a (y\<lparr>da_storage := hinsert k v (da_storage y)\<rparr>) k' = storage_ref db d a k'" for k'
      using y(1) y(3) [of k'] by (auto simp: db_slot_of_def split: if_splits)
    moreover have "basic_ref db d a = Inr (db_info (y\<lparr>da_storage := hinsert k v (da_storage y)\<rparr>))" using y(2) by (simp add: db_info_def)
    ultimately show ?thesis using cd_view_put [of db d a "y\<lparr>da_storage := hinsert k v (da_storage y)\<rparr>"] y(1) y(3) [of k] by (simp add: c)
  qed
  show ?thesis
  proof (cases "hget (cd_accounts d) a")
    case (Some y)
    show ?thesis
    proof (cases "hget (da_storage y) k = None \<and> da_account_state y \<notin> {StorageCleared, DbNotExisting}")
      case True
      show ?thesis
      proof (cases "db_storage db a k")
        case (Inl e)
        then show ?thesis using Some True by (auto simp: cd_storage_def storage_ref_def)
      next
        case (Inr v)
        show ?thesis
          by (rule cached [of y v]) (use Some True Inr in \<open>auto simp: cd_storage_def db_slot_of_def basic_ref_def storage_ref_slot\<close>)
      qed
    qed (use Some in \<open>auto simp: cd_storage_def storage_ref_def split: option.splits\<close>)
  next
    case None
    have stray: "no_stray_storage db a" using ok None by simp
    show ?thesis
    proof (cases "basic db a")
      case (Inl e)
      then show ?thesis using None stray by (simp add: cd_storage_def storage_ref_def no_stray_storage_def)
    next
      case (Inr i)
      note l = loaded_db_account [OF Inr stray]
      show ?thesis
      proof (cases i)
        case (Some j)
        show ?thesis
        proof (cases "db_storage db a k")
          case (Inr v)
          show ?thesis
            by (rule cached [of "db_account_of i" v])
              (use None Some Inr \<open>basic db a = Inr i\<close> l in \<open>simp_all add: cd_storage_def basic_ref_def storage_ref_slot Let_def\<close>)
        qed (use None Some Inr in \<open>simp add: cd_storage_def storage_ref_def\<close>)
      next
        case none: None
        have "cd_storage db a k d = (Inr 0, d\<lparr>cd_accounts := hinsert a (db_account_of i) (cd_accounts d)\<rparr>)"
          using None none Inr by (simp add: cd_storage_def)
        moreover have "basic_ref db d a = Inr (db_info (db_account_of i))" "\<And>k. db_slot_of db a (db_account_of i) k = storage_ref db d a k"
          using l Inr None by (simp_all add: basic_ref_def storage_ref_slot)
        moreover have "storage_ref db d a k = Inr 0" using None stray none Inr by (simp add: storage_ref_def no_stray_storage_def)
        ultimately show ?thesis using cd_view_put [of db d a "db_account_of i"] by simp
      qed
    qed
  qed
qed

interpretation cdb: read_through "cd_ask db" "cd_view db" "cd_ready db" for db
proof
  fix d :: cache_db and q
  assume r: "cd_ready db d q"
  show "\<exists>d'. cd_ask db q d = Val (cd_view db d q, d') \<and> cd_view db d' = cd_view db d \<and> (\<forall>q'. cd_ready db d q' \<longrightarrow> cd_ready db d' q')"
  proof (cases q)
    case (AskBasic a)
    then show ?thesis using cd_basic_view [of d a db] r by (simp add: cd_ask_def cd_view_simps cd_ready_simps reply_def)
  next
    case (AskStorage a k)
    then show ?thesis using cd_storage_view [of d a db k] r by (simp add: cd_ask_def cd_view_simps cd_ready_simps reply_def)
  next
    case (AskCode h)
    then show ?thesis
      by (cases "hget (cd_contracts d) h"; cases "code_by_hash db h")
        (auto simp: cd_ask_def reply_def cd_code_by_hash_def cd_view_def cd_refs cd_ready_def fun_eq_iff split: db_query.splits)
  next
    case (AskBlockHash n)
    then show ?thesis
      by (cases "hget (cd_block_hashes d) n"; cases "block_hash db n")
        (auto simp: cd_ask_def reply_def cd_block_hash_def cd_view_def cd_refs cd_ready_def fun_eq_iff split: db_query.splits)
  qed
qed

section \<open>The block state\<close>

definition st_ask :: "'e database \<Rightarrow> db_query \<Rightarrow> block_state \<Rightarrow> (('e + db_answer) \<times> block_state) eval" where
  "st_ask db q s =
     (case q of
        AskBasic a \<Rightarrow> Val (reply AnsInfo (st_basic db a s))
      | AskCode h \<Rightarrow> Val (reply AnsCode (st_code_by_hash db h s))
      | AskStorage a k \<Rightarrow> bindE (st_storage db a k s) (\<lambda>r. Val (reply AnsSlot r))
      | AskBlockHash n \<Rightarrow> bindE (st_block_hash db n s) (\<lambda>r. Val (reply AnsHash r)))"

text \<open>The account that the state works with: cached, from the preloaded bundle, or from the database.\<close>

definition effective_account :: "'e database \<Rightarrow> block_state \<Rightarrow> address \<Rightarrow> 'e + cache_account" where
  "effective_account db s a =
     (case hget (cs_accounts (st_cache s)) a of
        Some c \<Rightarrow> Inr c
      | None \<Rightarrow>
          (case (if st_use_preloaded_bundle s then bs_account (st_bundle_state s) a else None) of
             Some b \<Rightarrow> Inr (cache_account_of_bundle b)
           | None \<Rightarrow> map_sum id cache_account_of_db (basic db a)))"

definition effective_code :: "'e database \<Rightarrow> block_state \<Rightarrow> b256 \<Rightarrow> 'e + bytecode" where
  "effective_code db s h =
     (case hget (cs_contracts (st_cache s)) h of
        Some c \<Rightarrow> Inr c
      | None \<Rightarrow>
          (case (if st_use_preloaded_bundle s then hget (bs_contracts (st_bundle_state s)) h else None) of
             Some c \<Rightarrow> Inr c
           | None \<Rightarrow> code_by_hash db h))"

definition cached_slot :: "'e database \<Rightarrow> address \<Rightarrow> cache_account \<Rightarrow> u256 \<Rightarrow> 'e + u256" where
  "cached_slot db a c k =
     (case ca_account c of
        None \<Rightarrow> Inr 0
      | Some p \<Rightarrow>
          (case hget (pa_storage p) k of
             Some v \<Rightarrow> Inr v
           | None \<Rightarrow> if is_storage_known (ca_status c) then Inr 0 else db_storage db a k))"

definition st_view :: "'e database \<Rightarrow> block_state \<Rightarrow> db_query \<Rightarrow> 'e + db_answer" where
  "st_view db s q =
     (case q of
        AskBasic a \<Rightarrow> map_sum id (\<lambda>c. AnsInfo (ca_account_info c)) (effective_account db s a)
      | AskCode h \<Rightarrow> map_sum id AnsCode (effective_code db s h)
      | AskStorage a k \<Rightarrow>
          (case effective_account db s a of Inl e \<Rightarrow> Inl e | Inr c \<Rightarrow> map_sum id AnsSlot (cached_slot db a c k))
      | AskBlockHash n \<Rightarrow> map_sum id AnsHash (block_hash db n))"

text \<open>
  Storage is asked of loaded accounts only, and block hashes below \<open>2 ^ 64\<close>; the hashes that are kept are those of
  the database, so that it does not matter which are pruned.
\<close>

definition hashes_of_db :: "'e database \<Rightarrow> block_state \<Rightarrow> bool" where
  "hashes_of_db db s \<longleftrightarrow> (\<forall>(n, h) \<in> set (st_block_hashes s). block_hash db (ucast n) = Inr h)"

definition st_ready :: "'e database \<Rightarrow> block_state \<Rightarrow> db_query \<Rightarrow> bool" where
  "st_ready db s q \<longleftrightarrow>
     (case q of
        AskStorage a k \<Rightarrow> hget (cs_accounts (st_cache s)) a \<noteq> None
      | AskBlockHash n \<Rightarrow> unat n < 2 ^ 64 \<and> hashes_of_db db s
      | _ \<Rightarrow> True)"

lemma put_cached_frame [simp]:
  "st_block_hashes (put_cached a c s) = st_block_hashes s" "st_use_preloaded_bundle (put_cached a c s) = st_use_preloaded_bundle s"
  "st_bundle_state (put_cached a c s) = st_bundle_state s" "cs_contracts (st_cache (put_cached a c s)) = cs_contracts (st_cache s)"
  "hget (cs_accounts (st_cache (put_cached a c s))) = (hget (cs_accounts (st_cache s)))(a \<mapsto> c)"
  by (simp_all add: put_cached_def)

lemma put_contract_frame [simp]:
  "st_block_hashes (put_contract h c s) = st_block_hashes s" "st_use_preloaded_bundle (put_contract h c s) = st_use_preloaded_bundle s"
  "st_bundle_state (put_contract h c s) = st_bundle_state s" "cs_accounts (st_cache (put_contract h c s)) = cs_accounts (st_cache s)"
  "hget (cs_contracts (st_cache (put_contract h c s))) = (hget (cs_contracts (st_cache s)))(h \<mapsto> c)"
  by (simp_all add: put_contract_def)

text \<open>Caching an account that shows what was shown before.\<close>

lemma st_view_put:
  assumes "effective_account db s a = Inr c" and "ca_account_info c' = ca_account_info c"
    and "\<And>k. cached_slot db a c' k = cached_slot db a c k"
  shows "st_view db (put_cached a c' s) = st_view db s"
    "st_ready db s q \<Longrightarrow> st_ready db (put_cached a c' s) q"
proof -
  have e: "effective_account db (put_cached a c' s) a' = (if a' = a then Inr c' else effective_account db s a')" for a'
    by (simp add: effective_account_def split: option.split)
  have "effective_code db (put_cached a c' s) = effective_code db s"
    by (simp add: effective_code_def fun_eq_iff split: option.split)
  then have "st_view db (put_cached a c' s) q = st_view db s q" for q
    using assms by (cases q) (simp_all add: st_view_def e)
  then show "st_view db (put_cached a c' s) = st_view db s" by (rule ext)
  show "st_ready db s q \<Longrightarrow> st_ready db (put_cached a c' s) q"
    by (auto simp: st_ready_def hashes_of_db_def split: db_query.splits)
qed

lemma load_cache_account_view:
  shows "fst (load_cache_account db a s) = effective_account db s a \<and> st_view db (snd (load_cache_account db a s)) = st_view db s \<and>
     (st_ready db s q \<longrightarrow> st_ready db (snd (load_cache_account db a s)) q)"
proof -
  have "snd (load_cache_account db a s) = s \<or>
      (\<exists>c. effective_account db s a = Inr c \<and> snd (load_cache_account db a s) = put_cached a c s)"
    by (auto simp: load_cache_account_def effective_account_def split: option.splits sum.splits if_splits)
  moreover have "fst (load_cache_account db a s) = effective_account db s a"
    by (auto simp: load_cache_account_def effective_account_def split: option.splits sum.splits if_splits)
  ultimately show ?thesis using st_view_put [of db s a] by auto
qed

lemma st_storage_loaded:
  assumes c: "hget (cs_accounts (st_cache s)) a = Some c"
  shows "\<exists>s'. st_storage db a k s = Val (cached_slot db a c k, s') \<and>
     (s' = s \<or> (\<exists>p v. ca_account c = Some p \<and> cached_slot db a c k = Inr v \<and>
        s' = put_cached a (c\<lparr>ca_account := Some (p\<lparr>pa_storage := hinsert k v (pa_storage p)\<rparr>)\<rparr>) s))"
proof (cases "ca_account c")
  case (Some p)
  show ?thesis
  proof (cases "hget (pa_storage p) k")
    case None
    then show ?thesis
      using c Some
      by (cases "if is_storage_known (ca_status c) then Inr 0 else db_storage db a k") (simp_all add: st_storage_def cached_slot_def)
  qed (use c Some in \<open>simp add: st_storage_def cached_slot_def\<close>)
qed (use c in \<open>simp add: st_storage_def cached_slot_def\<close>)

lemma pruned_hashes: "set (prune_block_hashes n m) \<subseteq> set m"
  by (induction n m rule: prune_block_hashes.induct) auto

interpretation stdb: read_through "st_ask db" "st_view db" "st_ready db" for db
proof
  fix s q
  assume r: "st_ready db s q"
  show "\<exists>s'. st_ask db q s = Val (st_view db s q, s') \<and> st_view db s' = st_view db s \<and> (\<forall>q'. st_ready db s q' \<longrightarrow> st_ready db s' q')"
  proof (cases q)
    case (AskBasic a)
    have b: "st_basic db a s = (map_sum id ca_account_info (effective_account db s a), snd (load_cache_account db a s))"
      using load_cache_account_view [of db a s]
      by (cases "load_cache_account db a s"; cases "effective_account db s a") (auto simp: st_basic_def)
    then show ?thesis
      using load_cache_account_view [of db a s] AskBasic
      by (simp add: st_ask_def st_view_def [of db s "AskBasic a"] reply_def sum.map_comp comp_def id_def)
  next
    case (AskCode h)
    have "snd (st_code_by_hash db h s) = s \<or> (\<exists>c. effective_code db s h = Inr c \<and> snd (st_code_by_hash db h s) = put_contract h c s)"
      and f: "fst (st_code_by_hash db h s) = effective_code db s h"
      by (auto simp: st_code_by_hash_def effective_code_def split: option.splits sum.splits)
    moreover have "st_view db (put_contract h c s) = st_view db s \<and> (st_ready db s q' \<longrightarrow> st_ready db (put_contract h c s) q')"
      if "effective_code db s h = Inr c" for c q'
    proof -
      have "effective_code db (put_contract h c s) = effective_code db s"
        using that by (auto simp: effective_code_def fun_eq_iff split: option.split option.split_asm if_split_asm)
      moreover have "effective_account db (put_contract h c s) = effective_account db s"
        by (auto simp: effective_account_def fun_eq_iff split: option.split)
      ultimately show ?thesis
        by (auto simp: st_view_def st_ready_def hashes_of_db_def fun_eq_iff split: db_query.split)
    qed
    ultimately show ?thesis
      using AskCode by (auto simp: st_ask_def st_view_def [of db s "AskCode h"] reply_def)
  next
    case (AskStorage a k)
    then obtain c where c: "hget (cs_accounts (st_cache s)) a = Some c" using r by (auto simp: st_ready_def)
    then have e: "effective_account db s a = Inr c" by (simp add: effective_account_def)
    obtain s' where "st_storage db a k s = Val (cached_slot db a c k, s')"
      and "s' = s \<or> (\<exists>p v. ca_account c = Some p \<and> cached_slot db a c k = Inr v \<and>
          s' = put_cached a (c\<lparr>ca_account := Some (p\<lparr>pa_storage := hinsert k v (pa_storage p)\<rparr>)\<rparr>) s)"
      using st_storage_loaded [OF c, of db k] by blast
    moreover have "cached_slot db a (c\<lparr>ca_account := Some (p\<lparr>pa_storage := hinsert k v (pa_storage p)\<rparr>)\<rparr>) k' = cached_slot db a c k'"
      if "ca_account c = Some p" "cached_slot db a c k = Inr v" for p v k'
      using that by (cases "k' = k") (simp_all add: cached_slot_def del: is_storage_known.simps)
    ultimately show ?thesis
      using AskStorage st_view_put [OF e]
      by (auto simp: st_ask_def st_view_def [of db s "AskStorage a k"] reply_def e ca_account_info_def)
  next
    case (AskBlockHash n)
    then have n: "unat n < 2 ^ 64" "hashes_of_db db s" using r by (simp_all add: st_ready_def)
    have un: "ucast (ucast n :: u64) = n"
      using n(1) by (simp add: word_unat_eq_iff unsigned_ucast_eq unsigned_take_bit_eq take_bit_nat_eq_self)
    let ?m = "prune_block_hashes (saturating_sub (ucast n) (of_nat BLOCK_HASH_HISTORY))"
    have known: "block_hash db n = Inr h" if "hget (st_block_hashes s) (ucast n) = Some h" for h
      using n(2) map_of_SomeD [OF that] un by (force simp: hashes_of_db_def)
    have kept: "hashes_of_db db (s\<lparr>st_block_hashes := ?m (insert_block_hash (ucast n) h (st_block_hashes s))\<rparr>)" if "block_hash db n = Inr h" for h
      using n(2) that un pruned_hashes [of _ "insert_block_hash (ucast n) h (st_block_hashes s)"]
      by (fastforce simp: hashes_of_db_def insert_block_hash_def set_insort_key)
    have frame: "st_view db (s\<lparr>st_block_hashes := m\<rparr>) = st_view db s" for m
      by (auto simp: st_view_def effective_account_def effective_code_def fun_eq_iff split: db_query.split option.split)
    show ?thesis
    proof (cases "hget (st_block_hashes s) (ucast n)")
      case (Some h)
      then show ?thesis using n(1) known [OF Some] AskBlockHash by (simp add: st_ask_def st_block_hash_def reply_def st_view_def)
    next
      case None
      then show ?thesis
        using n(1) AskBlockHash kept frame
        by (cases "block_hash db n") (auto simp: st_ask_def st_block_hash_def reply_def st_view_def [of db s "AskBlockHash n"] st_ready_def Let_def split: db_query.splits)
    qed
  qed
qed

section \<open>Committing to the in-memory database\<close>

lemma hget_fold_slots:
  assumes "hdistinct xs"
  shows "hget (fold (\<lambda>(k, v). hinsert k (f v)) xs m) k = (case hget xs k of Some v \<Rightarrow> Some (f v) | None \<Rightarrow> hget m k)"
  using assms
proof (induction xs arbitrary: m)
  case (Cons p xs)
  obtain k' v where p: "p = (k', v)" by (cases p)
  have "hget xs k' = None" using Cons.prems by (simp add: hdistinct_def p map_of_eq_None_iff)
  with Cons show ?case by (auto simp: p hdistinct_def split: option.splits)
qed simp

text \<open>What one account of a commit leaves in the cache; the code hash is filled in, the rest of the information kept.\<close>

definition db_stored :: "cache_db \<Rightarrow> address \<Rightarrow> db_account" where
  "db_stored d a = (case hget (cd_accounts d) a of Some x \<Rightarrow> x | None \<Rightarrow> default_db_account)"

definition committed :: "account \<Rightarrow> db_account \<Rightarrow> db_account \<Rightarrow> bool" where
  "committed acc x y \<longleftrightarrow>
     (if is_selfdestructed acc then y = x\<lparr>da_storage := [], da_account_state := DbNotExisting, da_info := default_account_info\<rparr>
      else balances (da_info y) = balances (info acc) \<and> nonce (da_info y) = nonce (info acc) \<and> code (da_info y) = code (info acc) \<and>
        da_account_state y = (if is_created acc \<or> da_account_state x = StorageCleared then StorageCleared else DbTouched) \<and>
        (\<forall>k. hget (da_storage y) k =
           (case storage acc k of Some s \<Rightarrow> Some (present_value s) | None \<Rightarrow> if is_created acc then None else hget (da_storage x) k)))"

lemma insert_contract_frame:
  assumes "insert_contract kec i d = Val (i', d')"
  shows "balances i' = balances i" "nonce i' = nonce i" "code i' = code i" "cd_accounts d' = cd_accounts d"
    "cd_token_ids d' = cd_token_ids d" "cd_block_hashes d' = cd_block_hashes d"
  using assms by (auto simp: insert_contract_def evals split: option.splits if_splits)

lemma commit_account_effect:
  assumes c: "commit_account kec a acc d = Val d'" and fin: "finite (dom (storage acc))"
  shows "hget (cd_accounts d') a' = (if a' = a \<and> is_touched acc then Some (db_stored d' a) else hget (cd_accounts d) a')"
    "is_touched acc \<Longrightarrow> committed acc (db_stored d a) (db_stored d' a)" "cd_token_ids d' = cd_token_ids d"
proof -
  have "(hget (cd_accounts d') a' = (if a' = a \<and> is_touched acc then Some (db_stored d' a) else hget (cd_accounts d) a')) \<and>
    (is_touched acc \<longrightarrow> committed acc (db_stored d a) (db_stored d' a)) \<and> cd_token_ids d' = cd_token_ids d"
  proof (cases "is_touched acc \<and> \<not> is_selfdestructed acc")
    case True
    then obtain i d1 where i: "insert_contract kec (info acc) d = Val (i, d1)" using c by (auto simp: commit_account_def evals)
    note frame = insert_contract_frame [OF i]
    have x: "(case hget (cd_accounts d1) a of Some x \<Rightarrow> x | None \<Rightarrow> default_db_account) = db_stored d a"
      by (simp add: db_stored_def frame)
    let ?x = "db_stored d a"
    let ?y = "(if is_created acc then ?x\<lparr>da_info := i, da_storage := [], da_account_state := StorageCleared\<rparr>
        else if da_account_state ?x = StorageCleared then ?x\<lparr>da_info := i, da_account_state := StorageCleared\<rparr>
        else ?x\<lparr>da_info := i, da_account_state := DbTouched\<rparr>)"
    let ?z = "?y\<lparr>da_storage := fold (\<lambda>(k, s). hinsert k (present_value s)) (entries (storage acc)) (da_storage ?y)\<rparr>"
    obtain z where z: "z = ?z" by blast
    have d': "d' = d1\<lparr>cd_accounts := hinsert a z (cd_accounts d1)\<rparr>"
      using c True i by (auto simp: commit_account_def Let_def x z split: if_splits)
    have "committed acc ?x z"
      using True frame hget_entries [OF fin] unfolding z
      by (auto simp: committed_def hget_fold_slots split: option.splits)
    moreover have "db_stored d' a = z" by (simp add: d' db_stored_def)
    ultimately show ?thesis using True frame by (simp add: d')
  next
    case False
    then consider "\<not> is_touched acc" | "is_touched acc" "is_selfdestructed acc" by blast
    then show ?thesis
    proof cases
      case 1
      then show ?thesis using c by (simp add: commit_account_def)
    next
      case 2
      then have "d' = d\<lparr>cd_accounts := hinsert a ((db_stored d a)\<lparr>da_storage := [], da_account_state := DbNotExisting,
          da_info := default_account_info\<rparr>) (cd_accounts d)\<rparr>"
        using c by (auto simp: commit_account_def hentry_def db_stored_def)
      then show ?thesis using 2 by (simp add: committed_def db_stored_def)
    qed
  qed
  then show "hget (cd_accounts d') a' = (if a' = a \<and> is_touched acc then Some (db_stored d' a) else hget (cd_accounts d) a')"
    "is_touched acc \<Longrightarrow> committed acc (db_stored d a) (db_stored d' a)" "cd_token_ids d' = cd_token_ids d" by simp_all
qed

lemma commit_accounts_effect:
  assumes "commit_accounts kec accs d = Val d'" and "hdistinct accs" and "\<forall>a acc. hget accs a = Some acc \<longrightarrow> finite (dom (storage acc))"
  shows "(case hget accs a of
       Some acc \<Rightarrow> if is_touched acc then hget (cd_accounts d') a = Some (db_stored d' a) \<and> committed acc (db_stored d a) (db_stored d' a)
                  else hget (cd_accounts d') a = hget (cd_accounts d) a
     | None \<Rightarrow> hget (cd_accounts d') a = hget (cd_accounts d) a)"
  using assms
proof (induction accs arbitrary: d)
  case (Cons p accs)
  obtain b acc where p: "p = (b, acc)" by (cases p)
  have none: "hget accs b = None" and dist: "hdistinct accs" using Cons.prems(2) by (simp_all add: hdistinct_def p map_of_eq_None_iff)
  obtain d1 where one: "commit_account kec b acc d = Val d1" and rest: "commit_accounts kec accs d1 = Val d'"
    using Cons.prems(1) by (auto simp: p evals)
  have fin: "finite (dom (storage acc))" using Cons.prems(3) by (simp add: p)
  have fins: "\<forall>a acc. hget accs a = Some acc \<longrightarrow> finite (dom (storage acc))" using Cons.prems(3) none by (auto simp: p split: if_splits)
  note IH = Cons.IH [OF rest dist fins]
  note one = commit_account_effect [OF one fin]
  show ?case
  proof (cases "a = b")
    case True
    have h: "hget (cd_accounts d') b = hget (cd_accounts d1) b" using IH none True by simp
    then have "db_stored d' b = db_stored d1 b" by (simp add: db_stored_def)
    then show ?thesis using h one(1) [of b] one(2) True by (simp add: p)
  next
    case False
    then have "hget (cd_accounts d1) a = hget (cd_accounts d) a" using one(1) [of a] by simp
    then have "db_stored d1 a = db_stored d a" by (simp add: db_stored_def)
    with \<open>hget (cd_accounts d1) a = hget (cd_accounts d) a\<close> show ?thesis using IH False by (auto simp: p split: option.splits if_splits)
  qed
qed simp

definition finite_state :: "evm_state \<Rightarrow> bool" where
  "finite_state st \<longleftrightarrow> finite (dom (accounts st)) \<and> (\<forall>a acc. accounts st a = Some acc \<longrightarrow> finite (dom (storage acc)))"

lemma cd_commit_effect:
  assumes "cd_commit kec st d = Val d'" and "finite_state st"
  shows "(case accounts st a of
       Some acc \<Rightarrow> if is_touched acc then hget (cd_accounts d') a = Some (db_stored d' a) \<and> committed acc (db_stored d a) (db_stored d' a)
                  else hget (cd_accounts d') a = hget (cd_accounts d) a
     | None \<Rightarrow> hget (cd_accounts d') a = hget (cd_accounts d) a)" "cd_token_ids d' = token_ids st"
proof -
  obtain d1 where c: "commit_accounts kec (entries (accounts st)) d = Val d1" and d': "d' = d1\<lparr>cd_token_ids := token_ids st\<rparr>"
    using assms(1) by (auto simp: cd_commit_def evals)
  have e: "hget (entries (accounts st)) = accounts st" using assms(2) by (simp add: finite_state_def hget_entries)
  have "db_stored d' = db_stored d1" by (simp add: d' db_stored_def fun_eq_iff)
  then show "(case accounts st a of
       Some acc \<Rightarrow> if is_touched acc then hget (cd_accounts d') a = Some (db_stored d' a) \<and> committed acc (db_stored d a) (db_stored d' a)
                  else hget (cd_accounts d') a = hget (cd_accounts d) a
     | None \<Rightarrow> hget (cd_accounts d') a = hget (cd_accounts d) a)"
    using commit_accounts_effect [OF c, of a] assms(2) e by (auto simp: finite_state_def d' split: option.splits if_splits)
  show "cd_token_ids d' = token_ids st" by (simp add: d')
qed

lemma storage_ref_stored: "storage_ref db d a k = db_slot_of db a (db_stored d a) k"
  by (simp add: storage_ref_slot db_stored_def db_slot_of_def default_db_account_def split: option.split)

text \<open>A database with one account that holds 7 in slot 5, and the state of a transaction that touched it.\<close>

definition slot_db :: "unit database" where
  "slot_db = (empty_db (\<lambda>_. 0))\<lparr>basic := (\<lambda>a. Inr (if a = 1 then Some (info_new Map.empty 1 KECCAK_EMPTY bytecode_new) else None)),
     db_storage := (\<lambda>a k. Inr (if a = 1 \<and> k = 5 then 7 else 0))\<rparr>"

definition touched_state :: "account_status \<Rightarrow> (u256 \<rightharpoonup> evm_storage_slot) \<Rightarrow> evm_state" where
  "touched_state flags slots =
     \<lparr>accounts = [1 \<mapsto> \<lparr>info = info_new Map.empty 2 KECCAK_EMPTY bytecode_new, storage = slots, status = flags\<rparr>], token_ids = [0]\<rparr>"

lemma touched_state_finite: "finite (dom slots) \<Longrightarrow> finite_state (touched_state flags slots)"
  by (simp add: finite_state_def touched_state_def)

lemma touched_state_commits: "\<exists>d'. cd_commit kec (touched_state flags slots) d = Val d'"
proof -
  have "entries [1 \<mapsto> x] = [(1 :: address, x)]" for x :: account by (simp add: entries_def)
  then show ?thesis
    by (auto simp: cd_commit_def touched_state_def commit_account_def insert_contract_def info_new_def Let_def)
qed

text \<open>
  C16. Reading the in-memory database and reading it by reference agree: any sequence of \<^verbatim>\<open>basic\<close>,
  \<^verbatim>\<open>code_by_hash\<close>, \<^verbatim>\<open>storage\<close> and \<^verbatim>\<open>block_hash\<close> calls, which fill the cache as they go, is answered as the
  read-only methods answer on the cache at the start, and the cache at the end answers the same. This holds
  when, for every account that is asked for and not yet cached, the external database has no storage if it does not have
  the account, and fails on the storage as it fails on the account; otherwise the two ways of reading differ.
\<close>

theorem cache_reads_agree_with_ref:
  assumes "\<forall>q \<in> set qs. cd_ready db d q"
  shows "\<exists>d'. ask_all (cd_ask db) qs d = Val (map (cd_view db d) qs, d') \<and> cd_view db d' = cd_view db d"
  using cdb.ask_all_view [OF assms] by blast

theorem cache_reads_agree_with_ref_witness:
  "\<exists>d'. ask_all (cd_ask slot_db) [AskBasic 1, AskStorage 1 5, AskStorage 2 5] cache_db_new =
     Val ([Inr (AnsInfo (Some (info_new Map.empty 1 KECCAK_EMPTY bytecode_new))), Inr (AnsSlot 7), Inr (AnsSlot 0)], d')"
proof -
  have "\<forall>q \<in> set [AskBasic 1, AskStorage 1 5, AskStorage 2 5]. cd_ready slot_db cache_db_new q"
    by (simp add: cd_ready_def no_stray_storage_def slot_db_def cache_db_new_def)
  note reads = cache_reads_agree_with_ref [OF this]
  have "map (cd_view slot_db cache_db_new) [AskBasic 1, AskStorage 1 5, AskStorage 2 5] =
      [Inr (AnsInfo (Some (info_new Map.empty 1 KECCAK_EMPTY bytecode_new))), Inr (AnsSlot 7), Inr (AnsSlot 0)]"
    by (simp add: cd_view_simps basic_ref_def storage_ref_def cache_db_new_def slot_db_def)
  with reads show ?thesis by metis
qed

text \<open>
  C9. A commit to the in-memory database can be read back. A touched account that was not destroyed shows its
  balances, nonce and code, and its slots with their present values; its other slots are zero when it was
  created in the transaction and as before otherwise (unless the database had the account as not existing).
  A destroyed account does not exist and has no storage, every other account is as before, and the token ids are
  those of the transaction.
\<close>

theorem commit_read_back:
  assumes "cd_commit kec st d = Val d'" and "finite_state st"
  shows "cd_get_token_ids d' = Inr (token_ids st) \<and>
    (case accounts st a of
       Some acc \<Rightarrow>
         (if \<not> is_touched acc then basic_ref db d' a = basic_ref db d a \<and> storage_ref db d' a k = storage_ref db d a k
          else if is_selfdestructed acc then basic_ref db d' a = Inr None \<and> storage_ref db d' a k = Inr 0
          else (\<exists>i. basic_ref db d' a = Inr (Some i) \<and> balances i = balances (info acc) \<and> nonce i = nonce (info acc) \<and> code i = code (info acc)) \<and>
            (case storage acc k of
               Some s \<Rightarrow> storage_ref db d' a k = Inr (present_value s)
             | None \<Rightarrow>
                 if is_created acc then storage_ref db d' a k = Inr 0
                 else da_account_state (db_stored d a) \<noteq> DbNotExisting \<longrightarrow> storage_ref db d' a k = storage_ref db d a k))
     | None \<Rightarrow> basic_ref db d' a = basic_ref db d a \<and> storage_ref db d' a k = storage_ref db d a k)"
proof (cases "\<exists>acc. accounts st a = Some acc \<and> is_touched acc")
  case False
  then have "hget (cd_accounts d') a = hget (cd_accounts d) a"
    using cd_commit_effect(1) [OF assms, of a] by (auto split: option.splits)
  then show ?thesis
    using False cd_commit_effect(2) [OF assms]
    by (auto simp: cd_get_token_ids_def basic_ref_def storage_ref_def split: option.splits)
next
  case True
  then obtain acc where acc: "accounts st a = Some acc" "is_touched acc" by blast
  then have h: "hget (cd_accounts d') a = Some (db_stored d' a)" and c: "committed acc (db_stored d a) (db_stored d' a)"
    using cd_commit_effect(1) [OF assms, of a] by simp_all
  show ?thesis
  proof (cases "is_selfdestructed acc")
    case True
    then show ?thesis
      using acc h c cd_commit_effect(2) [OF assms]
      by (simp add: cd_get_token_ids_def basic_ref_def storage_ref_stored committed_def db_info_def db_slot_of_def)
  next
    case False
    then have "\<exists>i. basic_ref db d' a = Inr (Some i) \<and> balances i = balances (info acc) \<and> nonce i = nonce (info acc) \<and> code i = code (info acc)"
      using c h by (auto simp: basic_ref_def committed_def db_info_def)
    moreover have "case storage acc k of
               Some s \<Rightarrow> storage_ref db d' a k = Inr (present_value s)
             | None \<Rightarrow>
                 if is_created acc then storage_ref db d' a k = Inr 0
                 else da_account_state (db_stored d a) \<noteq> DbNotExisting \<longrightarrow> storage_ref db d' a k = storage_ref db d a k"
      using c False by (auto simp: storage_ref_stored committed_def db_slot_of_def split: option.splits)
    ultimately show ?thesis using acc False cd_commit_effect(2) [OF assms] by (simp add: cd_get_token_ids_def)
  qed
qed

theorem commit_read_back_witness:
  "\<exists>d'. cd_commit (\<lambda>_. 0) (touched_state Touched [5 \<mapsto> slot_new_changed 7 9]) cache_db_new = Val d' \<and>
     storage_ref slot_db d' 1 5 = Inr 9 \<and> storage_ref slot_db d' 1 6 = Inr 0"
proof -
  let ?st = "touched_state Touched [5 \<mapsto> slot_new_changed 7 9]"
  obtain d' where c: "cd_commit (\<lambda>_. 0) ?st cache_db_new = Val d'" using touched_state_commits by blast
  have f: "finite_state ?st" by (simp add: touched_state_finite)
  have start: "storage_ref slot_db cache_db_new 1 6 = Inr 0" "da_account_state (db_stored cache_db_new 1) \<noteq> DbNotExisting"
    by (simp_all add: storage_ref_def cache_db_new_def slot_db_def db_stored_def default_db_account_def)
  have "is_touched x" "\<not> is_selfdestructed x" "\<not> is_created x" if "status x = Touched" for x
    using that by (simp_all add: flag_ops flag_contains_def Touched_def SelfDestructed_def Created_def)
  note flags = this
  have "storage_ref slot_db d' 1 5 = Inr 9"
    using commit_read_back [OF c f, where a = 1 and db = slot_db and k = 5]
    by (auto simp: touched_state_def slot_new_changed_def flags)
  moreover have "storage_ref slot_db d' 1 6 = Inr 0"
    using commit_read_back [OF c f, where a = 1 and db = slot_db and k = 6]
    by (auto simp: touched_state_def slot_new_changed_def flags start)
  ultimately show ?thesis using c by blast
qed

text \<open>
  C35. Storage of a destroyed account comes back. After the commit of a transaction that destroyed an account, its
  slots read zero; when a later transaction touches the account without creating it (say, it is paid), the
  commit marks it \<^verbatim>\<open>Touched\<close>, because only \<^verbatim>\<open>StorageCleared\<close> is preserved, and slots that it did not
  write are read from the external database again, with the values from before the destruction.
\<close>

theorem destroyed_storage_returns:
  assumes "cd_commit kec st d = Val d'" and "finite_state st" and "accounts st a = Some acc" and "is_touched acc" "is_selfdestructed acc"
    and "cd_commit kec st' d' = Val d''" and "finite_state st'" and "accounts st' a = Some acc'" and "is_touched acc'"
    and "\<not> is_selfdestructed acc'" "\<not> is_created acc'" and "storage acc' k = None"
  shows "storage_ref db d' a k = Inr 0 \<and> storage_ref db d'' a k = db_storage db a k"
proof -
  have c: "committed acc (db_stored d a) (db_stored d' a)" using cd_commit_effect(1) [OF assms(1,2), of a] assms(3,4) by simp
  have c': "committed acc' (db_stored d' a) (db_stored d'' a)" using cd_commit_effect(1) [OF assms(6,7), of a] assms(8,9) by simp
  show ?thesis using c c' assms by (simp add: storage_ref_stored committed_def db_slot_of_def)
qed

theorem destroyed_storage_returns_witness:
  "\<exists>d' d''. cd_commit (\<lambda>_. 0) (touched_state (flag_insert Touched SelfDestructed) Map.empty) cache_db_new = Val d' \<and>
     cd_commit (\<lambda>_. 0) (touched_state Touched Map.empty) d' = Val d'' \<and>
     storage_ref slot_db d' 1 5 = Inr 0 \<and> storage_ref slot_db d'' 1 5 = Inr 7"
proof -
  obtain d' where c: "cd_commit (\<lambda>_. 0) (touched_state (flag_insert Touched SelfDestructed) Map.empty) cache_db_new = Val d'"
    using touched_state_commits by blast
  obtain d'' where c': "cd_commit (\<lambda>_. 0) (touched_state Touched Map.empty) d' = Val d''" using touched_state_commits by blast
  have "storage_ref slot_db d' 1 5 = Inr 0 \<and> storage_ref slot_db d'' 1 5 = db_storage slot_db 1 5"
    by (rule destroyed_storage_returns [OF c touched_state_finite _ _ _ c' touched_state_finite, where
          acc = "\<lparr>info = info_new Map.empty 2 KECCAK_EMPTY bytecode_new, storage = Map.empty, status = flag_insert Touched SelfDestructed\<rparr>" and
          acc' = "\<lparr>info = info_new Map.empty 2 KECCAK_EMPTY bytecode_new, storage = Map.empty, status = Touched\<rparr>"])
      (simp_all add: touched_state_def flag_ops flag_contains_def flag_insert_def Touched_def SelfDestructed_def Created_def)
  then show ?thesis using c c' by (simp add: slot_db_def)
qed

end
