(* ===== verification/Bundle_Undo.thy ===== *)
theory Bundle_Undo
  imports Bundle_State
begin

text \<open>
  What a bundle shows of the world, and that reverting the latest block of a bundle shows again what it
  showed before the block was merged.
\<close>

lemma hdistinct_hmap [simp]: "hdistinct (hmap g m) = hdistinct m"
  by (simp add: hdistinct_def hmap_def case_prod_beta comp_def)

section \<open>Storage by its present values\<close>

definition pres :: "storage_with_original_values \<Rightarrow> u256 \<rightharpoonup> u256" where
  "pres st k = map_option ss_present_value (hget st k)"

lemma pres_Nil [simp]: "pres [] k = None"
  by (simp add: pres_def)

lemma pres_Some_iff: "pres st k = Some v \<longleftrightarrow> (\<exists>s. hget st k = Some s \<and> ss_present_value s = v)"
  by (auto simp: pres_def)

lemma pres_None_iff: "pres st k = None \<longleftrightarrow> hget st k = None"
  by (simp add: pres_def)

lemma pres_extend [simp]:
  "hdistinct u \<Longrightarrow> pres (extend_storage st u) k = (case pres u k of Some v \<Rightarrow> Some v | None \<Rightarrow> pres st k)"
  unfolding pres_def extend_storage_def
  by (subst hget_fold_entry) (auto split: option.splits)

lemma hdistinct_extend [simp]: "hdistinct st \<Longrightarrow> hdistinct (extend_storage st u)"
  unfolding extend_storage_def by (rule hdistinct_fold_entry)

lemma pres_zeroed [simp]: "pres (hmap (\<lambda>s. s\<lparr>ss_present_value := 0\<rparr>) st) k = map_option (\<lambda>_. 0) (pres st k)"
  by (simp add: pres_def option.map_comp comp_def)

lemma hget_revert_to_present [simp]: "hget (revert_to_present st) k = map_option RevertSome (pres st k)"
  by (simp add: revert_to_present_def pres_def option.map_comp comp_def)

lemma hget_or_destroyed [simp]:
  "hdistinct u \<Longrightarrow> hget (or_destroyed u rs) k =
     (case hget rs k of Some r \<Rightarrow> Some r | None \<Rightarrow> if pres u k = None then None else Some SlotDestroyed)"
  unfolding or_destroyed_def
  using hget_fold_entry [where g = "\<lambda>_. SlotDestroyed" and h = "\<lambda>_ r. r" and ys = u and m = rs and k = k]
  by (auto simp: pres_def case_prod_beta split: option.splits)

lemma hdistinct_or_destroyed [simp]: "hdistinct rs \<Longrightarrow> hdistinct (or_destroyed u rs)"
  unfolding or_destroyed_def
  using hdistinct_fold_entry [where g = "\<lambda>_. SlotDestroyed" and h = "\<lambda>_ r. r" and ys = u and m = rs] by simp

lemma hdistinct_reverts [simp]:
  "hdistinct (revert_to_present st) = hdistinct st"
  "hdistinct u \<Longrightarrow> hdistinct (previous_storage_from_update u)"
  by (simp_all add: revert_to_present_def previous_storage_from_update_def)

lemma hget_previous [simp]:
  "hdistinct u \<Longrightarrow> hget (previous_storage_from_update u) k =
     (case hget u k of
        Some s \<Rightarrow> if storage_slot_is_changed s then Some (RevertSome (previous_or_original_value s)) else None
      | None \<Rightarrow> None)"
  by (simp add: previous_storage_from_update_def hget_filter_value split: option.splits)

lemma pres_revert [simp]:
  assumes "hdistinct rs"
  shows "pres (fold (\<lambda>(k, s). revert_slot k s) rs st) k =
     (case hget rs k of None \<Rightarrow> pres st k | Some (RevertSome v) \<Rightarrow> Some v | Some SlotDestroyed \<Rightarrow> None)"
  using assms
proof (induction rs arbitrary: st)
  case (Cons p rs)
  obtain k' r where p: "p = (k', r)" by (cases p)
  have "hget rs k' = None" using Cons.prems by (simp add: hdistinct_def p map_of_eq_None_iff)
  with Cons show ?case by (cases r) (auto simp: p hdistinct_def pres_def split: option.splits revert_to_slot.splits)
qed simp

section \<open>One account\<close>

text \<open>The value of a slot seen through a bundle account, over the slots of the database.\<close>

definition seen_in :: "(u256 \<Rightarrow> u256) \<Rightarrow> bundle_account \<Rightarrow> u256 \<Rightarrow> u256" where
  "seen_in slots b k = (case ba_storage_slot b k of Some v \<Rightarrow> v | None \<Rightarrow> slots k)"

lemma seen_in_pres:
  "seen_in slots b k =
     (case pres (ba_storage b) k of Some v \<Rightarrow> v | None \<Rightarrow> if is_storage_known (ba_status b) then 0 else slots k)"
  by (simp add: seen_in_def ba_storage_slot_def pres_def split: option.splits)

definition absent_status :: "cache_status \<Rightarrow> bool" where
  "absent_status s \<longleftrightarrow> s \<in> {LoadedNotExisting, StatusDestroyed, DestroyedAgain}"

definition wf_account :: "(u256 \<Rightarrow> u256) \<Rightarrow> bundle_account \<Rightarrow> bool" where
  "wf_account slots b \<longleftrightarrow>
     hdistinct (ba_storage b) \<and>
     (ba_info b = None \<longleftrightarrow> absent_status (ba_status b)) \<and>
     (absent_status (ba_status b) \<longrightarrow> (\<forall>k. seen_in slots b k = 0)) \<and>
     (ba_status b = LoadedNotExisting \<longrightarrow> ba_original_info b = None) \<and>
     (ba_status b = LoadedEmptyEIP161 \<longrightarrow> (\<forall>k. seen_in slots b k = slots k))"

text \<open>The statuses that the operations of a cached account can lead to, from a given one.\<close>

fun follows :: "cache_status \<Rightarrow> cache_status \<Rightarrow> bool" where
  "follows s Changed \<longleftrightarrow> s \<in> {Changed, StatusLoaded}"
| "follows s InMemoryChange \<longleftrightarrow> s \<in> {LoadedNotExisting, StatusLoaded, LoadedEmptyEIP161, InMemoryChange}"
| "follows s StatusDestroyed \<longleftrightarrow> \<not> was_destroyed s"
| "follows s DestroyedChanged \<longleftrightarrow> True"
| "follows s DestroyedAgain \<longleftrightarrow> True"
| "follows s _ \<longleftrightarrow> False"

text \<open>
  A transition that continues a bundle account: it reaches its status, has the previous values of its slots
  right unless the storage was destroyed on the way, and an account that becomes wholly known in memory
  has no storage in the database.
\<close>

definition continues :: "(u256 \<Rightarrow> u256) \<Rightarrow> bundle_account \<Rightarrow> transition_account \<Rightarrow> bool" where
  "continues slots b t \<longleftrightarrow>
     follows (ba_status b) (ta_status t) \<and>
     hdistinct (ta_storage t) \<and>
     (ta_info t = None \<longleftrightarrow> absent_status (ta_status t)) \<and>
     (absent_status (ta_status t) \<longrightarrow> ta_storage t = []) \<and>
     (ta_storage_was_destroyed t \<longrightarrow> was_destroyed (ta_status t)) \<and>
     (\<not> was_destroyed (ba_status b) \<and> ba_status b \<noteq> LoadedNotExisting \<and> was_destroyed (ta_status t) \<longrightarrow>
        ta_storage_was_destroyed t) \<and>
     (absent_status (ta_status t) \<longrightarrow> ta_storage_was_destroyed t) \<and>
     (\<not> ta_storage_was_destroyed t \<longrightarrow>
        (\<forall>k s. hget (ta_storage t) k = Some s \<longrightarrow> previous_or_original_value s = seen_in slots b k)) \<and>
     (ta_status t = InMemoryChange \<and> \<not> is_storage_known (ba_status b) \<longrightarrow> (\<forall>k. seen_in slots b k = 0))"

text \<open>What is seen after the transition.\<close>

definition after_transition :: "transition_account \<Rightarrow> (u256 \<Rightarrow> u256) \<Rightarrow> u256 \<Rightarrow> u256" where
  "after_transition t seen k =
     (case pres (ta_storage t) k of
        Some v \<Rightarrow> v
      | None \<Rightarrow> if ta_storage_was_destroyed t then 0 else seen k)"

text \<open>A revert takes an account back: it is removed, when nothing was there, or shows what another one shows.\<close>

definition takes_back :: "(u256 \<Rightarrow> u256) \<Rightarrow> account_revert option \<Rightarrow> bundle_account \<Rightarrow> bundle_account \<Rightarrow> bool" where
  "takes_back slots r b' b \<longleftrightarrow>
     (case r of
        None \<Rightarrow> info_opt_eq (ba_info b') (ba_info b) \<and> seen_in slots b' = seen_in slots b
      | Some r \<Rightarrow>
          (case ba_revert r b' of
             (True, _) \<Rightarrow> ba_info b = None \<and> ba_original_info b = None
           | (False, b'') \<Rightarrow> info_opt_eq (ba_info b'') (ba_info b) \<and> seen_in slots b'' = seen_in slots b))"

lemma info_opt_eq_refl [simp]: "info_opt_eq i i"
  by (cases i) (auto simp: info_eq_iff)

lemma info_opt_eq_sym: "info_opt_eq i j \<Longrightarrow> info_opt_eq j i"
  by (cases i; cases j) (auto simp: info_eq_iff)

lemma info_opt_eq_trans: "info_opt_eq i j \<Longrightarrow> info_opt_eq j k \<Longrightarrow> info_opt_eq i k"
  by (cases i; cases j; cases k) (auto simp: info_eq_iff)

lemmas update_cases =
  update_to_changed_def update_to_in_memory_change_def update_to_destroyed_def
  update_to_destroyed_changed_def update_to_destroyed_again_def new_selfdestructed_from_bundle_def

text \<open>No transition that continues an account hits an unreachable branch.\<close>

lemma update_total:
  assumes "follows (ba_status b) (ta_status t)"
  shows "\<exists>r b'. update_and_create_revert t b = Val (r, b')"
  using assms
  by (cases "ta_status t"; cases "ba_status b") (auto simp: update_and_create_revert_def update_cases Let_def)

definition update_raw :: "transition_account \<Rightarrow> bundle_account \<Rightarrow> (account_revert option \<times> bundle_account) eval" where
  "update_raw t b =
     (case ta_status t of
        Changed \<Rightarrow> update_to_changed t b
      | InMemoryChange \<Rightarrow> update_to_in_memory_change t b
      | StatusLoaded \<Rightarrow> Val (None, b)
      | LoadedNotExisting \<Rightarrow> Val (None, b)
      | LoadedEmptyEIP161 \<Rightarrow> Val (None, b)
      | StatusDestroyed \<Rightarrow> update_to_destroyed t b
      | DestroyedChanged \<Rightarrow> update_to_destroyed_changed t b
      | DestroyedAgain \<Rightarrow> update_to_destroyed_again t b)"

lemma update_and_create_revert_raw:
  "update_and_create_revert t b =
     bindE (update_raw t b) (\<lambda>(r, b). Val (Option.bind r (\<lambda>r. if ar_is_empty r then None else Some r), b))"
  by (simp add: update_and_create_revert_def update_raw_def)

text \<open>The branches of an update that continues an account.\<close>

lemma update_raw_elim [case_names changed in_memory filled created destroyed never_was recreated made_again
    emptied_again grown made_after wiped still_absent wiped_again]:
  assumes f: "follows (ba_status b) (ta_status t)" and u: "update_raw t b = Val (r, b')"
  obtains
    "ta_status t = Changed" "ba_status b \<in> {Changed, StatusLoaded}"
    "r = Some \<lparr>ar_account = info_revert_of b (ta_info t), ar_storage = previous_storage_from_update (ta_storage t),
               ar_previous_status = ba_status b, ar_wipe_storage = False\<rparr>"
    "b' = b\<lparr>ba_storage := extend_storage (ba_storage b) (ta_storage t), ba_status := Changed, ba_info := ta_info t\<rparr>"
  | "ta_status t = InMemoryChange" "ba_status b \<in> {StatusLoaded, InMemoryChange}"
    "r = Some \<lparr>ar_account = info_revert_of b (ta_info t), ar_storage = previous_storage_from_update (ta_storage t),
               ar_previous_status = ba_status b, ar_wipe_storage = False\<rparr>"
    "b' = b\<lparr>ba_storage := extend_storage (ba_storage b) (ta_storage t), ba_status := InMemoryChange, ba_info := ta_info t\<rparr>"
  | "ta_status t = InMemoryChange" "ba_status b = LoadedEmptyEIP161"
    "r = Some \<lparr>ar_account = info_revert_of b (ta_info t), ar_storage = previous_storage_from_update (ta_storage t),
               ar_previous_status = ba_status b, ar_wipe_storage = False\<rparr>"
    "b' = b\<lparr>ba_storage := ta_storage t, ba_status := InMemoryChange, ba_info := ta_info t\<rparr>"
  | "ta_status t = InMemoryChange" "ba_status b = LoadedNotExisting"
    "r = Some \<lparr>ar_account = DeleteIt, ar_storage = previous_storage_from_update (ta_storage t),
               ar_previous_status = ba_status b, ar_wipe_storage = False\<rparr>"
    "b' = b\<lparr>ba_storage := ta_storage t, ba_status := InMemoryChange, ba_info := ta_info t\<rparr>"
  | "ta_status t = StatusDestroyed" "ba_status b \<in> {InMemoryChange, Changed, LoadedEmptyEIP161, StatusLoaded}"
    "r = Some (new_selfdestructed (ba_status b) (info_revert_of b (ta_info t)) (ba_storage b))"
    "b' = b\<lparr>ba_storage := [], ba_status := StatusDestroyed, ba_info := None\<rparr>"
  | "ta_status t = StatusDestroyed" "ba_status b = LoadedNotExisting" "r = None" "b' = b\<lparr>ba_storage := []\<rparr>"
  | "ta_status t = DestroyedChanged" "ba_status b \<in> {InMemoryChange, Changed, LoadedEmptyEIP161, StatusLoaded}"
    "r = Some ((new_selfdestructed_again (ba_status b) (info_revert_of b (ta_info t)) (ba_storage b) (ta_storage t))
                 \<lparr>ar_wipe_storage := True\<rparr>)"
    "b' = b\<lparr>ba_status := DestroyedChanged, ba_info := ta_info t, ba_storage := ta_storage t\<rparr>"
  | "ta_status t = DestroyedChanged" "ba_status b \<in> {StatusDestroyed, LoadedNotExisting}"
    "r = Some \<lparr>ar_account = DeleteIt, ar_storage = previous_storage_from_update (ta_storage t),
               ar_previous_status = ba_status b, ar_wipe_storage = False\<rparr>"
    "b' = b\<lparr>ba_status := DestroyedChanged, ba_info := ta_info t, ba_storage := extend_storage (ba_storage b) (ta_storage t)\<rparr>"
  | "ta_status t = DestroyedChanged" "ba_status b = DestroyedChanged" "ta_storage_was_destroyed t"
    "r = Some \<lparr>ar_account = info_revert_of b (ta_info t),
               ar_storage = or_destroyed (ta_storage t) (revert_to_present (ba_storage b)),
               ar_previous_status = DestroyedChanged, ar_wipe_storage = False\<rparr>"
    "b' = b\<lparr>ba_status := DestroyedChanged, ba_info := ta_info t, ba_storage := extend_storage [] (ta_storage t)\<rparr>"
  | "ta_status t = DestroyedChanged" "ba_status b = DestroyedChanged" "\<not> ta_storage_was_destroyed t"
    "r = Some \<lparr>ar_account = info_revert_of b (ta_info t), ar_storage = previous_storage_from_update (ta_storage t),
               ar_previous_status = DestroyedChanged, ar_wipe_storage = False\<rparr>"
    "b' = b\<lparr>ba_status := DestroyedChanged, ba_info := ta_info t, ba_storage := extend_storage (ba_storage b) (ta_storage t)\<rparr>"
  | "ta_status t = DestroyedChanged" "ba_status b = DestroyedAgain"
    "r = Some (new_selfdestructed_again DestroyedAgain DeleteIt [] (ta_storage t))"
    "b' = b\<lparr>ba_status := DestroyedChanged, ba_info := ta_info t, ba_storage := extend_storage (ba_storage b) (ta_storage t)\<rparr>"
  | "ta_status t = DestroyedAgain" "ba_status b \<in> {InMemoryChange, Changed, LoadedEmptyEIP161, StatusLoaded}"
    "r = Some ((new_selfdestructed_again (ba_status b) (info_revert_of b (ta_info t)) (ba_storage b) [])
                 \<lparr>ar_wipe_storage := True\<rparr>)"
    "b' = b\<lparr>ba_status := DestroyedAgain, ba_info := None, ba_storage := []\<rparr>"
  | "ta_status t = DestroyedAgain" "ba_status b \<in> {StatusDestroyed, DestroyedAgain, LoadedNotExisting}"
    "r = None" "b' = b\<lparr>ba_status := DestroyedAgain, ba_info := None, ba_storage := []\<rparr>"
  | "ta_status t = DestroyedAgain" "ba_status b = DestroyedChanged"
    "r = Some (new_selfdestructed_again DestroyedChanged
           (RevertTo (case ba_info b of None \<Rightarrow> default_account_info | Some i \<Rightarrow> i)) (ba_storage b) [])"
    "b' = b\<lparr>ba_status := DestroyedAgain, ba_info := None, ba_storage := []\<rparr>"
proof (cases "ta_status t")
  case cs: Changed
  show ?thesis by (rule that(1); use cs f u in \<open>auto simp: update_raw_def update_cases Let_def\<close>)
next
  case cs: InMemoryChange
  with f consider "ba_status b \<in> {StatusLoaded, InMemoryChange}" | "ba_status b = LoadedEmptyEIP161" | "ba_status b = LoadedNotExisting"
    by auto
  then show ?thesis
  proof cases
    case 1 then show ?thesis by (intro that(2); use cs u in \<open>auto simp: update_raw_def update_cases Let_def\<close>)
  next
    case 2 then show ?thesis by (intro that(3); use cs u in \<open>auto simp: update_raw_def update_cases Let_def\<close>)
  next
    case 3 then show ?thesis by (intro that(4); use cs u in \<open>auto simp: update_raw_def update_cases Let_def\<close>)
  qed
next
  case cs: StatusDestroyed
  with f consider "ba_status b \<in> {InMemoryChange, Changed, LoadedEmptyEIP161, StatusLoaded}" | "ba_status b = LoadedNotExisting"
    by (cases "ba_status b") auto
  then show ?thesis
  proof cases
    case 1 then show ?thesis by (intro that(5); use cs u in \<open>auto simp: update_raw_def update_cases Let_def\<close>)
  next
    case 2 then show ?thesis by (intro that(6); use cs u in \<open>auto simp: update_raw_def update_cases Let_def\<close>)
  qed
next
  case cs: DestroyedChanged
  consider "ba_status b \<in> {InMemoryChange, Changed, LoadedEmptyEIP161, StatusLoaded}" | "ba_status b \<in> {StatusDestroyed, LoadedNotExisting}"
    | "ba_status b = DestroyedChanged" "ta_storage_was_destroyed t"
    | "ba_status b = DestroyedChanged" "\<not> ta_storage_was_destroyed t" | "ba_status b = DestroyedAgain"
    by (cases "ba_status b") auto
  then show ?thesis
  proof cases
    case 1 then show ?thesis by (intro that(7); use cs u in \<open>auto simp: update_raw_def update_cases Let_def\<close>)
  next
    case 2 then show ?thesis by (intro that(8); use cs u in \<open>auto simp: update_raw_def update_cases Let_def\<close>)
  next
    case 3 then show ?thesis by (intro that(9); use cs u in \<open>auto simp: update_raw_def update_cases Let_def\<close>)
  next
    case 4 then show ?thesis by (intro that(10); use cs u in \<open>auto simp: update_raw_def update_cases Let_def\<close>)
  next
    case 5 then show ?thesis by (intro that(11); use cs u in \<open>auto simp: update_raw_def update_cases Let_def\<close>)
  qed
next
  case cs: DestroyedAgain
  consider "ba_status b \<in> {InMemoryChange, Changed, LoadedEmptyEIP161, StatusLoaded}" | "ba_status b \<in> {StatusDestroyed, DestroyedAgain, LoadedNotExisting}"
    | "ba_status b = DestroyedChanged"
    by (cases "ba_status b") auto
  then show ?thesis
  proof cases
    case 1 then show ?thesis by (intro that(12); use cs u in \<open>auto simp: update_raw_def update_cases Let_def\<close>)
  next
    case 2 then show ?thesis by (intro that(13); use cs u in \<open>auto simp: update_raw_def update_cases Let_def\<close>)
  next
    case 3 then show ?thesis by (intro that(14); use cs u in \<open>auto simp: update_raw_def update_cases Let_def\<close>)
  qed
qed (use f in simp_all)

text \<open>The conditions at one slot.\<close>

lemma wf_account_at:
  assumes "wf_account slots b"
  shows "absent_status (ba_status b) \<Longrightarrow> seen_in slots b k = 0"
    "ba_status b = LoadedEmptyEIP161 \<Longrightarrow> seen_in slots b k = slots k"
    "hdistinct (ba_storage b)" "ba_info b = None \<longleftrightarrow> absent_status (ba_status b)"
    "ba_status b = LoadedNotExisting \<Longrightarrow> ba_original_info b = None"
  using assms by (auto simp: wf_account_def)

lemma continues_at:
  assumes "continues slots b t"
  shows "ta_status t = InMemoryChange \<Longrightarrow> \<not> is_storage_known (ba_status b) \<Longrightarrow> seen_in slots b k = 0"
    "\<not> ta_storage_was_destroyed t \<Longrightarrow> hget (ta_storage t) k = Some s \<Longrightarrow> previous_or_original_value s = seen_in slots b k"
    "follows (ba_status b) (ta_status t)" "hdistinct (ta_storage t)"
    "absent_status (ta_status t) \<Longrightarrow> ta_storage t = []"
    "ta_storage_was_destroyed t \<Longrightarrow> was_destroyed (ta_status t)"
    "\<not> was_destroyed (ba_status b) \<Longrightarrow> ba_status b \<noteq> LoadedNotExisting \<Longrightarrow> was_destroyed (ta_status t) \<Longrightarrow>
       ta_storage_was_destroyed t"
    "absent_status (ta_status t) \<Longrightarrow> ta_storage_was_destroyed t"
    "ta_info t = None \<longleftrightarrow> absent_status (ta_status t)"
  using assms by (simp_all add: continues_def)


lemma update_info:
  assumes "wf_account slots b" and "continues slots b t" and "update_raw t b = Val (r, b')"
  shows "ba_info b' = ta_info t \<and> ba_original_info b' = ba_original_info b \<and> hdistinct (ba_storage b')"
  using continues_at(3) [OF assms(2)] assms(3) wf_account_at(3,4) [OF assms(1)] continues_at(4,9) [OF assms(2)]
  by (cases rule: update_raw_elim) (simp_all add: absent_status_def)

lemma update_shows:
  assumes "wf_account slots b" and "continues slots b t" and "update_raw t b = Val (r, b')"
  shows "seen_in slots b' k = after_transition t (seen_in slots b) k"
  using continues_at(3) [OF assms(2)] assms(3) wf_account_at(1,2) [where k = k, OF assms(1)] continues_at(1) [where k = k, OF assms(2)] continues_at(4-8) [OF assms(2)]
  by (cases rule: update_raw_elim) (auto simp: absent_status_def seen_in_pres after_transition_def split: option.splits if_splits)

lemma info_restored:
  assumes "ba_info b \<noteq> None"
  shows "info_opt_eq (case info_revert_of b i of RevertTo j \<Rightarrow> Some j | _ \<Rightarrow> i) (ba_info b)" "info_revert_of b i \<noteq> DeleteIt"
  using assms by (auto simp: info_revert_of_def intro: info_opt_eq_sym)

text \<open>How \<^verbatim>\<open>revert\<close> takes an account back when it keeps it.\<close>

lemma ba_revert_keeps:
  assumes "ar_account r \<noteq> DeleteIt"
  shows "ba_revert r b' =
     (False, b'\<lparr>ba_status := ar_previous_status r,
               ba_info := (case ar_account r of RevertTo i \<Rightarrow> Some i | _ \<Rightarrow> ba_info b'),
               ba_storage := fold (\<lambda>(k, s). revert_slot k s) (ar_storage r) (ba_storage b')\<rparr>)"
  using assms by (cases "ar_account r") (simp_all add: ba_revert_def)

lemma takes_backI:
  assumes "ba_info b \<noteq> None" and "ar_account r = info_revert_of b (ba_info b')" and "ar_previous_status r = ba_status b"
    and "hdistinct (ar_storage r)"
    and "\<And>k. (case hget (ar_storage r) k of
             None \<Rightarrow> (case pres (ba_storage b') k of Some v \<Rightarrow> v | None \<Rightarrow> if is_storage_known (ba_status b) then 0 else slots k)
           | Some (RevertSome v) \<Rightarrow> v
           | Some SlotDestroyed \<Rightarrow> if is_storage_known (ba_status b) then 0 else slots k) = seen_in slots b k"
  shows "takes_back slots (Some r) b' b"
proof -
  define b'' where "b'' = snd (ba_revert r b')"
  have keeps: "ar_account r \<noteq> DeleteIt" using info_restored(2) [OF assms(1)] assms(2) by simp
  have "seen_in slots b'' k = seen_in slots b k" for k
    unfolding assms(5) [of k, symmetric]
    by (simp add: b''_def ba_revert_keeps [OF keeps] seen_in_pres assms(3,4) del: is_storage_known.simps
        split: option.splits revert_to_slot.splits)
  moreover have "info_opt_eq (ba_info b'') (ba_info b)"
    using info_restored(1) [OF assms(1), of "ba_info b'"] by (simp add: b''_def ba_revert_keeps [OF keeps] assms(2))
  ultimately show ?thesis
    by (simp add: takes_back_def ba_revert_keeps [OF keeps] b''_def fun_eq_iff)
qed

lemma takes_back_delete:
  assumes "ar_account r = DeleteIt" and "ba_info b = None" and "ba_original_info b' = ba_original_info b"
    and "ar_previous_status r = ba_status b" and "is_storage_known (ba_status b)" and "\<And>k. seen_in slots b k = 0"
  shows "takes_back slots (Some r) b' b"
  using assms by (auto simp: takes_back_def ba_revert_def Let_def fun_eq_iff seen_in_pres split: option.splits)

text \<open>The two kinds of storage in a revert: the previous values of an update, and a wiped storage.\<close>

lemma takes_back_previous:
  assumes "ba_info b \<noteq> None" and "ar_account r = info_revert_of b (ba_info b')" and "ar_previous_status r = ba_status b"
    and st: "ar_storage r = previous_storage_from_update u" and u: "hdistinct u"
    and previous: "\<And>k s. hget u k = Some s \<Longrightarrow> previous_or_original_value s = seen_in slots b k"
    and kept: "\<And>k. pres u k = None \<Longrightarrow>
        (case pres (ba_storage b') k of Some v \<Rightarrow> v | None \<Rightarrow> if is_storage_known (ba_status b) then 0 else slots k) = seen_in slots b k"
    and updated: "\<And>k v. pres u k = Some v \<Longrightarrow> pres (ba_storage b') k = Some v"
  shows "takes_back slots (Some r) b' b"
proof (rule takes_backI [OF assms(1-3)])
  fix k
  show "(case hget (ar_storage r) k of
             None \<Rightarrow> (case pres (ba_storage b') k of Some v \<Rightarrow> v | None \<Rightarrow> if is_storage_known (ba_status b) then 0 else slots k)
           | Some (RevertSome v) \<Rightarrow> v
           | Some SlotDestroyed \<Rightarrow> if is_storage_known (ba_status b) then 0 else slots k) = seen_in slots b k"
  proof (cases "hget u k")
    case None
    then show ?thesis using kept [of k] u by (simp add: st pres_None_iff)
  next
    case (Some s)
    have "pres (ba_storage b') k = Some (ss_present_value s)" using updated [of k] Some by (simp add: pres_def)
    then show ?thesis using previous [OF Some] Some u by (simp add: st storage_slot_is_changed_def)
  qed
qed (use u in \<open>simp add: st\<close>)

lemma takes_back_extended:
  assumes "ba_info b \<noteq> None" and "ar_account r = info_revert_of b (ba_info b')" and "ar_previous_status r = ba_status b"
    and "ar_storage r = previous_storage_from_update u" and "hdistinct u"
    and "\<And>k s. hget u k = Some s \<Longrightarrow> previous_or_original_value s = seen_in slots b k"
    and "ba_storage b' = extend_storage (ba_storage b) u"
  shows "takes_back slots (Some r) b' b"
  by (rule takes_back_previous [OF assms(1-6)]) (simp_all add: assms(5,7) seen_in_pres del: is_storage_known.simps)

lemma takes_back_wiped:
  assumes "ba_info b \<noteq> None" and "ar_account r = info_revert_of b (ba_info b')" and "ar_previous_status r = ba_status b"
    and st: "ar_storage r = or_destroyed u (revert_to_present (ba_storage b))" and u: "hdistinct u" "hdistinct (ba_storage b)"
    and new: "\<And>k. pres u k = None \<Longrightarrow> pres (ba_storage b') k = None"
  shows "takes_back slots (Some r) b' b"
proof (rule takes_backI [OF assms(1-3)])
  fix k
  show "(case hget (ar_storage r) k of
             None \<Rightarrow> (case pres (ba_storage b') k of Some v \<Rightarrow> v | None \<Rightarrow> if is_storage_known (ba_status b) then 0 else slots k)
           | Some (RevertSome v) \<Rightarrow> v
           | Some SlotDestroyed \<Rightarrow> if is_storage_known (ba_status b) then 0 else slots k) = seen_in slots b k"
    using new [of k] u by (simp add: st seen_in_pres del: is_storage_known.simps split: option.splits)
qed (use u in \<open>simp add: st\<close>)

lemma or_destroyed_Nil [simp]: "or_destroyed [] rs = rs"
  by (simp add: or_destroyed_def)

lemma update_taken_back:
  assumes wf: "wf_account slots b" and c: "continues slots b t" and u: "update_raw t b = Val (Some r, b')"
  shows "takes_back slots (Some r) b' b"
proof -
  note at = wf_account_at(3,4) [OF wf] continues_at(4,5,6,9) [OF c]
  note zero = wf_account_at(1) [OF wf]
  have shown: "ba_info b' = ta_info t" "ba_original_info b' = ba_original_info b" using update_info [OF assms] by simp_all
  show ?thesis
    using continues_at(3) [OF c] u
  proof (cases rule: update_raw_elim)
    case changed
    then show ?thesis using at continues_at(2) [OF c]
      by (intro takes_back_extended [where u = "ta_storage t"]) (auto simp: absent_status_def)
  next
    case in_memory
    then show ?thesis using at continues_at(2) [OF c]
      by (intro takes_back_extended [where u = "ta_storage t"]) (auto simp: absent_status_def)
  next
    case filled
    then show ?thesis using at continues_at(2) [OF c] wf_account_at(2) [OF wf]
      by (intro takes_back_previous [where u = "ta_storage t"]) (auto simp: absent_status_def)
  next
    case created
    then show ?thesis using at zero shown by (intro takes_back_delete) (auto simp: absent_status_def)
  next
    case destroyed
    then show ?thesis using at
      by (intro takes_back_wiped [where u = "[]"]) (auto simp: absent_status_def new_selfdestructed_def)
  next
    case recreated
    then show ?thesis using at
      by (intro takes_back_wiped [where u = "ta_storage t"]) (auto simp: absent_status_def new_selfdestructed_again_def)
  next
    case made_again
    then show ?thesis using at zero shown by (intro takes_back_delete) (auto simp: absent_status_def)
  next
    case emptied_again
    then show ?thesis using at
      by (intro takes_back_wiped [where u = "ta_storage t"]) (auto simp: absent_status_def)
  next
    case grown
    then show ?thesis using at continues_at(2) [OF c]
      by (intro takes_back_extended [where u = "ta_storage t"]) (auto simp: absent_status_def)
  next
    case made_after
    then show ?thesis using at zero shown
      by (intro takes_back_delete) (auto simp: absent_status_def new_selfdestructed_again_def)
  next
    case wiped
    then show ?thesis using at
      by (intro takes_back_wiped [where u = "[]"]) (auto simp: absent_status_def new_selfdestructed_again_def)
  next
    case wiped_again
    then show ?thesis using at
      by (intro takes_back_wiped [where u = "[]"]) (auto simp: absent_status_def new_selfdestructed_again_def info_revert_of_def)
  qed simp_all
qed

text \<open>An update without a revert, or with an empty one, changes nothing that is seen.\<close>

lemma previous_empty:
  assumes "previous_storage_from_update u = []" and "hdistinct u" and "hget u k = Some s"
  shows "previous_or_original_value s = ss_present_value s"
  using hget_previous [OF assms(2), of k] assms by (simp add: storage_slot_is_changed_def split: if_splits)

lemma or_destroyed_empty:
  assumes "or_destroyed u (revert_to_present st) = []" and "hdistinct u"
  shows "pres u k = None \<and> pres st k = None"
  using hget_or_destroyed [OF assms(2), of "revert_to_present st" k] assms(1) by (simp split: option.splits if_splits)

lemma seen_unchanged:
  assumes wf: "wf_account slots b" and c: "continues slots b t" and u: "update_raw t b = Val (r, b')"
    and e: "case r of None \<Rightarrow> True | Some r \<Rightarrow> ar_is_empty r"
  shows "seen_in slots b' k = seen_in slots b k"
proof -
  note seen = update_shows [OF wf c u, of k]
  have kept: ?thesis if "\<not> ta_storage_was_destroyed t" "previous_storage_from_update (ta_storage t) = []"
    using seen continues_at(2) [OF c that(1), of k] previous_empty [OF that(2) continues_at(4) [OF c], of k]
    by (cases "hget (ta_storage t) k") (auto simp: after_transition_def pres_def that(1))
  show ?thesis
    using continues_at(3) [OF c] u
  proof (cases rule: update_raw_elim)
    case emptied_again
    then show ?thesis
      using e seen or_destroyed_empty [OF _ continues_at(4) [OF c], of "ba_storage b" k]
      by (simp add: ar_is_empty_def after_transition_def seen_in_pres)
  next
    case never_was
    then show ?thesis
      using seen wf_account_at(1) [OF wf, of k] continues_at(5,8) [OF c] by (simp add: absent_status_def after_transition_def)
  next
    case still_absent
    then show ?thesis
      using seen wf_account_at(1) [OF wf, of k] continues_at(5,8) [OF c] by (auto simp: absent_status_def after_transition_def)
  qed (use e kept continues_at(6) [OF c] in
        \<open>auto simp: ar_is_empty_def new_selfdestructed_def new_selfdestructed_again_def\<close>)
qed

lemma account_taken_back:
  assumes wf: "wf_account slots b" and c: "continues slots b t" and u: "update_and_create_revert t b = Val (r, b')"
  shows "takes_back slots r b' b"
proof -
  obtain r0 where r0: "update_raw t b = Val (r0, b')" "r = Option.bind r0 (\<lambda>r. if ar_is_empty r then None else Some r)"
    using u by (auto simp: update_and_create_revert_raw evals)
  show ?thesis
  proof (cases r)
    case None
    then have e: "case r0 of None \<Rightarrow> True | Some r \<Rightarrow> ar_is_empty r" using r0(2) by (auto split: option.splits if_splits)
    have "info_opt_eq (ba_info b') (ba_info b)"
      using continues_at(3) [OF c] r0(1)
      by (cases rule: update_raw_elim)
        (use e wf_account_at(4) [OF wf] in \<open>auto simp: ar_is_empty_def new_selfdestructed_def new_selfdestructed_again_def
           info_revert_of_def absent_status_def intro: info_opt_eq_sym split: if_splits\<close>)
    then show ?thesis using seen_unchanged [OF wf c r0(1) e] None by (simp add: takes_back_def fun_eq_iff)
  next
    case (Some r1)
    then have "r0 = Some r1" using r0(2) by (auto split: bind_splits if_splits)
    then show ?thesis using update_taken_back [OF wf c] r0(1) Some by simp
  qed
qed

lemma account_updated:
  assumes "wf_account slots b" and "continues slots b t" and "update_and_create_revert t b = Val (r, b')"
  shows "ba_info b' = ta_info t" "ba_original_info b' = ba_original_info b"
    "seen_in slots b' = after_transition t (seen_in slots b)"
proof -
  obtain r0 where r0: "update_raw t b = Val (r0, b')" using assms(3) by (auto simp: update_and_create_revert_raw evals)
  show "ba_info b' = ta_info t" "ba_original_info b' = ba_original_info b"
    using update_info [OF assms(1,2) r0] by simp_all
  show "seen_in slots b' = after_transition t (seen_in slots b)" using update_shows [OF assms(1,2) r0] by (simp add: fun_eq_iff)
qed

lemma account_stays_wf:
  assumes wf: "wf_account slots b" and c: "continues slots b t" and "update_and_create_revert t b = Val (r, b')"
  shows "wf_account slots b'"
proof -
  obtain r0 where u: "update_raw t b = Val (r0, b')" using assms(3) by (auto simp: update_and_create_revert_raw evals)
  have status: "ba_status b' = ta_status t \<or> ta_status t = StatusDestroyed \<and> ba_status b' = LoadedNotExisting \<and> ba_original_info b = None"
    using continues_at(3) [OF c] u by (cases rule: update_raw_elim) (use wf_account_at(5) [OF wf] in auto)
  have loaded: "ba_status b' \<noteq> LoadedEmptyEIP161" "ta_status t \<noteq> LoadedNotExisting"
    using status continues_at(3) [OF c] by auto
  have "after_transition t (seen_in slots b) k = 0" if "absent_status (ta_status t)" for k
    using continues_at(5,8) [OF c] that by (simp add: after_transition_def)
  then show ?thesis
    using update_info [OF wf c u] update_shows [OF wf c u] status loaded continues_at(9) [OF c]
    by (auto simp: wf_account_def absent_status_def)
qed

end
