(* ===== verification/Bundle_Merge.thy ===== *)
theory Bundle_Merge
  imports Bundle_Undo
begin

text \<open>
  Whole bundles: the size counters, what a merged block shows, and that reverting the latest block shows
  again what was there before.
\<close>

section \<open>Sizes\<close>

definition total_of :: "('v \<Rightarrow> nat) \<Rightarrow> ('k, 'v) hash_map \<Rightarrow> nat" where
  "total_of f m = sum_list (map (\<lambda>(k, v). f v) m)"

lemma total_of_insert:
  "total_of f (hinsert k v m) + (case hget m k of Some x \<Rightarrow> f x | None \<Rightarrow> 0) = total_of f m + f v"
  by (induction m) (auto simp: total_of_def split: option.splits)

lemma total_of_remove:
  "hdistinct m \<Longrightarrow> total_of f (hremove k m) + (case hget m k of Some x \<Rightarrow> f x | None \<Rightarrow> 0) = total_of f m"
proof (induction m)
  case (Cons p m)
  obtain k' v where p: "p = (k', v)" by (cases p)
  have none: "hget m k' = None" using Cons.prems by (simp add: hdistinct_def p map_of_eq_None_iff)
  then have "hremove k' m = m" by (simp add: map_of_eq_None_iff AList.delete_id)
  with Cons none show ?case by (auto simp: p total_of_def hdistinct_def split: option.splits)
qed (simp add: total_of_def)

lemma total_of_member: "hget m k = Some v \<Longrightarrow> f v \<le> total_of f m"
  by (induction m) (auto simp: total_of_def split: if_splits)

definition state_size_ok :: "bundle_state \<Rightarrow> bool" where
  "state_size_ok s \<longleftrightarrow> bs_state_size s = total_of ba_size_hint (bs_state s)"

definition sizes_ok :: "bundle_state \<Rightarrow> bool" where
  "sizes_ok s \<longleftrightarrow> state_size_ok s \<and> bs_reverts_size s = total_of ar_size_hint (concat (bs_reverts s))"

section \<open>What a bundle shows\<close>

text \<open>The database below a bundle: the information and the storage of each account.\<close>

type_synonym world = "address \<Rightarrow> account_info option \<times> (u256 \<Rightarrow> u256)"

definition seen :: "world \<Rightarrow> bundle_state \<Rightarrow> address \<Rightarrow> account_info option \<times> (u256 \<Rightarrow> u256)" where
  "seen w s a = (case hget (bs_state s) a of Some b \<Rightarrow> (ba_info b, seen_in (snd (w a)) b) | None \<Rightarrow> w a)"

definition same_account :: "account_info option \<times> (u256 \<Rightarrow> u256) \<Rightarrow> account_info option \<times> (u256 \<Rightarrow> u256) \<Rightarrow> bool" where
  "same_account x y \<longleftrightarrow> info_opt_eq (fst x) (fst y) \<and> snd x = snd y"

definition wf_bundle :: "world \<Rightarrow> bundle_state \<Rightarrow> bool" where
  "wf_bundle w s \<longleftrightarrow> hdistinct (bs_state s) \<and>
     (\<forall>a b. hget (bs_state s) a = Some b \<longrightarrow>
        wf_account (snd (w a)) b \<and> (ba_original_info b = None \<longrightarrow> fst (w a) = None \<and> snd (w a) = (\<lambda>_. 0)))"

text \<open>
  A transition that can be merged: it continues the account of the bundle or, when the bundle has none, the
  account that was loaded from the database.
\<close>

definition mergeable :: "world \<Rightarrow> bundle_state \<Rightarrow> address \<Rightarrow> transition_account \<Rightarrow> bool" where
  "mergeable w s a t \<longleftrightarrow>
     (case hget (bs_state s) a of
        Some b \<Rightarrow> continues (snd (w a)) b t
      | None \<Rightarrow>
          continues (snd (w a)) (original_bundle_account t) t \<and> ta_previous_info t = fst (w a) \<and>
          is_not_modified (ta_previous_status t) \<and>
          (ta_previous_info t = None \<longleftrightarrow> ta_previous_status t = LoadedNotExisting) \<and>
          (ta_previous_info t = None \<longrightarrow> snd (w a) = (\<lambda>_. 0)))"

lemma same_account_refl [simp]: "same_account x x"
  by (simp add: same_account_def)

section \<open>An account that was not in the bundle\<close>

text \<open>The stored account is the one the transition leads to, up to the original values of its slots.\<close>

definition same_shape :: "bundle_account \<Rightarrow> bundle_account \<Rightarrow> bool" where
  "same_shape b c \<longleftrightarrow> ba_info b = ba_info c \<and> ba_original_info b = ba_original_info c \<and> ba_status b = ba_status c \<and>
     pres (ba_storage b) = pres (ba_storage c)"

lemma pres_revert_cong:
  "pres st = pres st' \<Longrightarrow> pres (fold (\<lambda>(k, s). revert_slot k s) rs st) = pres (fold (\<lambda>(k, s). revert_slot k s) rs st')"
proof (induction rs arbitrary: st st')
  case (Cons p rs)
  obtain k r where p: "p = (k, r)" by (cases p)
  have "pres (revert_slot k r st) = pres (revert_slot k r st')"
    using Cons.prems by (cases r) (auto simp: pres_def fun_eq_iff)
  from Cons.IH [OF this] show ?case by (simp add: p)
qed simp

lemma pres_zeroed_fun: "pres (hmap (\<lambda>s. s\<lparr>ss_present_value := 0\<rparr>) st) = map_option (\<lambda>_. 0) \<circ> pres st"
  by (rule ext) simp

lemma ba_revert_shape:
  assumes "same_shape b c"
  shows "fst (ba_revert r b) = fst (ba_revert r c) \<and> same_shape (snd (ba_revert r b)) (snd (ba_revert r c))"
proof -
  have p: "pres (ba_storage b) = pres (ba_storage c)" using assms by (simp add: same_shape_def)
  show ?thesis
    using assms pres_revert_cong [OF p]
    by (cases "ar_account r") (simp_all add: same_shape_def ba_revert_def Let_def pres_zeroed_fun)
qed

lemma takes_back_shape:
  assumes "same_shape b c" and "takes_back slots r b d"
  shows "takes_back slots r c d"
proof -
  have shape: "seen_in slots b = seen_in slots c" if "same_shape b c" for b c
    using that by (simp add: same_shape_def seen_in_pres fun_eq_iff)
  show ?thesis
  proof (cases r)
    case None
    then show ?thesis using assms shape [OF assms(1)] by (simp add: takes_back_def same_shape_def)
  next
    case (Some r1)
    have f: "fst (ba_revert r1 b) = fst (ba_revert r1 c)" and s: "same_shape (snd (ba_revert r1 b)) (snd (ba_revert r1 c))"
      using ba_revert_shape [OF assms(1)] by simp_all
    then show ?thesis
      using assms(2) shape [OF s] s Some
      by (cases "ba_revert r1 b"; cases "ba_revert r1 c"; cases "fst (ba_revert r1 c)")
        (simp_all add: takes_back_def same_shape_def)
  qed
qed

lemma wf_account_shape:
  assumes "same_shape b c" and "wf_account slots b" and "hdistinct (ba_storage c)"
  shows "wf_account slots c"
proof -
  have "seen_in slots b = seen_in slots c" using assms(1) by (simp add: same_shape_def seen_in_pres fun_eq_iff)
  then show ?thesis using assms by (simp add: wf_account_def same_shape_def)
qed

lemma original_simps [simp]:
  "ba_info (original_bundle_account t) = ta_previous_info t" "ba_original_info (original_bundle_account t) = ta_previous_info t"
  "ba_storage (original_bundle_account t) = []" "ba_status (original_bundle_account t) = ta_previous_status t"
  by (simp_all add: original_bundle_account_def)

lemma present_simps [simp]:
  "ba_info (present_bundle_account t) = ta_info t" "ba_original_info (present_bundle_account t) = ta_previous_info t"
  "ba_storage (present_bundle_account t) = ta_storage t" "ba_status (present_bundle_account t) = ta_status t"
  by (simp_all add: present_bundle_account_def)

lemma pres_extend_Nil: "hdistinct u \<Longrightarrow> pres (extend_storage [] u) = pres u"
  by (rule ext) (simp split: option.splits)

lemma present_shape:
  assumes c: "continues slots (original_bundle_account t) t" and n: "is_not_modified (ta_previous_status t)"
    and u: "update_and_create_revert t (original_bundle_account t) = Val (Some r, b')"
  shows "same_shape b' (present_bundle_account t)"
proof -
  obtain r0 where r0: "update_raw t (original_bundle_account t) = Val (Some r0, b')"
    using u by (auto simp: update_and_create_revert_raw evals split: bind_splits if_splits)
  show ?thesis
    using continues_at(3) [OF c] r0
    by (cases rule: update_raw_elim)
      (use n continues_at(4,5,9) [OF c] in \<open>simp_all add: same_shape_def absent_status_def pres_extend_Nil\<close>)
qed

section \<open>One account of a block\<close>

lemma minus_usize_Val [simp]: "y \<le> x \<Longrightarrow> minus_usize x y = Val (x - y)"
  by (simp add: minus_usize_def)

text \<open>The account that the merge of a transition starts from.\<close>

definition base_account :: "bundle_state \<Rightarrow> address \<Rightarrow> transition_account \<Rightarrow> bundle_account" where
  "base_account s a t = (case hget (bs_state s) a of Some b \<Rightarrow> b | None \<Rightarrow> original_bundle_account t)"

lemma mergeable_base:
  assumes wf: "wf_bundle w s" and m: "mergeable w s a t"
  shows "continues (snd (w a)) (base_account s a t) t" "wf_account (snd (w a)) (base_account s a t)"
    "seen w s a = (ba_info (base_account s a t), seen_in (snd (w a)) (base_account s a t))"
    "ba_original_info (base_account s a t) = None \<Longrightarrow> fst (w a) = None \<and> snd (w a) = (\<lambda>_. 0)"
proof -
  show "continues (snd (w a)) (base_account s a t) t"
    using m by (simp add: base_account_def mergeable_def split: option.splits)
  show "wf_account (snd (w a)) (base_account s a t)"
    using assms by (auto simp: base_account_def mergeable_def wf_bundle_def wf_account_def absent_status_def seen_in_pres
        split: option.splits)
  show "seen w s a = (ba_info (base_account s a t), seen_in (snd (w a)) (base_account s a t))"
    using m by (auto simp: base_account_def mergeable_def seen_def seen_in_pres prod_eq_iff fun_eq_iff split: option.splits)
  show "fst (w a) = None \<and> snd (w a) = (\<lambda>_. 0)" if "ba_original_info (base_account s a t) = None"
    using assms that by (auto simp: base_account_def mergeable_def wf_bundle_def split: option.splits)
qed

text \<open>The account that a revert leaves, in a given bundle.\<close>

definition reverted_account :: "world \<Rightarrow> bundle_state \<Rightarrow> address \<Rightarrow> account_revert \<Rightarrow> account_info option \<times> (u256 \<Rightarrow> u256)" where
  "reverted_account w s a r =
     (case ba_revert r (case hget (bs_state s) a of Some b \<Rightarrow> b | None \<Rightarrow> bundle_account_new None None [] LoadedNotExisting) of
        (True, _) \<Rightarrow> w a
      | (False, b) \<Rightarrow> (ba_info b, seen_in (snd (w a)) b))"

lemma apply_transition_one_effect:
  assumes wf: "wf_bundle w s" and m: "mergeable w s a t" and size: "state_size_ok s"
  obtains r s' where "apply_transition_one a t s = Val (r, s')"
    "bs_reverts s' = bs_reverts s" "bs_reverts_size s' = bs_reverts_size s" "state_size_ok s'" "wf_bundle w s'"
    "\<And>a'. a' \<noteq> a \<Longrightarrow> hget (bs_state s') a' = hget (bs_state s) a'"
    "same_account (seen w s' a) (ta_info t, after_transition t (snd (seen w s a)))"
    "same_account (case r of None \<Rightarrow> seen w s' a | Some r \<Rightarrow> reverted_account w s' a r) (seen w s a)"
proof -
  note result = that
  note base = mergeable_base [OF wf m]
  define s1 where "s1 = (case has_new_contract t of Some (h, c) \<Rightarrow> s\<lparr>bs_contracts := hinsert h c (bs_contracts s)\<rparr> | None \<Rightarrow> s)"
  have s1: "bs_state s1 = bs_state s" "bs_reverts s1 = bs_reverts s" "bs_reverts_size s1 = bs_reverts_size s"
    "bs_state_size s1 = bs_state_size s" by (auto simp: s1_def split: option.splits)
  obtain r b' where u: "update_and_create_revert t (base_account s a t) = Val (r, b')"
    using update_total continues_at(3) [OF base(1)] by metis
  note changes = account_updated [OF base(2,1) u]
  note undone = account_taken_back [OF base(2,1) u]
  note stays = account_stays_wf [OF base(2,1) u]
  have zero: "seen_in (snd (w a)) (base_account s a t) = (\<lambda>_. 0)" if "ba_info (base_account s a t) = None"
    using wf_account_at(1,4) [OF base(2)] that by (simp add: fun_eq_iff)
  have stored: thesis if put: "apply_transition_one a t s = Val (r, s1\<lparr>bs_state := hinsert a c (bs_state s), bs_state_size := n\<rparr>)"
      and n: "n = total_of ba_size_hint (hinsert a c (bs_state s))"
      and c: "ba_info c = ta_info t" "seen_in (snd (w a)) c = seen_in (snd (w a)) b'" "takes_back (snd (w a)) r c (base_account s a t)"
        "wf_account (snd (w a)) c" "ba_original_info c = ba_original_info (base_account s a t)" for c n
  proof (rule result [OF put])
    let ?s = "s1\<lparr>bs_state := hinsert a c (bs_state s), bs_state_size := n\<rparr>"
    show "state_size_ok ?s" using size n by (simp add: state_size_ok_def s1)
    show "wf_bundle w ?s" using wf c(4,5) base(4) by (auto simp: wf_bundle_def s1)
    show "same_account (seen w ?s a) (ta_info t, after_transition t (snd (seen w s a)))"
      by (simp add: seen_def [of w ?s] c changes(3) base(3))
    show "same_account (case r of None \<Rightarrow> seen w ?s a | Some r \<Rightarrow> reverted_account w ?s a r) (seen w s a)"
      using c(3) base(3,4) zero
      by (auto simp: takes_back_def same_account_def reverted_account_def seen_def [of w ?s] split: option.splits prod.splits bool.splits)
  qed (simp_all add: s1)
  show thesis
  proof (cases "hget (bs_state s) a")
    case (Some b)
    then have b: "base_account s a t = b" by (simp add: base_account_def)
    have le: "ba_size_hint b \<le> bs_state_size s" using total_of_member [OF Some] size by (simp add: state_size_ok_def)
    have "bs_state_size s - ba_size_hint b + ba_size_hint b' = total_of ba_size_hint (hinsert a b' (bs_state s))"
      using total_of_insert [of ba_size_hint a b' "bs_state s"] le size Some by (simp add: state_size_ok_def)
    then show thesis
      using u le Some undone changes(1,2) stays
      by (intro stored [where c = b' and n = "bs_state_size s - ba_size_hint b + ba_size_hint b'"])
        (simp_all add: apply_transition_one_def s1_def [symmetric] s1 b)
  next
    case None
    then have b: "base_account s a t = original_bundle_account t" by (simp add: base_account_def)
    show thesis
    proof (cases r)
      case (Some r1)
      have shape: "same_shape b' (present_bundle_account t)"
        using present_shape [of "snd (w a)" t r1 b'] base(1) u m None Some by (simp add: b mergeable_def)
      have "bs_state_size s + ba_size_hint (present_bundle_account t) =
          total_of ba_size_hint (hinsert a (present_bundle_account t) (bs_state s))"
        using total_of_insert [of ba_size_hint a "present_bundle_account t" "bs_state s"] size None by (simp add: state_size_ok_def)
      then show thesis
        using u None Some takes_back_shape [OF shape undone] shape wf_account_shape [OF shape stays] continues_at(4) [OF base(1)]
        by (intro stored [where c = "present_bundle_account t" and n = "bs_state_size s + ba_size_hint (present_bundle_account t)"])
          (simp_all add: apply_transition_one_def s1_def [symmetric] s1 b create_revert_def same_shape_def seen_in_pres fun_eq_iff Let_def)
    next
      case rn: None
      show thesis
      proof (rule result)
        show "apply_transition_one a t s = Val (r, s1)"
          using u None rn by (simp add: apply_transition_one_def s1_def [symmetric] s1 b create_revert_def Let_def)
        have s: "seen w s1 a = seen w s a" by (simp add: seen_def s1)
        show "same_account (seen w s1 a) (ta_info t, after_transition t (snd (seen w s a)))"
          using undone rn changes base(3) unfolding s by (auto simp: same_account_def takes_back_def intro: info_opt_eq_sym)
        show "same_account (case r of None \<Rightarrow> seen w s1 a | Some r \<Rightarrow> reverted_account w s1 a r) (seen w s a)"
          by (simp add: rn s)
      qed (use size wf in \<open>simp_all add: s1 state_size_ok_def wf_bundle_def\<close>)
    qed
  qed
qed

section \<open>A block\<close>

lemma mergeable_other:
  assumes "hget (bs_state s') a = hget (bs_state s) a"
  shows "mergeable w s' a t = mergeable w s a t" "seen w s' a = seen w s a"
    "reverted_account w s' a r = reverted_account w s a r"
  by (simp_all add: mergeable_def seen_def reverted_account_def assms)

lemma apply_transitions_loop_append:
  "apply_transitions_loop True ts rs s = bindE (apply_transitions_loop True ts [] s) (\<lambda>(new, s). Val (rs @ new, s))"
proof (induction ts arbitrary: rs s)
  case (Cons p ts)
  obtain a t where p: "p = (a, t)" by (cases p)
  show ?case
  proof (cases "apply_transition_one a t s")
    case (Val x)
    obtain r s1 where x: "x = (r, s1)" by (cases x)
    show ?thesis
    proof (cases r)
      case None
      then show ?thesis using Cons.IH [of rs s1] by (simp add: p Val x)
    next
      case (Some r1)
      then show ?thesis
        using Cons.IH [of "rs @ [(a, r1)]" "s1\<lparr>bs_reverts_size := bs_reverts_size s1 + ar_size_hint r1\<rparr>"]
          Cons.IH [of "[(a, r1)]" "s1\<lparr>bs_reverts_size := bs_reverts_size s1 + ar_size_hint r1\<rparr>"]
        by (simp add: p Val x bindE_assoc case_prod_beta)
    qed
  qed (simp add: p)
qed simp

text \<open>What the loop over a block's transitions has done, and how its reverts look back.\<close>

definition block_merged ::
  "world \<Rightarrow> transition_state \<Rightarrow> (address \<times> account_revert) list \<Rightarrow> bundle_state \<Rightarrow> bundle_state \<Rightarrow> bool" where
  "block_merged w ts rs s' s \<longleftrightarrow>
     hdistinct rs \<and> wf_bundle w s' \<and> state_size_ok s' \<and> bs_reverts s' = bs_reverts s \<and>
     bs_reverts_size s' = bs_reverts_size s + total_of ar_size_hint rs \<and>
     (\<forall>a. hget ts a = None \<longrightarrow> hget rs a = None \<and> hget (bs_state s') a = hget (bs_state s) a) \<and>
     (\<forall>a t. hget ts a = Some t \<longrightarrow>
        same_account (seen w s' a) (ta_info t, after_transition t (snd (seen w s a))) \<and>
        same_account (case hget rs a of None \<Rightarrow> seen w s' a | Some r \<Rightarrow> reverted_account w s' a r) (seen w s a))"

lemma total_of_simps [simp]:
  "total_of f [] = 0" "total_of f ((k, v) # m) = f v + total_of f m" "total_of f (m @ m') = total_of f m + total_of f m'"
  by (simp_all add: total_of_def)

lemma state_frame:
  assumes "bs_state s' = bs_state s"
  shows "wf_bundle w s' = wf_bundle w s" "mergeable w s' = mergeable w s" "seen w s' = seen w s"
  using assms by (simp_all add: wf_bundle_def mergeable_def seen_def fun_eq_iff)

lemma apply_transitions_loop_merges:
  assumes "wf_bundle w s" and "state_size_ok s" and "hdistinct ts" and "\<And>a t. hget ts a = Some t \<Longrightarrow> mergeable w s a t"
  shows "\<exists>rs s'. apply_transitions_loop True ts [] s = Val (rs, s') \<and> block_merged w ts rs s' s"
  using assms
proof (induction ts arbitrary: s)
  case (Cons p ts)
  obtain a t where p: "p = (a, t)" by (cases p)
  have none: "hget ts a = None" and dist: "hdistinct ts"
    using Cons.prems(3) by (simp_all add: hdistinct_def p map_of_eq_None_iff)
  have m: "mergeable w s a t" using Cons.prems(4) by (simp add: p)
  from Cons.prems(1) m Cons.prems(2) obtain r s1 where one: "apply_transition_one a t s = Val (r, s1)"
    and frame: "bs_reverts s1 = bs_reverts s" "bs_reverts_size s1 = bs_reverts_size s" "state_size_ok s1" "wf_bundle w s1"
    and others: "\<And>a'. a' \<noteq> a \<Longrightarrow> hget (bs_state s1) a' = hget (bs_state s) a'"
    and here: "same_account (seen w s1 a) (ta_info t, after_transition t (snd (seen w s a)))"
      "same_account (case r of None \<Rightarrow> seen w s1 a | Some r \<Rightarrow> reverted_account w s1 a r) (seen w s a)"
    by (rule apply_transition_one_effect) blast
  define s2 where "s2 = (case r of None \<Rightarrow> s1 | Some r \<Rightarrow> s1\<lparr>bs_reverts_size := bs_reverts_size s1 + ar_size_hint r\<rparr>)"
  define new where "new = (case r of None \<Rightarrow> [] | Some r \<Rightarrow> [(a, r)])"
  have s2: "bs_state s2 = bs_state s1" "bs_reverts s2 = bs_reverts s"
    "bs_reverts_size s2 = bs_reverts_size s + total_of ar_size_hint new" "bs_state_size s2 = bs_state_size s1"
    by (simp_all add: s2_def new_def frame split: option.split)
  have rest_ok: "mergeable w s2 a' t'" if "hget ts a' = Some t'" for a' t'
  proof -
    have "a' \<noteq> a" using that none by auto
    then show ?thesis
      using Cons.prems(4) [of a' t'] that mergeable_other(1) [of s2 a' s] others [of a'] by (simp add: p s2(1))
  qed
  have "wf_bundle w s2" "state_size_ok s2" using frame(3,4) s2 by (simp_all add: state_frame(1) [OF s2(1)] state_size_ok_def)
  from Cons.IH [OF this dist rest_ok] obtain rs s' where
    rest: "apply_transitions_loop True ts [] s2 = Val (rs, s')" "block_merged w ts rs s' s2" by blast
  have loop: "apply_transitions_loop True (p # ts) [] s = Val (new @ rs, s')"
    using rest(1) apply_transitions_loop_append [of ts new s2]
    by (simp add: p one s2_def new_def split: option.splits)
  have rs_a: "hget rs a = None" "hget (bs_state s') a = hget (bs_state s1) a"
    using rest(2) none by (simp_all add: block_merged_def s2)
  have new_hget: "hget (new @ rs) a' = (if a' = a then r else hget rs a')" for a'
    using rs_a(1) by (auto simp: new_def split: option.splits)
  have other: "hget (bs_state s') a' = hget (bs_state s) a' \<and> hget (new @ rs) a' = None" if "hget (p # ts) a' = None" for a'
  proof -
    have "a' \<noteq> a" "hget ts a' = None" using that by (auto simp: p split: if_splits)
    then show ?thesis using rest(2) others [of a'] unfolding new_hget by (simp add: block_merged_def s2)
  qed
  have each: "same_account (seen w s' a') (ta_info t', after_transition t' (snd (seen w s a'))) \<and>
      same_account (case hget (new @ rs) a' of None \<Rightarrow> seen w s' a' | Some r \<Rightarrow> reverted_account w s' a' r) (seen w s a')"
    if "hget (p # ts) a' = Some t'" for a' t'
  proof (cases "a' = a")
    case True
    then show ?thesis
      using here that mergeable_other(2,3) [OF rs_a(2)] unfolding new_hget by (simp add: p cong: option.case_cong)
  next
    case False
    then have e: "seen w s a' = seen w s2 a'" using others [of a'] by (intro mergeable_other(2)) (simp add: s2)
    show ?thesis using rest(2) that False unfolding new_hget e by (simp add: p block_merged_def)
  qed
  have "hdistinct (new @ rs)"
    using rest(2) rs_a(1) by (auto simp: new_def block_merged_def hdistinct_def map_of_eq_None_iff split: option.splits)
  then have "block_merged w (p # ts) (new @ rs) s' s"
    using rest(2) other each by (simp add: block_merged_def s2)
  with loop show ?case by blast
qed (simp add: block_merged_def)

section \<open>Reverting a block\<close>

lemma revert_one_effect:
  assumes dist: "hdistinct (bs_state s)" and size: "state_size_ok s" and le: "ar_size_hint r \<le> bs_reverts_size s"
  obtains s' where "revert_one a r s = Val s'" "hdistinct (bs_state s')" "state_size_ok s'"
    "bs_reverts_size s' = bs_reverts_size s - ar_size_hint r" "bs_reverts s' = bs_reverts s"
    "\<And>a'. a' \<noteq> a \<Longrightarrow> hget (bs_state s') a' = hget (bs_state s) a'" "seen w s' a = reverted_account w s a r"
proof (cases "hget (bs_state s) a")
  case None
  obtain removable acc where r: "ba_revert r (bundle_account_new None None [] LoadedNotExisting) = (removable, acc)" by (cases "ba_revert r (bundle_account_new None None [] LoadedNotExisting)")
  have "bs_state_size s + ba_size_hint acc = total_of ba_size_hint (hinsert a acc (bs_state s))"
    using total_of_insert [of ba_size_hint a acc "bs_state s"] None size by (simp add: state_size_ok_def)
  then show thesis
    using that [of "(if removable then s else s\<lparr>bs_state := hinsert a acc (bs_state s), bs_state_size := bs_state_size s + ba_size_hint acc\<rparr>)
        \<lparr>bs_reverts_size := bs_reverts_size s - ar_size_hint r\<rparr>"] None le dist size
    by (cases removable) (simp_all add: revert_one_def Let_def r reverted_account_def seen_def state_size_ok_def)
next
  case (Some b)
  obtain removable acc where r: "ba_revert r b = (removable, acc)" by (cases "ba_revert r b")
  have leb: "ba_size_hint b \<le> bs_state_size s" using total_of_member [OF Some] size by (simp add: state_size_ok_def)
  have "bs_state_size s - ba_size_hint b + ba_size_hint acc = total_of ba_size_hint (hinsert a acc (bs_state s))"
    using total_of_insert [of ba_size_hint a acc "bs_state s"] Some size leb by (simp add: state_size_ok_def)
  moreover have "bs_state_size s - ba_size_hint b = total_of ba_size_hint (hremove a (bs_state s))"
    using total_of_remove [OF dist, of ba_size_hint a] Some size leb by (simp add: state_size_ok_def)
  ultimately show thesis
    using that [of "(if removable then s\<lparr>bs_state := hremove a (bs_state s), bs_state_size := bs_state_size s - ba_size_hint b\<rparr>
        else s\<lparr>bs_state := hinsert a acc (bs_state s), bs_state_size := bs_state_size s - ba_size_hint b + ba_size_hint acc\<rparr>)
        \<lparr>bs_reverts_size := bs_reverts_size s - ar_size_hint r\<rparr>"] Some le leb dist size
    by (cases removable) (simp_all add: revert_one_def Let_def r reverted_account_def seen_def state_size_ok_def)
qed

lemma revert_all_effect:
  assumes "hdistinct (bs_state s)" and "state_size_ok s" and "hdistinct rs" and "total_of ar_size_hint rs \<le> bs_reverts_size s"
  shows "\<exists>s'. revert_all rs s = Val s' \<and> hdistinct (bs_state s') \<and> state_size_ok s' \<and> bs_reverts s' = bs_reverts s \<and>
     bs_reverts_size s' = bs_reverts_size s - total_of ar_size_hint rs \<and>
     (\<forall>a. seen w s' a = (case hget rs a of None \<Rightarrow> seen w s a | Some r \<Rightarrow> reverted_account w s a r))"
  using assms
proof (induction rs arbitrary: s)
  case (Cons p rs)
  obtain a r where p: "p = (a, r)" by (cases p)
  have none: "hget rs a = None" and dist: "hdistinct rs"
    using Cons.prems(3) by (simp_all add: hdistinct_def p map_of_eq_None_iff)
  have le: "ar_size_hint r \<le> bs_reverts_size s" using Cons.prems(4) by (simp add: p)
  from Cons.prems(1,2) le obtain s1 where one: "revert_one a r s = Val s1" and ok: "hdistinct (bs_state s1)" "state_size_ok s1"
    and frame: "bs_reverts_size s1 = bs_reverts_size s - ar_size_hint r" "bs_reverts s1 = bs_reverts s"
    and others: "\<And>a'. a' \<noteq> a \<Longrightarrow> hget (bs_state s1) a' = hget (bs_state s) a'"
    and here: "seen w s1 a = reverted_account w s a r"
    by (rule revert_one_effect [where w = w]) blast
  have "total_of ar_size_hint rs \<le> bs_reverts_size s1" using Cons.prems(4) frame(1) by (simp add: p)
  from Cons.IH [OF ok dist this] obtain s' where
    rest: "revert_all rs s1 = Val s'" "hdistinct (bs_state s')" "state_size_ok s'" "bs_reverts s' = bs_reverts s1"
      "bs_reverts_size s' = bs_reverts_size s1 - total_of ar_size_hint rs"
    and shown: "\<And>a. seen w s' a = (case hget rs a of None \<Rightarrow> seen w s1 a | Some r \<Rightarrow> reverted_account w s1 a r)"
    by blast
  have "seen w s' a' = (case hget (p # rs) a' of None \<Rightarrow> seen w s a' | Some r \<Rightarrow> reverted_account w s a' r)" for a'
    using mergeable_other(2,3) [OF others, of a' w] here none
    by (cases "a' = a") (simp_all add: shown p cong: option.case_cong)
  with rest show ?case using frame one by (auto simp: p)
qed simp

section \<open>Merging and reverting a block\<close>

lemma block_merge:
  assumes "wf_bundle w s" and "sizes_ok s" and "hdistinct ts" and "\<forall>a t. hget ts a = Some t \<longrightarrow> mergeable w s a t"
  obtains rs s' where "apply_transitions_and_create_reverts ts RetainReverts s = Val (s'\<lparr>bs_reverts := bs_reverts s @ [rs]\<rparr>)"
    "block_merged w ts rs s' s"
proof -
  obtain rs s' where l: "apply_transitions_loop True ts [] s = Val (rs, s')" and m: "block_merged w ts rs s' s"
    using apply_transitions_loop_merges [OF assms(1) _ assms(3)] assms(2,4) by (auto simp: sizes_ok_def)
  show thesis
  proof (rule that [OF _ m])
    show "apply_transitions_and_create_reverts ts RetainReverts s = Val (s'\<lparr>bs_reverts := bs_reverts s @ [rs]\<rparr>)"
      using l m by (simp add: apply_transitions_and_create_reverts_def block_merged_def)
  qed
qed

lemma seen_reverts [simp]: "seen w (s\<lparr>bs_reverts := rs\<rparr>) = seen w s"
  by (simp add: seen_def fun_eq_iff)

lemma reverted_reverts [simp]: "reverted_account w (s\<lparr>bs_reverts := rs\<rparr>) = reverted_account w s"
  by (simp add: reverted_account_def fun_eq_iff)

text \<open>All that a merge and the revert after it do.\<close>

lemma merge_and_revert:
  assumes "wf_bundle w s" and "sizes_ok s" and "hdistinct ts" and "\<forall>a t. hget ts a = Some t \<longrightarrow> mergeable w s a t"
  obtains s' s'' where "apply_transitions_and_create_reverts ts RetainReverts s = Val s'" "wf_bundle w s'" "sizes_ok s'"
    "\<And>a. same_account (seen w s' a)
        (case hget ts a of None \<Rightarrow> seen w s a | Some t \<Rightarrow> (ta_info t, after_transition t (snd (seen w s a))))"
    "revert_latest s' = Val (True, s'')" "\<And>a. same_account (seen w s'' a) (seen w s a)"
    "bs_reverts s'' = bs_reverts s" "sizes_ok s''"
proof -
  obtain rs s' where m: "apply_transitions_and_create_reverts ts RetainReverts s = Val (s'\<lparr>bs_reverts := bs_reverts s @ [rs]\<rparr>)"
    and b: "block_merged w ts rs s' s" using block_merge [OF assms] .
  let ?s = "s'\<lparr>bs_reverts := bs_reverts s\<rparr>"
  have "hdistinct (bs_state ?s)" "state_size_ok ?s" "hdistinct rs" "total_of ar_size_hint rs \<le> bs_reverts_size ?s"
    using b by (simp_all add: block_merged_def wf_bundle_def state_size_ok_def)
  from revert_all_effect [OF this, of w] obtain s'' where r: "revert_all rs ?s = Val s''" "state_size_ok s''"
    "bs_reverts s'' = bs_reverts s" "bs_reverts_size s'' = bs_reverts_size s' - total_of ar_size_hint rs"
    and shown: "\<And>a. seen w s'' a = (case hget rs a of None \<Rightarrow> seen w s' a | Some r \<Rightarrow> reverted_account w s' a r)"
    by (auto cong: option.case_cong)
  have "same_account (seen w s'' a) (seen w s a)" for a
    using b mergeable_other(2) [of s' a s w] by (cases "hget ts a") (auto simp: shown block_merged_def)
  moreover have "sizes_ok s''" using r b assms(2) by (simp add: sizes_ok_def block_merged_def)
  moreover have "same_account (seen w s' a) (case hget ts a of None \<Rightarrow> seen w s a | Some t \<Rightarrow> (ta_info t, after_transition t (snd (seen w s a))))" for a
    using b mergeable_other(2) [of s' a s w] by (cases "hget ts a") (auto simp: block_merged_def)
  ultimately show thesis
    using m r b assms(2) that [of "s'\<lparr>bs_reverts := bs_reverts s @ [rs]\<rparr>" s'']
    by (simp add: revert_latest_def block_merged_def sizes_ok_def state_size_ok_def wf_bundle_def)
qed


text \<open>A small world: account 1 exists and holds 7 in slot 5, account 2 does not exist.\<close>

definition one_account :: world where
  "one_account a = (if a = 1 then (Some (default_account_info\<lparr>nonce := 1\<rparr>), (\<lambda>_. 0)(5 := 7)) else (None, \<lambda>_. 0))"

definition one_block :: transition_state where
  "one_block =
     [(1, \<lparr>ta_info = Some (default_account_info\<lparr>nonce := 2\<rparr>), ta_status = Changed,
           ta_previous_info = Some (default_account_info\<lparr>nonce := 1\<rparr>), ta_previous_status = StatusLoaded,
           ta_storage = [(5, storage_slot_new_changed 7 9)], ta_storage_was_destroyed = False\<rparr>),
      (2, \<lparr>ta_info = Some default_account_info, ta_status = InMemoryChange, ta_previous_info = None,
           ta_previous_status = LoadedNotExisting, ta_storage = [(3, storage_slot_new_changed 0 4)],
           ta_storage_was_destroyed = False\<rparr>)]"

lemma one_block_mergeable:
  "wf_bundle one_account default_bundle_state" "sizes_ok default_bundle_state" "hdistinct one_block"
  "\<forall>a t. hget one_block a = Some t \<longrightarrow> mergeable one_account default_bundle_state a t"
  by (auto simp: wf_bundle_def default_bundle_state_def sizes_ok_def state_size_ok_def one_block_def hdistinct_def mergeable_def
      continues_def absent_status_def seen_in_pres one_account_def storage_slot_new_changed_def split: if_splits)

text \<open>
  C8. Merging the transitions of a block into a bundle, with reverts retained, never panics, and neither does
  reverting the latest block afterwards. The bundle then shows, for every account, the information and the
  value of every storage slot that it showed before the merge (over any database below it), it has the
  reverts it had before, and its size counters are exact. The transitions continue the accounts of the
  bundle; an account that is not in the bundle was loaded from the database.
\<close>

theorem revert_latest_undoes_merge:
  assumes "wf_bundle w s" and "sizes_ok s" and "hdistinct ts" and "\<forall>a t. hget ts a = Some t \<longrightarrow> mergeable w s a t"
  shows "\<exists>s' s''. apply_transitions_and_create_reverts ts RetainReverts s = Val s' \<and> revert_latest s' = Val (True, s'') \<and>
     (\<forall>a. same_account (seen w s'' a) (seen w s a)) \<and> bs_reverts s'' = bs_reverts s \<and> sizes_ok s''"
  by (rule merge_and_revert [OF assms]) blast

theorem revert_latest_undoes_merge_witness:
  "\<exists>s' s''. apply_transitions_and_create_reverts one_block RetainReverts default_bundle_state = Val s' \<and>
     revert_latest s' = Val (True, s'') \<and> same_account (seen one_account s'' 1) (one_account 1)"
proof -
  have "seen one_account default_bundle_state 1 = one_account 1" by (simp add: seen_def default_bundle_state_def)
  then show ?thesis using revert_latest_undoes_merge [OF one_block_mergeable] by metis
qed

text \<open>
  C15. After the merge a bundle shows, for every account with a transition, the information of the transition
  and the slots it changed, with the other slots as before or zero when the transition destroyed the storage;
  every other account is shown as before. The merged bundle is well formed again, so that the next block can
  be merged, and its size counters are exact.
\<close>

theorem merge_shows_transitions:
  assumes "wf_bundle w s" and "sizes_ok s" and "hdistinct ts" and "\<forall>a t. hget ts a = Some t \<longrightarrow> mergeable w s a t"
  shows "\<exists>s'. apply_transitions_and_create_reverts ts RetainReverts s = Val s' \<and> wf_bundle w s' \<and> sizes_ok s' \<and>
     (\<forall>a. same_account (seen w s' a)
        (case hget ts a of None \<Rightarrow> seen w s a | Some t \<Rightarrow> (ta_info t, after_transition t (snd (seen w s a)))))"
  by (rule merge_and_revert [OF assms]) blast

theorem merge_shows_transitions_witness:
  "\<exists>s'. apply_transitions_and_create_reverts one_block RetainReverts default_bundle_state = Val s' \<and>
     snd (seen one_account s' 1) 5 = 9 \<and> snd (seen one_account s' 2) 3 = 4"
proof -
  obtain s' where m: "apply_transitions_and_create_reverts one_block RetainReverts default_bundle_state = Val s'"
    and s: "\<And>a. same_account (seen one_account s' a) (case hget one_block a of None \<Rightarrow> seen one_account default_bundle_state a
       | Some t \<Rightarrow> (ta_info t, after_transition t (snd (seen one_account default_bundle_state a))))"
    using merge_shows_transitions [OF one_block_mergeable] by blast
  show ?thesis
    using m s [of 1] s [of 2]
    by (simp add: same_account_def one_block_def after_transition_def pres_def storage_slot_new_changed_def)
qed

text \<open>A bundle with one account, and one that destroys it.\<close>

definition drained_this :: bundle_state where
  "drained_this = default_bundle_state\<lparr>
     bs_state := [(1, bundle_account_new (Some default_account_info) (Some default_account_info) [(5, storage_slot_new_changed 0 1)] Changed)],
     bs_state_size := 2\<rparr>"

definition drained_other :: bundle_state where
  "drained_other = default_bundle_state\<lparr>
     bs_state := [(1, bundle_account_new (Some default_account_info) None [] StatusDestroyed)], bs_state_size := 1,
     bs_reverts := [[(1, new_selfdestructed Changed (RevertTo default_account_info) [])]], bs_reverts_size := 1\<rparr>"

text \<open>
  The size counter of a bundle drifts when another bundle is appended whose reverts wipe an account:
  \<^verbatim>\<open>extend\<close> drains the storage of the account into the revert without taking it off the state size. Here
  the counter says 2 and the bundle holds one account without storage.
\<close>

theorem extend_drops_size:
  "sizes_ok drained_this \<and> sizes_ok drained_other \<and>
   (\<exists>s. bs_extend drained_other drained_this = Val s \<and> bs_state_size s = 2 \<and> total_of ba_size_hint (bs_state s) = 1)"
  by (simp add: drained_this_def drained_other_def default_bundle_state_def sizes_ok_def state_size_ok_def bs_extend_def
      extend_revert_def extend_account_def bundle_account_new_def new_selfdestructed_def revert_to_present_def ba_size_hint_def
      ar_size_hint_def ba_was_destroyed_def minus_usize_def hextend_def hmap_def hentry_def Let_def)

end
