(* ===== verification/Cache_Bundle.thy ===== *)
theory Cache_Bundle
  imports Cache_State Bundle_Merge
begin

text \<open>
  The cache and the bundle agree: the transitions that the operations on a cached account emit, aggregated
  over a block, continue the account of the bundle, and the merged bundle shows what the cache holds.
\<close>

section \<open>What a cached account shows\<close>

definition cached_seen :: "(u256 \<Rightarrow> u256) \<Rightarrow> cache_account \<Rightarrow> u256 \<Rightarrow> u256" where
  "cached_seen slots c k =
     (case ca_account c of
        None \<Rightarrow> 0
      | Some p \<Rightarrow>
          (case hget (pa_storage p) k of Some v \<Rightarrow> v | None \<Rightarrow> if is_storage_known (ca_status c) then 0 else slots k))"

text \<open>
  The information is absent in the statuses that say so, and an account that is empty, or was loaded with neither
  nonce nor code, has no storage.
\<close>

definition wf_cached :: "(u256 \<Rightarrow> u256) \<Rightarrow> cache_account \<Rightarrow> bool" where
  "wf_cached slots c \<longleftrightarrow>
     (ca_account c = None \<longleftrightarrow> absent_status (ca_status c)) \<and>
     (ca_status c = LoadedEmptyEIP161 \<or> ca_status c = StatusLoaded \<and> had_no_nonce_and_code (ca_account_info c) \<longrightarrow>
        (\<forall>k. cached_seen slots c k = 0))"

text \<open>Slots that the EVM hands over have the values of the cache as their previous values.\<close>

definition reads_cache :: "(u256 \<Rightarrow> u256) \<Rightarrow> cache_account \<Rightarrow> storage_with_original_values \<Rightarrow> bool" where
  "reads_cache slots c st \<longleftrightarrow> hdistinct st \<and>
     (\<forall>k s. hget st k = Some s \<longrightarrow> previous_or_original_value s = cached_seen slots c k)"

text \<open>
  The operations on a cached account. The EVM creates an account only where none is with a nonce or with code,
  and such an account has no storage; before the state clear, an empty account that is touched has no storage
  but the slots it is touched with.
\<close>

inductive cache_step :: "(u256 \<Rightarrow> u256) \<Rightarrow> cache_account \<Rightarrow> transition_account option \<Rightarrow> cache_account \<Rightarrow> bool"
  for slots :: "u256 \<Rightarrow> u256" where
  destroy: "ca_selfdestruct c = (t, c') \<Longrightarrow> cache_step slots c t c'"
| create: "newly_created i st c = (t, c') \<Longrightarrow> reads_cache slots c st \<Longrightarrow> (\<And>k. cached_seen slots c k = 0) \<Longrightarrow>
    ca_status c \<noteq> Changed \<Longrightarrow> cache_step slots c (Some t) c'"
| touch_empty: "touch_empty_eip161 c = Val (t, c') \<Longrightarrow> cache_step slots c t c'"
| touch_create: "touch_create_pre_eip161 st c = Val (t, c') \<Longrightarrow> reads_cache slots c st \<Longrightarrow>
    (\<And>k. hget st k = None \<Longrightarrow> cached_seen slots c k = 0) \<Longrightarrow> cache_step slots c t c'"
| change: "ca_change i st c = (t, c') \<Longrightarrow> reads_cache slots c st \<Longrightarrow> cache_step slots c (Some t) c'"
| increment: "increment_balance token_id v c = Val (t, c') \<Longrightarrow> cache_step slots c t c'"
| drain: "drain_balance token_id c = Val ((v, t), c') \<Longrightarrow> cache_step slots c (Some t) c'"

section \<open>One operation\<close>

text \<open>The statuses one operation with a transition leads to.\<close>

fun emits :: "cache_status \<Rightarrow> cache_status \<Rightarrow> bool" where
  "emits s Changed \<longleftrightarrow> s \<in> {Changed, StatusLoaded}"
| "emits s InMemoryChange \<longleftrightarrow> s \<in> {LoadedNotExisting, StatusLoaded, LoadedEmptyEIP161, InMemoryChange}"
| "emits s StatusDestroyed \<longleftrightarrow> s \<in> {StatusLoaded, LoadedEmptyEIP161, InMemoryChange, Changed}"
| "emits s DestroyedChanged \<longleftrightarrow> was_destroyed s"
| "emits s DestroyedAgain \<longleftrightarrow> was_destroyed s"
| "emits s _ \<longleftrightarrow> False"

definition emitted :: "(u256 \<Rightarrow> u256) \<Rightarrow> cache_account \<Rightarrow> transition_account \<Rightarrow> cache_account \<Rightarrow> bool" where
  "emitted slots c t c' \<longleftrightarrow>
     emits (ca_status c) (ca_status c') \<and>
     ta_info t = ca_account_info c' \<and> ta_status t = ca_status c' \<and>
     ta_previous_info t = ca_account_info c \<and> ta_previous_status t = ca_status c \<and>
     ta_storage_was_destroyed t = absent_status (ca_status c') \<and> (absent_status (ca_status c') \<longrightarrow> ta_storage t = []) \<and>
     hdistinct (ta_storage t) \<and>
     (\<forall>k s. hget (ta_storage t) k = Some s \<longrightarrow> previous_or_original_value s = cached_seen slots c k) \<and>
     (\<forall>k. cached_seen slots c' k = after_transition t (cached_seen slots c) k) \<and>
     (ca_status c' = InMemoryChange \<and> \<not> is_storage_known (ca_status c) \<longrightarrow> (\<forall>k. cached_seen slots c k = 0))"

lemma hget_extend_present:
  "hdistinct st \<Longrightarrow> hget (extend_present this st) k = (case pres st k of Some v \<Rightarrow> Some v | None \<Rightarrow> hget this k)"
proof (induction st arbitrary: this)
  case (Cons p st)
  obtain k' s where p: "p = (k', s)" by (cases p)
  have "hget st k' = None" using Cons.prems by (simp add: hdistinct_def p map_of_eq_None_iff)
  with Cons show ?case by (auto simp: p extend_present_def hdistinct_def pres_def split: option.splits)
qed (simp add: extend_present_def)

lemma hget_present_storage [simp]: "hget (present_storage st) k = pres st k"
  by (simp add: present_storage_def pres_def)

lemmas cached_defs = emitted_def wf_cached_def cached_seen_def after_transition_def reads_cache_def absent_status_def
  ca_account_info_def

lemma emitted_destroy:
  assumes "wf_cached slots c" and "ca_selfdestruct c = (t, c')"
  shows "(case t of None \<Rightarrow> c' = c | Some t \<Rightarrow> emitted slots c t c') \<and> wf_cached slots c'"
  using assms by (cases "ca_status c") (auto simp: ca_selfdestruct_def Let_def cached_defs)

lemma emitted_touch_empty:
  assumes "wf_cached slots c" and "touch_empty_eip161 c = Val (t, c')"
  shows "(case t of None \<Rightarrow> c' = c | Some t \<Rightarrow> emitted slots c t c') \<and> wf_cached slots c'"
  using assms by (cases "ca_status c") (auto simp: touch_empty_eip161_def Let_def cached_defs evals)

lemma wf_cached_at:
  assumes "wf_cached slots c"
  shows "ca_account c = None \<longleftrightarrow> absent_status (ca_status c)" "ca_account_info c = None \<longleftrightarrow> absent_status (ca_status c)"
    "ca_status c = LoadedEmptyEIP161 \<Longrightarrow> cached_seen slots c k = 0"
    "ca_status c = StatusLoaded \<Longrightarrow> had_no_nonce_and_code (ca_account_info c) \<Longrightarrow> cached_seen slots c k = 0"
  using assms by (simp_all add: wf_cached_def ca_account_info_def)

text \<open>An operation that stores a new account.\<close>

lemma emittedI:
  assumes "emits (ca_status c) s" "\<not> absent_status s" "reads_cache slots c st"
    and "\<And>k. cached_seen slots c' k = (case pres st k of Some v \<Rightarrow> v | None \<Rightarrow> cached_seen slots c k)"
    and "s = InMemoryChange \<Longrightarrow> \<not> is_storage_known (ca_status c) \<Longrightarrow> (\<forall>k. cached_seen slots c k = 0)"
    and "ca_status c' = s" "ca_account_info c' = Some i"
  shows "emitted slots c \<lparr>ta_info = Some i, ta_status = s, ta_previous_info = ca_account_info c, ta_previous_status = ca_status c,
           ta_storage = st, ta_storage_was_destroyed = False\<rparr> c' \<and> wf_cached slots c'"
  using assms
  by (cases s) (auto simp: emitted_def after_transition_def reads_cache_def wf_cached_def absent_status_def ca_account_info_def)

lemma cached_seen_simps:
  "cached_seen slots \<lparr>ca_account = Some \<lparr>pa_info = i, pa_storage = st\<rparr>, ca_status = s\<rparr> k =
     (case hget st k of Some v \<Rightarrow> v | None \<Rightarrow> if is_storage_known s then 0 else slots k)"
  by (simp add: cached_seen_def)

lemma emitted_create:
  assumes "wf_cached slots c" and "newly_created i st c = (t, c')" and "reads_cache slots c st" and "\<And>k. cached_seen slots c k = 0"
    and "ca_status c \<noteq> Changed"
  shows "emitted slots c t c' \<and> wf_cached slots c'"
proof -
  let ?s = "on_created (ca_status c)"
  have t: "t = \<lparr>ta_info = Some i, ta_status = ?s, ta_previous_info = ca_account_info c, ta_previous_status = ca_status c,
      ta_storage = st, ta_storage_was_destroyed = False\<rparr>"
    and c': "c' = \<lparr>ca_account = Some \<lparr>pa_info = i, pa_storage = present_storage st\<rparr>, ca_status = ?s\<rparr>"
    using assms(2) by (auto simp: newly_created_def Let_def)
  have s: "emits (ca_status c) ?s" "\<not> absent_status ?s" "is_storage_known ?s"
    using assms(5) by (cases "ca_status c"; simp add: absent_status_def)+
  show ?thesis
    unfolding t
  proof (rule emittedI [OF s(1,2) assms(3)])
    show "cached_seen slots c' k = (case pres st k of Some v \<Rightarrow> v | None \<Rightarrow> cached_seen slots c k)" for k
      by (simp only: c' cached_seen_simps s(3) assms(4) hget_present_storage if_True)
  qed (simp_all add: assms(4) c' ca_account_info_def)
qed

lemma emitted_change:
  assumes wf: "wf_cached slots c" and ch: "ca_change i st c = (t, c')" and rd: "reads_cache slots c st"
  shows "emitted slots c t c' \<and> wf_cached slots c'"
proof -
  define s where "s = on_changed (ca_status c) (had_no_nonce_and_code (ca_account_info c))"
  define this where "this = (case ca_account c of None \<Rightarrow> [] | Some a \<Rightarrow> pa_storage a)"
  have t: "t = \<lparr>ta_info = Some i, ta_status = s, ta_previous_info = ca_account_info c, ta_previous_status = ca_status c,
      ta_storage = st, ta_storage_was_destroyed = False\<rparr>"
    and c': "c' = \<lparr>ca_account = Some \<lparr>pa_info = i, pa_storage = extend_present this st\<rparr>, ca_status = s\<rparr>"
    using ch by (auto simp: ca_change_def Let_def s_def this_def)
  have zero: "\<forall>k. cached_seen slots c k = 0" if "s = InMemoryChange" "\<not> is_storage_known (ca_status c)"
    using that wf_cached_at(3,4) [OF wf] by (cases "ca_status c") (auto simp: s_def split: if_splits)
  have "cached_seen slots c' k = (case pres st k of Some v \<Rightarrow> v | None \<Rightarrow> cached_seen slots c k)" for k
  proof -
    have "(case hget this k of Some v \<Rightarrow> v | None \<Rightarrow> if is_storage_known s then 0 else slots k) = cached_seen slots c k"
      using wf_cached_at(1) [OF wf] wf_cached_at(3,4) [OF wf, of k]
      by (cases "ca_status c"; cases "ca_account c")
        (auto simp: s_def this_def cached_seen_def absent_status_def split: option.splits if_splits)
    then show ?thesis
      using rd by (simp add: c' cached_seen_simps hget_extend_present reads_cache_def del: is_storage_known.simps split: option.splits if_splits)
  qed
  then show ?thesis
    unfolding t using zero
    by (intro emittedI rd) (cases "ca_status c"; auto simp: s_def absent_status_def c' ca_account_info_def)+
qed

lemma emitted_adjust:
  assumes wf: "wf_cached slots c" and "account_info_change f c = Val ((x, t), c')"
  shows "emitted slots c t c' \<and> wf_cached slots c'"
proof -
  let ?acc = "case ca_account c of None \<Rightarrow> plain_of_info default_account_info | Some a \<Rightarrow> a"
  obtain i where "f (pa_info ?acc) = Val (x, i)"
    and "(t, c') = ca_change i [] c"
    using assms(2) by (auto simp: account_info_change_def Let_def evals ca_change_def plain_of_info_def extend_present_def split: option.splits)
  then show ?thesis using emitted_change [OF wf, of i "[]" t c'] by (simp add: reads_cache_def hdistinct_def)
qed

lemma emitted_touch_create:
  assumes "wf_cached slots c" and "touch_create_pre_eip161 st c = Val (t, c')" and "reads_cache slots c st"
    and "\<And>k. hget st k = None \<Longrightarrow> cached_seen slots c k = 0"
  shows "(case t of None \<Rightarrow> c' = c | Some t \<Rightarrow> emitted slots c t c') \<and> wf_cached slots c'"
proof (cases t)
  case None
  then show ?thesis using assms(1,2) by (auto simp: touch_create_pre_eip161_def Let_def evals split: option.splits)
next
  case (Some u)
  then obtain s had where s: "on_touched_created_pre_eip161 (ca_status c) had = Val (Some s)"
    and u: "u = \<lparr>ta_info = Some default_account_info, ta_status = s, ta_previous_info = ca_account_info c,
        ta_previous_status = ca_status c, ta_storage = st, ta_storage_was_destroyed = False\<rparr>"
    and c': "c' = \<lparr>ca_account = Some \<lparr>pa_info = default_account_info, pa_storage = present_storage st\<rparr>, ca_status = s\<rparr>"
    using assms(2) by (auto simp: touch_create_pre_eip161_def Let_def evals new_empty_with_storage_def split: option.splits)
  have known: "is_storage_known s" using s by (cases "ca_status c") (auto split: if_splits)
  have "emitted slots c u c' \<and> wf_cached slots c'"
    unfolding u
  proof (rule emittedI [OF _ _ assms(3)])
    show "cached_seen slots c' k = (case pres st k of Some v \<Rightarrow> v | None \<Rightarrow> cached_seen slots c k)" for k
      using known assms(4) [of k, folded pres_None_iff]
      by (simp add: c' cached_seen_simps del: is_storage_known.simps split: option.splits)
  qed (use s in \<open>cases "ca_status c"; auto simp: absent_status_def c' ca_account_info_def split: if_splits\<close>)+
  then show ?thesis using Some by simp
qed

lemma cache_step_emits:
  assumes "cache_step slots c t c'" and "wf_cached slots c"
  shows "(case t of None \<Rightarrow> c' = c | Some t \<Rightarrow> emitted slots c t c') \<and> wf_cached slots c'"
  using assms
proof cases
  case (destroy) then show ?thesis using emitted_destroy assms(2) by blast
next
  case (create i st u) then show ?thesis using emitted_create [OF assms(2)] by simp
next
  case touch_empty then show ?thesis using emitted_touch_empty assms(2) by blast
next
  case (touch_create st) then show ?thesis using emitted_touch_create [OF assms(2)] by blast
next
  case (change i st u) then show ?thesis using emitted_change [OF assms(2)] by simp
next
  case (increment token_id v)
  then show ?thesis
    using emitted_adjust [OF assms(2), where f = "\<lambda>i. Val ((), increase_balance i token_id (ucast v))"] assms(2)
    by (fastforce simp: increment_balance_def evals split: if_splits)
next
  case (drain token_id v u) then show ?thesis using emitted_adjust [OF assms(2)] by (simp add: drain_balance_def)
qed

section \<open>The transitions of a block\<close>

text \<open>How the transition state aggregates the transitions of one account.\<close>

fun aggregate :: "transition_account option \<Rightarrow> transition_account option \<Rightarrow> transition_account option" where
  "aggregate None u = u"
| "aggregate t None = t"
| "aggregate (Some t) (Some u) = Some (transition_update t u)"

inductive block_run :: "(u256 \<Rightarrow> u256) \<Rightarrow> cache_account \<Rightarrow> transition_account option \<Rightarrow> cache_account \<Rightarrow> bool"
  for slots :: "u256 \<Rightarrow> u256" and c0 :: cache_account where
  start: "block_run slots c0 None c0"
| step: "block_run slots c0 t c \<Longrightarrow> cache_step slots c u c' \<Longrightarrow> block_run slots c0 (aggregate t u) c'"

definition accumulated :: "(u256 \<Rightarrow> u256) \<Rightarrow> cache_account \<Rightarrow> transition_account \<Rightarrow> cache_account \<Rightarrow> bool" where
  "accumulated slots c0 t c \<longleftrightarrow>
     follows (ca_status c0) (ca_status c) \<and> (was_destroyed (ca_status c0) \<longrightarrow> was_destroyed (ca_status c)) \<and>
     ta_info t = ca_account_info c \<and> ta_status t = ca_status c \<and>
     ta_previous_info t = ca_account_info c0 \<and> ta_previous_status t = ca_status c0 \<and>
     (absent_status (ca_status c) \<longrightarrow> ta_storage_was_destroyed t \<and> ta_storage t = []) \<and>
     (ta_storage_was_destroyed t \<longrightarrow> was_destroyed (ca_status c)) \<and>
     (\<not> was_destroyed (ca_status c0) \<and> was_destroyed (ca_status c) \<longrightarrow> ta_storage_was_destroyed t) \<and>
     hdistinct (ta_storage t) \<and>
     (\<forall>k s. hget (ta_storage t) k = Some s \<longrightarrow>
        previous_or_original_value s = (if ta_storage_was_destroyed t then 0 else cached_seen slots c0 k)) \<and>
     (\<forall>k. cached_seen slots c k = after_transition t (cached_seen slots c0) k) \<and>
     (ca_status c = InMemoryChange \<and> \<not> is_storage_known (ca_status c0) \<longrightarrow> (\<forall>k. cached_seen slots c0 k = 0))"

lemma hget_update_slots:
  assumes "hdistinct u"
  shows "hget (fold (\<lambda>(k, s). update_slot k s) u st) k =
     (case hget u k of
        None \<Rightarrow> hget st k
      | Some s \<Rightarrow>
          (case hget st k of
             None \<Rightarrow> Some s
           | Some v \<Rightarrow> if previous_or_original_value v = ss_present_value s then None
                       else Some (v\<lparr>ss_present_value := ss_present_value s\<rparr>)))"
  using assms
proof (induction u arbitrary: st)
  case (Cons p u)
  obtain k' s where p: "p = (k', s)" by (cases p)
  have "hget u k' = None" using Cons.prems by (simp add: hdistinct_def p map_of_eq_None_iff)
  with Cons show ?case by (auto simp: p hdistinct_def update_slot_def split: option.splits)
qed simp

lemma hdistinct_update_slots: "hdistinct st \<Longrightarrow> hdistinct (fold (\<lambda>(k, s). update_slot k s) u st)"
  by (induction u arbitrary: st) (auto simp: update_slot_def split: option.splits)

lemma accumulated_single:
  assumes "emitted slots c t c'"
  shows "accumulated slots c t c'"
  using assms
  by (cases "ca_status c'"; cases "ca_status c") (simp_all add: emitted_def accumulated_def absent_status_def)

lemma follows_emits: "follows s0 s \<Longrightarrow> emits s s' \<Longrightarrow> follows s0 s'"
  by (cases s'; cases s) auto

lemma emits_destroyed:
  assumes "emits s s'"
  shows "was_destroyed s \<Longrightarrow> was_destroyed s'" "\<not> absent_status s' \<Longrightarrow> was_destroyed s' \<Longrightarrow> was_destroyed s"
  using assms by (cases s'; auto simp: absent_status_def)+

lemma accumulated_update:
  assumes a: "accumulated slots c0 t c" and e: "emitted slots c u c'"
  shows "accumulated slots c0 (transition_update t u) c'"
proof (cases "absent_status (ca_status c')")
  case True
  have path: "follows (ca_status c0) (ca_status c)" "emits (ca_status c) (ca_status c')"
    using a e by (simp_all add: accumulated_def emitted_def del: was_destroyed.simps)
  have d: "ca_status c' \<in> {StatusDestroyed, DestroyedAgain}" using True path(2) by (auto simp: absent_status_def)
  have e': "ta_info u = ca_account_info c'" "ta_status u = ca_status c'" "ta_storage u = []" "\<And>k. cached_seen slots c' k = 0"
    using e True by (auto simp: emitted_def after_transition_def)
  have a': "ta_previous_info t = ca_account_info c0" "ta_previous_status t = ca_status c0" using a by (simp_all add: accumulated_def)
  have t: "transition_update t u = t\<lparr>ta_info := ca_account_info c', ta_status := ca_status c', ta_storage := [], ta_storage_was_destroyed := True\<rparr>"
    using d e' by (simp add: transition_update_def Let_def)
  show ?thesis
    using d a' e'(4) follows_emits [OF path] unfolding t accumulated_def
    by (auto simp: after_transition_def hdistinct_def)
next
  case False
  let ?t = "transition_update t u"
  have u: "hdistinct (ta_storage u)" "ta_status u = ca_status c'" "\<not> ta_storage_was_destroyed u" "ta_info u = ca_account_info c'"
    using e False by (simp_all add: emitted_def)
  have t: "ta_storage ?t = fold (\<lambda>(k, s). update_slot k s) (ta_storage u) (ta_storage t)"
    "ta_storage_was_destroyed ?t = ta_storage_was_destroyed t" "ta_info ?t = ca_account_info c'" "ta_status ?t = ca_status c'"
    "ta_previous_info ?t = ta_previous_info t" "ta_previous_status ?t = ta_previous_status t"
    using False u by (auto simp: transition_update_def Let_def absent_status_def)
  have prev_t: "previous_or_original_value s = (if ta_storage_was_destroyed t then 0 else cached_seen slots c0 k)"
    if "hget (ta_storage t) k = Some s" for k s using a that by (simp add: accumulated_def)
  have seen_c: "cached_seen slots c k = (case hget (ta_storage t) k of Some s \<Rightarrow> ss_present_value s
      | None \<Rightarrow> if ta_storage_was_destroyed t then 0 else cached_seen slots c0 k)" for k
    using a by (simp add: accumulated_def after_transition_def pres_def split: option.splits)
  have prev_u: "previous_or_original_value s = cached_seen slots c k" if "hget (ta_storage u) k = Some s" for k s
    using e that by (simp add: emitted_def)
  have seen_c': "cached_seen slots c' k = (case hget (ta_storage u) k of Some s \<Rightarrow> ss_present_value s | None \<Rightarrow> cached_seen slots c k)" for k
    using e u(3) by (simp add: emitted_def after_transition_def pres_def split: option.splits)
  have previous: "previous_or_original_value s = (if ta_storage_was_destroyed t then 0 else cached_seen slots c0 k)"
    if "hget (ta_storage ?t) k = Some s" for k s
    using that prev_t [of k] prev_u [of k] seen_c [of k]
    by (auto simp: t hget_update_slots [OF u(1)] split: option.splits if_splits)
  have seen: "cached_seen slots c' k = after_transition ?t (cached_seen slots c0) k" for k
    using prev_t [of k] by (auto simp: seen_c' seen_c after_transition_def pres_def t hget_update_slots [OF u(1)] split: option.splits)
  have path: "follows (ca_status c0) (ca_status c)" "was_destroyed (ca_status c0) \<longrightarrow> was_destroyed (ca_status c)"
    "ta_storage_was_destroyed t \<longrightarrow> was_destroyed (ca_status c)"
    "\<not> was_destroyed (ca_status c0) \<and> was_destroyed (ca_status c) \<longrightarrow> ta_storage_was_destroyed t"
    "emits (ca_status c) (ca_status c')"
    using a e by (simp_all add: accumulated_def emitted_def del: was_destroyed.simps)
  have status: "follows (ca_status c0) (ca_status c')" "was_destroyed (ca_status c0) \<longrightarrow> was_destroyed (ca_status c')"
    "ta_storage_was_destroyed t \<longrightarrow> was_destroyed (ca_status c')"
    "\<not> was_destroyed (ca_status c0) \<and> was_destroyed (ca_status c') \<longrightarrow> ta_storage_was_destroyed t"
    using path follows_emits [OF path(1,5)] emits_destroyed [OF path(5)] False by blast+
  have zero: "\<forall>k. cached_seen slots c0 k = 0" if "ca_status c' = InMemoryChange" "\<not> is_storage_known (ca_status c0)"
  proof -
    have "ca_status c = InMemoryChange" using path(1,5) that(1) by auto
    then show ?thesis using a that(2) unfolding accumulated_def by blast
  qed
  have a': "ta_previous_info t = ca_account_info c0" "ta_previous_status t = ca_status c0" "hdistinct (ta_storage t)"
    using a by (simp_all add: accumulated_def)
  have d: "hdistinct (ta_storage ?t)" using hdistinct_update_slots [OF a'(3)] by (simp add: t)
  show ?thesis
    unfolding accumulated_def t(2-6) a'(1,2) using previous seen status zero False d by blast
qed

lemma block_run_accumulates:
  assumes "block_run slots c0 t c" and "wf_cached slots c0"
  shows "wf_cached slots c \<and> (case t of None \<Rightarrow> c = c0 | Some t \<Rightarrow> accumulated slots c0 t c)"
  using assms
proof (induction rule: block_run.induct)
  case (step t c u c')
  then have wf: "wf_cached slots c" and t: "case t of None \<Rightarrow> c = c0 | Some t \<Rightarrow> accumulated slots c0 t c" by simp_all
  note one = cache_step_emits [OF step.hyps(2) wf]
  show ?case
    using one t
    by (cases t; cases u) (auto intro: accumulated_single accumulated_update)
qed simp

text \<open>
  A bundle account that agrees with a cached one. The statuses differ only for an account that was made and
  destroyed within a block, for which the bundle has nothing to record.
\<close>

definition agrees :: "(u256 \<Rightarrow> u256) \<Rightarrow> bundle_account \<Rightarrow> cache_account \<Rightarrow> bool" where
  "agrees slots b c \<longleftrightarrow>
     (ba_status b = ca_status c \<or> ba_status b = LoadedNotExisting \<and> ca_status c = StatusDestroyed) \<and>
     ba_info b = ca_account_info c \<and> (\<forall>k. seen_in slots b k = cached_seen slots c k)"

lemma accumulated_continues:
  assumes a: "accumulated slots c0 t c" and g: "agrees slots b c0" and wf: "wf_cached slots c"
  shows "continues slots b t"
proof -
  have seen: "seen_in slots b = cached_seen slots c0" using g by (simp add: agrees_def fun_eq_iff)
  have status: "ba_status b = ca_status c0 \<or> ba_status b = LoadedNotExisting \<and> ca_status c0 = StatusDestroyed"
    using g by (simp add: agrees_def)
  have f: "follows (ba_status b) (ca_status c)"
    using a status by (cases "ca_status c") (auto simp: accumulated_def)
  have facts: "ta_info t = None \<longleftrightarrow> absent_status (ta_status t)" "ta_status t = ca_status c" "hdistinct (ta_storage t)"
    "absent_status (ta_status t) \<longrightarrow> ta_storage_was_destroyed t \<and> ta_storage t = []"
    "ta_storage_was_destroyed t \<longrightarrow> was_destroyed (ta_status t)"
    "\<not> was_destroyed (ca_status c0) \<and> was_destroyed (ta_status t) \<longrightarrow> ta_storage_was_destroyed t"
    using a wf_cached_at(2) [OF wf] by (simp_all add: accumulated_def del: was_destroyed.simps)
  have vals: "\<not> ta_storage_was_destroyed t \<longrightarrow>
      (\<forall>k s. hget (ta_storage t) k = Some s \<longrightarrow> previous_or_original_value s = cached_seen slots c0 k)"
    "ca_status c = InMemoryChange \<and> \<not> is_storage_known (ca_status c0) \<longrightarrow> (\<forall>k. cached_seen slots c0 k = 0)"
    using a unfolding accumulated_def by auto
  have "\<not> was_destroyed (ba_status b) \<and> ba_status b \<noteq> LoadedNotExisting \<and> was_destroyed (ta_status t) \<longrightarrow> ta_storage_was_destroyed t"
    using status facts(6) by metis
  moreover have "ca_status c = InMemoryChange \<and> \<not> is_storage_known (ba_status b) \<longrightarrow> (\<forall>k. cached_seen slots c0 k = 0)"
    using status vals(2) by (metis is_storage_known.simps insertI1)
  ultimately show ?thesis
    unfolding continues_def seen using f facts(1,3-5) vals(1) unfolding facts(2) by (intro conjI) (assumption | blast)+
qed

section \<open>The bundle shows the cache\<close>

text \<open>
  The block of one account: its operations start from a cached account that agrees with the bundle or, when
  the bundle does not have it, was loaded from the database, where an account that does not exist has no storage.
\<close>

definition ran_block :: "world \<Rightarrow> bundle_state \<Rightarrow> address \<Rightarrow> transition_account \<Rightarrow> cache_account \<Rightarrow> cache_account \<Rightarrow> bool" where
  "ran_block w s a t c0 c \<longleftrightarrow>
     wf_cached (snd (w a)) c0 \<and> block_run (snd (w a)) c0 (Some t) c \<and>
     (case hget (bs_state s) a of
        Some b \<Rightarrow> agrees (snd (w a)) b c0
      | None \<Rightarrow> c0 = cache_account_of_db (fst (w a)) \<and> ca_account_info c0 = fst (w a) \<and>
                (fst (w a) = None \<longrightarrow> snd (w a) = (\<lambda>_. 0)))"

lemma loaded_agrees:
  assumes "c0 = cache_account_of_db i" and "i = None \<longrightarrow> slots = (\<lambda>_. 0)"
    and "ta_previous_info t = ca_account_info c0" and "ta_previous_status t = ca_status c0"
  shows "agrees slots (original_bundle_account t) c0" "is_not_modified (ca_status c0)"
    "ca_account_info c0 = None \<longleftrightarrow> ca_status c0 = LoadedNotExisting" "cached_seen slots c0 = slots"
  using assms
  by (cases i; auto simp: agrees_def seen_in_pres cached_seen_def ca_account_info_def new_loaded_def new_loaded_empty_eip161_def
      new_loaded_not_existing_def new_empty_with_storage_def)+

lemma ran_block_mergeable:
  assumes r: "ran_block w s a t c0 c"
  shows "mergeable w s a t" "ta_info t = ca_account_info c"
    "seen w s a = (ca_account_info c0, cached_seen (snd (w a)) c0)"
    "after_transition t (cached_seen (snd (w a)) c0) = cached_seen (snd (w a)) c"
proof -
  have wf: "wf_cached (snd (w a)) c" and acc: "accumulated (snd (w a)) c0 t c"
    using r block_run_accumulates [of "snd (w a)" c0 "Some t" c] by (simp_all add: ran_block_def)
  have prev: "ta_previous_info t = ca_account_info c0" "ta_previous_status t = ca_status c0" using acc by (simp_all add: accumulated_def)
  show "ta_info t = ca_account_info c" using acc by (simp add: accumulated_def)
  show "after_transition t (cached_seen (snd (w a)) c0) = cached_seen (snd (w a)) c"
    using acc by (simp add: accumulated_def fun_eq_iff)
  show "mergeable w s a t"
  proof (cases "hget (bs_state s) a")
    case None
    then have c0: "c0 = cache_account_of_db (fst (w a))" "ca_account_info c0 = fst (w a)" "fst (w a) = None \<longrightarrow> snd (w a) = (\<lambda>_. 0)"
      using r unfolding ran_block_def by (auto simp del: cache_account_of_db.simps)
    note l = loaded_agrees [OF c0(1,3) prev]
    show ?thesis
      using accumulated_continues [OF acc l(1) wf] l(2,3) c0 prev None
      by (simp add: mergeable_def del: is_not_modified.simps cache_account_of_db.simps)
  next
    case (Some b)
    then show ?thesis using accumulated_continues [OF acc _ wf] r by (simp add: mergeable_def ran_block_def)
  qed
  show "seen w s a = (ca_account_info c0, cached_seen (snd (w a)) c0)"
  proof (cases "hget (bs_state s) a")
    case None
    then have c0: "c0 = cache_account_of_db (fst (w a))" "ca_account_info c0 = fst (w a)" "fst (w a) = None \<longrightarrow> snd (w a) = (\<lambda>_. 0)"
      using r unfolding ran_block_def by (auto simp del: cache_account_of_db.simps)
    then show ?thesis using loaded_agrees(4) [OF c0(1,3) prev] None by (simp add: seen_def prod_eq_iff)
  next
    case (Some b)
    then show ?thesis using r by (simp add: seen_def ran_block_def agrees_def fun_eq_iff)
  qed
qed

text \<open>
  C7. The bundle follows the cache. Take a block in which the cached accounts ran any sequence of operations
  (calls to \<^verbatim>\<open>selfdestruct\<close>, \<^verbatim>\<open>newly_created\<close>, \<^verbatim>\<open>change\<close>, the touches of empty accounts, the increments and
  drains of balances), with their transitions aggregated by \<^verbatim>\<open>update\<close>. Merging the aggregated
  transitions does not panic, and the bundle then shows the information and every storage slot of the cached
  accounts after the block; reverting the latest block shows those of before the block.
\<close>

theorem bundle_follows_cache:
  assumes "wf_bundle w s" and "sizes_ok s" and "hdistinct ts"
    and ran: "\<forall>a t. hget ts a = Some t \<longrightarrow> ran_block w s a t (before a) (after a)"
  shows "\<exists>s' s''. apply_transitions_and_create_reverts ts RetainReverts s = Val s' \<and> revert_latest s' = Val (True, s'') \<and>
     (\<forall>a t. hget ts a = Some t \<longrightarrow>
        same_account (seen w s' a) (ca_account_info (after a), cached_seen (snd (w a)) (after a)) \<and>
        same_account (seen w s'' a) (ca_account_info (before a), cached_seen (snd (w a)) (before a)))"
proof -
  have "\<forall>a t. hget ts a = Some t \<longrightarrow> mergeable w s a t" using ran ran_block_mergeable(1) by blast
  with assms(1-3) obtain s' s'' where m: "apply_transitions_and_create_reverts ts RetainReverts s = Val s'" "revert_latest s' = Val (True, s'')"
    and shown: "\<And>a. same_account (seen w s' a)
        (case hget ts a of None \<Rightarrow> seen w s a | Some t \<Rightarrow> (ta_info t, after_transition t (snd (seen w s a))))"
      "\<And>a. same_account (seen w s'' a) (seen w s a)"
    by (rule merge_and_revert) blast
  have "same_account (seen w s' a) (ca_account_info (after a), cached_seen (snd (w a)) (after a)) \<and>
        same_account (seen w s'' a) (ca_account_info (before a), cached_seen (snd (w a)) (before a))" if "hget ts a = Some t" for a t
    using shown [of a] ran_block_mergeable(2-4) [of w s a t "before a" "after a"] ran that by simp
  with m show ?thesis by blast
qed

text \<open>The cached accounts of the small world before and after a block: account 1 changes, account 2 is created.\<close>

definition block_before :: "address \<Rightarrow> cache_account" where
  "block_before a = cache_account_of_db (fst (one_account a))"

definition block_after :: "address \<Rightarrow> cache_account" where
  "block_after a =
     (if a = 1 then snd (ca_change (default_account_info\<lparr>nonce := 2\<rparr>) [(5, storage_slot_new_changed 7 9)] (block_before 1))
      else snd (newly_created default_account_info [(3, storage_slot_new_changed 0 4)] (block_before 2)))"

lemma one_account_loaded:
  "block_before 1 = \<lparr>ca_account = Some \<lparr>pa_info = default_account_info\<lparr>nonce := 1\<rparr>, pa_storage = []\<rparr>, ca_status = StatusLoaded\<rparr>"
  "block_before 2 = \<lparr>ca_account = None, ca_status = LoadedNotExisting\<rparr>"
  by (simp_all add: block_before_def one_account_def info_is_empty_def new_loaded_def new_loaded_not_existing_def)

lemma block_run_single: "cache_step slots c (Some t) c' \<Longrightarrow> block_run slots c (Some t) c'"
  using block_run.step [OF block_run.start] by fastforce

lemma one_block_ran:
  "\<forall>a t. hget one_block a = Some t \<longrightarrow> ran_block one_account default_bundle_state a t (block_before a) (block_after a)"
proof (intro allI impI)
  fix a t assume h: "hget one_block a = Some t"
  then consider "a = 1" | "a = 2" by (auto simp: one_block_def split: if_splits)
  then show "ran_block one_account default_bundle_state a t (block_before a) (block_after a)"
  proof cases
    case 1
    have "block_run (snd (one_account 1)) (block_before 1) (Some t) (block_after 1)"
      by (intro block_run_single cache_step.change [where i = "default_account_info\<lparr>nonce := 2\<rparr>" and st = "[(5, storage_slot_new_changed 7 9)]"])
        (use h 1 in \<open>auto simp: one_account_loaded block_after_def ca_change_def Let_def one_block_def had_no_nonce_and_code_def
           has_no_code_and_nonce_def ca_account_info_def reads_cache_def hdistinct_def cached_seen_def one_account_def
           storage_slot_new_changed_def split: if_splits\<close>)
    then show ?thesis
      by (simp add: 1 ran_block_def default_bundle_state_def wf_cached_def one_account_loaded absent_status_def
          had_no_nonce_and_code_def has_no_code_and_nonce_def ca_account_info_def) (simp add: one_account_def info_is_empty_def new_loaded_def)
  next
    case 2
    have "block_run (snd (one_account 2)) (block_before 2) (Some t) (block_after 2)"
      by (intro block_run_single cache_step.create [where i = default_account_info and st = "[(3, storage_slot_new_changed 0 4)]"])
        (use h 2 in \<open>auto simp: one_account_loaded block_after_def newly_created_def Let_def one_block_def
           ca_account_info_def reads_cache_def hdistinct_def cached_seen_def one_account_def
           storage_slot_new_changed_def split: if_splits\<close>)
    then show ?thesis
      by (simp add: 2 ran_block_def default_bundle_state_def wf_cached_def one_account_loaded absent_status_def
          ca_account_info_def) (simp add: one_account_def new_loaded_not_existing_def)
  qed
qed

theorem bundle_follows_cache_witness:
  "\<exists>s' s''. apply_transitions_and_create_reverts one_block RetainReverts default_bundle_state = Val s' \<and>
     revert_latest s' = Val (True, s'') \<and> snd (seen one_account s' 1) 5 = 9 \<and> snd (seen one_account s'' 1) 5 = 7"
proof -
  obtain s' s'' where m: "apply_transitions_and_create_reverts one_block RetainReverts default_bundle_state = Val s'"
    "revert_latest s' = Val (True, s'')"
    and shown: "\<And>a t. hget one_block a = Some t \<Longrightarrow>
      same_account (seen one_account s' a) (ca_account_info (block_after a), cached_seen (snd (one_account a)) (block_after a)) \<and>
      same_account (seen one_account s'' a) (ca_account_info (block_before a), cached_seen (snd (one_account a)) (block_before a))"
    using bundle_follows_cache [OF one_block_mergeable(1-3) one_block_ran] by blast
  have "cached_seen (snd (one_account 1)) (block_after 1) 5 = 9" "cached_seen (snd (one_account 1)) (block_before 1) 5 = 7"
    by (simp_all add: cached_seen_def block_after_def ca_change_def Let_def one_account_loaded extend_present_def
        storage_slot_new_changed_def one_account_def)
  moreover obtain t where "hget one_block 1 = Some t" by (simp add: one_block_def)
  ultimately show ?thesis using m shown [of 1] by (auto simp: same_account_def)
qed

end
