(* ===== verification/Eof_Validation.thy ===== *)
theory Eof_Validation
  imports Opcodes
begin

text \<open>
  Validation of EOF containers, \<^verbatim>\<open>interpreter/src/interpreter/analysis.rs\<close>: \<^verbatim>\<open>validate_raw_eof\<close>,
  \<^verbatim>\<open>validate_eof\<close>, \<^verbatim>\<open>validate_eof_codes\<close> and \<^verbatim>\<open>validate_eof_code\<close>. The \<^verbatim>\<open>i32\<close> sums are checked
  (\<open>Panic\<close> out of range); positions in the code are \<open>nat\<close> and jump targets \<open>int\<close>. The hash set of accessed sections
  is a list without duplicates, in the order of insertion; the order only decides which error is found
  first.
\<close>

section \<open>Errors and the table of a code section\<close>

datatype eof_validation_error =
    FalsePossitive | UnknownOpcode | OpcodeDisabled | InstructionNotForwardAccessed | MissingImmediateBytes
  | MissingRJUMPVImmediateBytes | JumpToImmediateBytes | BackwardJumpToImmediateBytes | RJUMPVZeroMaxIndex
  | JumpZeroOffset | EOFCREATEInvalidIndex | CodeSectionOutOfBounds | CALLFNonReturningFunction
  | EofStackOverflow | JUMPFEnoughOutputs | JUMPFStackHigherThanOutputs | DataLoadOutOfBounds
  | RETFBiggestStackNumMoreThenOutputs | EofStackUnderflow | TypesStackUnderflow | JumpUnderflow | JumpOverflow
  | BackwardJumpBiggestNumMismatch | BackwardJumpSmallestNumMismatch | LastInstructionNotTerminating
  | CodeSectionNotAccessed | InvalidTypes | InvalidFirstTypesSection | MaxStackMismatch | NoCodeSections

datatype eof_error = DecodeError eof_decode_error | ValidationError eof_validation_error

record instruction_info =
  is_immediate :: bool
  forward_jumped :: bool
  smallest :: int
  biggest :: int

definition I32_MAX :: int where "I32_MAX = 2 ^ 31 - 1"
definition I32_MIN :: int where "I32_MIN = - (2 ^ 31)"

definition default_instruction_info :: instruction_info where
  "default_instruction_info = \<lparr>is_immediate = False, forward_jumped = False, smallest = I32_MAX, biggest = I32_MIN\<rparr>"

definition mark_as_immediate :: "instruction_info \<Rightarrow> eof_validation_error + instruction_info" where
  "mark_as_immediate this = (if forward_jumped this then Inl JumpToImmediateBytes else Inr (this\<lparr>is_immediate := True\<rparr>))"

text \<open>The loops that mark \<open>n\<close> bytes from a position on.\<close>

fun mark_immediates :: "nat \<Rightarrow> nat \<Rightarrow> instruction_info list \<Rightarrow> eof_validation_error + instruction_info list" where
  "mark_immediates k 0 jumps = Inr jumps"
| "mark_immediates k (Suc n) jumps =
     (case mark_as_immediate (jumps ! k) of
        Inl e \<Rightarrow> Inl e
      | Inr marked \<Rightarrow> mark_immediates (Suc k) n (jumps[k := marked]))"

text \<open>An \<^verbatim>\<open>i32\<close> result.\<close>

definition i32 :: "int \<Rightarrow> int eval" where
  "i32 x = (if I32_MIN \<le> x \<and> x \<le> I32_MAX then Val x else Panic)"

section \<open>One instruction\<close>

abbreviation "RJUMP \<equiv> (0xE0 :: u8)"
abbreviation "RJUMPI \<equiv> (0xE1 :: u8)"
abbreviation "RJUMPV \<equiv> (0xE2 :: u8)"
abbreviation "CALLF \<equiv> (0xE3 :: u8)"
abbreviation "RETF \<equiv> (0xE4 :: u8)"
abbreviation "JUMPF \<equiv> (0xE5 :: u8)"
abbreviation "DUPN \<equiv> (0xE6 :: u8)"
abbreviation "SWAPN \<equiv> (0xE7 :: u8)"
abbreviation "EXCHANGE \<equiv> (0xE8 :: u8)"
abbreviation "EOFCREATE \<equiv> (0xEC :: u8)"
abbreviation "DATALOADN \<equiv> (0xD1 :: u8)"

definition EOF_NON_RETURNING_FUNCTION :: u8 where "EOF_NON_RETURNING_FUNCTION = 0x80"

definition u16_at :: "bytes \<Rightarrow> nat \<Rightarrow> u16" where
  "u16_at bs k = from_be_bytes [bs ! k, bs ! Suc k]"

definition i16_at :: "bytes \<Rightarrow> nat \<Rightarrow> int" where
  "i16_at bs k = sint (u16_at bs k)"

text \<open>What the \<^verbatim>\<open>match\<close> on the opcode decides, and the state of the pass.\<close>

record op_effect =
  stack_io_diff :: int
  stack_requirement :: int
  additional_immediates :: nat
  absolute_jumpdest :: "int list"

record code_pass =
  cp_jumps :: "instruction_info list"
  is_after_termination :: bool
  next_smallest :: int
  next_biggest :: int
  accessed_codes :: "nat list"

record eof_code =
  ec_code :: bytes
  ec_data_size :: nat
  ec_types_index :: nat
  ec_containers :: nat
  ec_types :: "types_section list"

definition rjumpv_targets :: "bytes \<Rightarrow> nat \<Rightarrow> int list" where
  "rjumpv_targets bs i =
     (let len = unat (bs ! (i + 1)) + 1
      in map (\<lambda>v. i16_at bs (i + 2 + 2 * v) + int i + 2 + int (len * 2)) [0..<len])"

definition match_callf :: "eof_code \<Rightarrow> nat \<Rightarrow> instruction_info \<Rightarrow> op_effect \<Rightarrow> code_pass \<Rightarrow> (eof_validation_error + op_effect \<times> code_pass) eval"
where
  "match_callf c i this e s =
     (let section_i = unat (u16_at (ec_code c) (i + 1))
      in if section_i < length (ec_types c) then
           let target_types = ec_types c ! section_i
           in if ts_outputs target_types = EOF_NON_RETURNING_FUNCTION then Val (Inl CALLFNonReturningFunction)
              else bindE (i32 (biggest this - uint (ts_inputs target_types))) (\<lambda>d.
                bindE (i32 (d + uint (max_stack_size target_types))) (\<lambda>d.
                if d > 1024 then Val (Inl EofStackOverflow)
                else Val (Inr (e\<lparr>stack_requirement := uint (ts_inputs target_types), stack_io_diff := io_diff target_types\<rparr>,
                       s\<lparr>accessed_codes := List.insert section_i (accessed_codes s)\<rparr>))))
         else Val (Inl CodeSectionOutOfBounds))"

definition match_jumpf :: "eof_code \<Rightarrow> nat \<Rightarrow> instruction_info \<Rightarrow> op_effect \<Rightarrow> code_pass \<Rightarrow> (eof_validation_error + op_effect \<times> code_pass) eval"
where
  "match_jumpf c i this e s =
     (let target_index = unat (u16_at (ec_code c) (i + 1)); this_types = ec_types c ! ec_types_index c
      in if target_index < length (ec_types c) then
           let target_types = ec_types c ! target_index
           in bindE (i32 (biggest this - uint (ts_inputs target_types))) (\<lambda>d.
              bindE (i32 (d + uint (max_stack_size target_types))) (\<lambda>d.
              if d > 1024 then Val (Inl EofStackOverflow)
              else
                let s = s\<lparr>accessed_codes := List.insert target_index (accessed_codes s)\<rparr>
                in if ts_outputs target_types = EOF_NON_RETURNING_FUNCTION then
                     Val (Inr (e\<lparr>stack_requirement := uint (ts_inputs target_types)\<rparr>, s))
                   else if ts_outputs this_types < ts_outputs target_types then Val (Inl JUMPFEnoughOutputs)
                   else
                     let requirement = uint (ts_outputs this_types) + uint (ts_inputs target_types) - uint (ts_outputs target_types)
                     in if biggest this > requirement then Val (Inl JUMPFStackHigherThanOutputs)
                        else bindE (i32 (biggest this + requirement)) (\<lambda>b.
                          if b > 1024 then Val (Inl EofStackOverflow)
                          else Val (Inr (e\<lparr>stack_requirement := requirement\<rparr>, s)))))
         else Val (Inl CodeSectionOutOfBounds))"

definition match_rjumpv :: "eof_code \<Rightarrow> nat \<Rightarrow> op_effect \<Rightarrow> code_pass \<Rightarrow> (eof_validation_error + op_effect \<times> code_pass) eval" where
  "match_rjumpv c i e s =
     (let additional = (unat (ec_code c ! (i + 1)) + 1) * 2
      in if i + 1 + additional \<ge> length (ec_code c) then Val (Inl MissingRJUMPVImmediateBytes)
         else case mark_immediates (i + 2) additional (cp_jumps s) of
             Inl err \<Rightarrow> Val (Inl err)
           | Inr jumps \<Rightarrow> Val (Inr (e\<lparr>additional_immediates := additional, absolute_jumpdest := rjumpv_targets (ec_code c) i\<rparr>,
                                   s\<lparr>cp_jumps := jumps\<rparr>)))"

definition match_opcode ::
  "eof_code \<Rightarrow> nat \<Rightarrow> u8 \<Rightarrow> instruction_info \<Rightarrow> op_effect \<Rightarrow> code_pass \<Rightarrow> (eof_validation_error + op_effect \<times> code_pass) eval"
where
  "match_opcode c i op this e s =
     (if op = RJUMP \<or> op = RJUMPI then
        Val (Inr (e\<lparr>absolute_jumpdest := [i16_at (ec_code c) (i + 1) + 3 + int i]\<rparr>, s))
      else if op = RJUMPV then match_rjumpv c i e s
      else if op = CALLF then match_callf c i this e s
      else if op = JUMPF then match_jumpf c i this e s
      else if op = EOFCREATE then
        if unat (ec_code c ! (i + 1)) \<ge> ec_containers c then Val (Inl EOFCREATEInvalidIndex) else Val (Inr (e, s))
      else if op = DATALOADN then
        if ec_data_size c < 32 \<or> int (unat (u16_at (ec_code c) (i + 1))) > int (ec_data_size c) - 32
        then Val (Inl DataLoadOutOfBounds) else Val (Inr (e, s))
      else if op = RETF then
        let requirement = uint (ts_outputs (ec_types c ! ec_types_index c))
        in if biggest this > requirement then Val (Inl RETFBiggestStackNumMoreThenOutputs)
           else Val (Inr (e\<lparr>stack_requirement := requirement\<rparr>, s))
      else if op = DUPN then Val (Inr (e\<lparr>stack_requirement := uint (ec_code c ! (i + 1)) + 1\<rparr>, s))
      else if op = SWAPN then Val (Inr (e\<lparr>stack_requirement := uint (ec_code c ! (i + 1)) + 2\<rparr>, s))
      else if op = EXCHANGE then
        let imm = ec_code c ! (i + 1); n = drop_bit 4 imm + 1; m = (imm AND 0x0F) + 1
        in Val (Inr (e\<lparr>stack_requirement := uint n + uint m + 1\<rparr>, s))
      else Val (Inr (e, s)))"

text \<open>The loop over the jump targets of an instruction.\<close>

definition check_jump :: "eof_code \<Rightarrow> nat \<Rightarrow> int \<Rightarrow> int \<Rightarrow> int \<Rightarrow> instruction_info list \<Rightarrow> eof_validation_error + instruction_info list" where
  "check_jump c i lo hi absolute_jump jumps =
     (if absolute_jump < 0 then Inl JumpUnderflow
      else if absolute_jump \<ge> int (length (ec_code c)) then Inl JumpOverflow
      else
        let k = nat absolute_jump; target = jumps ! k
        in if is_immediate target then Inl BackwardJumpToImmediateBytes
           else if k \<le> i then
             if biggest target \<noteq> hi then Inl BackwardJumpBiggestNumMismatch
             else if smallest target \<noteq> lo then Inl BackwardJumpSmallestNumMismatch
             else Inr (jumps[k := target\<lparr>forward_jumped := True\<rparr>])
           else Inr (jumps[k := target\<lparr>forward_jumped := True, smallest := min (smallest target) lo, biggest := max (biggest target) hi\<rparr>]))"

fun check_jumps :: "eof_code \<Rightarrow> nat \<Rightarrow> int \<Rightarrow> int \<Rightarrow> int list \<Rightarrow> instruction_info list \<Rightarrow> eof_validation_error + instruction_info list" where
  "check_jumps c i lo hi [] jumps = Inr jumps"
| "check_jumps c i lo hi (t # ts) jumps =
     (case check_jump c i lo hi t jumps of Inl e \<Rightarrow> Inl e | Inr jumps \<Rightarrow> check_jumps c i lo hi ts jumps)"

text \<open>The heights of an instruction: joined with those of its predecessor unless it follows a terminating instruction.\<close>

definition enter_instruction :: "nat \<Rightarrow> code_pass \<Rightarrow> code_pass" where
  "enter_instruction i s =
     (if is_after_termination s then s
      else s\<lparr>cp_jumps := (cp_jumps s)[i := (cp_jumps s ! i)
               \<lparr>smallest := min (smallest (cp_jumps s ! i)) (next_smallest s), biggest := max (biggest (cp_jumps s ! i)) (next_biggest s)\<rparr>]\<rparr>)"

definition finish_instruction ::
  "eof_code \<Rightarrow> nat \<Rightarrow> opcode_info \<Rightarrow> instruction_info \<Rightarrow> op_effect \<Rightarrow> code_pass \<Rightarrow> (eof_validation_error + nat \<times> code_pass) eval"
where
  "finish_instruction c i opcode this e s =
     (if stack_requirement e > smallest this then Val (Inl EofStackUnderflow)
      else
        bindE (i32 (smallest this + stack_io_diff e)) (\<lambda>lo.
        bindE (i32 (biggest this + stack_io_diff e)) (\<lambda>hi.
          case check_jumps c i lo hi (absolute_jumpdest e) (cp_jumps s) of
            Inl err \<Rightarrow> Val (Inl err)
          | Inr jumps \<Rightarrow> Val (Inr (i + 1 + unat (op_immediate_size opcode) + additional_immediates e,
              s\<lparr>cp_jumps := jumps, next_smallest := lo, next_biggest := hi\<rparr>)))))"

definition table_effect :: "opcode_info \<Rightarrow> op_effect" where
  "table_effect opcode = \<lparr>stack_io_diff = info_io_diff opcode, stack_requirement = uint (op_inputs opcode),
     additional_immediates = 0, absolute_jumpdest = []\<rparr>"

definition validate_instruction :: "eof_code \<Rightarrow> nat \<Rightarrow> code_pass \<Rightarrow> (eof_validation_error + nat \<times> code_pass) eval" where
  "validate_instruction c i s =
     (case OPCODE_INFO_JUMPTABLE (ec_code c ! i) of
        None \<Rightarrow> Val (Inl UnknownOpcode)
      | Some opcode \<Rightarrow>
          if op_not_eof opcode then Val (Inl OpcodeDisabled)
          else
            let after = is_after_termination s; s = enter_instruction i s; this = cp_jumps s ! i
            in if after \<and> \<not> forward_jumped this then Val (Inl InstructionNotForwardAccessed)
               else if op_immediate_size opcode \<noteq> 0 \<and> i + unat (op_immediate_size opcode) \<ge> length (ec_code c)
               then Val (Inl MissingImmediateBytes)
               else case mark_immediates (i + 1) (unat (op_immediate_size opcode)) (cp_jumps s) of
                   Inl err \<Rightarrow> Val (Inl err)
                 | Inr jumps \<Rightarrow>
                     tryR (match_opcode c i (ec_code c ! i) this (table_effect opcode)
                             (s\<lparr>cp_jumps := jumps, is_after_termination := op_terminating opcode\<rparr>))
                       (\<lambda>(e, s). finish_instruction c i opcode this e s))"

text \<open>An instruction that passes, taken apart.\<close>

lemma sum_case_ok:
  "(case r of Inl e \<Rightarrow> Val (Inl e) | Inr x \<Rightarrow> f x) = Val (Inr y) \<longleftrightarrow> (\<exists>x. r = Inr x \<and> f x = Val (Inr y))"
  by (cases r) auto

lemma i32_Val [simp]: "i32 x = Val y \<longleftrightarrow> y = x \<and> I32_MIN \<le> x \<and> x \<le> I32_MAX"
  by (auto simp: i32_def)

lemma finish_instruction_ok:
  "finish_instruction c i opcode this e s = Val (Inr (i', s')) \<longleftrightarrow>
     stack_requirement e \<le> smallest this \<and>
     I32_MIN \<le> smallest this + stack_io_diff e \<and> smallest this + stack_io_diff e \<le> I32_MAX \<and>
     I32_MIN \<le> biggest this + stack_io_diff e \<and> biggest this + stack_io_diff e \<le> I32_MAX \<and>
     i' = i + 1 + unat (op_immediate_size opcode) + additional_immediates e \<and>
     (\<exists>jumps. check_jumps c i (smallest this + stack_io_diff e) (biggest this + stack_io_diff e) (absolute_jumpdest e) (cp_jumps s) = Inr jumps \<and>
        s' = s\<lparr>cp_jumps := jumps, next_smallest := smallest this + stack_io_diff e, next_biggest := biggest this + stack_io_diff e\<rparr>)"
  by (auto simp: finish_instruction_def evals sum_case_ok)

lemma validate_instructionE:
  assumes "validate_instruction c i s = Val (Inr (i', s'))"
  obtains opcode jumps e s1 where
    "OPCODE_INFO_JUMPTABLE (ec_code c ! i) = Some opcode" "\<not> op_not_eof opcode"
    "is_after_termination s \<Longrightarrow> forward_jumped (cp_jumps (enter_instruction i s) ! i)"
    "op_immediate_size opcode = 0 \<or> i + unat (op_immediate_size opcode) < length (ec_code c)"
    "mark_immediates (i + 1) (unat (op_immediate_size opcode)) (cp_jumps (enter_instruction i s)) = Inr jumps"
    "match_opcode c i (ec_code c ! i) (cp_jumps (enter_instruction i s) ! i) (table_effect opcode)
       ((enter_instruction i s)\<lparr>cp_jumps := jumps, is_after_termination := op_terminating opcode\<rparr>) = Val (Inr (e, s1))"
    "finish_instruction c i opcode (cp_jumps (enter_instruction i s) ! i) e s1 = Val (Inr (i', s'))"
  using assms
  by (auto simp: validate_instruction_def Let_def evals sum_case_ok not_le
      split: option.splits if_splits)

lemma validate_instruction_advances: "validate_instruction c i s = Val (Inr (i', s')) \<Longrightarrow> i < i'"
  by (erule validate_instructionE) (simp add: finish_instruction_ok)

function validate_loop :: "eof_code \<Rightarrow> nat \<Rightarrow> code_pass \<Rightarrow> (eof_validation_error + code_pass) eval" where
  "validate_loop c i s =
     (if i < length (ec_code c) then
        case validate_instruction c i s of
          Panic \<Rightarrow> Panic
        | Val (Inl e) \<Rightarrow> Val (Inl e)
        | Val (Inr (i', s')) \<Rightarrow> validate_loop c i' s'
      else Val (Inr s))"
  by pat_completeness auto
termination
  by (relation "measure (\<lambda>(c, i, s). length (ec_code c) - i)") (auto dest: validate_instruction_advances)

declare validate_loop.simps [simp del]

definition start_pass :: "eof_code \<Rightarrow> code_pass" where
  "start_pass c =
     (let inputs = uint (ts_inputs (ec_types c ! ec_types_index c))
      in \<lparr>cp_jumps = replicate (length (ec_code c)) default_instruction_info, is_after_termination = False,
          next_smallest = inputs, next_biggest = inputs, accessed_codes = []\<rparr>)"

definition validate_eof_code :: "eof_code \<Rightarrow> (eof_validation_error + nat list) eval" where
  "validate_eof_code c =
     (if ec_types_index c < length (ec_types c) then
        tryR (validate_loop c 0 (start_pass c)) (\<lambda>s.
          if \<not> is_after_termination s then Val (Inl LastInstructionNotTerminating)
          else if fold (\<lambda>x m. max (biggest x) m) (cp_jumps s) 0 \<noteq> uint (max_stack_size (ec_types c ! ec_types_index c))
          then Val (Inl MaxStackMismatch)
          else Val (Inr (accessed_codes s)))
      else Panic)"

section \<open>The sections of a container\<close>

definition eof_code_of :: "eof \<Rightarrow> nat \<Rightarrow> eof_code" where
  "eof_code_of eof index =
     \<lparr>ec_code = code_section (eof_body eof) ! index, ec_data_size = unat (data_size (eof_header eof)), ec_types_index = index,
      ec_containers = length (container_section (eof_body eof)), ec_types = types_sections (eof_body eof)\<rparr>"

text \<open>Accessed sections are queued once; the queue is a vector with its last element first.\<close>

fun queue_codes :: "nat list \<Rightarrow> bool list \<Rightarrow> nat list \<Rightarrow> (bool list \<times> nat list) eval" where
  "queue_codes [] queued queue = Val (queued, queue)"
| "queue_codes (i # accessed) queued queue =
     (if i < length queued then
        if queued ! i then queue_codes accessed queued queue else queue_codes accessed (queued[i := True]) (i # queue)
      else Panic)"

lemma count_list_update:
  "i < length xs \<Longrightarrow> xs ! i = x \<Longrightarrow> x \<noteq> y \<Longrightarrow> Suc (count_list (xs[i := y]) x) = count_list xs x"
proof (induction xs arbitrary: i)
  case (Cons a xs)
  then show ?case by (cases i) auto
qed simp

lemma queue_codes_measure:
  "queue_codes accessed queued queue = Val (queued', queue') \<Longrightarrow>
     2 * count_list queued' False + length queue' \<le> 2 * count_list queued False + length queue"
proof (induction accessed queued queue rule: queue_codes.induct)
  case (2 i accessed queued queue)
  then show ?case using count_list_update [of i queued False True] by (fastforce split: if_splits)
qed simp

function validate_codes_loop :: "eof \<Rightarrow> bool list \<Rightarrow> nat list \<Rightarrow> (eof_validation_error + bool list) eval" where
  "validate_codes_loop eof queued [] = Val (Inr queued)"
| "validate_codes_loop eof queued (index # queue) =
     (if index < length (code_section (eof_body eof)) then
        case validate_eof_code (eof_code_of eof index) of
          Panic \<Rightarrow> Panic
        | Val (Inl e) \<Rightarrow> Val (Inl e)
        | Val (Inr accessed) \<Rightarrow>
            (case queue_codes accessed queued queue of
               Panic \<Rightarrow> Panic
             | Val (queued', queue') \<Rightarrow> validate_codes_loop eof queued' queue')
      else Panic)"
  by pat_completeness auto
termination
  by (relation "measure (\<lambda>(eof, queued, queue). 2 * count_list queued False + length queue)")
    (auto dest: queue_codes_measure)

definition validate_eof_codes :: "eof \<Rightarrow> (eof_validation_error + unit) eval" where
  "validate_eof_codes eof =
     (let codes = code_section (eof_body eof); types = types_sections (eof_body eof)
      in if length codes \<noteq> length types then Val (Inl InvalidTypes)
         else if codes = [] then Val (Inl NoCodeSections)
         else
           let first_types = types ! 0
           in if ts_inputs first_types \<noteq> 0 \<or> ts_outputs first_types \<noteq> EOF_NON_RETURNING_FUNCTION then Val (Inl InvalidTypes)
              else tryR (validate_codes_loop eof ((replicate (length codes) False)[0 := True]) [0]) (\<lambda>queued.
                if False \<in> set queued then Val (Inl CodeSectionNotAccessed) else Val (Inr ())))"

section \<open>Nested containers\<close>

text \<open>A decoded container holds fewer bytes of containers than it has itself.\<close>

definition eof_weight :: "eof \<Rightarrow> nat" where
  "eof_weight e = Suc (sum_list (map length (container_section (eof_body e))))"

lemma cut_sections_total:
  "cut_sections input start sizes = Val (sections, stop) \<Longrightarrow>
     start + sum_list (map length sections) = stop \<and> (sizes \<noteq> [] \<longrightarrow> stop \<le> length input)"
proof (induction sizes arbitrary: start sections)
  case (Cons sz sizes)
  then show ?case by (fastforce simp: evals slice_bytes_def split: if_splits)
qed simp

lemma eof_decode_weight:
  assumes "eof_decode raw = Val (Inr e)"
  shows "eof_weight e \<le> length raw"
proof -
  obtain h b where b: "body_decode raw h = Val (Inr b)" and e: "eof_body e = b"
    using assms by (auto simp: eof_decode_def evals)
  have "13 \<le> header_size h" by (simp add: header_size_def)
  obtain codes start stop where
    c: "cut_sections raw (header_size h + unat (types_size h)) (map unat (code_sizes h)) = Val (codes, start)"
       "cut_sections raw start (map unat (container_sizes h)) = Val (container_section b, stop)"
    and d: "slice_bytes raw stop (length raw) \<noteq> Panic"
    using b by (fastforce simp: body_decode_def Let_def evals split: if_splits)
  have "stop \<le> length raw" using d by (auto simp: slice_bytes_def split: if_splits)
  then show ?thesis
    using \<open>13 \<le> header_size h\<close> cut_sections_total [OF c(1)] cut_sections_total [OF c(2)] by (simp add: eof_weight_def e)
qed

fun push_containers :: "bytes list \<Rightarrow> eof list \<Rightarrow> (eof_decode_error + eof list) eval" where
  "push_containers [] queue = Val (Inr queue)"
| "push_containers (container # rest) queue = tryR (eof_decode container) (\<lambda>eof. push_containers rest (eof # queue))"

lemma push_containers_weight:
  "push_containers cs queue = Val (Inr queue') \<Longrightarrow>
     sum_list (map eof_weight queue') \<le> sum_list (map length cs) + sum_list (map eof_weight queue)"
proof (induction cs arbitrary: queue)
  case (Cons c cs)
  then show ?case by (fastforce simp: evals dest: eof_decode_weight)
qed simp

function validate_eof_loop :: "eof list \<Rightarrow> (eof_error + unit) eval" where
  "validate_eof_loop [] = Val (Inr ())"
| "validate_eof_loop (eof # queue) =
     (case validate_eof_codes eof of
        Panic \<Rightarrow> Panic
      | Val (Inl e) \<Rightarrow> Val (Inl (ValidationError e))
      | Val (Inr _) \<Rightarrow>
          (case push_containers (container_section (eof_body eof)) queue of
             Panic \<Rightarrow> Panic
           | Val (Inl e) \<Rightarrow> Val (Inl (DecodeError e))
           | Val (Inr queue') \<Rightarrow> validate_eof_loop queue'))"
  by pat_completeness auto
termination
  by (relation "measure (\<lambda>queue. sum_list (map eof_weight queue))")
    (auto simp: eof_weight_def [of eof for eof] dest!: push_containers_weight)

definition validate_eof :: "eof \<Rightarrow> (eof_error + unit) eval" where
  "validate_eof eof = validate_eof_loop [eof]"

definition validate_raw_eof :: "bytes \<Rightarrow> (eof_error + eof) eval" where
  "validate_raw_eof raw =
     bindE (eof_decode raw) (\<lambda>r. case r of
       Inl e \<Rightarrow> Val (Inl (DecodeError e))
     | Inr eof \<Rightarrow> tryR (validate_eof eof) (\<lambda>_. Val (Inr eof)))"

end
