(* ===== verification/Eof_Safety.thy ===== *)
theory Eof_Safety
  imports Eof_Validation
begin

text \<open>
  What validation guarantees of EOF code. The instructions of a section and their stack effect are described
  on their own, an abstract machine runs the sections of a container with a return stack, and every state it
  reaches from a validated container is safe: execution stays on instruction boundaries inside the code, finds
  enough operands, calls only sections that exist and names only containers (\<^verbatim>\<open>EOFCREATE\<close>) and data that the header declares.
\<close>

section \<open>Instructions of a section\<close>

definition op_row :: "eof_code \<Rightarrow> nat \<Rightarrow> opcode_info" where
  "op_row c i = the (OPCODE_INFO_JUMPTABLE (ec_code c ! i))"

definition section_at :: "eof_code \<Rightarrow> nat \<Rightarrow> nat" where
  "section_at c i = unat (u16_at (ec_code c) (i + 1))"

abbreviation this_types :: "eof_code \<Rightarrow> types_section" where
  "this_types c \<equiv> ec_types c ! ec_types_index c"

abbreviation target_types :: "eof_code \<Rightarrow> nat \<Rightarrow> types_section" where
  "target_types c i \<equiv> ec_types c ! section_at c i"

definition eof_len :: "eof_code \<Rightarrow> nat \<Rightarrow> nat" where
  "eof_len c i = 1 + unat (op_immediate_size (op_row c i)) +
     (if ec_code c ! i = RJUMPV then (unat (ec_code c ! (i + 1)) + 1) * 2 else 0)"

definition jump_targets :: "eof_code \<Rightarrow> nat \<Rightarrow> int list" where
  "jump_targets c i =
     (if ec_code c ! i = RJUMP \<or> ec_code c ! i = RJUMPI then [i16_at (ec_code c) (i + 1) + 3 + int i]
      else if ec_code c ! i = RJUMPV then rjumpv_targets (ec_code c) i
      else [])"

definition falls_through :: "eof_code \<Rightarrow> nat \<Rightarrow> bool" where
  "falls_through c i \<longleftrightarrow> \<not> op_terminating (op_row c i)"

text \<open>The operands an instruction needs in its frame, and by how much it changes their number.\<close>

definition needs :: "eof_code \<Rightarrow> nat \<Rightarrow> int" where
  "needs c i =
     (let op = ec_code c ! i; imm = ec_code c ! (i + 1)
      in if op = CALLF then uint (ts_inputs (target_types c i))
         else if op = JUMPF then
           if ts_outputs (target_types c i) = EOF_NON_RETURNING_FUNCTION then uint (ts_inputs (target_types c i))
           else uint (ts_outputs (this_types c)) + uint (ts_inputs (target_types c i)) - uint (ts_outputs (target_types c i))
         else if op = RETF then uint (ts_outputs (this_types c))
         else if op = DUPN then uint imm + 1
         else if op = SWAPN then uint imm + 2
         else if op = EXCHANGE then uint (drop_bit 4 imm + 1) + uint ((imm AND 0x0F) + 1) + 1
         else uint (op_inputs (op_row c i)))"

definition height_diff :: "eof_code \<Rightarrow> nat \<Rightarrow> int" where
  "height_diff c i = (if ec_code c ! i = CALLF then io_diff (target_types c i) else info_io_diff (op_row c i))"

inductive eof_start :: "eof_code \<Rightarrow> nat \<Rightarrow> bool" for c where
  first: "eof_start c 0"
| next_one: "eof_start c i \<Longrightarrow> i < length (ec_code c) \<Longrightarrow> eof_start c (i + eof_len c i)"

text \<open>An instruction whose immediates, indices and targets exist.\<close>

definition well_formed_at :: "eof_code \<Rightarrow> nat \<Rightarrow> bool" where
  "well_formed_at c i \<longleftrightarrow>
     (\<exists>row. OPCODE_INFO_JUMPTABLE (ec_code c ! i) = Some row \<and> \<not> op_not_eof row) \<and>
     i + eof_len c i \<le> length (ec_code c) \<and>
     (ec_code c ! i = CALLF \<longrightarrow> section_at c i < length (ec_types c) \<and> ts_outputs (target_types c i) \<noteq> EOF_NON_RETURNING_FUNCTION) \<and>
     (ec_code c ! i = JUMPF \<longrightarrow> section_at c i < length (ec_types c) \<and>
        (ts_outputs (target_types c i) = EOF_NON_RETURNING_FUNCTION \<or> ts_outputs (target_types c i) \<le> ts_outputs (this_types c))) \<and>
     (ec_code c ! i = EOFCREATE \<longrightarrow> unat (ec_code c ! (i + 1)) < ec_containers c) \<and>
     (ec_code c ! i = DATALOADN \<longrightarrow> unat (u16_at (ec_code c) (i + 1)) + 32 \<le> ec_data_size c)"

section \<open>One pass over the code\<close>

lemma mark_immediates_ok:
  "mark_immediates k n J = Inr J' \<Longrightarrow> k + n \<le> length J \<Longrightarrow>
     length J' = length J \<and>
     (\<forall>m < length J. J' ! m = (if k \<le> m \<and> m < k + n then (J ! m)\<lparr>is_immediate := True\<rparr> else J ! m)) \<and>
     (\<forall>m. k \<le> m \<longrightarrow> m < k + n \<longrightarrow> \<not> forward_jumped (J ! m))"
proof (induction n arbitrary: k J)
  case (Suc n)
  then have j: "\<not> forward_jumped (J ! k)" "mark_immediates (Suc k) n (J[k := (J ! k)\<lparr>is_immediate := True\<rparr>]) = Inr J'"
    by (auto simp: mark_as_immediate_def split: if_splits)
  note ih = Suc.IH [OF j(2)]
  show ?case
  proof (intro conjI allI impI)
    show "length J' = length J" using ih Suc.prems(2) by simp
    fix m
    show "J' ! m = (if k \<le> m \<and> m < k + Suc n then (J ! m)\<lparr>is_immediate := True\<rparr> else J ! m)" if "m < length J"
      using ih that Suc.prems(2) by (auto simp: nth_list_update)
    show "\<not> forward_jumped (J ! m)" if "k \<le> m" "m < k + Suc n"
    proof (cases "m = k")
      case False
      then have "\<not> forward_jumped (J[k := (J ! k)\<lparr>is_immediate := True\<rparr>] ! m)" using ih that Suc.prems(2) by simp
      with False show ?thesis by simp
    qed (simp add: j(1))
  qed
qed auto

text \<open>How the table may change while an instruction is passed: heights of the past stay, those of the future widen.\<close>

definition widens :: "nat \<Rightarrow> instruction_info list \<Rightarrow> instruction_info list \<Rightarrow> bool" where
  "widens i J J' \<longleftrightarrow> length J' = length J \<and>
     (\<forall>m < length J. (m < i \<longrightarrow> smallest (J' ! m) = smallest (J ! m) \<and> biggest (J' ! m) = biggest (J ! m)) \<and>
        smallest (J' ! m) \<le> smallest (J ! m) \<and> biggest (J ! m) \<le> biggest (J' ! m) \<and>
        (forward_jumped (J ! m) \<longrightarrow> forward_jumped (J' ! m)))"

lemma widens_refl: "widens i J J"
  by (simp add: widens_def)

lemma widens_trans: "widens i J J' \<Longrightarrow> widens k J' J'' \<Longrightarrow> i \<le> k \<Longrightarrow> widens i J J''"
  unfolding widens_def by (metis (no_types, lifting) dual_order.trans less_le_trans)

definition lands :: "eof_code \<Rightarrow> int \<Rightarrow> int \<Rightarrow> instruction_info list \<Rightarrow> int \<Rightarrow> bool" where
  "lands c lo hi J t \<longleftrightarrow> 0 \<le> t \<and> t < int (length (ec_code c)) \<and> \<not> is_immediate (J ! nat t) \<and> forward_jumped (J ! nat t) \<and>
     smallest (J ! nat t) \<le> lo \<and> hi \<le> biggest (J ! nat t)"

lemma check_jump_ok:
  assumes "check_jump c i lo hi t J = Inr J'" and "length J = length (ec_code c)"
  shows "widens (Suc i) J J' \<and> (\<forall>m < length J. is_immediate (J' ! m) = is_immediate (J ! m)) \<and> lands c lo hi J' t"
  using assms by (auto simp: check_jump_def widens_def lands_def Let_def nth_list_update nat_less_iff split: if_splits)

lemma lands_widens:
  assumes "lands c lo hi J t" and "widens i J J'" and "length J = length (ec_code c)" and "is_immediate (J' ! nat t) = is_immediate (J ! nat t)"
  shows "lands c lo hi J' t"
proof -
  have "nat t < length J" using assms(1,3) by (simp add: lands_def nat_less_iff)
  then show ?thesis using assms by (fastforce simp: lands_def widens_def)
qed

lemma check_jumps_ok:
  "check_jumps c i lo hi ts J = Inr J' \<Longrightarrow> length J = length (ec_code c) \<Longrightarrow>
     widens (Suc i) J J' \<and> (\<forall>m < length J. is_immediate (J' ! m) = is_immediate (J ! m)) \<and> (\<forall>t \<in> set ts. lands c lo hi J' t)"
proof (induction ts arbitrary: J)
  case (Cons t ts)
  then obtain J1 where j: "check_jump c i lo hi t J = Inr J1" "check_jumps c i lo hi ts J1 = Inr J'"
    by (auto split: sum.splits)
  note one = check_jump_ok [OF j(1) Cons.prems(2)]
  then have len: "length J1 = length (ec_code c)" using Cons.prems(2) by (simp add: widens_def)
  note rest = Cons.IH [OF j(2) len]
  have "nat t < length J1" using one len by (simp add: lands_def nat_less_iff)
  then have "lands c lo hi J' t" using one rest lands_widens [OF _ _ len] by metis
  moreover have "widens (Suc i) J J'" using one rest widens_trans by blast
  ultimately show ?case using one rest Cons.prems(2) len by auto
qed (simp add: widens_refl)

text \<open>What an instruction that passes had to satisfy.\<close>

definition extra :: "eof_code \<Rightarrow> nat \<Rightarrow> nat" where
  "extra c i = (if ec_code c ! i = RJUMPV then (unat (ec_code c ! (i + 1)) + 1) * 2 else 0)"

definition named_section :: "eof_code \<Rightarrow> nat \<Rightarrow> nat list" where
  "named_section c i = (if ec_code c ! i = CALLF \<or> ec_code c ! i = JUMPF then [section_at c i] else [])"

lemma match_opcode_ok:
  assumes "match_opcode c i (ec_code c ! i) this (table_effect (op_row c i)) s = Val (Inr (e, s'))"
  shows "stack_requirement e = needs c i" "stack_io_diff e = height_diff c i" "additional_immediates e = extra c i"
    "absolute_jumpdest e = jump_targets c i"
    "mark_immediates (i + 2) (extra c i) (cp_jumps s) = Inr (cp_jumps s')"
    "is_after_termination s' = is_after_termination s" "set (accessed_codes s') = set (named_section c i) \<union> set (accessed_codes s)"
    "i + 1 + extra c i < length (ec_code c) \<or> extra c i = 0"
  using assms
  by (auto simp: match_opcode_def match_callf_def match_jumpf_def match_rjumpv_def section_at_def needs_def height_diff_def extra_def
      jump_targets_def named_section_def table_effect_def evals Let_def split: if_splits sum.splits)

lemma data_in_range: "uint (w :: u16) \<le> int n - 32 \<Longrightarrow> unat w + 32 \<le> n"
  by (simp add: nat_int_comparison)

lemma match_opcode_indices:
  assumes "match_opcode c i (ec_code c ! i) this (table_effect (op_row c i)) s = Val (Inr (e, s'))"
  shows "ec_code c ! i = CALLF \<Longrightarrow> section_at c i < length (ec_types c) \<and> ts_outputs (target_types c i) \<noteq> EOF_NON_RETURNING_FUNCTION"
    "ec_code c ! i = JUMPF \<Longrightarrow> section_at c i < length (ec_types c) \<and>
        (ts_outputs (target_types c i) = EOF_NON_RETURNING_FUNCTION \<or> ts_outputs (target_types c i) \<le> ts_outputs (this_types c))"
    "ec_code c ! i = EOFCREATE \<Longrightarrow> unat (ec_code c ! (i + 1)) < ec_containers c"
    "ec_code c ! i = DATALOADN \<Longrightarrow> unat (u16_at (ec_code c) (i + 1)) + 32 \<le> ec_data_size c"
  using assms
  by (auto simp: match_opcode_def match_callf_def match_jumpf_def section_at_def table_effect_def evals Let_def not_less
      split: if_splits dest: data_in_range)

lemma eof_len_extra: "eof_len c i = 1 + unat (op_immediate_size (op_row c i)) + extra c i"
  by (simp add: eof_len_def extra_def)

lemma rjumpv_row: "ec_code c ! i = RJUMPV \<Longrightarrow> op_immediate_size (op_row c i) = 1"
  by (simp add: op_row_def OPCODE_INFO_JUMPTABLE_def opcode_rows_def info_defs)

lemma enter_instruction_ok:
  assumes "i < length (cp_jumps s)"
  shows "widens i (cp_jumps s) (cp_jumps (enter_instruction i s))"
    "m < length (cp_jumps s) \<Longrightarrow> is_immediate (cp_jumps (enter_instruction i s) ! m) = is_immediate (cp_jumps s ! m)"
    "m < length (cp_jumps s) \<Longrightarrow> forward_jumped (cp_jumps (enter_instruction i s) ! m) = forward_jumped (cp_jumps s ! m)"
    "\<not> is_after_termination s \<Longrightarrow> smallest (cp_jumps (enter_instruction i s) ! i) \<le> next_smallest s \<and>
       next_biggest s \<le> biggest (cp_jumps (enter_instruction i s) ! i)"
    "accessed_codes (enter_instruction i s) = accessed_codes s"
  using assms by (auto simp: enter_instruction_def widens_def nth_list_update)

text \<open>The two loops that mark immediates cover the bytes after the opcode.\<close>

lemma immediates_marked:
  assumes m1: "mark_immediates (i + 1) n J = Inr J1" and m2: "mark_immediates (i + 2) x J1 = Inr J2"
    and b1: "i + 1 + n \<le> length J" and b2: "x \<noteq> 0 \<Longrightarrow> n = 1 \<and> i + 2 + x \<le> length J"
  shows "length J2 = length J" "i + 1 + n + x \<le> length J"
    "m < length J \<Longrightarrow> J2 ! m = (if i < m \<and> m < i + 1 + n + x then (J ! m)\<lparr>is_immediate := True\<rparr> else J ! m)"
    "i < m \<Longrightarrow> m < i + 1 + n + x \<Longrightarrow> \<not> forward_jumped (J ! m)"
proof -
  note k1 = mark_immediates_ok [OF m1 b1]
  consider "x = 0" "J2 = J1" | "x \<noteq> 0" "n = 1" "i + 2 + x \<le> length J" using m2 b2 by (cases "x = 0") auto
  then have "length J2 = length J \<and> i + 1 + n + x \<le> length J \<and>
    (m < length J \<longrightarrow> J2 ! m = (if i < m \<and> m < i + 1 + n + x then (J ! m)\<lparr>is_immediate := True\<rparr> else J ! m)) \<and>
    (i < m \<longrightarrow> m < i + 1 + n + x \<longrightarrow> \<not> forward_jumped (J ! m))"
  proof cases
    case 1
    then show ?thesis using k1 b1 by auto
  next
    case 2
    have k2: "length J2 = length J" "m < length J \<Longrightarrow> J2 ! m = (if i + 2 \<le> m \<and> m < i + 2 + x then (J1 ! m)\<lparr>is_immediate := True\<rparr> else J1 ! m)"
      "i + 2 \<le> m \<Longrightarrow> m < i + 2 + x \<Longrightarrow> \<not> forward_jumped (J1 ! m)"
      using mark_immediates_ok [OF m2] k1 2(3) by simp_all
    have "J1 ! m = (if m = i + 1 then (J ! m)\<lparr>is_immediate := True\<rparr> else J ! m)" if "m < length J" using k1 2(2) that by auto
    then show ?thesis using k1 k2 2 by (cases "m = i + 1") auto
  qed
  then show "length J2 = length J" "i + 1 + n + x \<le> length J"
    "m < length J \<Longrightarrow> J2 ! m = (if i < m \<and> m < i + 1 + n + x then (J ! m)\<lparr>is_immediate := True\<rparr> else J ! m)"
    "i < m \<Longrightarrow> m < i + 1 + n + x \<Longrightarrow> \<not> forward_jumped (J ! m)" by simp_all
qed

text \<open>The table between the entry of an instruction and its jumps.\<close>

lemma validate_instruction_marks:
  assumes "validate_instruction c i s = Val (Inr (i', s'))" and i: "i < length (ec_code c)"
    and len: "length (cp_jumps s) = length (ec_code c)"
  obtains J0 J2 where "J0 = cp_jumps (enter_instruction i s)"
    "i' = i + eof_len c i" "well_formed_at c i" "length J2 = length (ec_code c)"
    "\<And>m. m < length (ec_code c) \<Longrightarrow> J2 ! m = (if i < m \<and> m < i' then (J0 ! m)\<lparr>is_immediate := True\<rparr> else J0 ! m)"
    "\<And>m. i < m \<Longrightarrow> m < i' \<Longrightarrow> \<not> forward_jumped (J0 ! m)"
    "check_jumps c i (smallest (J0 ! i) + height_diff c i) (biggest (J0 ! i) + height_diff c i) (jump_targets c i) J2 = Inr (cp_jumps s')"
    "next_smallest s' = smallest (J0 ! i) + height_diff c i" "next_biggest s' = biggest (J0 ! i) + height_diff c i"
    "needs c i \<le> smallest (J0 ! i)" "is_after_termination s' \<longleftrightarrow> \<not> falls_through c i"
    "set (accessed_codes s') = set (named_section c i) \<union> set (accessed_codes s)"
proof -
  let ?J0 = "cp_jumps (enter_instruction i s)"
  from assms(1) obtain row jumps e s1 where r:
    "OPCODE_INFO_JUMPTABLE (ec_code c ! i) = Some row" "\<not> op_not_eof row"
    and imm: "op_immediate_size row = 0 \<or> i + unat (op_immediate_size row) < length (ec_code c)"
    and m1: "mark_immediates (i + 1) (unat (op_immediate_size row)) ?J0 = Inr jumps"
    and mo: "match_opcode c i (ec_code c ! i) (?J0 ! i) (table_effect row)
       ((enter_instruction i s)\<lparr>cp_jumps := jumps, is_after_termination := op_terminating row\<rparr>) = Val (Inr (e, s1))"
    and f: "finish_instruction c i row (?J0 ! i) e s1 = Val (Inr (i', s'))"
    by (rule validate_instructionE) blast
  have row: "row = op_row c i" using r by (simp add: op_row_def)
  note mo = mo [unfolded row]
  note e = match_opcode_ok [OF mo]
  have l0: "length ?J0 = length (ec_code c)" using enter_instruction_ok(1) [of i s] len i by (simp add: widens_def)
  have one: "unat (op_immediate_size (op_row c i)) = 1 \<and> i + 2 + extra c i \<le> length (ec_code c)" if "extra c i \<noteq> 0"
    using that rjumpv_row e(8) by (auto simp: extra_def split: if_splits)
  have b1: "i + 1 + unat (op_immediate_size row) \<le> length ?J0" using imm i l0 by auto
  have m2: "mark_immediates (i + 2) (extra c i) jumps = Inr (cp_jumps s1)" using e(5) by simp
  note k = immediates_marked [OF m1 m2 b1, unfolded row l0, OF one]
  have i': "i' = i + eof_len c i" using f by (simp add: finish_instruction_ok eof_len_extra e(3) row)
  then have w: "i' = i + 1 + unat (op_immediate_size (op_row c i)) + extra c i" by (simp add: eof_len_extra)
  show ?thesis
  proof (rule that [OF refl i' _ k(1), unfolded w])
    show "well_formed_at c i" using r k(2) match_opcode_indices [OF mo] by (simp add: well_formed_at_def eof_len_extra)
  qed (use f e k(3,4) enter_instruction_ok(5) [of i s] len i row in \<open>auto simp: finish_instruction_ok falls_through_def\<close>)
qed

lemma validate_instruction_ok:
  assumes v: "validate_instruction c i s = Val (Inr (i', s'))" and i: "i < length (ec_code c)"
    and len: "length (cp_jumps s) = length (ec_code c)"
  shows "i' = i + eof_len c i" "well_formed_at c i"
    "widens i (cp_jumps s) (cp_jumps s')"
    "\<forall>m < length (ec_code c). is_immediate (cp_jumps s' ! m) \<longleftrightarrow> is_immediate (cp_jumps s ! m) \<or> i < m \<and> m < i'"
    "\<forall>m. i < m \<longrightarrow> m < i' \<longrightarrow> \<not> forward_jumped (cp_jumps s ! m)"
    "\<not> is_after_termination s \<Longrightarrow> smallest (cp_jumps s' ! i) \<le> next_smallest s \<and> next_biggest s \<le> biggest (cp_jumps s' ! i)"
    "needs c i \<le> smallest (cp_jumps s' ! i)"
    "next_smallest s' = smallest (cp_jumps s' ! i) + height_diff c i" "next_biggest s' = biggest (cp_jumps s' ! i) + height_diff c i"
    "is_after_termination s' \<longleftrightarrow> \<not> falls_through c i"
    "\<forall>t \<in> set (jump_targets c i). lands c (next_smallest s') (next_biggest s') (cp_jumps s') t"
    "set (accessed_codes s') = set (named_section c i) \<union> set (accessed_codes s)"
proof -
  from validate_instruction_marks [OF assms] obtain J0 J2 where J0: "J0 = cp_jumps (enter_instruction i s)"
    and i': "i' = i + eof_len c i" "well_formed_at c i" and l2: "length J2 = length (ec_code c)"
    and marked: "\<And>m. m < length (ec_code c) \<Longrightarrow> J2 ! m = (if i < m \<and> m < i' then (J0 ! m)\<lparr>is_immediate := True\<rparr> else J0 ! m)"
      "\<And>m. i < m \<Longrightarrow> m < i' \<Longrightarrow> \<not> forward_jumped (J0 ! m)"
    and cj: "check_jumps c i (smallest (J0 ! i) + height_diff c i) (biggest (J0 ! i) + height_diff c i) (jump_targets c i) J2 = Inr (cp_jumps s')"
    and s': "next_smallest s' = smallest (J0 ! i) + height_diff c i" "next_biggest s' = biggest (J0 ! i) + height_diff c i"
      "needs c i \<le> smallest (J0 ! i)" "is_after_termination s' \<longleftrightarrow> \<not> falls_through c i"
      "set (accessed_codes s') = set (named_section c i) \<union> set (accessed_codes s)"
    by blast
  note en = enter_instruction_ok [of i s, folded J0, unfolded len, OF i]
  note cks = check_jumps_ok [OF cj l2, unfolded l2]
  have l0: "length J0 = length (ec_code c)" using en(1) len by (simp add: widens_def)
  have le: "i' \<le> length (ec_code c)" using i' by (simp add: well_formed_at_def)
  have w1: "widens (Suc i) J0 J2" using marked l0 l2 by (auto simp: widens_def)
  have w: "widens (Suc i) J0 (cp_jumps s')" using widens_trans [OF w1] cks by blast
  then have hi: "smallest (cp_jumps s' ! i) = smallest (J0 ! i)" "biggest (cp_jumps s' ! i) = biggest (J0 ! i)"
    using i l0 by (auto simp: widens_def)
  show "i' = i + eof_len c i" "well_formed_at c i" by (fact i')+
  show "widens i (cp_jumps s) (cp_jumps s')" using widens_trans [OF en(1) w] by simp
  show "\<forall>m < length (ec_code c). is_immediate (cp_jumps s' ! m) \<longleftrightarrow> is_immediate (cp_jumps s ! m) \<or> i < m \<and> m < i'"
    using cks marked en(2) by auto
  show "\<forall>m. i < m \<longrightarrow> m < i' \<longrightarrow> \<not> forward_jumped (cp_jumps s ! m)" using marked(2) en(3) le by auto
  show "\<not> is_after_termination s \<Longrightarrow> smallest (cp_jumps s' ! i) \<le> next_smallest s \<and> next_biggest s \<le> biggest (cp_jumps s' ! i)"
    using en(4) hi by simp
  show "\<forall>t \<in> set (jump_targets c i). lands c (next_smallest s') (next_biggest s') (cp_jumps s') t" using cks s' by simp
  show "needs c i \<le> smallest (cp_jumps s' ! i)"
    "next_smallest s' = smallest (cp_jumps s' ! i) + height_diff c i" "next_biggest s' = biggest (cp_jumps s' ! i) + height_diff c i"
    using s' hi by simp_all
  show "is_after_termination s' \<longleftrightarrow> \<not> falls_through c i" "set (accessed_codes s') = set (named_section c i) \<union> set (accessed_codes s)"
    by (fact s')+
qed

section \<open>The whole pass\<close>

inductive_cases eof_startE: "eof_start c i"

lemma eof_len_pos: "0 < eof_len c i"
  by (simp add: eof_len_def)

lemma eof_start_gap: "eof_start c b \<Longrightarrow> eof_start c a \<Longrightarrow> a < b \<Longrightarrow> a + eof_len c a \<le> b"
proof (induction b arbitrary: a rule: less_induct)
  case (less b)
  from less.prems(1,3) obtain k where k: "b = k + eof_len c k" "eof_start c k" by (auto elim: eof_startE)
  consider "a < k" | "a = k" | "k < a" by linarith
  then show ?case
  proof cases
    case 1
    then show ?thesis using less.IH [of k a] less.prems k eof_len_pos [of c k] by simp
  next
    case 3
    then show ?thesis using less.IH [of a k] less.prems k by simp
  qed (simp add: k)
qed

definition edge :: "eof_code \<Rightarrow> instruction_info list \<Rightarrow> nat \<Rightarrow> int \<Rightarrow> int \<Rightarrow> bool" where
  "edge c J k lo hi \<longleftrightarrow> lo \<le> smallest (J ! k) + height_diff c k \<and> biggest (J ! k) + height_diff c k \<le> hi"

definition typed_at :: "eof_code \<Rightarrow> instruction_info list \<Rightarrow> nat \<Rightarrow> bool" where
  "typed_at c J k \<longleftrightarrow> well_formed_at c k \<and> needs c k \<le> smallest (J ! k) \<and>
     (\<forall>t \<in> set (jump_targets c k). lands c (smallest (J ! k) + height_diff c k) (biggest (J ! k) + height_diff c k) J t)"

lemma typed_at_later:
  assumes t: "typed_at c J k" and w: "widens i J J'" and k: "k < i" "i \<le> length J" and len: "length J = length (ec_code c)"
    and im: "\<forall>m < length J. is_immediate (J' ! m) \<longrightarrow> is_immediate (J ! m) \<or> \<not> forward_jumped (J ! m)"
  shows "typed_at c J' k"
proof -
  have same: "smallest (J' ! k) = smallest (J ! k)" "biggest (J' ! k) = biggest (J ! k)" using w k by (simp_all add: widens_def)
  have "lands c lo hi J' x" if "lands c lo hi J x" for lo hi x
  proof -
    have "nat x < length J" using that len by (simp add: lands_def nat_less_iff)
    then show ?thesis using that w im by (fastforce simp: lands_def widens_def)
  qed
  then show ?thesis using t by (simp add: typed_at_def same)
qed

text \<open>The invariant of the loop at position \<open>i\<close>.\<close>

definition passed :: "eof_code \<Rightarrow> nat \<Rightarrow> code_pass \<Rightarrow> bool" where
  "passed c i s \<longleftrightarrow> length (cp_jumps s) = length (ec_code c) \<and> eof_start c i \<and> i \<le> length (ec_code c) \<and>
     (\<forall>m < length (ec_code c). is_immediate (cp_jumps s ! m) \<longleftrightarrow> m < i \<and> \<not> eof_start c m) \<and>
     (\<forall>k < i. eof_start c k \<longrightarrow> typed_at c (cp_jumps s) k \<and> set (named_section c k) \<subseteq> set (accessed_codes s)) \<and>
     (\<forall>k < i. eof_start c k \<longrightarrow> falls_through c k \<longrightarrow>
        (if k + eof_len c k < i then edge c (cp_jumps s) k (smallest (cp_jumps s ! (k + eof_len c k))) (biggest (cp_jumps s ! (k + eof_len c k)))
         else \<not> is_after_termination s \<and> edge c (cp_jumps s) k (next_smallest s) (next_biggest s))) \<and>
     (let n = uint (ts_inputs (this_types c))
      in if i = 0 then \<not> is_after_termination s \<and> next_smallest s = n \<and> next_biggest s = n
         else smallest (cp_jumps s ! 0) \<le> n \<and> n \<le> biggest (cp_jumps s ! 0))"

lemma passed_start: "passed c 0 (start_pass c)"
  by (auto simp: passed_def start_pass_def Let_def default_instruction_info_def eof_start.first)

lemma passed_next:
  assumes p: "passed c i s" and i: "i < length (ec_code c)" and v: "validate_instruction c i s = Val (Inr (i', s'))"
  shows "passed c i' s'"
proof -
  let ?J = "cp_jumps s" and ?J' = "cp_jumps s'"
  have len: "length ?J = length (ec_code c)" and st: "eof_start c i" using p by (simp_all add: passed_def)
  note ok = validate_instruction_ok [OF v i len]
  have i': "eof_start c i'" "i < i'" "i' \<le> length (ec_code c)"
    using st i ok(1,2) eof_len_pos [of c i] by (auto simp: well_formed_at_def intro: eof_start.next_one)
  have gap: "\<not> eof_start c m" if "i < m" "m < i'" for m using eof_start_gap [OF _ st that(1)] that(2) ok(1) by auto
  have old: "k < i" if "k < i'" "eof_start c k" "k \<noteq> i" for k using that gap [of k] by linarith
  have same: "smallest (?J' ! k) = smallest (?J ! k)" "biggest (?J' ! k) = biggest (?J ! k)" if "k < i" for k
    using ok(3) that i len by (simp_all add: widens_def)
  have here: "typed_at c ?J' i" using ok(2,7,8,9,11) by (simp add: typed_at_def)
  have "typed_at c ?J' k \<and> set (named_section c k) \<subseteq> set (accessed_codes s')" if k: "k < i'" "eof_start c k" for k
  proof (cases "k = i")
    case False
    from typed_at_later [OF _ ok(3) old [OF k False]] show ?thesis
      using p i ok(4,5,12) old [OF k False] k(2) unfolding passed_def by auto
  qed (simp add: here ok(12))
  moreover have "is_immediate (?J' ! m) \<longleftrightarrow> m < i' \<and> \<not> eof_start c m" if "m < length (ec_code c)" for m
    using p ok(4) that st i'(2) gap [of m] by (cases "m = i") (auto simp: passed_def)
  moreover have "if k + eof_len c k < i' then edge c ?J' k (smallest (?J' ! (k + eof_len c k))) (biggest (?J' ! (k + eof_len c k)))
      else \<not> is_after_termination s' \<and> edge c ?J' k (next_smallest s') (next_biggest s')" if k: "k < i'" "eof_start c k" "falls_through c k" for k
  proof (cases "k = i")
    case True
    then show ?thesis using k ok(1,8,9,10) by (simp add: edge_def)
  next
    case False
    note k' = old [OF k(1,2) False]
    have "k + eof_len c k \<le> i" by (rule eof_start_gap [OF st k(2) k'])
    have e: "if k + eof_len c k < i then edge c ?J k (smallest (?J ! (k + eof_len c k))) (biggest (?J ! (k + eof_len c k)))
      else \<not> is_after_termination s \<and> edge c ?J k (next_smallest s) (next_biggest s)"
      using p k' k(2,3) unfolding passed_def by blast
    show ?thesis
    proof (cases "k + eof_len c k = i")
      case True
      with e show ?thesis using i'(2) same [OF k'] ok(6) by (simp add: edge_def)
    next
      case False
      with e \<open>k + eof_len c k \<le> i\<close> show ?thesis using i'(2) same [OF k'] same [of "k + eof_len c k"] by (simp add: edge_def)
    qed
  qed
  moreover have "length ?J' = length (ec_code c)" using ok(3) len by (simp add: widens_def)
  moreover have "smallest (?J' ! 0) \<le> uint (ts_inputs (this_types c)) \<and> uint (ts_inputs (this_types c)) \<le> biggest (?J' ! 0)"
    using p ok(6) same [of 0] by (cases "i = 0") (auto simp: passed_def Let_def)
  ultimately show ?thesis using i' by (simp add: passed_def)
qed

lemma validate_loop_passed:
  "validate_loop c i s = Val (Inr s') \<Longrightarrow> passed c i s \<Longrightarrow> passed c (length (ec_code c)) s'"
proof (induction c i s rule: validate_loop.induct)
  case (1 c i s)
  show ?case
  proof (cases "i < length (ec_code c)")
    case True
    then obtain i' s1 where v: "validate_instruction c i s = Val (Inr (i', s1))" "validate_loop c i' s1 = Val (Inr s')"
      using "1.prems"(1) by (subst (asm) validate_loop.simps) (auto split: eval.splits sum.splits)
    show ?thesis using "1.IH" [OF True v(1) refl refl v(2)] passed_next [OF "1.prems"(2) True v(1)] by blast
  next
    case False
    then have "i = length (ec_code c)" using "1.prems"(2) by (simp add: passed_def)
    then show ?thesis using "1.prems" by (subst (asm) validate_loop.simps) simp
  qed
qed

section \<open>A validated section\<close>

definition successors :: "eof_code \<Rightarrow> nat \<Rightarrow> int set" where
  "successors c k = (if falls_through c k then {int (k + eof_len c k)} else {}) \<union> set (jump_targets c k)"

text \<open>
  A section is typed by bounds \<open>lo\<close> and \<open>hi\<close> on the number of operands at each instruction: the bounds of the first
  instruction hold the inputs of the section, no instruction needs more than there is or exceeds the
  declared maximum, and every successor is an instruction of the section whose bounds hold the heights that arrive.
\<close>

definition section_typed :: "eof_code \<Rightarrow> (nat \<Rightarrow> int) \<Rightarrow> (nat \<Rightarrow> int) \<Rightarrow> bool" where
  "section_typed c lo hi \<longleftrightarrow>
     0 < length (ec_code c) \<and> lo 0 \<le> uint (ts_inputs (this_types c)) \<and> uint (ts_inputs (this_types c)) \<le> hi 0 \<and>
     (\<forall>k < length (ec_code c). eof_start c k \<longrightarrow>
        well_formed_at c k \<and> needs c k \<le> lo k \<and> hi k \<le> uint (max_stack_size (this_types c)) \<and>
        (\<forall>t \<in> successors c k. 0 \<le> t \<and> t < int (length (ec_code c)) \<and> eof_start c (nat t) \<and>
           lo (nat t) \<le> lo k + height_diff c k \<and> hi k + height_diff c k \<le> hi (nat t)))"

lemma fold_max_start: "m \<le> fold (\<lambda>x m. max (f x) m) xs (m :: int)"
proof (induction xs arbitrary: m)
  case (Cons y ys)
  have "max (f y) m \<le> fold (\<lambda>x m. max (f x) m) ys (max (f y) m)" by (rule Cons.IH)
  then show ?case by simp
qed simp

lemma fold_max_ge: "x \<in> set xs \<Longrightarrow> f x \<le> fold (\<lambda>x m. max (f x) m) xs (m :: int)"
proof (induction xs arbitrary: m)
  case (Cons y ys)
  then show ?case using fold_max_start [of "max (f y) m" f ys] by auto
qed simp

lemma validate_eof_code_typed:
  assumes "validate_eof_code c = Val (Inr accessed)"
  shows "\<exists>lo hi. section_typed c lo hi"
    "\<forall>k < length (ec_code c). eof_start c k \<longrightarrow> set (named_section c k) \<subseteq> set accessed"
proof -
  obtain s where s: "validate_loop c 0 (start_pass c) = Val (Inr s)" "is_after_termination s" "accessed = accessed_codes s"
    and mx: "fold (\<lambda>x m. max (biggest x) m) (cp_jumps s) 0 = uint (max_stack_size (this_types c))"
    using assms by (auto simp: validate_eof_code_def evals split: if_splits)
  let ?n = "length (ec_code c)" and ?J = "cp_jumps s"
  have p: "passed c ?n s" by (rule validate_loop_passed [OF s(1) passed_start])
  have start: "0 < ?n" "smallest (?J ! 0) \<le> uint (ts_inputs (this_types c))" "uint (ts_inputs (this_types c)) \<le> biggest (?J ! 0)"
    using p s(2) by (auto simp: passed_def Let_def split: if_splits)
  have "well_formed_at c k \<and> needs c k \<le> smallest (?J ! k) \<and> biggest (?J ! k) \<le> uint (max_stack_size (this_types c)) \<and>
        (\<forall>t \<in> successors c k. 0 \<le> t \<and> t < int ?n \<and> eof_start c (nat t) \<and>
           smallest (?J ! nat t) \<le> smallest (?J ! k) + height_diff c k \<and> biggest (?J ! k) + height_diff c k \<le> biggest (?J ! nat t))"
    if k: "k < ?n" "eof_start c k" for k
  proof -
    have ty: "typed_at c ?J k" using p k by (simp add: passed_def)
    have "biggest (?J ! k) \<le> uint (max_stack_size (this_types c))"
      using fold_max_ge [of "?J ! k" ?J biggest 0] p k mx by (simp add: passed_def)
    moreover have "0 \<le> t \<and> t < int ?n \<and> eof_start c (nat t) \<and> smallest (?J ! nat t) \<le> smallest (?J ! k) + height_diff c k \<and>
        biggest (?J ! k) + height_diff c k \<le> biggest (?J ! nat t)" if t: "t \<in> set (jump_targets c k)" for t
    proof -
      have l: "lands c (smallest (?J ! k) + height_diff c k) (biggest (?J ! k) + height_diff c k) ?J t" using ty t by (simp add: typed_at_def)
      then have "nat t < ?n" by (simp add: lands_def nat_less_iff)
      then show ?thesis using l p by (simp add: lands_def passed_def)
    qed
    moreover have "k + eof_len c k < ?n \<and> edge c ?J k (smallest (?J ! (k + eof_len c k))) (biggest (?J ! (k + eof_len c k)))" if "falls_through c k"
      using p k that s(2) by (auto simp: passed_def split: if_splits)
    ultimately show ?thesis using ty eof_start.next_one [OF k(2,1)]
      by (auto simp: successors_def typed_at_def edge_def nat_add_distrib simp flip: of_nat_add split: if_splits)
  qed
  then show "\<exists>lo hi. section_typed c lo hi"
    using start by (intro exI [of _ "\<lambda>k. smallest (?J ! k)"] exI [of _ "\<lambda>k. biggest (?J ! k)"]) (simp add: section_typed_def)
  show "\<forall>k < ?n. eof_start c k \<longrightarrow> set (named_section c k) \<subseteq> set accessed" using p s(3) by (simp add: passed_def)
qed

section \<open>All sections of a container\<close>

lemma queue_codes_grows:
  "queue_codes accessed queued queue = Val (queued', queue') \<Longrightarrow>
     length queued' = length queued \<and> (\<forall>i < length queued. queued' ! i \<longrightarrow> queued ! i \<or> i \<in> set queue') \<and> set queue \<subseteq> set queue'"
proof (induction accessed queued queue rule: queue_codes.induct)
  case (2 i accessed queued queue)
  then show ?case by (cases "queued ! i") (auto simp: nth_list_update split: if_splits)
qed auto

definition section_valid :: "eof \<Rightarrow> nat \<Rightarrow> bool" where
  "section_valid e i \<longleftrightarrow> (\<exists>accessed. validate_eof_code (eof_code_of e i) = Val (Inr accessed))"

lemma validate_codes_loop_valid:
  "validate_codes_loop e queued queue = Val (Inr queued') \<Longrightarrow>
     (\<forall>i < length queued. queued ! i \<longrightarrow> i \<in> set queue \<or> section_valid e i) \<Longrightarrow>
     length queued' = length queued \<and> (\<forall>i < length queued. queued' ! i \<longrightarrow> section_valid e i)"
proof (induction e queued queue rule: validate_codes_loop.induct)
  case (2 e queued index queue)
  from "2.prems"(1) obtain accessed queued1 queue1 where c: "index < length (code_section (eof_body e))"
    "validate_eof_code (eof_code_of e index) = Val (Inr accessed)" "queue_codes accessed queued queue = Val (queued1, queue1)"
    and l: "validate_codes_loop e queued1 queue1 = Val (Inr queued')"
    by (auto split: if_splits eval.splits sum.splits)
  have "section_valid e index" using c(2) by (auto simp: section_valid_def)
  moreover note queue_codes_grows [OF c(3)]
  ultimately show ?case using "2.IH" [OF c(1,2) refl c(3) refl l] "2.prems"(2) by fastforce
qed simp

lemma validate_eof_codes_sections:
  assumes "validate_eof_codes e = Val (Inr ())"
  shows "length (types_sections (eof_body e)) = length (code_section (eof_body e))" "0 < length (code_section (eof_body e))"
    "ts_inputs (types_sections (eof_body e) ! 0) = 0"
    "i < length (code_section (eof_body e)) \<Longrightarrow> section_valid e i"
proof -
  let ?n = "length (code_section (eof_body e))"
  have f: "length (types_sections (eof_body e)) = ?n" "0 < ?n" "ts_inputs (types_sections (eof_body e) ! 0) = 0"
    using assms by (simp_all add: validate_eof_codes_def Let_def del: validate_codes_loop.simps split: if_splits)
  have "\<exists>queued. validate_codes_loop e ((replicate ?n False)[0 := True]) [0] = Val (Inr queued) \<and> False \<notin> set queued"
    using assms unfolding validate_eof_codes_def Let_def
    by (simp only: split: if_splits) (auto simp: tryR_Val_Inr_iff simp del: validate_codes_loop.simps split: if_splits)
  then obtain queued where q: "validate_codes_loop e ((replicate ?n False)[0 := True]) [0] = Val (Inr queued)" "False \<notin> set queued"
    by blast
  show "length (types_sections (eof_body e)) = ?n" "0 < ?n" "ts_inputs (types_sections (eof_body e) ! 0) = 0" by (fact f)+
  assume i: "i < ?n"
  have v: "length queued = ?n \<and> (\<forall>i < ?n. queued ! i \<longrightarrow> section_valid e i)"
  proof -
    have "((replicate ?n False)[0 := True]) ! j \<Longrightarrow> j < ?n \<Longrightarrow> j = 0" for j by (cases j) simp_all
    then show ?thesis using validate_codes_loop_valid [OF q(1)] by simp
  qed
  moreover have "queued ! i" using q(2) i v by (metis (full_types) nth_mem)
  ultimately show "section_valid e i" using i by blast
qed

section \<open>Running the sections\<close>

text \<open>
  A machine that runs the sections of a container and keeps of the operand stack only its height. \<^verbatim>\<open>CALLF\<close> enters a
  section and remembers where to go on, \<^verbatim>\<open>JUMPF\<close> goes on in another section, \<^verbatim>\<open>RETF\<close> returns, a conditional
  jump goes to any of its targets or falls through, any other instruction takes its inputs and
  leaves its outputs.
\<close>

record eof_config =
  at_section :: nat
  at_pc :: nat
  operands :: int
  returns :: "(nat \<times> nat) list"

abbreviation config_code :: "eof \<Rightarrow> eof_config \<Rightarrow> eof_code" where
  "config_code e s \<equiv> eof_code_of e (at_section s)"

abbreviation config_op :: "eof \<Rightarrow> eof_config \<Rightarrow> u8" where
  "config_op e s \<equiv> ec_code (config_code e s) ! at_pc s"

inductive eof_step :: "eof \<Rightarrow> eof_config \<Rightarrow> eof_config \<Rightarrow> bool" for e where
  local: "config_op e s \<notin> {CALLF, RETF, JUMPF} \<Longrightarrow> t \<in> successors (config_code e s) (at_pc s) \<Longrightarrow>
    eof_step e s (s\<lparr>at_pc := nat t, operands := operands s + height_diff (config_code e s) (at_pc s)\<rparr>)"
| callf: "config_op e s = CALLF \<Longrightarrow>
    eof_step e s (s\<lparr>at_section := section_at (config_code e s) (at_pc s), at_pc := 0,
      returns := (at_section s, at_pc s + eof_len (config_code e s) (at_pc s)) # returns s\<rparr>)"
| retf: "config_op e s = RETF \<Longrightarrow> returns s = (k, pc) # rest \<Longrightarrow>
    eof_step e s (s\<lparr>at_section := k, at_pc := pc, returns := rest\<rparr>)"
| jumpf: "config_op e s = JUMPF \<Longrightarrow>
    eof_step e s (s\<lparr>at_section := section_at (config_code e s) (at_pc s), at_pc := 0\<rparr>)"

definition eof_initial :: eof_config where
  "eof_initial = \<lparr>at_section = 0, at_pc = 0, operands = 0, returns = []\<rparr>"

text \<open>The operands that an instruction reads, \<^verbatim>\<open>CALLF\<close> and \<^verbatim>\<open>JUMPF\<close> for the section they enter.\<close>

definition reads :: "eof_code \<Rightarrow> nat \<Rightarrow> int" where
  "reads c i = (if ec_code c ! i = JUMPF then uint (ts_inputs (target_types c i)) else needs c i)"

definition safe_config :: "eof \<Rightarrow> eof_config \<Rightarrow> bool" where
  "safe_config e s \<longleftrightarrow>
     at_section s < length (code_section (eof_body e)) \<and> at_pc s < length (ec_code (config_code e s)) \<and>
     eof_start (config_code e s) (at_pc s) \<and> well_formed_at (config_code e s) (at_pc s) \<and>
     reads (config_code e s) (at_pc s) \<le> operands s"

text \<open>
  The invariant: the frame of the running section has a base, its instruction finds the operands it needs
  above it, and what the section leaves when it returns is enough for the frame below.
\<close>

inductive frames_ok :: "eof \<Rightarrow> (nat \<Rightarrow> nat \<Rightarrow> int) \<Rightarrow> int \<Rightarrow> (nat \<times> nat) list \<Rightarrow> bool" for e lo where
  bottom: "frames_ok e lo left []"
| frame: "0 \<le> b \<Longrightarrow> k < length (code_section (eof_body e)) \<Longrightarrow> pc < length (ec_code (eof_code_of e k)) \<Longrightarrow>
    eof_start (eof_code_of e k) pc \<Longrightarrow> b + lo k pc \<le> left \<Longrightarrow>
    frames_ok e lo (b + uint (ts_outputs (types_sections (eof_body e) ! k))) rest \<Longrightarrow> frames_ok e lo left ((k, pc) # rest)"

inductive_cases frames_ok_ConsE: "frames_ok e lo left ((k, pc) # rest)"

lemma frames_ok_more: "frames_ok e lo left fs \<Longrightarrow> left \<le> left' \<Longrightarrow> frames_ok e lo left' fs"
  by (erule frames_ok.cases) (auto intro: frames_ok.intros)

definition config_ok :: "eof \<Rightarrow> (nat \<Rightarrow> nat \<Rightarrow> int) \<Rightarrow> eof_config \<Rightarrow> bool" where
  "config_ok e lo s \<longleftrightarrow> (\<exists>b \<ge> 0.
     at_section s < length (code_section (eof_body e)) \<and> at_pc s < length (ec_code (config_code e s)) \<and>
     eof_start (config_code e s) (at_pc s) \<and> b + lo (at_section s) (at_pc s) \<le> operands s \<and>
     frames_ok e lo (b + uint (ts_outputs (types_sections (eof_body e) ! at_section s))) (returns s))"

definition container_typed :: "eof \<Rightarrow> (nat \<Rightarrow> nat \<Rightarrow> int) \<Rightarrow> (nat \<Rightarrow> nat \<Rightarrow> int) \<Rightarrow> bool" where
  "container_typed e lo hi \<longleftrightarrow>
     length (types_sections (eof_body e)) = length (code_section (eof_body e)) \<and> 0 < length (code_section (eof_body e)) \<and>
     ts_inputs (types_sections (eof_body e) ! 0) = 0 \<and>
     (\<forall>t \<in> set (types_sections (eof_body e)). ts_outputs t \<le> EOF_NON_RETURNING_FUNCTION) \<and>
     (\<forall>k < length (code_section (eof_body e)). section_typed (eof_code_of e k) (lo k) (hi k))"

lemma eof_code_of_simps [simp]:
  "ec_types (eof_code_of e k) = types_sections (eof_body e)" "ec_types_index (eof_code_of e k) = k"
  by (simp_all add: eof_code_of_def)

lemma section_typedD:
  assumes "section_typed c lo hi" "k < length (ec_code c)" "eof_start c k"
  shows "well_formed_at c k" "needs c k \<le> lo k"
    "t \<in> successors c k \<Longrightarrow> 0 \<le> t \<and> nat t < length (ec_code c) \<and> eof_start c (nat t) \<and> lo (nat t) \<le> lo k + height_diff c k"
  using assms by (auto simp: section_typed_def nat_less_iff)

lemma section_typed_start: "section_typed c lo hi \<Longrightarrow> 0 < length (ec_code c) \<and> lo 0 \<le> uint (ts_inputs (this_types c))"
  by (simp add: section_typed_def)

lemma config_ok_safe:
  assumes ty: "container_typed e lo hi" and s: "config_ok e lo s"
  shows "safe_config e s"
proof -
  let ?c = "config_code e s"
  obtain b where b: "0 \<le> b" "at_section s < length (code_section (eof_body e))" "at_pc s < length (ec_code ?c)"
    "eof_start ?c (at_pc s)" "b + lo (at_section s) (at_pc s) \<le> operands s"
    using s by (auto simp: config_ok_def)
  have t: "section_typed ?c (lo (at_section s)) (hi (at_section s))" using ty b(2) by (simp add: container_typed_def)
  note w = section_typedD(1,2) [OF t b(3,4)]
  have "reads ?c (at_pc s) \<le> needs ?c (at_pc s)"
    using w(1) by (auto simp: reads_def needs_def well_formed_at_def word_le_def)
  then show ?thesis using b w by (simp add: safe_config_def)
qed

text \<open>The four kinds of step keep the invariant.\<close>

lemma callf_falls_through: "ec_code c ! k = CALLF \<Longrightarrow> int (k + eof_len c k) \<in> successors c k"
  by (simp add: successors_def falls_through_def op_row_def OPCODE_INFO_JUMPTABLE_def opcode_rows_def info_defs)

lemma local_keeps:
  assumes ty: "container_typed e lo hi" and s: "config_ok e lo s"
    and t: "t \<in> successors (config_code e s) (at_pc s)"
  shows "config_ok e lo (s\<lparr>at_pc := nat t, operands := operands s + height_diff (config_code e s) (at_pc s)\<rparr>)"
proof -
  obtain b where b: "0 \<le> b" "at_section s < length (code_section (eof_body e))" "at_pc s < length (ec_code (config_code e s))"
    "eof_start (config_code e s) (at_pc s)" "b + lo (at_section s) (at_pc s) \<le> operands s"
    "frames_ok e lo (b + uint (ts_outputs (types_sections (eof_body e) ! at_section s))) (returns s)"
    using s by (auto simp: config_ok_def)
  have "section_typed (config_code e s) (lo (at_section s)) (hi (at_section s))" using ty b(2) by (simp add: container_typed_def)
  from section_typedD(3) [OF this b(3,4) t] show ?thesis unfolding config_ok_def using b by (intro exI [of _ b]) simp
qed

lemma callf_keeps:
  assumes ty: "container_typed e lo hi" and s: "config_ok e lo s" and op: "config_op e s = CALLF"
  shows "config_ok e lo (s\<lparr>at_section := section_at (config_code e s) (at_pc s), at_pc := 0,
      returns := (at_section s, at_pc s + eof_len (config_code e s) (at_pc s)) # returns s\<rparr>)"
proof -
  let ?c = "config_code e s" and ?T = "types_sections (eof_body e)"
  define k where "k = section_at ?c (at_pc s)"
  obtain b where b: "0 \<le> b" "at_section s < length (code_section (eof_body e))" "at_pc s < length (ec_code ?c)"
    "eof_start ?c (at_pc s)" "b + lo (at_section s) (at_pc s) \<le> operands s"
    "frames_ok e lo (b + uint (ts_outputs (?T ! at_section s))) (returns s)"
    using s by (auto simp: config_ok_def)
  have t: "section_typed ?c (lo (at_section s)) (hi (at_section s))" using ty b(2) by (simp add: container_typed_def)
  note d = section_typedD(1,2) [OF t b(3,4)] section_typedD(3) [OF t b(3,4) callf_falls_through [OF op]]
  have k: "k < length (code_section (eof_body e))" using d(1) op ty by (auto simp: well_formed_at_def k_def container_typed_def)
  then have k0: "0 < length (ec_code (eof_code_of e k))" "lo k 0 \<le> uint (ts_inputs (?T ! k))"
    using ty section_typed_start [of "eof_code_of e k"] by (fastforce simp: container_typed_def)+
  have n: "uint (ts_inputs (?T ! k)) \<le> lo (at_section s) (at_pc s)" using d(2) op by (simp add: needs_def k_def)
  have h: "height_diff ?c (at_pc s) = uint (ts_outputs (?T ! k)) - uint (ts_inputs (?T ! k))" using op by (simp add: height_diff_def io_diff_def k_def)
  have fr: "frames_ok e lo (operands s - uint (ts_inputs (?T ! k)) + uint (ts_outputs (?T ! k)))
      ((at_section s, at_pc s + eof_len ?c (at_pc s)) # returns s)"
    by (rule frames_ok.frame [of b]) (use b d(3) h in \<open>simp_all add: nat_add_distrib flip: of_nat_add\<close>)
  show ?thesis
    unfolding config_ok_def k_def [symmetric]
    by (rule exI [of _ "operands s - uint (ts_inputs (?T ! k))"]) (use b n k k0 fr eof_start.first in simp)
qed

lemma retf_keeps:
  assumes ty: "container_typed e lo hi" and s: "config_ok e lo s" and op: "config_op e s = RETF" "returns s = (k, pc) # rest"
  shows "config_ok e lo (s\<lparr>at_section := k, at_pc := pc, returns := rest\<rparr>)"
proof -
  let ?c = "config_code e s" and ?T = "types_sections (eof_body e)"
  obtain b where b: "0 \<le> b" "at_section s < length (code_section (eof_body e))" "at_pc s < length (ec_code ?c)"
    "eof_start ?c (at_pc s)" "b + lo (at_section s) (at_pc s) \<le> operands s"
    "frames_ok e lo (b + uint (ts_outputs (?T ! at_section s))) ((k, pc) # rest)"
    using s op(2) by (auto simp: config_ok_def)
  have t: "section_typed ?c (lo (at_section s)) (hi (at_section s))" using ty b(2) by (simp add: container_typed_def)
  have "uint (ts_outputs (?T ! at_section s)) \<le> lo (at_section s) (at_pc s)"
    using section_typedD(2) [OF t b(3,4)] op(1) by (simp add: needs_def)
  with b(5,6) show ?thesis by (elim frames_ok_ConsE) (force simp: config_ok_def)
qed

lemma jumpf_keeps:
  assumes ty: "container_typed e lo hi" and s: "config_ok e lo s" and op: "config_op e s = JUMPF"
  shows "config_ok e lo (s\<lparr>at_section := section_at (config_code e s) (at_pc s), at_pc := 0\<rparr>)"
proof -
  let ?c = "config_code e s" and ?T = "types_sections (eof_body e)"
  define k where "k = section_at ?c (at_pc s)"
  obtain b where b: "0 \<le> b" "at_section s < length (code_section (eof_body e))" "at_pc s < length (ec_code ?c)"
    "eof_start ?c (at_pc s)" "b + lo (at_section s) (at_pc s) \<le> operands s"
    "frames_ok e lo (b + uint (ts_outputs (?T ! at_section s))) (returns s)"
    using s by (auto simp: config_ok_def)
  have t: "section_typed ?c (lo (at_section s)) (hi (at_section s))" using ty b(2) by (simp add: container_typed_def)
  note d = section_typedD(1,2) [OF t b(3,4)]
  have k: "k < length (code_section (eof_body e))"
    "ts_outputs (?T ! k) = EOF_NON_RETURNING_FUNCTION \<or> ts_outputs (?T ! k) \<le> ts_outputs (?T ! at_section s)"
    using d(1) op ty by (auto simp: well_formed_at_def k_def container_typed_def)
  then have k0: "0 < length (ec_code (eof_code_of e k))" "lo k 0 \<le> uint (ts_inputs (?T ! k))"
    using ty section_typed_start [of "eof_code_of e k"] by (fastforce simp: container_typed_def)+
  have out: "uint (ts_outputs (?T ! at_section s)) \<le> 128"
    using ty b(2) by (auto simp: container_typed_def EOF_NON_RETURNING_FUNCTION_def word_le_def dest: bspec [OF _ nth_mem])
  have "\<exists>b'\<ge>b. b' + uint (ts_inputs (?T ! k)) \<le> operands s \<and> b + uint (ts_outputs (?T ! at_section s)) \<le> b' + uint (ts_outputs (?T ! k))"
  proof (cases "ts_outputs (?T ! k) = EOF_NON_RETURNING_FUNCTION")
    case True
    then show ?thesis using d(2) op b(5) out by (intro exI [of _ b]) (simp add: needs_def k_def EOF_NON_RETURNING_FUNCTION_def)
  next
    case False
    then show ?thesis using d(2) op b(5) k(2)
      by (intro exI [of _ "b + uint (ts_outputs (?T ! at_section s)) - uint (ts_outputs (?T ! k))"]) (simp add: needs_def k_def word_le_def)
  qed
  then obtain b' where "b \<le> b'" "b' + uint (ts_inputs (?T ! k)) \<le> operands s"
    "b + uint (ts_outputs (?T ! at_section s)) \<le> b' + uint (ts_outputs (?T ! k))" by blast
  then show ?thesis
    unfolding config_ok_def k_def [symmetric]
    by (intro exI [of _ b']) (use b k k0 frames_ok_more [OF b(6)] eof_start.first in auto)
qed

lemma eof_step_keeps:
  assumes "eof_step e s s'" "container_typed e lo hi" "config_ok e lo s"
  shows "config_ok e lo s'"
  using assms by cases (simp_all add: local_keeps callf_keeps retf_keeps jumpf_keeps)

lemma eof_run_keeps:
  assumes "(eof_step e)\<^sup>*\<^sup>* s s'" "container_typed e lo hi" "config_ok e lo s"
  shows "config_ok e lo s'"
  using assms by induction (auto intro: eof_step_keeps)

lemma eof_initial_ok: "container_typed e lo hi \<Longrightarrow> config_ok e lo eof_initial"
  using section_typed_start [of "eof_code_of e 0"]
  by (fastforce simp: config_ok_def eof_initial_def container_typed_def intro: exI [of _ 0] eof_start.first frames_ok.bottom)

lemma validated_container_typed:
  assumes v: "validate_eof_codes e = Val (Inr ())"
    and t: "\<forall>t \<in> set (types_sections (eof_body e)). ts_outputs t \<le> EOF_NON_RETURNING_FUNCTION"
  obtains lo hi where "container_typed e lo hi"
proof -
  have "\<forall>k. \<exists>lo hi. k < length (code_section (eof_body e)) \<longrightarrow> section_typed (eof_code_of e k) lo hi"
    using validate_eof_codes_sections(4) [OF v] validate_eof_code_typed(1) by (metis section_valid_def)
  then obtain lo hi where "\<forall>k < length (code_section (eof_body e)). section_typed (eof_code_of e k) (lo k) (hi k)" by metis
  with that show thesis using validate_eof_codes_sections(1,2,3) [OF v] t by (simp add: container_typed_def)
qed

end
