(* ===== verification/Eof_Tracks.thy ===== *)
theory Eof_Tracks
  imports Opcode_Laws Eof_Safety
begin

text \<open>
  Where an instruction leaves the instruction pointer and when it reports a stack underflow, for the instructions that
  EOF code may use: the link between the interpreter and the machine of \<open>Eof_Safety\<close>.
\<close>

definition track_exit :: "bool \<Rightarrow> nat \<Rightarrow> nat \<Rightarrow> interpreter \<Rightarrow> interpreter \<Rightarrow> bool" where
  "track_exit opens n d i i' \<longleftrightarrow> (instr_result i' = CallOrCreate \<longrightarrow> opens) \<and>
     (instr_result i' = StackUnderflow \<longrightarrow> height i < n) \<and> contract i' = contract i \<and> running_eof i' = running_eof i \<and>
     (instr_result i' = Continue \<or> instr_result i' = CallOrCreate \<longrightarrow>
        ip i' = ip i + d \<and> code_bytes i' = code_bytes i \<and> call_functions i' = call_functions i)"

definition tracks :: "bool \<Rightarrow> nat \<Rightarrow> nat \<Rightarrow> 'h instr \<Rightarrow> bool" where
  "tracks opens n d f \<longleftrightarrow> (\<forall>i h. instr_result i = Continue \<longrightarrow> wp f (\<lambda>i' h'. track_exit opens n d i i') i h)"

lemma tracksI:
  assumes "\<And>i h. instr_result i = Continue \<Longrightarrow> wp f (\<lambda>i' h'. track_exit opens n d i i') i h"
  shows "tracks opens n d f"
  using assms by (simp add: tracks_def)

lemma tracksD:
  assumes "tracks opens n d f" "instr_result i = Continue" "f i h = Val (i', h')"
  shows "track_exit opens n d i i'"
  using assms by (auto simp: tracks_def dest: wpD)

section \<open>Instructions\<close>

lemma arithmetic_tracks:
  "tracks False 2 0 i_add" "tracks False 2 0 i_mul" "tracks False 2 0 i_sub" "tracks False 2 0 i_div" "tracks False 2 0 i_sdiv"
  "tracks False 2 0 i_rem" "tracks False 2 0 i_smod" "tracks False 3 0 i_addmod" "tracks False 3 0 i_mulmod" "tracks False 2 0 i_signextend" "tracks False 2 0 (i_exp sp)"
  unfolding i_add_def i_mul_def i_sub_def i_div_def i_sdiv_def i_rem_def i_smod_def i_addmod_def
    i_mulmod_def i_signextend_def i_exp_def
  by (rule tracksI, intro wps; simp add: track_exit_def)+

lemma bitwise_tracks:
  "tracks False 2 0 i_lt" "tracks False 2 0 i_gt" "tracks False 2 0 i_slt" "tracks False 2 0 i_sgt" "tracks False 2 0 i_eq" "tracks False 1 0 i_iszero"
  "tracks False 2 0 i_bitand" "tracks False 2 0 i_bitor" "tracks False 2 0 i_bitxor" "tracks False 1 0 i_not" "tracks False 2 0 i_byte"
  "tracks False 2 0 (i_shl sp)" "tracks False 2 0 (i_shr sp)" "tracks False 2 0 (i_sar sp)"
  unfolding i_lt_def i_gt_def i_slt_def i_sgt_def i_eq_def i_iszero_def i_bitand_def i_bitor_def
    i_bitxor_def i_not_def i_byte_def i_shl_def i_shr_def i_sar_def Let_def
  by (rule tracksI, intro wps; simp add: track_exit_def)+

lemma stack_underflow_laws:
  "stack_pop s = (Inl e, s') \<Longrightarrow> e = StackUnderflow \<Longrightarrow> length s < 1"
  "stack_push s v = (Inl e, s') \<Longrightarrow> e \<noteq> StackUnderflow"
  "stack_dup s n = Val (Inl e, s') \<Longrightarrow> e = StackUnderflow \<Longrightarrow> length s < n"
  "stack_exchange s n m = Val (Inl e, s') \<Longrightarrow> e = StackUnderflow \<Longrightarrow> length s < n + m + 1"
  "stack_swap s n = Val (Inl e, s') \<Longrightarrow> e = StackUnderflow \<Longrightarrow> length s < n + 1"
  by (auto simp: stack_pop_def stack_push_def stack_dup_def stack_exchange_def stack_swap_def Let_def evals split: if_splits)

lemma stack_tracks:
  "tracks False 1 0 i_pop" "tracks False 0 0 (i_push0 sp)" "tracks False n 0 (i_dup n)" "tracks False (n + 1) 0 (i_swap n)"
  unfolding i_pop_def i_push0_def i_dup_def i_swap_def
  by (rule tracksI, intro wps; auto simp: track_exit_def dest: stack_laws stack_underflow_laws)+

lemma push_tracks:
  assumes "1 \<le> n" "n \<le> 32"
  shows "tracks False 0 n (i_push n)"
proof -
  have e: "e = StackOverflow \<and> s' = s" if "push_slice s bs = (Inl e, s')" "length bs = n" for s bs e s'
  proof -
    have "bs \<noteq> []" "(length bs + 31) div 32 = 1" using assms that by auto
    with push_slice_words [of bs s] that show ?thesis by (auto simp: length_chunks32 split: if_splits)
  qed
  show ?thesis
    unfolding i_push_def
  proof (rule tracksI, intro wps)
    fix i :: interpreter and h :: 'a and g and bs :: bytes
    assume "instr_result i = Continue" "length bs = n"
    then show "wp (\<lambda>i h. case push_slice (stack i) bs of (Inl e, s) \<Rightarrow> fail e (i\<lparr>stack := s\<rparr>) h
        | (Inr x, s) \<Rightarrow> move_ip (int n) (i\<lparr>stack := s\<rparr>) h) (\<lambda>i' h'. track_exit False 0 n i i') (i\<lparr>int_gas := g\<rparr>) h"
      using e by (auto simp: wp_def fail_def move_ip_def track_exit_def nat_add_distrib split: prod.splits sum.splits if_splits)
  qed (simp add: track_exit_def)
qed

lemma memory_tracks:
  "tracks False 1 0 i_mload" "tracks False 2 0 i_mstore" "tracks False 2 0 i_mstore8" "tracks False 0 0 i_msize" "tracks False 3 0 (i_mcopy sp)"
  unfolding i_mload_def i_mstore_def i_mstore8_def i_msize_def i_mcopy_def
  by (rule tracksI, intro wps; auto simp: track_exit_def)+

lemma halt_tracks:
  "tracks False 0 0 i_stop" "tracks False 0 0 i_invalid" "tracks False 2 0 i_ret" "tracks False 2 0 (i_revert sp)" "tracks False 0 0 i_jumpdest_or_nop"
  unfolding i_stop_def i_invalid_def i_ret_def i_revert_def return_inner_def i_jumpdest_or_nop_def
  by (rule tracksI, intro wps; auto simp: track_exit_def)+

lemma system_tracks:
  "tracks False 2 0 (i_keccak256 L)" "tracks False 0 0 i_address" "tracks False 0 0 i_caller" "tracks False 1 0 i_calldataload"
  "tracks False 0 0 i_calldatasize" "tracks False 0 0 i_callvalue" "tracks False 0 0 (i_returndatasize sp)" "tracks False 1 0 i_returndataload"
  "tracks False 3 0 i_calldatacopy" "tracks False 3 0 (i_returndatacopy sp)"
  unfolding i_keccak256_def i_address_def i_caller_def i_calldataload_def i_calldatasize_def i_callvalue_def
    i_returndatasize_def i_returndataload_def i_calldatacopy_def i_returndatacopy_def copy_prelude_def Let_def
  by (rule tracksI, intro wps; auto simp: track_exit_def)+

lemma data_tracks:
  "tracks False 1 0 i_data_load" "tracks False 0 2 i_data_loadn" "tracks False 0 0 i_data_size" "tracks False 3 0 i_data_copy"
  unfolding i_data_load_def i_data_loadn_def i_data_size_def i_data_copy_def
  by (rule tracksI, intro wps; auto simp: track_exit_def)+

lemma host_tracks:
  "tracks False 1 0 (i_balance H sp)" "tracks False 0 0 (i_selfbalance H sp)" "tracks False 1 0 (i_blockhash H)"
  "tracks False 1 0 (i_sload H sp)" "tracks False 2 0 (i_sstore H sp)" "tracks False 2 0 (i_tstore H sp)" "tracks False 1 0 (i_tload H sp)"
  unfolding i_balance_def i_selfbalance_def i_blockhash_def i_sload_def i_sstore_def i_tstore_def i_tload_def Let_def case_prod_beta
  by (rule tracksI, intro wps; auto simp: track_exit_def)+

lemma log_tracks: "a = n + 2 \<Longrightarrow> tracks False a 0 (i_log H n)"
  unfolding i_log_def Let_def by (rule tracksI, intro wps; auto simp: track_exit_def)

lemma env_tracks:
  "tracks False 0 0 (i_chainid H sp)" "tracks False 0 0 (i_coinbase H)" "tracks False 0 0 (i_timestamp H)" "tracks False 0 0 (i_block_number H)"
  "tracks False 0 0 (i_difficulty H sp)" "tracks False 0 0 (i_gaslimit H)" "tracks False 0 0 (i_gasprice H)" "tracks False 0 0 (i_basefee H sp)"
  "tracks False 0 0 (i_origin H)" "tracks False 1 0 (i_blob_hash H sp)" "tracks False 0 0 (i_blob_basefee H sp)"
  unfolding i_chainid_def i_coinbase_def i_timestamp_def i_block_number_def i_difficulty_def i_gaslimit_def
    i_gasprice_def i_basefee_def i_origin_def i_blob_hash_def i_blob_basefee_def Let_def
  by (rule tracksI, intro wps; auto simp: track_exit_def)+

lemma frame_tracks:
  "tracks True 4 0 (i_extcall H)" "tracks True 3 0 (i_extdelegatecall H)" "tracks True 3 0 (i_extstaticcall H)" "tracks False 1 0 (i_selfdestruct H sp)"
  unfolding i_extcall_def i_extdelegatecall_def i_extstaticcall_def extcall_input_def extcall_gas_calc_def
    resize_memory_and_return_range_def i_selfdestruct_def Let_def case_prod_beta
  by (rule tracksI, intro wps; simp add: track_exit_def)+

lemma return_contract_tracks: "tracks False 2 1 i_return_contract"
  unfolding i_return_contract_def Let_def by (rule tracksI, intro wps; simp add: track_exit_def)

lemma dup_tracks: "m = n \<Longrightarrow> tracks False m 0 (i_dup n)" and swap_tracks: "a = n + 1 \<Longrightarrow> tracks False a 0 (i_swap n)"
  using stack_tracks(3,4) by simp_all

lemmas row_tracks =
  arithmetic_tracks bitwise_tracks stack_tracks(1,2) dup_tracks swap_tracks push_tracks memory_tracks halt_tracks system_tracks
  data_tracks host_tracks log_tracks env_tracks frame_tracks return_contract_tracks

text \<open>The instructions that jump, move between sections or take operands that their immediate names.\<close>

definition special_ops :: "u8 set" where
  "special_ops = {RJUMP, RJUMPI, RJUMPV, CALLF, RETF, JUMPF, DUPN, SWAPN, EXCHANGE, EOFCREATE}"

lemma rows_track:
  "list_all2 (\<lambda>(v, oi) (w, f). v = w \<and> (op_not_eof oi \<or> v \<in> special_ops \<or> tracks (v \<in> {0xF8, 0xF9, 0xFB}) (unat (op_inputs oi)) (unat (op_immediate_size oi)) f))
     opcode_rows (instruction_rows H L sp)"
  unfolding opcode_rows_def instruction_rows_def
  by (simp add: info_defs special_ops_def row_tracks [unfolded One_nat_def])

lemma instruction_tracks:
  assumes "OPCODE_INFO_JUMPTABLE op = Some oi" "\<not> op_not_eof oi" "op \<notin> special_ops"
  shows "tracks (op \<in> {0xF8, 0xF9, 0xFB}) (unat (op_inputs oi)) (unat (op_immediate_size oi)) (instruction H L sp op)"
  using map_of_rows [OF rows_track [where H = H and L = L and sp = sp], of op] assms
  by (auto simp: OPCODE_INFO_JUMPTABLE_def instruction_def)

end
