(* ===== verification/Eof_Safe_Code.thy ===== *)
theory Eof_Safe_Code
  imports Eof_Safety Dummy_Host
begin

text \<open>
  The guarantee of \<^verbatim>\<open>validate_raw_eof\<close>, for a container and those nested in it, and where it stops: \<^verbatim>\<open>RETF\<close> in
  the first section.
\<close>

section \<open>Nested containers\<close>

inductive nested :: "eof \<Rightarrow> eof \<Rightarrow> bool" where
  itself: "nested e e"
| inner: "c \<in> set (container_section (eof_body e)) \<Longrightarrow> eof_decode c = Val (Inr e1) \<Longrightarrow> nested e1 e2 \<Longrightarrow> nested e e2"

inductive_cases nestedE: "nested e e'"

lemma push_containers_all:
  "push_containers cs queue = Val (Inr queue') \<Longrightarrow>
     set queue \<subseteq> set queue' \<and> (\<forall>c \<in> set cs. \<exists>e \<in> set queue'. eof_decode c = Val (Inr e))"
proof (induction cs arbitrary: queue)
  case (Cons c cs)
  then show ?case by (fastforce simp: evals)
qed simp

lemma validate_eof_loop_all:
  "validate_eof_loop queue = Val (Inr ()) \<Longrightarrow> e \<in> set queue \<Longrightarrow> nested e e' \<Longrightarrow> validate_eof_codes e' = Val (Inr ())"
proof (induction queue arbitrary: e rule: validate_eof_loop.induct)
  case (2 eof queue)
  from "2.prems"(1) obtain queue' where v: "validate_eof_codes eof = Val (Inr ())"
    and p: "push_containers (container_section (eof_body eof)) queue = Val (Inr queue')" and l: "validate_eof_loop queue' = Val (Inr ())"
    by (auto split: eval.splits sum.splits)
  note ih = "2.IH" [OF v refl p refl l]
  note all = push_containers_all [OF p]
  show ?case
  proof (cases "e \<in> set queue")
    case True
    then show ?thesis using ih all "2.prems"(3) by blast
  next
    case False
    then have e: "e = eof" using "2.prems"(2) by simp
    from "2.prems"(3) show ?thesis
      by (cases rule: nestedE) (use v e ih all in fastforce)+
  qed
qed simp

lemma decode_types_valid:
  "decode_types n input = Val (Inr (ts, rest)) \<Longrightarrow> t \<in> set ts \<Longrightarrow> types_validate t = Inr ()"
proof (induction n arbitrary: input ts)
  case (Suc n)
  then show ?case by (fastforce simp: evals types_decode_def Let_def)
qed simp

lemma eof_decode_types:
  assumes "eof_decode raw = Val (Inr e)" "t \<in> set (types_sections (eof_body e))"
  shows "ts_outputs t \<le> EOF_NON_RETURNING_FUNCTION"
proof -
  obtain h where "body_decode raw h = Val (Inr (eof_body e))" using assms(1) by (auto simp: eof_decode_def evals)
  then obtain n input ts rest where "decode_types n input = Val (Inr (ts, rest))" "types_sections (eof_body e) = ts"
    by (auto simp: body_decode_def Let_def evals split: if_splits dest!: arg_cong [where f = types_sections, OF sym])
  then have "types_validate t = Inr ()" using decode_types_valid assms(2) by blast
  then show ?thesis by (simp add: types_validate_def EOF_NON_RETURNING_FUNCTION_def not_less split: if_splits)
qed

lemma nested_decoded: "nested e e' \<Longrightarrow> \<exists>raw. eof_decode raw = Val (Inr e) \<Longrightarrow> \<exists>raw. eof_decode raw = Val (Inr e')"
  by (induction rule: nested.induct) blast+

section \<open>Safety\<close>

text \<open>Loops with a literal count, unrolled.\<close>

lemma numeral_loops:
  "read_sizes (numeral v) (a # b # rest) =
     (if (from_be_bytes [a, b] :: u16) = 0 then Val (Inl ZeroSize)
      else tryR (read_sizes (pred_numeral v) rest) (\<lambda>(sizes, total). Val (Inr (from_be_bytes [a, b] # sizes, unat (from_be_bytes [a, b] :: u16) + total))))"
  "decode_types (numeral v) input =
     tryR (types_decode input) (\<lambda>(t, input). tryR (decode_types (pred_numeral v) input) (\<lambda>(ts, input). Val (Inr (t # ts, input))))"
  "mark_immediates k (numeral v) jumps =
     (case mark_as_immediate (jumps ! k) of Inl e \<Rightarrow> Inl e | Inr marked \<Rightarrow> mark_immediates (Suc k) (pred_numeral v) (jumps[k := marked]))"
  by (simp_all add: numeral_eq_Suc Let_def)

text \<open>A container of two sections: the first calls the second and stops, the second pushes a word and returns.\<close>

definition one_call :: bytes where
  "one_call = [0xEF, 0, 1, 1, 0, 8, 2, 0, 2, 0, 4, 0, 2, 4, 0, 0, 0,
     0, 0x80, 0, 1,  0, 1, 0, 1,
     0xE3, 0, 1, 0,  0x5F, 0xE4]"

definition one_call_header :: eof_header where
  "one_call_header = \<lparr>types_size = 8, code_sizes = [4, 2], container_sizes = [], data_size = 0, sum_code_sizes = 6, sum_container_sizes = 0\<rparr>"

definition one_call_eof :: eof where
  "one_call_eof =
     \<lparr>eof_header = one_call_header,
      eof_body = \<lparr>types_sections = [\<lparr>ts_inputs = 0, ts_outputs = 0x80, max_stack_size = 1\<rparr>, \<lparr>ts_inputs = 0, ts_outputs = 1, max_stack_size = 1\<rparr>],
        code_section = [[0xE3, 0, 1, 0], [0x5F, 0xE4]], container_section = [], data_section = [], is_data_filled = True\<rparr>,
      eof_raw = one_call\<rparr>"

lemmas be_defs = from_be_bytes_def be_nat_def
lemmas header_defs = header_decode_def consume_header_section_size_def header_decode_containers_def header_decode_tail_def
  default_header_def kind_defs checked_mul_def numeral_loops be_defs
lemmas body_defs = body_decode_def types_decode_def types_validate_def slice_bytes_def header_size_def types_count_def numeral_loops be_defs

lemma one_call_header_decoded: "\<exists>rest. header_decode one_call = Val (Inr (one_call_header, rest))"
  by (simp add: one_call_def one_call_header_def header_defs)

lemma one_call_decoded: "eof_decode one_call = Val (Inr one_call_eof)"
proof -
  have "body_decode one_call one_call_header = Val (Inr (eof_body one_call_eof))"
    by (simp add: one_call_header_def one_call_eof_def one_call_def body_defs Let_def)
  then show ?thesis using one_call_header_decoded by (auto simp: eof_decode_def one_call_eof_def)
qed

lemma op_rows_used:
  "OPCODE_INFO_JUMPTABLE 0x00 = Some \<lparr>op_name = ''STOP'', op_inputs = 0, op_outputs = 0, op_immediate_size = 0, op_not_eof = False, op_terminating = True\<rparr>"
  "OPCODE_INFO_JUMPTABLE 0x5F = Some \<lparr>op_name = ''PUSH0'', op_inputs = 0, op_outputs = 1, op_immediate_size = 0, op_not_eof = False, op_terminating = False\<rparr>"
  "OPCODE_INFO_JUMPTABLE CALLF = Some \<lparr>op_name = ''CALLF'', op_inputs = 0, op_outputs = 0, op_immediate_size = 2, op_not_eof = False, op_terminating = False\<rparr>"
  "OPCODE_INFO_JUMPTABLE RETF = Some \<lparr>op_name = ''RETF'', op_inputs = 0, op_outputs = 0, op_immediate_size = 0, op_not_eof = False, op_terminating = True\<rparr>"
  by (simp_all add: OPCODE_INFO_JUMPTABLE_def opcode_rows_def info_defs)

lemmas pass_defs = validate_eof_code_def validate_loop.simps start_pass_def validate_instruction_def enter_instruction_def finish_instruction_def
  match_opcode_def match_callf_def table_effect_def info_io_diff_def op_rows_used default_instruction_info_def numeral_loops
  mark_as_immediate_def i32_def I32_MAX_def I32_MIN_def u16_at_def be_defs io_diff_def EOF_NON_RETURNING_FUNCTION_def

lemma one_call_first: "validate_eof_code (eof_code_of one_call_eof 0) = Val (Inr [1])"
  by (simp add: eof_code_of_def one_call_eof_def one_call_header_def pass_defs Let_def)

lemma one_call_second: "validate_eof_code (eof_code_of one_call_eof 1) = Val (Inr [])"
  by (simp add: eof_code_of_def one_call_eof_def one_call_header_def pass_defs Let_def)

lemma one_call_valid: "validate_raw_eof one_call = Val (Inr one_call_eof)"
proof -
  have b: "code_section (eof_body one_call_eof) = [[0xE3, 0, 1, 0], [0x5F, 0xE4]]"
    "types_sections (eof_body one_call_eof) = [\<lparr>ts_inputs = 0, ts_outputs = 0x80, max_stack_size = 1\<rparr>, \<lparr>ts_inputs = 0, ts_outputs = 1, max_stack_size = 1\<rparr>]"
    by (simp_all add: one_call_eof_def)
  have "validate_eof_codes one_call_eof = Val (Inr ())"
    using one_call_first one_call_second by (simp add: validate_eof_codes_def EOF_NON_RETURNING_FUNCTION_def b)
  moreover have "container_section (eof_body one_call_eof) = []" by (simp add: one_call_eof_def)
  ultimately show ?thesis by (simp add: validate_raw_eof_def one_call_decoded validate_eof_def)
qed

lemma one_call_runs:
  "(eof_step one_call_eof)\<^sup>*\<^sup>* eof_initial \<lparr>at_section = 1, at_pc = 1, operands = 1, returns = [(0, 3)]\<rparr>"
proof -
  have c: "ec_code (eof_code_of one_call_eof 0) = [0xE3, 0, 1, 0]" "ec_code (eof_code_of one_call_eof 1) = [0x5F, 0xE4]"
    by (simp_all add: eof_code_of_def one_call_eof_def)
  have "eof_step one_call_eof eof_initial \<lparr>at_section = 1, at_pc = 0, operands = 0, returns = [(0, 3)]\<rparr>"
    using eof_step.callf [of one_call_eof eof_initial] c
    by (simp add: eof_initial_def section_at_def u16_at_def be_defs eof_len_def op_row_def op_rows_used numeral_3_eq_3)
  moreover have "eof_step one_call_eof \<lparr>at_section = 1, at_pc = 0, operands = 0, returns = [(0, 3)]\<rparr> \<lparr>at_section = 1, at_pc = 1, operands = 1, returns = [(0, 3)]\<rparr>"
    using eof_step.local [of one_call_eof "\<lparr>at_section = 1, at_pc = 0, operands = 0, returns = [(0, 3)]\<rparr>" 1] c
    by (simp add: successors_def falls_through_def eof_len_def op_row_def op_rows_used height_diff_def info_io_diff_def)
  ultimately show ?thesis by (meson converse_rtranclp_into_rtranclp rtranclp.rtrancl_refl)
qed

lemma validated_safe:
  assumes "validate_raw_eof raw = Val (Inr e)" and "nested e e'" and "(eof_step e')\<^sup>*\<^sup>* eof_initial s"
  shows "safe_config e' s"
proof -
  obtain d: "eof_decode raw = Val (Inr e)" and v: "validate_eof e = Val (Inr ())"
    using assms(1) by (cases "eof_decode raw") (auto simp: validate_raw_eof_def evals split: sum.splits)
  have v': "validate_eof_codes e' = Val (Inr ())" using validate_eof_loop_all [of "[e]"] v assms(2) by (simp add: validate_eof_def)
  obtain raw' where d': "eof_decode raw' = Val (Inr e')" using nested_decoded [OF assms(2)] d by blast
  have "\<forall>t \<in> set (types_sections (eof_body e')). ts_outputs t \<le> EOF_NON_RETURNING_FUNCTION" using eof_decode_types [OF d'] by blast
  from v' this obtain lo hi where t: "container_typed e' lo hi" by (rule validated_container_typed)
  show ?thesis by (rule config_ok_safe [OF t eof_run_keeps [OF assms(3) t eof_initial_ok [OF t]]])
qed

text \<open>
  C6. Validated EOF code is safe. Take a container that \<^verbatim>\<open>validate_raw_eof\<close> accepts, or one nested in it at any depth,
  and run its sections from the first instruction, through any conditional jumps, calls and returns. At every
  point execution is at the start of an enabled instruction inside a section; its immediates are inside the code,
  the section that a \<^verbatim>\<open>CALLF\<close> or \<^verbatim>\<open>JUMPF\<close> names exists and has a fitting type, the container that an \<^verbatim>\<open>EOFCREATE\<close> names
  exists, a \<^verbatim>\<open>DATALOADN\<close> reads inside the data size that the header declares, and the operand stack holds at least the
  operands read. Not covered, since validation does not check them: the container index of \<^verbatim>\<open>RETURNCONTRACT\<close>, and
  whether the declared data is all present.
\<close>

theorem validated_code_is_safe:
  assumes "validate_raw_eof raw = Val (Inr e)" and "nested e e'" and "(eof_step e')\<^sup>*\<^sup>* eof_initial s"
  shows "safe_config e' s"
  by (rule validated_safe [OF assms])

theorem validated_code_is_safe_witness:
  "validate_raw_eof one_call = Val (Inr one_call_eof) \<and>
   safe_config one_call_eof \<lparr>at_section = 1, at_pc = 1, operands = 1, returns = [(0, 3)]\<rparr>"
  using one_call_valid validated_code_is_safe [OF one_call_valid nested.itself one_call_runs] by simp

section \<open>Returning from the first section\<close>

text \<open>A container whose first section pushes 128 words and returns.\<close>

definition push_then_return :: "nat \<Rightarrow> bytes" where
  "push_then_return n = replicate n 0x5F @ [0xE4]"

definition many_operands :: bytes where
  "many_operands = [0xEF, 0, 1, 1, 0, 4, 2, 0, 1, 0, 129, 4, 0, 0, 0, 0, 0x80, 0, 128] @ push_then_return 128"

definition many_operands_header :: eof_header where
  "many_operands_header = \<lparr>types_size = 4, code_sizes = [129], container_sizes = [], data_size = 0, sum_code_sizes = 129, sum_container_sizes = 0\<rparr>"

definition many_operands_eof :: eof where
  "many_operands_eof =
     \<lparr>eof_header = many_operands_header,
      eof_body = \<lparr>types_sections = [\<lparr>ts_inputs = 0, ts_outputs = 0x80, max_stack_size = 128\<rparr>],
        code_section = [push_then_return 128], container_section = [], data_section = [], is_data_filled = True\<rparr>,
      eof_raw = many_operands\<rparr>"

lemma length_push_then_return [simp]: "length (push_then_return n) = Suc n"
  by (simp add: push_then_return_def)

lemma many_operands_decoded: "eof_decode many_operands = Val (Inr many_operands_eof)"
proof -
  have "\<exists>rest. header_decode many_operands = Val (Inr (many_operands_header, rest))"
    by (simp add: many_operands_def many_operands_header_def header_defs)
  moreover have "body_decode many_operands many_operands_header = Val (Inr (eof_body many_operands_eof))"
    by (simp add: many_operands_header_def many_operands_eof_def many_operands_def body_defs Let_def)
  ultimately show ?thesis by (auto simp: eof_decode_def many_operands_eof_def)
qed

definition pushed_pass :: "nat \<Rightarrow> nat \<Rightarrow> code_pass" where
  "pushed_pass n i =
     \<lparr>cp_jumps = map (\<lambda>k. \<lparr>is_immediate = False, forward_jumped = False, smallest = int k, biggest = int k\<rparr>) [0..<i] @
        replicate (Suc n - i) default_instruction_info,
      is_after_termination = False, next_smallest = int i, next_biggest = int i, accessed_codes = []\<rparr>"

lemma push_passes:
  assumes "ec_code c = push_then_return n" "i < n" "n < 1024"
  shows "validate_instruction c i (pushed_pass n i) = Val (Inr (Suc i, pushed_pass n (Suc i)))"
proof -
  have "Suc n - i = Suc (Suc n - Suc i)" using assms(2) by simp
  then have e: "enter_instruction i (pushed_pass n i) = (pushed_pass n (Suc i))\<lparr>next_smallest := int i, next_biggest := int i\<rparr>"
    using assms(2,3) by (simp add: enter_instruction_def pushed_pass_def nth_append list_update_append default_instruction_info_def I32_MAX_def I32_MIN_def
        min_def max_def)
  have j: "cp_jumps (pushed_pass n (Suc i)) ! i = \<lparr>is_immediate = False, forward_jumped = False, smallest = int i, biggest = int i\<rparr>"
    by (simp add: pushed_pass_def nth_append)
  have op: "ec_code c ! i = 0x5F" using assms(1,2) by (simp add: push_then_return_def nth_append)
  show ?thesis
    using assms(2,3) j by (simp add: validate_instruction_def op op_rows_used e Let_def match_opcode_def finish_instruction_def table_effect_def
        info_io_diff_def i32_def I32_MIN_def I32_MAX_def) (simp add: pushed_pass_def)
qed

lemma pushes_pass:
  assumes "ec_code c = push_then_return n" "n < 1024" "i \<le> n"
  shows "validate_loop c i (pushed_pass n i) = validate_loop c n (pushed_pass n n)"
  using assms(3)
proof (induction "n - i" arbitrary: i)
  case (Suc m)
  then have "i < n" "m = n - Suc i" by simp_all
  then show ?case using Suc.hyps(1) [of "Suc i"] push_passes [OF assms(1) \<open>i < n\<close> assms(2)] assms(1)
    by (subst validate_loop.simps) simp
qed simp

lemma fold_max_upt: "fold (\<lambda>k m. max (int k) m) [0..<Suc n] 0 = int n"
  by (induction n) auto

lemma push_then_return_valid:
  assumes "ec_code c = push_then_return 128" "ec_types c = [\<lparr>ts_inputs = 0, ts_outputs = 0x80, max_stack_size = 128\<rparr>]" "ec_types_index c = 0"
  shows "validate_eof_code c = Val (Inr [])"
proof -
  have start: "start_pass c = pushed_pass 128 0"
    using assms by (simp add: start_pass_def pushed_pass_def)
  have j: "cp_jumps (pushed_pass 128 128) ! 128 = default_instruction_info" "length (cp_jumps (pushed_pass 128 128)) = 129"
    by (simp_all add: pushed_pass_def nth_append)
  have full: "(cp_jumps (pushed_pass 128 128))[128 := \<lparr>is_immediate = False, forward_jumped = False, smallest = 128, biggest = 128\<rparr>] =
      cp_jumps (pushed_pass 128 129)"
  proof -
    have "[0..<129] = [0..<128] @ [128 :: nat]" using upt_Suc_append [of 0 128] by simp
    then show ?thesis by (simp add: pushed_pass_def list_update_append)
  qed
  have last: "cp_jumps (pushed_pass 128 129) ! 128 = \<lparr>is_immediate = False, forward_jumped = False, smallest = 128, biggest = 128\<rparr>"
    by (simp add: pushed_pass_def nth_append)
  have op: "ec_code c ! 128 = RETF" using assms(1) by (simp add: push_then_return_def nth_append)
  have "validate_instruction c 128 (pushed_pass 128 128) =
      Val (Inr (129, (pushed_pass 128 128)\<lparr>cp_jumps := cp_jumps (pushed_pass 128 129), is_after_termination := True\<rparr>))"
    using j full last assms(2,3)
    by (simp add: validate_instruction_def op op_rows_used enter_instruction_def Let_def match_opcode_def finish_instruction_def table_effect_def
        info_io_diff_def i32_def I32_MIN_def I32_MAX_def default_instruction_info_def pushed_pass_def [of 128 128])
  then have "validate_loop c 128 (pushed_pass 128 128) = Val (Inr ((pushed_pass 128 128)\<lparr>cp_jumps := cp_jumps (pushed_pass 128 129), is_after_termination := True\<rparr>))"
    using assms(1) by (simp add: validate_loop.simps [of c 128] validate_loop.simps [of c 129])
  then have "validate_loop c 0 (start_pass c) = Val (Inr ((pushed_pass 128 128)\<lparr>cp_jumps := cp_jumps (pushed_pass 128 129), is_after_termination := True\<rparr>))"
    using pushes_pass [OF assms(1), of 0] start by simp
  moreover have "fold (\<lambda>x m. max (biggest x) m) (cp_jumps (pushed_pass 128 129)) 0 = 128"
    using fold_max_upt [of 128] by (simp add: pushed_pass_def fold_map comp_def)
  ultimately show ?thesis using assms(2,3) by (simp add: validate_eof_code_def pushed_pass_def)
qed

lemma many_operands_valid: "validate_raw_eof many_operands = Val (Inr many_operands_eof)"
proof -
  have b: "code_section (eof_body many_operands_eof) = [push_then_return 128]" "container_section (eof_body many_operands_eof) = []"
    "types_sections (eof_body many_operands_eof) = [\<lparr>ts_inputs = 0, ts_outputs = 0x80, max_stack_size = 128\<rparr>]"
    by (simp_all add: many_operands_eof_def)
  have "validate_eof_code (eof_code_of many_operands_eof 0) = Val (Inr [])"
    by (rule push_then_return_valid) (simp_all add: eof_code_of_def b)
  then have "validate_eof_codes many_operands_eof = Val (Inr ())" by (simp add: validate_eof_codes_def EOF_NON_RETURNING_FUNCTION_def b)
  then show ?thesis by (simp add: validate_raw_eof_def many_operands_decoded validate_eof_def b)
qed

text \<open>The frame after \<open>k\<close> pushes, and the run through all of them.\<close>

definition after_pushes :: "interpreter \<Rightarrow> nat \<Rightarrow> interpreter \<Rightarrow> bool" where
  "after_pushes i k j \<longleftrightarrow> ip j = k \<and> code_bytes j = push_then_return 128 \<and> instr_result j = Continue \<and> running_eof j \<and>
     call_functions j = fs_new \<and> length (stack j) = k \<and> unat (remaining (int_gas j)) + 2 * k = unat (remaining (int_gas i))"

lemma push_word_step:
  assumes "after_pushes i k j" "k < 128" "260 \<le> unat (remaining (int_gas i))" "enabled sp SHANGHAI"
  shows "\<exists>j'. step (instruction H L sp) j h = Val (j', h) \<and> after_pushes i (Suc k) j'"
proof -
  have op: "current_opcode j = Val 0x5F"
    using assms(1,2) by (simp add: after_pushes_def current_opcode_def push_then_return_def nth_append)
  have row: "instruction H L sp 0x5F = i_push0 sp" by (simp add: instruction_def instruction_rows_def)
  have gas: "\<not> remaining (int_gas j) < GAS_BASE" "unat (remaining (int_gas j) - GAS_BASE) + 2 = unat (remaining (int_gas j))"
    using assms(1-3) by (auto simp: after_pushes_def word_less_nat_alt word_le_nat_alt GAS_BASE_def unat_minus_if_le)
  show ?thesis
    using assms gas
    by (simp add: step_def op row i_push0_def check_spec_def charge_def record_cost_def stack_op_def stack_push_def finish_def
        after_pushes_def STACK_LIMIT_def)
qed

lemma pushes_run:
  assumes "after_pushes i k j" "k \<le> 128" "260 \<le> unat (remaining (int_gas i))" "enabled sp SHANGHAI"
  shows "run_loop (instruction H L sp) j h = Some Panic"
  using assms(1,2)
proof (induction "128 - k" arbitrary: k j)
  case 0
  then have k: "after_pushes i 128 j" by simp
  have op: "current_opcode j = Val RETF"
    using k by (simp add: after_pushes_def current_opcode_def push_then_return_def nth_append)
  have row: "instruction H L sp RETF = i_retf" by (simp add: instruction_def instruction_rows_def)
  have "\<not> remaining (int_gas j) < RETF_GAS"
    using k assms(3) by (auto simp: after_pushes_def word_less_nat_alt RETF_GAS_def)
  with k have "step (instruction H L sp) j h = Panic"
    by (simp add: step_def op row i_retf_def require_eof_def charge_def record_cost_def fs_pop_def fs_new_def after_pushes_def)
  with k show ?case by (subst run_loop.simps) (simp add: after_pushes_def)
next
  case (Suc n)
  then have "k < 128" by simp
  from push_word_step [OF Suc.prems(1) this assms(3,4), of H L h] obtain j' where
    j': "step (instruction H L sp) j h = Val (j', h)" "after_pushes i (Suc k) j'" by blast
  have "run_loop (instruction H L sp) j' h = Some Panic" using Suc.hyps(1) [OF _ j'(2)] Suc.hyps(2) \<open>k < 128\<close> by simp
  with j'(1) Suc.prems(1) show ?case by (subst run_loop.simps) (simp add: after_pushes_def)
qed

text \<open>
  C34. Validated code can panic the interpreter. The first section of a container does not return, which its type
  says by 0x80 outputs; \<^verbatim>\<open>RETF\<close> is validated as if that were 128 outputs. So a container whose first section pushes 128
  words and returns is accepted (the witness is one), and every frame that is started on such a container with enough
  gas for it, on any host and from \<^verbatim>\<open>SHANGHAI\<close> on, ends in a panic at the \<^verbatim>\<open>RETF\<close>, where there is no section to return to.
\<close>

theorem validated_code_can_panic:
  assumes "validate_raw_eof raw = Val (Inr e)" and "body_code (eof_body e) 0 = Some (push_then_return 128)"
    and "c_bytecode c = Eof e" and "enabled sp SHANGHAI" and "260 \<le> unat gl"
  shows "\<exists>i. interpreter_new c gl static = Val i \<and> run (make_instruction_table H L sp) m i h = Some Panic"
proof -
  obtain i where i: "interpreter_new c gl static = Val i"
    "after_pushes (i\<lparr>next_action := ActNone, memory := m\<rparr>) 0 (i\<lparr>next_action := ActNone, memory := m\<rparr>)" "int_gas i = gas_new gl"
    using assms(2,3) by (simp add: interpreter_new_def after_pushes_def)
  have "run_loop (instruction H L sp) (i\<lparr>next_action := ActNone, memory := m\<rparr>) h = Some Panic"
    using assms(5) i(3) by (intro pushes_run [OF i(2) _ _ assms(4)]) (simp_all add: gas_new_def)
  then show ?thesis using i(1) by (simp add: run_def make_instruction_table_def)
qed

theorem validated_code_can_panic_witness:
  "let c = \<lparr>c_input = [], c_bytecode = Eof many_operands_eof, c_hash = None, c_target_address = 7, c_caller = 8, c_call_values = []\<rparr>
   in validate_raw_eof many_operands = Val (Inr many_operands_eof) \<and>
      (\<exists>i. interpreter_new c 1000 False = Val i \<and>
        run (make_instruction_table dummy sample_alloy PRAGUE) EMPTY_SHARED_MEMORY i (dummy_new sample_env) = Some Panic)"
proof -
  let ?c = "\<lparr>c_input = [], c_bytecode = Eof many_operands_eof, c_hash = None, c_target_address = 7, c_caller = 8, c_call_values = []\<rparr>"
  have b: "body_code (eof_body many_operands_eof) 0 = Some (push_then_return 128)" "c_bytecode ?c = Eof many_operands_eof"
    "enabled PRAGUE SHANGHAI" "260 \<le> unat (1000 :: u64)"
    by (simp_all add: many_operands_eof_def body_code_def enabled_def)
  from validated_code_can_panic [OF many_operands_valid b] many_operands_valid show ?thesis by (simp add: Let_def)
qed

end
