(* ===== verification/Eof_Run.thy ===== *)
theory Eof_Run
  imports Eof_Tracks Eof_Safe_Code Dummy_Host
begin

text \<open>
  The interpreter on validated EOF code. A frame that runs a validated container follows the machine of
  \<open>Eof_Safety\<close>, instruction by instruction and through the returns of the frames it opens, and so never
  reports a stack underflow.
\<close>

section \<open>Jumps and sections\<close>

lemma two_bytes: "k + 2 \<le> length bs \<Longrightarrow> take 2 (drop k bs) = [bs ! k, bs ! Suc k]"
  by (simp add: take_Suc_conv_app_nth numeral_2_eq_2 flip: Cons_nth_drop_Suc)

lemma wp_read_i16_at:
  "(ip i + off + 2 \<le> length (code_bytes i) \<Longrightarrow> wp (k (i16_at (code_bytes i) (ip i + off))) Q i h) \<Longrightarrow> wp (read_i16 off k) Q i h"
  by (auto simp: wp_def read_i16_def read_code_def i16_at_def u16_at_def two_bytes split: if_splits)

lemma wp_read_u16_at:
  "(ip i + off + 2 \<le> length (code_bytes i) \<Longrightarrow> wp (k (unat (u16_at (code_bytes i) (ip i + off)))) Q i h) \<Longrightarrow> wp (read_u16 off k) Q i h"
  by (auto simp: wp_def read_u16_def read_code_def u16_at_def two_bytes split: if_splits)

lemma wp_read_byte_at:
  "(ip i < length (code_bytes i) \<Longrightarrow> wp (k (code_bytes i ! ip i)) Q i h) \<Longrightarrow> wp (read_byte k) Q i h"
  by (auto simp: wp_def read_byte_def read_code_def hd_drop_conv_nth take_Suc split: if_splits)

lemmas exact_wps = wp_require_eof wp_charge wp_read_i16_at wp_read_u16_at wp_read_byte_at wp_move_ip wp_pop1 wp_if wp_stack_op

text \<open>An instruction that stays in its section and goes on at one of the positions \<open>J\<close>.\<close>

definition jump_exit :: "nat \<Rightarrow> int set \<Rightarrow> interpreter \<Rightarrow> interpreter \<Rightarrow> bool" where
  "jump_exit n J i i' \<longleftrightarrow>
     (instr_result i' = StackUnderflow \<longrightarrow> height i < n) \<and> instr_result i' \<noteq> CallOrCreate \<and> contract i' = contract i \<and>
     running_eof i' = running_eof i \<and>
     (instr_result i' = Continue \<longrightarrow> int (ip i') \<in> J \<and> code_bytes i' = code_bytes i \<and> call_functions i' = call_functions i)"

lemma rjump_exit:
  "instr_result i = Continue \<Longrightarrow> wp i_rjump (\<lambda>i' h'. jump_exit 0 {int (ip i) + 2 + i16_at (code_bytes i) (ip i)} i i') i h"
  unfolding i_rjump_def by (intro exact_wps; simp add: jump_exit_def)

lemma rjumpi_exit:
  "instr_result i = Continue \<Longrightarrow>
     wp i_rjumpi (\<lambda>i' h'. jump_exit 1 {int (ip i) + 2 + i16_at (code_bytes i) (ip i), int (ip i) + 2} i i') i h"
  unfolding i_rjumpi_def by (intro exact_wps; simp add: jump_exit_def)

definition vtable_targets :: "interpreter \<Rightarrow> int set" where
  "vtable_targets i = (let len = unat (code_bytes i ! ip i) + 1
     in insert (int (ip i) + 1 + int (len * 2)) ((\<lambda>v. int (ip i) + 1 + int (len * 2) + i16_at (code_bytes i) (ip i + 1 + 2 * v)) ` {0..<len}))"

lemma rjumpv_exit:
  "instr_result i = Continue \<Longrightarrow> wp i_rjumpv (\<lambda>i' h'. jump_exit 1 (vtable_targets i) i i') i h"
  unfolding i_rjumpv_def Let_def
  by (intro exact_wps; auto simp: jump_exit_def vtable_targets_def Let_def algebra_simps image_iff)

lemma immediate_stack_exits:
  "instr_result i = Continue \<Longrightarrow> wp i_dupn (\<lambda>i' h'. jump_exit (unat (code_bytes i ! ip i) + 1) {int (ip i) + 1} i i') i h"
  "instr_result i = Continue \<Longrightarrow> wp i_swapn (\<lambda>i' h'. jump_exit (unat (code_bytes i ! ip i) + 2) {int (ip i) + 1} i i') i h"
  "instr_result i = Continue \<Longrightarrow> wp i_exchange (\<lambda>i' h'. jump_exit
     (unat (drop_bit 4 (code_bytes i ! ip i) + 1) + unat ((code_bytes i ! ip i AND 0x0F) + 1) + 1) {int (ip i) + 1} i i') i h"
  unfolding i_dupn_def i_swapn_def i_exchange_def Let_def
  by (intro exact_wps; auto simp: jump_exit_def dest: stack_laws stack_underflow_laws)+

text \<open>The instructions that change the section.\<close>

definition enters :: "eof \<Rightarrow> interpreter \<Rightarrow> nat \<Rightarrow> nat \<Rightarrow> function_stack \<Rightarrow> interpreter \<Rightarrow> bool" where
  "enters e i idx pc fs i' \<longleftrightarrow>
     instr_result i' \<noteq> StackUnderflow \<and> instr_result i' \<noteq> CallOrCreate \<and> contract i' = contract i \<and> running_eof i' = running_eof i \<and>
     (instr_result i' = Continue \<longrightarrow> idx < length (code_section (eof_body e)) \<and> code_bytes i' = code_section (eof_body e) ! idx \<and>
        ip i' = pc \<and> call_functions i' = fs)"

lemma section_exits:
  assumes "instr_result i = Continue" "bytecode_eof (c_bytecode (contract i)) = Some e"
  shows "wp i_callf (\<lambda>i' h'. enters e i (unat (u16_at (code_bytes i) (ip i))) 0
       (fs_push (call_functions i) (ip i + 2) (unat (u16_at (code_bytes i) (ip i)))) i') i h"
    "wp i_jumpf (\<lambda>i' h'. enters e i (unat (u16_at (code_bytes i) (ip i))) 0
       (set_current_code_idx (call_functions i) (unat (u16_at (code_bytes i) (ip i)))) i') i h"
    "wp i_retf (\<lambda>i' h'. instr_result i' \<noteq> StackUnderflow \<and> (instr_result i' \<noteq> Continue \<and> instr_result i' \<noteq> CallOrCreate \<or>
       (\<exists>f fs. fs_pop (call_functions i) = (Some f, fs) \<and> enters e i (frame_idx f) (frame_pc f) fs i'))) i h"
proof -
  have load: "load_code idx pc j h = Val (i', h') \<Longrightarrow> bytecode_eof (c_bytecode (contract j)) = Some e \<Longrightarrow>
      h' = h \<and> idx < length (code_section (eof_body e)) \<and> i' = j\<lparr>code_bytes := code_section (eof_body e) ! idx, ip := pc\<rparr>" for idx pc j i' h'
    by (auto simp: load_code_def load_eof_code_def body_code_def evals split: if_splits)
  show "wp i_callf (\<lambda>i' h'. enters e i (unat (u16_at (code_bytes i) (ip i))) 0
       (fs_push (call_functions i) (ip i + 2) (unat (u16_at (code_bytes i) (ip i)))) i') i h"
    unfolding i_callf_def
    by (intro wp_require_eof wp_charge wp_read_u16_at)
      (use assms in \<open>auto simp: wp_def enters_def fail_def section_types_def check_stack_height_def program_counter_def evals Let_def
        split: if_splits dest!: load\<close>)
  show "wp i_jumpf (\<lambda>i' h'. enters e i (unat (u16_at (code_bytes i) (ip i))) 0
       (set_current_code_idx (call_functions i) (unat (u16_at (code_bytes i) (ip i)))) i') i h"
    unfolding i_jumpf_def
    by (intro wp_require_eof wp_charge wp_read_u16_at)
      (use assms in \<open>auto simp: wp_def enters_def fail_def section_types_def check_stack_height_def evals Let_def split: if_splits dest!: load\<close>)
  show "wp i_retf (\<lambda>i' h'. instr_result i' \<noteq> StackUnderflow \<and> (instr_result i' \<noteq> Continue \<and> instr_result i' \<noteq> CallOrCreate \<or>
       (\<exists>f fs. fs_pop (call_functions i) = (Some f, fs) \<and> enters e i (frame_idx f) (frame_pc f) fs i'))) i h"
    unfolding i_retf_def
    by (intro wp_require_eof wp_charge)
      (use assms in \<open>auto simp: wp_def enters_def split: option.splits prod.splits dest!: load\<close>)
qed

section \<open>The interpreter follows the machine\<close>

definition runs_as :: "eof \<Rightarrow> interpreter \<Rightarrow> eof_config \<Rightarrow> bool" where
  "runs_as e i s \<longleftrightarrow>
     running_eof i \<and> bytecode_eof (c_bytecode (contract i)) = Some e \<and>
     code_bytes i = code_section (eof_body e) ! at_section s \<and> ip i = at_pc s \<and> int (height i) = operands s \<and>
     current_code_idx (call_functions i) = at_section s \<and>
     map (\<lambda>f. (frame_idx f, frame_pc f)) (rev (return_stack (call_functions i))) = returns s"

lemma ec_code_of [simp]: "ec_code (eof_code_of e k) = code_section (eof_body e) ! k"
  by (simp add: eof_code_of_def)

text \<open>Terminating instructions do not go on.\<close>

definition halting :: "'h instr \<Rightarrow> bool" where
  "halting f \<longleftrightarrow> (\<forall>i h. instr_result i = Continue \<longrightarrow> wp f (\<lambda>i' h'. instr_result i' \<noteq> Continue \<and> instr_result i' \<noteq> CallOrCreate) i h)"

lemma halts:
  "halting i_stop" "halting i_invalid" "halting i_ret" "halting (i_revert sp)" "halting i_return_contract" "halting (i_selfdestruct H sp)"
  unfolding i_stop_def i_invalid_def i_ret_def i_revert_def return_inner_def i_return_contract_def i_selfdestruct_def Let_def
  by (simp add: halting_def, (intro allI impI)?, intro wps; simp)+

lemma rows_halt:
  "list_all2 (\<lambda>(v, oi) (w, f). v = w \<and> (op_not_eof oi \<or> v \<in> special_ops \<or> \<not> op_terminating oi \<or> halting f)) opcode_rows (instruction_rows H L sp)"
  unfolding opcode_rows_def instruction_rows_def by (simp add: info_defs special_ops_def halts)

lemma instruction_halts:
  assumes "OPCODE_INFO_JUMPTABLE op = Some oi" "\<not> op_not_eof oi" "op \<notin> special_ops" "op_terminating oi"
  shows "halting (instruction H L sp op)"
  using map_of_rows [OF rows_halt [where H = H and L = L and sp = sp], of op] assms
  by (auto simp: OPCODE_INFO_JUMPTABLE_def instruction_def)

text \<open>The rows of the special instructions and of those that open a frame.\<close>

lemma special_infos:
  "\<forall>(v, oi) \<in> set opcode_rows.
     (v \<in> {0xF8, 0xF9, 0xFB} \<longrightarrow> op_outputs oi = 1) \<and>
     (v = RJUMPI \<longrightarrow> op_immediate_size oi = 2 \<and> \<not> op_terminating oi \<and> op_inputs oi = 1) \<and>
     (v = RJUMPV \<longrightarrow> op_immediate_size oi = 1 \<and> \<not> op_terminating oi \<and> op_inputs oi = 1) \<and>
     (v \<in> {DUPN, SWAPN, EXCHANGE} \<longrightarrow> op_immediate_size oi = 1 \<and> \<not> op_terminating oi) \<and>
     (v \<in> {CALLF, RETF, JUMPF} \<longrightarrow> op_inputs oi = 0 \<and> op_outputs oi = 0) \<and> (v = CALLF \<longrightarrow> op_immediate_size oi = 2)"
  unfolding opcode_rows_def by (simp add: info_defs)

lemma special_info:
  assumes "OPCODE_INFO_JUMPTABLE op = Some oi"
  shows "op \<in> {0xF8, 0xF9, 0xFB} \<Longrightarrow> op_outputs oi = 1"
    "op = RJUMPI \<Longrightarrow> op_immediate_size oi = 2 \<and> \<not> op_terminating oi \<and> op_inputs oi = 1"
    "op = RJUMPV \<Longrightarrow> op_immediate_size oi = 1 \<and> \<not> op_terminating oi \<and> op_inputs oi = 1"
    "op \<in> {DUPN, SWAPN, EXCHANGE} \<Longrightarrow> op_immediate_size oi = 1 \<and> \<not> op_terminating oi"
    "op \<in> {CALLF, RETF, JUMPF} \<Longrightarrow> op_inputs oi = 0 \<and> op_outputs oi = 0"
    "op = CALLF \<Longrightarrow> op_immediate_size oi = 2"
  using bspec [OF special_infos map_of_SomeD [OF assms [unfolded OPCODE_INFO_JUMPTABLE_def]]]
  unfolding prod.case by blast+

text \<open>What a step of the interpreter may do, seen from the machine.\<close>

definition follows :: "eof \<Rightarrow> eof_config \<Rightarrow> interpreter \<Rightarrow> bool" where
  "follows e s i' \<longleftrightarrow> instr_result i' \<noteq> StackUnderflow \<and>
     (instr_result i' = Continue \<longrightarrow> (\<exists>s'. eof_step e s s' \<and> runs_as e i' s')) \<and>
     (instr_result i' = CallOrCreate \<longrightarrow> (\<exists>s'. eof_step e s s' \<and> runs_as e i' (s'\<lparr>operands := operands s' - 1\<rparr>)))"

lemma local_follows:
  assumes r: "runs_as e i s" and op: "config_op e s \<notin> {CALLF, RETF, JUMPF}"
    and J: "J \<subseteq> successors (config_code e s) (at_pc s)"
    and x: "jump_exit n J (i\<lparr>ip := ip i + 1\<rparr>) i'" and n: "int n \<le> operands s"
    and h: "instr_result i' = Continue \<Longrightarrow> int (height i') = operands s + height_diff (config_code e s) (at_pc s)"
  shows "follows e s i'"
proof -
  have "instr_result i' \<noteq> StackUnderflow" "instr_result i' \<noteq> CallOrCreate" using x n r by (auto simp: jump_exit_def runs_as_def)
  moreover have "\<exists>s'. eof_step e s s' \<and> runs_as e i' s'" if c: "instr_result i' = Continue"
  proof (intro exI conjI)
    show "eof_step e s (s\<lparr>at_pc := nat (int (ip i')), operands := operands s + height_diff (config_code e s) (at_pc s)\<rparr>)"
      using x c J op by (intro eof_step.local) (auto simp: jump_exit_def)
    show "runs_as e i' (s\<lparr>at_pc := nat (int (ip i')), operands := operands s + height_diff (config_code e s) (at_pc s)\<rparr>)"
      using x c r h by (simp add: jump_exit_def runs_as_def)
  qed
  ultimately show ?thesis by (simp add: follows_def)
qed

lemma io_exit_height:
  assumes "io_exit n m i i'"
  shows "instr_result i' = Continue \<Longrightarrow> int (height i') = int (height i) + (int m - int n)"
    "instr_result i' = CallOrCreate \<Longrightarrow> int (height i') = int (height i) - int n"
  using assms by (auto simp: io_exit_def)

lemma ordinary_follows:
  assumes r: "runs_as e i s" and safe: "safe_config e s" and op: "config_op e s \<notin> special_ops" and c: "instr_result i = Continue"
    and i': "instruction H L sp (config_op e s) (i\<lparr>ip := ip i + 1\<rparr>) h = Val (i', h')"
  shows "follows e s i'"
proof -
  let ?c = "config_code e s"
  obtain row where row: "OPCODE_INFO_JUMPTABLE (config_op e s) = Some row" "\<not> op_not_eof row"
    using safe by (auto simp: safe_config_def well_formed_at_def)
  have rw: "op_row ?c (at_pc s) = row" using row by (simp add: op_row_def)
  define b where "b \<longleftrightarrow> config_op e s \<in> {0xF8, 0xF9, 0xFB}"
  have b: "b \<Longrightarrow> op_outputs row = 1" unfolding b_def by (rule special_info(1) [OF row(1)])
  have t: "track_exit b (unat (op_inputs row)) (unat (op_immediate_size row)) (i\<lparr>ip := ip i + 1\<rparr>) i'"
    unfolding b_def by (rule tracksD [OF instruction_tracks [OF row op] _ i']) (simp add: c)
  have o: "io_exit (unat (op_inputs row)) (unat (op_outputs row)) (i\<lparr>ip := ip i + 1\<rparr>) i'"
    using obeysD [OF instruction_obeys [OF row(1)] _ i'] c op by (simp add: row_io_def special_ops_def)
  have "uint (op_inputs row) \<le> operands s"
    using safe op by (simp add: safe_config_def reads_def needs_def rw special_ops_def)
  then have "int (unat (op_inputs row)) \<le> int (height i)" using r by (simp add: runs_as_def)
  then have n: "unat (op_inputs row) \<le> height i" by (simp only: of_nat_le_iff)
  have len: "eof_len ?c (at_pc s) = 1 + unat (op_immediate_size row)" "height_diff ?c (at_pc s) = info_io_diff row"
    using op by (simp_all add: eof_len_def height_diff_def rw special_ops_def)
  have step: "eof_step e s (s\<lparr>at_pc := at_pc s + eof_len ?c (at_pc s), operands := operands s + info_io_diff row\<rparr>)"
    if "\<not> op_terminating row"
    using eof_step.local [of e s "int (at_pc s + eof_len ?c (at_pc s))"] op that len(2)
    by (simp add: special_ops_def successors_def falls_through_def rw nat_add_distrib)
  have halts: "\<not> op_terminating row" if "instr_result i' = Continue \<or> instr_result i' = CallOrCreate"
  proof
    assume "op_terminating row"
    then have "wp (instruction H L sp (config_op e s)) (\<lambda>i' h'. instr_result i' \<noteq> Continue \<and> instr_result i' \<noteq> CallOrCreate) (i\<lparr>ip := ip i + 1\<rparr>) h"
      using instruction_halts [OF row op, of H L sp] c by (simp add: halting_def)
    from wpD [OF this i'] that show False by auto
  qed
  let ?s = "s\<lparr>at_pc := at_pc s + eof_len ?c (at_pc s), operands := operands s + info_io_diff row\<rparr>"
  have "instr_result i' \<noteq> StackUnderflow" using t n r by (auto simp: track_exit_def runs_as_def)
  moreover have "runs_as e i' ?s" if "instr_result i' = Continue"
    using that t io_exit_height(1) [OF o] r len by (simp add: track_exit_def runs_as_def info_io_diff_def)
  moreover have "runs_as e i' (?s\<lparr>operands := operands ?s - 1\<rparr>)" if "instr_result i' = CallOrCreate"
    using that t io_exit_height(2) [OF o] r len b by (simp add: track_exit_def runs_as_def info_io_diff_def)
  ultimately show ?thesis using halts step unfolding follows_def by blast
qed

text \<open>The six instructions whose exits were given above, at the opcode's position.\<close>

lemma rows_special:
  "list_all2 (\<lambda>(v, oi) (w, f). v = w \<and> (v = RJUMP \<longrightarrow> f = i_rjump) \<and> (v = RJUMPI \<longrightarrow> f = i_rjumpi) \<and> (v = RJUMPV \<longrightarrow> f = i_rjumpv) \<and>
     (v = CALLF \<longrightarrow> f = i_callf) \<and> (v = RETF \<longrightarrow> f = i_retf) \<and> (v = JUMPF \<longrightarrow> f = i_jumpf) \<and>
     (v = DUPN \<longrightarrow> f = i_dupn) \<and> (v = SWAPN \<longrightarrow> f = i_swapn) \<and> (v = EXCHANGE \<longrightarrow> f = i_exchange)) opcode_rows (instruction_rows H L sp)"
  unfolding opcode_rows_def instruction_rows_def by simp

lemma special_rows:
  assumes "OPCODE_INFO_JUMPTABLE op = Some oi"
  shows "op = RJUMP \<Longrightarrow> instruction H L sp op = i_rjump" "op = RJUMPI \<Longrightarrow> instruction H L sp op = i_rjumpi"
    "op = RJUMPV \<Longrightarrow> instruction H L sp op = i_rjumpv" "op = CALLF \<Longrightarrow> instruction H L sp op = i_callf"
    "op = RETF \<Longrightarrow> instruction H L sp op = i_retf" "op = JUMPF \<Longrightarrow> instruction H L sp op = i_jumpf"
    "op = DUPN \<Longrightarrow> instruction H L sp op = i_dupn" "op = SWAPN \<Longrightarrow> instruction H L sp op = i_swapn"
    "op = EXCHANGE \<Longrightarrow> instruction H L sp op = i_exchange"
  using map_of_rows [OF rows_special [where H = H and L = L and sp = sp], of op] assms
  unfolding OPCODE_INFO_JUMPTABLE_def instruction_def by auto

lemma rjump_successors:
  "ec_code c ! k = RJUMP \<Longrightarrow> {int (k + 1) + 2 + i16_at (ec_code c) (k + 1)} \<subseteq> successors c k"
  by (simp add: successors_def jump_targets_def)

lemma rjumpi_successors:
  assumes "ec_code c ! k = RJUMPI" "OPCODE_INFO_JUMPTABLE (ec_code c ! k) = Some row"
  shows "{int (k + 1) + 2 + i16_at (ec_code c) (k + 1), int (k + 1) + 2} \<subseteq> successors c k"
  using special_info(2) [OF assms(2,1)] assms by (simp add: successors_def jump_targets_def falls_through_def eof_len_def op_row_def)

lemma rjumpv_successors:
  assumes "ec_code c ! k = RJUMPV" "OPCODE_INFO_JUMPTABLE (ec_code c ! k) = Some row" "code_bytes i = ec_code c" "ip i = k + 1"
  shows "vtable_targets i \<subseteq> successors c k"
  using special_info(3) [OF assms(2,1)] assms
  by (auto simp: successors_def jump_targets_def falls_through_def eof_len_def op_row_def vtable_targets_def rjumpv_targets_def Let_def
      image_iff algebra_simps simp del: upt_Suc)

lemma immediate_successors:
  assumes "ec_code c ! k \<in> {DUPN, SWAPN, EXCHANGE}" "OPCODE_INFO_JUMPTABLE (ec_code c ! k) = Some row"
  shows "{int (k + 1) + 1} \<subseteq> successors c k"
  using special_info(4) [OF assms(2,1)] assms by (auto simp: successors_def falls_through_def eof_len_def op_row_def)

lemma jump_kinds:
  assumes i: "code_bytes i = ec_code c" "ip i = k + 1" "instr_result i = Continue" and w: "OPCODE_INFO_JUMPTABLE (ec_code c ! k) = Some row"
    and op: "ec_code c ! k \<in> {RJUMP, RJUMPI, RJUMPV, DUPN, SWAPN, EXCHANGE}"
    and i': "instruction H L sp (ec_code c ! k) i h = Val (i', h')"
  shows "\<exists>n J. jump_exit n J i i' \<and> J \<subseteq> successors c k \<and> int n \<le> needs c k"
proof -
  have row: "op_row c k = row" using w by (simp add: op_row_def)
  consider "ec_code c ! k = RJUMP" | "ec_code c ! k = RJUMPI" | "ec_code c ! k = RJUMPV"
    | "ec_code c ! k = DUPN" | "ec_code c ! k = SWAPN" | "ec_code c ! k = EXCHANGE" using op by blast
  then show ?thesis
  proof cases
    case 1
    have "jump_exit 0 {int (ip i) + 2 + i16_at (code_bytes i) (ip i)} i i'"
      by (intro wpD [OF rjump_exit [OF i(3)] i' [unfolded special_rows(1) [OF w 1]]])
    then show ?thesis using rjump_successors [OF 1] i 1
      by (intro exI [of _ 0] exI [of _ "{int (ip i) + 2 + i16_at (code_bytes i) (ip i)}"]) (simp add: needs_def)
  next
    case 2
    have "jump_exit 1 {int (ip i) + 2 + i16_at (code_bytes i) (ip i), int (ip i) + 2} i i'"
      by (intro wpD [OF rjumpi_exit [OF i(3)] i' [unfolded special_rows(2) [OF w 2]]])
    moreover have "needs c k = 1" using special_info(2) [OF w 2] 2 by (simp add: needs_def row)
    ultimately show ?thesis using rjumpi_successors [OF 2 w] i by (metis of_nat_1 order_refl)
  next
    case 3
    have "jump_exit 1 (vtable_targets i) i i'" by (intro wpD [OF rjumpv_exit [OF i(3)] i' [unfolded special_rows(3) [OF w 3]]])
    moreover have "needs c k = 1" using special_info(3) [OF w 3] 3 by (simp add: needs_def row)
    ultimately show ?thesis using rjumpv_successors [OF 3 w i(1,2)] by (metis of_nat_1 order_refl)
  next
    case 4
    have "jump_exit (unat (code_bytes i ! ip i) + 1) {int (ip i) + 1} i i'"
      by (intro wpD [OF immediate_stack_exits(1) [OF i(3)] i' [unfolded special_rows(7) [OF w 4]]])
    moreover have "needs c k = int (unat (code_bytes i ! ip i) + 1)" using 4 i by (simp add: needs_def)
    ultimately show ?thesis using immediate_successors [OF _ w] 4 i by (metis insertI1 order_refl)
  next
    case 5
    have "jump_exit (unat (code_bytes i ! ip i) + 2) {int (ip i) + 1} i i'"
      by (intro wpD [OF immediate_stack_exits(2) [OF i(3)] i' [unfolded special_rows(8) [OF w 5]]])
    moreover have "needs c k = int (unat (code_bytes i ! ip i) + 2)" using 5 i by (simp add: needs_def)
    ultimately show ?thesis using immediate_successors [OF _ w] 5 i by (metis insertI1 insertI2 order_refl)
  next
    case 6
    have "jump_exit (unat (drop_bit 4 (code_bytes i ! ip i) + 1) + unat ((code_bytes i ! ip i AND 0x0F) + 1) + 1) {int (ip i) + 1} i i'"
      by (intro wpD [OF immediate_stack_exits(3) [OF i(3)] i' [unfolded special_rows(9) [OF w 6]]])
    moreover have "needs c k = int (unat (drop_bit 4 (code_bytes i ! ip i) + 1) + unat ((code_bytes i ! ip i AND 0x0F) + 1) + 1)"
      using 6 i by (simp add: needs_def Let_def)
    ultimately show ?thesis using immediate_successors [OF _ w] 6 i by (metis insertI1 insertI2 order_refl)
  qed
qed

lemma jumps_follow:
  assumes r: "runs_as e i s" and safe: "safe_config e s" and op: "config_op e s \<in> {RJUMP, RJUMPI, RJUMPV, DUPN, SWAPN, EXCHANGE}"
    and c: "instr_result i = Continue"
    and i': "instruction H L sp (config_op e s) (i\<lparr>ip := ip i + 1\<rparr>) h = Val (i', h')"
  shows "follows e s i'"
proof -
  let ?c = "config_code e s" and ?i = "i\<lparr>ip := ip i + 1\<rparr>"
  obtain row where row: "OPCODE_INFO_JUMPTABLE (config_op e s) = Some row" using safe by (auto simp: safe_config_def well_formed_at_def)
  have ne: "config_op e s \<noteq> CALLF" "config_op e s \<noteq> JUMPF" "config_op e s \<noteq> EOFCREATE" "config_op e s \<notin> {CALLF, RETF, JUMPF}"
    using op by auto
  have o: "io_exit (unat (op_inputs row)) (unat (op_outputs row)) ?i i'"
    using obeysD [OF instruction_obeys [OF row] _ i'] c ne(3) by (simp add: row_io_def)
  have h: "int (height i') = operands s + height_diff ?c (at_pc s)" if "instr_result i' = Continue"
    using io_exit_height(1) [OF o that] r ne(1) row by (simp add: height_diff_def op_row_def info_io_diff_def runs_as_def)
  have i: "code_bytes ?i = ec_code ?c" "ip ?i = at_pc s + 1" "instr_result ?i = Continue" using r c by (simp_all add: runs_as_def)
  obtain n J where "jump_exit n J ?i i'" "J \<subseteq> successors ?c (at_pc s)" "int n \<le> needs ?c (at_pc s)"
    using jump_kinds [OF i row op i'] by blast
  moreover have "needs ?c (at_pc s) \<le> operands s" using safe ne(2) by (simp add: safe_config_def reads_def)
  ultimately show ?thesis using local_follows [OF r ne(4) _ _ _ h] by simp
qed

lemma sections_follow:
  assumes r: "runs_as e i s" and safe: "safe_config e s" and op: "config_op e s \<in> {CALLF, RETF, JUMPF}" and c: "instr_result i = Continue"
    and i': "instruction H L sp (config_op e s) (i\<lparr>ip := ip i + 1\<rparr>) h = Val (i', h')"
  shows "follows e s i'"
proof -
  let ?c = "config_code e s" and ?i = "i\<lparr>ip := ip i + 1\<rparr>"
  obtain row where row: "OPCODE_INFO_JUMPTABLE (config_op e s) = Some row" using safe by (auto simp: safe_config_def well_formed_at_def)
  have "op_inputs row = 0 \<and> op_outputs row = 0" by (rule special_info(5) [OF row op])
  then have h: "height i' = height i" if "instr_result i' = Continue"
    using obeysD [OF instruction_obeys [OF row] _ i'] c op that by (auto simp: row_io_def io_exit_def)
  have i: "instr_result ?i = Continue" "bytecode_eof (c_bytecode (contract ?i)) = Some e" using r c by (simp_all add: runs_as_def)
  consider "config_op e s = CALLF" | "config_op e s = JUMPF" | "config_op e s = RETF" using op by blast
  then show ?thesis
  proof cases
    case 1
    have len: "eof_len ?c (at_pc s) = 3" using special_info(6) [OF row 1] 1 row by (simp add: eof_len_def op_row_def)
    have x: "enters e ?i (section_at ?c (at_pc s)) 0 (fs_push (call_functions i) (at_pc s + 3) (section_at ?c (at_pc s))) i'"
      using wpD [OF section_exits(1) [OF i] i' [unfolded special_rows(4) [OF row 1]]] r by (simp add: section_at_def runs_as_def numeral_3_eq_3)
    then have "runs_as e i' (s\<lparr>at_section := section_at ?c (at_pc s), at_pc := 0, returns := (at_section s, at_pc s + eof_len ?c (at_pc s)) # returns s\<rparr>)"
      if "instr_result i' = Continue" using that r h by (simp add: enters_def runs_as_def fs_push_def len)
    then show ?thesis using x eof_step.callf [OF 1] unfolding follows_def enters_def by blast
  next
    case 2
    have x: "enters e ?i (section_at ?c (at_pc s)) 0 (set_current_code_idx (call_functions i) (section_at ?c (at_pc s))) i'"
      using wpD [OF section_exits(2) [OF i] i' [unfolded special_rows(6) [OF row 2]]] r by (simp add: section_at_def runs_as_def)
    then have "runs_as e i' (s\<lparr>at_section := section_at ?c (at_pc s), at_pc := 0\<rparr>)"
      if "instr_result i' = Continue" using that r h by (simp add: enters_def runs_as_def set_current_code_idx_def)
    then show ?thesis using x eof_step.jumpf [OF 2] unfolding follows_def enters_def by blast
  next
    case 3
    have x: "instr_result i' \<noteq> StackUnderflow \<and> (instr_result i' \<noteq> Continue \<and> instr_result i' \<noteq> CallOrCreate \<or>
       (\<exists>f fs. fs_pop (call_functions i) = (Some f, fs) \<and> enters e ?i (frame_idx f) (frame_pc f) fs i'))"
      using wpD [OF section_exits(3) [OF i] i' [unfolded special_rows(5) [OF row 3]]] by simp
    show ?thesis
    proof (cases "instr_result i' = Continue \<or> instr_result i' = CallOrCreate")
      case True
      with x obtain f fs where f: "fs_pop (call_functions i) = (Some f, fs)" "enters e ?i (frame_idx f) (frame_pc f) fs i'" by auto
      then obtain rest where fs: "return_stack (call_functions i) = rest @ [f]" "return_stack fs = rest" "current_code_idx fs = frame_idx f"
        by (auto simp: fs_pop_def Let_def split: if_splits) (metis append_butlast_last_id)
      then have ret: "returns s = (frame_idx f, frame_pc f) # map (\<lambda>f. (frame_idx f, frame_pc f)) (rev rest)" using r by (auto simp: runs_as_def)
      have "runs_as e i' (s\<lparr>at_section := frame_idx f, at_pc := frame_pc f, returns := map (\<lambda>f. (frame_idx f, frame_pc f)) (rev rest)\<rparr>)"
        if "instr_result i' = Continue" using that f(2) fs r h by (simp add: enters_def runs_as_def)
      then show ?thesis using f(2) eof_step.retf [OF 3 ret] unfolding follows_def enters_def by blast
    qed (use x in \<open>simp add: follows_def\<close>)
  qed
qed

lemma step_follows:
  assumes r: "runs_as e i s" and safe: "safe_config e s" and op: "config_op e s \<noteq> EOFCREATE" and c: "instr_result i = Continue"
    and i': "step (instruction H L sp) i h = Val (i', h')"
  shows "follows e s i'"
proof -
  have i: "instruction H L sp (config_op e s) (i\<lparr>ip := ip i + 1\<rparr>) h = Val (i', h')"
    using i' r by (auto simp: step_def current_opcode_def evals runs_as_def split: if_splits)
  consider "config_op e s \<notin> special_ops" | "config_op e s \<in> {RJUMP, RJUMPI, RJUMPV, DUPN, SWAPN, EXCHANGE}"
    | "config_op e s \<in> {CALLF, RETF, JUMPF}" using op by (auto simp: special_ops_def)
  then show ?thesis
    by cases (rule ordinary_follows [OF r safe _ c i] jumps_follow [OF r safe _ c i] sections_follow [OF r safe _ c i], assumption)+
qed

section \<open>A frame\<close>

text \<open>
  The life of a frame: steps while the result is \<^verbatim>\<open>Continue\<close>, and the insertion of the outcome of a frame it opened (the shared
  memory is handed back with it).
\<close>

inductive frame_run :: "'h host \<Rightarrow> alloy \<Rightarrow> spec_id \<Rightarrow> interpreter \<Rightarrow> interpreter \<Rightarrow> bool" for H L sp where
  start: "frame_run H L sp i i"
| step_on: "frame_run H L sp i j \<Longrightarrow> instr_result j = Continue \<Longrightarrow> step (instruction H L sp) j h = Val (k, h') \<Longrightarrow> frame_run H L sp i k"
| call_returns: "frame_run H L sp i j \<Longrightarrow> instr_result j = CallOrCreate \<Longrightarrow> insert_call_outcome m out j = Val (k, m') \<Longrightarrow>
    frame_run H L sp i (k\<lparr>memory := m''\<rparr>)"
| create_returns: "frame_run H L sp i j \<Longrightarrow> instr_result j = CallOrCreate \<Longrightarrow> insert_create_outcome out j = Val k \<Longrightarrow>
    frame_run H L sp i (k\<lparr>memory := m''\<rparr>)"

text \<open>An outcome leaves one word on the stack, or ends the frame with an overflow.\<close>

definition resumed :: "interpreter \<Rightarrow> interpreter \<Rightarrow> bool" where
  "resumed j k \<longleftrightarrow> contract k = contract j \<and> running_eof k = running_eof j \<and> code_bytes k = code_bytes j \<and> ip k = ip j \<and>
     call_functions k = call_functions j \<and>
     (instr_result k = Continue \<and> height k = height j + 1 \<or> instr_result k = StackOverflow)"

lemma outcome_resumes:
  "insert_call_outcome m out j = Val (k, m') \<Longrightarrow> resumed j (k\<lparr>memory := m''\<rparr>)"
  "insert_create_outcome cout j = Val k \<Longrightarrow> resumed j (k\<lparr>memory := m''\<rparr>)"
  by (auto simp: insert_call_outcome_def insert_create_outcome_def push_or_fail_def return_gas_def return_gas_and_refund_def stack_push_def
      resumed_def Let_def evals split: if_splits prod.splits)

text \<open>The code of a container uses no \<^verbatim>\<open>EOFCREATE\<close>: the instruction leaves the stack one word lower than validation assumes.\<close>

definition no_eofcreate :: "eof \<Rightarrow> bool" where
  "no_eofcreate e \<longleftrightarrow> (\<forall>k < length (code_section (eof_body e)). \<forall>pc < length (ec_code (eof_code_of e k)).
     eof_start (eof_code_of e k) pc \<longrightarrow> ec_code (eof_code_of e k) ! pc \<noteq> EOFCREATE)"

definition on_track :: "eof \<Rightarrow> interpreter \<Rightarrow> bool" where
  "on_track e i \<longleftrightarrow> instr_result i \<noteq> StackUnderflow \<and>
     (instr_result i = Continue \<longrightarrow> (\<exists>s. (eof_step e)\<^sup>*\<^sup>* eof_initial s \<and> runs_as e i s)) \<and>
     (instr_result i = CallOrCreate \<longrightarrow> (\<exists>s. (eof_step e)\<^sup>*\<^sup>* eof_initial s \<and> runs_as e i (s\<lparr>operands := operands s - 1\<rparr>)))"

lemma resumed_on_track: "on_track e j \<Longrightarrow> instr_result j = CallOrCreate \<Longrightarrow> resumed j k \<Longrightarrow> on_track e k"
  by (auto simp: on_track_def resumed_def runs_as_def)

lemma frame_run_on_track:
  assumes "frame_run H L sp i j" and "on_track e i" and safe: "\<And>s. (eof_step e)\<^sup>*\<^sup>* eof_initial s \<Longrightarrow> safe_config e s" and "no_eofcreate e"
  shows "on_track e j"
  using assms(1,2)
proof induction
  case (step_on i j h k h')
  then obtain s where s: "(eof_step e)\<^sup>*\<^sup>* eof_initial s" "runs_as e j s" by (auto simp: on_track_def)
  have "config_op e s \<noteq> EOFCREATE" using safe [OF s(1)] assms(4) by (auto simp: safe_config_def no_eofcreate_def)
  then have "follows e s k" by (rule step_follows [OF s(2) safe [OF s(1)] _ step_on.hyps(2,3)])
  moreover have "eof_step e s s' \<Longrightarrow> (eof_step e)\<^sup>*\<^sup>* eof_initial s'" for s' using s(1) by simp
  ultimately show ?case unfolding follows_def on_track_def by blast
qed (auto intro: resumed_on_track outcome_resumes)

lemma interpreter_new_on_track:
  assumes "interpreter_new c gl static = Val i" "c_bytecode c = Eof e"
  shows "on_track e i"
proof -
  have "runs_as e i eof_initial"
    using assms by (auto simp: interpreter_new_def runs_as_def eof_initial_def body_code_def fs_new_def evals split: if_splits)
  moreover have "instr_result i = Continue" using assms by (auto simp: interpreter_new_def evals split: if_splits)
  ultimately show ?thesis by (auto simp: on_track_def)
qed

text \<open>
  C5. Validated code never underflows the stack. A frame that starts on a container accepted by \<^verbatim>\<open>validate_raw_eof\<close>, or
  on one nested in it, whose code has no \<^verbatim>\<open>EOFCREATE\<close>, never ends with a stack underflow, whatever it executes, whatever
  the host answers and however the frames it opens end. While it goes on, its instruction pointer is at an
  instruction of the section it runs, in a state that the abstract machine reaches.
\<close>

theorem validated_code_never_underflows:
  assumes "validate_raw_eof raw = Val (Inr e)" and "nested e e'" and "no_eofcreate e'"
    and "interpreter_new c gl static = Val i" and "c_bytecode c = Eof e'" and "frame_run H L sp i j"
  shows "instr_result j \<noteq> StackUnderflow \<and> (instr_result j = Continue \<longrightarrow> (\<exists>s. safe_config e' s \<and> runs_as e' j s))"
proof -
  note safe = validated_safe [OF assms(1,2)]
  have "on_track e' j" by (rule frame_run_on_track [OF assms(6) interpreter_new_on_track [OF assms(4,5)] safe assms(3)])
  then show ?thesis using safe by (auto simp: on_track_def)
qed

text \<open>The container of one call, run for its first instruction.\<close>

definition calling_contract :: contract where
  "calling_contract = \<lparr>c_input = [], c_bytecode = Eof one_call_eof, c_hash = None, c_target_address = 7, c_caller = 8, c_call_values = []\<rparr>"

lemma one_call_no_eofcreate: "no_eofcreate one_call_eof"
  by (auto simp: no_eofcreate_def one_call_eof_def less_Suc_eq nth_Cons' split: if_splits)

theorem validated_code_never_underflows_witness:
  "\<exists>i j h'. interpreter_new calling_contract 1000 False = Val i \<and>
     step (instruction dummy sample_alloy CANCUN) i (dummy_new sample_env) = Val (j, h') \<and> ip j = 0 \<and> code_bytes j = [0x5F, 0xE4] \<and>
     instr_result j \<noteq> StackUnderflow \<and> (\<exists>s. safe_config one_call_eof s \<and> runs_as one_call_eof j s)"
proof -
  obtain i where i: "interpreter_new calling_contract 1000 False = Val i" "instr_result i = Continue" "ip i = 0"
    "code_bytes i = [0xE3, 0, 1, 0]" "running_eof i" "int_gas i = gas_new 1000" "call_functions i = fs_new" "contract i = calling_contract" "stack i = []"
    by (simp add: interpreter_new_def calling_contract_def one_call_eof_def body_code_def)
  have "instruction dummy sample_alloy CANCUN 0xE3 = i_callf" by (rule special_rows(4) [OF op_rows_used(3) refl])
  then have "\<exists>j. step (instruction dummy sample_alloy CANCUN) i (dummy_new sample_env) = Val (j, dummy_new sample_env) \<and> ip j = 0 \<and>
      code_bytes j = [0x5F, 0xE4] \<and> instr_result j = Continue"
    using i by (simp add: step_def current_opcode_def i_callf_def require_eof_def charge_def record_cost_def gas_new_def GAS_LOW_def read_u16_def read_code_def
        be_defs return_stack_len_def fs_new_def section_types_def calling_contract_def one_call_eof_def check_stack_height_def minus_or_panic_def
        checked_sub_def load_code_def load_eof_code_def body_code_def)
  then obtain j where j: "step (instruction dummy sample_alloy CANCUN) i (dummy_new sample_env) = Val (j, dummy_new sample_env)"
    "ip j = 0" "code_bytes j = [0x5F, 0xE4]" "instr_result j = Continue" by blast
  have "frame_run dummy sample_alloy CANCUN i j" by (rule frame_run.step_on [OF frame_run.start i(2) j(1)])
  from validated_code_never_underflows [OF one_call_valid nested.itself one_call_no_eofcreate i(1) _ this] show ?thesis
    using i(1) j by (auto simp: calling_contract_def)
qed

end
