(* ===== verification/Precompiles.thy ===== *)
theory Precompiles
  imports Evm_Context
begin

text \<open>
  The precompiled contracts of \<^verbatim>\<open>crates/precompile/src\<close> that are byte and integer code: the padding
  helpers of \<^verbatim>\<open>utilities.rs\<close>, the identity and the hashes (\<^verbatim>\<open>identity.rs\<close>, \<^verbatim>\<open>hash.rs\<close>), the
  compression function of BLAKE2 (\<^verbatim>\<open>blake2.rs\<close>, complete) and the big modular exponentiation
  (\<^verbatim>\<open>modexp.rs\<close>). The hash functions and the exponentiation itself are third-party crates and
  arguments here. A precompile returns its \<^verbatim>\<open>PrecompileResult\<close> or panics.
\<close>

unbundle bit_operations_syntax

type_synonym standard_precompile = "bytes \<Rightarrow> u64 \<Rightarrow> precompile_result eval"

abbreviation ok_result :: "u64 \<Rightarrow> bytes \<Rightarrow> precompile_result" where
  "ok_result g out \<equiv> Inr (Result \<lparr>gas_used = g, returned_bytes = out\<rparr>)"

section \<open>Padding\<close>

text \<open>\<^verbatim>\<open>data.get(offset..).unwrap_or_default()\<close>.\<close>

definition get_from :: "bytes \<Rightarrow> nat \<Rightarrow> bytes" where
  "get_from data offset = (if offset \<le> length data then drop offset data else [])"

definition right_pad :: "nat \<Rightarrow> bytes \<Rightarrow> bytes" where
  "right_pad LEN data =
     (if LEN \<le> length data then take LEN data else data @ replicate (LEN - length data) 0)"

definition right_pad_with_offset :: "nat \<Rightarrow> bytes \<Rightarrow> nat \<Rightarrow> bytes" where
  "right_pad_with_offset LEN data offset = right_pad LEN (get_from data offset)"

definition left_pad :: "nat \<Rightarrow> bytes \<Rightarrow> bytes" where
  "left_pad LEN data =
     (if LEN \<le> length data then take LEN data else replicate (LEN - length data) 0 @ data)"

text \<open>The variants on vectors: \<^verbatim>\<open>vec![0; len]\<close> panics beyond \<^verbatim>\<open>isize::MAX\<close> bytes.\<close>

definition zeroed_vec :: "nat \<Rightarrow> bytes eval" where
  "zeroed_vec n = (if n < 2 ^ 63 then Val (replicate n 0) else Panic)"

definition right_pad_vec :: "bytes \<Rightarrow> nat \<Rightarrow> bytes eval" where
  "right_pad_vec data len =
     (if len \<le> length data then Val (take len data)
      else bindE (zeroed_vec len) (\<lambda>padded. Val (data @ drop (length data) padded)))"

definition left_pad_vec :: "bytes \<Rightarrow> nat \<Rightarrow> bytes eval" where
  "left_pad_vec data len =
     (if len \<le> length data then Val (take len data)
      else bindE (zeroed_vec len) (\<lambda>padded. Val (take (len - length data) padded @ data)))"

definition right_pad_with_offset_vec :: "bytes \<Rightarrow> nat \<Rightarrow> nat \<Rightarrow> bytes eval" where
  "right_pad_with_offset_vec data offset len = right_pad_vec (get_from data offset) len"

definition bool_to_bytes32 :: "bool \<Rightarrow> bytes" where
  "bool_to_bytes32 v = replicate 31 0 @ [if v then 1 else 0]"

section \<open>Linear costs, identity and hashes\<close>

text \<open>\<^verbatim>\<open>(len as u64 + 32 - 1) / 32 * word + base\<close>, left to right.\<close>

definition calc_linear_cost_u32 :: "nat \<Rightarrow> u64 \<Rightarrow> u64 \<Rightarrow> u64 eval" where
  "calc_linear_cost_u32 len base word =
     bindE (plus_or_panic (of_nat len) 32) (\<lambda>x.
     bindE (minus_or_panic x 1) (\<lambda>x.
     bindE (times_or_panic (x div 32) word) (\<lambda>x.
     plus_or_panic x base)))"

definition u64_to_address :: "u64 \<Rightarrow> address" where
  "u64_to_address x = from_be_bytes (replicate 12 0 @ to_be_bytes x)"

definition IDENTITY_BASE :: u64 where "IDENTITY_BASE = 15"
definition IDENTITY_PER_WORD :: u64 where "IDENTITY_PER_WORD = 3"

definition identity_run :: standard_precompile where
  "identity_run input gl =
     bindE (calc_linear_cost_u32 (length input) IDENTITY_BASE IDENTITY_PER_WORD) (\<lambda>used.
     Val (if gl < used then Inl PE_OutOfGas else ok_result used input))"

text \<open>The third-party hash functions and big integer arithmetic.\<close>

record crypto_lib =
  sha256_digest :: "bytes \<Rightarrow> b256"
  ripemd160_digest :: "bytes \<Rightarrow> address"
  aurora_modexp :: "bytes \<Rightarrow> bytes \<Rightarrow> bytes \<Rightarrow> bytes"

definition sha256_run :: "'x crypto_lib_scheme \<Rightarrow> standard_precompile" where
  "sha256_run X input gl =
     bindE (calc_linear_cost_u32 (length input) 60 12) (\<lambda>cost.
     Val (if gl < cost then Inl PE_OutOfGas else ok_result cost (to_be_bytes (sha256_digest X input))))"

definition ripemd160_run :: "'x crypto_lib_scheme \<Rightarrow> standard_precompile" where
  "ripemd160_run X input gl =
     bindE (calc_linear_cost_u32 (length input) 600 120) (\<lambda>used.
     Val (if gl < used then Inl PE_OutOfGas
          else ok_result used (replicate 12 0 @ to_be_bytes (ripemd160_digest X input))))"

section \<open>BLAKE2\<close>

definition BLAKE2_SIGMA :: "nat list list" where
  "BLAKE2_SIGMA =
    [[0, 1, 2, 3, 4, 5, 6, 7, 8, 9, 10, 11, 12, 13, 14, 15],
     [14, 10, 4, 8, 9, 15, 13, 6, 1, 12, 0, 2, 11, 7, 5, 3],
     [11, 8, 12, 0, 5, 2, 15, 13, 10, 14, 3, 6, 7, 1, 9, 4],
     [7, 9, 3, 1, 13, 12, 11, 14, 2, 6, 5, 10, 4, 0, 15, 8],
     [9, 0, 5, 7, 2, 4, 10, 15, 14, 1, 11, 12, 6, 8, 3, 13],
     [2, 12, 6, 10, 0, 11, 8, 3, 4, 13, 7, 5, 15, 14, 1, 9],
     [12, 5, 1, 15, 14, 13, 4, 10, 0, 7, 6, 3, 9, 2, 8, 11],
     [13, 11, 7, 14, 12, 1, 3, 9, 5, 0, 15, 4, 8, 6, 2, 10],
     [6, 15, 14, 9, 11, 3, 0, 8, 12, 2, 13, 7, 1, 4, 10, 5],
     [10, 2, 8, 4, 7, 6, 1, 5, 15, 11, 9, 14, 3, 12, 13, 0]]"

definition IV :: "u64 list" where
  "IV =
    [0x6a09e667f3bcc908, 0xbb67ae8584caa73b, 0x3c6ef372fe94f82b, 0xa54ff53a5f1d36f1,
     0x510e527fade682d1, 0x9b05688c2b3e6c1f, 0x1f83d9abfb41bd6b, 0x5be0cd19137e2179]"

definition blake2_g :: "nat \<Rightarrow> nat \<Rightarrow> nat \<Rightarrow> nat \<Rightarrow> u64 \<Rightarrow> u64 \<Rightarrow> u64 list \<Rightarrow> u64 list" where
  "blake2_g a b c d x y v =
     (let v = v[a := v ! a + v ! b + x];
          v = v[d := word_rotr 32 (v ! d XOR v ! a)];
          v = v[c := v ! c + v ! d];
          v = v[b := word_rotr 24 (v ! b XOR v ! c)];
          v = v[a := v ! a + v ! b + y];
          v = v[d := word_rotr 16 (v ! d XOR v ! a)];
          v = v[c := v ! c + v ! d]
      in v[b := word_rotr 63 (v ! b XOR v ! c)])"

text \<open>One round: the body of the loop of \<^verbatim>\<open>compress\<close>.\<close>

definition blake2_round :: "u64 list \<Rightarrow> nat \<Rightarrow> u64 list \<Rightarrow> u64 list" where
  "blake2_round m i v =
     (let s = BLAKE2_SIGMA ! (i mod 10);
          v = blake2_g 0 4 8 12 (m ! (s ! 0)) (m ! (s ! 1)) v;
          v = blake2_g 1 5 9 13 (m ! (s ! 2)) (m ! (s ! 3)) v;
          v = blake2_g 2 6 10 14 (m ! (s ! 4)) (m ! (s ! 5)) v;
          v = blake2_g 3 7 11 15 (m ! (s ! 6)) (m ! (s ! 7)) v;
          v = blake2_g 0 5 10 15 (m ! (s ! 8)) (m ! (s ! 9)) v;
          v = blake2_g 1 6 11 12 (m ! (s ! 10)) (m ! (s ! 11)) v;
          v = blake2_g 2 7 8 13 (m ! (s ! 12)) (m ! (s ! 13)) v
      in blake2_g 3 4 9 14 (m ! (s ! 14)) (m ! (s ! 15)) v)"

fun blake2_rounds :: "nat \<Rightarrow> u64 list \<Rightarrow> u64 list \<Rightarrow> u64 list" where
  "blake2_rounds 0 m v = v"
| "blake2_rounds (Suc n) m v = blake2_round m n (blake2_rounds n m v)"

definition blake2_compress :: "nat \<Rightarrow> u64 list \<Rightarrow> u64 list \<Rightarrow> u64 list \<Rightarrow> bool \<Rightarrow> u64 list" where
  "blake2_compress rounds h m t f =
     (let v = h @ IV;
          v = v[12 := v ! 12 XOR t ! 0];
          v = v[13 := v ! 13 XOR t ! 1];
          v = (if f then v[14 := NOT (v ! 14)] else v);
          v = blake2_rounds rounds m v
      in map (\<lambda>i. h ! i XOR (v ! i XOR v ! (i + 8))) [0..<8])"

definition from_le_bytes :: "bytes \<Rightarrow> 'a::len word" where
  "from_le_bytes bs = from_be_bytes (rev bs)"

definition to_le_bytes :: "'a::len word \<Rightarrow> bytes" where
  "to_le_bytes w = rev (to_be_bytes w)"

text \<open>The little-endian words at \<open>n\<close> positions from \<open>pos\<close> on, eight bytes apart.\<close>

definition le_words :: "bytes \<Rightarrow> nat \<Rightarrow> nat \<Rightarrow> u64 list" where
  "le_words input pos n = map (\<lambda>i. from_le_bytes (take 8 (drop (pos + 8 * i) input))) [0..<n]"

definition F_ROUND :: u64 where "F_ROUND = 1"
definition INPUT_LENGTH :: nat where "INPUT_LENGTH = 213"

definition blake2_run :: standard_precompile where
  "blake2_run input gl =
     (if length input \<noteq> INPUT_LENGTH then Val (Inl PE_Blake2WrongLength)
      else if input ! 212 \<noteq> 1 \<and> input ! 212 \<noteq> 0 then Val (Inl PE_Blake2WrongFinalIndicatorFlag)
      else
        let f = (input ! 212 = 1);
            rounds = unat (from_be_bytes (take 4 input) :: u32)
        in bindE (times_or_panic (of_nat rounds) F_ROUND) (\<lambda>used.
           if gl < used then Val (Inl PE_OutOfGas)
           else
             let h = le_words input 4 8;
                 m = le_words input 68 16;
                 t = le_words input 196 2
             in Val (ok_result used (concat (map to_le_bytes (blake2_compress rounds h m t f))))))"

section \<open>Modular exponentiation\<close>

definition calculate_iteration_count :: "u64 \<Rightarrow> u256 \<Rightarrow> u64" where
  "calculate_iteration_count exp_length exp_highp =
     max (if exp_length \<le> 32 \<and> exp_highp = 0 then 0
          else if exp_length \<le> 32 then of_nat (bit_length (unat exp_highp)) - 1
          else saturating_add (saturating_mul 8 (exp_length - 32))
                 (max 1 (of_nat (bit_length (unat exp_highp))) - 1)) 1"

definition saturating_to_u64 :: "u256 \<Rightarrow> u64" where
  "saturating_to_u64 w = (if unat w < 2 ^ 64 then ucast w else - 1)"

text \<open>The arithmetic of \<^verbatim>\<open>U256\<close> wraps; the bounds of the small cases rule overflow out.\<close>

definition mul_complexity :: "u64 \<Rightarrow> u256" where
  "mul_complexity x =
     (if x \<le> 64 then ucast (x * x)
      else if x \<le> 1024 then ucast (x * x div 4 + 96 * x - 3072)
      else let x = ucast x in x * x div 16 + 480 * x - 199680)"

definition byzantium_gas_calc :: "u64 \<Rightarrow> u64 \<Rightarrow> u64 \<Rightarrow> u256 \<Rightarrow> u64" where
  "byzantium_gas_calc base_len exp_len mod_len exp_highp =
     saturating_to_u64
       (mul_complexity (max mod_len base_len) * ucast (calculate_iteration_count exp_len exp_highp) div 20)"

definition calculate_multiplication_complexity :: "u64 \<Rightarrow> u64 \<Rightarrow> u256" where
  "calculate_multiplication_complexity base_length mod_length =
     (let max_length = max base_length mod_length;
          words = (if 0 < max_length mod 8 then max_length div 8 + 1 else max_length div 8);
          words = ucast words
      in words * words)"

definition berlin_gas_calc :: "u64 \<Rightarrow> u64 \<Rightarrow> u64 \<Rightarrow> u256 \<Rightarrow> u64" where
  "berlin_gas_calc base_length exp_length mod_length exp_highp =
     max 200 (saturating_to_u64
       (calculate_multiplication_complexity base_length mod_length *
          ucast (calculate_iteration_count exp_length exp_highp) div 3))"

text \<open>\<^verbatim>\<open>usize::try_from\<close> on a \<^verbatim>\<open>U256\<close>.\<close>

definition usize_try_from :: "u256 \<Rightarrow> nat option" where
  "usize_try_from w = (if unat w < 2 ^ 64 then Some (unat w) else None)"

definition usize_saturating_add :: "nat \<Rightarrow> nat \<Rightarrow> nat" where
  "usize_saturating_add x y = min (x + y) (2 ^ 64 - 1)"

text \<open>The part of \<^verbatim>\<open>run_inner\<close> after the lengths: price, padding, the exponentiation.\<close>

definition run_lengths ::
  "'x crypto_lib_scheme \<Rightarrow> bytes \<Rightarrow> u64 \<Rightarrow> (u64 \<Rightarrow> u64 \<Rightarrow> u64 \<Rightarrow> u256 \<Rightarrow> u64) \<Rightarrow> nat \<Rightarrow> nat \<Rightarrow> nat
    \<Rightarrow> precompile_result eval" where
  "run_lengths X input gl calc_gas base_len exp_len mod_len =
     (let exp_highp_len = min exp_len 32;
          input = get_from input 96;
          right_padded_highp = right_pad_with_offset 32 input base_len;
          exp_highp = from_be_bytes (left_pad 32 (take exp_highp_len right_padded_highp));
          gas_cost = calc_gas (of_nat base_len) (of_nat exp_len) (of_nat mod_len) exp_highp
      in if gl < gas_cost then Val (Inl PE_OutOfGas)
         else
           let input_len = usize_saturating_add (usize_saturating_add base_len exp_len) mod_len
           in bindE (right_pad_vec input input_len) (\<lambda>input.
              if length input < base_len + exp_len then Panic
              else
                let base = take base_len input;
                    exponent = take exp_len (drop base_len input);
                    modulus = drop exp_len (drop base_len input)
                in if length modulus \<noteq> mod_len then Panic
                   else bindE (left_pad_vec (aurora_modexp X base exponent modulus) mod_len) (\<lambda>out.
                   Val (ok_result gas_cost out))))"

definition run_inner ::
  "'x crypto_lib_scheme \<Rightarrow> bytes \<Rightarrow> u64 \<Rightarrow> u64 \<Rightarrow> (u64 \<Rightarrow> u64 \<Rightarrow> u64 \<Rightarrow> u256 \<Rightarrow> u64) \<Rightarrow> precompile_result eval" where
  "run_inner X input gl min_gas calc_gas =
     (if gl < min_gas then Val (Inl PE_OutOfGas)
      else
        case usize_try_from (from_be_bytes (right_pad_with_offset 32 input 0)) of
          None \<Rightarrow> Val (Inl PE_ModexpBaseOverflow)
        | Some base_len \<Rightarrow>
       (case usize_try_from (from_be_bytes (right_pad_with_offset 32 input 64)) of
          None \<Rightarrow> Val (Inl PE_ModexpModOverflow)
        | Some mod_len \<Rightarrow>
            if base_len = 0 \<and> mod_len = 0 then Val (ok_result min_gas [])
            else
             (case usize_try_from (from_be_bytes (right_pad_with_offset 32 input 32)) of
                None \<Rightarrow> Val (Inl PE_ModexpModOverflow)
              | Some exp_len \<Rightarrow> run_lengths X input gl calc_gas base_len exp_len mod_len)))"

definition byzantium_run :: "'x crypto_lib_scheme \<Rightarrow> standard_precompile" where
  "byzantium_run X input gl = run_inner X input gl 0 byzantium_gas_calc"

definition berlin_run :: "'x crypto_lib_scheme \<Rightarrow> standard_precompile" where
  "berlin_run X input gl = run_inner X input gl 200 berlin_gas_calc"

end
