(* ===== verification/Modexp.thy ===== *)
theory Modexp
  imports Precompiles
begin

text \<open>
  The modular exponentiation precompile against its specification: the operands are read from the
  input continued by zeros, the price is the formula of EIP-198 or EIP-2565 over the natural
  numbers, and the output is the power modulo the modulus in as many bytes as the modulus has.
\<close>

section \<open>Reading an input continued by zeros\<close>

definition read_padded :: "bytes \<Rightarrow> nat \<Rightarrow> nat \<Rightarrow> bytes" where
  "read_padded input offset n = map (\<lambda>i. if offset + i < length input then input ! (offset + i) else 0) [0..<n]"

lemma length_read_padded [simp]: "length (read_padded d k n) = n"
  by (simp add: read_padded_def)

lemma read_padded_get_from [simp]: "read_padded (get_from d a) k n = read_padded d (a + k) n"
  by (auto simp: read_padded_def get_from_def add.assoc)

lemma read_padded_inside: "k + n \<le> length d \<Longrightarrow> read_padded d k n = take n (drop k d)"
  by (rule nth_equalityI) (auto simp: read_padded_def)

lemma take_read_padded [simp]: "take m (read_padded d k n) = read_padded d k (min m n)"
  by (rule nth_equalityI) (auto simp: read_padded_def)

lemma drop_read_padded [simp]: "drop m (read_padded d k n) = read_padded d (k + m) (n - m)"
  by (rule nth_equalityI) (auto simp: read_padded_def add.assoc)

lemma right_pad_read: "right_pad n d = read_padded d 0 n"
  by (rule nth_equalityI) (auto simp: right_pad_def read_padded_def nth_append)

lemma right_pad_offset_read: "right_pad_with_offset n d k = read_padded d k n"
  by (simp add: right_pad_with_offset_def right_pad_read)

lemma right_pad_vec_read: "n < 2 ^ 63 \<Longrightarrow> right_pad_vec d n = Val (read_padded d 0 n)"
  by (auto simp: right_pad_vec_def zeroed_vec_def read_padded_def nth_append intro!: nth_equalityI)

lemma be_nat_left_pad: "length bs \<le> n \<Longrightarrow> be_nat (left_pad n bs) = be_nat bs"
  by (simp add: left_pad_def be_nat_zeros)

lemma left_pad_vec_value:
  assumes "length bs \<le> n" "n < 2 ^ 63"
  shows "left_pad_vec bs n = Val (nat_be n (be_nat bs))"
proof -
  have "left_pad_vec bs n = Val (replicate (n - length bs) 0 @ bs)"
    using assms by (auto simp: left_pad_vec_def zeroed_vec_def)
  also have "replicate (n - length bs) 0 @ bs = nat_be n (be_nat bs)"
    using nat_be_be_nat [of "replicate (n - length bs) 0 @ bs"] assms by (simp add: be_nat_zeros)
  finally show ?thesis .
qed

lemma unat_from_be_bytes: "8 * length bs \<le> LENGTH('a) \<Longrightarrow> unat (from_be_bytes bs :: 'a::len word) = be_nat bs"
proof -
  assume "8 * length bs \<le> LENGTH('a)"
  then have "(256::nat) ^ length bs \<le> 2 ^ LENGTH('a)"
    using power_increasing [of "8 * length bs" "LENGTH('a)" "2::nat"] by (simp add: power_mult)
  with be_nat_less [of bs] have "be_nat bs < 2 ^ LENGTH('a)" by linarith
  then show ?thesis by (simp add: from_be_bytes_def unat_of_nat_small)
qed

section \<open>The specification\<close>

definition iterations :: "nat \<Rightarrow> nat \<Rightarrow> nat" where
  "iterations exp_len head =
     max 1 (if exp_len \<le> 32 then bit_length head - 1
            else min (2 ^ 64 - 1) (8 * (exp_len - 32) + (bit_length head - 1)))"

definition eip198_complexity :: "nat \<Rightarrow> nat" where
  "eip198_complexity x =
     (if x \<le> 64 then x ^ 2 else if x \<le> 1024 then x ^ 2 div 4 + 96 * x - 3072
      else x ^ 2 div 16 + 480 * x - 199680)"

definition eip198_price :: "nat \<Rightarrow> nat \<Rightarrow> nat \<Rightarrow> nat \<Rightarrow> nat" where
  "eip198_price base_len exp_len mod_len head =
     min (2 ^ 64 - 1) (eip198_complexity (max mod_len base_len) * iterations exp_len head div 20)"

definition eip2565_price :: "nat \<Rightarrow> nat \<Rightarrow> nat \<Rightarrow> nat \<Rightarrow> nat" where
  "eip2565_price base_len exp_len mod_len head =
     max 200 (min (2 ^ 64 - 1) (((max base_len mod_len + 7) div 8) ^ 2 * iterations exp_len head div 3))"

definition modexp_value :: "nat \<Rightarrow> nat \<Rightarrow> nat \<Rightarrow> nat" where
  "modexp_value b e m = (if m = 0 then 0 else b ^ e mod m)"

text \<open>What the documentation of the third-party function promises.\<close>

definition modexp_lib :: "'x crypto_lib_scheme \<Rightarrow> bool" where
  "modexp_lib X \<longleftrightarrow>
     (\<forall>b e m. length (aurora_modexp X b e m) \<le> length m \<and>
              be_nat (aurora_modexp X b e m) = modexp_value (be_nat b) (be_nat e) (be_nat m))"

definition modexp_spec :: "(nat \<Rightarrow> nat \<Rightarrow> nat \<Rightarrow> nat \<Rightarrow> nat) \<Rightarrow> nat \<Rightarrow> bytes \<Rightarrow> nat \<Rightarrow> precompile_result" where
  "modexp_spec price min_gas input gl =
     (let field = (\<lambda>k n. be_nat (read_padded input k n));
          base_len = field 0 32; exp_len = field 32 32; mod_len = field 64 32
      in if gl < min_gas then Inl PE_OutOfGas
         else if 2 ^ 64 \<le> base_len then Inl PE_ModexpBaseOverflow
         else if 2 ^ 64 \<le> mod_len then Inl PE_ModexpModOverflow
         else if base_len = 0 \<and> mod_len = 0 then ok_result (of_nat min_gas) []
         else if 2 ^ 64 \<le> exp_len then Inl PE_ModexpModOverflow
         else
           let cost = price base_len exp_len mod_len (field (96 + base_len) (min exp_len 32))
           in if gl < cost then Inl PE_OutOfGas
              else ok_result (of_nat cost)
                (nat_be mod_len (modexp_value (field 96 base_len) (field (96 + base_len) exp_len)
                   (field (96 + base_len + exp_len) mod_len))))"

section \<open>Prices\<close>

text \<open>
  What \<^verbatim>\<open>run_inner\<close> needs of a price: it is computed without overflow, and lengths that can be paid
  for fit in memory.
\<close>

locale modexp_pricing =
  fixes calc_gas :: "u64 \<Rightarrow> u64 \<Rightarrow> u64 \<Rightarrow> u256 \<Rightarrow> u64"
    and price :: "nat \<Rightarrow> nat \<Rightarrow> nat \<Rightarrow> nat \<Rightarrow> nat"
  assumes exact: "unat (calc_gas bl el ml e) = price (unat bl) (unat el) (unat ml) (unat e)"
    and affordable: "price b x m h < 2 ^ 58 \<Longrightarrow> b \<noteq> 0 \<or> m \<noteq> 0 \<Longrightarrow> b + x + m < 2 ^ 63"
begin

lemma run_lengths_outcome:
  fixes input :: bytes
  assumes lens: "bl < 2 ^ 64" "el < 2 ^ 64" "ml < 2 ^ 64" "bl \<noteq> 0 \<or> ml \<noteq> 0"
    and gl: "unat gl < 2 ^ 58" and lib: "modexp_lib X"
  defines "cost \<equiv> price bl el ml (be_nat (read_padded input (96 + bl) (min el 32)))"
  shows "run_lengths X input gl calc_gas bl el ml =
     Val (if unat gl < cost then Inl PE_OutOfGas
          else ok_result (of_nat cost)
            (nat_be ml (modexp_value (be_nat (read_padded input 96 bl)) (be_nat (read_padded input (96 + bl) el))
               (be_nat (read_padded input (96 + bl + el) ml)))))"
proof -
  define head :: u256 where
    "head = from_be_bytes (left_pad 32 (read_padded input (96 + bl) (min el 32)))"
  have "unat head = be_nat (read_padded input (96 + bl) (min el 32))"
    unfolding head_def by (subst unat_from_be_bytes) (auto simp: be_nat_left_pad left_pad_def be_nat_zeros)
  moreover have "unat (of_nat n :: u64) = n" if "n < 2 ^ 64" for n
    using that by (intro unat_of_nat_small) simp
  ultimately have cost: "unat (calc_gas (of_nat bl) (of_nat el) (of_nat ml) head) = cost"
    using lens by (simp only: exact cost_def)
  then have cost': "calc_gas (of_nat bl) (of_nat el) (of_nat ml) head = of_nat cost"
    by (simp flip: cost)
  have back_cost: "unat (of_nat cost :: u64) = cost" using cost by (simp add: cost')
  have fold: "from_be_bytes (left_pad 32 (take (min el 32) (right_pad_with_offset 32 (get_from input 96) bl))) = head"
    by (simp add: right_pad_offset_read head_def min.commute min.left_commute)
  show ?thesis
  proof (cases "unat gl < cost")
    case True
    then show ?thesis by (simp add: run_lengths_def Let_def fold word_less_nat_alt cost)
  next
    case False
    with gl have "cost < 2 ^ 58" by linarith
    then have fits: "bl + el + ml < 2 ^ 63" unfolding cost_def by (rule affordable) (rule lens(4))
    then have "usize_saturating_add (usize_saturating_add bl el) ml = bl + el + ml"
      by (simp add: usize_saturating_add_def)
    moreover have "left_pad_vec (aurora_modexp X b e m) ml =
        Val (nat_be ml (modexp_value (be_nat b) (be_nat e) (be_nat m)))" if "length m = ml" for b e m
      using lib fits left_pad_vec_value [of "aurora_modexp X b e m" ml] that by (auto simp: modexp_lib_def)
    ultimately show ?thesis using False fits
      by (simp add: run_lengths_def Let_def fold word_less_nat_alt back_cost cost' right_pad_vec_read
          add.commute add.left_commute)
  qed
qed

lemma run_inner_outcome:
  assumes "unat gl < 2 ^ 58" "modexp_lib X"
  shows "run_inner X input gl min_gas calc_gas = Val (modexp_spec price (unat min_gas) input (unat gl))"
proof -
  have field: "usize_try_from (from_be_bytes (right_pad_with_offset 32 input k)) =
      (if be_nat (read_padded input k 32) < 2 ^ 64 then Some (be_nat (read_padded input k 32)) else None)" for k
    by (simp add: usize_try_from_def right_pad_offset_read unat_from_be_bytes)
  show ?thesis
    by (auto simp: run_inner_def modexp_spec_def field Let_def run_lengths_outcome assms
        word_less_nat_alt not_le simp del: power_numeral split: option.splits)
qed

end

lemma unat_max: "unat (max a b) = max (unat a) (unat b)" for a b :: "'a::len word"
  by (simp add: max_def word_le_nat_alt)

lemma bit_length_zero [simp]: "bit_length 0 = 0"
  by (subst bit_length.simps) simp

lemma bit_length_le: "n < 2 ^ k \<Longrightarrow> bit_length n \<le> k"
proof (cases "n = 0")
  case False
  assume "n < 2 ^ k"
  moreover have "2 ^ (bit_length n - 1) \<le> n" using bit_length_bounds [OF False] by (rule conjunct1)
  ultimately have "(2::nat) ^ (bit_length n - 1) < 2 ^ k" by (rule le_less_trans [rotated])
  then have "bit_length n - 1 < k" by (rule power_less_imp_less_exp [rotated]) simp
  then show ?thesis by simp
qed simp

lemma bit_length_u256: "bit_length (unat (e :: u256)) \<le> 256"
  using unat_lt_length [of e] by (intro bit_length_le) simp

lemma iteration_count_exact: "unat (calculate_iteration_count el e) = iterations (unat el) (unat e)"
proof -
  define n where "n = bit_length (unat e)"
  have n: "n \<le> 256" unfolding n_def by (rule bit_length_u256)
  have pos: "0 < n" if "e \<noteq> 0" using bit_length_bounds [of "unat e"] that by (simp add: n_def unat_eq_zero)
  have one: "unat (of_nat n - 1 :: u64) = n - 1" if "e \<noteq> 0"
    using pos that n by (subst unat_minus_if_le) (auto simp: word_le_nat_alt unat_of_nat_small)
  have "unat (max 1 (of_nat n) - 1 :: u64) = n - 1"
    using n by (subst unat_minus_if_le) (auto simp: unat_max unat_of_nat_small)
  moreover have "unat (el - 32) = unat el - 32" if "\<not> el \<le> 32"
    using that by (subst unat_minus_if_le) auto
  moreover have "n = 0" if "e = 0" using that by (simp add: n_def)
  moreover have "min (min a M + b) M = min M (a + b)" for a b M :: nat by linarith
  ultimately show ?thesis
    using one unat_eq_zero [of e]
    by (auto simp: calculate_iteration_count_def iterations_def unat_max checked word_le_nat_alt
        simp flip: n_def)
qed

lemma iterations_bound: "iterations el (unat (e :: u256)) \<le> 2 ^ 64 - 1"
  using bit_length_u256 [of e] by (auto simp: iterations_def)

lemma saturating_to_u64_exact: "unat (saturating_to_u64 w) = min (2 ^ 64 - 1) (unat w)"
  by (auto simp: saturating_to_u64_def unsigned_ucast_eq take_bit_nat_eq_self)

lemma unat_widen: "unat (ucast (x :: u64) :: u256) = unat x"
  using unat_lt_length [of x] by (simp add: unsigned_ucast_eq take_bit_nat_eq_self)

lemma word_count_less: "k < 2 ^ 64 \<Longrightarrow> (k + 7) div 8 < (2 ^ 62 :: nat)"
  by simp

lemma word_count_bounds: "(k + 7) div 8 < 2 ^ 30 \<Longrightarrow> k < (2 ^ 33 :: nat)"
  by simp

lemma mul_complexity_exact: "unat (mul_complexity x) = eip198_complexity (unat x)"
proof -
  define n where "n = unat x"
  have n64: "n < 2 ^ 64" unfolding n_def by (rule unat_lt_length [THEN order_less_le_trans]) simp
  have xn: "x = of_nat n" by (simp add: n_def)
  have small: "unat (ucast (of_nat k :: u64) :: u256) = k" if "k < 2 ^ 64" for k
    using that by (simp add: unat_widen unat_of_nat_small)
  consider (low) "n \<le> 64" | (mid) "64 < n" "n \<le> 1024" | (high) "1024 < n" by linarith
  then show ?thesis
  proof cases
    case low
    then have sq: "n ^ 2 \<le> 64 ^ 2" by (rule power_mono) simp
    have "mul_complexity x = ucast (of_nat (n ^ 2) :: u64)"
      using low by (simp add: mul_complexity_def word_le_nat_alt power2_eq_square flip: n_def) (simp add: xn)
    also have "unat \<dots> = n ^ 2" using sq by (intro small) simp
    finally show ?thesis using low by (simp add: eip198_complexity_def flip: n_def)
  next
    case mid
    then have sq: "n ^ 2 \<le> 1024 ^ 2" by (intro power_mono) auto
    have "unat (x * x) = n * n"
      using sq by (subst unat_mult_if_small) (simp_all add: power2_eq_square flip: n_def)
    then have "unat (x * x) = n ^ 2" by (simp only: power2_eq_square)
    then have q: "unat (x * x div 4) = n ^ 2 div 4" by (simp add: unat_div)
    have m: "unat (96 * x) = 96 * n" using mid by (subst unat_mult_if_small) (simp_all flip: n_def)
    have p: "unat (x * x div 4 + 96 * x) = n ^ 2 div 4 + 96 * n"
      using sq mid by (subst unat_plus_if_small) (simp_all add: q m)
    have "unat (x * x div 4 + 96 * x - 3072) = n ^ 2 div 4 + 96 * n - 3072"
      using mid by (subst unat_minus_if_le) (simp_all add: word_le_nat_alt p)
    then show ?thesis using mid
      by (simp add: mul_complexity_def word_le_nat_alt unat_widen eip198_complexity_def flip: n_def)
  next
    case high
    define y :: u256 where "y = ucast x"
    have y: "unat y = n" by (simp add: y_def n_def unat_widen)
    have sq: "n * n < 2 ^ 128" using mult_strict_mono [OF n64 n64] by simp
    have "unat (y * y) = n * n" using sq by (subst unat_mult_if_small) (simp_all add: y)
    then have q: "unat (y * y div 16) = n * n div 16" by (simp add: unat_div)
    have m: "unat (480 * y) = 480 * n" using n64 by (subst unat_mult_if_small) (simp_all add: y)
    have p: "unat (y * y div 16 + 480 * y) = n * n div 16 + 480 * n"
      using sq n64 by (subst unat_plus_if_small) (simp_all add: q m)
    have "unat (y * y div 16 + 480 * y - 199680) = n * n div 16 + 480 * n - 199680"
      using high by (subst unat_minus_if_le) (simp_all add: word_le_nat_alt p)
    then show ?thesis using high
      by (simp add: mul_complexity_def eip198_complexity_def Let_def word_le_nat_alt power2_eq_square
          flip: n_def y_def)
  qed
qed

lemma eip198_complexity_bound: "x < 2 ^ 64 \<Longrightarrow> eip198_complexity x < 2 ^ 128"
proof -
  assume x: "x < 2 ^ 64"
  have "x * x < 2 ^ 128" using mult_strict_mono [OF x x] by simp
  moreover have "x * x div 16 + 480 * x < 2 ^ 128" using mult_strict_mono [OF x x] x by simp
  moreover have "x * x div 4 + 96 * x < 2 ^ 128" if "x \<le> 1024"
    using mult_mono [OF that that] that by simp
  ultimately show ?thesis by (auto simp: eip198_complexity_def power2_eq_square)
qed

lemma byzantium_exact:
  "unat (byzantium_gas_calc bl el ml e) = eip198_price (unat bl) (unat el) (unat ml) (unat e)"
proof -
  let ?c = "eip198_complexity (max (unat ml) (unat bl))" and ?i = "iterations (unat el) (unat e)"
  have "max (unat ml) (unat bl) < 2 ^ 64" using unat_lt_length [of ml] unat_lt_length [of bl] by auto
  then have "?c < 2 ^ 128" by (rule eip198_complexity_bound)
  moreover have "?i < 2 ^ 64" using iterations_bound [of "unat el" e] by simp
  ultimately have "?c * ?i < 2 ^ 128 * 2 ^ 64" by (intro mult_strict_mono) auto
  then have "unat (mul_complexity (max ml bl) * ucast (calculate_iteration_count el e)) = ?c * ?i"
    by (subst unat_mult_if_small)
       (simp_all add: mul_complexity_exact iteration_count_exact unat_max unat_widen)
  then show ?thesis
    by (simp add: byzantium_gas_calc_def eip198_price_def saturating_to_u64_exact unat_div)
qed

lemma multiplication_complexity_exact:
  "unat (calculate_multiplication_complexity bl ml) = ((max (unat bl) (unat ml) + 7) div 8) ^ 2"
proof -
  define k where "k = max (unat bl) (unat ml)"
  define w :: u64 where "w = max bl ml"
  have wk: "unat w = k" by (simp add: w_def k_def unat_max)
  have k64: "k < 2 ^ 64" using unat_lt_length [of w] by (simp add: wk)
  define v :: u64 where "v = (if 0 < w mod 8 then w div 8 + 1 else w div 8)"
  have pos: "0 < w mod 8 \<longleftrightarrow> 0 < k mod 8" by (simp add: word_less_nat_alt unat_mod wk)
  have "unat (w div 8 + 1) = k div 8 + 1"
    using k64 by (subst unat_plus_if_small) (simp_all add: unat_div wk)
  then have v: "unat v = (k + 7) div 8"
    unfolding v_def pos by (simp add: unat_div wk) presburger
  have small: "(k + 7) div 8 < 2 ^ 62" using k64 by simp
  have u: "unat (ucast v :: u256) = (k + 7) div 8"
    by (simp add: unat_widen v)
  have "unat (ucast v * ucast v :: u256) = (k + 7) div 8 * ((k + 7) div 8)"
    using mult_strict_mono [OF small small] by (subst unat_mult_if_small) (simp_all add: u)
  then show ?thesis
    by (simp add: calculate_multiplication_complexity_def Let_def v power2_eq_square flip: k_def w_def v_def)
qed

lemma berlin_exact:
  "unat (berlin_gas_calc bl el ml e) = eip2565_price (unat bl) (unat el) (unat ml) (unat e)"
proof -
  define k where "k = (max (unat bl) (unat ml) + 7) div 8"
  let ?i = "iterations (unat el) (unat e)"
  have "max (unat bl) (unat ml) < 2 ^ 64" using unat_lt_length [of ml] unat_lt_length [of bl] by auto
  then have "k < 2 ^ 62" unfolding k_def by (rule word_count_less)
  then have "k * k < 2 ^ 62 * 2 ^ 62" by (intro mult_strict_mono) auto
  moreover have "?i < 2 ^ 64" using iterations_bound [of "unat el" e] by simp
  ultimately have "k * k * ?i < (2 ^ 62 * 2 ^ 62) * 2 ^ 64" by (rule mult_strict_mono) auto
  then have "unat (calculate_multiplication_complexity bl ml * ucast (calculate_iteration_count el e)) = k * k * ?i"
    by (subst unat_mult_if_small)
       (simp_all add: multiplication_complexity_exact iteration_count_exact unat_widen
         power2_eq_square flip: k_def)
  then show ?thesis
    by (simp add: berlin_gas_calc_def eip2565_price_def saturating_to_u64_exact unat_div unat_max
        power2_eq_square flip: k_def)
qed

lemma iterations_pays_exponent: "iterations el h < 2 ^ 64 - 1 \<Longrightarrow> 8 * el \<le> iterations el h + 256"
  by (auto simp: iterations_def)

lemma price_bounds:
  fixes c i d :: nat
  assumes "min (2 ^ 64 - 1) (c * i div d) < 2 ^ 58" "1 \<le> i" "0 < d"
  shows "c < d * 2 ^ 58 \<and> (1 \<le> c \<longrightarrow> i < d * 2 ^ 58)"
proof -
  have "c * i div d < 2 ^ 58" using assms(1) by simp
  then have lt: "c * i < d * 2 ^ 58" using assms(3) by (simp add: div_less_iff_less_mult mult.commute)
  have "c \<le> c * i" using mult_le_mono [of c c 1 i] assms(2) by simp
  moreover have "i \<le> c * i" if "1 \<le> c" using mult_le_mono [of 1 c i i] that by simp
  ultimately show ?thesis using lt by linarith
qed

lemma byzantium_affordable:
  assumes "eip198_price b x m h < 2 ^ 58" "b \<noteq> 0 \<or> m \<noteq> 0"
  shows "b + x + m < 2 ^ 63"
proof -
  define y where "y = max m b"
  have "1 \<le> y" using assms(2) by (auto simp: y_def)
  then have c1: "1 \<le> eip198_complexity y"
    by (auto simp: eip198_complexity_def Suc_le_eq)
  have it: "1 \<le> iterations x h" by (simp add: iterations_def)
  from price_bounds [OF assms(1) [unfolded eip198_price_def] it] c1
  have c: "eip198_complexity y < 20 * 2 ^ 58" and i: "iterations x h < 20 * 2 ^ 58" by (auto simp: y_def)
  have "y < 2 ^ 40"
  proof (rule ccontr)
    assume "\<not> y < 2 ^ 40"
    then have big: "2 ^ 40 \<le> y" by simp
    then have "2 ^ 40 * 2 ^ 40 \<le> y * y" by (intro mult_le_mono) auto
    then have "2 ^ 76 \<le> eip198_complexity y" using big by (simp add: eip198_complexity_def power2_eq_square)
    with c show False by simp
  qed
  moreover have "8 * x \<le> 20 * 2 ^ 58 + 256" using iterations_pays_exponent [of x h] i by simp
  ultimately show ?thesis by (simp add: y_def)
qed

lemma berlin_affordable:
  assumes "eip2565_price b x m h < 2 ^ 58" "b \<noteq> 0 \<or> m \<noteq> 0"
  shows "b + x + m < 2 ^ 63"
proof -
  define y where "y = (max b m + 7) div 8"
  have "1 \<le> y" using assms(2) by (auto simp: y_def)
  then have c1: "1 \<le> y\<^sup>2" by simp
  have it: "1 \<le> iterations x h" by (simp add: iterations_def)
  have "min (2 ^ 64 - 1) (y\<^sup>2 * iterations x h div 3) < 2 ^ 58"
    using assms(1) unfolding eip2565_price_def y_def by simp
  from price_bounds [OF this it] c1
  have c: "y\<^sup>2 < 3 * 2 ^ 58" and i: "iterations x h < 3 * 2 ^ 58" by auto
  have "y < 2 ^ 30"
  proof (rule ccontr)
    assume "\<not> y < 2 ^ 30"
    then have "(2 ^ 30)\<^sup>2 \<le> y\<^sup>2" by (intro power_mono) auto
    with c show False by simp
  qed
  then have "max b m < 2 ^ 33" unfolding y_def by (rule word_count_bounds)
  moreover have "8 * x \<le> 3 * 2 ^ 58 + 256" using iterations_pays_exponent [of x h] i by simp
  ultimately show ?thesis by simp
qed

interpretation byzantium: modexp_pricing byzantium_gas_calc eip198_price
  by unfold_locales (rule byzantium_exact, rule byzantium_affordable)

interpretation berlin: modexp_pricing berlin_gas_calc eip2565_price
  by unfold_locales (rule berlin_exact, rule berlin_affordable)

section \<open>The theorem\<close>

text \<open>
  C28. On every input and gas limit below \<open>2 ^ 58\<close> the modular exponentiation precompile returns what
  EIP-198 (from Byzantium) and EIP-2565 (from Berlin) prescribe: the lengths and operands are read
  from the input continued by zeros, lengths beyond 64 bits are the overflow errors, the price is the
  formula of the proposal, computed without overflow and saturating at the largest 64-bit number, an
  unaffordable price is out of gas, and otherwise the output is the power modulo the modulus in as
  many bytes as the modulus has. It never panics: whatever can be paid for fits in memory.
\<close>

theorem modexp_outcome:
  assumes "modexp_lib X" "unat gl < 2 ^ 58"
  shows "byzantium_run X input gl = Val (modexp_spec eip198_price 0 input (unat gl)) \<and>
    berlin_run X input gl = Val (modexp_spec eip2565_price 200 input (unat gl))"
  using byzantium.run_inner_outcome [OF assms(2,1), of input 0]
    berlin.run_inner_outcome [OF assms(2,1), of input 200]
  by (simp_all add: byzantium_run_def berlin_run_def)

text \<open>A library that computes the power by definition, and three to the fifth modulo seven.\<close>

definition reference_modexp :: "bytes \<Rightarrow> bytes \<Rightarrow> bytes \<Rightarrow> bytes" where
  "reference_modexp b e m = nat_be (length m) (modexp_value (be_nat b) (be_nat e) (be_nat m))"

definition sample_crypto :: crypto_lib where
  "sample_crypto = \<lparr>sha256_digest = (\<lambda>_. 0), ripemd160_digest = (\<lambda>_. 0), aurora_modexp = reference_modexp\<rparr>"

lemma reference_modexp_lib: "aurora_modexp X = reference_modexp \<Longrightarrow> modexp_lib X"
proof -
  have "modexp_value b e (be_nat m) < 256 ^ length m" for b e m
  proof (cases "be_nat m = 0")
    case False
    then have "b ^ e mod be_nat m < be_nat m" by simp
    then have "b ^ e mod be_nat m < 256 ^ length m" using be_nat_less by (rule less_trans)
    with False show ?thesis by (simp add: modexp_value_def)
  qed (simp add: modexp_value_def)
  then show "aurora_modexp X = reference_modexp \<Longrightarrow> ?thesis"
    by (simp add: modexp_lib_def reference_modexp_def be_nat_nat_be)
qed

lemma sample_crypto_modexp: "modexp_lib sample_crypto"
  by (rule reference_modexp_lib) (simp add: sample_crypto_def)

definition sample_modexp_input :: bytes where
  "sample_modexp_input = nat_be 32 1 @ nat_be 32 1 @ nat_be 32 2 @ [3, 5, 0, 7]"

lemma sample_modexp_fields:
  "be_nat (read_padded sample_modexp_input 0 32) = 1"
  "be_nat (read_padded sample_modexp_input 32 32) = 1"
  "be_nat (read_padded sample_modexp_input 64 32) = 2"
  "be_nat (read_padded sample_modexp_input 96 (Suc 0)) = 3"
  "be_nat (read_padded sample_modexp_input 97 (Suc 0)) = 5"
  "be_nat (read_padded sample_modexp_input 98 2) = 7"
  by (simp_all add: read_padded_inside sample_modexp_input_def be_nat_nat_be)
     (simp_all add: be_nat_def)

lemma sample_price: "eip2565_price (Suc 0) (Suc 0) 2 5 = 200"
proof -
  have "bit_length 1 = 1" by (subst bit_length.simps) simp
  then have "bit_length 5 = 3" by (simp add: bit_length.simps [of 5] bit_length.simps [of 2])
  then show ?thesis by (simp add: eip2565_price_def iterations_def)
qed

theorem modexp_outcome_witness:
  "berlin_run sample_crypto sample_modexp_input 1000 = Val (ok_result 200 (nat_be 2 5))"
proof -
  have "modexp_spec eip2565_price 200 sample_modexp_input 1000 = ok_result 200 (nat_be 2 5)"
    by (simp add: modexp_spec_def sample_modexp_fields Let_def sample_price modexp_value_def)
  moreover have "unat (1000 :: u64) = 1000" "(1000 :: nat) < 2 ^ 58" by simp_all
  ultimately show ?thesis
    using modexp_outcome [OF sample_crypto_modexp, of 1000 sample_modexp_input] by metis
qed

end
