(* ===== verification/Curve_Precompiles.thy ===== *)
theory Curve_Precompiles
  imports Modexp
begin

text \<open>
  The precompiled contracts over elliptic curves, \<^verbatim>\<open>crates/precompile/src/secp256k1.rs\<close> (built with the
  default feature \<^verbatim>\<open>secp256k1\<close>), \<^verbatim>\<open>secp256r1.rs\<close>, \<^verbatim>\<open>kzg_point_evaluation.rs\<close> and \<^verbatim>\<open>bn128.rs\<close>.
  The curve arithmetic comes from third-party crates and is given by records of functions; values that those crates encode into fixed arrays are words of that size.
\<close>

section \<open>Third-party functions\<close>

text \<open>
  \<open>secp_recover\<close> is the uncompressed public key of a signature with its recovery id and a message,
  \<open>p256_check\<close> the verification of a signature with a public key, \<open>kzg_check\<close> that of a KZG proof (\<open>None\<close> for an error).
\<close>

record curve_lib = crypto_lib +
  keccak_digest :: keccak
  secp_recover :: "bytes \<Rightarrow> u8 \<Rightarrow> bytes \<Rightarrow> bytes option"
  p256_check :: "bytes \<Rightarrow> bytes \<Rightarrow> bytes \<Rightarrow> bool"
  kzg_check :: "bytes \<Rightarrow> bytes \<Rightarrow> bytes \<Rightarrow> bytes \<Rightarrow> bool option"

record ('fq, 'g1, 'fr, 'fq2, 'g2, 'gt) bn_lib =
  fq_from_slice :: "bytes \<Rightarrow> 'fq option"
  fq_zero :: 'fq
  fq_to_big_endian :: "'fq \<Rightarrow> u256"
  fr_from_slice :: "bytes \<Rightarrow> 'fr option"
  g1_zero :: 'g1
  affine_g1_new :: "'fq \<Rightarrow> 'fq \<Rightarrow> 'g1 option"
  g1_add :: "'g1 \<Rightarrow> 'g1 \<Rightarrow> 'g1"
  g1_mul :: "'g1 \<Rightarrow> 'fr \<Rightarrow> 'g1"
  g1_from_jacobian :: "'g1 \<Rightarrow> ('fq \<times> 'fq) option"
  fq2_new :: "'fq \<Rightarrow> 'fq \<Rightarrow> 'fq2"
  fq2_is_zero :: "'fq2 \<Rightarrow> bool"
  g2_zero :: 'g2
  affine_g2_new :: "'fq2 \<Rightarrow> 'fq2 \<Rightarrow> 'g2 option"
  gt_one :: 'gt
  gt_mul :: "'gt \<Rightarrow> 'gt \<Rightarrow> 'gt"
  bn_pairing :: "'g1 \<Rightarrow> 'g2 \<Rightarrow> 'gt"

text \<open>A slice with a constant or computed range: out of range is a panic.\<close>

definition slice_at :: "bytes \<Rightarrow> nat \<Rightarrow> nat \<Rightarrow> bytes eval" where
  "slice_at input start n =
     (if start + n \<le> length input then Val (take n (drop start input)) else Panic)"

section \<open>Signatures and KZG proofs\<close>

definition ecrecover :: "'x curve_lib_scheme \<Rightarrow> bytes \<Rightarrow> u8 \<Rightarrow> bytes \<Rightarrow> bytes option eval" where
  "ecrecover X sig recid msg =
     (if 3 < recid then Panic
      else Val (map_option (\<lambda>public. replicate 12 0 @ drop 12 (to_be_bytes (keccak_digest X (drop 1 public))))
                  (secp_recover X sig recid msg)))"

definition ECRECOVER_BASE :: u64 where "ECRECOVER_BASE = 3000"

definition ec_recover_run :: "'x curve_lib_scheme \<Rightarrow> standard_precompile" where
  "ec_recover_run X input gl =
     (if gl < ECRECOVER_BASE then Val (Inl PE_OutOfGas)
      else
        let input = right_pad 128 input in
        if \<not> (list_all (\<lambda>b. b = 0) (take 31 (drop 32 input)) \<and> (input ! 63 = 27 \<or> input ! 63 = 28))
        then Val (ok_result ECRECOVER_BASE [])
        else
          let msg = take 32 input;
              recid = input ! 63 - 27;
              sig = take 64 (drop 64 input)
          in bindE (ecrecover X sig recid msg) (\<lambda>out.
             Val (ok_result ECRECOVER_BASE (case out of Some o' \<Rightarrow> o' | None \<Rightarrow> []))))"

definition P256VERIFY_BASE :: u64 where "P256VERIFY_BASE = 3450"

definition verify_impl :: "'x curve_lib_scheme \<Rightarrow> bytes \<Rightarrow> unit option" where
  "verify_impl X input =
     (if length input \<noteq> 160 then None
      else
        let msg = take 32 input;
            sig = take 64 (drop 32 input);
            pk = take 64 (drop 96 input);
            uncompressed_pk = 4 # pk
        in if p256_check X sig uncompressed_pk msg then Some () else None)"

definition p256_verify :: "'x curve_lib_scheme \<Rightarrow> standard_precompile" where
  "p256_verify X input gl =
     (if gl < P256VERIFY_BASE then Val (Inl PE_OutOfGas)
      else Val (ok_result P256VERIFY_BASE (if verify_impl X input \<noteq> None then replicate 31 0 @ [1] else [])))"

definition KZG_GAS_COST :: u64 where "KZG_GAS_COST = 50000"

definition RETURN_VALUE :: bytes where
  "RETURN_VALUE = to_be_bytes (0x1000 :: u256) @
     to_be_bytes (0x73eda753299d7d483339d80809a1d80553bda402fffe5bfeffffffff00000001 :: u256)"

definition kzg_to_versioned_hash :: "'x curve_lib_scheme \<Rightarrow> bytes \<Rightarrow> bytes" where
  "kzg_to_versioned_hash X commitment = (to_be_bytes (sha256_digest X commitment))[0 := VERSIONED_HASH_VERSION_KZG]"

definition verify_kzg_proof :: "'x curve_lib_scheme \<Rightarrow> bytes \<Rightarrow> bytes \<Rightarrow> bytes \<Rightarrow> bytes \<Rightarrow> bool" where
  "verify_kzg_proof X commitment z y prf =
     (case kzg_check X commitment z y prf of Some b \<Rightarrow> b | None \<Rightarrow> False)"

text \<open>The KZG settings of the environment are part of the third-party verification.\<close>

definition point_evaluation_run :: "'x curve_lib_scheme \<Rightarrow> precompile" where
  "point_evaluation_run X input gl e =
     (if gl < KZG_GAS_COST then Val (Inl PE_OutOfGas)
      else if length input \<noteq> 192 then Val (Inl PE_BlobInvalidInputLength)
      else
        let versioned_hash = take 32 input;
            commitment = take 48 (drop 96 input)
        in if kzg_to_versioned_hash X commitment \<noteq> versioned_hash then Val (Inl PE_BlobMismatchedVersion)
           else
             let z = take 32 (drop 32 input);
                 y = take 32 (drop 64 input);
                 prf = take 48 (drop 144 input)
             in if \<not> verify_kzg_proof X commitment z y prf then Val (Inl PE_BlobVerifyKzgProofFailed)
                else Val (ok_result KZG_GAS_COST RETURN_VALUE))"

section \<open>The curve alt-bn128\<close>

definition ADD_INPUT_LEN :: nat where "ADD_INPUT_LEN = 128"
definition MUL_INPUT_LEN :: nat where "MUL_INPUT_LEN = 96"
definition PAIR_ELEMENT_LEN :: nat where "PAIR_ELEMENT_LEN = 192"

definition read_fq :: "('fq, 'g1, 'fr, 'fq2, 'g2, 'gt, 'x) bn_lib_scheme \<Rightarrow> bytes \<Rightarrow> (precompile_error + 'fq) eval" where
  "read_fq B input =
     bindE (slice_at input 0 32) (\<lambda>bs.
     Val (case fq_from_slice B bs of None \<Rightarrow> Inl PE_Bn128FieldPointNotAMember | Some x \<Rightarrow> Inr x))"

definition new_g1_point :: "('fq, 'g1, 'fr, 'fq2, 'g2, 'gt, 'x) bn_lib_scheme \<Rightarrow> 'fq \<Rightarrow> 'fq \<Rightarrow> precompile_error + 'g1" where
  "new_g1_point B px py =
     (if px = fq_zero B \<and> py = fq_zero B then Inr (g1_zero B)
      else case affine_g1_new B px py of None \<Rightarrow> Inl PE_Bn128AffineGFailedToCreate | Some p \<Rightarrow> Inr p)"

definition read_point :: "('fq, 'g1, 'fr, 'fq2, 'g2, 'gt, 'x) bn_lib_scheme \<Rightarrow> bytes \<Rightarrow> (precompile_error + 'g1) eval" where
  "read_point B input =
     bindE (slice_at input 0 32) (\<lambda>bx. tryR (read_fq B bx) (\<lambda>px.
     bindE (slice_at input 32 32) (\<lambda>by'. tryR (read_fq B by') (\<lambda>py.
     Val (new_g1_point B px py)))))"

definition encode_bn_point :: "('fq, 'g1, 'fr, 'fq2, 'g2, 'gt, 'x) bn_lib_scheme \<Rightarrow> 'g1 \<Rightarrow> bytes" where
  "encode_bn_point B p =
     (case g1_from_jacobian B p of
        Some (x, y) \<Rightarrow> to_be_bytes (fq_to_big_endian B x) @ to_be_bytes (fq_to_big_endian B y)
      | None \<Rightarrow> replicate 64 0)"

definition run_add :: "('fq, 'g1, 'fr, 'fq2, 'g2, 'gt, 'x) bn_lib_scheme \<Rightarrow> u64 \<Rightarrow> standard_precompile" where
  "run_add B gas_cost input gl =
     (if gl < gas_cost then Val (Inl PE_OutOfGas)
      else
        let input = right_pad ADD_INPUT_LEN input in
        tryR (read_point B (take 64 input)) (\<lambda>p1.
        tryR (read_point B (drop 64 input)) (\<lambda>p2.
        Val (ok_result gas_cost (encode_bn_point B (g1_add B p1 p2))))))"

definition run_mul :: "('fq, 'g1, 'fr, 'fq2, 'g2, 'gt, 'x) bn_lib_scheme \<Rightarrow> u64 \<Rightarrow> standard_precompile" where
  "run_mul B gas_cost input gl =
     (if gl < gas_cost then Val (Inl PE_OutOfGas)
      else
        let input = right_pad MUL_INPUT_LEN input in
        tryR (read_point B (take 64 input)) (\<lambda>p.
        bindE (unwrap (fr_from_slice B (take 32 (drop 64 input)))) (\<lambda>fr.
        Val (ok_result gas_cost (encode_bn_point B (g1_mul B p fr))))))"

text \<open>One element of the pairing: the six field elements, the two points, the pairing of them.\<close>

definition read_fq_at ::
  "('fq, 'g1, 'fr, 'fq2, 'g2, 'gt, 'x) bn_lib_scheme \<Rightarrow> bytes \<Rightarrow> nat \<Rightarrow> nat \<Rightarrow> (precompile_error + 'fq) eval" where
  "read_fq_at B input idx n =
     bindE (slice_at input (idx * PAIR_ELEMENT_LEN + n * 32) 32) (\<lambda>bs.
     Val (case fq_from_slice B bs of None \<Rightarrow> Inl PE_Bn128FieldPointNotAMember | Some x \<Rightarrow> Inr x))"

definition pair_element ::
  "('fq, 'g1, 'fr, 'fq2, 'g2, 'gt, 'x) bn_lib_scheme \<Rightarrow> bytes \<Rightarrow> nat \<Rightarrow> (precompile_error + 'gt) eval" where
  "pair_element B input idx =
     tryR (read_fq_at B input idx 0) (\<lambda>ax.
     tryR (read_fq_at B input idx 1) (\<lambda>ay.
     tryR (read_fq_at B input idx 2) (\<lambda>bay.
     tryR (read_fq_at B input idx 3) (\<lambda>bax.
     tryR (read_fq_at B input idx 4) (\<lambda>bby.
     tryR (read_fq_at B input idx 5) (\<lambda>bbx.
     tryR (Val (new_g1_point B ax ay)) (\<lambda>a.
     let ba = fq2_new B bax bay;
         bb = fq2_new B bbx bby
     in tryR (Val (if fq2_is_zero B ba \<and> fq2_is_zero B bb then Inr (g2_zero B)
                   else case affine_g2_new B ba bb of None \<Rightarrow> Inl PE_Bn128AffineGFailedToCreate | Some b \<Rightarrow> Inr b)) (\<lambda>b.
        Val (Inr (bn_pairing B a b))))))))))"

fun pair_loop ::
  "('fq, 'g1, 'fr, 'fq2, 'g2, 'gt, 'x) bn_lib_scheme \<Rightarrow> bytes \<Rightarrow> nat list \<Rightarrow> 'gt \<Rightarrow> (precompile_error + 'gt) eval" where
  "pair_loop B input [] mul = Val (Inr mul)"
| "pair_loop B input (idx # idxs) mul =
     tryR (pair_element B input idx) (\<lambda>p. pair_loop B input idxs (gt_mul B mul p))"

definition run_pair ::
  "('fq, 'g1, 'fr, 'fq2, 'g2, 'gt, 'x) bn_lib_scheme \<Rightarrow> u64 \<Rightarrow> u64 \<Rightarrow> standard_precompile" where
  "run_pair B pair_per_point_cost pair_base_cost input gl =
     bindE (times_or_panic (of_nat (length input div PAIR_ELEMENT_LEN)) pair_per_point_cost) (\<lambda>points.
     bindE (plus_or_panic points pair_base_cost) (\<lambda>used.
     if gl < used then Val (Inl PE_OutOfGas)
     else if length input mod PAIR_ELEMENT_LEN \<noteq> 0 then Val (Inl PE_Bn128PairLength)
     else if input = [] then Val (ok_result used (bool_to_bytes32 True))
     else
       let elements = length input div PAIR_ELEMENT_LEN
       in tryR (pair_loop B input [0..<elements] (gt_one B)) (\<lambda>mul.
          Val (ok_result used (bool_to_bytes32 (mul = gt_one B))))))"

definition BYZANTIUM_ADD_GAS_COST :: u64 where "BYZANTIUM_ADD_GAS_COST = 500"
definition ISTANBUL_ADD_GAS_COST :: u64 where "ISTANBUL_ADD_GAS_COST = 150"
definition BYZANTIUM_MUL_GAS_COST :: u64 where "BYZANTIUM_MUL_GAS_COST = 40000"
definition ISTANBUL_MUL_GAS_COST :: u64 where "ISTANBUL_MUL_GAS_COST = 6000"
definition BYZANTIUM_PAIR_PER_POINT :: u64 where "BYZANTIUM_PAIR_PER_POINT = 80000"
definition BYZANTIUM_PAIR_BASE :: u64 where "BYZANTIUM_PAIR_BASE = 100000"
definition ISTANBUL_PAIR_PER_POINT :: u64 where "ISTANBUL_PAIR_PER_POINT = 34000"
definition ISTANBUL_PAIR_BASE :: u64 where "ISTANBUL_PAIR_BASE = 45000"

end
