(* ===== verification/Bls_Precompiles.thy ===== *)
theory Bls_Precompiles
  imports Curve_Precompiles
begin

text \<open>
  The precompiles of EIP-2537 over the curve BLS12-381, \<^verbatim>\<open>crates/precompile/src/bls12_381\<close>: encoding and decoding
  of field elements and points with their checks, addition, multiplication, multi-scalar multiplication, pairing and the two
  maps to the curve. The curve arithmetic is that of the \<^verbatim>\<open>blst\<close> library, a record of functions; an affine point of
  the first group is the pair of its coordinates, one of the second a pair of pairs, as in the library's structs, and a scalar is the bytes of its struct.
\<close>

type_synonym 'fp p1_affine = "'fp \<times> 'fp"
type_synonym 'fp p2_affine = "('fp \<times> 'fp) \<times> ('fp \<times> 'fp)"

record ('fp, 'p1, 'p2, 'fp12) blst_lib =
  blst_fp_from_bendian :: "bytes \<Rightarrow> 'fp"
  blst_bendian_from_fp :: "'fp \<Rightarrow> 384 word"
  blst_scalar_from_bendian :: "bytes \<Rightarrow> bytes"
  blst_p1_affine_in_g1 :: "'fp p1_affine \<Rightarrow> bool"
  blst_p1_affine_on_curve :: "'fp p1_affine \<Rightarrow> bool"
  blst_p1_from_affine :: "'fp p1_affine \<Rightarrow> 'p1"
  blst_p1_to_affine :: "'p1 \<Rightarrow> 'fp p1_affine"
  blst_p1_add_or_double_affine :: "'p1 \<Rightarrow> 'fp p1_affine \<Rightarrow> 'p1"
  blst_p1_mult :: "'p1 \<Rightarrow> bytes \<Rightarrow> nat \<Rightarrow> 'p1"
  p1_affines_mult :: "'p1 list \<Rightarrow> bytes \<Rightarrow> nat \<Rightarrow> 'p1"
  blst_map_to_g1 :: "'fp \<Rightarrow> 'p1"
  blst_p2_affine_in_g2 :: "'fp p2_affine \<Rightarrow> bool"
  blst_p2_affine_on_curve :: "'fp p2_affine \<Rightarrow> bool"
  blst_p2_from_affine :: "'fp p2_affine \<Rightarrow> 'p2"
  blst_p2_to_affine :: "'p2 \<Rightarrow> 'fp p2_affine"
  blst_p2_add_or_double_affine :: "'p2 \<Rightarrow> 'fp p2_affine \<Rightarrow> 'p2"
  blst_p2_mult :: "'p2 \<Rightarrow> bytes \<Rightarrow> nat \<Rightarrow> 'p2"
  p2_affines_mult :: "'p2 list \<Rightarrow> bytes \<Rightarrow> nat \<Rightarrow> 'p2"
  blst_map_to_g2 :: "'fp \<times> 'fp \<Rightarrow> 'p2"
  blst_miller_loop :: "'fp p2_affine \<Rightarrow> 'fp p1_affine \<Rightarrow> 'fp12"
  blst_fp12_mul :: "'fp12 \<Rightarrow> 'fp12 \<Rightarrow> 'fp12"
  blst_final_exp :: "'fp12 \<Rightarrow> 'fp12"
  blst_fp12_is_one :: "'fp12 \<Rightarrow> bool"

section \<open>Field elements\<close>

definition NBITS :: nat where "NBITS = 256"
definition FP_LENGTH :: nat where "FP_LENGTH = 48"
definition PADDED_FP_LENGTH :: nat where "PADDED_FP_LENGTH = 64"
definition PADDED_FP2_LENGTH :: nat where "PADDED_FP2_LENGTH = 128"
definition PADDING_LENGTH :: nat where "PADDING_LENGTH = 16"
definition SCALAR_LENGTH :: nat where "SCALAR_LENGTH = 32"

definition MODULUS_REPR :: bytes where
  "MODULUS_REPR =
    [0x1a, 0x01, 0x11, 0xea, 0x39, 0x7f, 0xe6, 0x9a, 0x4b, 0x1b, 0xa7, 0xb6, 0x43, 0x4b, 0xac, 0xd7,
     0x64, 0x77, 0x4b, 0x84, 0xf3, 0x85, 0x12, 0xbf, 0x67, 0x30, 0xd2, 0xa0, 0xf6, 0xb0, 0xf6, 0x24,
     0x1e, 0xab, 0xff, 0xfe, 0xb1, 0x53, 0xff, 0xff, 0xb9, 0xfe, 0xff, 0xff, 0xff, 0xff, 0xaa, 0xab]"

text \<open>The decimal digits of a number in an error message.\<close>

fun decimal :: "nat \<Rightarrow> string" where
  "decimal n = (if n < 10 then [char_of (48 + n)] else decimal (n div 10) @ [char_of (48 + n mod 10)])"

declare decimal.simps [simp del]

definition wrong_length :: "string \<Rightarrow> nat \<Rightarrow> nat \<Rightarrow> precompile_error" where
  "wrong_length what expected n =
     PE_Other (what @ '' should be '' @ decimal expected @ '' bytes, was '' @ decimal n)"

definition fp_to_bytes :: "('fp, 'p1, 'p2, 'fp12, 'x) blst_lib_scheme \<Rightarrow> 'fp \<Rightarrow> bytes" where
  "fp_to_bytes B x = replicate PADDING_LENGTH 0 @ to_be_bytes (blst_bendian_from_fp B x)"

definition remove_padding :: "bytes \<Rightarrow> precompile_error + bytes" where
  "remove_padding input =
     (if length input \<noteq> PADDED_FP_LENGTH then Inl (wrong_length ''Padded input'' PADDED_FP_LENGTH (length input))
      else if \<not> list_all (\<lambda>x. x = 0) (take PADDING_LENGTH input)
      then Inl (PE_Other (decimal PADDING_LENGTH @ '' top bytes of input are not zero''))
      else Inr (drop PADDING_LENGTH input))"

definition extract_scalar_input :: "('fp, 'p1, 'p2, 'fp12, 'x) blst_lib_scheme \<Rightarrow> bytes \<Rightarrow> precompile_error + bytes" where
  "extract_scalar_input B input =
     (if length input \<noteq> SCALAR_LENGTH then Inl (wrong_length ''Input'' SCALAR_LENGTH (length input))
      else Inr (blst_scalar_from_bendian B input))"

fun compare_be :: "(u8 \<times> u8) list \<Rightarrow> bool" where
  "compare_be [] = False"
| "compare_be ((i, modul) # rest) = (if modul < i then False else if i < modul then True else compare_be rest)"

definition is_valid_be :: "bytes \<Rightarrow> bool" where
  "is_valid_be input = compare_be (zip input MODULUS_REPR)"

definition fp_from_bendian :: "('fp, 'p1, 'p2, 'fp12, 'x) blst_lib_scheme \<Rightarrow> bytes \<Rightarrow> precompile_error + 'fp" where
  "fp_from_bendian B input =
     (if \<not> is_valid_be input then Inl (PE_Other ''non-canonical fp value'') else Inr (blst_fp_from_bendian B input))"

text \<open>The comparison byte by byte is the comparison of the numbers: exactly the values below the field modulus are canonical.\<close>

lemma be_nat_Cons: "be_nat (b # bs) = unat b * 256 ^ length bs + be_nat bs"
  using be_nat_append [of "[b]" bs] by (simp add: be_nat_def)

lemma compare_be_less: "length xs = length ys \<Longrightarrow> compare_be (zip xs ys) \<longleftrightarrow> be_nat xs < be_nat ys"
proof (induction xs ys rule: list_induct2)
  case (Cons x xs y ys)
  define P where "P = (256::nat) ^ length ys"
  have bounds: "be_nat xs < P" "be_nat ys < P"
    using be_nat_less [of xs] be_nat_less [of ys] Cons.hyps by (simp_all add: P_def)
  have apart: "unat a * P + r < unat b * P + t" if "a < b" "r < P" for a b :: u8 and r t
  proof -
    have "Suc (unat a) * P \<le> unat b * P" using that(1) by (intro mult_le_mono1) (simp add: word_less_nat_alt)
    with that(2) show ?thesis by simp
  qed
  consider "x < y" | "y < x" | "x = y" by (rule linorder_cases)
  then show ?case
  proof cases
    case 1
    with apart [OF 1 bounds(1), of "be_nat ys"] show ?thesis
      by (simp add: be_nat_Cons Cons.hyps P_def not_less_iff_gr_or_eq)
  next
    case 2
    with apart [OF 2 bounds(2), of "be_nat xs"] show ?thesis by (simp add: be_nat_Cons Cons.hyps P_def)
  next
    case 3
    then show ?thesis by (simp add: be_nat_Cons Cons.IH Cons.hyps)
  qed
qed (simp add: be_nat_def)

lemma is_valid_be_canonical: "length input = FP_LENGTH \<Longrightarrow> is_valid_be input \<longleftrightarrow> be_nat input < be_nat MODULUS_REPR"
  by (simp add: is_valid_be_def compare_be_less MODULUS_REPR_def FP_LENGTH_def)

section \<open>Points\<close>

text \<open>The question mark operator on a plain \<^verbatim>\<open>Result\<close>.\<close>

fun and_then :: "'e + 'a \<Rightarrow> ('a \<Rightarrow> 'e + 'b) \<Rightarrow> 'e + 'b" where
  "and_then (Inl e) f = Inl e"
| "and_then (Inr x) f = f x"

definition G1_INPUT_ITEM_LENGTH :: nat where "G1_INPUT_ITEM_LENGTH = 128"
definition G2_INPUT_ITEM_LENGTH :: nat where "G2_INPUT_ITEM_LENGTH = 256"

definition encode_g1_point :: "('fp, 'p1, 'p2, 'fp12, 'x) blst_lib_scheme \<Rightarrow> 'fp p1_affine \<Rightarrow> bytes" where
  "encode_g1_point B p = fp_to_bytes B (fst p) @ fp_to_bytes B (snd p)"

definition decode_and_check_g1 ::
  "('fp, 'p1, 'p2, 'fp12, 'x) blst_lib_scheme \<Rightarrow> bytes \<Rightarrow> bytes \<Rightarrow> precompile_error + 'fp p1_affine" where
  "decode_and_check_g1 B p0_x p0_y =
     and_then (fp_from_bendian B p0_x) (\<lambda>x. and_then (fp_from_bendian B p0_y) (\<lambda>y. Inr (x, y)))"

definition extract_g1_input ::
  "('fp, 'p1, 'p2, 'fp12, 'x) blst_lib_scheme \<Rightarrow> bytes \<Rightarrow> bool \<Rightarrow> precompile_error + 'fp p1_affine" where
  "extract_g1_input B input subgroup_check =
     (if length input \<noteq> G1_INPUT_ITEM_LENGTH then Inl (wrong_length ''Input'' G1_INPUT_ITEM_LENGTH (length input))
      else
        and_then (remove_padding (take PADDED_FP_LENGTH input)) (\<lambda>input_p0_x.
        and_then (remove_padding (take 64 (drop PADDED_FP_LENGTH input))) (\<lambda>input_p0_y.
        and_then (decode_and_check_g1 B input_p0_x input_p0_y) (\<lambda>out.
        if subgroup_check then
          (if \<not> blst_p1_affine_in_g1 B out then Inl (PE_Other ''Element not in G2'') else Inr out)
        else
          (if \<not> blst_p1_affine_on_curve B out then Inl (PE_Other ''Element not on G2 curve'') else Inr out)))))"

definition encode_g2_point :: "('fp, 'p1, 'p2, 'fp12, 'x) blst_lib_scheme \<Rightarrow> 'fp p2_affine \<Rightarrow> bytes" where
  "encode_g2_point B p =
     fp_to_bytes B (fst (fst p)) @ fp_to_bytes B (snd (fst p)) @
     fp_to_bytes B (fst (snd p)) @ fp_to_bytes B (snd (snd p))"

definition check_canonical_fp2 ::
  "('fp, 'p1, 'p2, 'fp12, 'x) blst_lib_scheme \<Rightarrow> bytes \<Rightarrow> bytes \<Rightarrow> precompile_error + ('fp \<times> 'fp)" where
  "check_canonical_fp2 B input_1 input_2 =
     and_then (fp_from_bendian B input_1) (\<lambda>fp_1. and_then (fp_from_bendian B input_2) (\<lambda>fp_2. Inr (fp_1, fp_2)))"

definition decode_and_check_g2 ::
  "('fp, 'p1, 'p2, 'fp12, 'x) blst_lib_scheme \<Rightarrow> bytes \<Rightarrow> bytes \<Rightarrow> bytes \<Rightarrow> bytes \<Rightarrow> precompile_error + 'fp p2_affine" where
  "decode_and_check_g2 B x1 x2 y1 y2 =
     and_then (check_canonical_fp2 B x1 x2) (\<lambda>x. and_then (check_canonical_fp2 B y1 y2) (\<lambda>y. Inr (x, y)))"

definition extract_g2_input ::
  "('fp, 'p1, 'p2, 'fp12, 'x) blst_lib_scheme \<Rightarrow> bytes \<Rightarrow> bool \<Rightarrow> precompile_error + 'fp p2_affine" where
  "extract_g2_input B input subgroup_check =
     (if length input \<noteq> G2_INPUT_ITEM_LENGTH then Inl (wrong_length ''Input'' G2_INPUT_ITEM_LENGTH (length input))
      else
        let part = (\<lambda>i. remove_padding (take PADDED_FP_LENGTH (drop (i * PADDED_FP_LENGTH) input))) in
        and_then (part 0) (\<lambda>f0. and_then (part 1) (\<lambda>f1. and_then (part 2) (\<lambda>f2. and_then (part 3) (\<lambda>f3.
        and_then (decode_and_check_g2 B f0 f1 f2 f3) (\<lambda>out.
        if subgroup_check then
          (if \<not> blst_p2_affine_in_g2 B out then Inl (PE_Other ''Element not in G2'') else Inr out)
        else
          (if \<not> blst_p2_affine_on_curve B out then Inl (PE_Other ''Element not on G2 curve'') else Inr out)))))))"

section \<open>Addition and multiplication\<close>

definition G1ADD_FEE :: u64 where "G1ADD_FEE = 500"
definition G1MUL_FEE :: u64 where "G1MUL_FEE = 12000"
definition G1MUL_LENGTH :: nat where "G1MUL_LENGTH = 160"
definition G2ADD_FEE :: u64 where "G2ADD_FEE = 800"
definition G2MUL_FEE :: u64 where "G2MUL_FEE = 45000"
definition G2MUL_LENGTH :: nat where "G2MUL_LENGTH = 288"

definition bls_g1_add :: "('fp, 'p1, 'p2, 'fp12, 'x) blst_lib_scheme \<Rightarrow> standard_precompile" where
  "bls_g1_add B input gl =
     Val (if gl < G1ADD_FEE then Inl PE_OutOfGas
      else if length input \<noteq> 256 then Inl (wrong_length ''G1ADD input'' 256 (length input))
      else
        and_then (extract_g1_input B (take G1_INPUT_ITEM_LENGTH input) False) (\<lambda>a_aff.
        and_then (extract_g1_input B (drop G1_INPUT_ITEM_LENGTH input) False) (\<lambda>b_aff.
        let p = blst_p1_add_or_double_affine B (blst_p1_from_affine B b_aff) a_aff
        in ok_result G1ADD_FEE (encode_g1_point B (blst_p1_to_affine B p)))))"

definition bls_g2_add :: "('fp, 'p1, 'p2, 'fp12, 'x) blst_lib_scheme \<Rightarrow> standard_precompile" where
  "bls_g2_add B input gl =
     Val (if gl < G2ADD_FEE then Inl PE_OutOfGas
      else if length input \<noteq> 512 then Inl (wrong_length ''G2ADD input'' 512 (length input))
      else
        and_then (extract_g2_input B (take G2_INPUT_ITEM_LENGTH input) False) (\<lambda>a_aff.
        and_then (extract_g2_input B (drop G2_INPUT_ITEM_LENGTH input) False) (\<lambda>b_aff.
        let p = blst_p2_add_or_double_affine B (blst_p2_from_affine B b_aff) a_aff
        in ok_result G2ADD_FEE (encode_g2_point B (blst_p2_to_affine B p)))))"

definition bls_g1_mul :: "('fp, 'p1, 'p2, 'fp12, 'x) blst_lib_scheme \<Rightarrow> standard_precompile" where
  "bls_g1_mul B input gl =
     Val (if gl < G1MUL_FEE then Inl PE_OutOfGas
      else if length input \<noteq> G1MUL_LENGTH then Inl (wrong_length ''G1MUL input'' G1MUL_LENGTH (length input))
      else
        and_then (extract_g1_input B (take G1_INPUT_ITEM_LENGTH input) True) (\<lambda>p0_aff.
        let p0 = blst_p1_from_affine B p0_aff in
        and_then (extract_scalar_input B (drop G1_INPUT_ITEM_LENGTH input)) (\<lambda>s.
        ok_result G1MUL_FEE (encode_g1_point B (blst_p1_to_affine B (blst_p1_mult B p0 s NBITS))))))"

definition bls_g2_mul :: "('fp, 'p1, 'p2, 'fp12, 'x) blst_lib_scheme \<Rightarrow> standard_precompile" where
  "bls_g2_mul B input gl =
     Val (if gl < G2MUL_FEE then Inl PE_OutOfGas
      else if length input \<noteq> G2MUL_LENGTH then Inl (wrong_length ''G2MUL input'' G2MUL_LENGTH (length input))
      else
        and_then (extract_g2_input B (take G2_INPUT_ITEM_LENGTH input) True) (\<lambda>p0_aff.
        let p0 = blst_p2_from_affine B p0_aff in
        and_then (extract_scalar_input B (drop G2_INPUT_ITEM_LENGTH input)) (\<lambda>s.
        ok_result G2MUL_FEE (encode_g2_point B (blst_p2_to_affine B (blst_p2_mult B p0 s NBITS))))))"

section \<open>Multi-scalar multiplication\<close>

definition MSM_MULTIPLIER :: u64 where "MSM_MULTIPLIER = 1000"

definition MSM_DISCOUNT_TABLE :: "u16 list" where
  "MSM_DISCOUNT_TABLE =
    [1200, 888, 764, 641, 594, 547, 500, 453, 438, 423, 408, 394, 379, 364, 349, 334, 330, 326, 322,
     318, 314, 310, 306, 302, 298, 294, 289, 285, 281, 277, 273, 269, 268, 266, 265, 263, 262, 260,
     259, 257, 256, 254, 253, 251, 250, 248, 247, 245, 244, 242, 241, 239, 238, 236, 235, 233, 232,
     231, 229, 228, 226, 225, 223, 222, 221, 220, 219, 219, 218, 217, 216, 216, 215, 214, 213, 213,
     212, 211, 211, 210, 209, 208, 208, 207, 206, 205, 205, 204, 203, 202, 202, 201, 200, 199, 199,
     198, 197, 196, 196, 195, 194, 193, 193, 192, 191, 191, 190, 189, 188, 188, 187, 186, 185, 185,
     184, 183, 182, 182, 181, 180, 179, 179, 178, 177, 176, 176, 175, 174]"

definition msm_required_gas :: "nat \<Rightarrow> u64 \<Rightarrow> u64 eval" where
  "msm_required_gas k multiplication_cost =
     (if k = 0 then Val 0
      else
        let index = min (k - 1) (length MSM_DISCOUNT_TABLE - 1);
            discount = ucast (MSM_DISCOUNT_TABLE ! index)
        in bindE (times_or_panic (of_nat k) discount) (\<lambda>x.
           bindE (times_or_panic x multiplication_cost) (\<lambda>x. Val (x div MSM_MULTIPLIER))))"

text \<open>The loop over the elements: the points, and their scalars one after the other; a point of zeros is skipped.\<close>

fun g1_msm_loop ::
  "('fp, 'p1, 'p2, 'fp12, 'x) blst_lib_scheme \<Rightarrow> bytes \<Rightarrow> nat list \<Rightarrow> 'p1 list \<Rightarrow> bytes \<Rightarrow> precompile_error + ('p1 list \<times> bytes)" where
  "g1_msm_loop B input [] points scalars = Inr (points, scalars)"
| "g1_msm_loop B input (i # ks) points scalars =
     (let slice' = take G1_INPUT_ITEM_LENGTH (drop (i * G1MUL_LENGTH) input) in
      if list_all (\<lambda>b. b = 0) slice' then g1_msm_loop B input ks points scalars
      else
        and_then (extract_g1_input B slice' True) (\<lambda>p0_aff.
        and_then (extract_scalar_input B (take SCALAR_LENGTH (drop (i * G1MUL_LENGTH + G1_INPUT_ITEM_LENGTH) input))) (\<lambda>s.
        g1_msm_loop B input ks (points @ [blst_p1_from_affine B p0_aff]) (scalars @ s))))"

definition bls_g1_msm :: "('fp, 'p1, 'p2, 'fp12, 'x) blst_lib_scheme \<Rightarrow> standard_precompile" where
  "bls_g1_msm B input gl =
     (if length input = 0 \<or> length input mod G1MUL_LENGTH \<noteq> 0
      then Val (Inl (PE_Other (''G1MSM input length should be multiple of '' @ decimal G1MUL_LENGTH @ '', was '' @ decimal (length input))))
      else
        let k = length input div G1MUL_LENGTH in
        bindE (msm_required_gas k G1MUL_FEE) (\<lambda>required_gas.
        if gl < required_gas then Val (Inl PE_OutOfGas)
        else Val (and_then (g1_msm_loop B input [0..<k] [] []) (\<lambda>(points, scalars).
               if points = [] then ok_result required_gas (replicate 128 0)
               else ok_result required_gas (encode_g1_point B (blst_p1_to_affine B (p1_affines_mult B points scalars NBITS)))))))"

fun g2_msm_loop ::
  "('fp, 'p1, 'p2, 'fp12, 'x) blst_lib_scheme \<Rightarrow> bytes \<Rightarrow> nat list \<Rightarrow> 'p2 list \<Rightarrow> bytes \<Rightarrow> precompile_error + ('p2 list \<times> bytes)" where
  "g2_msm_loop B input [] points scalars = Inr (points, scalars)"
| "g2_msm_loop B input (i # ks) points scalars =
     (let slice' = take G2_INPUT_ITEM_LENGTH (drop (i * G2MUL_LENGTH) input) in
      if list_all (\<lambda>b. b = 0) slice' then g2_msm_loop B input ks points scalars
      else
        and_then (extract_g2_input B slice' True) (\<lambda>p0_aff.
        and_then (extract_scalar_input B (take SCALAR_LENGTH (drop (i * G2MUL_LENGTH + G2_INPUT_ITEM_LENGTH) input))) (\<lambda>s.
        g2_msm_loop B input ks (points @ [blst_p2_from_affine B p0_aff]) (scalars @ s))))"

definition bls_g2_msm :: "('fp, 'p1, 'p2, 'fp12, 'x) blst_lib_scheme \<Rightarrow> standard_precompile" where
  "bls_g2_msm B input gl =
     (if length input = 0 \<or> length input mod G2MUL_LENGTH \<noteq> 0
      then Val (Inl (PE_Other (''G2MSM input length should be multiple of '' @ decimal G2MUL_LENGTH @ '', was '' @ decimal (length input))))
      else
        let k = length input div G2MUL_LENGTH in
        bindE (msm_required_gas k G2MUL_FEE) (\<lambda>required_gas.
        if gl < required_gas then Val (Inl PE_OutOfGas)
        else Val (and_then (g2_msm_loop B input [0..<k] [] []) (\<lambda>(points, scalars).
               if points = [] then ok_result required_gas (replicate 256 0)
               else ok_result required_gas (encode_g2_point B (blst_p2_to_affine B (p2_affines_mult B points scalars NBITS)))))))"

section \<open>Pairing and maps\<close>

definition PAIRING_MULTIPLIER_BASE :: u64 where "PAIRING_MULTIPLIER_BASE = 43000"
definition PAIRING_OFFSET_BASE :: u64 where "PAIRING_OFFSET_BASE = 65000"
definition PAIRING_LENGTH :: nat where "PAIRING_LENGTH = 384"

text \<open>The accumulator is set by the first element and multiplied by the others.\<close>

fun pairing_loop ::
  "('fp, 'p1, 'p2, 'fp12, 'x) blst_lib_scheme \<Rightarrow> bytes \<Rightarrow> nat list \<Rightarrow> 'fp12 option \<Rightarrow> precompile_error + 'fp12 option" where
  "pairing_loop B input [] acc = Inr acc"
| "pairing_loop B input (i # ks) acc =
     and_then (extract_g1_input B (take G1_INPUT_ITEM_LENGTH (drop (i * PAIRING_LENGTH) input)) True) (\<lambda>p1_aff.
     and_then (extract_g2_input B (take G2_INPUT_ITEM_LENGTH (drop (i * PAIRING_LENGTH + G1_INPUT_ITEM_LENGTH) input)) True) (\<lambda>p2_aff.
     let ml = blst_miller_loop B p2_aff p1_aff
     in pairing_loop B input ks (Some (case acc of None \<Rightarrow> ml | Some a \<Rightarrow> blst_fp12_mul B a ml))))"

definition bls_pairing :: "('fp, 'p1, 'p2, 'fp12, 'x) blst_lib_scheme \<Rightarrow> standard_precompile" where
  "bls_pairing B input gl =
     (if length input = 0 \<or> length input mod PAIRING_LENGTH \<noteq> 0
      then Val (Inl (PE_Other (''Pairing input length should be multiple of '' @ decimal PAIRING_LENGTH @ '', was '' @ decimal (length input))))
      else
        let k = length input div PAIRING_LENGTH in
        bindE (times_or_panic PAIRING_MULTIPLIER_BASE (of_nat k)) (\<lambda>x.
        bindE (plus_or_panic x PAIRING_OFFSET_BASE) (\<lambda>required_gas.
        if gl < required_gas then Val (Inl PE_OutOfGas)
        else
          Val (and_then (pairing_loop B input [0..<k] None) (\<lambda>acc.
            let one = (case acc of None \<Rightarrow> False | Some a \<Rightarrow> blst_fp12_is_one B (blst_final_exp B a))
            in ok_result required_gas (replicate 31 0 @ [if one then 1 else 0]))))))"

definition MAP_FP_TO_G1_BASE :: u64 where "MAP_FP_TO_G1_BASE = 5500"
definition MAP_FP2_TO_G2_BASE :: u64 where "MAP_FP2_TO_G2_BASE = 75000"

definition map_fp_to_g1 :: "('fp, 'p1, 'p2, 'fp12, 'x) blst_lib_scheme \<Rightarrow> standard_precompile" where
  "map_fp_to_g1 B input gl =
     Val (if gl < MAP_FP_TO_G1_BASE then Inl PE_OutOfGas
      else if length input \<noteq> PADDED_FP_LENGTH then Inl (wrong_length ''MAP_FP_TO_G1 input'' PADDED_FP_LENGTH (length input))
      else
        and_then (remove_padding input) (\<lambda>input_p0.
        and_then (fp_from_bendian B input_p0) (\<lambda>fp.
        ok_result MAP_FP_TO_G1_BASE (encode_g1_point B (blst_p1_to_affine B (blst_map_to_g1 B fp))))))"

definition map_fp2_to_g2 :: "('fp, 'p1, 'p2, 'fp12, 'x) blst_lib_scheme \<Rightarrow> standard_precompile" where
  "map_fp2_to_g2 B input gl =
     Val (if gl < MAP_FP2_TO_G2_BASE then Inl PE_OutOfGas
      else if length input \<noteq> PADDED_FP2_LENGTH then Inl (wrong_length ''MAP_FP2_TO_G2 input'' PADDED_FP2_LENGTH (length input))
      else
        and_then (remove_padding (take PADDED_FP_LENGTH input)) (\<lambda>input_p0_x.
        and_then (remove_padding (take 64 (drop PADDED_FP_LENGTH input))) (\<lambda>input_p0_y.
        and_then (check_canonical_fp2 B input_p0_x input_p0_y) (\<lambda>fp2.
        ok_result MAP_FP2_TO_G2_BASE (encode_g2_point B (blst_p2_to_affine B (blst_map_to_g2 B fp2)))))))"

end
