(* ===== verification/Precompile_Sets.thy ===== *)
theory Precompile_Sets
  imports Bls_Precompiles Frame_Loop
begin

text \<open>
  The sets of precompiles of the forks, \<^verbatim>\<open>crates/precompile/src/lib.rs\<close> built with its default features, and what every
  one of them guarantees to the call that runs it.
\<close>

section \<open>The sets\<close>













section \<open>Prices\<close>







section \<open>Every precompile answers within its gas\<close>

text \<open>An answer within a gas limit: an error, or a result that costs no more; never a panic or a new call.\<close>

fun answers :: "u64 \<Rightarrow> precompile_result eval \<Rightarrow> bool" where
  "answers gl Panic = False"
| "answers gl (Val (Inl e)) = True"
| "answers gl (Val (Inr (Result i))) = (gas_used i \<le> gl)"
| "answers gl (Val (Inr (Call c))) = False"

named_theorems answering


lemma answers_tryR [answering]: "m \<noteq> Panic \<Longrightarrow> (\<And>x. answers gl (f x)) \<Longrightarrow> answers gl (tryR m f)"
  by (induction m f rule: tryR.induct) auto

lemma answers_and_then [answering]: "(\<And>x. answers gl (Val (f x))) \<Longrightarrow> answers gl (Val (and_then m f))"
  by (cases m) auto

lemma answers_if [answering]:
  "(c \<Longrightarrow> answers gl (Val x)) \<Longrightarrow> (\<not> c \<Longrightarrow> answers gl (Val y)) \<Longrightarrow> answers gl (Val (if c then x else y))"
  by simp

lemma answers_branch [answering]:
  "(c \<Longrightarrow> answers gl x) \<Longrightarrow> (\<not> c \<Longrightarrow> answers gl y) \<Longrightarrow> answers gl (if c then x else y)"
  by simp








lemma length_right_pad [simp]: "length (right_pad n d) = n"
  by (simp add: right_pad_def)



lemma read_point_no_panic [simp]: "length bs = 64 \<Longrightarrow> read_point B bs \<noteq> Panic"
  by (auto simp: read_point_def read_fq_def slice_at_def evals split: option.splits)
















section \<open>The theorem\<close>



end
