(* ===== verification/Spec2Isabelle.thy ===== *)
theory Spec2Isabelle
  imports Journal_Ops Native_Tokens Gas Stack Memory Analysis Frame_Loop Fees Db_Views Cache_Bundle Eof_Run Precompile_Sets
begin

text \<open>
  Verification of SabVM, an EVM with native tokens: the crates \<^verbatim>\<open>primitives\<close>, \<^verbatim>\<open>interpreter\<close>,
  \<^verbatim>\<open>precompile\<close> and \<^verbatim>\<open>revm\<close> under \<^verbatim>\<open>src/crates\<close>.

  \<^bold>\<open>The program.\<close> An account holds an amount of every token id instead of one balance. A transaction is validated
  against its environment and the sender's account, pays its gas in advance, and runs a loop over call frames. The
  interpreter runs the code of the top frame against a host, the execution context, until it returns or asks for a
  call or a creation; the context opens the frame, runs a precompile, or answers at once, and the outcome is inserted
  into the frame below. All state is in the journaled state, an undo log over the accounts loaded from a database, so
  that a failed frame is reverted. The native token precompile mints, burns and transfers tokens. After a transaction
  its changes are committed to a database: one in memory, or the cache of a block, whose transitions are
  collected in a bundle that can be merged and reverted block by block.

  \<^bold>\<open>Theories and source files.\<close>
  \<^item> \<open>Prelude\<close>: words, panics (\<open>eval\<close>), the \<^verbatim>\<open>?\<close> operator, Rust's checked and saturating arithmetic,
    big-endian bytes. \<open>Spec_Id\<close> is \<^verbatim>\<open>primitives/src/specification.rs\<close>, \<open>Instruction_Result\<close> the results and errors.
  \<^item> \<open>Account\<close>, \<open>Bytecode\<close>, \<open>Eof\<close>, \<open>Env\<close>, \<open>Bytes_Parsing\<close>: the data of \<^verbatim>\<open>primitives\<close>: \<^verbatim>\<open>state.rs\<close>, \<^verbatim>\<open>bytecode.rs\<close>
    and \<^verbatim>\<open>bytecode/\<close>, \<^verbatim>\<open>env.rs\<close>, \<^verbatim>\<open>utilities.rs\<close>.
  \<^item> \<open>Stack\<close>, \<open>Memory\<close>, \<open>Gas\<close>, \<open>Signed_Word\<close>, \<open>Interpreter\<close>, \<open>Call_Inputs\<close>, \<open>Instructions\<close>, \<open>Call_Instructions\<close>,
    \<open>Opcodes\<close>, \<open>Dummy_Host\<close>: the crate \<^verbatim>\<open>interpreter\<close>, one definition per instruction and per macro. The instructions
    and the loop take a host record, the trait \<^verbatim>\<open>Host\<close>. \<open>Analysis\<close> and \<open>Eof_Validation\<close> are \<^verbatim>\<open>interpreter/analysis.rs\<close>.
  \<^item> \<open>Journal\<close>: \<^verbatim>\<open>revm/src/journaled_state.rs\<close>. \<open>Native_Tokens\<close>: \<^verbatim>\<open>revm/src/sablier/\<close>.
  \<^item> \<open>Evm_Context\<close> and \<open>Handler\<close>: \<^verbatim>\<open>context.rs\<close>, \<^verbatim>\<open>context/\<close>, \<^verbatim>\<open>frame.rs\<close>, \<^verbatim>\<open>handler/mainnet/\<close> and \<^verbatim>\<open>evm.rs\<close>.
  \<^item> \<open>Precompiles\<close>, \<open>Modexp\<close>, \<open>Curve_Precompiles\<close>, \<open>Bls_Precompiles\<close>, \<open>Precompile_Sets\<close>: the crate \<^verbatim>\<open>precompile\<close>.
    The parameter \<open>P\<close> of \<open>Handler\<close> stands for any such family; \<open>precompiles_new\<close> after \<open>from_spec_id\<close> is the one of the code.
  \<^item> \<open>In_Memory_Db\<close>, \<open>Hash_Map\<close>, \<open>Account_States\<close>, \<open>Bundle_Account\<close>, \<open>Bundle_State\<close>, \<open>Cache_State\<close>: \<^verbatim>\<open>revm/src/db/\<close>.

  \<^bold>\<open>What is proved, and where.\<close>
  \<^item> \<open>Journal_Revert\<close>: each operation of the journal writes entries that undo it (locale \<open>undo_log\<close>), so reverting to a
    checkpoint restores what the journal tracks, and committing keeps it undoable. The exceptions are part of the statements.
    \<open>Journal_Ops\<close> and \<open>Token_Flow\<close>: what each operation does to balances, slots, nonces and flags on every branch; transfers
    conserve every token; an overflowing transfer does not.
  \<^item> \<open>Native_Tokens\<close>: decoding inverts encoding, static calls read only, only contracts may change state, and the cases
    where the precompile reports success of a refused transfer or panics.
  \<^item> \<open>Gas\<close>, \<open>Stack\<close>, \<open>Memory\<close>, \<open>Signed_Word\<close>, \<open>Analysis\<close>: accounting and prices, word-wise pushes, isolation and metered
    growth of memory, two's complement, the exact jump table.
  \<^item> \<open>Instr_Wp\<close>, \<open>Opcode_Laws\<close>, \<open>Interpreter_Loop\<close>: rules for the macros; every instruction agrees with its row of the opcode
    table and pays gas to go on, so \<^verbatim>\<open>run\<close> ends.
  \<^item> \<open>Host_Frames\<close>, \<open>Context_Frames\<close>: instructions as clients of a host (locale \<open>frame_host\<close>), interpreted twice on the real context:
    a static frame only reads, and any frame can be undone. \<open>Frame_Loop\<close> carries this through the loop over frames: a failed call
    leaves the world as it was. \<open>Fees\<close>: the deduction is exact and the settlement adds up.
  \<^item> \<open>Eof_Safety\<close>, \<open>Eof_Safe_Code\<close>: an abstract machine of sections, and that validated code is safe on it; \<open>Eof_Tracks\<close>, \<open>Eof_Run\<close>:
    the interpreter follows that machine and never underflows its stack; also a validated container on which it panics.
  \<^item> \<open>Db_Views\<close>: databases that fill a cache as they are read (locale \<open>read_through\<close>), and what a commit makes readable.
    \<open>Bundle_Undo\<close>, \<open>Bundle_Merge\<close>, \<open>Cache_Bundle\<close>: what a bundle shows, merging and reverting a block, and that the bundle follows the cache.
  \<^item> \<open>Modexp\<close>: modular exponentiation against EIP-198 and EIP-2565 (locale \<open>modexp_pricing\<close>, once per formula).
    \<open>Precompile_Sets\<close>: every precompile answers within the gas it is given. \<open>Bls_Precompiles\<close>: exactly the numbers below the
    modulus are accepted as field elements.

  \<^bold>\<open>How the model reads the code.\<close>
  \<^item> An overflow of plain \<^verbatim>\<open>+\<close>, \<^verbatim>\<open>-\<close>, \<^verbatim>\<open>*\<close> on machine integers, an index out of range, \<^verbatim>\<open>unwrap\<close> on nothing and an allocation beyond
    \<^verbatim>\<open>isize::MAX\<close> are \<open>Panic\<close>. Plain arithmetic on \<^verbatim>\<open>U256\<close> wraps, as the type does. Lengths and positions are natural numbers;
    where a bound of \<^verbatim>\<open>usize\<close> can be reached it is written out.
  \<^item> The two loops that the code bounds only by gas, \<open>run_loop\<close> and \<open>main_loop\<close>, are option valued with \<open>None\<close> for not ending; no fuel is used.
    For \<open>run_loop\<close> termination is a theorem. For \<open>main_loop\<close> it is not, and the theorems about it follow a run that ended.
  \<^item> A failed call is shown to change nothing in a sound run (\<open>sound_call\<close>, \<open>sound_loop\<close>): when a call is made the supply of every token
    fits a word, a creation finds an account it may create, and code is stored on accounts that have none. Overflowing transfers really break the statement.
  \<^item> Hash maps are functions where the code reads by key, and association lists with distinct keys where it counts or iterates.
  \<^item> The theorems on bundles state the world below the bundle (\<open>world\<close>), and that each merged transition continues the account of
    the bundle (\<open>mergeable\<close>); \<open>Cache_Bundle\<close> proves the latter of the transitions that the cache emits.
  \<^item> \<open>Eof_Run\<close> excludes \<^verbatim>\<open>EOFCREATE\<close>, which leaves the interpreter in a state that its table row does not describe.
  \<^item> Third-party code is a parameter: keccak and address derivation (\<open>alloy\<close>), hashes, the big integer power, curve arithmetic and
    proof checks (\<open>crypto_lib\<close>, \<open>curve_lib\<close>, \<open>bn_lib\<close>, \<open>blst_lib\<close>), and the external database. What a theorem needs of them is a hypothesis.

  \<^bold>\<open>Not modelled.\<close> The optimism variant, inspectors, the builder and the registration of handlers (wiring of function pointers), databases
  over a network, the \<^verbatim>\<open>revme\<close> and \<^verbatim>\<open>revm-test\<close> programs, serialisation and display.
\<close>

end
